(* ===== verification/Prelude.thy ===== *)
theory Prelude
  imports Main "HOL-Library.Word"
begin

text \<open>
  What every component of the model shares: the names of the machine integer types, the
  collections that carry the proofs (\<open>layout_simps\<close> for the computed size and alignment of a C
  type, \<open>helper_simps\<close> for the effect of the BPF helpers, \<open>abi_simps\<close> for the byte-level encoding),
  the little-endian byte encoding of a machine word that both the C compiler (target
  \<open>bpfel\<close>) and Go's \<open>binary.LittleEndian\<close> use, and a few facts on lists and maps.
\<close>

named_theorems layout_simps "computed size and alignment of C types"
named_theorems helper_simps "effect of the BPF helpers on the program state"
named_theorems abi_simps "byte-level encoding and decoding"

type_synonym u8 = "8 word"
type_synonym u16 = "16 word"
type_synonym u32 = "32 word"
type_synonym u64 = "64 word"
type_synonym bytes = "8 word list"

text \<open>Bytes as the characters of a string.\<close>

definition bytes_str :: "bytes \<Rightarrow> string" where
  "bytes_str b = map (\<lambda>c. char_of (unat c)) b"

section \<open>Little-endian bytes of a word\<close>

text \<open>\<open>le_bytes n w\<close> is the list of the \<open>n\<close> low bytes of \<open>w\<close>, least significant first;
  \<open>le_word bs\<close> reads such a list back.\<close>

primrec le_bytes :: "nat \<Rightarrow> 'a::len word \<Rightarrow> bytes" where
  "le_bytes 0 w = []"
| "le_bytes (Suc n) w = ucast w # le_bytes n (drop_bit 8 w)"

primrec le_nat :: "bytes \<Rightarrow> nat" where
  "le_nat [] = 0"
| "le_nat (b # bs) = unat b + 256 * le_nat bs"

definition le_word :: "bytes \<Rightarrow> 'a::len word" where
  "le_word bs = word_of_nat (le_nat bs)"

lemma length_le_bytes [simp]: "length (le_bytes n w) = n"
  by (induction n arbitrary: w) simp_all

lemma le_nat_bound: "le_nat bs < 256 ^ length bs"
proof (induction bs)
  case Nil
  then show ?case by simp
next
  case (Cons b bs)
  have "unat b < 256" using unsigned_less [of b] by simp
  moreover have "le_nat bs + 1 \<le> 256 ^ length bs" using Cons.IH by simp
  then have "256 * (le_nat bs + 1) \<le> 256 * 256 ^ length bs" by (rule mult_le_mono2)
  ultimately show ?case by simp
qed

lemma le_nat_le_bytes: "le_nat (le_bytes n w) = unat w mod 256 ^ n"
proof (induction n arbitrary: w)
  case 0
  then show ?case by simp
next
  case (Suc n)
  have "unat (ucast w :: 8 word) = unat w mod 256"
    by (simp add: unsigned_ucast_eq take_bit_eq_mod)
  moreover have "unat (drop_bit 8 w) = unat w div 256"
    by (subst unat_drop_bit_eq) (simp add: drop_bit_eq_div)
  ultimately show ?case
    by (simp add: Suc.IH mod_mult2_eq)
qed

lemma le_word_le_bytes:
  assumes "LENGTH('a::len) \<le> 8 * n"
  shows "le_word (le_bytes n (w :: 'a word)) = w"
proof -
  have "unat w < 2 ^ LENGTH('a)" by (rule unsigned_less)
  also have "(2::nat) ^ LENGTH('a) \<le> 2 ^ (8 * n)" using assms by simp
  also have "(2::nat) ^ (8 * n) = 256 ^ n" by (simp add: power_mult)
  finally have "unat w mod 256 ^ n = unat w" by simp
  then show ?thesis by (simp add: le_word_def le_nat_le_bytes)
qed

lemma unat_le_word:
  assumes "8 * length bs \<le> LENGTH('a::len)"
  shows "unat (le_word bs :: 'a word) = le_nat bs"
proof -
  have "le_nat bs < 2 ^ (8 * length bs)"
    using le_nat_bound [of bs] by (simp add: power_mult)
  also have "(2::nat) ^ (8 * length bs) \<le> 2 ^ LENGTH('a)" using assms by simp
  finally show ?thesis by (simp add: le_word_def unat_of_nat)
qed

lemma le_bytes_le_word:
  assumes "length bs = n" and "8 * n \<le> LENGTH('a::len)"
  shows "le_bytes n (le_word bs :: 'a word) = bs"
proof -
  have "le_nat (le_bytes n (le_word bs :: 'a word)) = le_nat bs"
    using assms le_nat_bound [of bs] by (simp add: le_nat_le_bytes unat_le_word)
  moreover have "le_nat xs = le_nat ys \<Longrightarrow> length xs = length ys \<Longrightarrow> xs = ys" for xs ys
  proof (induction xs arbitrary: ys)
    case Nil
    then show ?case by simp
  next
    case (Cons x xs)
    then obtain y ys' where ys: "ys = y # ys'" by (cases ys) auto
    have lt: "unat x < 256" "unat y < 256"
      using unsigned_less [of x] unsigned_less [of y] by simp_all
    have eq: "unat x + 256 * le_nat xs = unat y + 256 * le_nat ys'"
      using Cons.prems ys by simp
    then have "(unat x + 256 * le_nat xs) mod 256 = (unat y + 256 * le_nat ys') mod 256" by simp
    then have "unat x = unat y" using lt by simp
    moreover from this eq have "le_nat xs = le_nat ys'" by simp
    ultimately show ?case using Cons.IH Cons.prems ys by (simp add: word_unat_eq_iff)
  qed
  ultimately show ?thesis using assms by simp
qed

lemma le_nat_replicate_0 [simp]: "le_nat (replicate n 0) = 0"
  by (induction n) simp_all

section \<open>Slices\<close>

text \<open>\<open>bslice o n bs\<close> is the sub-list of \<open>n\<close> elements from position \<open>o\<close>;
  \<open>patch o ys xs\<close> overwrites \<open>xs\<close> with \<open>ys\<close> from position \<open>o\<close>.\<close>

definition bslice :: "nat \<Rightarrow> nat \<Rightarrow> 'a list \<Rightarrow> 'a list" where
  "bslice off n xs = take n (drop off xs)"

definition patch :: "nat \<Rightarrow> 'a list \<Rightarrow> 'a list \<Rightarrow> 'a list" where
  "patch off ys xs = take off xs @ ys @ drop (off + length ys) xs"

lemma length_patch [simp]: "off + length ys \<le> length xs \<Longrightarrow> length (patch off ys xs) = length xs"
  by (simp add: patch_def)

lemma length_bslice [simp]: "off + n \<le> length xs \<Longrightarrow> length (bslice off n xs) = n"
  by (simp add: bslice_def)

lemma bslice_patch_same [simp]:
  "n = length ys \<Longrightarrow> off + n \<le> length xs \<Longrightarrow> bslice off n (patch off ys xs) = ys"
  by (simp add: bslice_def patch_def)

lemma bslice_patch_before:
  assumes "o1 + n \<le> o2" "o2 + length ys \<le> length xs"
  shows "bslice o1 n (patch o2 ys xs) = bslice o1 n xs"
proof (rule nth_equalityI)
  show "length (bslice o1 n (patch o2 ys xs)) = length (bslice o1 n xs)"
    using assms by (simp add: bslice_def)
next
  fix i assume "i < length (bslice o1 n (patch o2 ys xs))"
  then have "i < n" by (simp add: bslice_def)
  with assms show "bslice o1 n (patch o2 ys xs) ! i = bslice o1 n xs ! i"
    by (simp add: bslice_def patch_def nth_append)
qed

lemma bslice_patch_after:
  assumes "o2 + length ys \<le> o1" "o2 + length ys \<le> length xs"
  shows "bslice o1 n (patch o2 ys xs) = bslice o1 n xs"
proof -
  have "drop o1 (patch o2 ys xs) = drop o1 xs"
    using assms by (simp add: patch_def)
  then show ?thesis by (simp add: bslice_def)
qed

lemma bslice_replicate [simp]: "bslice off n (replicate k x) = replicate (min n (k - off)) x"
  by (simp add: bslice_def min.commute)

end
