(* ===== verification/CLayout.thy ===== *)
theory CLayout
  imports Prelude
begin

text \<open>
  C object types and their memory layout for the target of the eBPF programs (LP64, little
  endian, System V bit-field allocation), the way clang lays out the structures of
  \<open>vmlinux.h\<close> and \<open>kerno.h\<close>. A \<open>ctype\<close> is what a C declaration says; \<open>csize\<close>,
  \<open>calign\<close> and \<open>cfield\<close> are the language's \<open>sizeof\<close>, \<open>_Alignof\<close> and \<open>offsetof\<close>. The
  lemmas show that members never overlap, are aligned and stay inside the object.
\<close>

section \<open>C types\<close>

text \<open>\<open>CInt signed n\<close> is an integer of \<open>n\<close> bytes; \<open>CEnum n es\<close> an enumeration stored in
  \<open>n\<close> bytes with its enumerators; \<open>Ptr t\<close> a pointer to the type written \<open>t\<close>. A member is a
  named field, an anonymous structure or union (empty name) or a bit-field with its declared
  type and width (empty name: padding).\<close>

datatype ctype =
    CInt bool nat
  | CEnum nat "(string \<times> int) list"
  | Ptr string
  | Arr ctype nat
  | Struct "cmember list"
  | Packed "cmember list"
  | Union "cmember list"
and cmember =
    Field string ctype
  | Bits string ctype nat

definition c_char :: ctype where "c_char = CInt True 1"
definition c_signed_char :: ctype where "c_signed_char = CInt True 1"
definition c_unsigned_char :: ctype where "c_unsigned_char = CInt False 1"
definition c_bool :: ctype where "c_bool = CInt False 1"
definition c_short :: ctype where "c_short = CInt True 2"
definition c_unsigned_short :: ctype where "c_unsigned_short = CInt False 2"
definition c_int :: ctype where "c_int = CInt True 4"
definition c_unsigned_int :: ctype where "c_unsigned_int = CInt False 4"
definition c_long :: ctype where "c_long = CInt True 8"
definition c_unsigned_long :: ctype where "c_unsigned_long = CInt False 8"
definition c_long_long :: ctype where "c_long_long = CInt True 8"
definition c_unsigned_long_long :: ctype where "c_unsigned_long_long = CInt False 8"

section \<open>Size, alignment, offset\<close>

definition roundup :: "nat \<Rightarrow> nat \<Rightarrow> nat" where
  "roundup a n = (if a \<le> 1 then n else (n + a - 1) div a * a)"

fun calign :: "ctype \<Rightarrow> nat" and caligns :: "cmember list \<Rightarrow> nat" where
  "calign (CInt _ n) = n"
| "calign (CEnum n _) = n"
| "calign (Ptr _) = 8"
| "calign (Arr t _) = calign t"
| "calign (Struct ms) = caligns ms"
| "calign (Packed ms) = 1"
| "calign (Union ms) = caligns ms"
| "caligns [] = 1"
| "caligns (Field _ t # ms) = max (calign t) (caligns ms)"
| "caligns (Bits x t _ # ms) = (if x = '''' then caligns ms else max (calign t) (caligns ms))"

text \<open>Positions are counted in bits. A field starts at the next multiple of its alignment (of
  one byte in a packed structure); a bit-field starts where the previous member ends, unless
  it would cross a storage unit of its declared type; a zero-width bit-field closes the
  current unit.\<close>

definition fstart :: "bool \<Rightarrow> nat \<Rightarrow> nat \<Rightarrow> nat" where
  "fstart packed a p = roundup (if packed then 8 else 8 * a) p"

definition bstart :: "bool \<Rightarrow> nat \<Rightarrow> nat \<Rightarrow> nat \<Rightarrow> nat" where
  "bstart packed u w p =
     (if w = 0 then roundup u p
      else if packed then p
      else if p mod u + w > u then roundup u p else p)"

fun csize :: "ctype \<Rightarrow> nat" and cend :: "bool \<Rightarrow> cmember list \<Rightarrow> nat \<Rightarrow> nat"
  and cmax :: "cmember list \<Rightarrow> nat" where
  "csize (CInt _ n) = n"
| "csize (CEnum n _) = n"
| "csize (Ptr _) = 8"
| "csize (Arr t n) = csize t * n"
| "csize (Struct ms) = roundup (caligns ms) ((cend False ms 0 + 7) div 8)"
| "csize (Packed ms) = (cend True ms 0 + 7) div 8"
| "csize (Union ms) = roundup (caligns ms) (cmax ms)"
| "cend _ [] p = p"
| "cend pk (Field _ t # ms) p = cend pk ms (fstart pk (calign t) p + 8 * csize t)"
| "cend pk (Bits _ t w # ms) p = cend pk ms (bstart pk (8 * csize t) w p + w)"
| "cmax [] = 0"
| "cmax (Field _ t # ms) = max (csize t) (cmax ms)"
| "cmax (Bits _ _ w # ms) = max ((w + 7) div 8) (cmax ms)"

text \<open>\<open>cfield t f\<close> is the byte offset and the type of the field \<open>f\<close>, looked up through anonymous
  structures and unions as C does.\<close>

fun cfield :: "ctype \<Rightarrow> string \<Rightarrow> (nat \<times> ctype) option"
  and cfind :: "bool \<Rightarrow> cmember list \<Rightarrow> nat \<Rightarrow> string \<Rightarrow> (nat \<times> ctype) option"
  and ufind :: "cmember list \<Rightarrow> string \<Rightarrow> (nat \<times> ctype) option" where
  "cfield (Struct ms) f = cfind False ms 0 f"
| "cfield (Packed ms) f = cfind True ms 0 f"
| "cfield (Union ms) f = ufind ms f"
| "cfield _ f = None"
| "cfind _ [] p f = None"
| "cfind pk (Field x t # ms) p f =
     (if x = f then Some (fstart pk (calign t) p div 8, t)
      else case (if x = '''' then cfield t f else None) of
             Some (off, u) \<Rightarrow> Some (fstart pk (calign t) p div 8 + off, u)
           | None \<Rightarrow> cfind pk ms (fstart pk (calign t) p + 8 * csize t) f)"
| "cfind pk (Bits x t w # ms) p f = cfind pk ms (bstart pk (8 * csize t) w p + w) f"
| "ufind [] f = None"
| "ufind (Field x t # ms) f =
     (if x = f then Some (0, t)
      else case (if x = '''' then cfield t f else None) of
             Some r \<Rightarrow> Some r
           | None \<Rightarrow> ufind ms f)"
| "ufind (Bits x t w # ms) f = ufind ms f"

definition coffset :: "ctype \<Rightarrow> string \<Rightarrow> nat" where
  "coffset t f = (case cfield t f of Some (off, _) \<Rightarrow> off | None \<Rightarrow> 0)"

definition cmsize :: "ctype \<Rightarrow> string \<Rightarrow> nat" where
  "cmsize t f = (case cfield t f of Some (_, u) \<Rightarrow> csize u | None \<Rightarrow> 0)"

lemmas prim_defs = c_char_def c_signed_char_def c_unsigned_char_def c_bool_def c_short_def
  c_unsigned_short_def c_int_def c_unsigned_int_def c_long_def c_unsigned_long_def
  c_long_long_def c_unsigned_long_long_def

lemma prim_layout [layout_simps]:
  "csize c_char = 1" "calign c_char = 1"
  "csize c_signed_char = 1" "calign c_signed_char = 1"
  "csize c_unsigned_char = 1" "calign c_unsigned_char = 1"
  "csize c_bool = 1" "calign c_bool = 1"
  "csize c_short = 2" "calign c_short = 2"
  "csize c_unsigned_short = 2" "calign c_unsigned_short = 2"
  "csize c_int = 4" "calign c_int = 4"
  "csize c_unsigned_int = 4" "calign c_unsigned_int = 4"
  "csize c_long = 8" "calign c_long = 8"
  "csize c_unsigned_long = 8" "calign c_unsigned_long = 8"
  "csize c_long_long = 8" "calign c_long_long = 8"
  "csize c_unsigned_long_long = 8" "calign c_unsigned_long_long = 8"
  by (simp_all add: prim_defs)

lemmas layout_eval = roundup_def fstart_def bstart_def max_def

section \<open>Soundness of the layout\<close>

lemma roundup_ge: "n \<le> roundup a n"
proof (cases "a \<le> 1")
  case True
  then show ?thesis by (simp add: roundup_def)
next
  case False
  have "(n + a - 1) div a * a + (n + a - 1) mod a = n + a - 1" by (rule div_mult_mod_eq)
  moreover have "(n + a - 1) mod a < a" using False by simp
  ultimately show ?thesis using False unfolding roundup_def if_not_P [OF False] by linarith
qed

lemma roundup_dvd: "0 < a \<Longrightarrow> a dvd roundup a n"
  unfolding roundup_def by (cases "a = 1") (auto intro: dvd_triv_right)

lemma fstart_ge: "p \<le> fstart pk a p"
  by (simp add: fstart_def roundup_ge)

lemma bstart_ge: "p \<le> bstart pk u w p"
  by (simp add: bstart_def roundup_ge)

text \<open>\<open>placed pk ms p\<close> is the list of the start positions and widths, in bits, of the members
  of a structure laid out from position \<open>p\<close>.\<close>

fun placed :: "bool \<Rightarrow> cmember list \<Rightarrow> nat \<Rightarrow> (nat \<times> nat) list" where
  "placed _ [] p = []"
| "placed pk (Field _ t # ms) p =
     (let s = fstart pk (calign t) p in (s, 8 * csize t) # placed pk ms (s + 8 * csize t))"
| "placed pk (Bits _ t w # ms) p =
     (let s = bstart pk (8 * csize t) w p in (s, w) # placed pk ms (s + w))"

lemma cend_ge: "p \<le> cend pk ms p"
proof (induction pk ms p rule: placed.induct)
  case (1 pk p)
  then show ?case by simp
next
  case (2 pk x t ms p)
  then show ?case using fstart_ge [of p pk "calign t"] by simp
next
  case (3 pk x t w ms p)
  then show ?case using bstart_ge [of p pk "8 * csize t" w] by simp
qed

lemma placed_bounds: "(s, w) \<in> set (placed pk ms p) \<Longrightarrow> p \<le> s \<and> s + w \<le> cend pk ms p"
proof (induction pk ms p rule: placed.induct)
  case (1 pk p)
  then show ?case by simp
next
  case (2 pk x t ms p)
  then show ?case
    using fstart_ge [of p pk "calign t"] cend_ge [of "fstart pk (calign t) p + 8 * csize t" pk ms]
    by (fastforce simp: Let_def)
next
  case (3 pk x t w' ms p)
  then show ?case
    using bstart_ge [of p pk "8 * csize t" w'] cend_ge [of "bstart pk (8 * csize t) w' p + w'" pk ms]
    by (fastforce simp: Let_def)
qed

lemma placed_disjoint: "sorted_wrt (\<lambda>(s, w) (s', w'). s + w \<le> s') (placed pk ms p)"
proof (induction pk ms p rule: placed.induct)
  case (1 pk p)
  then show ?case by simp
next
  case (2 pk x t ms p)
  then show ?case by (auto simp: Let_def dest: placed_bounds)
next
  case (3 pk x t w ms p)
  then show ?case by (auto simp: Let_def dest: placed_bounds)
qed

lemma struct_members_inside:
  assumes "(s, w) \<in> set (placed False ms 0)"
  shows "s + w \<le> 8 * csize (Struct ms)"
proof -
  have "s + w \<le> cend False ms 0" using placed_bounds [OF assms] by simp
  also have "\<dots> \<le> 8 * ((cend False ms 0 + 7) div 8)" by simp
  also have "\<dots> \<le> 8 * csize (Struct ms)" using roundup_ge by simp
  finally show ?thesis .
qed

text \<open>A field found by its name lies inside the object: the bound every access through
  \<open>cfield\<close> relies on.\<close>

lemma cfield_inside_aux:
  "cfield t f = Some (off, u) \<Longrightarrow> off + csize u \<le> csize t"
  "cfind pk ms p f = Some (off, u) \<Longrightarrow> 8 * (off + csize u) \<le> cend pk ms p"
  "ufind ms f = Some (off, u) \<Longrightarrow> off + csize u \<le> cmax ms"
proof (induction t f and pk ms p f and ms f arbitrary: off u and off u and off u
    rule: cfield_cfind_ufind.induct)
  case (1 ms f)
  then have "8 * (off + csize u) \<le> cend False ms 0" by simp
  then have "off + csize u \<le> (cend False ms 0 + 7) div 8" by simp
  also have "\<dots> \<le> csize (Struct ms)" by (simp add: roundup_ge)
  finally show ?case .
next
  case (2 ms f)
  then have "8 * (off + csize u) \<le> cend True ms 0" by simp
  then show ?case by simp
next
  case (3 ms f)
  then have "off + csize u \<le> cmax ms" by simp
  also have "\<dots> \<le> csize (Union ms)" by (simp add: roundup_ge)
  finally show ?case .
next
  case (6 pk x t ms p f)
  let ?s = "fstart pk (calign t) p"
  have top: "?s + 8 * csize t \<le> cend pk ms (?s + 8 * csize t)" by (rule cend_ge)
  show ?case
  proof (cases "x = f")
    case True
    with 6 have "off = ?s div 8" "u = t" by (auto simp: Let_def)
    with top show ?thesis by simp
  next
    case neq: False
    show ?thesis
    proof (cases "if x = '''' then cfield t f else None")
      case None
      then have "cfind pk ms (?s + 8 * csize t) f = Some (off, u)"
        using "6.prems" neq by (simp add: Let_def split: if_splits option.splits)
      then show ?thesis using "6.IH"(2) [OF neq None] by simp
    next
      case (Some r)
      then obtain o1 where r: "r = (o1, u)" "off = ?s div 8 + o1" and x: "x = ''''"
        using "6.prems" neq by (cases r) (auto simp: Let_def split: if_splits)
      have "cfield t f = Some (o1, u)" using Some r x by simp
      then have "o1 + csize u \<le> csize t" using "6.IH"(1) [OF neq x] by simp
      then show ?thesis using r top by simp
    qed
  qed
next
  case (9 x t ms f)
  then show ?case
    by (fastforce simp: le_max_iff_disj split: if_splits option.splits)
qed (auto split: if_splits)

lemma cfield_inside: "cfield t f = Some (off, u) \<Longrightarrow> off + csize u \<le> csize t"
  by (rule cfield_inside_aux(1))

end
