(* ===== verification/VmHooks.thy ===== *)
theory VmHooks
  imports CLayout
begin

text \<open>
  Kernel type declarations of \<open>internal/bpf/c/headers/vmlinux.h\<close>: the contexts the hooks are called with: the tracepoint records, the register file a kprobe receives and \<open>oom_control\<close>, with the base typedefs they use.
  Each definition is one declaration of the header, member by member: \<open>st_\<close>, \<open>un_\<close> and \<open>en_\<close>
  name a structure, a union and an enumeration, \<open>td_\<close> a typedef. The lemma after a
  definition computes its size and alignment, which the layouts of the types that embed it use.
\<close>

definition td___u8 :: ctype where "td___u8 = c_unsigned_char"

lemma td___u8_layout [layout_simps]: "csize td___u8 = 1" "calign td___u8 = 1"
  by (simp_all add: td___u8_def layout_simps layout_eval)

definition td___u16 :: ctype where "td___u16 = c_unsigned_short"

lemma td___u16_layout [layout_simps]: "csize td___u16 = 2" "calign td___u16 = 2"
  by (simp_all add: td___u16_def layout_simps layout_eval)

definition td___u32 :: ctype where "td___u32 = c_unsigned_int"

lemma td___u32_layout [layout_simps]: "csize td___u32 = 4" "calign td___u32 = 4"
  by (simp_all add: td___u32_def layout_simps layout_eval)

definition td___u64 :: ctype where "td___u64 = c_unsigned_long_long"

lemma td___u64_layout [layout_simps]: "csize td___u64 = 8" "calign td___u64 = 8"
  by (simp_all add: td___u64_def layout_simps layout_eval)

definition td___s32 :: ctype where "td___s32 = c_int"

lemma td___s32_layout [layout_simps]: "csize td___s32 = 4" "calign td___s32 = 4"
  by (simp_all add: td___s32_def layout_simps layout_eval)

definition st_trace_entry :: ctype where
  "st_trace_entry = Struct [
     Field ''type'' c_unsigned_short,
     Field ''flags'' c_unsigned_char,
     Field ''preempt_count'' c_unsigned_char,
     Field ''pid'' c_int]"

lemma st_trace_entry_layout [layout_simps]: "csize st_trace_entry = 8" "calign st_trace_entry = 4"
  by (simp_all add: st_trace_entry_def layout_simps layout_eval)

definition td_u32 :: ctype where "td_u32 = td___u32"

lemma td_u32_layout [layout_simps]: "csize td_u32 = 4" "calign td_u32 = 4"
  by (simp_all add: td_u32_def layout_simps layout_eval)

definition td___kernel_dev_t :: ctype where "td___kernel_dev_t = td_u32"

lemma td___kernel_dev_t_layout [layout_simps]: "csize td___kernel_dev_t = 4" "calign td___kernel_dev_t = 4"
  by (simp_all add: td___kernel_dev_t_def layout_simps layout_eval)

definition td_dev_t :: ctype where "td_dev_t = td___kernel_dev_t"

lemma td_dev_t_layout [layout_simps]: "csize td_dev_t = 4" "calign td_dev_t = 4"
  by (simp_all add: td_dev_t_def layout_simps layout_eval)

definition td_u64 :: ctype where "td_u64 = td___u64"

lemma td_u64_layout [layout_simps]: "csize td_u64 = 8" "calign td_u64 = 8"
  by (simp_all add: td_u64_def layout_simps layout_eval)

definition td_sector_t :: ctype where "td_sector_t = td_u64"

lemma td_sector_t_layout [layout_simps]: "csize td_sector_t = 8" "calign td_sector_t = 8"
  by (simp_all add: td_sector_t_def layout_simps layout_eval)

definition st_trace_event_raw_block_rq :: ctype where
  "st_trace_event_raw_block_rq = Struct [
     Field ''ent'' st_trace_entry,
     Field ''dev'' td_dev_t,
     Field ''sector'' td_sector_t,
     Field ''nr_sector'' c_unsigned_int,
     Field ''bytes'' c_unsigned_int,
     Field ''ioprio'' c_unsigned_short,
     Field ''rwbs'' (Arr c_char 10),
     Field ''comm'' (Arr c_char 16),
     Field ''__data_loc_cmd'' td_u32,
     Field ''__data'' (Arr c_char 0)]"

lemma st_trace_event_raw_block_rq_layout [layout_simps]: "csize st_trace_event_raw_block_rq = 64" "calign st_trace_event_raw_block_rq = 8"
  by (simp_all add: st_trace_event_raw_block_rq_def layout_simps layout_eval)

definition st_trace_event_raw_block_rq_completion :: ctype where
  "st_trace_event_raw_block_rq_completion = Struct [
     Field ''ent'' st_trace_entry,
     Field ''dev'' td_dev_t,
     Field ''sector'' td_sector_t,
     Field ''nr_sector'' c_unsigned_int,
     Field ''error'' c_int,
     Field ''ioprio'' c_unsigned_short,
     Field ''rwbs'' (Arr c_char 10),
     Field ''__data_loc_cmd'' td_u32,
     Field ''__data'' (Arr c_char 0)]"

lemma st_trace_event_raw_block_rq_completion_layout [layout_simps]: "csize st_trace_event_raw_block_rq_completion = 48" "calign st_trace_event_raw_block_rq_completion = 8"
  by (simp_all add: st_trace_event_raw_block_rq_completion_def layout_simps layout_eval)

definition st_trace_event_raw_sys_enter :: ctype where
  "st_trace_event_raw_sys_enter = Struct [
     Field ''ent'' st_trace_entry,
     Field ''id'' c_long,
     Field ''args'' (Arr c_unsigned_long 6),
     Field ''__data'' (Arr c_char 0)]"

lemma st_trace_event_raw_sys_enter_layout [layout_simps]: "csize st_trace_event_raw_sys_enter = 64" "calign st_trace_event_raw_sys_enter = 8"
  by (simp_all add: st_trace_event_raw_sys_enter_def layout_simps layout_eval)

definition st_trace_event_raw_sys_exit :: ctype where
  "st_trace_event_raw_sys_exit = Struct [
     Field ''ent'' st_trace_entry,
     Field ''id'' c_long,
     Field ''ret'' c_long,
     Field ''__data'' (Arr c_char 0)]"

lemma st_trace_event_raw_sys_exit_layout [layout_simps]: "csize st_trace_event_raw_sys_exit = 24" "calign st_trace_event_raw_sys_exit = 8"
  by (simp_all add: st_trace_event_raw_sys_exit_def layout_simps layout_eval)

definition td___kernel_pid_t :: ctype where "td___kernel_pid_t = c_int"

lemma td___kernel_pid_t_layout [layout_simps]: "csize td___kernel_pid_t = 4" "calign td___kernel_pid_t = 4"
  by (simp_all add: td___kernel_pid_t_def layout_simps layout_eval)

definition td_pid_t :: ctype where "td_pid_t = td___kernel_pid_t"

lemma td_pid_t_layout [layout_simps]: "csize td_pid_t = 4" "calign td_pid_t = 4"
  by (simp_all add: td_pid_t_def layout_simps layout_eval)

definition st_trace_event_raw_sched_wakeup_template :: ctype where
  "st_trace_event_raw_sched_wakeup_template = Struct [
     Field ''ent'' st_trace_entry,
     Field ''comm'' (Arr c_char 16),
     Field ''pid'' td_pid_t,
     Field ''prio'' c_int,
     Field ''target_cpu'' c_int,
     Field ''__data'' (Arr c_char 0)]"

lemma st_trace_event_raw_sched_wakeup_template_layout [layout_simps]: "csize st_trace_event_raw_sched_wakeup_template = 36" "calign st_trace_event_raw_sched_wakeup_template = 4"
  by (simp_all add: st_trace_event_raw_sched_wakeup_template_def layout_simps layout_eval)

definition st_trace_event_raw_sched_switch :: ctype where
  "st_trace_event_raw_sched_switch = Struct [
     Field ''ent'' st_trace_entry,
     Field ''prev_comm'' (Arr c_char 16),
     Field ''prev_pid'' td_pid_t,
     Field ''prev_prio'' c_int,
     Field ''prev_state'' c_long,
     Field ''next_comm'' (Arr c_char 16),
     Field ''next_pid'' td_pid_t,
     Field ''next_prio'' c_int,
     Field ''__data'' (Arr c_char 0)]"

lemma st_trace_event_raw_sched_switch_layout [layout_simps]: "csize st_trace_event_raw_sched_switch = 64" "calign st_trace_event_raw_sched_switch = 8"
  by (simp_all add: st_trace_event_raw_sched_switch_def layout_simps layout_eval)

definition st_trace_event_raw_tcp_retransmit_skb :: ctype where
  "st_trace_event_raw_tcp_retransmit_skb = Struct [
     Field ''ent'' st_trace_entry,
     Field ''skbaddr'' (Ptr ''void''),
     Field ''skaddr'' (Ptr ''void''),
     Field ''state'' c_int,
     Field ''sport'' td___u16,
     Field ''dport'' td___u16,
     Field ''family'' td___u16,
     Field ''saddr'' (Arr td___u8 4),
     Field ''daddr'' (Arr td___u8 4),
     Field ''saddr_v6'' (Arr td___u8 16),
     Field ''daddr_v6'' (Arr td___u8 16),
     Field ''err'' c_int,
     Field ''__data'' (Arr c_char 0)]"

lemma st_trace_event_raw_tcp_retransmit_skb_layout [layout_simps]: "csize st_trace_event_raw_tcp_retransmit_skb = 80" "calign st_trace_event_raw_tcp_retransmit_skb = 8"
  by (simp_all add: st_trace_event_raw_tcp_retransmit_skb_def layout_simps layout_eval)

definition st_trace_event_raw_inet_sock_set_state :: ctype where
  "st_trace_event_raw_inet_sock_set_state = Struct [
     Field ''ent'' st_trace_entry,
     Field ''skaddr'' (Ptr ''void''),
     Field ''oldstate'' c_int,
     Field ''newstate'' c_int,
     Field ''sport'' td___u16,
     Field ''dport'' td___u16,
     Field ''family'' td___u16,
     Field ''protocol'' td___u16,
     Field ''saddr'' (Arr td___u8 4),
     Field ''daddr'' (Arr td___u8 4),
     Field ''saddr_v6'' (Arr td___u8 16),
     Field ''daddr_v6'' (Arr td___u8 16),
     Field ''__data'' (Arr c_char 0)]"

lemma st_trace_event_raw_inet_sock_set_state_layout [layout_simps]: "csize st_trace_event_raw_inet_sock_set_state = 72" "calign st_trace_event_raw_inet_sock_set_state = 8"
  by (simp_all add: st_trace_event_raw_inet_sock_set_state_def layout_simps layout_eval)

definition td_gfp_t :: ctype where "td_gfp_t = c_unsigned_int"

lemma td_gfp_t_layout [layout_simps]: "csize td_gfp_t = 4" "calign td_gfp_t = 4"
  by (simp_all add: td_gfp_t_def layout_simps layout_eval)

definition en_oom_constraint :: ctype where
  "en_oom_constraint = CEnum 4 [
     (''CONSTRAINT_NONE'', 0),
     (''CONSTRAINT_CPUSET'', 1),
     (''CONSTRAINT_MEMORY_POLICY'', 2),
     (''CONSTRAINT_MEMCG'', 3)]"

lemma en_oom_constraint_layout [layout_simps]: "csize en_oom_constraint = 4" "calign en_oom_constraint = 4"
  by (simp_all add: en_oom_constraint_def layout_simps layout_eval)

definition st_oom_control :: ctype where
  "st_oom_control = Struct [
     Field ''zonelist'' (Ptr ''struct zonelist''),
     Field ''nodemask'' (Ptr ''nodemask_t''),
     Field ''memcg'' (Ptr ''struct mem_cgroup''),
     Field ''gfp_mask'' td_gfp_t,
     Field ''order'' c_int,
     Field ''totalpages'' c_unsigned_long,
     Field ''chosen'' (Ptr ''struct task_struct''),
     Field ''chosen_points'' c_long,
     Field ''constraint'' en_oom_constraint]"

lemma st_oom_control_layout [layout_simps]: "csize st_oom_control = 64" "calign st_oom_control = 8"
  by (simp_all add: st_oom_control_def layout_simps layout_eval)

definition td_u16 :: ctype where "td_u16 = td___u16"

lemma td_u16_layout [layout_simps]: "csize td_u16 = 2" "calign td_u16 = 2"
  by (simp_all add: td_u16_def layout_simps layout_eval)

definition st_fred_cs :: ctype where
  "st_fred_cs = Struct [
     Bits ''cs'' td_u64 16,
     Bits ''sl'' td_u64 2,
     Bits ''wfe'' td_u64 1]"

lemma st_fred_cs_layout [layout_simps]: "csize st_fred_cs = 8" "calign st_fred_cs = 8"
  by (simp_all add: st_fred_cs_def layout_simps layout_eval)

definition st_fred_ss :: ctype where
  "st_fred_ss = Struct [
     Bits ''ss'' td_u64 16,
     Bits ''sti'' td_u64 1,
     Bits ''swevent'' td_u64 1,
     Bits ''nmi'' td_u64 1,
     Bits '''' c_int 13,
     Bits ''vector'' td_u64 8,
     Bits '''' c_short 8,
     Bits ''type'' td_u64 4,
     Bits '''' c_char 4,
     Bits ''enclave'' td_u64 1,
     Bits ''lm'' td_u64 1,
     Bits ''nested'' td_u64 1,
     Bits '''' c_char 1,
     Bits ''insnlen'' td_u64 4]"

lemma st_fred_ss_layout [layout_simps]: "csize st_fred_ss = 8" "calign st_fred_ss = 8"
  by (simp_all add: st_fred_ss_def layout_simps layout_eval)

definition st_pt_regs :: ctype where
  "st_pt_regs = Struct [
     Field ''r15'' c_unsigned_long,
     Field ''r14'' c_unsigned_long,
     Field ''r13'' c_unsigned_long,
     Field ''r12'' c_unsigned_long,
     Field ''bp'' c_unsigned_long,
     Field ''bx'' c_unsigned_long,
     Field ''r11'' c_unsigned_long,
     Field ''r10'' c_unsigned_long,
     Field ''r9'' c_unsigned_long,
     Field ''r8'' c_unsigned_long,
     Field ''ax'' c_unsigned_long,
     Field ''cx'' c_unsigned_long,
     Field ''dx'' c_unsigned_long,
     Field ''si'' c_unsigned_long,
     Field ''di'' c_unsigned_long,
     Field ''orig_ax'' c_unsigned_long,
     Field ''ip'' c_unsigned_long,
     Field '''' (Union [
       Field ''cs'' td_u16,
       Field ''csx'' td_u64,
       Field ''fred_cs'' st_fred_cs]),
     Field ''flags'' c_unsigned_long,
     Field ''sp'' c_unsigned_long,
     Field '''' (Union [
       Field ''ss'' td_u16,
       Field ''ssx'' td_u64,
       Field ''fred_ss'' st_fred_ss])]"

lemma st_pt_regs_layout [layout_simps]: "csize st_pt_regs = 168" "calign st_pt_regs = 8"
  by (simp_all add: st_pt_regs_def layout_simps layout_eval)

definition en_bpf_map_type :: ctype where
  "en_bpf_map_type = CEnum 4 [
     (''BPF_MAP_TYPE_UNSPEC'', 0),
     (''BPF_MAP_TYPE_HASH'', 1),
     (''BPF_MAP_TYPE_ARRAY'', 2),
     (''BPF_MAP_TYPE_PROG_ARRAY'', 3),
     (''BPF_MAP_TYPE_PERF_EVENT_ARRAY'', 4),
     (''BPF_MAP_TYPE_PERCPU_HASH'', 5),
     (''BPF_MAP_TYPE_PERCPU_ARRAY'', 6),
     (''BPF_MAP_TYPE_STACK_TRACE'', 7),
     (''BPF_MAP_TYPE_CGROUP_ARRAY'', 8),
     (''BPF_MAP_TYPE_LRU_HASH'', 9),
     (''BPF_MAP_TYPE_LRU_PERCPU_HASH'', 10),
     (''BPF_MAP_TYPE_LPM_TRIE'', 11),
     (''BPF_MAP_TYPE_ARRAY_OF_MAPS'', 12),
     (''BPF_MAP_TYPE_HASH_OF_MAPS'', 13),
     (''BPF_MAP_TYPE_DEVMAP'', 14),
     (''BPF_MAP_TYPE_SOCKMAP'', 15),
     (''BPF_MAP_TYPE_CPUMAP'', 16),
     (''BPF_MAP_TYPE_XSKMAP'', 17),
     (''BPF_MAP_TYPE_SOCKHASH'', 18),
     (''BPF_MAP_TYPE_CGROUP_STORAGE_DEPRECATED'', 19),
     (''BPF_MAP_TYPE_CGROUP_STORAGE'', 19),
     (''BPF_MAP_TYPE_REUSEPORT_SOCKARRAY'', 20),
     (''BPF_MAP_TYPE_PERCPU_CGROUP_STORAGE_DEPRECATED'', 21),
     (''BPF_MAP_TYPE_PERCPU_CGROUP_STORAGE'', 21),
     (''BPF_MAP_TYPE_QUEUE'', 22),
     (''BPF_MAP_TYPE_STACK'', 23),
     (''BPF_MAP_TYPE_SK_STORAGE'', 24),
     (''BPF_MAP_TYPE_DEVMAP_HASH'', 25),
     (''BPF_MAP_TYPE_STRUCT_OPS'', 26),
     (''BPF_MAP_TYPE_RINGBUF'', 27),
     (''BPF_MAP_TYPE_INODE_STORAGE'', 28),
     (''BPF_MAP_TYPE_TASK_STORAGE'', 29),
     (''BPF_MAP_TYPE_BLOOM_FILTER'', 30),
     (''BPF_MAP_TYPE_USER_RINGBUF'', 31),
     (''BPF_MAP_TYPE_CGRP_STORAGE'', 32),
     (''BPF_MAP_TYPE_ARENA'', 33),
     (''__MAX_BPF_MAP_TYPE'', 34)]"

lemma en_bpf_map_type_layout [layout_simps]: "csize en_bpf_map_type = 4" "calign en_bpf_map_type = 4"
  by (simp_all add: en_bpf_map_type_def layout_simps layout_eval)

end
