(* ===== verification/VmTask.thy ===== *)
theory VmTask
  imports VmHooks
begin

text \<open>
  Kernel type declarations of \<open>internal/bpf/c/headers/vmlinux.h\<close>: the task: \<open>task_struct\<close>, which the OOM tracer reads through \<open>oom_control.chosen\<close>, with every type it embeds.
  Each definition is one declaration of the header, member by member: \<open>st_\<close>, \<open>un_\<close> and \<open>en_\<close>
  name a structure, a union and an enumeration, \<open>td_\<close> a typedef. The lemma after a
  definition computes its size and alignment, which the layouts of the types that embed it use.
\<close>

definition st_thread_info :: ctype where
  "st_thread_info = Struct [
     Field ''flags'' c_unsigned_long,
     Field ''syscall_work'' c_unsigned_long,
     Field ''status'' td_u32,
     Field ''cpu'' td_u32]"

lemma st_thread_info_layout [layout_simps]: "csize st_thread_info = 24" "calign st_thread_info = 8"
  by (simp_all add: st_thread_info_def layout_simps layout_eval)

definition td_atomic_t :: ctype where
  "td_atomic_t = Struct [
     Field ''counter'' c_int]"

lemma td_atomic_t_layout [layout_simps]: "csize td_atomic_t = 4" "calign td_atomic_t = 4"
  by (simp_all add: td_atomic_t_def layout_simps layout_eval)

definition st_refcount_struct :: ctype where
  "st_refcount_struct = Struct [
     Field ''refs'' td_atomic_t]"

lemma st_refcount_struct_layout [layout_simps]: "csize st_refcount_struct = 4" "calign st_refcount_struct = 4"
  by (simp_all add: st_refcount_struct_def layout_simps layout_eval)

definition td_refcount_t :: ctype where "td_refcount_t = st_refcount_struct"

lemma td_refcount_t_layout [layout_simps]: "csize td_refcount_t = 4" "calign td_refcount_t = 4"
  by (simp_all add: td_refcount_t_def layout_simps layout_eval)

definition st_llist_node :: ctype where
  "st_llist_node = Struct [
     Field ''next'' (Ptr ''struct llist_node'')]"

lemma st_llist_node_layout [layout_simps]: "csize st_llist_node = 8" "calign st_llist_node = 8"
  by (simp_all add: st_llist_node_def layout_simps layout_eval)

definition st___call_single_node :: ctype where
  "st___call_single_node = Struct [
     Field ''llist'' st_llist_node,
     Field '''' (Union [
       Field ''u_flags'' c_unsigned_int,
       Field ''a_flags'' td_atomic_t]),
     Field ''src'' td_u16,
     Field ''dst'' td_u16]"

lemma st___call_single_node_layout [layout_simps]: "csize st___call_single_node = 16" "calign st___call_single_node = 8"
  by (simp_all add: st___call_single_node_def layout_simps layout_eval)

definition st_load_weight :: ctype where
  "st_load_weight = Struct [
     Field ''weight'' c_unsigned_long,
     Field ''inv_weight'' td_u32]"

lemma st_load_weight_layout [layout_simps]: "csize st_load_weight = 16" "calign st_load_weight = 8"
  by (simp_all add: st_load_weight_def layout_simps layout_eval)

definition st_rb_node :: ctype where
  "st_rb_node = Struct [
     Field ''__rb_parent_color'' c_unsigned_long,
     Field ''rb_right'' (Ptr ''struct rb_node''),
     Field ''rb_left'' (Ptr ''struct rb_node'')]"

lemma st_rb_node_layout [layout_simps]: "csize st_rb_node = 24" "calign st_rb_node = 8"
  by (simp_all add: st_rb_node_def layout_simps layout_eval)

definition st_list_head :: ctype where
  "st_list_head = Struct [
     Field ''next'' (Ptr ''struct list_head''),
     Field ''prev'' (Ptr ''struct list_head'')]"

lemma st_list_head_layout [layout_simps]: "csize st_list_head = 16" "calign st_list_head = 8"
  by (simp_all add: st_list_head_def layout_simps layout_eval)

definition td___s64 :: ctype where "td___s64 = c_long_long"

lemma td___s64_layout [layout_simps]: "csize td___s64 = 8" "calign td___s64 = 8"
  by (simp_all add: td___s64_def layout_simps layout_eval)

definition td_s64 :: ctype where "td_s64 = td___s64"

lemma td_s64_layout [layout_simps]: "csize td_s64 = 8" "calign td_s64 = 8"
  by (simp_all add: td_s64_def layout_simps layout_eval)

definition st_sched_avg :: ctype where
  "st_sched_avg = Struct [
     Field ''last_update_time'' td_u64,
     Field ''load_sum'' td_u64,
     Field ''runnable_sum'' td_u64,
     Field ''util_sum'' td_u32,
     Field ''period_contrib'' td_u32,
     Field ''load_avg'' c_unsigned_long,
     Field ''runnable_avg'' c_unsigned_long,
     Field ''util_avg'' c_unsigned_long,
     Field ''util_est'' c_unsigned_int]"

lemma st_sched_avg_layout [layout_simps]: "csize st_sched_avg = 64" "calign st_sched_avg = 8"
  by (simp_all add: st_sched_avg_def layout_simps layout_eval)

definition st_sched_entity :: ctype where
  "st_sched_entity = Struct [
     Field ''load'' st_load_weight,
     Field ''run_node'' st_rb_node,
     Field ''deadline'' td_u64,
     Field ''min_vruntime'' td_u64,
     Field ''min_slice'' td_u64,
     Field ''group_node'' st_list_head,
     Field ''on_rq'' c_unsigned_char,
     Field ''sched_delayed'' c_unsigned_char,
     Field ''rel_deadline'' c_unsigned_char,
     Field ''custom_slice'' c_unsigned_char,
     Field ''exec_start'' td_u64,
     Field ''sum_exec_runtime'' td_u64,
     Field ''prev_sum_exec_runtime'' td_u64,
     Field ''vruntime'' td_u64,
     Field '''' (Union [
       Field ''vlag'' td_s64,
       Field ''vprot'' td_u64]),
     Field ''slice'' td_u64,
     Field ''nr_migrations'' td_u64,
     Field ''depth'' c_int,
     Field ''parent'' (Ptr ''struct sched_entity''),
     Field ''cfs_rq'' (Ptr ''struct cfs_rq''),
     Field ''my_q'' (Ptr ''struct cfs_rq''),
     Field ''runnable_weight'' c_unsigned_long,
     Bits '''' c_long 64,
     Field ''avg'' st_sched_avg]"

lemma st_sched_entity_layout [layout_simps]: "csize st_sched_entity = 256" "calign st_sched_entity = 8"
  by (simp_all add: st_sched_entity_def layout_simps layout_eval)

definition st_sched_rt_entity :: ctype where
  "st_sched_rt_entity = Struct [
     Field ''run_list'' st_list_head,
     Field ''timeout'' c_unsigned_long,
     Field ''watchdog_stamp'' c_unsigned_long,
     Field ''time_slice'' c_unsigned_int,
     Field ''on_rq'' c_unsigned_short,
     Field ''on_list'' c_unsigned_short,
     Field ''back'' (Ptr ''struct sched_rt_entity'')]"

lemma st_sched_rt_entity_layout [layout_simps]: "csize st_sched_rt_entity = 48" "calign st_sched_rt_entity = 8"
  by (simp_all add: st_sched_rt_entity_def layout_simps layout_eval)

definition td_ktime_t :: ctype where "td_ktime_t = td_s64"

lemma td_ktime_t_layout [layout_simps]: "csize td_ktime_t = 8" "calign td_ktime_t = 8"
  by (simp_all add: td_ktime_t_def layout_simps layout_eval)

definition st_timerqueue_node :: ctype where
  "st_timerqueue_node = Struct [
     Field ''node'' st_rb_node,
     Field ''expires'' td_ktime_t]"

lemma st_timerqueue_node_layout [layout_simps]: "csize st_timerqueue_node = 32" "calign st_timerqueue_node = 8"
  by (simp_all add: st_timerqueue_node_def layout_simps layout_eval)

definition td_u8 :: ctype where "td_u8 = td___u8"

lemma td_u8_layout [layout_simps]: "csize td_u8 = 1" "calign td_u8 = 1"
  by (simp_all add: td_u8_def layout_simps layout_eval)

definition st_hrtimer :: ctype where
  "st_hrtimer = Struct [
     Field ''node'' st_timerqueue_node,
     Field ''_softexpires'' td_ktime_t,
     Field ''function'' (Ptr ''enum hrtimer_restart (struct hrtimer *)''),
     Field ''base'' (Ptr ''struct hrtimer_clock_base''),
     Field ''state'' td_u8,
     Field ''is_rel'' td_u8,
     Field ''is_soft'' td_u8,
     Field ''is_hard'' td_u8]"

lemma st_hrtimer_layout [layout_simps]: "csize st_hrtimer = 64" "calign st_hrtimer = 8"
  by (simp_all add: st_hrtimer_def layout_simps layout_eval)

definition td_dl_server_pick_f :: ctype where "td_dl_server_pick_f = Ptr ''struct task_struct * (struct sched_dl_entity *)''"

lemma td_dl_server_pick_f_layout [layout_simps]: "csize td_dl_server_pick_f = 8" "calign td_dl_server_pick_f = 8"
  by (simp_all add: td_dl_server_pick_f_def layout_simps layout_eval)

definition st_sched_dl_entity :: ctype where
  "st_sched_dl_entity = Struct [
     Field ''rb_node'' st_rb_node,
     Field ''dl_runtime'' td_u64,
     Field ''dl_deadline'' td_u64,
     Field ''dl_period'' td_u64,
     Field ''dl_bw'' td_u64,
     Field ''dl_density'' td_u64,
     Field ''runtime'' td_s64,
     Field ''deadline'' td_u64,
     Field ''flags'' c_unsigned_int,
     Bits ''dl_throttled'' c_unsigned_int 1,
     Bits ''dl_yielded'' c_unsigned_int 1,
     Bits ''dl_non_contending'' c_unsigned_int 1,
     Bits ''dl_overrun'' c_unsigned_int 1,
     Bits ''dl_server'' c_unsigned_int 1,
     Bits ''dl_server_active'' c_unsigned_int 1,
     Bits ''dl_defer'' c_unsigned_int 1,
     Bits ''dl_defer_armed'' c_unsigned_int 1,
     Bits ''dl_defer_running'' c_unsigned_int 1,
     Field ''dl_timer'' st_hrtimer,
     Field ''inactive_timer'' st_hrtimer,
     Field ''rq'' (Ptr ''struct rq''),
     Field ''server_pick_task'' td_dl_server_pick_f,
     Field ''pi_se'' (Ptr ''struct sched_dl_entity'')]"

lemma st_sched_dl_entity_layout [layout_simps]: "csize st_sched_dl_entity = 240" "calign st_sched_dl_entity = 8"
  by (simp_all add: st_sched_dl_entity_def layout_simps layout_eval)

definition st_scx_dsq_list_node :: ctype where
  "st_scx_dsq_list_node = Struct [
     Field ''node'' st_list_head,
     Field ''flags'' td_u32,
     Field ''priv'' td_u32]"

lemma st_scx_dsq_list_node_layout [layout_simps]: "csize st_scx_dsq_list_node = 24" "calign st_scx_dsq_list_node = 8"
  by (simp_all add: st_scx_dsq_list_node_def layout_simps layout_eval)

definition td_s32 :: ctype where "td_s32 = td___s32"

lemma td_s32_layout [layout_simps]: "csize td_s32 = 4" "calign td_s32 = 4"
  by (simp_all add: td_s32_def layout_simps layout_eval)

definition td_atomic64_t :: ctype where
  "td_atomic64_t = Struct [
     Field ''counter'' td_s64]"

lemma td_atomic64_t_layout [layout_simps]: "csize td_atomic64_t = 8" "calign td_atomic64_t = 8"
  by (simp_all add: td_atomic64_t_def layout_simps layout_eval)

definition td_atomic_long_t :: ctype where "td_atomic_long_t = td_atomic64_t"

lemma td_atomic_long_t_layout [layout_simps]: "csize td_atomic_long_t = 8" "calign td_atomic_long_t = 8"
  by (simp_all add: td_atomic_long_t_def layout_simps layout_eval)

definition td_bool :: ctype where "td_bool = c_bool"

lemma td_bool_layout [layout_simps]: "csize td_bool = 1" "calign td_bool = 1"
  by (simp_all add: td_bool_def layout_simps layout_eval)

definition st_sched_ext_entity :: ctype where
  "st_sched_ext_entity = Struct [
     Field ''dsq'' (Ptr ''struct scx_dispatch_q''),
     Field ''dsq_list'' st_scx_dsq_list_node,
     Field ''dsq_priq'' st_rb_node,
     Field ''dsq_seq'' td_u32,
     Field ''dsq_flags'' td_u32,
     Field ''flags'' td_u32,
     Field ''weight'' td_u32,
     Field ''sticky_cpu'' td_s32,
     Field ''holding_cpu'' td_s32,
     Field ''selected_cpu'' td_s32,
     Field ''kf_mask'' td_u32,
     Field ''kf_tasks'' (Arr (Ptr ''struct task_struct'') 2),
     Field ''ops_state'' td_atomic_long_t,
     Field ''runnable_node'' st_list_head,
     Field ''runnable_at'' c_unsigned_long,
     Field ''core_sched_at'' td_u64,
     Field ''ddsp_dsq_id'' td_u64,
     Field ''ddsp_enq_flags'' td_u64,
     Field ''slice'' td_u64,
     Field ''dsq_vtime'' td_u64,
     Field ''disallow'' td_bool,
     Field ''cgrp_moving_from'' (Ptr ''struct cgroup''),
     Field ''tasks_node'' st_list_head]"

lemma st_sched_ext_entity_layout [layout_simps]: "csize st_sched_ext_entity = 208" "calign st_sched_ext_entity = 8"
  by (simp_all add: st_sched_ext_entity_def layout_simps layout_eval)

definition st_uclamp_se :: ctype where
  "st_uclamp_se = Struct [
     Bits ''value'' c_unsigned_int 11,
     Bits ''bucket_id'' c_unsigned_int 3,
     Bits ''active'' c_unsigned_int 1,
     Bits ''user_defined'' c_unsigned_int 1]"

lemma st_uclamp_se_layout [layout_simps]: "csize st_uclamp_se = 4" "calign st_uclamp_se = 4"
  by (simp_all add: st_uclamp_se_def layout_simps layout_eval)

definition st_sched_statistics :: ctype where
  "st_sched_statistics = Struct [
     Field ''wait_start'' td_u64,
     Field ''wait_max'' td_u64,
     Field ''wait_count'' td_u64,
     Field ''wait_sum'' td_u64,
     Field ''iowait_count'' td_u64,
     Field ''iowait_sum'' td_u64,
     Field ''sleep_start'' td_u64,
     Field ''sleep_max'' td_u64,
     Field ''sum_sleep_runtime'' td_s64,
     Field ''block_start'' td_u64,
     Field ''block_max'' td_u64,
     Field ''sum_block_runtime'' td_s64,
     Field ''exec_max'' td_s64,
     Field ''slice_max'' td_u64,
     Field ''nr_migrations_cold'' td_u64,
     Field ''nr_failed_migrations_affine'' td_u64,
     Field ''nr_failed_migrations_running'' td_u64,
     Field ''nr_failed_migrations_hot'' td_u64,
     Field ''nr_forced_migrations'' td_u64,
     Field ''nr_wakeups'' td_u64,
     Field ''nr_wakeups_sync'' td_u64,
     Field ''nr_wakeups_migrate'' td_u64,
     Field ''nr_wakeups_local'' td_u64,
     Field ''nr_wakeups_remote'' td_u64,
     Field ''nr_wakeups_affine'' td_u64,
     Field ''nr_wakeups_affine_attempts'' td_u64,
     Field ''nr_wakeups_passive'' td_u64,
     Field ''nr_wakeups_idle'' td_u64,
     Field ''core_forceidle_sum'' td_u64,
     Bits '''' c_long 64,
     Bits '''' c_long 64,
     Bits '''' c_long 64]"

lemma st_sched_statistics_layout [layout_simps]: "csize st_sched_statistics = 256" "calign st_sched_statistics = 8"
  by (simp_all add: st_sched_statistics_def layout_simps layout_eval)

definition st_hlist_head :: ctype where
  "st_hlist_head = Struct [
     Field ''first'' (Ptr ''struct hlist_node'')]"

lemma st_hlist_head_layout [layout_simps]: "csize st_hlist_head = 8" "calign st_hlist_head = 8"
  by (simp_all add: st_hlist_head_def layout_simps layout_eval)

definition st_cpumask :: ctype where
  "st_cpumask = Struct [
     Field ''bits'' (Arr c_unsigned_long 128)]"

lemma st_cpumask_layout [layout_simps]: "csize st_cpumask = 1024" "calign st_cpumask = 8"
  by (simp_all add: st_cpumask_def layout_simps layout_eval)

definition td_cpumask_t :: ctype where "td_cpumask_t = st_cpumask"

lemma td_cpumask_t_layout [layout_simps]: "csize td_cpumask_t = 1024" "calign td_cpumask_t = 8"
  by (simp_all add: td_cpumask_t_def layout_simps layout_eval)

definition un_rcu_special :: ctype where
  "un_rcu_special = Union [
     Field ''b'' (Struct [
       Field ''blocked'' td_u8,
       Field ''need_qs'' td_u8,
       Field ''exp_hint'' td_u8,
       Field ''need_mb'' td_u8]),
     Field ''s'' td_u32]"

lemma un_rcu_special_layout [layout_simps]: "csize un_rcu_special = 4" "calign un_rcu_special = 4"
  by (simp_all add: un_rcu_special_def layout_simps layout_eval)

definition st_sched_info :: ctype where
  "st_sched_info = Struct [
     Field ''pcount'' c_unsigned_long,
     Field ''run_delay'' c_unsigned_long_long,
     Field ''max_run_delay'' c_unsigned_long_long,
     Field ''min_run_delay'' c_unsigned_long_long,
     Field ''last_arrival'' c_unsigned_long_long,
     Field ''last_queued'' c_unsigned_long_long]"

lemma st_sched_info_layout [layout_simps]: "csize st_sched_info = 48" "calign st_sched_info = 8"
  by (simp_all add: st_sched_info_def layout_simps layout_eval)

definition st_plist_node :: ctype where
  "st_plist_node = Struct [
     Field ''prio'' c_int,
     Field ''prio_list'' st_list_head,
     Field ''node_list'' st_list_head]"

lemma st_plist_node_layout [layout_simps]: "csize st_plist_node = 40" "calign st_plist_node = 8"
  by (simp_all add: st_plist_node_def layout_simps layout_eval)

definition td___kernel_clockid_t :: ctype where "td___kernel_clockid_t = c_int"

lemma td___kernel_clockid_t_layout [layout_simps]: "csize td___kernel_clockid_t = 4" "calign td___kernel_clockid_t = 4"
  by (simp_all add: td___kernel_clockid_t_def layout_simps layout_eval)

definition td_clockid_t :: ctype where "td_clockid_t = td___kernel_clockid_t"

lemma td_clockid_t_layout [layout_simps]: "csize td_clockid_t = 4" "calign td_clockid_t = 4"
  by (simp_all add: td_clockid_t_def layout_simps layout_eval)

definition en_timespec_type :: ctype where
  "en_timespec_type = CEnum 4 [
     (''TT_NONE'', 0),
     (''TT_NATIVE'', 1),
     (''TT_COMPAT'', 2)]"

lemma en_timespec_type_layout [layout_simps]: "csize en_timespec_type = 4" "calign en_timespec_type = 4"
  by (simp_all add: en_timespec_type_def layout_simps layout_eval)

definition st_restart_block :: ctype where
  "st_restart_block = Struct [
     Field ''arch_data'' c_unsigned_long,
     Field ''fn'' (Ptr ''long int (struct restart_block *)''),
     Field '''' (Union [
       Field ''futex'' (Struct [
         Field ''uaddr'' (Ptr ''u32''),
         Field ''val'' td_u32,
         Field ''flags'' td_u32,
         Field ''bitset'' td_u32,
         Field ''time'' td_u64,
         Field ''uaddr2'' (Ptr ''u32'')]),
       Field ''nanosleep'' (Struct [
         Field ''clockid'' td_clockid_t,
         Field ''type'' en_timespec_type,
         Field '''' (Union [
           Field ''rmtp'' (Ptr ''struct __kernel_timespec''),
           Field ''compat_rmtp'' (Ptr ''struct old_timespec32'')]),
         Field ''expires'' td_u64]),
       Field ''poll'' (Struct [
         Field ''ufds'' (Ptr ''struct pollfd''),
         Field ''nfds'' c_int,
         Field ''has_timeout'' c_int,
         Field ''tv_sec'' c_unsigned_long,
         Field ''tv_nsec'' c_unsigned_long])])]"

lemma st_restart_block_layout [layout_simps]: "csize st_restart_block = 56" "calign st_restart_block = 8"
  by (simp_all add: st_restart_block_def layout_simps layout_eval)

definition st_hlist_node :: ctype where
  "st_hlist_node = Struct [
     Field ''next'' (Ptr ''struct hlist_node''),
     Field ''pprev'' (Ptr ''struct hlist_node *'')]"

lemma st_hlist_node_layout [layout_simps]: "csize st_hlist_node = 16" "calign st_hlist_node = 8"
  by (simp_all add: st_hlist_node_def layout_simps layout_eval)

definition st_qspinlock :: ctype where
  "st_qspinlock = Struct [
     Field '''' (Union [
       Field ''val'' td_atomic_t,
       Field '''' (Struct [
         Field ''locked'' td_u8,
         Field ''pending'' td_u8]),
       Field '''' (Struct [
         Field ''locked_pending'' td_u16,
         Field ''tail'' td_u16])])]"

lemma st_qspinlock_layout [layout_simps]: "csize st_qspinlock = 4" "calign st_qspinlock = 4"
  by (simp_all add: st_qspinlock_def layout_simps layout_eval)

definition td_arch_spinlock_t :: ctype where "td_arch_spinlock_t = st_qspinlock"

lemma td_arch_spinlock_t_layout [layout_simps]: "csize td_arch_spinlock_t = 4" "calign td_arch_spinlock_t = 4"
  by (simp_all add: td_arch_spinlock_t_def layout_simps layout_eval)

definition st_raw_spinlock :: ctype where
  "st_raw_spinlock = Struct [
     Field ''raw_lock'' td_arch_spinlock_t]"

lemma st_raw_spinlock_layout [layout_simps]: "csize st_raw_spinlock = 4" "calign st_raw_spinlock = 4"
  by (simp_all add: st_raw_spinlock_def layout_simps layout_eval)

definition td_raw_spinlock_t :: ctype where "td_raw_spinlock_t = st_raw_spinlock"

lemma td_raw_spinlock_t_layout [layout_simps]: "csize td_raw_spinlock_t = 4" "calign td_raw_spinlock_t = 4"
  by (simp_all add: td_raw_spinlock_t_def layout_simps layout_eval)

definition st_prev_cputime :: ctype where
  "st_prev_cputime = Struct [
     Field ''utime'' td_u64,
     Field ''stime'' td_u64,
     Field ''lock'' td_raw_spinlock_t]"

lemma st_prev_cputime_layout [layout_simps]: "csize st_prev_cputime = 24" "calign st_prev_cputime = 8"
  by (simp_all add: st_prev_cputime_def layout_simps layout_eval)

definition st_seqcount :: ctype where
  "st_seqcount = Struct [
     Field ''sequence'' c_unsigned_int]"

lemma st_seqcount_layout [layout_simps]: "csize st_seqcount = 4" "calign st_seqcount = 4"
  by (simp_all add: st_seqcount_def layout_simps layout_eval)

definition td_seqcount_t :: ctype where "td_seqcount_t = st_seqcount"

lemma td_seqcount_t_layout [layout_simps]: "csize td_seqcount_t = 4" "calign td_seqcount_t = 4"
  by (simp_all add: td_seqcount_t_def layout_simps layout_eval)

definition en_vtime_state :: ctype where
  "en_vtime_state = CEnum 4 [
     (''VTIME_INACTIVE'', 0),
     (''VTIME_IDLE'', 1),
     (''VTIME_SYS'', 2),
     (''VTIME_USER'', 3),
     (''VTIME_GUEST'', 4)]"

lemma en_vtime_state_layout [layout_simps]: "csize en_vtime_state = 4" "calign en_vtime_state = 4"
  by (simp_all add: en_vtime_state_def layout_simps layout_eval)

definition st_vtime :: ctype where
  "st_vtime = Struct [
     Field ''seqcount'' td_seqcount_t,
     Field ''starttime'' c_unsigned_long_long,
     Field ''state'' en_vtime_state,
     Field ''cpu'' c_unsigned_int,
     Field ''utime'' td_u64,
     Field ''stime'' td_u64,
     Field ''gtime'' td_u64]"

lemma st_vtime_layout [layout_simps]: "csize st_vtime = 48" "calign st_vtime = 8"
  by (simp_all add: st_vtime_def layout_simps layout_eval)

definition st_rb_root :: ctype where
  "st_rb_root = Struct [
     Field ''rb_node'' (Ptr ''struct rb_node'')]"

lemma st_rb_root_layout [layout_simps]: "csize st_rb_root = 8" "calign st_rb_root = 8"
  by (simp_all add: st_rb_root_def layout_simps layout_eval)

definition st_rb_root_cached :: ctype where
  "st_rb_root_cached = Struct [
     Field ''rb_root'' st_rb_root,
     Field ''rb_leftmost'' (Ptr ''struct rb_node'')]"

lemma st_rb_root_cached_layout [layout_simps]: "csize st_rb_root_cached = 16" "calign st_rb_root_cached = 8"
  by (simp_all add: st_rb_root_cached_def layout_simps layout_eval)

definition st_timerqueue_head :: ctype where
  "st_timerqueue_head = Struct [
     Field ''rb_root'' st_rb_root_cached]"

lemma st_timerqueue_head_layout [layout_simps]: "csize st_timerqueue_head = 16" "calign st_timerqueue_head = 8"
  by (simp_all add: st_timerqueue_head_def layout_simps layout_eval)

definition st_posix_cputimer_base :: ctype where
  "st_posix_cputimer_base = Struct [
     Field ''nextevt'' td_u64,
     Field ''tqhead'' st_timerqueue_head]"

lemma st_posix_cputimer_base_layout [layout_simps]: "csize st_posix_cputimer_base = 24" "calign st_posix_cputimer_base = 8"
  by (simp_all add: st_posix_cputimer_base_def layout_simps layout_eval)

definition st_posix_cputimers :: ctype where
  "st_posix_cputimers = Struct [
     Field ''bases'' (Arr st_posix_cputimer_base 3),
     Field ''timers_active'' c_unsigned_int,
     Field ''expiry_active'' c_unsigned_int]"

lemma st_posix_cputimers_layout [layout_simps]: "csize st_posix_cputimers = 80" "calign st_posix_cputimers = 8"
  by (simp_all add: st_posix_cputimers_def layout_simps layout_eval)

definition st_callback_head :: ctype where
  "st_callback_head = Struct [
     Field ''next'' (Ptr ''struct callback_head''),
     Field ''func'' (Ptr ''void (struct callback_head *)'')]"

lemma st_callback_head_layout [layout_simps]: "csize st_callback_head = 16" "calign st_callback_head = 8"
  by (simp_all add: st_callback_head_def layout_simps layout_eval)

definition st_optimistic_spin_queue :: ctype where
  "st_optimistic_spin_queue = Struct [
     Field ''tail'' td_atomic_t]"

lemma st_optimistic_spin_queue_layout [layout_simps]: "csize st_optimistic_spin_queue = 4" "calign st_optimistic_spin_queue = 4"
  by (simp_all add: st_optimistic_spin_queue_def layout_simps layout_eval)

definition st_mutex :: ctype where
  "st_mutex = Struct [
     Field ''owner'' td_atomic_long_t,
     Field ''wait_lock'' td_raw_spinlock_t,
     Field ''osq'' st_optimistic_spin_queue,
     Field ''wait_list'' st_list_head]"

lemma st_mutex_layout [layout_simps]: "csize st_mutex = 32" "calign st_mutex = 8"
  by (simp_all add: st_mutex_def layout_simps layout_eval)

definition st_posix_cputimers_work :: ctype where
  "st_posix_cputimers_work = Struct [
     Field ''work'' st_callback_head,
     Field ''mutex'' st_mutex,
     Field ''scheduled'' c_unsigned_int]"

lemma st_posix_cputimers_work_layout [layout_simps]: "csize st_posix_cputimers_work = 56" "calign st_posix_cputimers_work = 8"
  by (simp_all add: st_posix_cputimers_work_def layout_simps layout_eval)

definition st_sysv_sem :: ctype where
  "st_sysv_sem = Struct [
     Field ''undo_list'' (Ptr ''struct sem_undo_list'')]"

lemma st_sysv_sem_layout [layout_simps]: "csize st_sysv_sem = 8" "calign st_sysv_sem = 8"
  by (simp_all add: st_sysv_sem_def layout_simps layout_eval)

definition st_sysv_shm :: ctype where
  "st_sysv_shm = Struct [
     Field ''shm_clist'' st_list_head]"

lemma st_sysv_shm_layout [layout_simps]: "csize st_sysv_shm = 16" "calign st_sysv_shm = 8"
  by (simp_all add: st_sysv_shm_def layout_simps layout_eval)

definition td_sigset_t :: ctype where
  "td_sigset_t = Struct [
     Field ''sig'' (Arr c_unsigned_long 1)]"

lemma td_sigset_t_layout [layout_simps]: "csize td_sigset_t = 8" "calign td_sigset_t = 8"
  by (simp_all add: td_sigset_t_def layout_simps layout_eval)

definition st_sigpending :: ctype where
  "st_sigpending = Struct [
     Field ''list'' st_list_head,
     Field ''signal'' td_sigset_t]"

lemma st_sigpending_layout [layout_simps]: "csize st_sigpending = 24" "calign st_sigpending = 8"
  by (simp_all add: st_sigpending_def layout_simps layout_eval)

definition td___kernel_ulong_t :: ctype where "td___kernel_ulong_t = c_unsigned_long"

lemma td___kernel_ulong_t_layout [layout_simps]: "csize td___kernel_ulong_t = 8" "calign td___kernel_ulong_t = 8"
  by (simp_all add: td___kernel_ulong_t_def layout_simps layout_eval)

definition td___kernel_size_t :: ctype where "td___kernel_size_t = td___kernel_ulong_t"

lemma td___kernel_size_t_layout [layout_simps]: "csize td___kernel_size_t = 8" "calign td___kernel_size_t = 8"
  by (simp_all add: td___kernel_size_t_def layout_simps layout_eval)

definition td_size_t :: ctype where "td_size_t = td___kernel_size_t"

lemma td_size_t_layout [layout_simps]: "csize td_size_t = 8" "calign td_size_t = 8"
  by (simp_all add: td_size_t_def layout_simps layout_eval)

definition td___kernel_uid32_t :: ctype where "td___kernel_uid32_t = c_unsigned_int"

lemma td___kernel_uid32_t_layout [layout_simps]: "csize td___kernel_uid32_t = 4" "calign td___kernel_uid32_t = 4"
  by (simp_all add: td___kernel_uid32_t_def layout_simps layout_eval)

definition td_uid_t :: ctype where "td_uid_t = td___kernel_uid32_t"

lemma td_uid_t_layout [layout_simps]: "csize td_uid_t = 4" "calign td_uid_t = 4"
  by (simp_all add: td_uid_t_def layout_simps layout_eval)

definition td_kuid_t :: ctype where
  "td_kuid_t = Struct [
     Field ''val'' td_uid_t]"

lemma td_kuid_t_layout [layout_simps]: "csize td_kuid_t = 4" "calign td_kuid_t = 4"
  by (simp_all add: td_kuid_t_def layout_simps layout_eval)

definition st_seccomp :: ctype where
  "st_seccomp = Struct [
     Field ''mode'' c_int,
     Field ''filter_count'' td_atomic_t,
     Field ''filter'' (Ptr ''struct seccomp_filter'')]"

lemma st_seccomp_layout [layout_simps]: "csize st_seccomp = 16" "calign st_seccomp = 8"
  by (simp_all add: st_seccomp_def layout_simps layout_eval)

definition st_syscall_user_dispatch :: ctype where
  "st_syscall_user_dispatch = Struct [
     Field ''selector'' (Ptr ''char''),
     Field ''offset'' c_unsigned_long,
     Field ''len'' c_unsigned_long,
     Field ''on_dispatch'' td_bool]"

lemma st_syscall_user_dispatch_layout [layout_simps]: "csize st_syscall_user_dispatch = 32" "calign st_syscall_user_dispatch = 8"
  by (simp_all add: st_syscall_user_dispatch_def layout_simps layout_eval)

definition st_spinlock :: ctype where
  "st_spinlock = Struct [
     Field '''' (Union [
       Field ''rlock'' st_raw_spinlock])]"

lemma st_spinlock_layout [layout_simps]: "csize st_spinlock = 4" "calign st_spinlock = 4"
  by (simp_all add: st_spinlock_def layout_simps layout_eval)

definition td_spinlock_t :: ctype where "td_spinlock_t = st_spinlock"

lemma td_spinlock_t_layout [layout_simps]: "csize td_spinlock_t = 4" "calign td_spinlock_t = 4"
  by (simp_all add: td_spinlock_t_def layout_simps layout_eval)

definition st_wake_q_node :: ctype where
  "st_wake_q_node = Struct [
     Field ''next'' (Ptr ''struct wake_q_node'')]"

lemma st_wake_q_node_layout [layout_simps]: "csize st_wake_q_node = 8" "calign st_wake_q_node = 8"
  by (simp_all add: st_wake_q_node_def layout_simps layout_eval)

definition st_task_io_accounting :: ctype where
  "st_task_io_accounting = Struct [
     Field ''rchar'' td_u64,
     Field ''wchar'' td_u64,
     Field ''syscr'' td_u64,
     Field ''syscw'' td_u64,
     Field ''read_bytes'' td_u64,
     Field ''write_bytes'' td_u64,
     Field ''cancelled_write_bytes'' td_u64]"

lemma st_task_io_accounting_layout [layout_simps]: "csize st_task_io_accounting = 56" "calign st_task_io_accounting = 8"
  by (simp_all add: st_task_io_accounting_def layout_simps layout_eval)

definition td_nodemask_t :: ctype where
  "td_nodemask_t = Struct [
     Field ''bits'' (Arr c_unsigned_long 16)]"

lemma td_nodemask_t_layout [layout_simps]: "csize td_nodemask_t = 128" "calign td_nodemask_t = 8"
  by (simp_all add: td_nodemask_t_def layout_simps layout_eval)

definition st_seqcount_spinlock :: ctype where
  "st_seqcount_spinlock = Struct [
     Field ''seqcount'' td_seqcount_t]"

lemma st_seqcount_spinlock_layout [layout_simps]: "csize st_seqcount_spinlock = 4" "calign st_seqcount_spinlock = 4"
  by (simp_all add: st_seqcount_spinlock_def layout_simps layout_eval)

definition td_seqcount_spinlock_t :: ctype where "td_seqcount_spinlock_t = st_seqcount_spinlock"

lemma td_seqcount_spinlock_t_layout [layout_simps]: "csize td_seqcount_spinlock_t = 4" "calign td_seqcount_spinlock_t = 4"
  by (simp_all add: td_seqcount_spinlock_t_def layout_simps layout_eval)

definition st_arch_tlbflush_unmap_batch :: ctype where
  "st_arch_tlbflush_unmap_batch = Struct [
     Field ''cpumask'' st_cpumask,
     Field ''unmapped_pages'' td_bool]"

lemma st_arch_tlbflush_unmap_batch_layout [layout_simps]: "csize st_arch_tlbflush_unmap_batch = 1032" "calign st_arch_tlbflush_unmap_batch = 8"
  by (simp_all add: st_arch_tlbflush_unmap_batch_def layout_simps layout_eval)

definition st_tlbflush_unmap_batch :: ctype where
  "st_tlbflush_unmap_batch = Struct [
     Field ''arch'' st_arch_tlbflush_unmap_batch,
     Field ''flush_required'' td_bool,
     Field ''writable'' td_bool]"

lemma st_tlbflush_unmap_batch_layout [layout_simps]: "csize st_tlbflush_unmap_batch = 1040" "calign st_tlbflush_unmap_batch = 8"
  by (simp_all add: st_tlbflush_unmap_batch_def layout_simps layout_eval)

definition st_page_frag :: ctype where
  "st_page_frag = Struct [
     Field ''page'' (Ptr ''struct page''),
     Field ''offset'' td___u32,
     Field ''size'' td___u32]"

lemma st_page_frag_layout [layout_simps]: "csize st_page_frag = 16" "calign st_page_frag = 8"
  by (simp_all add: st_page_frag_def layout_simps layout_eval)

definition st_latency_record :: ctype where
  "st_latency_record = Struct [
     Field ''backtrace'' (Arr c_unsigned_long 12),
     Field ''count'' c_unsigned_int,
     Field ''time'' c_unsigned_long,
     Field ''max'' c_unsigned_long]"

lemma st_latency_record_layout [layout_simps]: "csize st_latency_record = 120" "calign st_latency_record = 8"
  by (simp_all add: st_latency_record_def layout_simps layout_eval)

definition st_kmap_ctrl :: ctype where
  "st_kmap_ctrl = Struct []"

lemma st_kmap_ctrl_layout [layout_simps]: "csize st_kmap_ctrl = 0" "calign st_kmap_ctrl = 1"
  by (simp_all add: st_kmap_ctrl_def layout_simps layout_eval)

definition st_timer_list :: ctype where
  "st_timer_list = Struct [
     Field ''entry'' st_hlist_node,
     Field ''expires'' c_unsigned_long,
     Field ''function'' (Ptr ''void (struct timer_list *)''),
     Field ''flags'' td_u32]"

lemma st_timer_list_layout [layout_simps]: "csize st_timer_list = 40" "calign st_timer_list = 8"
  by (simp_all add: st_timer_list_def layout_simps layout_eval)

definition st_llist_head :: ctype where
  "st_llist_head = Struct [
     Field ''first'' (Ptr ''struct llist_node'')]"

lemma st_llist_head_layout [layout_simps]: "csize st_llist_head = 8" "calign st_llist_head = 8"
  by (simp_all add: st_llist_head_def layout_simps layout_eval)

definition st_da_monitor :: ctype where
  "st_da_monitor = Struct [
     Field ''monitoring'' td_bool,
     Field ''curr_state'' c_unsigned_int]"

lemma st_da_monitor_layout [layout_simps]: "csize st_da_monitor = 8" "calign st_da_monitor = 4"
  by (simp_all add: st_da_monitor_def layout_simps layout_eval)

definition st_ltl_monitor :: ctype where
  "st_ltl_monitor = Struct []"

lemma st_ltl_monitor_layout [layout_simps]: "csize st_ltl_monitor = 0" "calign st_ltl_monitor = 1"
  by (simp_all add: st_ltl_monitor_def layout_simps layout_eval)

definition un_rv_task_monitor :: ctype where
  "un_rv_task_monitor = Union [
     Field ''da_mon'' st_da_monitor,
     Field ''ltl_mon'' st_ltl_monitor]"

lemma un_rv_task_monitor_layout [layout_simps]: "csize un_rv_task_monitor = 8" "calign un_rv_task_monitor = 4"
  by (simp_all add: un_rv_task_monitor_def layout_simps layout_eval)

definition st_desc_struct :: ctype where
  "st_desc_struct = Struct [
     Field ''limit0'' td_u16,
     Field ''base0'' td_u16,
     Bits ''base1'' td_u16 8,
     Bits ''type'' td_u16 4,
     Bits ''s'' td_u16 1,
     Bits ''dpl'' td_u16 2,
     Bits ''p'' td_u16 1,
     Bits ''limit1'' td_u16 4,
     Bits ''avl'' td_u16 1,
     Bits ''l'' td_u16 1,
     Bits ''d'' td_u16 1,
     Bits ''g'' td_u16 1,
     Bits ''base2'' td_u16 8]"

lemma st_desc_struct_layout [layout_simps]: "csize st_desc_struct = 8" "calign st_desc_struct = 2"
  by (simp_all add: st_desc_struct_def layout_simps layout_eval)

definition st_thread_shstk :: ctype where
  "st_thread_shstk = Struct [
     Field ''base'' td_u64,
     Field ''size'' td_u64]"

lemma st_thread_shstk_layout [layout_simps]: "csize st_thread_shstk = 16" "calign st_thread_shstk = 8"
  by (simp_all add: st_thread_shstk_def layout_simps layout_eval)

definition st_thread_struct :: ctype where
  "st_thread_struct = Struct [
     Field ''tls_array'' (Arr st_desc_struct 3),
     Field ''sp'' c_unsigned_long,
     Field ''es'' c_unsigned_short,
     Field ''ds'' c_unsigned_short,
     Field ''fsindex'' c_unsigned_short,
     Field ''gsindex'' c_unsigned_short,
     Field ''fsbase'' c_unsigned_long,
     Field ''gsbase'' c_unsigned_long,
     Field ''ptrace_bps'' (Arr (Ptr ''struct perf_event'') 4),
     Field ''virtual_dr6'' c_unsigned_long,
     Field ''ptrace_dr7'' c_unsigned_long,
     Field ''cr2'' c_unsigned_long,
     Field ''trap_nr'' c_unsigned_long,
     Field ''error_code'' c_unsigned_long,
     Field ''io_bitmap'' (Ptr ''struct io_bitmap''),
     Field ''iopl_emul'' c_unsigned_long,
     Bits ''iopl_warn'' c_unsigned_int 1,
     Field ''pkru'' td_u32,
     Field ''features'' c_unsigned_long,
     Field ''features_locked'' c_unsigned_long,
     Field ''shstk'' st_thread_shstk]"

lemma st_thread_struct_layout [layout_simps]: "csize st_thread_struct = 184" "calign st_thread_struct = 8"
  by (simp_all add: st_thread_struct_def layout_simps layout_eval)

definition st_task_struct_members_1 :: "cmember list" where
  "st_task_struct_members_1 = [
     Field ''thread_info'' st_thread_info,
     Field ''__state'' c_unsigned_int,
     Field ''saved_state'' c_unsigned_int,
     Field ''stack'' (Ptr ''void''),
     Field ''usage'' td_refcount_t,
     Field ''flags'' c_unsigned_int,
     Field ''ptrace'' c_unsigned_int,
     Field ''on_cpu'' c_int,
     Field ''wake_entry'' st___call_single_node,
     Field ''wakee_flips'' c_unsigned_int,
     Field ''wakee_flip_decay_ts'' c_unsigned_long,
     Field ''last_wakee'' (Ptr ''struct task_struct''),
     Field ''recent_used_cpu'' c_int,
     Field ''wake_cpu'' c_int,
     Field ''on_rq'' c_int,
     Field ''prio'' c_int,
     Field ''static_prio'' c_int,
     Field ''normal_prio'' c_int,
     Field ''rt_priority'' c_unsigned_int,
     Field ''se'' st_sched_entity,
     Field ''rt'' st_sched_rt_entity,
     Field ''dl'' st_sched_dl_entity,
     Field ''dl_server'' (Ptr ''struct sched_dl_entity''),
     Field ''scx'' st_sched_ext_entity,
     Field ''sched_class'' (Ptr ''struct sched_class''),
     Field ''core_node'' st_rb_node,
     Field ''core_cookie'' c_unsigned_long,
     Field ''core_occupation'' c_unsigned_int,
     Field ''sched_task_group'' (Ptr ''struct task_group''),
     Field ''uclamp_req'' (Arr st_uclamp_se 2),
     Field ''uclamp'' (Arr st_uclamp_se 2),
     Field ''stats'' st_sched_statistics,
     Field ''preempt_notifiers'' st_hlist_head,
     Field ''btrace_seq'' c_unsigned_int,
     Field ''policy'' c_unsigned_int,
     Field ''max_allowed_capacity'' c_unsigned_long,
     Field ''nr_cpus_allowed'' c_int,
     Field ''cpus_ptr'' (Ptr ''cpumask_t''),
     Field ''user_cpus_ptr'' (Ptr ''cpumask_t''),
     Field ''cpus_mask'' td_cpumask_t,
     Field ''migration_pending'' (Ptr ''void''),
     Field ''migration_disabled'' c_unsigned_short,
     Field ''migration_flags'' c_unsigned_short,
     Field ''rcu_read_lock_nesting'' c_int,
     Field ''rcu_read_unlock_special'' un_rcu_special,
     Field ''rcu_node_entry'' st_list_head,
     Field ''rcu_blocked_node'' (Ptr ''struct rcu_node''),
     Field ''rcu_tasks_nvcsw'' c_unsigned_long,
     Field ''rcu_tasks_holdout'' td_u8,
     Field ''rcu_tasks_idx'' td_u8,
     Field ''rcu_tasks_idle_cpu'' c_int,
     Field ''rcu_tasks_holdout_list'' st_list_head,
     Field ''rcu_tasks_exit_cpu'' c_int,
     Field ''rcu_tasks_exit_list'' st_list_head,
     Field ''trc_reader_nesting'' c_int,
     Field ''trc_ipi_to_cpu'' c_int,
     Field ''trc_reader_special'' un_rcu_special,
     Field ''trc_holdout_list'' st_list_head,
     Field ''trc_blkd_node'' st_list_head,
     Field ''trc_blkd_cpu'' c_int,
     Field ''sched_info'' st_sched_info,
     Field ''tasks'' st_list_head,
     Field ''pushable_tasks'' st_plist_node,
     Field ''pushable_dl_tasks'' st_rb_node,
     Field ''mm'' (Ptr ''struct mm_struct''),
     Field ''active_mm'' (Ptr ''struct mm_struct''),
     Field ''faults_disabled_mapping'' (Ptr ''struct address_space''),
     Field ''exit_state'' c_int,
     Field ''exit_code'' c_int,
     Field ''exit_signal'' c_int,
     Field ''pdeath_signal'' c_int,
     Field ''jobctl'' c_unsigned_long,
     Field ''personality'' c_unsigned_int,
     Bits ''sched_reset_on_fork'' c_unsigned_int 1,
     Bits ''sched_contributes_to_load'' c_unsigned_int 1,
     Bits ''sched_migrated'' c_unsigned_int 1,
     Bits ''sched_task_hot'' c_unsigned_int 1,
     Bits '''' c_long 28,
     Bits ''sched_remote_wakeup'' c_unsigned_int 1,
     Bits ''sched_rt_mutex'' c_unsigned_int 1,
     Bits ''in_execve'' c_unsigned_int 1,
     Bits ''in_iowait'' c_unsigned_int 1,
     Bits ''restore_sigmask'' c_unsigned_int 1,
     Bits ''in_user_fault'' c_unsigned_int 1,
     Bits ''in_lru_fault'' c_unsigned_int 1,
     Bits ''no_cgroup_migration'' c_unsigned_int 1,
     Bits ''frozen'' c_unsigned_int 1,
     Bits ''use_memdelay'' c_unsigned_int 1,
     Bits ''in_memstall'' c_unsigned_int 1,
     Bits ''in_eventfd'' c_unsigned_int 1,
     Bits ''pasid_activated'' c_unsigned_int 1,
     Bits ''reported_split_lock'' c_unsigned_int 1,
     Bits ''in_thrashing'' c_unsigned_int 1,
     Bits ''in_nf_duplicate'' c_unsigned_int 1,
     Field ''atomic_flags'' c_unsigned_long,
     Field ''restart_block'' st_restart_block,
     Field ''pid'' td_pid_t,
     Field ''tgid'' td_pid_t,
     Field ''stack_canary'' c_unsigned_long,
     Field ''real_parent'' (Ptr ''struct task_struct''),
     Field ''parent'' (Ptr ''struct task_struct''),
     Field ''children'' st_list_head,
     Field ''sibling'' st_list_head,
     Field ''group_leader'' (Ptr ''struct task_struct''),
     Field ''ptraced'' st_list_head,
     Field ''ptrace_entry'' st_list_head,
     Field ''thread_pid'' (Ptr ''struct pid''),
     Field ''pid_links'' (Arr st_hlist_node 4),
     Field ''thread_node'' st_list_head,
     Field ''vfork_done'' (Ptr ''struct completion''),
     Field ''set_child_tid'' (Ptr ''int''),
     Field ''clear_child_tid'' (Ptr ''int''),
     Field ''worker_private'' (Ptr ''void''),
     Field ''utime'' td_u64,
     Field ''stime'' td_u64,
     Field ''gtime'' td_u64,
     Field ''prev_cputime'' st_prev_cputime,
     Field ''vtime'' st_vtime,
     Field ''tick_dep_mask'' td_atomic_t,
     Field ''nvcsw'' c_unsigned_long,
     Field ''nivcsw'' c_unsigned_long,
     Field ''start_time'' td_u64,
     Field ''start_boottime'' td_u64,
     Field ''min_flt'' c_unsigned_long,
     Field ''maj_flt'' c_unsigned_long,
     Field ''posix_cputimers'' st_posix_cputimers,
     Field ''posix_cputimers_work'' st_posix_cputimers_work,
     Field ''ptracer_cred'' (Ptr ''struct cred''),
     Field ''real_cred'' (Ptr ''struct cred''),
     Field ''cred'' (Ptr ''struct cred''),
     Field ''cached_requested_key'' (Ptr ''struct key''),
     Field ''comm'' (Arr c_char 16),
     Field ''nameidata'' (Ptr ''struct nameidata''),
     Field ''sysvsem'' st_sysv_sem,
     Field ''sysvshm'' st_sysv_shm,
     Field ''last_switch_count'' c_unsigned_long,
     Field ''last_switch_time'' c_unsigned_long,
     Field ''fs'' (Ptr ''struct fs_struct''),
     Field ''files'' (Ptr ''struct files_struct''),
     Field ''io_uring'' (Ptr ''struct io_uring_task'')]"

definition st_task_struct_members_2 :: "cmember list" where
  "st_task_struct_members_2 = [
     Field ''nsproxy'' (Ptr ''struct nsproxy''),
     Field ''signal'' (Ptr ''struct signal_struct''),
     Field ''sighand'' (Ptr ''struct sighand_struct''),
     Field ''blocked'' td_sigset_t,
     Field ''real_blocked'' td_sigset_t,
     Field ''saved_sigmask'' td_sigset_t,
     Field ''pending'' st_sigpending,
     Field ''sas_ss_sp'' c_unsigned_long,
     Field ''sas_ss_size'' td_size_t,
     Field ''sas_ss_flags'' c_unsigned_int,
     Field ''task_works'' (Ptr ''struct callback_head''),
     Field ''audit_context'' (Ptr ''struct audit_context''),
     Field ''loginuid'' td_kuid_t,
     Field ''sessionid'' c_unsigned_int,
     Field ''seccomp'' st_seccomp,
     Field ''syscall_dispatch'' st_syscall_user_dispatch,
     Field ''parent_exec_id'' td_u64,
     Field ''self_exec_id'' td_u64,
     Field ''alloc_lock'' td_spinlock_t,
     Field ''pi_lock'' td_raw_spinlock_t,
     Field ''wake_q'' st_wake_q_node,
     Field ''pi_waiters'' st_rb_root_cached,
     Field ''pi_top_task'' (Ptr ''struct task_struct''),
     Field ''pi_blocked_on'' (Ptr ''struct rt_mutex_waiter''),
     Field ''blocked_on'' (Ptr ''struct mutex''),
     Field ''blocker'' c_unsigned_long,
     Field ''in_ubsan'' c_unsigned_int,
     Field ''journal_info'' (Ptr ''void''),
     Field ''bio_list'' (Ptr ''struct bio_list''),
     Field ''plug'' (Ptr ''struct blk_plug''),
     Field ''reclaim_state'' (Ptr ''struct reclaim_state''),
     Field ''io_context'' (Ptr ''struct io_context''),
     Field ''capture_control'' (Ptr ''struct capture_control''),
     Field ''ptrace_message'' c_unsigned_long,
     Field ''last_siginfo'' (Ptr ''kernel_siginfo_t''),
     Field ''ioac'' st_task_io_accounting,
     Field ''psi_flags'' c_unsigned_int,
     Field ''acct_rss_mem1'' td_u64,
     Field ''acct_vm_mem1'' td_u64,
     Field ''acct_timexpd'' td_u64,
     Field ''mems_allowed'' td_nodemask_t,
     Field ''mems_allowed_seq'' td_seqcount_spinlock_t,
     Field ''cpuset_mem_spread_rotor'' c_int,
     Field ''cgroups'' (Ptr ''struct css_set''),
     Field ''cg_list'' st_list_head,
     Field ''closid'' td_u32,
     Field ''rmid'' td_u32,
     Field ''robust_list'' (Ptr ''struct robust_list_head''),
     Field ''compat_robust_list'' (Ptr ''struct compat_robust_list_head''),
     Field ''pi_state_list'' st_list_head,
     Field ''pi_state_cache'' (Ptr ''struct futex_pi_state''),
     Field ''futex_exit_mutex'' st_mutex,
     Field ''futex_state'' c_unsigned_int,
     Field ''perf_recursion'' (Arr td_u8 4),
     Field ''perf_event_ctxp'' (Ptr ''struct perf_event_context''),
     Field ''perf_event_mutex'' st_mutex,
     Field ''perf_event_list'' st_list_head,
     Field ''perf_ctx_data'' (Ptr ''struct perf_ctx_data''),
     Field ''mempolicy'' (Ptr ''struct mempolicy''),
     Field ''il_prev'' c_short,
     Field ''il_weight'' td_u8,
     Field ''pref_node_fork'' c_short,
     Field ''numa_scan_seq'' c_int,
     Field ''numa_scan_period'' c_unsigned_int,
     Field ''numa_scan_period_max'' c_unsigned_int,
     Field ''numa_preferred_nid'' c_int,
     Field ''numa_migrate_retry'' c_unsigned_long,
     Field ''node_stamp'' td_u64,
     Field ''last_task_numa_placement'' td_u64,
     Field ''last_sum_exec_runtime'' td_u64,
     Field ''numa_work'' st_callback_head,
     Field ''numa_group'' (Ptr ''struct numa_group''),
     Field ''numa_faults'' (Ptr ''long unsigned int''),
     Field ''total_numa_faults'' c_unsigned_long,
     Field ''numa_faults_locality'' (Arr c_unsigned_long 3),
     Field ''numa_pages_migrated'' c_unsigned_long,
     Field ''rseq'' (Ptr ''struct rseq''),
     Field ''rseq_len'' td_u32,
     Field ''rseq_sig'' td_u32,
     Field ''rseq_event_mask'' c_unsigned_long,
     Field ''mm_cid'' c_int,
     Field ''last_mm_cid'' c_int,
     Field ''migrate_from_cpu'' c_int,
     Field ''mm_cid_active'' c_int,
     Field ''cid_work'' st_callback_head,
     Field ''tlb_ubc'' st_tlbflush_unmap_batch,
     Field ''splice_pipe'' (Ptr ''struct pipe_inode_info''),
     Field ''task_frag'' st_page_frag,
     Field ''delays'' (Ptr ''struct task_delay_info''),
     Field ''nr_dirtied'' c_int,
     Field ''nr_dirtied_pause'' c_int,
     Field ''dirty_paused_when'' c_unsigned_long,
     Field ''latency_record_count'' c_int,
     Field ''latency_record'' (Arr st_latency_record 32),
     Field ''timer_slack_ns'' td_u64,
     Field ''default_timer_slack_ns'' td_u64,
     Field ''curr_ret_stack'' c_int,
     Field ''curr_ret_depth'' c_int,
     Field ''ret_stack'' (Ptr ''long unsigned int''),
     Field ''ftrace_timestamp'' c_unsigned_long_long,
     Field ''ftrace_sleeptime'' c_unsigned_long_long,
     Field ''trace_overrun'' td_atomic_t,
     Field ''tracing_graph_pause'' td_atomic_t,
     Field ''trace_recursion'' c_unsigned_long,
     Field ''memcg_in_oom'' (Ptr ''struct mem_cgroup''),
     Field ''memcg_nr_pages_over_high'' c_unsigned_int,
     Field ''active_memcg'' (Ptr ''struct mem_cgroup''),
     Field ''objcg'' (Ptr ''struct obj_cgroup''),
     Field ''throttle_disk'' (Ptr ''struct gendisk''),
     Field ''utask'' (Ptr ''struct uprobe_task''),
     Field ''sequential_io'' c_unsigned_int,
     Field ''sequential_io_avg'' c_unsigned_int,
     Field ''kmap_ctrl'' st_kmap_ctrl,
     Field ''rcu'' st_callback_head,
     Field ''rcu_users'' td_refcount_t,
     Field ''pagefault_disabled'' c_int,
     Field ''oom_reaper_list'' (Ptr ''struct task_struct''),
     Field ''oom_reaper_timer'' st_timer_list,
     Field ''stack_vm_area'' (Ptr ''struct vm_struct''),
     Field ''stack_refcount'' td_refcount_t,
     Field ''patch_state'' c_int,
     Field ''security'' (Ptr ''void''),
     Field ''bpf_storage'' (Ptr ''struct bpf_local_storage''),
     Field ''bpf_ctx'' (Ptr ''struct bpf_run_ctx''),
     Field ''bpf_net_context'' (Ptr ''struct bpf_net_context''),
     Field ''mce_vaddr'' (Ptr ''void''),
     Field ''mce_kflags'' td___u64,
     Field ''mce_addr'' td_u64,
     Bits ''mce_ripv'' td___u64 1,
     Bits ''mce_whole_page'' td___u64 1,
     Bits ''__mce_reserved'' td___u64 62,
     Field ''mce_kill_me'' st_callback_head,
     Field ''mce_count'' c_int,
     Field ''kretprobe_instances'' st_llist_head,
     Field ''rethooks'' st_llist_head,
     Field ''l1d_flush_kill'' st_callback_head,
     Field ''rv'' (Arr un_rv_task_monitor 2),
     Field ''user_event_mm'' (Ptr ''struct user_event_mm''),
     Field ''thread'' st_thread_struct,
     Bits '''' c_long 64]"

definition st_task_struct :: ctype where
  "st_task_struct = Struct (st_task_struct_members_1 @ st_task_struct_members_2)"

lemma st_task_struct_layout [layout_simps]: "csize st_task_struct = 9728" "calign st_task_struct = 8"
  by (simp_all add: st_task_struct_def st_task_struct_members_1_def st_task_struct_members_2_def layout_simps layout_eval)

end
