(* ===== verification/VmMem.thy ===== *)
theory VmMem
  imports VmTask
begin

text \<open>
  Kernel type declarations of \<open>internal/bpf/c/headers/vmlinux.h\<close>: memory: the control group, zone list and node mask an \<open>oom_control\<close> points to, and the address space of a task.
  Each definition is one declaration of the header, member by member: \<open>st_\<close>, \<open>un_\<close> and \<open>en_\<close>
  name a structure, a union and an enumeration, \<open>td_\<close> a typedef. The lemma after a
  definition computes its size and alignment, which the layouts of the types that embed it use.
\<close>

definition st_zoneref :: ctype where
  "st_zoneref = Struct [
     Field ''zone'' (Ptr ''struct zone''),
     Field ''zone_idx'' c_int]"

lemma st_zoneref_layout [layout_simps]: "csize st_zoneref = 16" "calign st_zoneref = 8"
  by (simp_all add: st_zoneref_def layout_simps layout_eval)

definition st_zonelist :: ctype where
  "st_zonelist = Struct [
     Field ''_zonerefs'' (Arr st_zoneref 5121)]"

lemma st_zonelist_layout [layout_simps]: "csize st_zonelist = 81936" "calign st_zonelist = 8"
  by (simp_all add: st_zonelist_def layout_simps layout_eval)

definition td_seqlock_t :: ctype where
  "td_seqlock_t = Struct [
     Field ''seqcount'' td_seqcount_spinlock_t,
     Field ''lock'' td_spinlock_t]"

lemma td_seqlock_t_layout [layout_simps]: "csize td_seqlock_t = 8" "calign td_seqlock_t = 4"
  by (simp_all add: td_seqlock_t_def layout_simps layout_eval)

definition st_cacheline_padding :: ctype where
  "st_cacheline_padding = Struct [
     Field ''x'' (Arr c_char 0)]"

lemma st_cacheline_padding_layout [layout_simps]: "csize st_cacheline_padding = 0" "calign st_cacheline_padding = 1"
  by (simp_all add: st_cacheline_padding_def layout_simps layout_eval)

definition st_free_area :: ctype where
  "st_free_area = Struct [
     Field ''free_list'' (Arr st_list_head 6),
     Field ''nr_free'' c_unsigned_long]"

lemma st_free_area_layout [layout_simps]: "csize st_free_area = 104" "calign st_free_area = 8"
  by (simp_all add: st_free_area_def layout_simps layout_eval)

definition td_work_func_t :: ctype where "td_work_func_t = Ptr ''void (struct work_struct *)''"

lemma td_work_func_t_layout [layout_simps]: "csize td_work_func_t = 8" "calign td_work_func_t = 8"
  by (simp_all add: td_work_func_t_def layout_simps layout_eval)

definition st_work_struct :: ctype where
  "st_work_struct = Struct [
     Field ''data'' td_atomic_long_t,
     Field ''entry'' st_list_head,
     Field ''func'' td_work_func_t]"

lemma st_work_struct_layout [layout_simps]: "csize st_work_struct = 32" "calign st_work_struct = 8"
  by (simp_all add: st_work_struct_def layout_simps layout_eval)

definition st_zone :: ctype where
  "st_zone = Struct [
     Field ''_watermark'' (Arr c_unsigned_long 4),
     Field ''watermark_boost'' c_unsigned_long,
     Field ''nr_reserved_highatomic'' c_unsigned_long,
     Field ''nr_free_highatomic'' c_unsigned_long,
     Field ''lowmem_reserve'' (Arr c_long 5),
     Field ''node'' c_int,
     Field ''zone_pgdat'' (Ptr ''struct pglist_data''),
     Field ''per_cpu_pageset'' (Ptr ''struct per_cpu_pages''),
     Field ''per_cpu_zonestats'' (Ptr ''struct per_cpu_zonestat''),
     Field ''pageset_high_min'' c_int,
     Field ''pageset_high_max'' c_int,
     Field ''pageset_batch'' c_int,
     Field ''zone_start_pfn'' c_unsigned_long,
     Field ''managed_pages'' td_atomic_long_t,
     Field ''spanned_pages'' c_unsigned_long,
     Field ''present_pages'' c_unsigned_long,
     Field ''present_early_pages'' c_unsigned_long,
     Field ''cma_pages'' c_unsigned_long,
     Field ''name'' (Ptr ''char''),
     Field ''nr_isolate_pageblock'' c_unsigned_long,
     Field ''span_seqlock'' td_seqlock_t,
     Field ''initialized'' c_int,
     Bits '''' c_long 64,
     Bits '''' c_long 64,
     Bits '''' c_long 64,
     Bits '''' c_long 64,
     Field ''_pad1_'' st_cacheline_padding,
     Field ''free_area'' (Arr st_free_area 11),
     Field ''unaccepted_pages'' st_list_head,
     Field ''unaccepted_cleanup'' st_work_struct,
     Field ''flags'' c_unsigned_long,
     Field ''lock'' td_spinlock_t,
     Field ''trylock_free_pages'' st_llist_head,
     Field ''_pad2_'' st_cacheline_padding,
     Field ''percpu_drift_mark'' c_unsigned_long,
     Field ''compact_cached_free_pfn'' c_unsigned_long,
     Field ''compact_cached_migrate_pfn'' (Arr c_unsigned_long 2),
     Field ''compact_init_migrate_pfn'' c_unsigned_long,
     Field ''compact_init_free_pfn'' c_unsigned_long,
     Field ''compact_considered'' c_unsigned_int,
     Field ''compact_defer_shift'' c_unsigned_int,
     Field ''compact_order_failed'' c_int,
     Field ''compact_blockskip_flush'' td_bool,
     Field ''contiguous'' td_bool,
     Bits '''' c_long 0,
     Field ''_pad3_'' st_cacheline_padding,
     Field ''vm_stat'' (Arr td_atomic_long_t 12),
     Field ''vm_numa_event'' (Arr td_atomic_long_t 6),
     Bits '''' c_long 64,
     Bits '''' c_long 64,
     Bits '''' c_long 64,
     Bits '''' c_long 64,
     Bits '''' c_long 64,
     Bits '''' c_long 64]"

lemma st_zone_layout [layout_simps]: "csize st_zone = 1728" "calign st_zone = 8"
  by (simp_all add: st_zone_def layout_simps layout_eval)

definition st_percpu_ref :: ctype where
  "st_percpu_ref = Struct [
     Field ''percpu_count_ptr'' c_unsigned_long,
     Field ''data'' (Ptr ''struct percpu_ref_data'')]"

lemma st_percpu_ref_layout [layout_simps]: "csize st_percpu_ref = 16" "calign st_percpu_ref = 8"
  by (simp_all add: st_percpu_ref_def layout_simps layout_eval)

definition st_rcu_work :: ctype where
  "st_rcu_work = Struct [
     Field ''work'' st_work_struct,
     Field ''rcu'' st_callback_head,
     Field ''wq'' (Ptr ''struct workqueue_struct'')]"

lemma st_rcu_work_layout [layout_simps]: "csize st_rcu_work = 56" "calign st_rcu_work = 8"
  by (simp_all add: st_rcu_work_def layout_simps layout_eval)

definition st_cgroup_subsys_state :: ctype where
  "st_cgroup_subsys_state = Struct [
     Field ''cgroup'' (Ptr ''struct cgroup''),
     Field ''ss'' (Ptr ''struct cgroup_subsys''),
     Field ''refcnt'' st_percpu_ref,
     Field ''rstat_cpu'' (Ptr ''struct css_rstat_cpu''),
     Field ''sibling'' st_list_head,
     Field ''children'' st_list_head,
     Field ''id'' c_int,
     Field ''flags'' c_unsigned_int,
     Field ''serial_nr'' td_u64,
     Field ''online_cnt'' td_atomic_t,
     Field ''destroy_work'' st_work_struct,
     Field ''destroy_rwork'' st_rcu_work,
     Field ''parent'' (Ptr ''struct cgroup_subsys_state''),
     Field ''nr_descendants'' c_int,
     Field ''rstat_flush_next'' (Ptr ''struct cgroup_subsys_state'')]"

lemma st_cgroup_subsys_state_layout [layout_simps]: "csize st_cgroup_subsys_state = 208" "calign st_cgroup_subsys_state = 8"
  by (simp_all add: st_cgroup_subsys_state_def layout_simps layout_eval)

definition st_mem_cgroup_id :: ctype where
  "st_mem_cgroup_id = Struct [
     Field ''id'' c_int,
     Field ''ref'' td_refcount_t]"

lemma st_mem_cgroup_id_layout [layout_simps]: "csize st_mem_cgroup_id = 8" "calign st_mem_cgroup_id = 4"
  by (simp_all add: st_mem_cgroup_id_def layout_simps layout_eval)

definition st_page_counter :: ctype where
  "st_page_counter = Struct [
     Field ''usage'' td_atomic_long_t,
     Field ''failcnt'' c_unsigned_long,
     Bits '''' c_long 64,
     Bits '''' c_long 64,
     Bits '''' c_long 64,
     Bits '''' c_long 64,
     Bits '''' c_long 64,
     Bits '''' c_long 64,
     Field ''_pad1_'' st_cacheline_padding,
     Field ''emin'' c_unsigned_long,
     Field ''min_usage'' td_atomic_long_t,
     Field ''children_min_usage'' td_atomic_long_t,
     Field ''elow'' c_unsigned_long,
     Field ''low_usage'' td_atomic_long_t,
     Field ''children_low_usage'' td_atomic_long_t,
     Field ''watermark'' c_unsigned_long,
     Field ''local_watermark'' c_unsigned_long,
     Field ''_pad2_'' st_cacheline_padding,
     Field ''protection_support'' td_bool,
     Field ''track_failcnt'' td_bool,
     Field ''min'' c_unsigned_long,
     Field ''low'' c_unsigned_long,
     Field ''high'' c_unsigned_long,
     Field ''max'' c_unsigned_long,
     Field ''parent'' (Ptr ''struct page_counter''),
     Bits '''' c_long 64,
     Bits '''' c_long 64]"

lemma st_page_counter_layout [layout_simps]: "csize st_page_counter = 192" "calign st_page_counter = 8"
  by (simp_all add: st_page_counter_def layout_simps layout_eval)

definition st_vmpressure :: ctype where
  "st_vmpressure = Struct [
     Field ''scanned'' c_unsigned_long,
     Field ''reclaimed'' c_unsigned_long,
     Field ''tree_scanned'' c_unsigned_long,
     Field ''tree_reclaimed'' c_unsigned_long,
     Field ''sr_lock'' td_spinlock_t,
     Field ''events'' st_list_head,
     Field ''events_lock'' st_mutex,
     Field ''work'' st_work_struct]"

lemma st_vmpressure_layout [layout_simps]: "csize st_vmpressure = 120" "calign st_vmpressure = 8"
  by (simp_all add: st_vmpressure_def layout_simps layout_eval)

definition st_cgroup_file :: ctype where
  "st_cgroup_file = Struct [
     Field ''kn'' (Ptr ''struct kernfs_node''),
     Field ''notified_at'' c_unsigned_long,
     Field ''notify_timer'' st_timer_list]"

lemma st_cgroup_file_layout [layout_simps]: "csize st_cgroup_file = 56" "calign st_cgroup_file = 8"
  by (simp_all add: st_cgroup_file_def layout_simps layout_eval)

definition st_percpu_counter :: ctype where
  "st_percpu_counter = Struct [
     Field ''lock'' td_raw_spinlock_t,
     Field ''count'' td_s64,
     Field ''list'' st_list_head,
     Field ''counters'' (Ptr ''s32'')]"

lemma st_percpu_counter_layout [layout_simps]: "csize st_percpu_counter = 40" "calign st_percpu_counter = 8"
  by (simp_all add: st_percpu_counter_def layout_simps layout_eval)

definition st_fprop_global :: ctype where
  "st_fprop_global = Struct [
     Field ''events'' st_percpu_counter,
     Field ''period'' c_unsigned_int,
     Field ''sequence'' td_seqcount_t]"

lemma st_fprop_global_layout [layout_simps]: "csize st_fprop_global = 48" "calign st_fprop_global = 8"
  by (simp_all add: st_fprop_global_def layout_simps layout_eval)

definition st_wb_domain :: ctype where
  "st_wb_domain = Struct [
     Field ''lock'' td_spinlock_t,
     Field ''completions'' st_fprop_global,
     Field ''period_timer'' st_timer_list,
     Field ''period_time'' c_unsigned_long,
     Field ''dirty_limit_tstamp'' c_unsigned_long,
     Field ''dirty_limit'' c_unsigned_long]"

lemma st_wb_domain_layout [layout_simps]: "csize st_wb_domain = 120" "calign st_wb_domain = 8"
  by (simp_all add: st_wb_domain_def layout_simps layout_eval)

definition st_wb_completion :: ctype where
  "st_wb_completion = Struct [
     Field ''cnt'' td_atomic_t,
     Field ''waitq'' (Ptr ''wait_queue_head_t'')]"

lemma st_wb_completion_layout [layout_simps]: "csize st_wb_completion = 16" "calign st_wb_completion = 8"
  by (simp_all add: st_wb_completion_def layout_simps layout_eval)

definition st_memcg_cgwb_frn :: ctype where
  "st_memcg_cgwb_frn = Struct [
     Field ''bdi_id'' td_u64,
     Field ''memcg_id'' c_int,
     Field ''at'' td_u64,
     Field ''done'' st_wb_completion]"

lemma st_memcg_cgwb_frn_layout [layout_simps]: "csize st_memcg_cgwb_frn = 40" "calign st_memcg_cgwb_frn = 8"
  by (simp_all add: st_memcg_cgwb_frn_def layout_simps layout_eval)

definition st_deferred_split :: ctype where
  "st_deferred_split = Struct [
     Field ''split_queue_lock'' td_spinlock_t,
     Field ''split_queue'' st_list_head,
     Field ''split_queue_len'' c_unsigned_long]"

lemma st_deferred_split_layout [layout_simps]: "csize st_deferred_split = 32" "calign st_deferred_split = 8"
  by (simp_all add: st_deferred_split_def layout_simps layout_eval)

definition st_lru_gen_mm_list :: ctype where
  "st_lru_gen_mm_list = Struct [
     Field ''fifo'' st_list_head,
     Field ''lock'' td_spinlock_t]"

lemma st_lru_gen_mm_list_layout [layout_simps]: "csize st_lru_gen_mm_list = 24" "calign st_lru_gen_mm_list = 8"
  by (simp_all add: st_lru_gen_mm_list_def layout_simps layout_eval)

definition st_mem_cgroup_thresholds :: ctype where
  "st_mem_cgroup_thresholds = Struct [
     Field ''primary'' (Ptr ''struct mem_cgroup_threshold_ary''),
     Field ''spare'' (Ptr ''struct mem_cgroup_threshold_ary'')]"

lemma st_mem_cgroup_thresholds_layout [layout_simps]: "csize st_mem_cgroup_thresholds = 16" "calign st_mem_cgroup_thresholds = 8"
  by (simp_all add: st_mem_cgroup_thresholds_def layout_simps layout_eval)

definition st_mem_cgroup :: ctype where
  "st_mem_cgroup = Struct [
     Field ''css'' st_cgroup_subsys_state,
     Field ''id'' st_mem_cgroup_id,
     Bits '''' c_long 64,
     Bits '''' c_long 64,
     Bits '''' c_long 64,
     Bits '''' c_long 64,
     Bits '''' c_long 64,
     Field ''memory'' st_page_counter,
     Field '''' (Union [
       Field ''swap'' st_page_counter,
       Field ''memsw'' st_page_counter]),
     Field ''memory_peaks'' st_list_head,
     Field ''swap_peaks'' st_list_head,
     Field ''peaks_lock'' td_spinlock_t,
     Field ''high_work'' st_work_struct,
     Field ''zswap_max'' c_unsigned_long,
     Field ''zswap_writeback'' td_bool,
     Field ''vmpressure'' st_vmpressure,
     Field ''oom_group'' td_bool,
     Field ''swappiness'' c_int,
     Field ''events_file'' st_cgroup_file,
     Field ''events_local_file'' st_cgroup_file,
     Field ''swap_events_file'' st_cgroup_file,
     Field ''vmstats'' (Ptr ''struct memcg_vmstats''),
     Field ''memory_events'' (Arr td_atomic_long_t 9),
     Field ''memory_events_local'' (Arr td_atomic_long_t 9),
     Field ''socket_pressure'' td_u64,
     Field ''kmemcg_id'' c_int,
     Field ''objcg'' (Ptr ''struct obj_cgroup''),
     Field ''orig_objcg'' (Ptr ''struct obj_cgroup''),
     Field ''objcg_list'' st_list_head,
     Field ''vmstats_percpu'' (Ptr ''struct memcg_vmstats_percpu''),
     Field ''cgwb_list'' st_list_head,
     Field ''cgwb_domain'' st_wb_domain,
     Field ''cgwb_frn'' (Arr st_memcg_cgwb_frn 4),
     Field ''deferred_split_queue'' st_deferred_split,
     Field ''mm_list'' st_lru_gen_mm_list,
     Bits '''' c_long 64,
     Bits '''' c_long 64,
     Field ''kmem'' st_page_counter,
     Field ''tcpmem'' st_page_counter,
     Field ''events_percpu'' (Ptr ''struct memcg1_events_percpu''),
     Field ''soft_limit'' c_unsigned_long,
     Field ''oom_lock'' td_bool,
     Field ''under_oom'' c_int,
     Field ''oom_kill_disable'' c_int,
     Field ''thresholds_lock'' st_mutex,
     Field ''thresholds'' st_mem_cgroup_thresholds,
     Field ''memsw_thresholds'' st_mem_cgroup_thresholds,
     Field ''oom_notify'' st_list_head,
     Field ''tcpmem_active'' td_bool,
     Field ''tcpmem_pressure'' c_int,
     Field ''event_list'' st_list_head,
     Field ''event_list_lock'' td_spinlock_t,
     Field ''nodeinfo'' (Arr (Ptr ''struct mem_cgroup_per_node'') 0),
     Bits '''' c_long 64,
     Bits '''' c_long 64,
     Bits '''' c_long 64,
     Bits '''' c_long 64,
     Bits '''' c_long 64,
     Bits '''' c_long 64]"

lemma st_mem_cgroup_layout [layout_simps]: "csize st_mem_cgroup = 2176" "calign st_mem_cgroup = 8"
  by (simp_all add: st_mem_cgroup_def layout_simps layout_eval)

definition td_lockdep_map_p :: ctype where
  "td_lockdep_map_p = Struct []"

lemma td_lockdep_map_p_layout [layout_simps]: "csize td_lockdep_map_p = 0" "calign td_lockdep_map_p = 1"
  by (simp_all add: td_lockdep_map_p_def layout_simps layout_eval)

definition st_maple_tree :: ctype where
  "st_maple_tree = Struct [
     Field '''' (Union [
       Field ''ma_lock'' td_spinlock_t,
       Field ''ma_external_lock'' td_lockdep_map_p]),
     Field ''ma_flags'' c_unsigned_int,
     Field ''ma_root'' (Ptr ''void'')]"

lemma st_maple_tree_layout [layout_simps]: "csize st_maple_tree = 16" "calign st_maple_tree = 8"
  by (simp_all add: st_maple_tree_def layout_simps layout_eval)

definition st_rw_semaphore :: ctype where
  "st_rw_semaphore = Struct [
     Field ''count'' td_atomic_long_t,
     Field ''owner'' td_atomic_long_t,
     Field ''osq'' st_optimistic_spin_queue,
     Field ''wait_lock'' td_raw_spinlock_t,
     Field ''wait_list'' st_list_head]"

lemma st_rw_semaphore_layout [layout_simps]: "csize st_rw_semaphore = 40" "calign st_rw_semaphore = 8"
  by (simp_all add: st_rw_semaphore_def layout_simps layout_eval)

definition st_rcuwait :: ctype where
  "st_rcuwait = Struct [
     Field ''task'' (Ptr ''struct task_struct'')]"

lemma st_rcuwait_layout [layout_simps]: "csize st_rcuwait = 8" "calign st_rcuwait = 8"
  by (simp_all add: st_rcuwait_def layout_simps layout_eval)

definition td_vm_flags_t :: ctype where "td_vm_flags_t = c_unsigned_long"

lemma td_vm_flags_t_layout [layout_simps]: "csize td_vm_flags_t = 8" "calign td_vm_flags_t = 8"
  by (simp_all add: td_vm_flags_t_def layout_simps layout_eval)

definition td___s16 :: ctype where "td___s16 = c_short"

lemma td___s16_layout [layout_simps]: "csize td___s16 = 2" "calign td___s16 = 2"
  by (simp_all add: td___s16_def layout_simps layout_eval)

definition td_s16 :: ctype where "td_s16 = td___s16"

lemma td_s16_layout [layout_simps]: "csize td_s16 = 2" "calign td_s16 = 2"
  by (simp_all add: td_s16_def layout_simps layout_eval)

definition td_mm_context_t :: ctype where
  "td_mm_context_t = Struct [
     Field ''ctx_id'' td_u64,
     Field ''tlb_gen'' td_atomic64_t,
     Field ''next_trim_cpumask'' c_unsigned_long,
     Field ''ldt_usr_sem'' st_rw_semaphore,
     Field ''ldt'' (Ptr ''struct ldt_struct''),
     Field ''flags'' c_unsigned_long,
     Field ''lock'' st_mutex,
     Field ''vdso'' (Ptr ''void''),
     Field ''vdso_image'' (Ptr ''struct vdso_image''),
     Field ''perf_rdpmc_allowed'' td_atomic_t,
     Field ''pkey_allocation_map'' td_u16,
     Field ''execute_only_pkey'' td_s16,
     Field ''global_asid'' td_u16,
     Field ''asid_transition'' td_bool]"

lemma td_mm_context_t_layout [layout_simps]: "csize td_mm_context_t = 144" "calign td_mm_context_t = 8"
  by (simp_all add: td_mm_context_t_def layout_simps layout_eval)

definition st_uprobes_state :: ctype where
  "st_uprobes_state = Struct [
     Field ''xol_area'' (Ptr ''struct xol_area'')]"

lemma st_uprobes_state_layout [layout_simps]: "csize st_uprobes_state = 8" "calign st_uprobes_state = 8"
  by (simp_all add: st_uprobes_state_def layout_simps layout_eval)

definition td_mm_id_t :: ctype where "td_mm_id_t = c_unsigned_int"

lemma td_mm_id_t_layout [layout_simps]: "csize td_mm_id_t = 4" "calign td_mm_id_t = 4"
  by (simp_all add: td_mm_id_t_def layout_simps layout_eval)

definition st_mm_struct :: ctype where
  "st_mm_struct = Struct [
     Field '''' (Struct [
       Field '''' (Struct [
         Field ''mm_count'' td_atomic_t,
         Bits '''' c_long 64,
         Bits '''' c_long 64,
         Bits '''' c_long 64,
         Bits '''' c_long 64,
         Bits '''' c_long 64,
         Bits '''' c_long 64,
         Bits '''' c_long 64]),
       Field ''mm_mt'' st_maple_tree,
       Field ''mmap_base'' c_unsigned_long,
       Field ''mmap_legacy_base'' c_unsigned_long,
       Field ''mmap_compat_base'' c_unsigned_long,
       Field ''mmap_compat_legacy_base'' c_unsigned_long,
       Field ''task_size'' c_unsigned_long,
       Field ''pgd'' (Ptr ''pgd_t''),
       Field ''membarrier_state'' td_atomic_t,
       Field ''mm_users'' td_atomic_t,
       Field ''pcpu_cid'' (Ptr ''struct mm_cid''),
       Field ''mm_cid_next_scan'' c_unsigned_long,
       Field ''nr_cpus_allowed'' c_unsigned_int,
       Field ''max_nr_cid'' td_atomic_t,
       Field ''cpus_allowed_lock'' td_raw_spinlock_t,
       Field ''pgtables_bytes'' td_atomic_long_t,
       Field ''map_count'' c_int,
       Field ''page_table_lock'' td_spinlock_t,
       Field ''mmap_lock'' st_rw_semaphore,
       Field ''mmlist'' st_list_head,
       Field ''vma_writer_wait'' st_rcuwait,
       Field ''mm_lock_seq'' td_seqcount_t,
       Field ''futex_hash_lock'' st_mutex,
       Field ''futex_phash'' (Ptr ''struct futex_private_hash''),
       Field ''futex_phash_new'' (Ptr ''struct futex_private_hash''),
       Field ''futex_batches'' c_unsigned_long,
       Field ''futex_rcu'' st_callback_head,
       Field ''futex_atomic'' td_atomic_long_t,
       Field ''futex_ref'' (Ptr ''unsigned int''),
       Field ''hiwater_rss'' c_unsigned_long,
       Field ''hiwater_vm'' c_unsigned_long,
       Field ''total_vm'' c_unsigned_long,
       Field ''locked_vm'' c_unsigned_long,
       Field ''pinned_vm'' td_atomic64_t,
       Field ''data_vm'' c_unsigned_long,
       Field ''exec_vm'' c_unsigned_long,
       Field ''stack_vm'' c_unsigned_long,
       Field ''def_flags'' td_vm_flags_t,
       Field ''write_protect_seq'' td_seqcount_t,
       Field ''arg_lock'' td_spinlock_t,
       Field ''start_code'' c_unsigned_long,
       Field ''end_code'' c_unsigned_long,
       Field ''start_data'' c_unsigned_long,
       Field ''end_data'' c_unsigned_long,
       Field ''start_brk'' c_unsigned_long,
       Field ''brk'' c_unsigned_long,
       Field ''start_stack'' c_unsigned_long,
       Field ''arg_start'' c_unsigned_long,
       Field ''arg_end'' c_unsigned_long,
       Field ''env_start'' c_unsigned_long,
       Field ''env_end'' c_unsigned_long,
       Field ''saved_auxv'' (Arr c_unsigned_long 52),
       Field ''rss_stat'' (Arr st_percpu_counter 4),
       Field ''binfmt'' (Ptr ''struct linux_binfmt''),
       Field ''context'' td_mm_context_t,
       Field ''flags'' c_unsigned_long,
       Field ''ioctx_lock'' td_spinlock_t,
       Field ''ioctx_table'' (Ptr ''struct kioctx_table''),
       Field ''owner'' (Ptr ''struct task_struct''),
       Field ''user_ns'' (Ptr ''struct user_namespace''),
       Field ''exe_file'' (Ptr ''struct file''),
       Field ''notifier_subscriptions'' (Ptr ''struct mmu_notifier_subscriptions''),
       Field ''numa_next_scan'' c_unsigned_long,
       Field ''numa_scan_offset'' c_unsigned_long,
       Field ''numa_scan_seq'' c_int,
       Field ''tlb_flush_pending'' td_atomic_t,
       Field ''tlb_flush_batched'' td_atomic_t,
       Field ''uprobes_state'' st_uprobes_state,
       Field ''hugetlb_usage'' td_atomic_long_t,
       Field ''async_put_work'' st_work_struct,
       Field ''iommu_mm'' (Ptr ''struct iommu_mm_data''),
       Field ''ksm_merging_pages'' c_unsigned_long,
       Field ''ksm_rmap_items'' c_unsigned_long,
       Field ''ksm_zero_pages'' td_atomic_long_t,
       Field ''lru_gen'' (Struct [
         Field ''list'' st_list_head,
         Field ''bitmap'' c_unsigned_long,
         Field ''memcg'' (Ptr ''struct mem_cgroup'')]),
       Field ''mm_id'' td_mm_id_t,
       Bits '''' c_long 64,
       Bits '''' c_long 64,
       Bits '''' c_long 64]),
     Field ''cpu_bitmap'' (Arr c_unsigned_long 0)]"

lemma st_mm_struct_layout [layout_simps]: "csize st_mm_struct = 1472" "calign st_mm_struct = 8"
  by (simp_all add: st_mm_struct_def layout_simps layout_eval)

definition td_freeptr_t :: ctype where
  "td_freeptr_t = Struct [
     Field ''v'' c_unsigned_long]"

lemma td_freeptr_t_layout [layout_simps]: "csize td_freeptr_t = 8" "calign td_freeptr_t = 8"
  by (simp_all add: td_freeptr_t_def layout_simps layout_eval)

definition td_pgprotval_t :: ctype where "td_pgprotval_t = c_unsigned_long"

lemma td_pgprotval_t_layout [layout_simps]: "csize td_pgprotval_t = 8" "calign td_pgprotval_t = 8"
  by (simp_all add: td_pgprotval_t_def layout_simps layout_eval)

definition st_pgprot :: ctype where
  "st_pgprot = Struct [
     Field ''pgprot'' td_pgprotval_t]"

lemma st_pgprot_layout [layout_simps]: "csize st_pgprot = 8" "calign st_pgprot = 8"
  by (simp_all add: st_pgprot_def layout_simps layout_eval)

definition td_pgprot_t :: ctype where "td_pgprot_t = st_pgprot"

lemma td_pgprot_t_layout [layout_simps]: "csize td_pgprot_t = 8" "calign td_pgprot_t = 8"
  by (simp_all add: td_pgprot_t_def layout_simps layout_eval)

definition st_vm_userfaultfd_ctx :: ctype where
  "st_vm_userfaultfd_ctx = Struct [
     Field ''ctx'' (Ptr ''struct userfaultfd_ctx'')]"

lemma st_vm_userfaultfd_ctx_layout [layout_simps]: "csize st_vm_userfaultfd_ctx = 8" "calign st_vm_userfaultfd_ctx = 8"
  by (simp_all add: st_vm_userfaultfd_ctx_def layout_simps layout_eval)

definition st_vm_area_struct :: ctype where
  "st_vm_area_struct = Struct [
     Field '''' (Union [
       Field '''' (Struct [
         Field ''vm_start'' c_unsigned_long,
         Field ''vm_end'' c_unsigned_long]),
       Field ''vm_freeptr'' td_freeptr_t]),
     Field ''vm_mm'' (Ptr ''struct mm_struct''),
     Field ''vm_page_prot'' td_pgprot_t,
     Field '''' (Union [
       Field ''vm_flags'' td_vm_flags_t,
       Field ''__vm_flags'' td_vm_flags_t]),
     Field ''vm_lock_seq'' c_unsigned_int,
     Field ''anon_vma_chain'' st_list_head,
     Field ''anon_vma'' (Ptr ''struct anon_vma''),
     Field ''vm_ops'' (Ptr ''struct vm_operations_struct''),
     Field ''vm_pgoff'' c_unsigned_long,
     Field ''vm_file'' (Ptr ''struct file''),
     Field ''vm_private_data'' (Ptr ''void''),
     Field ''swap_readahead_info'' td_atomic_long_t,
     Field ''vm_policy'' (Ptr ''struct mempolicy''),
     Field ''numab_state'' (Ptr ''struct vma_numab_state''),
     Field ''vm_refcnt'' td_refcount_t,
     Field ''shared'' (Struct [
       Field ''rb'' st_rb_node,
       Field ''rb_subtree_last'' c_unsigned_long]),
     Field ''anon_name'' (Ptr ''struct anon_vma_name''),
     Field ''vm_userfaultfd_ctx'' st_vm_userfaultfd_ctx,
     Field ''pfnmap_track_ctx'' (Ptr ''struct pfnmap_track_ctx'')]"

lemma st_vm_area_struct_layout [layout_simps]: "csize st_vm_area_struct = 192" "calign st_vm_area_struct = 8"
  by (simp_all add: st_vm_area_struct_def layout_simps layout_eval)

end
