(* ===== verification/VmNet.thy ===== *)
theory VmNet
  imports VmMem
begin

text \<open>
  Kernel type declarations of \<open>internal/bpf/c/headers/vmlinux.h\<close>: sockets: the TCP socket and the socket buffer the TCP tracepoints point to (\<open>skaddr\<close>, \<open>skbaddr\<close>).
  Each definition is one declaration of the header, member by member: \<open>st_\<close>, \<open>un_\<close> and \<open>en_\<close>
  name a structure, a union and an enumeration, \<open>td_\<close> a typedef. The lemma after a
  definition computes its size and alignment, which the layouts of the types that embed it use.
\<close>

definition td___addrpair :: ctype where "td___addrpair = td___u64"

lemma td___addrpair_layout [layout_simps]: "csize td___addrpair = 8" "calign td___addrpair = 8"
  by (simp_all add: td___addrpair_def layout_simps layout_eval)

definition td___be32 :: ctype where "td___be32 = td___u32"

lemma td___be32_layout [layout_simps]: "csize td___be32 = 4" "calign td___be32 = 4"
  by (simp_all add: td___be32_def layout_simps layout_eval)

definition td___portpair :: ctype where "td___portpair = td___u32"

lemma td___portpair_layout [layout_simps]: "csize td___portpair = 4" "calign td___portpair = 4"
  by (simp_all add: td___portpair_def layout_simps layout_eval)

definition td___be16 :: ctype where "td___be16 = td___u16"

lemma td___be16_layout [layout_simps]: "csize td___be16 = 2" "calign td___be16 = 2"
  by (simp_all add: td___be16_def layout_simps layout_eval)

definition td_possible_net_t :: ctype where
  "td_possible_net_t = Struct [
     Field ''net'' (Ptr ''struct net'')]"

lemma td_possible_net_t_layout [layout_simps]: "csize td_possible_net_t = 8" "calign td_possible_net_t = 8"
  by (simp_all add: td_possible_net_t_def layout_simps layout_eval)

definition st_in6_addr :: ctype where
  "st_in6_addr = Struct [
     Field ''in6_u'' (Union [
       Field ''u6_addr8'' (Arr td___u8 16),
       Field ''u6_addr16'' (Arr td___be16 8),
       Field ''u6_addr32'' (Arr td___be32 4)])]"

lemma st_in6_addr_layout [layout_simps]: "csize st_in6_addr = 16" "calign st_in6_addr = 4"
  by (simp_all add: st_in6_addr_def layout_simps layout_eval)

definition st_hlist_nulls_node :: ctype where
  "st_hlist_nulls_node = Struct [
     Field ''next'' (Ptr ''struct hlist_nulls_node''),
     Field ''pprev'' (Ptr ''struct hlist_nulls_node *'')]"

lemma st_hlist_nulls_node_layout [layout_simps]: "csize st_hlist_nulls_node = 16" "calign st_hlist_nulls_node = 8"
  by (simp_all add: st_hlist_nulls_node_def layout_simps layout_eval)

definition st_sock_common :: ctype where
  "st_sock_common = Struct [
     Field '''' (Union [
       Field ''skc_addrpair'' td___addrpair,
       Field '''' (Struct [
         Field ''skc_daddr'' td___be32,
         Field ''skc_rcv_saddr'' td___be32])]),
     Field '''' (Union [
       Field ''skc_hash'' c_unsigned_int,
       Field ''skc_u16hashes'' (Arr td___u16 2)]),
     Field '''' (Union [
       Field ''skc_portpair'' td___portpair,
       Field '''' (Struct [
         Field ''skc_dport'' td___be16,
         Field ''skc_num'' td___u16])]),
     Field ''skc_family'' c_unsigned_short,
     Field ''skc_state'' c_unsigned_char,
     Bits ''skc_reuse'' c_unsigned_char 4,
     Bits ''skc_reuseport'' c_unsigned_char 1,
     Bits ''skc_ipv6only'' c_unsigned_char 1,
     Bits ''skc_net_refcnt'' c_unsigned_char 1,
     Field ''skc_bound_dev_if'' c_int,
     Field '''' (Union [
       Field ''skc_bind_node'' st_hlist_node,
       Field ''skc_portaddr_node'' st_hlist_node]),
     Field ''skc_prot'' (Ptr ''struct proto''),
     Field ''skc_net'' td_possible_net_t,
     Field ''skc_v6_daddr'' st_in6_addr,
     Field ''skc_v6_rcv_saddr'' st_in6_addr,
     Field ''skc_cookie'' td_atomic64_t,
     Field '''' (Union [
       Field ''skc_flags'' c_unsigned_long,
       Field ''skc_listener'' (Ptr ''struct sock''),
       Field ''skc_tw_dr'' (Ptr ''struct inet_timewait_death_row'')]),
     Field ''skc_dontcopy_begin'' (Arr c_int 0),
     Field '''' (Union [
       Field ''skc_node'' st_hlist_node,
       Field ''skc_nulls_node'' st_hlist_nulls_node]),
     Field ''skc_tx_queue_mapping'' c_unsigned_short,
     Field ''skc_rx_queue_mapping'' c_unsigned_short,
     Field '''' (Union [
       Field ''skc_incoming_cpu'' c_int,
       Field ''skc_rcv_wnd'' td_u32,
       Field ''skc_tw_rcv_nxt'' td_u32]),
     Field ''skc_refcnt'' td_refcount_t,
     Field ''skc_dontcopy_end'' (Arr c_int 0),
     Field '''' (Union [
       Field ''skc_rxhash'' td_u32,
       Field ''skc_window_clamp'' td_u32,
       Field ''skc_tw_snd_nxt'' td_u32])]"

lemma st_sock_common_layout [layout_simps]: "csize st_sock_common = 136" "calign st_sock_common = 8"
  by (simp_all add: st_sock_common_def layout_simps layout_eval)

definition st_sk_buff_list :: ctype where
  "st_sk_buff_list = Struct [
     Field ''next'' (Ptr ''struct sk_buff''),
     Field ''prev'' (Ptr ''struct sk_buff'')]"

lemma st_sk_buff_list_layout [layout_simps]: "csize st_sk_buff_list = 16" "calign st_sk_buff_list = 8"
  by (simp_all add: st_sk_buff_list_def layout_simps layout_eval)

definition st_sk_buff_head :: ctype where
  "st_sk_buff_head = Struct [
     Field '''' (Union [
       Field '''' (Struct [
         Field ''next'' (Ptr ''struct sk_buff''),
         Field ''prev'' (Ptr ''struct sk_buff'')]),
       Field ''list'' st_sk_buff_list]),
     Field ''qlen'' td___u32,
     Field ''lock'' td_spinlock_t]"

lemma st_sk_buff_head_layout [layout_simps]: "csize st_sk_buff_head = 24" "calign st_sk_buff_head = 8"
  by (simp_all add: st_sk_buff_head_def layout_simps layout_eval)

definition st_wait_queue_head :: ctype where
  "st_wait_queue_head = Struct [
     Field ''lock'' td_spinlock_t,
     Field ''head'' st_list_head]"

lemma st_wait_queue_head_layout [layout_simps]: "csize st_wait_queue_head = 24" "calign st_wait_queue_head = 8"
  by (simp_all add: st_wait_queue_head_def layout_simps layout_eval)

definition td_wait_queue_head_t :: ctype where "td_wait_queue_head_t = st_wait_queue_head"

lemma td_wait_queue_head_t_layout [layout_simps]: "csize td_wait_queue_head_t = 24" "calign td_wait_queue_head_t = 8"
  by (simp_all add: td_wait_queue_head_t_def layout_simps layout_eval)

definition td_socket_lock_t :: ctype where
  "td_socket_lock_t = Struct [
     Field ''slock'' td_spinlock_t,
     Field ''owned'' c_int,
     Field ''wq'' td_wait_queue_head_t]"

lemma td_socket_lock_t_layout [layout_simps]: "csize td_socket_lock_t = 32" "calign td_socket_lock_t = 8"
  by (simp_all add: td_socket_lock_t_def layout_simps layout_eval)

definition td_netdev_features_t :: ctype where "td_netdev_features_t = td_u64"

lemma td_netdev_features_t_layout [layout_simps]: "csize td_netdev_features_t = 8" "calign td_netdev_features_t = 8"
  by (simp_all add: td_netdev_features_t_def layout_simps layout_eval)

definition st_qrwlock :: ctype where
  "st_qrwlock = Struct [
     Field '''' (Union [
       Field ''cnts'' td_atomic_t,
       Field '''' (Struct [
         Field ''wlocked'' td_u8,
         Field ''__lstate'' (Arr td_u8 3)])]),
     Field ''wait_lock'' td_arch_spinlock_t]"

lemma st_qrwlock_layout [layout_simps]: "csize st_qrwlock = 8" "calign st_qrwlock = 4"
  by (simp_all add: st_qrwlock_def layout_simps layout_eval)

definition td_arch_rwlock_t :: ctype where "td_arch_rwlock_t = st_qrwlock"

lemma td_arch_rwlock_t_layout [layout_simps]: "csize td_arch_rwlock_t = 8" "calign td_arch_rwlock_t = 4"
  by (simp_all add: td_arch_rwlock_t_def layout_simps layout_eval)

definition td_rwlock_t :: ctype where
  "td_rwlock_t = Struct [
     Field ''raw_lock'' td_arch_rwlock_t]"

lemma td_rwlock_t_layout [layout_simps]: "csize td_rwlock_t = 8" "calign td_rwlock_t = 4"
  by (simp_all add: td_rwlock_t_def layout_simps layout_eval)

definition st_sock_cgroup_data :: ctype where
  "st_sock_cgroup_data = Struct [
     Field ''cgroup'' (Ptr ''struct cgroup''),
     Field ''classid'' td_u32,
     Field ''prioidx'' td_u16]"

lemma st_sock_cgroup_data_layout [layout_simps]: "csize st_sock_cgroup_data = 16" "calign st_sock_cgroup_data = 8"
  by (simp_all add: st_sock_cgroup_data_def layout_simps layout_eval)

definition td_netns_tracker :: ctype where
  "td_netns_tracker = Struct []"

lemma td_netns_tracker_layout [layout_simps]: "csize td_netns_tracker = 0" "calign td_netns_tracker = 1"
  by (simp_all add: td_netns_tracker_def layout_simps layout_eval)

definition st_xarray :: ctype where
  "st_xarray = Struct [
     Field ''xa_lock'' td_spinlock_t,
     Field ''xa_flags'' td_gfp_t,
     Field ''xa_head'' (Ptr ''void'')]"

lemma st_xarray_layout [layout_simps]: "csize st_xarray = 16" "calign st_xarray = 8"
  by (simp_all add: st_xarray_def layout_simps layout_eval)

definition st_sock :: ctype where
  "st_sock = Struct [
     Field ''__sk_common'' st_sock_common,
     Field ''__cacheline_group_begin__sock_write_rx'' (Arr td___u8 0),
     Field ''sk_drops'' td_atomic_t,
     Field ''sk_peek_off'' td___s32,
     Field ''sk_error_queue'' st_sk_buff_head,
     Field ''sk_receive_queue'' st_sk_buff_head,
     Field ''sk_backlog'' (Struct [
       Field ''rmem_alloc'' td_atomic_t,
       Field ''len'' c_int,
       Field ''head'' (Ptr ''struct sk_buff''),
       Field ''tail'' (Ptr ''struct sk_buff'')]),
     Field ''__cacheline_group_end__sock_write_rx'' (Arr td___u8 0),
     Field ''__cacheline_group_begin__sock_read_rx'' (Arr td___u8 0),
     Field ''sk_rx_dst'' (Ptr ''struct dst_entry''),
     Field ''sk_rx_dst_ifindex'' c_int,
     Field ''sk_rx_dst_cookie'' td_u32,
     Field ''sk_ll_usec'' c_unsigned_int,
     Field ''sk_napi_id'' c_unsigned_int,
     Field ''sk_busy_poll_budget'' td_u16,
     Field ''sk_prefer_busy_poll'' td_u8,
     Field ''sk_userlocks'' td_u8,
     Field ''sk_rcvbuf'' c_int,
     Field ''sk_filter'' (Ptr ''struct sk_filter''),
     Field '''' (Union [
       Field ''sk_wq'' (Ptr ''struct socket_wq''),
       Field ''sk_wq_raw'' (Ptr ''struct socket_wq'')]),
     Field ''sk_data_ready'' (Ptr ''void (struct sock *)''),
     Field ''sk_rcvtimeo'' c_long,
     Field ''sk_rcvlowat'' c_int,
     Field ''__cacheline_group_end__sock_read_rx'' (Arr td___u8 0),
     Field ''__cacheline_group_begin__sock_read_rxtx'' (Arr td___u8 0),
     Field ''sk_err'' c_int,
     Field ''sk_socket'' (Ptr ''struct socket''),
     Field ''sk_memcg'' (Ptr ''struct mem_cgroup''),
     Field ''sk_policy'' (Arr (Ptr ''struct xfrm_policy'') 2),
     Field ''__cacheline_group_end__sock_read_rxtx'' (Arr td___u8 0),
     Field ''__cacheline_group_begin__sock_write_rxtx'' (Arr td___u8 0),
     Field ''sk_lock'' td_socket_lock_t,
     Field ''sk_reserved_mem'' td_u32,
     Field ''sk_forward_alloc'' c_int,
     Field ''sk_tsflags'' td_u32,
     Field ''__cacheline_group_end__sock_write_rxtx'' (Arr td___u8 0),
     Field ''__cacheline_group_begin__sock_write_tx'' (Arr td___u8 0),
     Field ''sk_write_pending'' c_int,
     Field ''sk_omem_alloc'' td_atomic_t,
     Field ''sk_sndbuf'' c_int,
     Field ''sk_wmem_queued'' c_int,
     Field ''sk_wmem_alloc'' td_refcount_t,
     Field ''sk_tsq_flags'' c_unsigned_long,
     Field '''' (Union [
       Field ''sk_send_head'' (Ptr ''struct sk_buff''),
       Field ''tcp_rtx_queue'' st_rb_root]),
     Field ''sk_write_queue'' st_sk_buff_head,
     Field ''sk_dst_pending_confirm'' td_u32,
     Field ''sk_pacing_status'' td_u32,
     Field ''sk_frag'' st_page_frag,
     Field ''sk_timer'' st_timer_list,
     Field ''sk_pacing_rate'' c_unsigned_long,
     Field ''sk_zckey'' td_atomic_t,
     Field ''sk_tskey'' td_atomic_t,
     Field ''__cacheline_group_end__sock_write_tx'' (Arr td___u8 0),
     Field ''__cacheline_group_begin__sock_read_tx'' (Arr td___u8 0),
     Field ''sk_max_pacing_rate'' c_unsigned_long,
     Field ''sk_sndtimeo'' c_long,
     Field ''sk_priority'' td_u32,
     Field ''sk_mark'' td_u32,
     Field ''sk_dst_cache'' (Ptr ''struct dst_entry''),
     Field ''sk_route_caps'' td_netdev_features_t,
     Field ''sk_validate_xmit_skb'' (Ptr ''struct sk_buff * (struct sock *, struct net_device *, struct sk_buff *)''),
     Field ''sk_gso_type'' td_u16,
     Field ''sk_gso_max_segs'' td_u16,
     Field ''sk_gso_max_size'' c_unsigned_int,
     Field ''sk_allocation'' td_gfp_t,
     Field ''sk_txhash'' td_u32,
     Field ''sk_pacing_shift'' td_u8,
     Field ''sk_use_task_frag'' td_bool,
     Field ''__cacheline_group_end__sock_read_tx'' (Arr td___u8 0),
     Bits ''sk_gso_disabled'' td_u8 1,
     Bits ''sk_kern_sock'' td_u8 1,
     Bits ''sk_no_check_tx'' td_u8 1,
     Bits ''sk_no_check_rx'' td_u8 1,
     Field ''sk_shutdown'' td_u8,
     Field ''sk_type'' td_u16,
     Field ''sk_protocol'' td_u16,
     Field ''sk_lingertime'' c_unsigned_long,
     Field ''sk_prot_creator'' (Ptr ''struct proto''),
     Field ''sk_callback_lock'' td_rwlock_t,
     Field ''sk_err_soft'' c_int,
     Field ''sk_ack_backlog'' td_u32,
     Field ''sk_max_ack_backlog'' td_u32,
     Field ''sk_uid'' td_kuid_t,
     Field ''sk_ino'' c_unsigned_long,
     Field ''sk_peer_lock'' td_spinlock_t,
     Field ''sk_bind_phc'' c_int,
     Field ''sk_peer_pid'' (Ptr ''struct pid''),
     Field ''sk_peer_cred'' (Ptr ''struct cred''),
     Field ''sk_stamp'' td_ktime_t,
     Field ''sk_disconnects'' c_int,
     Field '''' (Union [
       Field ''sk_txrehash'' td_u8,
       Field ''sk_scm_recv_flags'' td_u8,
       Field '''' (Struct [
         Bits ''sk_scm_credentials'' td_u8 1,
         Bits ''sk_scm_security'' td_u8 1,
         Bits ''sk_scm_pidfd'' td_u8 1,
         Bits ''sk_scm_rights'' td_u8 1,
         Bits ''sk_scm_unused'' td_u8 4])]),
     Field ''sk_clockid'' td_u8,
     Bits ''sk_txtime_deadline_mode'' td_u8 1,
     Bits ''sk_txtime_report_errors'' td_u8 1,
     Bits ''sk_txtime_unused'' td_u8 6,
     Field ''sk_bpf_cb_flags'' td_u8,
     Field ''sk_user_data'' (Ptr ''void''),
     Field ''sk_security'' (Ptr ''void''),
     Field ''sk_cgrp_data'' st_sock_cgroup_data,
     Field ''sk_state_change'' (Ptr ''void (struct sock *)''),
     Field ''sk_write_space'' (Ptr ''void (struct sock *)''),
     Field ''sk_error_report'' (Ptr ''void (struct sock *)''),
     Field ''sk_backlog_rcv'' (Ptr ''int (struct sock *, struct sk_buff *)''),
     Field ''sk_destruct'' (Ptr ''void (struct sock *)''),
     Field ''sk_reuseport_cb'' (Ptr ''struct sock_reuseport''),
     Field ''sk_bpf_storage'' (Ptr ''struct bpf_local_storage''),
     Field ''sk_rcu'' st_callback_head,
     Field ''ns_tracker'' td_netns_tracker,
     Field ''sk_user_frags'' st_xarray]"

lemma st_sock_layout [layout_simps]: "csize st_sock = 784" "calign st_sock = 8"
  by (simp_all add: st_sock_def layout_simps layout_eval)

definition st_inet_cork :: ctype where
  "st_inet_cork = Struct [
     Field ''flags'' c_unsigned_int,
     Field ''addr'' td___be32,
     Field ''opt'' (Ptr ''struct ip_options''),
     Field ''fragsize'' c_unsigned_int,
     Field ''length'' c_int,
     Field ''dst'' (Ptr ''struct dst_entry''),
     Field ''tx_flags'' td_u8,
     Field ''ttl'' td___u8,
     Field ''tos'' td___s16,
     Field ''priority'' td_u32,
     Field ''gso_size'' td___u16,
     Field ''ts_opt_id'' td_u32,
     Field ''transmit_time'' td_u64,
     Field ''mark'' td_u32]"

lemma st_inet_cork_layout [layout_simps]: "csize st_inet_cork = 64" "calign st_inet_cork = 8"
  by (simp_all add: st_inet_cork_def layout_simps layout_eval)

definition td___be64 :: ctype where "td___be64 = td___u64"

lemma td___be64_layout [layout_simps]: "csize td___be64 = 8" "calign td___be64 = 8"
  by (simp_all add: td___be64_def layout_simps layout_eval)

definition st_flowi_tunnel :: ctype where
  "st_flowi_tunnel = Struct [
     Field ''tun_id'' td___be64]"

lemma st_flowi_tunnel_layout [layout_simps]: "csize st_flowi_tunnel = 8" "calign st_flowi_tunnel = 8"
  by (simp_all add: st_flowi_tunnel_def layout_simps layout_eval)

definition st_flowi_common :: ctype where
  "st_flowi_common = Struct [
     Field ''flowic_oif'' c_int,
     Field ''flowic_iif'' c_int,
     Field ''flowic_l3mdev'' c_int,
     Field ''flowic_mark'' td___u32,
     Field ''flowic_tos'' td___u8,
     Field ''flowic_scope'' td___u8,
     Field ''flowic_proto'' td___u8,
     Field ''flowic_flags'' td___u8,
     Field ''flowic_secid'' td___u32,
     Field ''flowic_uid'' td_kuid_t,
     Field ''flowic_multipath_hash'' td___u32,
     Field ''flowic_tun_key'' st_flowi_tunnel]"

lemma st_flowi_common_layout [layout_simps]: "csize st_flowi_common = 40" "calign st_flowi_common = 8"
  by (simp_all add: st_flowi_common_def layout_simps layout_eval)

definition un_flowi_uli :: ctype where
  "un_flowi_uli = Union [
     Field ''ports'' (Struct [
       Field ''dport'' td___be16,
       Field ''sport'' td___be16]),
     Field ''icmpt'' (Struct [
       Field ''type'' td___u8,
       Field ''code'' td___u8]),
     Field ''gre_key'' td___be32,
     Field ''mht'' (Struct [
       Field ''type'' td___u8])]"

lemma un_flowi_uli_layout [layout_simps]: "csize un_flowi_uli = 4" "calign un_flowi_uli = 4"
  by (simp_all add: un_flowi_uli_def layout_simps layout_eval)

definition st_flowi4 :: ctype where
  "st_flowi4 = Struct [
     Field ''__fl_common'' st_flowi_common,
     Field ''saddr'' td___be32,
     Field ''daddr'' td___be32,
     Field ''uli'' un_flowi_uli]"

lemma st_flowi4_layout [layout_simps]: "csize st_flowi4 = 56" "calign st_flowi4 = 8"
  by (simp_all add: st_flowi4_def layout_simps layout_eval)

definition st_flowi6 :: ctype where
  "st_flowi6 = Struct [
     Field ''__fl_common'' st_flowi_common,
     Field ''daddr'' st_in6_addr,
     Field ''saddr'' st_in6_addr,
     Field ''flowlabel'' td___be32,
     Field ''uli'' un_flowi_uli,
     Field ''mp_hash'' td___u32]"

lemma st_flowi6_layout [layout_simps]: "csize st_flowi6 = 88" "calign st_flowi6 = 8"
  by (simp_all add: st_flowi6_def layout_simps layout_eval)

definition st_flowi :: ctype where
  "st_flowi = Struct [
     Field ''u'' (Union [
       Field ''__fl_common'' st_flowi_common,
       Field ''ip4'' st_flowi4,
       Field ''ip6'' st_flowi6])]"

lemma st_flowi_layout [layout_simps]: "csize st_flowi = 88" "calign st_flowi = 8"
  by (simp_all add: st_flowi_def layout_simps layout_eval)

definition st_inet_cork_full :: ctype where
  "st_inet_cork_full = Struct [
     Field ''base'' st_inet_cork,
     Field ''fl'' st_flowi]"

lemma st_inet_cork_full_layout [layout_simps]: "csize st_inet_cork_full = 152" "calign st_inet_cork_full = 8"
  by (simp_all add: st_inet_cork_full_def layout_simps layout_eval)

definition st_inet_sock :: ctype where
  "st_inet_sock = Struct [
     Field ''sk'' st_sock,
     Field ''pinet6'' (Ptr ''struct ipv6_pinfo''),
     Field ''inet_flags'' c_unsigned_long,
     Field ''inet_saddr'' td___be32,
     Field ''uc_ttl'' td___s16,
     Field ''inet_sport'' td___be16,
     Field ''inet_opt'' (Ptr ''struct ip_options_rcu''),
     Field ''inet_id'' td_atomic_t,
     Field ''tos'' td___u8,
     Field ''min_ttl'' td___u8,
     Field ''mc_ttl'' td___u8,
     Field ''pmtudisc'' td___u8,
     Field ''rcv_tos'' td___u8,
     Field ''convert_csum'' td___u8,
     Field ''uc_index'' c_int,
     Field ''mc_index'' c_int,
     Field ''mc_addr'' td___be32,
     Field ''local_port_range'' td_u32,
     Field ''mc_list'' (Ptr ''struct ip_mc_socklist''),
     Field ''cork'' st_inet_cork_full]"

lemma st_inet_sock_layout [layout_simps]: "csize st_inet_sock = 1008" "calign st_inet_sock = 8"
  by (simp_all add: st_inet_sock_def layout_simps layout_eval)

definition st_fastopen_queue :: ctype where
  "st_fastopen_queue = Struct [
     Field ''rskq_rst_head'' (Ptr ''struct request_sock''),
     Field ''rskq_rst_tail'' (Ptr ''struct request_sock''),
     Field ''lock'' td_spinlock_t,
     Field ''qlen'' c_int,
     Field ''max_qlen'' c_int,
     Field ''ctx'' (Ptr ''struct tcp_fastopen_context'')]"

lemma st_fastopen_queue_layout [layout_simps]: "csize st_fastopen_queue = 40" "calign st_fastopen_queue = 8"
  by (simp_all add: st_fastopen_queue_def layout_simps layout_eval)

definition st_request_sock_queue :: ctype where
  "st_request_sock_queue = Struct [
     Field ''rskq_lock'' td_spinlock_t,
     Field ''rskq_defer_accept'' td_u8,
     Field ''synflood_warned'' td_u32,
     Field ''qlen'' td_atomic_t,
     Field ''young'' td_atomic_t,
     Field ''rskq_accept_head'' (Ptr ''struct request_sock''),
     Field ''rskq_accept_tail'' (Ptr ''struct request_sock''),
     Field ''fastopenq'' st_fastopen_queue]"

lemma st_request_sock_queue_layout [layout_simps]: "csize st_request_sock_queue = 80" "calign st_request_sock_queue = 8"
  by (simp_all add: st_request_sock_queue_def layout_simps layout_eval)

definition st_inet_connection_sock :: ctype where
  "st_inet_connection_sock = Struct [
     Field ''icsk_inet'' st_inet_sock,
     Field ''icsk_accept_queue'' st_request_sock_queue,
     Field ''icsk_bind_hash'' (Ptr ''struct inet_bind_bucket''),
     Field ''icsk_bind2_hash'' (Ptr ''struct inet_bind2_bucket''),
     Field ''icsk_retransmit_timer'' st_timer_list,
     Field ''icsk_delack_timer'' st_timer_list,
     Field ''icsk_rto'' td___u32,
     Field ''icsk_rto_min'' td___u32,
     Field ''icsk_rto_max'' td_u32,
     Field ''icsk_delack_max'' td___u32,
     Field ''icsk_pmtu_cookie'' td___u32,
     Field ''icsk_ca_ops'' (Ptr ''struct tcp_congestion_ops''),
     Field ''icsk_af_ops'' (Ptr ''struct inet_connection_sock_af_ops''),
     Field ''icsk_ulp_ops'' (Ptr ''struct tcp_ulp_ops''),
     Field ''icsk_ulp_data'' (Ptr ''void''),
     Field ''icsk_sync_mss'' (Ptr ''unsigned int (struct sock *, u32)''),
     Bits ''icsk_ca_state'' td___u8 5,
     Bits ''icsk_ca_initialized'' td___u8 1,
     Bits ''icsk_ca_setsockopt'' td___u8 1,
     Bits ''icsk_ca_dst_locked'' td___u8 1,
     Field ''icsk_retransmits'' td___u8,
     Field ''icsk_pending'' td___u8,
     Field ''icsk_backoff'' td___u8,
     Field ''icsk_syn_retries'' td___u8,
     Field ''icsk_probes_out'' td___u8,
     Field ''icsk_ext_hdr_len'' td___u16,
     Field ''icsk_ack'' (Struct [
       Field ''pending'' td___u8,
       Field ''quick'' td___u8,
       Field ''pingpong'' td___u8,
       Field ''retry'' td___u8,
       Bits ''ato'' td___u32 8,
       Bits ''lrcv_flowlabel'' td___u32 20,
       Bits ''dst_quick_ack'' td___u32 1,
       Bits ''unused'' td___u32 3,
       Field ''lrcvtime'' td___u32,
       Field ''last_seg_size'' td___u16,
       Field ''rcv_mss'' td___u16]),
     Field ''icsk_mtup'' (Struct [
       Field ''search_high'' c_int,
       Field ''search_low'' c_int,
       Bits ''probe_size'' td_u32 31,
       Bits ''enabled'' td_u32 1,
       Field ''probe_timestamp'' td_u32]),
     Field ''icsk_probes_tstamp'' td_u32,
     Field ''icsk_user_timeout'' td_u32,
     Field ''icsk_ca_priv'' (Arr td_u64 13)]"

lemma st_inet_connection_sock_layout [layout_simps]: "csize st_inet_connection_sock = 1400" "calign st_inet_connection_sock = 8"
  by (simp_all add: st_inet_connection_sock_def layout_simps layout_eval)

definition st_minmax_sample :: ctype where
  "st_minmax_sample = Struct [
     Field ''t'' td_u32,
     Field ''v'' td_u32]"

lemma st_minmax_sample_layout [layout_simps]: "csize st_minmax_sample = 8" "calign st_minmax_sample = 4"
  by (simp_all add: st_minmax_sample_def layout_simps layout_eval)

definition st_minmax :: ctype where
  "st_minmax = Struct [
     Field ''s'' (Arr st_minmax_sample 3)]"

lemma st_minmax_layout [layout_simps]: "csize st_minmax = 24" "calign st_minmax = 4"
  by (simp_all add: st_minmax_def layout_simps layout_eval)

definition st_tcp_options_received :: ctype where
  "st_tcp_options_received = Struct [
     Field ''ts_recent_stamp'' c_int,
     Field ''ts_recent'' td_u32,
     Field ''rcv_tsval'' td_u32,
     Field ''rcv_tsecr'' td_u32,
     Bits ''saw_tstamp'' td_u16 1,
     Bits ''tstamp_ok'' td_u16 1,
     Bits ''dsack'' td_u16 1,
     Bits ''wscale_ok'' td_u16 1,
     Bits ''sack_ok'' td_u16 3,
     Bits ''smc_ok'' td_u16 1,
     Bits ''snd_wscale'' td_u16 4,
     Bits ''rcv_wscale'' td_u16 4,
     Bits ''saw_unknown'' td_u8 1,
     Bits ''unused'' td_u8 7,
     Field ''num_sacks'' td_u8,
     Field ''user_mss'' td_u16,
     Field ''mss_clamp'' td_u16]"

lemma st_tcp_options_received_layout [layout_simps]: "csize st_tcp_options_received = 24" "calign st_tcp_options_received = 4"
  by (simp_all add: st_tcp_options_received_def layout_simps layout_eval)

definition st_tcp_rack :: ctype where
  "st_tcp_rack = Struct [
     Field ''mstamp'' td_u64,
     Field ''rtt_us'' td_u32,
     Field ''end_seq'' td_u32,
     Field ''last_delivered'' td_u32,
     Field ''reo_wnd_steps'' td_u8,
     Bits ''reo_wnd_persist'' td_u8 5,
     Bits ''dsack_seen'' td_u8 1,
     Bits ''advanced'' td_u8 1]"

lemma st_tcp_rack_layout [layout_simps]: "csize st_tcp_rack = 24" "calign st_tcp_rack = 8"
  by (simp_all add: st_tcp_rack_def layout_simps layout_eval)

definition st_tcp_sack_block :: ctype where
  "st_tcp_sack_block = Struct [
     Field ''start_seq'' td_u32,
     Field ''end_seq'' td_u32]"

lemma st_tcp_sack_block_layout [layout_simps]: "csize st_tcp_sack_block = 8" "calign st_tcp_sack_block = 4"
  by (simp_all add: st_tcp_sack_block_def layout_simps layout_eval)

definition st_tcp_sock_members_1 :: "cmember list" where
  "st_tcp_sock_members_1 = [
     Field ''inet_conn'' st_inet_connection_sock,
     Field ''__cacheline_group_begin__tcp_sock_read_tx'' (Arr td___u8 0),
     Field ''max_window'' td_u32,
     Field ''rcv_ssthresh'' td_u32,
     Field ''reordering'' td_u32,
     Field ''notsent_lowat'' td_u32,
     Field ''gso_segs'' td_u16,
     Field ''retransmit_skb_hint'' (Ptr ''struct sk_buff''),
     Field ''__cacheline_group_end__tcp_sock_read_tx'' (Arr td___u8 0),
     Field ''__cacheline_group_begin__tcp_sock_read_txrx'' (Arr td___u8 0),
     Field ''tsoffset'' td_u32,
     Field ''snd_wnd'' td_u32,
     Field ''mss_cache'' td_u32,
     Field ''snd_cwnd'' td_u32,
     Field ''prr_out'' td_u32,
     Field ''lost_out'' td_u32,
     Field ''sacked_out'' td_u32,
     Field ''tcp_header_len'' td_u16,
     Field ''scaling_ratio'' td_u8,
     Bits ''chrono_type'' td_u8 2,
     Bits ''repair'' td_u8 1,
     Bits ''tcp_usec_ts'' td_u8 1,
     Bits ''is_sack_reneg'' td_u8 1,
     Bits ''is_cwnd_limited'' td_u8 1,
     Field ''__cacheline_group_end__tcp_sock_read_txrx'' (Arr td___u8 0),
     Field ''__cacheline_group_begin__tcp_sock_read_rx'' (Arr td___u8 0),
     Field ''copied_seq'' td_u32,
     Field ''rcv_tstamp'' td_u32,
     Field ''snd_wl1'' td_u32,
     Field ''tlp_high_seq'' td_u32,
     Field ''rttvar_us'' td_u32,
     Field ''retrans_out'' td_u32,
     Field ''advmss'' td_u16,
     Field ''urg_data'' td_u16,
     Field ''lost'' td_u32,
     Field ''rtt_min'' st_minmax,
     Field ''out_of_order_queue'' st_rb_root,
     Field ''tcp_clean_acked'' (Ptr ''void (struct sock *, u32)''),
     Field ''snd_ssthresh'' td_u32,
     Bits ''recvmsg_inq'' td_u8 1,
     Field ''__cacheline_group_end__tcp_sock_read_rx'' (Arr td___u8 0),
     Bits '''' c_long 64,
     Bits '''' c_long 64,
     Bits '''' c_long 64,
     Bits '''' c_long 64,
     Bits '''' c_long 64,
     Bits '''' c_long 64,
     Bits '''' c_long 64,
     Field ''__cacheline_group_begin__tcp_sock_write_tx'' (Arr td___u8 0),
     Field ''segs_out'' td_u32,
     Field ''data_segs_out'' td_u32,
     Field ''bytes_sent'' td_u64,
     Field ''snd_sml'' td_u32,
     Field ''chrono_start'' td_u32,
     Field ''chrono_stat'' (Arr td_u32 3),
     Field ''write_seq'' td_u32,
     Field ''pushed_seq'' td_u32,
     Field ''lsndtime'' td_u32,
     Field ''mdev_us'' td_u32,
     Field ''rtt_seq'' td_u32,
     Field ''tcp_wstamp_ns'' td_u64,
     Field ''tsorted_sent_queue'' st_list_head,
     Field ''highest_sack'' (Ptr ''struct sk_buff''),
     Field ''ecn_flags'' td_u8,
     Field ''__cacheline_group_end__tcp_sock_write_tx'' (Arr td___u8 0),
     Field ''__cacheline_group_begin__tcp_sock_write_txrx'' (Arr td___u8 0),
     Field ''pred_flags'' td___be32,
     Field ''tcp_clock_cache'' td_u64,
     Field ''tcp_mstamp'' td_u64,
     Field ''rcv_nxt'' td_u32,
     Field ''snd_nxt'' td_u32,
     Field ''snd_una'' td_u32,
     Field ''window_clamp'' td_u32,
     Field ''srtt_us'' td_u32,
     Field ''packets_out'' td_u32,
     Field ''snd_up'' td_u32,
     Field ''delivered'' td_u32,
     Field ''delivered_ce'' td_u32,
     Field ''app_limited'' td_u32,
     Field ''rcv_wnd'' td_u32,
     Field ''rx_opt'' st_tcp_options_received,
     Bits ''nonagle'' td_u8 4,
     Bits ''rate_app_limited'' td_u8 1,
     Field ''__cacheline_group_end__tcp_sock_write_txrx'' (Arr td___u8 0),
     Bits '''' c_long 0,
     Field ''__cacheline_group_begin__tcp_sock_write_rx'' (Arr td___u8 0),
     Field ''bytes_received'' td_u64,
     Field ''segs_in'' td_u32,
     Field ''data_segs_in'' td_u32,
     Field ''rcv_wup'' td_u32,
     Field ''max_packets_out'' td_u32,
     Field ''cwnd_usage_seq'' td_u32,
     Field ''rate_delivered'' td_u32,
     Field ''rate_interval_us'' td_u32,
     Field ''rcv_rtt_last_tsecr'' td_u32,
     Field ''first_tx_mstamp'' td_u64,
     Field ''delivered_mstamp'' td_u64,
     Field ''bytes_acked'' td_u64,
     Field ''rcv_rtt_est'' (Struct [
       Field ''rtt_us'' td_u32,
       Field ''seq'' td_u32,
       Field ''time'' td_u64]),
     Field ''rcvq_space'' (Struct [
       Field ''space'' c_int,
       Field ''seq'' td_u32,
       Field ''time'' td_u64]),
     Field ''__cacheline_group_end__tcp_sock_write_rx'' (Arr td___u8 0),
     Field ''dsack_dups'' td_u32,
     Field ''compressed_ack_rcv_nxt'' td_u32,
     Field ''tsq_node'' st_list_head,
     Field ''rack'' st_tcp_rack,
     Field ''compressed_ack'' td_u8,
     Bits ''dup_ack_counter'' td_u8 2,
     Bits ''tlp_retrans'' td_u8 1,
     Bits ''unused'' td_u8 5,
     Bits ''thin_lto'' td_u8 1,
     Bits ''fastopen_connect'' td_u8 1,
     Bits ''fastopen_no_cookie'' td_u8 1,
     Bits ''fastopen_client_fail'' td_u8 2,
     Bits ''frto'' td_u8 1,
     Field ''repair_queue'' td_u8,
     Bits ''save_syn'' td_u8 2,
     Bits ''syn_data'' td_u8 1,
     Bits ''syn_fastopen'' td_u8 1,
     Bits ''syn_fastopen_exp'' td_u8 1,
     Bits ''syn_fastopen_ch'' td_u8 1,
     Bits ''syn_data_acked'' td_u8 1,
     Bits ''syn_fastopen_child'' td_u8 1,
     Field ''keepalive_probes'' td_u8,
     Field ''tcp_tx_delay'' td_u32,
     Field ''mdev_max_us'' td_u32,
     Field ''reord_seen'' td_u32,
     Field ''snd_cwnd_cnt'' td_u32,
     Field ''snd_cwnd_clamp'' td_u32,
     Field ''snd_cwnd_used'' td_u32,
     Field ''snd_cwnd_stamp'' td_u32,
     Field ''prior_cwnd'' td_u32,
     Field ''prr_delivered'' td_u32]"

definition st_tcp_sock_members_2 :: "cmember list" where
  "st_tcp_sock_members_2 = [
     Field ''last_oow_ack_time'' td_u32,
     Field ''pacing_timer'' st_hrtimer,
     Field ''compressed_ack_timer'' st_hrtimer,
     Field ''ooo_last_skb'' (Ptr ''struct sk_buff''),
     Field ''duplicate_sack'' (Arr st_tcp_sack_block 1),
     Field ''selective_acks'' (Arr st_tcp_sack_block 4),
     Field ''recv_sack_cache'' (Arr st_tcp_sack_block 4),
     Field ''prior_ssthresh'' td_u32,
     Field ''high_seq'' td_u32,
     Field ''retrans_stamp'' td_u32,
     Field ''undo_marker'' td_u32,
     Field ''undo_retrans'' c_int,
     Field ''bytes_retrans'' td_u64,
     Field ''total_retrans'' td_u32,
     Field ''rto_stamp'' td_u32,
     Field ''total_rto'' td_u16,
     Field ''total_rto_recoveries'' td_u16,
     Field ''total_rto_time'' td_u32,
     Field ''urg_seq'' td_u32,
     Field ''keepalive_time'' c_unsigned_int,
     Field ''keepalive_intvl'' c_unsigned_int,
     Field ''linger2'' c_int,
     Field ''bpf_sock_ops_cb_flags'' td_u8,
     Bits ''bpf_chg_cc_inprogress'' td_u8 1,
     Field ''timeout_rehash'' td_u16,
     Field ''rcv_ooopack'' td_u32,
     Field ''mtu_probe'' (Struct [
       Field ''probe_seq_start'' td_u32,
       Field ''probe_seq_end'' td_u32]),
     Field ''plb_rehash'' td_u32,
     Field ''mtu_info'' td_u32,
     Field ''is_mptcp'' td_bool,
     Field ''syn_smc'' td_bool,
     Field ''smc_hs_congested'' (Ptr ''bool (struct sock *)''),
     Field ''af_specific'' (Ptr ''struct tcp_sock_af_ops''),
     Field ''md5sig_info'' (Ptr ''struct tcp_md5sig_info''),
     Field ''ao_info'' (Ptr ''struct tcp_ao_info''),
     Field ''fastopen_req'' (Ptr ''struct tcp_fastopen_request''),
     Field ''fastopen_rsk'' (Ptr ''struct request_sock''),
     Field ''saved_syn'' (Ptr ''struct saved_syn''),
     Bits '''' c_long 64,
     Bits '''' c_long 64,
     Bits '''' c_long 64,
     Bits '''' c_long 64]"

definition st_tcp_sock :: ctype where
  "st_tcp_sock = Struct (st_tcp_sock_members_1 @ st_tcp_sock_members_2)"

lemma st_tcp_sock_layout [layout_simps]: "csize st_tcp_sock = 2368" "calign st_tcp_sock = 8"
  by (simp_all add: st_tcp_sock_def st_tcp_sock_members_1_def st_tcp_sock_members_2_def layout_simps layout_eval)

definition td___wsum :: ctype where "td___wsum = td___u32"

lemma td___wsum_layout [layout_simps]: "csize td___wsum = 4" "calign td___wsum = 4"
  by (simp_all add: td___wsum_def layout_simps layout_eval)

definition td_sk_buff_data_t :: ctype where "td_sk_buff_data_t = c_unsigned_int"

lemma td_sk_buff_data_t_layout [layout_simps]: "csize td_sk_buff_data_t = 4" "calign td_sk_buff_data_t = 4"
  by (simp_all add: td_sk_buff_data_t_def layout_simps layout_eval)

definition st_sk_buff_members_1 :: "cmember list" where
  "st_sk_buff_members_1 = [
     Field '''' (Union [
       Field '''' (Struct [
         Field ''next'' (Ptr ''struct sk_buff''),
         Field ''prev'' (Ptr ''struct sk_buff''),
         Field '''' (Union [
           Field ''dev'' (Ptr ''struct net_device''),
           Field ''dev_scratch'' c_unsigned_long])]),
       Field ''rbnode'' st_rb_node,
       Field ''list'' st_list_head,
       Field ''ll_node'' st_llist_node]),
     Field ''sk'' (Ptr ''struct sock''),
     Field '''' (Union [
       Field ''tstamp'' td_ktime_t,
       Field ''skb_mstamp_ns'' td_u64]),
     Field ''cb'' (Arr c_char 48),
     Field '''' (Union [
       Field '''' (Struct [
         Field ''_skb_refdst'' c_unsigned_long,
         Field ''destructor'' (Ptr ''void (struct sk_buff *)'')]),
       Field ''tcp_tsorted_anchor'' st_list_head,
       Field ''_sk_redir'' c_unsigned_long]),
     Field ''_nfct'' c_unsigned_long,
     Field ''len'' c_unsigned_int,
     Field ''data_len'' c_unsigned_int,
     Field ''mac_len'' td___u16,
     Field ''hdr_len'' td___u16,
     Field ''queue_mapping'' td___u16,
     Field ''__cloned_offset'' (Arr td___u8 0),
     Bits ''cloned'' td___u8 1,
     Bits ''nohdr'' td___u8 1,
     Bits ''fclone'' td___u8 2,
     Bits ''peeked'' td___u8 1,
     Bits ''head_frag'' td___u8 1,
     Bits ''pfmemalloc'' td___u8 1,
     Bits ''pp_recycle'' td___u8 1,
     Field ''active_extensions'' td___u8]"

definition st_sk_buff_members_2 :: "cmember list" where
  "st_sk_buff_members_2 = [
     Field '''' (Union [
       Field '''' (Struct [
         Field ''__pkt_type_offset'' (Arr td___u8 0),
         Bits ''pkt_type'' td___u8 3,
         Bits ''ignore_df'' td___u8 1,
         Bits ''dst_pending_confirm'' td___u8 1,
         Bits ''ip_summed'' td___u8 2,
         Bits ''ooo_okay'' td___u8 1,
         Field ''__mono_tc_offset'' (Arr td___u8 0),
         Bits ''tstamp_type'' td___u8 2,
         Bits ''tc_at_ingress'' td___u8 1,
         Bits ''tc_skip_classify'' td___u8 1,
         Bits ''remcsum_offload'' td___u8 1,
         Bits ''csum_complete_sw'' td___u8 1,
         Bits ''csum_level'' td___u8 2,
         Bits ''inner_protocol_type'' td___u8 1,
         Bits ''l4_hash'' td___u8 1,
         Bits ''sw_hash'' td___u8 1,
         Bits ''wifi_acked_valid'' td___u8 1,
         Bits ''wifi_acked'' td___u8 1,
         Bits ''no_fcs'' td___u8 1,
         Bits ''encapsulation'' td___u8 1,
         Bits ''encap_hdr_csum'' td___u8 1,
         Bits ''csum_valid'' td___u8 1,
         Bits ''ndisc_nodetype'' td___u8 2,
         Bits ''ipvs_property'' td___u8 1,
         Bits ''nf_trace'' td___u8 1,
         Bits ''offload_fwd_mark'' td___u8 1,
         Bits ''offload_l3_fwd_mark'' td___u8 1,
         Bits ''redirected'' td___u8 1,
         Bits ''from_ingress'' td___u8 1,
         Bits ''nf_skip_egress'' td___u8 1,
         Bits ''decrypted'' td___u8 1,
         Bits ''slow_gro'' td___u8 1,
         Bits ''csum_not_inet'' td___u8 1,
         Bits ''unreadable'' td___u8 1,
         Field ''tc_index'' td___u16,
         Field ''alloc_cpu'' td_u16,
         Field '''' (Union [
           Field ''csum'' td___wsum,
           Field '''' (Struct [
             Field ''csum_start'' td___u16,
             Field ''csum_offset'' td___u16])]),
         Field ''priority'' td___u32,
         Field ''skb_iif'' c_int,
         Field ''hash'' td___u32,
         Field '''' (Union [
           Field ''vlan_all'' td_u32,
           Field '''' (Struct [
             Field ''vlan_proto'' td___be16,
             Field ''vlan_tci'' td___u16])]),
         Field '''' (Union [
           Field ''napi_id'' c_unsigned_int,
           Field ''sender_cpu'' c_unsigned_int]),
         Field ''secmark'' td___u32,
         Field '''' (Union [
           Field ''mark'' td___u32,
           Field ''reserved_tailroom'' td___u32]),
         Field '''' (Union [
           Field ''inner_protocol'' td___be16,
           Field ''inner_ipproto'' td___u8]),
         Field ''inner_transport_header'' td___u16,
         Field ''inner_network_header'' td___u16,
         Field ''inner_mac_header'' td___u16,
         Field ''protocol'' td___be16,
         Field ''transport_header'' td___u16,
         Field ''network_header'' td___u16,
         Field ''mac_header'' td___u16]),
       Field ''headers'' (Struct [
         Field ''__pkt_type_offset'' (Arr td___u8 0),
         Bits ''pkt_type'' td___u8 3,
         Bits ''ignore_df'' td___u8 1,
         Bits ''dst_pending_confirm'' td___u8 1,
         Bits ''ip_summed'' td___u8 2,
         Bits ''ooo_okay'' td___u8 1,
         Field ''__mono_tc_offset'' (Arr td___u8 0),
         Bits ''tstamp_type'' td___u8 2,
         Bits ''tc_at_ingress'' td___u8 1,
         Bits ''tc_skip_classify'' td___u8 1,
         Bits ''remcsum_offload'' td___u8 1,
         Bits ''csum_complete_sw'' td___u8 1,
         Bits ''csum_level'' td___u8 2,
         Bits ''inner_protocol_type'' td___u8 1,
         Bits ''l4_hash'' td___u8 1,
         Bits ''sw_hash'' td___u8 1,
         Bits ''wifi_acked_valid'' td___u8 1,
         Bits ''wifi_acked'' td___u8 1,
         Bits ''no_fcs'' td___u8 1,
         Bits ''encapsulation'' td___u8 1,
         Bits ''encap_hdr_csum'' td___u8 1,
         Bits ''csum_valid'' td___u8 1,
         Bits ''ndisc_nodetype'' td___u8 2,
         Bits ''ipvs_property'' td___u8 1,
         Bits ''nf_trace'' td___u8 1,
         Bits ''offload_fwd_mark'' td___u8 1,
         Bits ''offload_l3_fwd_mark'' td___u8 1,
         Bits ''redirected'' td___u8 1,
         Bits ''from_ingress'' td___u8 1,
         Bits ''nf_skip_egress'' td___u8 1,
         Bits ''decrypted'' td___u8 1,
         Bits ''slow_gro'' td___u8 1,
         Bits ''csum_not_inet'' td___u8 1,
         Bits ''unreadable'' td___u8 1,
         Field ''tc_index'' td___u16,
         Field ''alloc_cpu'' td_u16,
         Field '''' (Union [
           Field ''csum'' td___wsum,
           Field '''' (Struct [
             Field ''csum_start'' td___u16,
             Field ''csum_offset'' td___u16])]),
         Field ''priority'' td___u32,
         Field ''skb_iif'' c_int,
         Field ''hash'' td___u32,
         Field '''' (Union [
           Field ''vlan_all'' td_u32,
           Field '''' (Struct [
             Field ''vlan_proto'' td___be16,
             Field ''vlan_tci'' td___u16])]),
         Field '''' (Union [
           Field ''napi_id'' c_unsigned_int,
           Field ''sender_cpu'' c_unsigned_int]),
         Field ''secmark'' td___u32,
         Field '''' (Union [
           Field ''mark'' td___u32,
           Field ''reserved_tailroom'' td___u32]),
         Field '''' (Union [
           Field ''inner_protocol'' td___be16,
           Field ''inner_ipproto'' td___u8]),
         Field ''inner_transport_header'' td___u16,
         Field ''inner_network_header'' td___u16,
         Field ''inner_mac_header'' td___u16,
         Field ''protocol'' td___be16,
         Field ''transport_header'' td___u16,
         Field ''network_header'' td___u16,
         Field ''mac_header'' td___u16])])]"

definition st_sk_buff_members_3 :: "cmember list" where
  "st_sk_buff_members_3 = [
     Field ''tail'' td_sk_buff_data_t,
     Field ''end'' td_sk_buff_data_t,
     Field ''head'' (Ptr ''unsigned char''),
     Field ''data'' (Ptr ''unsigned char''),
     Field ''truesize'' c_unsigned_int,
     Field ''users'' td_refcount_t,
     Field ''extensions'' (Ptr ''struct skb_ext'')]"

definition st_sk_buff :: ctype where
  "st_sk_buff = Struct (st_sk_buff_members_1 @ st_sk_buff_members_2 @ st_sk_buff_members_3)"

lemma st_sk_buff_layout [layout_simps]: "csize st_sk_buff = 232" "calign st_sk_buff = 8"
  by (simp_all add: st_sk_buff_def st_sk_buff_members_1_def st_sk_buff_members_2_def st_sk_buff_members_3_def layout_simps layout_eval)

end
