(* ===== verification/VmBlock.thy ===== *)
theory VmBlock
  imports VmNet
begin

text \<open>
  Kernel type declarations of \<open>internal/bpf/c/headers/vmlinux.h\<close>: block layer: the request the block tracepoints report on, its queue, its bio and its device.
  Each definition is one declaration of the header, member by member: \<open>st_\<close>, \<open>un_\<close> and \<open>en_\<close>
  name a structure, a union and an enumeration, \<open>td_\<close> a typedef. The lemma after a
  definition computes its size and alignment, which the layouts of the types that embed it use.
\<close>

definition td_blk_opf_t :: ctype where "td_blk_opf_t = td___u32"

lemma td_blk_opf_t_layout [layout_simps]: "csize td_blk_opf_t = 4" "calign td_blk_opf_t = 4"
  by (simp_all add: td_blk_opf_t_def layout_simps layout_eval)

definition td_req_flags_t :: ctype where "td_req_flags_t = td___u32"

lemma td_req_flags_t_layout [layout_simps]: "csize td_req_flags_t = 4" "calign td_req_flags_t = 4"
  by (simp_all add: td_req_flags_t_def layout_simps layout_eval)

definition en_mq_rq_state :: ctype where
  "en_mq_rq_state = CEnum 4 [
     (''MQ_RQ_IDLE'', 0),
     (''MQ_RQ_IN_FLIGHT'', 1),
     (''MQ_RQ_COMPLETE'', 2)]"

lemma en_mq_rq_state_layout [layout_simps]: "csize en_mq_rq_state = 4" "calign en_mq_rq_state = 4"
  by (simp_all add: en_mq_rq_state_def layout_simps layout_eval)

definition st_bio_vec :: ctype where
  "st_bio_vec = Struct [
     Field ''bv_page'' (Ptr ''struct page''),
     Field ''bv_len'' c_unsigned_int,
     Field ''bv_offset'' c_unsigned_int]"

lemma st_bio_vec_layout [layout_simps]: "csize st_bio_vec = 16" "calign st_bio_vec = 8"
  by (simp_all add: st_bio_vec_def layout_simps layout_eval)

definition st_request :: ctype where
  "st_request = Struct [
     Field ''q'' (Ptr ''struct request_queue''),
     Field ''mq_ctx'' (Ptr ''struct blk_mq_ctx''),
     Field ''mq_hctx'' (Ptr ''struct blk_mq_hw_ctx''),
     Field ''cmd_flags'' td_blk_opf_t,
     Field ''rq_flags'' td_req_flags_t,
     Field ''tag'' c_int,
     Field ''internal_tag'' c_int,
     Field ''timeout'' c_unsigned_int,
     Field ''__data_len'' c_unsigned_int,
     Field ''__sector'' td_sector_t,
     Field ''bio'' (Ptr ''struct bio''),
     Field ''biotail'' (Ptr ''struct bio''),
     Field '''' (Union [
       Field ''queuelist'' st_list_head,
       Field ''rq_next'' (Ptr ''struct request'')]),
     Field ''part'' (Ptr ''struct block_device''),
     Field ''alloc_time_ns'' td_u64,
     Field ''start_time_ns'' td_u64,
     Field ''io_start_time_ns'' td_u64,
     Field ''wbt_flags'' c_unsigned_short,
     Field ''stats_sectors'' c_unsigned_short,
     Field ''nr_phys_segments'' c_unsigned_short,
     Field ''nr_integrity_segments'' c_unsigned_short,
     Field ''crypt_ctx'' (Ptr ''struct bio_crypt_ctx''),
     Field ''crypt_keyslot'' (Ptr ''struct blk_crypto_keyslot''),
     Field ''state'' en_mq_rq_state,
     Field ''ref'' td_atomic_t,
     Field ''deadline'' c_unsigned_long,
     Field '''' (Union [
       Field ''hash'' st_hlist_node,
       Field ''ipi_list'' st_llist_node]),
     Field '''' (Union [
       Field ''rb_node'' st_rb_node,
       Field ''special_vec'' st_bio_vec]),
     Field ''elv'' (Struct [
       Field ''icq'' (Ptr ''struct io_cq''),
       Field ''priv'' (Arr (Ptr ''void'') 2)]),
     Field ''flush'' (Struct [
       Field ''seq'' c_unsigned_int,
       Field ''saved_end_io'' (Ptr ''rq_end_io_fn'')]),
     Field ''fifo_time'' td_u64,
     Field ''end_io'' (Ptr ''rq_end_io_fn''),
     Field ''end_io_data'' (Ptr ''void'')]"

lemma st_request_layout [layout_simps]: "csize st_request = 264" "calign st_request = 8"
  by (simp_all add: st_request_def layout_simps layout_eval)

definition st_lock_class_key :: ctype where
  "st_lock_class_key = Struct []"

lemma st_lock_class_key_layout [layout_simps]: "csize st_lock_class_key = 0" "calign st_lock_class_key = 1"
  by (simp_all add: st_lock_class_key_def layout_simps layout_eval)

definition st_lockdep_map :: ctype where
  "st_lockdep_map = Struct []"

lemma st_lockdep_map_layout [layout_simps]: "csize st_lockdep_map = 0" "calign st_lockdep_map = 1"
  by (simp_all add: st_lockdep_map_def layout_simps layout_eval)

definition td_blk_features_t :: ctype where "td_blk_features_t = c_unsigned_int"

lemma td_blk_features_t_layout [layout_simps]: "csize td_blk_features_t = 4" "calign td_blk_features_t = 4"
  by (simp_all add: td_blk_features_t_def layout_simps layout_eval)

definition td_blk_flags_t :: ctype where "td_blk_flags_t = c_unsigned_int"

lemma td_blk_flags_t_layout [layout_simps]: "csize td_blk_flags_t = 4" "calign td_blk_flags_t = 4"
  by (simp_all add: td_blk_flags_t_def layout_simps layout_eval)

definition en_blk_integrity_checksum :: ctype where
  "en_blk_integrity_checksum = CEnum 1 [
     (''BLK_INTEGRITY_CSUM_NONE'', 0),
     (''BLK_INTEGRITY_CSUM_IP'', 1),
     (''BLK_INTEGRITY_CSUM_CRC'', 2),
     (''BLK_INTEGRITY_CSUM_CRC64'', 3)]"

lemma en_blk_integrity_checksum_layout [layout_simps]: "csize en_blk_integrity_checksum = 1" "calign en_blk_integrity_checksum = 1"
  by (simp_all add: en_blk_integrity_checksum_def layout_simps layout_eval)

definition st_blk_integrity :: ctype where
  "st_blk_integrity = Struct [
     Field ''flags'' c_unsigned_char,
     Field ''csum_type'' en_blk_integrity_checksum,
     Field ''metadata_size'' c_unsigned_char,
     Field ''pi_offset'' c_unsigned_char,
     Field ''interval_exp'' c_unsigned_char,
     Field ''tag_size'' c_unsigned_char,
     Field ''pi_tuple_size'' c_unsigned_char]"

lemma st_blk_integrity_layout [layout_simps]: "csize st_blk_integrity = 7" "calign st_blk_integrity = 1"
  by (simp_all add: st_blk_integrity_def layout_simps layout_eval)

definition st_queue_limits :: ctype where
  "st_queue_limits = Struct [
     Field ''features'' td_blk_features_t,
     Field ''flags'' td_blk_flags_t,
     Field ''seg_boundary_mask'' c_unsigned_long,
     Field ''virt_boundary_mask'' c_unsigned_long,
     Field ''max_hw_sectors'' c_unsigned_int,
     Field ''max_dev_sectors'' c_unsigned_int,
     Field ''chunk_sectors'' c_unsigned_int,
     Field ''max_sectors'' c_unsigned_int,
     Field ''max_user_sectors'' c_unsigned_int,
     Field ''max_segment_size'' c_unsigned_int,
     Field ''min_segment_size'' c_unsigned_int,
     Field ''physical_block_size'' c_unsigned_int,
     Field ''logical_block_size'' c_unsigned_int,
     Field ''alignment_offset'' c_unsigned_int,
     Field ''io_min'' c_unsigned_int,
     Field ''io_opt'' c_unsigned_int,
     Field ''max_discard_sectors'' c_unsigned_int,
     Field ''max_hw_discard_sectors'' c_unsigned_int,
     Field ''max_user_discard_sectors'' c_unsigned_int,
     Field ''max_secure_erase_sectors'' c_unsigned_int,
     Field ''max_write_zeroes_sectors'' c_unsigned_int,
     Field ''max_wzeroes_unmap_sectors'' c_unsigned_int,
     Field ''max_hw_wzeroes_unmap_sectors'' c_unsigned_int,
     Field ''max_user_wzeroes_unmap_sectors'' c_unsigned_int,
     Field ''max_hw_zone_append_sectors'' c_unsigned_int,
     Field ''max_zone_append_sectors'' c_unsigned_int,
     Field ''discard_granularity'' c_unsigned_int,
     Field ''discard_alignment'' c_unsigned_int,
     Field ''zone_write_granularity'' c_unsigned_int,
     Field ''atomic_write_hw_max'' c_unsigned_int,
     Field ''atomic_write_max_sectors'' c_unsigned_int,
     Field ''atomic_write_hw_boundary'' c_unsigned_int,
     Field ''atomic_write_boundary_sectors'' c_unsigned_int,
     Field ''atomic_write_hw_unit_min'' c_unsigned_int,
     Field ''atomic_write_unit_min'' c_unsigned_int,
     Field ''atomic_write_hw_unit_max'' c_unsigned_int,
     Field ''atomic_write_unit_max'' c_unsigned_int,
     Field ''max_segments'' c_unsigned_short,
     Field ''max_integrity_segments'' c_unsigned_short,
     Field ''max_discard_segments'' c_unsigned_short,
     Field ''max_write_streams'' c_unsigned_short,
     Field ''write_stream_granularity'' c_unsigned_int,
     Field ''max_open_zones'' c_unsigned_int,
     Field ''max_active_zones'' c_unsigned_int,
     Field ''dma_alignment'' c_unsigned_int,
     Field ''dma_pad_mask'' c_unsigned_int,
     Field ''integrity'' st_blk_integrity]"

lemma st_queue_limits_layout [layout_simps]: "csize st_queue_limits = 192" "calign st_queue_limits = 8"
  by (simp_all add: st_queue_limits_def layout_simps layout_eval)

definition en_rpm_status :: ctype where
  "en_rpm_status = CEnum 4 [
     (''RPM_INVALID'', -1),
     (''RPM_ACTIVE'', 0),
     (''RPM_RESUMING'', 1),
     (''RPM_SUSPENDED'', 2),
     (''RPM_SUSPENDING'', 3),
     (''RPM_BLOCKED'', 4)]"

lemma en_rpm_status_layout [layout_simps]: "csize en_rpm_status = 4" "calign en_rpm_status = 4"
  by (simp_all add: en_rpm_status_def layout_simps layout_eval)

definition st_delayed_work :: ctype where
  "st_delayed_work = Struct [
     Field ''work'' st_work_struct,
     Field ''timer'' st_timer_list,
     Field ''wq'' (Ptr ''struct workqueue_struct''),
     Field ''cpu'' c_int]"

lemma st_delayed_work_layout [layout_simps]: "csize st_delayed_work = 88" "calign st_delayed_work = 8"
  by (simp_all add: st_delayed_work_def layout_simps layout_eval)

definition st_request_queue :: ctype where
  "st_request_queue = Struct [
     Field ''queuedata'' (Ptr ''void''),
     Field ''elevator'' (Ptr ''struct elevator_queue''),
     Field ''mq_ops'' (Ptr ''struct blk_mq_ops''),
     Field ''queue_ctx'' (Ptr ''struct blk_mq_ctx''),
     Field ''queue_flags'' c_unsigned_long,
     Field ''rq_timeout'' c_unsigned_int,
     Field ''queue_depth'' c_unsigned_int,
     Field ''refs'' td_refcount_t,
     Field ''nr_hw_queues'' c_unsigned_int,
     Field ''hctx_table'' st_xarray,
     Field ''q_usage_counter'' st_percpu_ref,
     Field ''io_lock_cls_key'' st_lock_class_key,
     Field ''io_lockdep_map'' st_lockdep_map,
     Field ''q_lock_cls_key'' st_lock_class_key,
     Field ''q_lockdep_map'' st_lockdep_map,
     Field ''last_merge'' (Ptr ''struct request''),
     Field ''queue_lock'' td_spinlock_t,
     Field ''quiesce_depth'' c_int,
     Field ''disk'' (Ptr ''struct gendisk''),
     Field ''mq_kobj'' (Ptr ''struct kobject''),
     Field ''limits'' st_queue_limits,
     Field ''dev'' (Ptr ''struct device''),
     Field ''rpm_status'' en_rpm_status,
     Field ''pm_only'' td_atomic_t,
     Field ''stats'' (Ptr ''struct blk_queue_stats''),
     Field ''rq_qos'' (Ptr ''struct rq_qos''),
     Field ''rq_qos_mutex'' st_mutex,
     Field ''id'' c_int,
     Field ''nr_requests'' c_unsigned_long,
     Field ''crypto_profile'' (Ptr ''struct blk_crypto_profile''),
     Field ''crypto_kobject'' (Ptr ''struct kobject''),
     Field ''timeout'' st_timer_list,
     Field ''timeout_work'' st_work_struct,
     Field ''nr_active_requests_shared_tags'' td_atomic_t,
     Field ''sched_shared_tags'' (Ptr ''struct blk_mq_tags''),
     Field ''icq_list'' st_list_head,
     Field ''blkcg_pols'' (Arr c_unsigned_long 1),
     Field ''root_blkg'' (Ptr ''struct blkcg_gq''),
     Field ''blkg_list'' st_list_head,
     Field ''blkcg_mutex'' st_mutex,
     Field ''node'' c_int,
     Field ''requeue_lock'' td_spinlock_t,
     Field ''requeue_list'' st_list_head,
     Field ''requeue_work'' st_delayed_work,
     Field ''blk_trace'' (Ptr ''struct blk_trace''),
     Field ''fq'' (Ptr ''struct blk_flush_queue''),
     Field ''flush_list'' st_list_head,
     Field ''elevator_lock'' st_mutex,
     Field ''sysfs_lock'' st_mutex,
     Field ''limits_lock'' st_mutex,
     Field ''unused_hctx_list'' st_list_head,
     Field ''unused_hctx_lock'' td_spinlock_t,
     Field ''mq_freeze_depth'' c_int,
     Field ''td'' (Ptr ''struct throtl_data''),
     Field ''callback_head'' st_callback_head,
     Field ''mq_freeze_wq'' td_wait_queue_head_t,
     Field ''mq_freeze_lock'' st_mutex,
     Field ''tag_set'' (Ptr ''struct blk_mq_tag_set''),
     Field ''tag_set_list'' st_list_head,
     Field ''debugfs_dir'' (Ptr ''struct dentry''),
     Field ''sched_debugfs_dir'' (Ptr ''struct dentry''),
     Field ''rqos_debugfs_dir'' (Ptr ''struct dentry''),
     Field ''debugfs_mutex'' st_mutex]"

lemma st_request_queue_layout [layout_simps]: "csize st_request_queue = 1000" "calign st_request_queue = 8"
  by (simp_all add: st_request_queue_def layout_simps layout_eval)

definition en_rw_hint :: ctype where
  "en_rw_hint = CEnum 1 [
     (''WRITE_LIFE_NOT_SET'', 0),
     (''WRITE_LIFE_NONE'', 1),
     (''WRITE_LIFE_SHORT'', 2),
     (''WRITE_LIFE_MEDIUM'', 3),
     (''WRITE_LIFE_LONG'', 4),
     (''WRITE_LIFE_EXTREME'', 5)]"

lemma en_rw_hint_layout [layout_simps]: "csize en_rw_hint = 1" "calign en_rw_hint = 1"
  by (simp_all add: en_rw_hint_def layout_simps layout_eval)

definition td_blk_status_t :: ctype where "td_blk_status_t = td_u8"

lemma td_blk_status_t_layout [layout_simps]: "csize td_blk_status_t = 1" "calign td_blk_status_t = 1"
  by (simp_all add: td_blk_status_t_def layout_simps layout_eval)

definition st_bvec_iter :: ctype where
  "st_bvec_iter = Packed [
     Field ''bi_sector'' td_sector_t,
     Field ''bi_size'' c_unsigned_int,
     Field ''bi_idx'' c_unsigned_int,
     Field ''bi_bvec_done'' c_unsigned_int]"

lemma st_bvec_iter_layout [layout_simps]: "csize st_bvec_iter = 20" "calign st_bvec_iter = 1"
  by (simp_all add: st_bvec_iter_def layout_simps layout_eval)

definition td_blk_qc_t :: ctype where "td_blk_qc_t = c_unsigned_int"

lemma td_blk_qc_t_layout [layout_simps]: "csize td_blk_qc_t = 4" "calign td_blk_qc_t = 4"
  by (simp_all add: td_blk_qc_t_def layout_simps layout_eval)

definition st_bio :: ctype where
  "st_bio = Struct [
     Field ''bi_next'' (Ptr ''struct bio''),
     Field ''bi_bdev'' (Ptr ''struct block_device''),
     Field ''bi_opf'' td_blk_opf_t,
     Field ''bi_flags'' c_unsigned_short,
     Field ''bi_ioprio'' c_unsigned_short,
     Field ''bi_write_hint'' en_rw_hint,
     Field ''bi_write_stream'' td_u8,
     Field ''bi_status'' td_blk_status_t,
     Field ''__bi_remaining'' td_atomic_t,
     Field ''bi_iter'' st_bvec_iter,
     Field '''' (Union [
       Field ''bi_cookie'' td_blk_qc_t,
       Field ''__bi_nr_segments'' c_unsigned_int]),
     Field ''bi_end_io'' (Ptr ''bio_end_io_t''),
     Field ''bi_private'' (Ptr ''void''),
     Field ''bi_blkg'' (Ptr ''struct blkcg_gq''),
     Field ''issue_time_ns'' td_u64,
     Field ''bi_iocost_cost'' td_u64,
     Field ''bi_crypt_context'' (Ptr ''struct bio_crypt_ctx''),
     Field ''bi_integrity'' (Ptr ''struct bio_integrity_payload''),
     Field ''bi_vcnt'' c_unsigned_short,
     Field ''bi_max_vecs'' c_unsigned_short,
     Field ''__bi_cnt'' td_atomic_t,
     Field ''bi_io_vec'' (Ptr ''struct bio_vec''),
     Field ''bi_pool'' (Ptr ''struct bio_set''),
     Field ''bi_inline_vecs'' (Arr st_bio_vec 0)]"

lemma st_bio_layout [layout_simps]: "csize st_bio = 136" "calign st_bio = 8"
  by (simp_all add: st_bio_def layout_simps layout_eval)

definition st_kref :: ctype where
  "st_kref = Struct [
     Field ''refcount'' td_refcount_t]"

lemma st_kref_layout [layout_simps]: "csize st_kref = 4" "calign st_kref = 4"
  by (simp_all add: st_kref_def layout_simps layout_eval)

definition st_kobject :: ctype where
  "st_kobject = Struct [
     Field ''name'' (Ptr ''char''),
     Field ''entry'' st_list_head,
     Field ''parent'' (Ptr ''struct kobject''),
     Field ''kset'' (Ptr ''struct kset''),
     Field ''ktype'' (Ptr ''struct kobj_type''),
     Field ''sd'' (Ptr ''struct kernfs_node''),
     Field ''kref'' st_kref,
     Bits ''state_initialized'' c_unsigned_int 1,
     Bits ''state_in_sysfs'' c_unsigned_int 1,
     Bits ''state_add_uevent_sent'' c_unsigned_int 1,
     Bits ''state_remove_uevent_sent'' c_unsigned_int 1,
     Bits ''uevent_suppress'' c_unsigned_int 1]"

lemma st_kobject_layout [layout_simps]: "csize st_kobject = 64" "calign st_kobject = 8"
  by (simp_all add: st_kobject_def layout_simps layout_eval)

definition en_dl_dev_state :: ctype where
  "en_dl_dev_state = CEnum 4 [
     (''DL_DEV_NO_DRIVER'', 0),
     (''DL_DEV_PROBING'', 1),
     (''DL_DEV_DRIVER_BOUND'', 2),
     (''DL_DEV_UNBINDING'', 3)]"

lemma en_dl_dev_state_layout [layout_simps]: "csize en_dl_dev_state = 4" "calign en_dl_dev_state = 4"
  by (simp_all add: en_dl_dev_state_def layout_simps layout_eval)

definition st_dev_links_info :: ctype where
  "st_dev_links_info = Struct [
     Field ''suppliers'' st_list_head,
     Field ''consumers'' st_list_head,
     Field ''defer_sync'' st_list_head,
     Field ''status'' en_dl_dev_state]"

lemma st_dev_links_info_layout [layout_simps]: "csize st_dev_links_info = 56" "calign st_dev_links_info = 8"
  by (simp_all add: st_dev_links_info_def layout_simps layout_eval)

definition st_pm_message :: ctype where
  "st_pm_message = Struct [
     Field ''event'' c_int]"

lemma st_pm_message_layout [layout_simps]: "csize st_pm_message = 4" "calign st_pm_message = 4"
  by (simp_all add: st_pm_message_def layout_simps layout_eval)

definition td_pm_message_t :: ctype where "td_pm_message_t = st_pm_message"

lemma td_pm_message_t_layout [layout_simps]: "csize td_pm_message_t = 4" "calign td_pm_message_t = 4"
  by (simp_all add: td_pm_message_t_def layout_simps layout_eval)

definition st_swait_queue_head :: ctype where
  "st_swait_queue_head = Struct [
     Field ''lock'' td_raw_spinlock_t,
     Field ''task_list'' st_list_head]"

lemma st_swait_queue_head_layout [layout_simps]: "csize st_swait_queue_head = 24" "calign st_swait_queue_head = 8"
  by (simp_all add: st_swait_queue_head_def layout_simps layout_eval)

definition st_completion :: ctype where
  "st_completion = Struct [
     Field ''done'' c_unsigned_int,
     Field ''wait'' st_swait_queue_head]"

lemma st_completion_layout [layout_simps]: "csize st_completion = 32" "calign st_completion = 8"
  by (simp_all add: st_completion_def layout_simps layout_eval)

definition en_rpm_request :: ctype where
  "en_rpm_request = CEnum 4 [
     (''RPM_REQ_NONE'', 0),
     (''RPM_REQ_IDLE'', 1),
     (''RPM_REQ_SUSPEND'', 2),
     (''RPM_REQ_AUTOSUSPEND'', 3),
     (''RPM_REQ_RESUME'', 4)]"

lemma en_rpm_request_layout [layout_simps]: "csize en_rpm_request = 4" "calign en_rpm_request = 4"
  by (simp_all add: en_rpm_request_def layout_simps layout_eval)

definition st_dev_pm_info :: ctype where
  "st_dev_pm_info = Struct [
     Field ''power_state'' td_pm_message_t,
     Bits ''can_wakeup'' td_bool 1,
     Bits ''async_suspend'' td_bool 1,
     Bits ''in_dpm_list'' td_bool 1,
     Bits ''is_prepared'' td_bool 1,
     Bits ''is_suspended'' td_bool 1,
     Bits ''is_noirq_suspended'' td_bool 1,
     Bits ''is_late_suspended'' td_bool 1,
     Bits ''no_pm'' td_bool 1,
     Bits ''early_init'' td_bool 1,
     Bits ''direct_complete'' td_bool 1,
     Field ''driver_flags'' td_u32,
     Field ''lock'' td_spinlock_t,
     Field ''entry'' st_list_head,
     Field ''completion'' st_completion,
     Field ''wakeup'' (Ptr ''struct wakeup_source''),
     Bits ''wakeup_path'' td_bool 1,
     Bits ''syscore'' td_bool 1,
     Bits ''no_pm_callbacks'' td_bool 1,
     Bits ''work_in_progress'' td_bool 1,
     Bits ''smart_suspend'' td_bool 1,
     Bits ''must_resume'' td_bool 1,
     Bits ''may_skip_resume'' td_bool 1,
     Bits ''strict_midlayer'' td_bool 1,
     Field ''suspend_timer'' st_hrtimer,
     Field ''timer_expires'' td_u64,
     Field ''work'' st_work_struct,
     Field ''wait_queue'' td_wait_queue_head_t,
     Field ''wakeirq'' (Ptr ''struct wake_irq''),
     Field ''usage_count'' td_atomic_t,
     Field ''child_count'' td_atomic_t,
     Bits ''disable_depth'' c_unsigned_int 3,
     Bits ''idle_notification'' td_bool 1,
     Bits ''request_pending'' td_bool 1,
     Bits ''deferred_resume'' td_bool 1,
     Bits ''needs_force_resume'' td_bool 1,
     Bits ''runtime_auto'' td_bool 1,
     Bits ''ignore_children'' td_bool 1,
     Bits ''no_callbacks'' td_bool 1,
     Bits ''irq_safe'' td_bool 1,
     Bits ''use_autosuspend'' td_bool 1,
     Bits ''timer_autosuspends'' td_bool 1,
     Bits ''memalloc_noio'' td_bool 1,
     Field ''links_count'' c_unsigned_int,
     Field ''request'' en_rpm_request,
     Field ''runtime_status'' en_rpm_status,
     Field ''last_status'' en_rpm_status,
     Field ''runtime_error'' c_int,
     Field ''autosuspend_delay'' c_int,
     Field ''last_busy'' td_u64,
     Field ''active_time'' td_u64,
     Field ''suspended_time'' td_u64,
     Field ''accounting_timestamp'' td_u64,
     Field ''subsys_data'' (Ptr ''struct pm_subsys_data''),
     Field ''set_latency_tolerance'' (Ptr ''void (struct device *, s32)''),
     Field ''qos'' (Ptr ''struct dev_pm_qos''),
     Bits ''detach_power_off'' td_bool 1]"

lemma st_dev_pm_info_layout [layout_simps]: "csize st_dev_pm_info = 320" "calign st_dev_pm_info = 8"
  by (simp_all add: st_dev_pm_info_def layout_simps layout_eval)

definition st_dev_msi_info :: ctype where
  "st_dev_msi_info = Struct [
     Field ''domain'' (Ptr ''struct irq_domain''),
     Field ''data'' (Ptr ''struct msi_device_data'')]"

lemma st_dev_msi_info_layout [layout_simps]: "csize st_dev_msi_info = 16" "calign st_dev_msi_info = 8"
  by (simp_all add: st_dev_msi_info_def layout_simps layout_eval)

definition st_dev_archdata :: ctype where
  "st_dev_archdata = Struct []"

lemma st_dev_archdata_layout [layout_simps]: "csize st_dev_archdata = 0" "calign st_dev_archdata = 1"
  by (simp_all add: st_dev_archdata_def layout_simps layout_eval)

definition en_device_removable :: ctype where
  "en_device_removable = CEnum 4 [
     (''DEVICE_REMOVABLE_NOT_SUPPORTED'', 0),
     (''DEVICE_REMOVABLE_UNKNOWN'', 1),
     (''DEVICE_FIXED'', 2),
     (''DEVICE_REMOVABLE'', 3)]"

lemma en_device_removable_layout [layout_simps]: "csize en_device_removable = 4" "calign en_device_removable = 4"
  by (simp_all add: en_device_removable_def layout_simps layout_eval)

definition st_device :: ctype where
  "st_device = Struct [
     Field ''kobj'' st_kobject,
     Field ''parent'' (Ptr ''struct device''),
     Field ''p'' (Ptr ''struct device_private''),
     Field ''init_name'' (Ptr ''char''),
     Field ''type'' (Ptr ''struct device_type''),
     Field ''bus'' (Ptr ''struct bus_type''),
     Field ''driver'' (Ptr ''struct device_driver''),
     Field ''platform_data'' (Ptr ''void''),
     Field ''driver_data'' (Ptr ''void''),
     Field ''mutex'' st_mutex,
     Field ''links'' st_dev_links_info,
     Field ''power'' st_dev_pm_info,
     Field ''pm_domain'' (Ptr ''struct dev_pm_domain''),
     Field ''em_pd'' (Ptr ''struct em_perf_domain''),
     Field ''pins'' (Ptr ''struct dev_pin_info''),
     Field ''msi'' st_dev_msi_info,
     Field ''dma_ops'' (Ptr ''struct dma_map_ops''),
     Field ''dma_mask'' (Ptr ''u64''),
     Field ''coherent_dma_mask'' td_u64,
     Field ''bus_dma_limit'' td_u64,
     Field ''dma_range_map'' (Ptr ''struct bus_dma_region''),
     Field ''dma_parms'' (Ptr ''struct device_dma_parameters''),
     Field ''dma_pools'' st_list_head,
     Field ''cma_area'' (Ptr ''struct cma''),
     Field ''dma_io_tlb_mem'' (Ptr ''struct io_tlb_mem''),
     Field ''dma_io_tlb_pools'' st_list_head,
     Field ''dma_io_tlb_lock'' td_spinlock_t,
     Field ''dma_uses_io_tlb'' td_bool,
     Field ''archdata'' st_dev_archdata,
     Field ''of_node'' (Ptr ''struct device_node''),
     Field ''fwnode'' (Ptr ''struct fwnode_handle''),
     Field ''numa_node'' c_int,
     Field ''devt'' td_dev_t,
     Field ''id'' td_u32,
     Field ''devres_lock'' td_spinlock_t,
     Field ''devres_head'' st_list_head,
     Field ''class'' (Ptr ''struct class''),
     Field ''groups'' (Ptr ''struct attribute_group *''),
     Field ''release'' (Ptr ''void (struct device *)''),
     Field ''iommu_group'' (Ptr ''struct iommu_group''),
     Field ''iommu'' (Ptr ''struct dev_iommu''),
     Field ''physical_location'' (Ptr ''struct device_physical_location''),
     Field ''removable'' en_device_removable,
     Bits ''offline_disabled'' td_bool 1,
     Bits ''offline'' td_bool 1,
     Bits ''of_node_reused'' td_bool 1,
     Bits ''state_synced'' td_bool 1,
     Bits ''can_match'' td_bool 1,
     Bits ''dma_skip_sync'' td_bool 1,
     Bits ''dma_iommu'' td_bool 1]"

lemma st_device_layout [layout_simps]: "csize st_device = 784" "calign st_device = 8"
  by (simp_all add: st_device_def layout_simps layout_eval)

definition st_block_device :: ctype where
  "st_block_device = Struct [
     Field ''bd_start_sect'' td_sector_t,
     Field ''bd_nr_sectors'' td_sector_t,
     Field ''bd_disk'' (Ptr ''struct gendisk''),
     Field ''bd_queue'' (Ptr ''struct request_queue''),
     Field ''bd_stats'' (Ptr ''struct disk_stats''),
     Field ''bd_stamp'' c_unsigned_long,
     Field ''__bd_flags'' td_atomic_t,
     Field ''bd_dev'' td_dev_t,
     Field ''bd_mapping'' (Ptr ''struct address_space''),
     Field ''bd_openers'' td_atomic_t,
     Field ''bd_size_lock'' td_spinlock_t,
     Field ''bd_claiming'' (Ptr ''void''),
     Field ''bd_holder'' (Ptr ''void''),
     Field ''bd_holder_ops'' (Ptr ''struct blk_holder_ops''),
     Field ''bd_holder_lock'' st_mutex,
     Field ''bd_holders'' c_int,
     Field ''bd_holder_dir'' (Ptr ''struct kobject''),
     Field ''bd_fsfreeze_count'' td_atomic_t,
     Field ''bd_fsfreeze_mutex'' st_mutex,
     Field ''bd_meta_info'' (Ptr ''struct partition_meta_info''),
     Field ''bd_writers'' c_int,
     Field ''bd_security'' (Ptr ''void''),
     Field ''bd_device'' st_device]"

lemma st_block_device_layout [layout_simps]: "csize st_block_device = 992" "calign st_block_device = 8"
  by (simp_all add: st_block_device_def layout_simps layout_eval)

definition st_mempool_s :: ctype where
  "st_mempool_s = Struct [
     Field ''lock'' td_spinlock_t,
     Field ''min_nr'' c_int,
     Field ''curr_nr'' c_int,
     Field ''elements'' (Ptr ''void *''),
     Field ''pool_data'' (Ptr ''void''),
     Field ''alloc'' (Ptr ''mempool_alloc_t''),
     Field ''free'' (Ptr ''mempool_free_t''),
     Field ''wait'' td_wait_queue_head_t]"

lemma st_mempool_s_layout [layout_simps]: "csize st_mempool_s = 72" "calign st_mempool_s = 8"
  by (simp_all add: st_mempool_s_def layout_simps layout_eval)

definition td_mempool_t :: ctype where "td_mempool_t = st_mempool_s"

lemma td_mempool_t_layout [layout_simps]: "csize td_mempool_t = 72" "calign td_mempool_t = 8"
  by (simp_all add: td_mempool_t_def layout_simps layout_eval)

definition st_bio_list :: ctype where
  "st_bio_list = Struct [
     Field ''head'' (Ptr ''struct bio''),
     Field ''tail'' (Ptr ''struct bio'')]"

lemma st_bio_list_layout [layout_simps]: "csize st_bio_list = 16" "calign st_bio_list = 8"
  by (simp_all add: st_bio_list_def layout_simps layout_eval)

definition st_bio_set :: ctype where
  "st_bio_set = Struct [
     Field ''bio_slab'' (Ptr ''struct kmem_cache''),
     Field ''front_pad'' c_unsigned_int,
     Field ''cache'' (Ptr ''struct bio_alloc_cache''),
     Field ''bio_pool'' td_mempool_t,
     Field ''bvec_pool'' td_mempool_t,
     Field ''back_pad'' c_unsigned_int,
     Field ''rescue_lock'' td_spinlock_t,
     Field ''rescue_list'' st_bio_list,
     Field ''rescue_work'' st_work_struct,
     Field ''rescue_workqueue'' (Ptr ''struct workqueue_struct''),
     Field ''cpuhp_dead'' st_hlist_node]"

lemma st_bio_set_layout [layout_simps]: "csize st_bio_set = 248" "calign st_bio_set = 8"
  by (simp_all add: st_bio_set_def layout_simps layout_eval)

definition td_blk_mode_t :: ctype where "td_blk_mode_t = c_unsigned_int"

lemma td_blk_mode_t_layout [layout_simps]: "csize td_blk_mode_t = 4" "calign td_blk_mode_t = 4"
  by (simp_all add: td_blk_mode_t_def layout_simps layout_eval)

definition st_gendisk :: ctype where
  "st_gendisk = Struct [
     Field ''major'' c_int,
     Field ''first_minor'' c_int,
     Field ''minors'' c_int,
     Field ''disk_name'' (Arr c_char 32),
     Field ''events'' c_unsigned_short,
     Field ''event_flags'' c_unsigned_short,
     Field ''part_tbl'' st_xarray,
     Field ''part0'' (Ptr ''struct block_device''),
     Field ''fops'' (Ptr ''struct block_device_operations''),
     Field ''queue'' (Ptr ''struct request_queue''),
     Field ''private_data'' (Ptr ''void''),
     Field ''bio_split'' st_bio_set,
     Field ''flags'' c_int,
     Field ''state'' c_unsigned_long,
     Field ''open_mutex'' st_mutex,
     Field ''open_partitions'' c_unsigned_int,
     Field ''bdi'' (Ptr ''struct backing_dev_info''),
     Field ''queue_kobj'' st_kobject,
     Field ''slave_dir'' (Ptr ''struct kobject''),
     Field ''slave_bdevs'' st_list_head,
     Field ''random'' (Ptr ''struct timer_rand_state''),
     Field ''ev'' (Ptr ''struct disk_events''),
     Field ''nr_zones'' c_unsigned_int,
     Field ''zone_capacity'' c_unsigned_int,
     Field ''last_zone_capacity'' c_unsigned_int,
     Field ''conv_zones_bitmap'' (Ptr ''long unsigned int''),
     Field ''zone_wplugs_hash_bits'' c_unsigned_int,
     Field ''nr_zone_wplugs'' td_atomic_t,
     Field ''zone_wplugs_lock'' td_spinlock_t,
     Field ''zone_wplugs_pool'' (Ptr ''struct mempool_s''),
     Field ''zone_wplugs_hash'' (Ptr ''struct hlist_head''),
     Field ''zone_wplugs_wq'' (Ptr ''struct workqueue_struct''),
     Field ''cdi'' (Ptr ''struct cdrom_device_info''),
     Field ''node_id'' c_int,
     Field ''bb'' (Ptr ''struct badblocks''),
     Field ''lockdep_map'' st_lockdep_map,
     Field ''diskseq'' td_u64,
     Field ''open_mode'' td_blk_mode_t,
     Field ''ia_ranges'' (Ptr ''struct blk_independent_access_ranges''),
     Field ''rqos_state_mutex'' st_mutex]"

lemma st_gendisk_layout [layout_simps]: "csize st_gendisk = 656" "calign st_gendisk = 8"
  by (simp_all add: st_gendisk_def layout_simps layout_eval)

end
