(* ===== verification/VmSched.thy ===== *)
theory VmSched
  imports VmBlock
begin

text \<open>
  Kernel type declarations of \<open>internal/bpf/c/headers/vmlinux.h\<close>: scheduler: the run queue whose delay \<open>sched_delay.c\<close> measures, and the signal state a task shares.
  Each definition is one declaration of the header, member by member: \<open>st_\<close>, \<open>un_\<close> and \<open>en_\<close>
  name a structure, a union and an enumeration, \<open>td_\<close> a typedef. The lemma after a
  definition computes its size and alignment, which the layouts of the types that embed it use.
\<close>

definition td_smp_call_func_t :: ctype where "td_smp_call_func_t = Ptr ''void (void *)''"

lemma td_smp_call_func_t_layout [layout_simps]: "csize td_smp_call_func_t = 8" "calign td_smp_call_func_t = 8"
  by (simp_all add: td_smp_call_func_t_def layout_simps layout_eval)

definition st___call_single_data :: ctype where
  "st___call_single_data = Struct [
     Field ''node'' st___call_single_node,
     Field ''func'' td_smp_call_func_t,
     Field ''info'' (Ptr ''void'')]"

lemma st___call_single_data_layout [layout_simps]: "csize st___call_single_data = 32" "calign st___call_single_data = 8"
  by (simp_all add: st___call_single_data_def layout_simps layout_eval)

definition td_call_single_data_t :: ctype where "td_call_single_data_t = st___call_single_data"

lemma td_call_single_data_t_layout [layout_simps]: "csize td_call_single_data_t = 32" "calign td_call_single_data_t = 8"
  by (simp_all add: td_call_single_data_t_def layout_simps layout_eval)

definition st_uclamp_bucket :: ctype where
  "st_uclamp_bucket = Struct [
     Bits ''value'' c_unsigned_long 11,
     Bits ''tasks'' c_unsigned_long 53]"

lemma st_uclamp_bucket_layout [layout_simps]: "csize st_uclamp_bucket = 8" "calign st_uclamp_bucket = 8"
  by (simp_all add: st_uclamp_bucket_def layout_simps layout_eval)

definition st_uclamp_rq :: ctype where
  "st_uclamp_rq = Struct [
     Field ''value'' c_unsigned_int,
     Field ''bucket'' (Arr st_uclamp_bucket 5)]"

lemma st_uclamp_rq_layout [layout_simps]: "csize st_uclamp_rq = 48" "calign st_uclamp_rq = 8"
  by (simp_all add: st_uclamp_rq_def layout_simps layout_eval)

definition st_cfs_rq :: ctype where
  "st_cfs_rq = Struct [
     Field ''load'' st_load_weight,
     Field ''nr_queued'' c_unsigned_int,
     Field ''h_nr_queued'' c_unsigned_int,
     Field ''h_nr_runnable'' c_unsigned_int,
     Field ''h_nr_idle'' c_unsigned_int,
     Field ''avg_vruntime'' td_s64,
     Field ''avg_load'' td_u64,
     Field ''zero_vruntime'' td_u64,
     Field ''forceidle_seq'' c_unsigned_int,
     Field ''zero_vruntime_fi'' td_u64,
     Field ''tasks_timeline'' st_rb_root_cached,
     Field ''curr'' (Ptr ''struct sched_entity''),
     Field ''next'' (Ptr ''struct sched_entity''),
     Bits '''' c_long 64,
     Bits '''' c_long 64,
     Bits '''' c_long 64,
     Field ''avg'' st_sched_avg,
     Field ''removed'' (Struct [
       Field ''lock'' td_raw_spinlock_t,
       Field ''nr'' c_int,
       Field ''load_avg'' c_unsigned_long,
       Field ''util_avg'' c_unsigned_long,
       Field ''runnable_avg'' c_unsigned_long,
       Bits '''' c_long 64,
       Bits '''' c_long 64,
       Bits '''' c_long 64,
       Bits '''' c_long 64]),
     Field ''last_update_tg_load_avg'' td_u64,
     Field ''tg_load_avg_contrib'' c_unsigned_long,
     Field ''propagate'' c_long,
     Field ''prop_runnable_sum'' c_long,
     Field ''h_load'' c_unsigned_long,
     Field ''last_h_load_update'' td_u64,
     Field ''h_load_next'' (Ptr ''struct sched_entity''),
     Field ''rq'' (Ptr ''struct rq''),
     Field ''on_list'' c_int,
     Field ''leaf_cfs_rq_list'' st_list_head,
     Field ''tg'' (Ptr ''struct task_group''),
     Field ''idle'' c_int,
     Field ''runtime_enabled'' c_int,
     Field ''runtime_remaining'' td_s64,
     Field ''throttled_pelt_idle'' td_u64,
     Field ''throttled_clock'' td_u64,
     Field ''throttled_clock_pelt'' td_u64,
     Field ''throttled_clock_pelt_time'' td_u64,
     Field ''throttled_clock_self'' td_u64,
     Field ''throttled_clock_self_time'' td_u64,
     Field ''throttled'' c_int,
     Field ''throttle_count'' c_int,
     Field ''throttled_list'' st_list_head,
     Field ''throttled_csd_list'' st_list_head,
     Bits '''' c_long 64,
     Bits '''' c_long 64,
     Bits '''' c_long 64,
     Bits '''' c_long 64,
     Bits '''' c_long 64,
     Bits '''' c_long 64,
     Bits '''' c_long 64]"

lemma st_cfs_rq_layout [layout_simps]: "csize st_cfs_rq = 512" "calign st_cfs_rq = 8"
  by (simp_all add: st_cfs_rq_def layout_simps layout_eval)

definition st_rt_prio_array :: ctype where
  "st_rt_prio_array = Struct [
     Field ''bitmap'' (Arr c_unsigned_long 2),
     Field ''queue'' (Arr st_list_head 100)]"

lemma st_rt_prio_array_layout [layout_simps]: "csize st_rt_prio_array = 1616" "calign st_rt_prio_array = 8"
  by (simp_all add: st_rt_prio_array_def layout_simps layout_eval)

definition st_plist_head :: ctype where
  "st_plist_head = Struct [
     Field ''node_list'' st_list_head]"

lemma st_plist_head_layout [layout_simps]: "csize st_plist_head = 16" "calign st_plist_head = 8"
  by (simp_all add: st_plist_head_def layout_simps layout_eval)

definition st_rt_rq :: ctype where
  "st_rt_rq = Struct [
     Field ''active'' st_rt_prio_array,
     Field ''rt_nr_running'' c_unsigned_int,
     Field ''rr_nr_running'' c_unsigned_int,
     Field ''highest_prio'' (Struct [
       Field ''curr'' c_int,
       Field ''next'' c_int]),
     Field ''overloaded'' td_bool,
     Field ''pushable_tasks'' st_plist_head,
     Field ''rt_queued'' c_int,
     Field ''tg'' (Ptr ''struct task_group'')]"

lemma st_rt_rq_layout [layout_simps]: "csize st_rt_rq = 1672" "calign st_rt_rq = 8"
  by (simp_all add: st_rt_rq_def layout_simps layout_eval)

definition st_dl_rq :: ctype where
  "st_dl_rq = Struct [
     Field ''root'' st_rb_root_cached,
     Field ''dl_nr_running'' c_unsigned_int,
     Field ''earliest_dl'' (Struct [
       Field ''curr'' td_u64,
       Field ''next'' td_u64]),
     Field ''overloaded'' td_bool,
     Field ''pushable_dl_tasks_root'' st_rb_root_cached,
     Field ''running_bw'' td_u64,
     Field ''this_bw'' td_u64,
     Field ''extra_bw'' td_u64,
     Field ''max_bw'' td_u64,
     Field ''bw_ratio'' td_u64]"

lemma st_dl_rq_layout [layout_simps]: "csize st_dl_rq = 104" "calign st_dl_rq = 8"
  by (simp_all add: st_dl_rq_def layout_simps layout_eval)

definition st_rhash_head :: ctype where
  "st_rhash_head = Struct [
     Field ''next'' (Ptr ''struct rhash_head'')]"

lemma st_rhash_head_layout [layout_simps]: "csize st_rhash_head = 8" "calign st_rhash_head = 8"
  by (simp_all add: st_rhash_head_def layout_simps layout_eval)

definition st_scx_dispatch_q :: ctype where
  "st_scx_dispatch_q = Struct [
     Field ''lock'' td_raw_spinlock_t,
     Field ''list'' st_list_head,
     Field ''priq'' st_rb_root,
     Field ''nr'' td_u32,
     Field ''seq'' td_u32,
     Field ''id'' td_u64,
     Field ''hash_node'' st_rhash_head,
     Field ''free_node'' st_llist_node,
     Field ''rcu'' st_callback_head]"

lemma st_scx_dispatch_q_layout [layout_simps]: "csize st_scx_dispatch_q = 80" "calign st_scx_dispatch_q = 8"
  by (simp_all add: st_scx_dispatch_q_def layout_simps layout_eval)

definition td_cpumask_var_t :: ctype where "td_cpumask_var_t = Ptr ''struct cpumask''"

lemma td_cpumask_var_t_layout [layout_simps]: "csize td_cpumask_var_t = 8" "calign td_cpumask_var_t = 8"
  by (simp_all add: td_cpumask_var_t_def layout_simps layout_eval)

definition st_balance_callback :: ctype where
  "st_balance_callback = Struct [
     Field ''next'' (Ptr ''struct balance_callback''),
     Field ''func'' (Ptr ''void (struct rq *)'')]"

lemma st_balance_callback_layout [layout_simps]: "csize st_balance_callback = 16" "calign st_balance_callback = 8"
  by (simp_all add: st_balance_callback_def layout_simps layout_eval)

definition st_irq_work :: ctype where
  "st_irq_work = Struct [
     Field ''node'' st___call_single_node,
     Field ''func'' (Ptr ''void (struct irq_work *)''),
     Field ''irqwait'' st_rcuwait]"

lemma st_irq_work_layout [layout_simps]: "csize st_irq_work = 32" "calign st_irq_work = 8"
  by (simp_all add: st_irq_work_def layout_simps layout_eval)

definition st_scx_rq :: ctype where
  "st_scx_rq = Struct [
     Field ''local_dsq'' st_scx_dispatch_q,
     Field ''runnable_list'' st_list_head,
     Field ''ddsp_deferred_locals'' st_list_head,
     Field ''ops_qseq'' c_unsigned_long,
     Field ''extra_enq_flags'' td_u64,
     Field ''nr_running'' td_u32,
     Field ''cpuperf_target'' td_u32,
     Field ''cpu_released'' td_bool,
     Field ''flags'' td_u32,
     Field ''clock'' td_u64,
     Field ''cpus_to_kick'' td_cpumask_var_t,
     Field ''cpus_to_kick_if_idle'' td_cpumask_var_t,
     Field ''cpus_to_preempt'' td_cpumask_var_t,
     Field ''cpus_to_wait'' td_cpumask_var_t,
     Field ''pnt_seq'' c_unsigned_long,
     Field ''deferred_bal_cb'' st_balance_callback,
     Field ''deferred_irq_work'' st_irq_work,
     Field ''kick_cpus_irq_work'' st_irq_work]"

lemma st_scx_rq_layout [layout_simps]: "csize st_scx_rq = 272" "calign st_scx_rq = 8"
  by (simp_all add: st_scx_rq_def layout_simps layout_eval)

definition td_cpu_stop_fn_t :: ctype where "td_cpu_stop_fn_t = Ptr ''int (void *)''"

lemma td_cpu_stop_fn_t_layout [layout_simps]: "csize td_cpu_stop_fn_t = 8" "calign td_cpu_stop_fn_t = 8"
  by (simp_all add: td_cpu_stop_fn_t_def layout_simps layout_eval)

definition st_cpu_stop_work :: ctype where
  "st_cpu_stop_work = Struct [
     Field ''list'' st_list_head,
     Field ''fn'' td_cpu_stop_fn_t,
     Field ''caller'' c_unsigned_long,
     Field ''arg'' (Ptr ''void''),
     Field ''done'' (Ptr ''struct cpu_stop_done'')]"

lemma st_cpu_stop_work_layout [layout_simps]: "csize st_cpu_stop_work = 48" "calign st_cpu_stop_work = 8"
  by (simp_all add: st_cpu_stop_work_def layout_simps layout_eval)

definition st_rq :: ctype where
  "st_rq = Struct [
     Field ''__lock'' td_raw_spinlock_t,
     Field ''nr_running'' c_unsigned_int,
     Field ''nr_numa_running'' c_unsigned_int,
     Field ''nr_preferred_running'' c_unsigned_int,
     Field ''numa_migrate_on'' c_unsigned_int,
     Field ''last_blocked_load_update_tick'' c_unsigned_long,
     Field ''has_blocked_load'' c_unsigned_int,
     Bits '''' c_long 64,
     Bits '''' c_long 64,
     Bits '''' c_long 64,
     Field ''nohz_csd'' td_call_single_data_t,
     Field ''nohz_tick_stopped'' c_unsigned_int,
     Field ''nohz_flags'' td_atomic_t,
     Field ''ttwu_pending'' c_unsigned_int,
     Field ''nr_switches'' td_u64,
     Bits '''' c_long 64,
     Field ''uclamp'' (Arr st_uclamp_rq 2),
     Field ''uclamp_flags'' c_unsigned_int,
     Bits '''' c_long 64,
     Bits '''' c_long 64,
     Bits '''' c_long 64,
     Field ''cfs'' st_cfs_rq,
     Field ''rt'' st_rt_rq,
     Field ''dl'' st_dl_rq,
     Field ''scx'' st_scx_rq,
     Field ''fair_server'' st_sched_dl_entity,
     Field ''leaf_cfs_rq_list'' st_list_head,
     Field ''tmp_alone_branch'' (Ptr ''struct list_head''),
     Field ''nr_uninterruptible'' c_unsigned_long,
     Field '''' (Union [
       Field ''donor'' (Ptr ''struct task_struct''),
       Field ''curr'' (Ptr ''struct task_struct'')]),
     Field ''dl_server'' (Ptr ''struct sched_dl_entity''),
     Field ''idle'' (Ptr ''struct task_struct''),
     Field ''stop'' (Ptr ''struct task_struct''),
     Field ''next_balance'' c_unsigned_long,
     Field ''prev_mm'' (Ptr ''struct mm_struct''),
     Field ''clock_update_flags'' c_unsigned_int,
     Field ''clock'' td_u64,
     Bits '''' c_long 64,
     Bits '''' c_long 64,
     Bits '''' c_long 64,
     Bits '''' c_long 64,
     Bits '''' c_long 64,
     Bits '''' c_long 64,
     Field ''clock_task'' td_u64,
     Field ''clock_pelt'' td_u64,
     Field ''lost_idle_time'' c_unsigned_long,
     Field ''clock_pelt_idle'' td_u64,
     Field ''clock_idle'' td_u64,
     Field ''nr_iowait'' td_atomic_t,
     Field ''last_seen_need_resched_ns'' td_u64,
     Field ''ticks_without_resched'' c_int,
     Field ''membarrier_state'' c_int,
     Field ''rd'' (Ptr ''struct root_domain''),
     Field ''sd'' (Ptr ''struct sched_domain''),
     Field ''cpu_capacity'' c_unsigned_long,
     Field ''balance_callback'' (Ptr ''struct balance_callback''),
     Field ''nohz_idle_balance'' c_unsigned_char,
     Field ''idle_balance'' c_unsigned_char,
     Field ''misfit_task_load'' c_unsigned_long,
     Field ''active_balance'' c_int,
     Field ''push_cpu'' c_int,
     Field ''active_balance_work'' st_cpu_stop_work,
     Field ''cpu'' c_int,
     Field ''online'' c_int,
     Field ''cfs_tasks'' st_list_head,
     Field ''avg_rt'' st_sched_avg,
     Field ''avg_dl'' st_sched_avg,
     Field ''idle_stamp'' td_u64,
     Field ''avg_idle'' td_u64,
     Field ''max_idle_balance_cost'' td_u64,
     Field ''hotplug_wait'' st_rcuwait,
     Field ''prev_steal_time'' td_u64,
     Field ''calc_load_update'' c_unsigned_long,
     Field ''calc_load_active'' c_long,
     Bits '''' c_long 64,
     Field ''hrtick_csd'' td_call_single_data_t,
     Field ''hrtick_timer'' st_hrtimer,
     Field ''hrtick_time'' td_ktime_t,
     Field ''rq_sched_info'' st_sched_info,
     Field ''rq_cpu_time'' c_unsigned_long_long,
     Field ''yld_count'' c_unsigned_int,
     Field ''sched_count'' c_unsigned_int,
     Field ''sched_goidle'' c_unsigned_int,
     Field ''ttwu_count'' c_unsigned_int,
     Field ''ttwu_local'' c_unsigned_int,
     Field ''idle_state'' (Ptr ''struct cpuidle_state''),
     Field ''nr_pinned'' c_unsigned_int,
     Field ''push_busy'' c_unsigned_int,
     Field ''push_work'' st_cpu_stop_work,
     Field ''core'' (Ptr ''struct rq''),
     Field ''core_pick'' (Ptr ''struct task_struct''),
     Field ''core_dl_server'' (Ptr ''struct sched_dl_entity''),
     Field ''core_enabled'' c_unsigned_int,
     Field ''core_sched_seq'' c_unsigned_int,
     Field ''core_tree'' st_rb_root,
     Field ''core_task_seq'' c_unsigned_int,
     Field ''core_pick_seq'' c_unsigned_int,
     Field ''core_cookie'' c_unsigned_long,
     Field ''core_forceidle_count'' c_unsigned_int,
     Field ''core_forceidle_seq'' c_unsigned_int,
     Field ''core_forceidle_occupation'' c_unsigned_int,
     Field ''core_forceidle_start'' td_u64,
     Field ''scratch_mask'' td_cpumask_var_t,
     Bits '''' c_long 64,
     Bits '''' c_long 64,
     Field ''cfsb_csd'' td_call_single_data_t,
     Field ''cfsb_csd_list'' st_list_head,
     Bits '''' c_long 64,
     Bits '''' c_long 64,
     Bits '''' c_long 64,
     Bits '''' c_long 64,
     Bits '''' c_long 64,
     Bits '''' c_long 64]"

lemma st_rq_layout [layout_simps]: "csize st_rq = 4032" "calign st_rq = 8"
  by (simp_all add: st_rq_def layout_simps layout_eval)

definition st_cpu_itimer :: ctype where
  "st_cpu_itimer = Struct [
     Field ''expires'' td_u64,
     Field ''incr'' td_u64]"

lemma st_cpu_itimer_layout [layout_simps]: "csize st_cpu_itimer = 16" "calign st_cpu_itimer = 8"
  by (simp_all add: st_cpu_itimer_def layout_simps layout_eval)

definition st_task_cputime_atomic :: ctype where
  "st_task_cputime_atomic = Struct [
     Field ''utime'' td_atomic64_t,
     Field ''stime'' td_atomic64_t,
     Field ''sum_exec_runtime'' td_atomic64_t]"

lemma st_task_cputime_atomic_layout [layout_simps]: "csize st_task_cputime_atomic = 24" "calign st_task_cputime_atomic = 8"
  by (simp_all add: st_task_cputime_atomic_def layout_simps layout_eval)

definition st_thread_group_cputimer :: ctype where
  "st_thread_group_cputimer = Struct [
     Field ''cputime_atomic'' st_task_cputime_atomic]"

lemma st_thread_group_cputimer_layout [layout_simps]: "csize st_thread_group_cputimer = 24" "calign st_thread_group_cputimer = 8"
  by (simp_all add: st_thread_group_cputimer_def layout_simps layout_eval)

definition st_rlimit :: ctype where
  "st_rlimit = Struct [
     Field ''rlim_cur'' td___kernel_ulong_t,
     Field ''rlim_max'' td___kernel_ulong_t]"

lemma st_rlimit_layout [layout_simps]: "csize st_rlimit = 16" "calign st_rlimit = 8"
  by (simp_all add: st_rlimit_def layout_simps layout_eval)

definition st_pacct_struct :: ctype where
  "st_pacct_struct = Struct [
     Field ''ac_flag'' c_int,
     Field ''ac_exitcode'' c_long,
     Field ''ac_mem'' c_unsigned_long,
     Field ''ac_utime'' td_u64,
     Field ''ac_stime'' td_u64,
     Field ''ac_minflt'' c_unsigned_long,
     Field ''ac_majflt'' c_unsigned_long]"

lemma st_pacct_struct_layout [layout_simps]: "csize st_pacct_struct = 56" "calign st_pacct_struct = 8"
  by (simp_all add: st_pacct_struct_def layout_simps layout_eval)

definition st_signal_struct :: ctype where
  "st_signal_struct = Struct [
     Field ''sigcnt'' td_refcount_t,
     Field ''live'' td_atomic_t,
     Field ''nr_threads'' c_int,
     Field ''quick_threads'' c_int,
     Field ''thread_head'' st_list_head,
     Field ''wait_chldexit'' td_wait_queue_head_t,
     Field ''curr_target'' (Ptr ''struct task_struct''),
     Field ''shared_pending'' st_sigpending,
     Field ''multiprocess'' st_hlist_head,
     Field ''group_exit_code'' c_int,
     Field ''notify_count'' c_int,
     Field ''group_exec_task'' (Ptr ''struct task_struct''),
     Field ''group_stop_count'' c_int,
     Field ''flags'' c_unsigned_int,
     Field ''core_state'' (Ptr ''struct core_state''),
     Bits ''is_child_subreaper'' c_unsigned_int 1,
     Bits ''has_child_subreaper'' c_unsigned_int 1,
     Bits ''timer_create_restore_ids'' c_unsigned_int 1,
     Field ''next_posix_timer_id'' td_atomic_t,
     Field ''posix_timers'' st_hlist_head,
     Field ''ignored_posix_timers'' st_hlist_head,
     Field ''real_timer'' st_hrtimer,
     Field ''it_real_incr'' td_ktime_t,
     Field ''it'' (Arr st_cpu_itimer 2),
     Field ''cputimer'' st_thread_group_cputimer,
     Field ''posix_cputimers'' st_posix_cputimers,
     Field ''pids'' (Arr (Ptr ''struct pid'') 4),
     Field ''tick_dep_mask'' td_atomic_t,
     Field ''tty_old_pgrp'' (Ptr ''struct pid''),
     Field ''leader'' c_int,
     Field ''tty'' (Ptr ''struct tty_struct''),
     Field ''autogroup'' (Ptr ''struct autogroup''),
     Field ''stats_lock'' td_seqlock_t,
     Field ''utime'' td_u64,
     Field ''stime'' td_u64,
     Field ''cutime'' td_u64,
     Field ''cstime'' td_u64,
     Field ''gtime'' td_u64,
     Field ''cgtime'' td_u64,
     Field ''prev_cputime'' st_prev_cputime,
     Field ''nvcsw'' c_unsigned_long,
     Field ''nivcsw'' c_unsigned_long,
     Field ''cnvcsw'' c_unsigned_long,
     Field ''cnivcsw'' c_unsigned_long,
     Field ''min_flt'' c_unsigned_long,
     Field ''maj_flt'' c_unsigned_long,
     Field ''cmin_flt'' c_unsigned_long,
     Field ''cmaj_flt'' c_unsigned_long,
     Field ''inblock'' c_unsigned_long,
     Field ''oublock'' c_unsigned_long,
     Field ''cinblock'' c_unsigned_long,
     Field ''coublock'' c_unsigned_long,
     Field ''maxrss'' c_unsigned_long,
     Field ''cmaxrss'' c_unsigned_long,
     Field ''ioac'' st_task_io_accounting,
     Field ''sum_sched_runtime'' c_unsigned_long_long,
     Field ''rlim'' (Arr st_rlimit 16),
     Field ''pacct'' st_pacct_struct,
     Field ''stats'' (Ptr ''struct taskstats''),
     Field ''audit_tty'' c_unsigned_int,
     Field ''tty_audit_buf'' (Ptr ''struct tty_audit_buf''),
     Field ''oom_flag_origin'' td_bool,
     Field ''oom_score_adj'' c_short,
     Field ''oom_score_adj_min'' c_short,
     Field ''oom_mm'' (Ptr ''struct mm_struct''),
     Field ''cred_guard_mutex'' st_mutex,
     Field ''exec_update_lock'' st_rw_semaphore]"

lemma st_signal_struct_layout [layout_simps]: "csize st_signal_struct = 1112" "calign st_signal_struct = 8"
  by (simp_all add: st_signal_struct_def layout_simps layout_eval)

definition td___sighandler_t :: ctype where "td___sighandler_t = Ptr ''__signalfn_t''"

lemma td___sighandler_t_layout [layout_simps]: "csize td___sighandler_t = 8" "calign td___sighandler_t = 8"
  by (simp_all add: td___sighandler_t_def layout_simps layout_eval)

definition td___sigrestore_t :: ctype where "td___sigrestore_t = Ptr ''__restorefn_t''"

lemma td___sigrestore_t_layout [layout_simps]: "csize td___sigrestore_t = 8" "calign td___sigrestore_t = 8"
  by (simp_all add: td___sigrestore_t_def layout_simps layout_eval)

definition st_sigaction :: ctype where
  "st_sigaction = Struct [
     Field ''sa_handler'' td___sighandler_t,
     Field ''sa_flags'' c_unsigned_long,
     Field ''sa_restorer'' td___sigrestore_t,
     Field ''sa_mask'' td_sigset_t]"

lemma st_sigaction_layout [layout_simps]: "csize st_sigaction = 32" "calign st_sigaction = 8"
  by (simp_all add: st_sigaction_def layout_simps layout_eval)

definition st_k_sigaction :: ctype where
  "st_k_sigaction = Struct [
     Field ''sa'' st_sigaction]"

lemma st_k_sigaction_layout [layout_simps]: "csize st_k_sigaction = 32" "calign st_k_sigaction = 8"
  by (simp_all add: st_k_sigaction_def layout_simps layout_eval)

definition st_sighand_struct :: ctype where
  "st_sighand_struct = Struct [
     Field ''siglock'' td_spinlock_t,
     Field ''count'' td_refcount_t,
     Field ''signalfd_wqh'' td_wait_queue_head_t,
     Field ''action'' (Arr st_k_sigaction 64)]"

lemma st_sighand_struct_layout [layout_simps]: "csize st_sighand_struct = 2080" "calign st_sighand_struct = 8"
  by (simp_all add: st_sighand_struct_def layout_simps layout_eval)

end
