(* ===== verification/VmFile.thy ===== *)
theory VmFile
  imports VmSched
begin

text \<open>
  Kernel type declarations of \<open>internal/bpf/c/headers/vmlinux.h\<close>: files and control groups: the open file and the descriptor table behind \<open>fd_track.c\<close>, the control group whose id every event carries.
  Each definition is one declaration of the header, member by member: \<open>st_\<close>, \<open>un_\<close> and \<open>en_\<close>
  name a structure, a union and an enumeration, \<open>td_\<close> a typedef. The lemma after a
  definition computes its size and alignment, which the layouts of the types that embed it use.
\<close>

definition td_fmode_t :: ctype where "td_fmode_t = c_unsigned_int"

lemma td_fmode_t_layout [layout_simps]: "csize td_fmode_t = 4" "calign td_fmode_t = 4"
  by (simp_all add: td_fmode_t_def layout_simps layout_eval)

definition st_path :: ctype where
  "st_path = Struct [
     Field ''mnt'' (Ptr ''struct vfsmount''),
     Field ''dentry'' (Ptr ''struct dentry'')]"

lemma st_path_layout [layout_simps]: "csize st_path = 16" "calign st_path = 8"
  by (simp_all add: st_path_def layout_simps layout_eval)

definition td___kernel_loff_t :: ctype where "td___kernel_loff_t = c_long_long"

lemma td___kernel_loff_t_layout [layout_simps]: "csize td___kernel_loff_t = 8" "calign td___kernel_loff_t = 8"
  by (simp_all add: td___kernel_loff_t_def layout_simps layout_eval)

definition td_loff_t :: ctype where "td_loff_t = td___kernel_loff_t"

lemma td_loff_t_layout [layout_simps]: "csize td_loff_t = 8" "calign td_loff_t = 8"
  by (simp_all add: td_loff_t_def layout_simps layout_eval)

definition td_errseq_t :: ctype where "td_errseq_t = td_u32"

lemma td_errseq_t_layout [layout_simps]: "csize td_errseq_t = 4" "calign td_errseq_t = 4"
  by (simp_all add: td_errseq_t_def layout_simps layout_eval)

definition st_file_ra_state :: ctype where
  "st_file_ra_state = Struct [
     Field ''start'' c_unsigned_long,
     Field ''size'' c_unsigned_int,
     Field ''async_size'' c_unsigned_int,
     Field ''ra_pages'' c_unsigned_int,
     Field ''order'' c_unsigned_short,
     Field ''mmap_miss'' c_unsigned_short,
     Field ''prev_pos'' td_loff_t]"

lemma st_file_ra_state_layout [layout_simps]: "csize st_file_ra_state = 32" "calign st_file_ra_state = 8"
  by (simp_all add: st_file_ra_state_def layout_simps layout_eval)

definition td_file_ref_t :: ctype where
  "td_file_ref_t = Struct [
     Field ''refcnt'' td_atomic64_t]"

lemma td_file_ref_t_layout [layout_simps]: "csize td_file_ref_t = 8" "calign td_file_ref_t = 8"
  by (simp_all add: td_file_ref_t_def layout_simps layout_eval)

definition st_file :: ctype where
  "st_file = Struct [
     Field ''f_lock'' td_spinlock_t,
     Field ''f_mode'' td_fmode_t,
     Field ''f_op'' (Ptr ''struct file_operations''),
     Field ''f_mapping'' (Ptr ''struct address_space''),
     Field ''private_data'' (Ptr ''void''),
     Field ''f_inode'' (Ptr ''struct inode''),
     Field ''f_flags'' c_unsigned_int,
     Field ''f_iocb_flags'' c_unsigned_int,
     Field ''f_cred'' (Ptr ''struct cred''),
     Field ''f_owner'' (Ptr ''struct fown_struct''),
     Field ''f_path'' st_path,
     Field '''' (Union [
       Field ''f_pos_lock'' st_mutex,
       Field ''f_pipe'' td_u64]),
     Field ''f_pos'' td_loff_t,
     Field ''f_security'' (Ptr ''void''),
     Field ''f_wb_err'' td_errseq_t,
     Field ''f_sb_err'' td_errseq_t,
     Field ''f_ep'' (Ptr ''struct hlist_head''),
     Field '''' (Union [
       Field ''f_task_work'' st_callback_head,
       Field ''f_llist'' st_llist_node,
       Field ''f_ra'' st_file_ra_state,
       Field ''f_freeptr'' td_freeptr_t]),
     Field ''f_ref'' td_file_ref_t]"

lemma st_file_layout [layout_simps]: "csize st_file = 184" "calign st_file = 8"
  by (simp_all add: st_file_def layout_simps layout_eval)

definition st_fdtable :: ctype where
  "st_fdtable = Struct [
     Field ''max_fds'' c_unsigned_int,
     Field ''fd'' (Ptr ''struct file *''),
     Field ''close_on_exec'' (Ptr ''long unsigned int''),
     Field ''open_fds'' (Ptr ''long unsigned int''),
     Field ''full_fds_bits'' (Ptr ''long unsigned int''),
     Field ''rcu'' st_callback_head]"

lemma st_fdtable_layout [layout_simps]: "csize st_fdtable = 56" "calign st_fdtable = 8"
  by (simp_all add: st_fdtable_def layout_simps layout_eval)

definition st_files_struct :: ctype where
  "st_files_struct = Struct [
     Field ''count'' td_atomic_t,
     Field ''resize_in_progress'' td_bool,
     Field ''resize_wait'' td_wait_queue_head_t,
     Field ''fdt'' (Ptr ''struct fdtable''),
     Field ''fdtab'' st_fdtable,
     Bits '''' c_long 64,
     Bits '''' c_long 64,
     Bits '''' c_long 64,
     Bits '''' c_long 64,
     Field ''file_lock'' td_spinlock_t,
     Field ''next_fd'' c_unsigned_int,
     Field ''close_on_exec_init'' (Arr c_unsigned_long 1),
     Field ''open_fds_init'' (Arr c_unsigned_long 1),
     Field ''full_fds_bits_init'' (Arr c_unsigned_long 1),
     Field ''fd_array'' (Arr (Ptr ''struct file'') 64),
     Bits '''' c_long 64,
     Bits '''' c_long 64,
     Bits '''' c_long 64,
     Bits '''' c_long 64]"

lemma st_files_struct_layout [layout_simps]: "csize st_files_struct = 704" "calign st_files_struct = 8"
  by (simp_all add: st_files_struct_def layout_simps layout_eval)

definition td_umode_t :: ctype where "td_umode_t = c_unsigned_short"

lemma td_umode_t_layout [layout_simps]: "csize td_umode_t = 2" "calign td_umode_t = 2"
  by (simp_all add: td_umode_t_def layout_simps layout_eval)

definition td___kernel_gid32_t :: ctype where "td___kernel_gid32_t = c_unsigned_int"

lemma td___kernel_gid32_t_layout [layout_simps]: "csize td___kernel_gid32_t = 4" "calign td___kernel_gid32_t = 4"
  by (simp_all add: td___kernel_gid32_t_def layout_simps layout_eval)

definition td_gid_t :: ctype where "td_gid_t = td___kernel_gid32_t"

lemma td_gid_t_layout [layout_simps]: "csize td_gid_t = 4" "calign td_gid_t = 4"
  by (simp_all add: td_gid_t_def layout_simps layout_eval)

definition td_kgid_t :: ctype where
  "td_kgid_t = Struct [
     Field ''val'' td_gid_t]"

lemma td_kgid_t_layout [layout_simps]: "csize td_kgid_t = 4" "calign td_kgid_t = 4"
  by (simp_all add: td_kgid_t_def layout_simps layout_eval)

definition td_time64_t :: ctype where "td_time64_t = td___s64"

lemma td_time64_t_layout [layout_simps]: "csize td_time64_t = 8" "calign td_time64_t = 8"
  by (simp_all add: td_time64_t_def layout_simps layout_eval)

definition td_blkcnt_t :: ctype where "td_blkcnt_t = td_u64"

lemma td_blkcnt_t_layout [layout_simps]: "csize td_blkcnt_t = 8" "calign td_blkcnt_t = 8"
  by (simp_all add: td_blkcnt_t_def layout_simps layout_eval)

definition st_address_space :: ctype where
  "st_address_space = Struct [
     Field ''host'' (Ptr ''struct inode''),
     Field ''i_pages'' st_xarray,
     Field ''invalidate_lock'' st_rw_semaphore,
     Field ''gfp_mask'' td_gfp_t,
     Field ''i_mmap_writable'' td_atomic_t,
     Field ''i_mmap'' st_rb_root_cached,
     Field ''nrpages'' c_unsigned_long,
     Field ''writeback_index'' c_unsigned_long,
     Field ''a_ops'' (Ptr ''struct address_space_operations''),
     Field ''flags'' c_unsigned_long,
     Field ''wb_err'' td_errseq_t,
     Field ''i_private_lock'' td_spinlock_t,
     Field ''i_private_list'' st_list_head,
     Field ''i_mmap_rwsem'' st_rw_semaphore,
     Field ''i_private_data'' (Ptr ''void'')]"

lemma st_address_space_layout [layout_simps]: "csize st_address_space = 192" "calign st_address_space = 8"
  by (simp_all add: st_address_space_def layout_simps layout_eval)

definition st_inode :: ctype where
  "st_inode = Struct [
     Field ''i_mode'' td_umode_t,
     Field ''i_opflags'' c_unsigned_short,
     Field ''i_uid'' td_kuid_t,
     Field ''i_gid'' td_kgid_t,
     Field ''i_flags'' c_unsigned_int,
     Field ''i_acl'' (Ptr ''struct posix_acl''),
     Field ''i_default_acl'' (Ptr ''struct posix_acl''),
     Field ''i_op'' (Ptr ''struct inode_operations''),
     Field ''i_sb'' (Ptr ''struct super_block''),
     Field ''i_mapping'' (Ptr ''struct address_space''),
     Field ''i_security'' (Ptr ''void''),
     Field ''i_ino'' c_unsigned_long,
     Field '''' (Union [
       Field ''i_nlink'' c_unsigned_int,
       Field ''__i_nlink'' c_unsigned_int]),
     Field ''i_rdev'' td_dev_t,
     Field ''i_size'' td_loff_t,
     Field ''i_atime_sec'' td_time64_t,
     Field ''i_mtime_sec'' td_time64_t,
     Field ''i_ctime_sec'' td_time64_t,
     Field ''i_atime_nsec'' td_u32,
     Field ''i_mtime_nsec'' td_u32,
     Field ''i_ctime_nsec'' td_u32,
     Field ''i_generation'' td_u32,
     Field ''i_lock'' td_spinlock_t,
     Field ''i_bytes'' c_unsigned_short,
     Field ''i_blkbits'' td_u8,
     Field ''i_write_hint'' en_rw_hint,
     Field ''i_blocks'' td_blkcnt_t,
     Field ''i_state'' td_u32,
     Field ''i_rwsem'' st_rw_semaphore,
     Field ''dirtied_when'' c_unsigned_long,
     Field ''dirtied_time_when'' c_unsigned_long,
     Field ''i_hash'' st_hlist_node,
     Field ''i_io_list'' st_list_head,
     Field ''i_wb'' (Ptr ''struct bdi_writeback''),
     Field ''i_wb_frn_winner'' c_int,
     Field ''i_wb_frn_avg_time'' td_u16,
     Field ''i_wb_frn_history'' td_u16,
     Field ''i_lru'' st_list_head,
     Field ''i_sb_list'' st_list_head,
     Field ''i_wb_list'' st_list_head,
     Field '''' (Union [
       Field ''i_dentry'' st_hlist_head,
       Field ''i_rcu'' st_callback_head]),
     Field ''i_version'' td_atomic64_t,
     Field ''i_sequence'' td_atomic64_t,
     Field ''i_count'' td_atomic_t,
     Field ''i_dio_count'' td_atomic_t,
     Field ''i_writecount'' td_atomic_t,
     Field ''i_readcount'' td_atomic_t,
     Field '''' (Union [
       Field ''i_fop'' (Ptr ''struct file_operations''),
       Field ''free_inode'' (Ptr ''void (struct inode *)'')]),
     Field ''i_flctx'' (Ptr ''struct file_lock_context''),
     Field ''i_data'' st_address_space,
     Field '''' (Union [
       Field ''i_devices'' st_list_head,
       Field ''i_linklen'' c_int]),
     Field '''' (Union [
       Field ''i_pipe'' (Ptr ''struct pipe_inode_info''),
       Field ''i_cdev'' (Ptr ''struct cdev''),
       Field ''i_link'' (Ptr ''char''),
       Field ''i_dir_seq'' c_unsigned_int]),
     Field ''i_fsnotify_mask'' td___u32,
     Field ''i_fsnotify_marks'' (Ptr ''struct fsnotify_mark_connector''),
     Field ''i_crypt_info'' (Ptr ''struct fscrypt_inode_info''),
     Field ''i_verity_info'' (Ptr ''struct fsverity_info''),
     Field ''i_private'' (Ptr ''void'')]"

lemma st_inode_layout [layout_simps]: "csize st_inode = 624" "calign st_inode = 8"
  by (simp_all add: st_inode_def layout_simps layout_eval)

definition st_hlist_bl_node :: ctype where
  "st_hlist_bl_node = Struct [
     Field ''next'' (Ptr ''struct hlist_bl_node''),
     Field ''pprev'' (Ptr ''struct hlist_bl_node *'')]"

lemma st_hlist_bl_node_layout [layout_simps]: "csize st_hlist_bl_node = 16" "calign st_hlist_bl_node = 8"
  by (simp_all add: st_hlist_bl_node_def layout_simps layout_eval)

definition st_qstr :: ctype where
  "st_qstr = Struct [
     Field '''' (Union [
       Field '''' (Struct [
         Field ''hash'' td_u32,
         Field ''len'' td_u32]),
       Field ''hash_len'' td_u64]),
     Field ''name'' (Ptr ''unsigned char'')]"

lemma st_qstr_layout [layout_simps]: "csize st_qstr = 16" "calign st_qstr = 8"
  by (simp_all add: st_qstr_def layout_simps layout_eval)

definition un_shortname_store :: ctype where
  "un_shortname_store = Union [
     Field ''string'' (Arr c_unsigned_char 40),
     Field ''words'' (Arr c_unsigned_long 5)]"

lemma un_shortname_store_layout [layout_simps]: "csize un_shortname_store = 40" "calign un_shortname_store = 8"
  by (simp_all add: un_shortname_store_def layout_simps layout_eval)

definition st_lockref :: ctype where
  "st_lockref = Struct [
     Field '''' (Union [
       Field ''lock_count'' td___u64,
       Field '''' (Struct [
         Field ''lock'' td_spinlock_t,
         Field ''count'' c_int])])]"

lemma st_lockref_layout [layout_simps]: "csize st_lockref = 8" "calign st_lockref = 8"
  by (simp_all add: st_lockref_def layout_simps layout_eval)

definition st_dentry :: ctype where
  "st_dentry = Struct [
     Field ''d_flags'' c_unsigned_int,
     Field ''d_seq'' td_seqcount_spinlock_t,
     Field ''d_hash'' st_hlist_bl_node,
     Field ''d_parent'' (Ptr ''struct dentry''),
     Field ''d_name'' st_qstr,
     Field ''d_inode'' (Ptr ''struct inode''),
     Field ''d_shortname'' un_shortname_store,
     Field ''d_op'' (Ptr ''struct dentry_operations''),
     Field ''d_sb'' (Ptr ''struct super_block''),
     Field ''d_time'' c_unsigned_long,
     Field ''d_fsdata'' (Ptr ''void''),
     Field ''d_lockref'' st_lockref,
     Field '''' (Union [
       Field ''d_lru'' st_list_head,
       Field ''d_wait'' (Ptr ''wait_queue_head_t'')]),
     Field ''d_sib'' st_hlist_node,
     Field ''d_children'' st_hlist_head,
     Field ''d_u'' (Union [
       Field ''d_alias'' st_hlist_node,
       Field ''d_in_lookup_hash'' st_hlist_bl_node,
       Field ''d_rcu'' st_callback_head])]"

lemma st_dentry_layout [layout_simps]: "csize st_dentry = 192" "calign st_dentry = 8"
  by (simp_all add: st_dentry_def layout_simps layout_eval)

definition st_css_set :: ctype where
  "st_css_set = Struct [
     Field ''subsys'' (Arr (Ptr ''struct cgroup_subsys_state'') 15),
     Field ''refcount'' td_refcount_t,
     Field ''dom_cset'' (Ptr ''struct css_set''),
     Field ''dfl_cgrp'' (Ptr ''struct cgroup''),
     Field ''nr_tasks'' c_int,
     Field ''tasks'' st_list_head,
     Field ''mg_tasks'' st_list_head,
     Field ''dying_tasks'' st_list_head,
     Field ''task_iters'' st_list_head,
     Field ''e_cset_node'' (Arr st_list_head 15),
     Field ''threaded_csets'' st_list_head,
     Field ''threaded_csets_node'' st_list_head,
     Field ''hlist'' st_hlist_node,
     Field ''cgrp_links'' st_list_head,
     Field ''mg_src_preload_node'' st_list_head,
     Field ''mg_dst_preload_node'' st_list_head,
     Field ''mg_node'' st_list_head,
     Field ''mg_src_cgrp'' (Ptr ''struct cgroup''),
     Field ''mg_dst_cgrp'' (Ptr ''struct cgroup''),
     Field ''mg_dst_cset'' (Ptr ''struct css_set''),
     Field ''dead'' td_bool,
     Field ''callback_head'' st_callback_head]"

lemma st_css_set_layout [layout_simps]: "csize st_css_set = 616" "calign st_css_set = 8"
  by (simp_all add: st_css_set_def layout_simps layout_eval)

definition st_task_cputime :: ctype where
  "st_task_cputime = Struct [
     Field ''stime'' td_u64,
     Field ''utime'' td_u64,
     Field ''sum_exec_runtime'' c_unsigned_long_long]"

lemma st_task_cputime_layout [layout_simps]: "csize st_task_cputime = 24" "calign st_task_cputime = 8"
  by (simp_all add: st_task_cputime_def layout_simps layout_eval)

definition st_cgroup_base_stat :: ctype where
  "st_cgroup_base_stat = Struct [
     Field ''cputime'' st_task_cputime,
     Field ''forceidle_sum'' td_u64,
     Field ''ntime'' td_u64]"

lemma st_cgroup_base_stat_layout [layout_simps]: "csize st_cgroup_base_stat = 40" "calign st_cgroup_base_stat = 8"
  by (simp_all add: st_cgroup_base_stat_def layout_simps layout_eval)

definition st_cgroup_bpf :: ctype where
  "st_cgroup_bpf = Struct [
     Field ''effective'' (Arr (Ptr ''struct bpf_prog_array'') 38),
     Field ''progs'' (Arr st_hlist_head 38),
     Field ''flags'' (Arr td_u8 38),
     Field ''revisions'' (Arr td_u64 38),
     Field ''storages'' st_list_head,
     Field ''inactive'' (Ptr ''struct bpf_prog_array''),
     Field ''refcnt'' st_percpu_ref,
     Field ''release_work'' st_work_struct]"

lemma st_cgroup_bpf_layout [layout_simps]: "csize st_cgroup_bpf = 1024" "calign st_cgroup_bpf = 8"
  by (simp_all add: st_cgroup_bpf_def layout_simps layout_eval)

definition st_cgroup_freezer_state :: ctype where
  "st_cgroup_freezer_state = Struct [
     Field ''freeze'' td_bool,
     Field ''e_freeze'' td_bool,
     Field ''nr_frozen_descendants'' c_int,
     Field ''nr_frozen_tasks'' c_int]"

lemma st_cgroup_freezer_state_layout [layout_simps]: "csize st_cgroup_freezer_state = 12" "calign st_cgroup_freezer_state = 4"
  by (simp_all add: st_cgroup_freezer_state_def layout_simps layout_eval)

definition st_cgroup :: ctype where
  "st_cgroup = Struct [
     Field ''self'' st_cgroup_subsys_state,
     Field ''flags'' c_unsigned_long,
     Field ''level'' c_int,
     Field ''max_depth'' c_int,
     Field ''nr_descendants'' c_int,
     Field ''nr_dying_descendants'' c_int,
     Field ''max_descendants'' c_int,
     Field ''nr_populated_csets'' c_int,
     Field ''nr_populated_domain_children'' c_int,
     Field ''nr_populated_threaded_children'' c_int,
     Field ''nr_threaded_children'' c_int,
     Field ''kill_seq'' c_unsigned_int,
     Field ''kn'' (Ptr ''struct kernfs_node''),
     Field ''procs_file'' st_cgroup_file,
     Field ''events_file'' st_cgroup_file,
     Field ''psi_files'' (Arr st_cgroup_file 3),
     Field ''subtree_control'' td_u16,
     Field ''subtree_ss_mask'' td_u16,
     Field ''old_subtree_control'' td_u16,
     Field ''old_subtree_ss_mask'' td_u16,
     Field ''subsys'' (Arr (Ptr ''struct cgroup_subsys_state'') 15),
     Field ''nr_dying_subsys'' (Arr c_int 15),
     Field ''root'' (Ptr ''struct cgroup_root''),
     Field ''cset_links'' st_list_head,
     Field ''e_csets'' (Arr st_list_head 15),
     Field ''dom_cgrp'' (Ptr ''struct cgroup''),
     Field ''old_dom_cgrp'' (Ptr ''struct cgroup''),
     Field ''rstat_base_cpu'' (Ptr ''struct cgroup_rstat_base_cpu''),
     Field ''_pad_'' st_cacheline_padding,
     Field ''last_bstat'' st_cgroup_base_stat,
     Field ''bstat'' st_cgroup_base_stat,
     Field ''prev_cputime'' st_prev_cputime,
     Field ''pidlists'' st_list_head,
     Field ''pidlist_mutex'' st_mutex,
     Field ''offline_waitq'' td_wait_queue_head_t,
     Field ''release_agent_work'' st_work_struct,
     Field ''psi'' (Ptr ''struct psi_group''),
     Field ''bpf'' st_cgroup_bpf,
     Field ''freezer'' st_cgroup_freezer_state,
     Field ''bpf_cgrp_storage'' (Ptr ''struct bpf_local_storage''),
     Field ''ancestors'' (Arr (Ptr ''struct cgroup'') 0),
     Bits '''' c_long 64,
     Bits '''' c_long 64]"

lemma st_cgroup_layout [layout_simps]: "csize st_cgroup = 2304" "calign st_cgroup = 8"
  by (simp_all add: st_cgroup_def layout_simps layout_eval)

definition td_kernel_cap_t :: ctype where
  "td_kernel_cap_t = Struct [
     Field ''val'' td_u64]"

lemma td_kernel_cap_t_layout [layout_simps]: "csize td_kernel_cap_t = 8" "calign td_kernel_cap_t = 8"
  by (simp_all add: td_kernel_cap_t_def layout_simps layout_eval)

definition st_cred :: ctype where
  "st_cred = Struct [
     Field ''usage'' td_atomic_long_t,
     Field ''uid'' td_kuid_t,
     Field ''gid'' td_kgid_t,
     Field ''suid'' td_kuid_t,
     Field ''sgid'' td_kgid_t,
     Field ''euid'' td_kuid_t,
     Field ''egid'' td_kgid_t,
     Field ''fsuid'' td_kuid_t,
     Field ''fsgid'' td_kgid_t,
     Field ''securebits'' c_unsigned_int,
     Field ''cap_inheritable'' td_kernel_cap_t,
     Field ''cap_permitted'' td_kernel_cap_t,
     Field ''cap_effective'' td_kernel_cap_t,
     Field ''cap_bset'' td_kernel_cap_t,
     Field ''cap_ambient'' td_kernel_cap_t,
     Field ''jit_keyring'' c_unsigned_char,
     Field ''session_keyring'' (Ptr ''struct key''),
     Field ''process_keyring'' (Ptr ''struct key''),
     Field ''thread_keyring'' (Ptr ''struct key''),
     Field ''request_key_auth'' (Ptr ''struct key''),
     Field ''security'' (Ptr ''void''),
     Field ''user'' (Ptr ''struct user_struct''),
     Field ''user_ns'' (Ptr ''struct user_namespace''),
     Field ''ucounts'' (Ptr ''struct ucounts''),
     Field ''group_info'' (Ptr ''struct group_info''),
     Field '''' (Union [
       Field ''non_rcu'' c_int,
       Field ''rcu'' st_callback_head])]"

lemma st_cred_layout [layout_simps]: "csize st_cred = 184" "calign st_cred = 8"
  by (simp_all add: st_cred_def layout_simps layout_eval)

definition st_nsproxy :: ctype where
  "st_nsproxy = Struct [
     Field ''count'' td_refcount_t,
     Field ''uts_ns'' (Ptr ''struct uts_namespace''),
     Field ''ipc_ns'' (Ptr ''struct ipc_namespace''),
     Field ''mnt_ns'' (Ptr ''struct mnt_namespace''),
     Field ''pid_ns_for_children'' (Ptr ''struct pid_namespace''),
     Field ''net_ns'' (Ptr ''struct net''),
     Field ''time_ns'' (Ptr ''struct time_namespace''),
     Field ''time_ns_for_children'' (Ptr ''struct time_namespace''),
     Field ''cgroup_ns'' (Ptr ''struct cgroup_namespace'')]"

lemma st_nsproxy_layout [layout_simps]: "csize st_nsproxy = 72" "calign st_nsproxy = 8"
  by (simp_all add: st_nsproxy_def layout_simps layout_eval)

definition st_fs_struct :: ctype where
  "st_fs_struct = Struct [
     Field ''users'' c_int,
     Field ''seq'' td_seqlock_t,
     Field ''umask'' c_int,
     Field ''in_exec'' c_int,
     Field ''root'' st_path,
     Field ''pwd'' st_path]"

lemma st_fs_struct_layout [layout_simps]: "csize st_fs_struct = 56" "calign st_fs_struct = 8"
  by (simp_all add: st_fs_struct_def layout_simps layout_eval)

end
