(* ===== verification/VmBpf.thy ===== *)
theory VmBpf
  imports VmFile
begin

text \<open>
  Kernel type declarations of \<open>internal/bpf/c/headers/vmlinux.h\<close>: the kernel side of a loaded program: maps, programs and helper ids.
  Each definition is one declaration of the header, member by member: \<open>st_\<close>, \<open>un_\<close> and \<open>en_\<close>
  name a structure, a union and an enumeration, \<open>td_\<close> a typedef. The lemma after a
  definition computes its size and alignment, which the layouts of the types that embed it use.
\<close>

definition st_bpf_map :: ctype where
  "st_bpf_map = Struct [
     Field ''ops'' (Ptr ''struct bpf_map_ops''),
     Field ''inner_map_meta'' (Ptr ''struct bpf_map''),
     Field ''security'' (Ptr ''void''),
     Field ''map_type'' en_bpf_map_type,
     Field ''key_size'' td_u32,
     Field ''value_size'' td_u32,
     Field ''max_entries'' td_u32,
     Field ''map_extra'' td_u64,
     Field ''map_flags'' td_u32,
     Field ''id'' td_u32,
     Field ''record'' (Ptr ''struct btf_record''),
     Field ''numa_node'' c_int,
     Field ''btf_key_type_id'' td_u32,
     Field ''btf_value_type_id'' td_u32,
     Field ''btf_vmlinux_value_type_id'' td_u32,
     Field ''btf'' (Ptr ''struct btf''),
     Field ''objcg'' (Ptr ''struct obj_cgroup''),
     Field ''name'' (Arr c_char 16),
     Field ''freeze_mutex'' st_mutex,
     Field ''refcnt'' td_atomic64_t,
     Field ''usercnt'' td_atomic64_t,
     Field '''' (Union [
       Field ''work'' st_work_struct,
       Field ''rcu'' st_callback_head]),
     Field ''writecnt'' td_atomic64_t,
     Field ''owner_lock'' td_spinlock_t,
     Field ''owner'' (Ptr ''struct bpf_map_owner''),
     Field ''bypass_spec_v1'' td_bool,
     Field ''frozen'' td_bool,
     Field ''free_after_mult_rcu_gp'' td_bool,
     Field ''free_after_rcu_gp'' td_bool,
     Field ''sleepable_refcnt'' td_atomic64_t,
     Field ''elem_count'' (Ptr ''s64''),
     Field ''cookie'' td_u64]"

lemma st_bpf_map_layout [layout_simps]: "csize st_bpf_map = 248" "calign st_bpf_map = 8"
  by (simp_all add: st_bpf_map_def layout_simps layout_eval)

definition st_bpf_mem_alloc :: ctype where
  "st_bpf_mem_alloc = Struct [
     Field ''caches'' (Ptr ''struct bpf_mem_caches''),
     Field ''cache'' (Ptr ''struct bpf_mem_cache''),
     Field ''objcg'' (Ptr ''struct obj_cgroup''),
     Field ''percpu'' td_bool,
     Field ''work'' st_work_struct]"

lemma st_bpf_mem_alloc_layout [layout_simps]: "csize st_bpf_mem_alloc = 64" "calign st_bpf_mem_alloc = 8"
  by (simp_all add: st_bpf_mem_alloc_def layout_simps layout_eval)

definition st_pcpu_freelist :: ctype where
  "st_pcpu_freelist = Struct [
     Field ''freelist'' (Ptr ''struct pcpu_freelist_head'')]"

lemma st_pcpu_freelist_layout [layout_simps]: "csize st_pcpu_freelist = 8" "calign st_pcpu_freelist = 8"
  by (simp_all add: st_pcpu_freelist_def layout_simps layout_eval)

definition st_bpf_lru_list :: ctype where
  "st_bpf_lru_list = Struct [
     Field ''lists'' (Arr st_list_head 3),
     Field ''counts'' (Arr c_unsigned_int 2),
     Field ''next_inactive_rotation'' (Ptr ''struct list_head''),
     Field ''lock'' td_raw_spinlock_t,
     Bits '''' c_long 64,
     Bits '''' c_long 64,
     Bits '''' c_long 64,
     Bits '''' c_long 64,
     Bits '''' c_long 64,
     Bits '''' c_long 64,
     Bits '''' c_long 64]"

lemma st_bpf_lru_list_layout [layout_simps]: "csize st_bpf_lru_list = 128" "calign st_bpf_lru_list = 8"
  by (simp_all add: st_bpf_lru_list_def layout_simps layout_eval)

definition st_bpf_common_lru :: ctype where
  "st_bpf_common_lru = Struct [
     Field ''lru_list'' st_bpf_lru_list,
     Field ''local_list'' (Ptr ''struct bpf_lru_locallist''),
     Bits '''' c_long 64,
     Bits '''' c_long 64,
     Bits '''' c_long 64,
     Bits '''' c_long 64,
     Bits '''' c_long 64,
     Bits '''' c_long 64,
     Bits '''' c_long 64]"

lemma st_bpf_common_lru_layout [layout_simps]: "csize st_bpf_common_lru = 192" "calign st_bpf_common_lru = 8"
  by (simp_all add: st_bpf_common_lru_def layout_simps layout_eval)

definition td_del_from_htab_func :: ctype where "td_del_from_htab_func = Ptr ''bool (void *, struct bpf_lru_node *)''"

lemma td_del_from_htab_func_layout [layout_simps]: "csize td_del_from_htab_func = 8" "calign td_del_from_htab_func = 8"
  by (simp_all add: td_del_from_htab_func_def layout_simps layout_eval)

definition st_bpf_lru :: ctype where
  "st_bpf_lru = Struct [
     Field '''' (Union [
       Field ''common_lru'' st_bpf_common_lru,
       Field ''percpu_lru'' (Ptr ''struct bpf_lru_list'')]),
     Field ''del_from_htab'' td_del_from_htab_func,
     Field ''del_arg'' (Ptr ''void''),
     Field ''hash_offset'' c_unsigned_int,
     Field ''target_free'' c_unsigned_int,
     Field ''nr_scans'' c_unsigned_int,
     Field ''percpu'' td_bool,
     Bits '''' c_long 64,
     Bits '''' c_long 64,
     Bits '''' c_long 64,
     Bits '''' c_long 64]"

lemma st_bpf_lru_layout [layout_simps]: "csize st_bpf_lru = 256" "calign st_bpf_lru = 8"
  by (simp_all add: st_bpf_lru_def layout_simps layout_eval)

definition st_bpf_htab :: ctype where
  "st_bpf_htab = Struct [
     Field ''map'' st_bpf_map,
     Field ''ma'' st_bpf_mem_alloc,
     Field ''pcpu_ma'' st_bpf_mem_alloc,
     Field ''buckets'' (Ptr ''struct bucket''),
     Field ''elems'' (Ptr ''void''),
     Bits '''' c_long 64,
     Bits '''' c_long 64,
     Bits '''' c_long 64,
     Bits '''' c_long 64,
     Bits '''' c_long 64,
     Bits '''' c_long 64,
     Bits '''' c_long 64,
     Field '''' (Union [
       Field ''freelist'' st_pcpu_freelist,
       Field ''lru'' st_bpf_lru]),
     Field ''extra_elems'' (Ptr ''struct htab_elem *''),
     Field ''pcount'' st_percpu_counter,
     Field ''count'' td_atomic_t,
     Field ''use_percpu_counter'' td_bool,
     Field ''n_buckets'' td_u32,
     Field ''elem_size'' td_u32,
     Field ''hashrnd'' td_u32,
     Bits '''' c_long 64,
     Bits '''' c_long 64,
     Bits '''' c_long 64,
     Bits '''' c_long 64,
     Bits '''' c_long 64,
     Bits '''' c_long 64,
     Bits '''' c_long 64]"

lemma st_bpf_htab_layout [layout_simps]: "csize st_bpf_htab = 832" "calign st_bpf_htab = 8"
  by (simp_all add: st_bpf_htab_def layout_simps layout_eval)

definition en_bpf_prog_type :: ctype where
  "en_bpf_prog_type = CEnum 4 [
     (''BPF_PROG_TYPE_UNSPEC'', 0),
     (''BPF_PROG_TYPE_SOCKET_FILTER'', 1),
     (''BPF_PROG_TYPE_KPROBE'', 2),
     (''BPF_PROG_TYPE_SCHED_CLS'', 3),
     (''BPF_PROG_TYPE_SCHED_ACT'', 4),
     (''BPF_PROG_TYPE_TRACEPOINT'', 5),
     (''BPF_PROG_TYPE_XDP'', 6),
     (''BPF_PROG_TYPE_PERF_EVENT'', 7),
     (''BPF_PROG_TYPE_CGROUP_SKB'', 8),
     (''BPF_PROG_TYPE_CGROUP_SOCK'', 9),
     (''BPF_PROG_TYPE_LWT_IN'', 10),
     (''BPF_PROG_TYPE_LWT_OUT'', 11),
     (''BPF_PROG_TYPE_LWT_XMIT'', 12),
     (''BPF_PROG_TYPE_SOCK_OPS'', 13),
     (''BPF_PROG_TYPE_SK_SKB'', 14),
     (''BPF_PROG_TYPE_CGROUP_DEVICE'', 15),
     (''BPF_PROG_TYPE_SK_MSG'', 16),
     (''BPF_PROG_TYPE_RAW_TRACEPOINT'', 17),
     (''BPF_PROG_TYPE_CGROUP_SOCK_ADDR'', 18),
     (''BPF_PROG_TYPE_LWT_SEG6LOCAL'', 19),
     (''BPF_PROG_TYPE_LIRC_MODE2'', 20),
     (''BPF_PROG_TYPE_SK_REUSEPORT'', 21),
     (''BPF_PROG_TYPE_FLOW_DISSECTOR'', 22),
     (''BPF_PROG_TYPE_CGROUP_SYSCTL'', 23),
     (''BPF_PROG_TYPE_RAW_TRACEPOINT_WRITABLE'', 24),
     (''BPF_PROG_TYPE_CGROUP_SOCKOPT'', 25),
     (''BPF_PROG_TYPE_TRACING'', 26),
     (''BPF_PROG_TYPE_STRUCT_OPS'', 27),
     (''BPF_PROG_TYPE_EXT'', 28),
     (''BPF_PROG_TYPE_LSM'', 29),
     (''BPF_PROG_TYPE_SK_LOOKUP'', 30),
     (''BPF_PROG_TYPE_SYSCALL'', 31),
     (''BPF_PROG_TYPE_NETFILTER'', 32),
     (''__MAX_BPF_PROG_TYPE'', 33)]"

lemma en_bpf_prog_type_layout [layout_simps]: "csize en_bpf_prog_type = 4" "calign en_bpf_prog_type = 4"
  by (simp_all add: en_bpf_prog_type_def layout_simps layout_eval)

definition en_bpf_attach_type :: ctype where
  "en_bpf_attach_type = CEnum 4 [
     (''BPF_CGROUP_INET_INGRESS'', 0),
     (''BPF_CGROUP_INET_EGRESS'', 1),
     (''BPF_CGROUP_INET_SOCK_CREATE'', 2),
     (''BPF_CGROUP_SOCK_OPS'', 3),
     (''BPF_SK_SKB_STREAM_PARSER'', 4),
     (''BPF_SK_SKB_STREAM_VERDICT'', 5),
     (''BPF_CGROUP_DEVICE'', 6),
     (''BPF_SK_MSG_VERDICT'', 7),
     (''BPF_CGROUP_INET4_BIND'', 8),
     (''BPF_CGROUP_INET6_BIND'', 9),
     (''BPF_CGROUP_INET4_CONNECT'', 10),
     (''BPF_CGROUP_INET6_CONNECT'', 11),
     (''BPF_CGROUP_INET4_POST_BIND'', 12),
     (''BPF_CGROUP_INET6_POST_BIND'', 13),
     (''BPF_CGROUP_UDP4_SENDMSG'', 14),
     (''BPF_CGROUP_UDP6_SENDMSG'', 15),
     (''BPF_LIRC_MODE2'', 16),
     (''BPF_FLOW_DISSECTOR'', 17),
     (''BPF_CGROUP_SYSCTL'', 18),
     (''BPF_CGROUP_UDP4_RECVMSG'', 19),
     (''BPF_CGROUP_UDP6_RECVMSG'', 20),
     (''BPF_CGROUP_GETSOCKOPT'', 21),
     (''BPF_CGROUP_SETSOCKOPT'', 22),
     (''BPF_TRACE_RAW_TP'', 23),
     (''BPF_TRACE_FENTRY'', 24),
     (''BPF_TRACE_FEXIT'', 25),
     (''BPF_MODIFY_RETURN'', 26),
     (''BPF_LSM_MAC'', 27),
     (''BPF_TRACE_ITER'', 28),
     (''BPF_CGROUP_INET4_GETPEERNAME'', 29),
     (''BPF_CGROUP_INET6_GETPEERNAME'', 30),
     (''BPF_CGROUP_INET4_GETSOCKNAME'', 31),
     (''BPF_CGROUP_INET6_GETSOCKNAME'', 32),
     (''BPF_XDP_DEVMAP'', 33),
     (''BPF_CGROUP_INET_SOCK_RELEASE'', 34),
     (''BPF_XDP_CPUMAP'', 35),
     (''BPF_SK_LOOKUP'', 36),
     (''BPF_XDP'', 37),
     (''BPF_SK_SKB_VERDICT'', 38),
     (''BPF_SK_REUSEPORT_SELECT'', 39),
     (''BPF_SK_REUSEPORT_SELECT_OR_MIGRATE'', 40),
     (''BPF_PERF_EVENT'', 41),
     (''BPF_TRACE_KPROBE_MULTI'', 42),
     (''BPF_LSM_CGROUP'', 43),
     (''BPF_STRUCT_OPS'', 44),
     (''BPF_NETFILTER'', 45),
     (''BPF_TCX_INGRESS'', 46),
     (''BPF_TCX_EGRESS'', 47),
     (''BPF_TRACE_UPROBE_MULTI'', 48),
     (''BPF_CGROUP_UNIX_CONNECT'', 49),
     (''BPF_CGROUP_UNIX_SENDMSG'', 50),
     (''BPF_CGROUP_UNIX_RECVMSG'', 51),
     (''BPF_CGROUP_UNIX_GETPEERNAME'', 52),
     (''BPF_CGROUP_UNIX_GETSOCKNAME'', 53),
     (''BPF_NETKIT_PRIMARY'', 54),
     (''BPF_NETKIT_PEER'', 55),
     (''BPF_TRACE_KPROBE_SESSION'', 56),
     (''BPF_TRACE_UPROBE_SESSION'', 57),
     (''__MAX_BPF_ATTACH_TYPE'', 58)]"

lemma en_bpf_attach_type_layout [layout_simps]: "csize en_bpf_attach_type = 4" "calign en_bpf_attach_type = 4"
  by (simp_all add: en_bpf_attach_type_def layout_simps layout_eval)

definition st_sock_filter :: ctype where
  "st_sock_filter = Struct [
     Field ''code'' td___u16,
     Field ''jt'' td___u8,
     Field ''jf'' td___u8,
     Field ''k'' td___u32]"

lemma st_sock_filter_layout [layout_simps]: "csize st_sock_filter = 8" "calign st_sock_filter = 4"
  by (simp_all add: st_sock_filter_def layout_simps layout_eval)

definition st_bpf_insn :: ctype where
  "st_bpf_insn = Struct [
     Field ''code'' td___u8,
     Bits ''dst_reg'' td___u8 4,
     Bits ''src_reg'' td___u8 4,
     Field ''off'' td___s16,
     Field ''imm'' td___s32]"

lemma st_bpf_insn_layout [layout_simps]: "csize st_bpf_insn = 8" "calign st_bpf_insn = 4"
  by (simp_all add: st_bpf_insn_def layout_simps layout_eval)

definition st_bpf_prog :: ctype where
  "st_bpf_prog = Struct [
     Field ''pages'' td_u16,
     Bits ''jited'' td_u16 1,
     Bits ''jit_requested'' td_u16 1,
     Bits ''gpl_compatible'' td_u16 1,
     Bits ''cb_access'' td_u16 1,
     Bits ''dst_needed'' td_u16 1,
     Bits ''blinding_requested'' td_u16 1,
     Bits ''blinded'' td_u16 1,
     Bits ''is_func'' td_u16 1,
     Bits ''kprobe_override'' td_u16 1,
     Bits ''has_callchain_buf'' td_u16 1,
     Bits ''enforce_expected_attach_type'' td_u16 1,
     Bits ''call_get_stack'' td_u16 1,
     Bits ''call_get_func_ip'' td_u16 1,
     Bits ''tstamp_type_access'' td_u16 1,
     Bits ''sleepable'' td_u16 1,
     Field ''type'' en_bpf_prog_type,
     Field ''expected_attach_type'' en_bpf_attach_type,
     Field ''len'' td_u32,
     Field ''jited_len'' td_u32,
     Field ''tag'' (Arr td_u8 8),
     Field ''stats'' (Ptr ''struct bpf_prog_stats''),
     Field ''active'' (Ptr ''int''),
     Field ''bpf_func'' (Ptr ''unsigned int (void *, struct bpf_insn *)''),
     Field ''aux'' (Ptr ''struct bpf_prog_aux''),
     Field ''orig_prog'' (Ptr ''struct sock_fprog_kern''),
     Field '''' (Union [
       Field '''' (Struct [
         Field ''__empty_insns'' (Struct []),
         Field ''insns'' (Arr st_sock_filter 0)]),
       Field '''' (Struct [
         Field ''__empty_insnsi'' (Struct []),
         Field ''insnsi'' (Arr st_bpf_insn 0)])])]"

lemma st_bpf_prog_layout [layout_simps]: "csize st_bpf_prog = 72" "calign st_bpf_prog = 8"
  by (simp_all add: st_bpf_prog_def layout_simps layout_eval)

definition st_latch_tree_node :: ctype where
  "st_latch_tree_node = Struct [
     Field ''node'' (Arr st_rb_node 2)]"

lemma st_latch_tree_node_layout [layout_simps]: "csize st_latch_tree_node = 48" "calign st_latch_tree_node = 8"
  by (simp_all add: st_latch_tree_node_def layout_simps layout_eval)

definition st_bpf_ksym :: ctype where
  "st_bpf_ksym = Struct [
     Field ''start'' c_unsigned_long,
     Field ''end'' c_unsigned_long,
     Field ''name'' (Arr c_char 512),
     Field ''lnode'' st_list_head,
     Field ''tnode'' st_latch_tree_node,
     Field ''prog'' td_bool]"

lemma st_bpf_ksym_layout [layout_simps]: "csize st_bpf_ksym = 600" "calign st_bpf_ksym = 8"
  by (simp_all add: st_bpf_ksym_def layout_simps layout_eval)

definition st_bpf_stream :: ctype where
  "st_bpf_stream = Struct [
     Field ''capacity'' td_atomic_t,
     Field ''log'' st_llist_head,
     Field ''lock'' st_mutex,
     Field ''backlog_head'' (Ptr ''struct llist_node''),
     Field ''backlog_tail'' (Ptr ''struct llist_node'')]"

lemma st_bpf_stream_layout [layout_simps]: "csize st_bpf_stream = 64" "calign st_bpf_stream = 8"
  by (simp_all add: st_bpf_stream_def layout_simps layout_eval)

definition st_bpf_prog_aux :: ctype where
  "st_bpf_prog_aux = Struct [
     Field ''refcnt'' td_atomic64_t,
     Field ''used_map_cnt'' td_u32,
     Field ''used_btf_cnt'' td_u32,
     Field ''max_ctx_offset'' td_u32,
     Field ''max_pkt_offset'' td_u32,
     Field ''max_tp_access'' td_u32,
     Field ''stack_depth'' td_u32,
     Field ''id'' td_u32,
     Field ''func_cnt'' td_u32,
     Field ''real_func_cnt'' td_u32,
     Field ''func_idx'' td_u32,
     Field ''attach_btf_id'' td_u32,
     Field ''attach_st_ops_member_off'' td_u32,
     Field ''ctx_arg_info_size'' td_u32,
     Field ''max_rdonly_access'' td_u32,
     Field ''max_rdwr_access'' td_u32,
     Field ''attach_btf'' (Ptr ''struct btf''),
     Field ''ctx_arg_info'' (Ptr ''struct bpf_ctx_arg_aux''),
     Field ''priv_stack_ptr'' (Ptr ''void''),
     Field ''dst_mutex'' st_mutex,
     Field ''dst_prog'' (Ptr ''struct bpf_prog''),
     Field ''dst_trampoline'' (Ptr ''struct bpf_trampoline''),
     Field ''saved_dst_prog_type'' en_bpf_prog_type,
     Field ''saved_dst_attach_type'' en_bpf_attach_type,
     Field ''verifier_zext'' td_bool,
     Field ''dev_bound'' td_bool,
     Field ''offload_requested'' td_bool,
     Field ''attach_btf_trace'' td_bool,
     Field ''attach_tracing_prog'' td_bool,
     Field ''func_proto_unreliable'' td_bool,
     Field ''tail_call_reachable'' td_bool,
     Field ''xdp_has_frags'' td_bool,
     Field ''exception_cb'' td_bool,
     Field ''exception_boundary'' td_bool,
     Field ''is_extended'' td_bool,
     Field ''jits_use_priv_stack'' td_bool,
     Field ''priv_stack_requested'' td_bool,
     Field ''changes_pkt_data'' td_bool,
     Field ''might_sleep'' td_bool,
     Field ''prog_array_member_cnt'' td_u64,
     Field ''ext_mutex'' st_mutex,
     Field ''arena'' (Ptr ''struct bpf_arena''),
     Field ''recursion_detected'' (Ptr ''void (struct bpf_prog *)''),
     Field ''attach_func_proto'' (Ptr ''struct btf_type''),
     Field ''attach_func_name'' (Ptr ''char''),
     Field ''func'' (Ptr ''struct bpf_prog *''),
     Field ''jit_data'' (Ptr ''void''),
     Field ''poke_tab'' (Ptr ''struct bpf_jit_poke_descriptor''),
     Field ''kfunc_tab'' (Ptr ''struct bpf_kfunc_desc_tab''),
     Field ''kfunc_btf_tab'' (Ptr ''struct bpf_kfunc_btf_tab''),
     Field ''size_poke_tab'' td_u32,
     Field ''ksym'' st_bpf_ksym,
     Field ''ops'' (Ptr ''struct bpf_prog_ops''),
     Field ''st_ops'' (Ptr ''struct bpf_struct_ops''),
     Field ''used_maps'' (Ptr ''struct bpf_map *''),
     Field ''used_maps_mutex'' st_mutex,
     Field ''used_btfs'' (Ptr ''struct btf_mod_pair''),
     Field ''prog'' (Ptr ''struct bpf_prog''),
     Field ''user'' (Ptr ''struct user_struct''),
     Field ''load_time'' td_u64,
     Field ''verified_insns'' td_u32,
     Field ''cgroup_atype'' c_int,
     Field ''cgroup_storage'' (Arr (Ptr ''struct bpf_map'') 2),
     Field ''name'' (Arr c_char 16),
     Field ''bpf_exception_cb'' (Ptr ''u64 (u64, u64, u64, u64, u64)''),
     Field ''security'' (Ptr ''void''),
     Field ''token'' (Ptr ''struct bpf_token''),
     Field ''offload'' (Ptr ''struct bpf_prog_offload''),
     Field ''btf'' (Ptr ''struct btf''),
     Field ''func_info'' (Ptr ''struct bpf_func_info''),
     Field ''func_info_aux'' (Ptr ''struct bpf_func_info_aux''),
     Field ''linfo'' (Ptr ''struct bpf_line_info''),
     Field ''jited_linfo'' (Ptr ''void *''),
     Field ''func_info_cnt'' td_u32,
     Field ''nr_linfo'' td_u32,
     Field ''linfo_idx'' td_u32,
     Field ''mod'' (Ptr ''struct module''),
     Field ''num_exentries'' td_u32,
     Field ''extable'' (Ptr ''struct exception_table_entry''),
     Field '''' (Union [
       Field ''work'' st_work_struct,
       Field ''rcu'' st_callback_head]),
     Field ''stream'' (Arr st_bpf_stream 2)]"

lemma st_bpf_prog_aux_layout [layout_simps]: "csize st_bpf_prog_aux = 1288" "calign st_bpf_prog_aux = 8"
  by (simp_all add: st_bpf_prog_aux_def layout_simps layout_eval)

definition en_bpf_func_id :: ctype where
  "en_bpf_func_id = CEnum 4 [
     (''BPF_FUNC_unspec'', 0),
     (''BPF_FUNC_map_lookup_elem'', 1),
     (''BPF_FUNC_map_update_elem'', 2),
     (''BPF_FUNC_map_delete_elem'', 3),
     (''BPF_FUNC_probe_read'', 4),
     (''BPF_FUNC_ktime_get_ns'', 5),
     (''BPF_FUNC_trace_printk'', 6),
     (''BPF_FUNC_get_prandom_u32'', 7),
     (''BPF_FUNC_get_smp_processor_id'', 8),
     (''BPF_FUNC_skb_store_bytes'', 9),
     (''BPF_FUNC_l3_csum_replace'', 10),
     (''BPF_FUNC_l4_csum_replace'', 11),
     (''BPF_FUNC_tail_call'', 12),
     (''BPF_FUNC_clone_redirect'', 13),
     (''BPF_FUNC_get_current_pid_tgid'', 14),
     (''BPF_FUNC_get_current_uid_gid'', 15),
     (''BPF_FUNC_get_current_comm'', 16),
     (''BPF_FUNC_get_cgroup_classid'', 17),
     (''BPF_FUNC_skb_vlan_push'', 18),
     (''BPF_FUNC_skb_vlan_pop'', 19),
     (''BPF_FUNC_skb_get_tunnel_key'', 20),
     (''BPF_FUNC_skb_set_tunnel_key'', 21),
     (''BPF_FUNC_perf_event_read'', 22),
     (''BPF_FUNC_redirect'', 23),
     (''BPF_FUNC_get_route_realm'', 24),
     (''BPF_FUNC_perf_event_output'', 25),
     (''BPF_FUNC_skb_load_bytes'', 26),
     (''BPF_FUNC_get_stackid'', 27),
     (''BPF_FUNC_csum_diff'', 28),
     (''BPF_FUNC_skb_get_tunnel_opt'', 29),
     (''BPF_FUNC_skb_set_tunnel_opt'', 30),
     (''BPF_FUNC_skb_change_proto'', 31),
     (''BPF_FUNC_skb_change_type'', 32),
     (''BPF_FUNC_skb_under_cgroup'', 33),
     (''BPF_FUNC_get_hash_recalc'', 34),
     (''BPF_FUNC_get_current_task'', 35),
     (''BPF_FUNC_probe_write_user'', 36),
     (''BPF_FUNC_current_task_under_cgroup'', 37),
     (''BPF_FUNC_skb_change_tail'', 38),
     (''BPF_FUNC_skb_pull_data'', 39),
     (''BPF_FUNC_csum_update'', 40),
     (''BPF_FUNC_set_hash_invalid'', 41),
     (''BPF_FUNC_get_numa_node_id'', 42),
     (''BPF_FUNC_skb_change_head'', 43),
     (''BPF_FUNC_xdp_adjust_head'', 44),
     (''BPF_FUNC_probe_read_str'', 45),
     (''BPF_FUNC_get_socket_cookie'', 46),
     (''BPF_FUNC_get_socket_uid'', 47),
     (''BPF_FUNC_set_hash'', 48),
     (''BPF_FUNC_setsockopt'', 49),
     (''BPF_FUNC_skb_adjust_room'', 50),
     (''BPF_FUNC_redirect_map'', 51),
     (''BPF_FUNC_sk_redirect_map'', 52),
     (''BPF_FUNC_sock_map_update'', 53),
     (''BPF_FUNC_xdp_adjust_meta'', 54),
     (''BPF_FUNC_perf_event_read_value'', 55),
     (''BPF_FUNC_perf_prog_read_value'', 56),
     (''BPF_FUNC_getsockopt'', 57),
     (''BPF_FUNC_override_return'', 58),
     (''BPF_FUNC_sock_ops_cb_flags_set'', 59),
     (''BPF_FUNC_msg_redirect_map'', 60),
     (''BPF_FUNC_msg_apply_bytes'', 61),
     (''BPF_FUNC_msg_cork_bytes'', 62),
     (''BPF_FUNC_msg_pull_data'', 63),
     (''BPF_FUNC_bind'', 64),
     (''BPF_FUNC_xdp_adjust_tail'', 65),
     (''BPF_FUNC_skb_get_xfrm_state'', 66),
     (''BPF_FUNC_get_stack'', 67),
     (''BPF_FUNC_skb_load_bytes_relative'', 68),
     (''BPF_FUNC_fib_lookup'', 69),
     (''BPF_FUNC_sock_hash_update'', 70),
     (''BPF_FUNC_msg_redirect_hash'', 71),
     (''BPF_FUNC_sk_redirect_hash'', 72),
     (''BPF_FUNC_lwt_push_encap'', 73),
     (''BPF_FUNC_lwt_seg6_store_bytes'', 74),
     (''BPF_FUNC_lwt_seg6_adjust_srh'', 75),
     (''BPF_FUNC_lwt_seg6_action'', 76),
     (''BPF_FUNC_rc_repeat'', 77),
     (''BPF_FUNC_rc_keydown'', 78),
     (''BPF_FUNC_skb_cgroup_id'', 79),
     (''BPF_FUNC_get_current_cgroup_id'', 80),
     (''BPF_FUNC_get_local_storage'', 81),
     (''BPF_FUNC_sk_select_reuseport'', 82),
     (''BPF_FUNC_skb_ancestor_cgroup_id'', 83),
     (''BPF_FUNC_sk_lookup_tcp'', 84),
     (''BPF_FUNC_sk_lookup_udp'', 85),
     (''BPF_FUNC_sk_release'', 86),
     (''BPF_FUNC_map_push_elem'', 87),
     (''BPF_FUNC_map_pop_elem'', 88),
     (''BPF_FUNC_map_peek_elem'', 89),
     (''BPF_FUNC_msg_push_data'', 90),
     (''BPF_FUNC_msg_pop_data'', 91),
     (''BPF_FUNC_rc_pointer_rel'', 92),
     (''BPF_FUNC_spin_lock'', 93),
     (''BPF_FUNC_spin_unlock'', 94),
     (''BPF_FUNC_sk_fullsock'', 95),
     (''BPF_FUNC_tcp_sock'', 96),
     (''BPF_FUNC_skb_ecn_set_ce'', 97),
     (''BPF_FUNC_get_listener_sock'', 98),
     (''BPF_FUNC_skc_lookup_tcp'', 99),
     (''BPF_FUNC_tcp_check_syncookie'', 100),
     (''BPF_FUNC_sysctl_get_name'', 101),
     (''BPF_FUNC_sysctl_get_current_value'', 102),
     (''BPF_FUNC_sysctl_get_new_value'', 103),
     (''BPF_FUNC_sysctl_set_new_value'', 104),
     (''BPF_FUNC_strtol'', 105),
     (''BPF_FUNC_strtoul'', 106),
     (''BPF_FUNC_sk_storage_get'', 107),
     (''BPF_FUNC_sk_storage_delete'', 108),
     (''BPF_FUNC_send_signal'', 109),
     (''BPF_FUNC_tcp_gen_syncookie'', 110),
     (''BPF_FUNC_skb_output'', 111),
     (''BPF_FUNC_probe_read_user'', 112),
     (''BPF_FUNC_probe_read_kernel'', 113),
     (''BPF_FUNC_probe_read_user_str'', 114),
     (''BPF_FUNC_probe_read_kernel_str'', 115),
     (''BPF_FUNC_tcp_send_ack'', 116),
     (''BPF_FUNC_send_signal_thread'', 117),
     (''BPF_FUNC_jiffies64'', 118),
     (''BPF_FUNC_read_branch_records'', 119),
     (''BPF_FUNC_get_ns_current_pid_tgid'', 120),
     (''BPF_FUNC_xdp_output'', 121),
     (''BPF_FUNC_get_netns_cookie'', 122),
     (''BPF_FUNC_get_current_ancestor_cgroup_id'', 123),
     (''BPF_FUNC_sk_assign'', 124),
     (''BPF_FUNC_ktime_get_boot_ns'', 125),
     (''BPF_FUNC_seq_printf'', 126),
     (''BPF_FUNC_seq_write'', 127),
     (''BPF_FUNC_sk_cgroup_id'', 128),
     (''BPF_FUNC_sk_ancestor_cgroup_id'', 129),
     (''BPF_FUNC_ringbuf_output'', 130),
     (''BPF_FUNC_ringbuf_reserve'', 131),
     (''BPF_FUNC_ringbuf_submit'', 132),
     (''BPF_FUNC_ringbuf_discard'', 133),
     (''BPF_FUNC_ringbuf_query'', 134),
     (''BPF_FUNC_csum_level'', 135),
     (''BPF_FUNC_skc_to_tcp6_sock'', 136),
     (''BPF_FUNC_skc_to_tcp_sock'', 137),
     (''BPF_FUNC_skc_to_tcp_timewait_sock'', 138),
     (''BPF_FUNC_skc_to_tcp_request_sock'', 139),
     (''BPF_FUNC_skc_to_udp6_sock'', 140),
     (''BPF_FUNC_get_task_stack'', 141),
     (''BPF_FUNC_load_hdr_opt'', 142),
     (''BPF_FUNC_store_hdr_opt'', 143),
     (''BPF_FUNC_reserve_hdr_opt'', 144),
     (''BPF_FUNC_inode_storage_get'', 145),
     (''BPF_FUNC_inode_storage_delete'', 146),
     (''BPF_FUNC_d_path'', 147),
     (''BPF_FUNC_copy_from_user'', 148),
     (''BPF_FUNC_snprintf_btf'', 149),
     (''BPF_FUNC_seq_printf_btf'', 150),
     (''BPF_FUNC_skb_cgroup_classid'', 151),
     (''BPF_FUNC_redirect_neigh'', 152),
     (''BPF_FUNC_per_cpu_ptr'', 153),
     (''BPF_FUNC_this_cpu_ptr'', 154),
     (''BPF_FUNC_redirect_peer'', 155),
     (''BPF_FUNC_task_storage_get'', 156),
     (''BPF_FUNC_task_storage_delete'', 157),
     (''BPF_FUNC_get_current_task_btf'', 158),
     (''BPF_FUNC_bprm_opts_set'', 159),
     (''BPF_FUNC_ktime_get_coarse_ns'', 160),
     (''BPF_FUNC_ima_inode_hash'', 161),
     (''BPF_FUNC_sock_from_file'', 162),
     (''BPF_FUNC_check_mtu'', 163),
     (''BPF_FUNC_for_each_map_elem'', 164),
     (''BPF_FUNC_snprintf'', 165),
     (''BPF_FUNC_sys_bpf'', 166),
     (''BPF_FUNC_btf_find_by_name_kind'', 167),
     (''BPF_FUNC_sys_close'', 168),
     (''BPF_FUNC_timer_init'', 169),
     (''BPF_FUNC_timer_set_callback'', 170),
     (''BPF_FUNC_timer_start'', 171),
     (''BPF_FUNC_timer_cancel'', 172),
     (''BPF_FUNC_get_func_ip'', 173),
     (''BPF_FUNC_get_attach_cookie'', 174),
     (''BPF_FUNC_task_pt_regs'', 175),
     (''BPF_FUNC_get_branch_snapshot'', 176),
     (''BPF_FUNC_trace_vprintk'', 177),
     (''BPF_FUNC_skc_to_unix_sock'', 178),
     (''BPF_FUNC_kallsyms_lookup_name'', 179),
     (''BPF_FUNC_find_vma'', 180),
     (''BPF_FUNC_loop'', 181),
     (''BPF_FUNC_strncmp'', 182),
     (''BPF_FUNC_get_func_arg'', 183),
     (''BPF_FUNC_get_func_ret'', 184),
     (''BPF_FUNC_get_func_arg_cnt'', 185),
     (''BPF_FUNC_get_retval'', 186),
     (''BPF_FUNC_set_retval'', 187),
     (''BPF_FUNC_xdp_get_buff_len'', 188),
     (''BPF_FUNC_xdp_load_bytes'', 189),
     (''BPF_FUNC_xdp_store_bytes'', 190),
     (''BPF_FUNC_copy_from_user_task'', 191),
     (''BPF_FUNC_skb_set_tstamp'', 192),
     (''BPF_FUNC_ima_file_hash'', 193),
     (''BPF_FUNC_kptr_xchg'', 194),
     (''BPF_FUNC_map_lookup_percpu_elem'', 195),
     (''BPF_FUNC_skc_to_mptcp_sock'', 196),
     (''BPF_FUNC_dynptr_from_mem'', 197),
     (''BPF_FUNC_ringbuf_reserve_dynptr'', 198),
     (''BPF_FUNC_ringbuf_submit_dynptr'', 199),
     (''BPF_FUNC_ringbuf_discard_dynptr'', 200),
     (''BPF_FUNC_dynptr_read'', 201),
     (''BPF_FUNC_dynptr_write'', 202),
     (''BPF_FUNC_dynptr_data'', 203),
     (''BPF_FUNC_tcp_raw_gen_syncookie_ipv4'', 204),
     (''BPF_FUNC_tcp_raw_gen_syncookie_ipv6'', 205),
     (''BPF_FUNC_tcp_raw_check_syncookie_ipv4'', 206),
     (''BPF_FUNC_tcp_raw_check_syncookie_ipv6'', 207),
     (''BPF_FUNC_ktime_get_tai_ns'', 208),
     (''BPF_FUNC_user_ringbuf_drain'', 209),
     (''BPF_FUNC_cgrp_storage_get'', 210),
     (''BPF_FUNC_cgrp_storage_delete'', 211),
     (''__BPF_FUNC_MAX_ID'', 212)]"

lemma en_bpf_func_id_layout [layout_simps]: "csize en_bpf_func_id = 4" "calign en_bpf_func_id = 4"
  by (simp_all add: en_bpf_func_id_def layout_simps layout_eval)

definition st_page :: ctype where
  "st_page = Struct [
     Field ''flags'' c_unsigned_long,
     Field '''' (Union [
       Field '''' (Struct [
         Field '''' (Union [
           Field ''lru'' st_list_head,
           Field '''' (Struct [
             Field ''__filler'' (Ptr ''void''),
             Field ''mlock_count'' c_unsigned_int]),
           Field ''buddy_list'' st_list_head,
           Field ''pcp_list'' st_list_head,
           Field '''' (Struct [
             Field ''pcp_llist'' st_llist_node,
             Field ''order'' c_unsigned_int])]),
         Field ''mapping'' (Ptr ''struct address_space''),
         Field '''' (Union [
           Field ''__folio_index'' c_unsigned_long,
           Field ''share'' c_unsigned_long]),
         Field ''private'' c_unsigned_long]),
       Field '''' (Struct [
         Field ''pp_magic'' c_unsigned_long,
         Field ''pp'' (Ptr ''struct page_pool''),
         Field ''_pp_mapping_pad'' c_unsigned_long,
         Field ''dma_addr'' c_unsigned_long,
         Field ''pp_ref_count'' td_atomic_long_t]),
       Field '''' (Struct [
         Field ''compound_head'' c_unsigned_long]),
       Field '''' (Struct [
         Field ''_unused_pgmap_compound_head'' (Ptr ''void''),
         Field ''zone_device_data'' (Ptr ''void'')]),
       Field ''callback_head'' st_callback_head]),
     Field '''' (Union [
       Field ''page_type'' c_unsigned_int,
       Field ''_mapcount'' td_atomic_t]),
     Field ''_refcount'' td_atomic_t,
     Field ''memcg_data'' c_unsigned_long]"

lemma st_page_layout [layout_simps]: "csize st_page = 64" "calign st_page = 8"
  by (simp_all add: st_page_def layout_simps layout_eval)

definition td_swp_entry_t :: ctype where
  "td_swp_entry_t = Struct [
     Field ''val'' c_unsigned_long]"

lemma td_swp_entry_t_layout [layout_simps]: "csize td_swp_entry_t = 8" "calign td_swp_entry_t = 8"
  by (simp_all add: td_swp_entry_t_def layout_simps layout_eval)

definition td_mm_id_mapcount_t :: ctype where "td_mm_id_mapcount_t = c_int"

lemma td_mm_id_mapcount_t_layout [layout_simps]: "csize td_mm_id_mapcount_t = 4" "calign td_mm_id_mapcount_t = 4"
  by (simp_all add: td_mm_id_mapcount_t_def layout_simps layout_eval)

definition st_folio :: ctype where
  "st_folio = Struct [
     Field '''' (Union [
       Field '''' (Struct [
         Field ''flags'' c_unsigned_long,
         Field '''' (Union [
           Field ''lru'' st_list_head,
           Field '''' (Struct [
             Field ''__filler'' (Ptr ''void''),
             Field ''mlock_count'' c_unsigned_int]),
           Field ''pgmap'' (Ptr ''struct dev_pagemap'')]),
         Field ''mapping'' (Ptr ''struct address_space''),
         Field '''' (Union [
           Field ''index'' c_unsigned_long,
           Field ''share'' c_unsigned_long]),
         Field '''' (Union [
           Field ''private'' (Ptr ''void''),
           Field ''swap'' td_swp_entry_t]),
         Field ''_mapcount'' td_atomic_t,
         Field ''_refcount'' td_atomic_t,
         Field ''memcg_data'' c_unsigned_long]),
       Field ''page'' st_page]),
     Field '''' (Union [
       Field '''' (Struct [
         Field ''_flags_1'' c_unsigned_long,
         Field ''_head_1'' c_unsigned_long,
         Field '''' (Union [
           Field '''' (Struct [
             Field ''_large_mapcount'' td_atomic_t,
             Field ''_nr_pages_mapped'' td_atomic_t,
             Field ''_entire_mapcount'' td_atomic_t,
             Field ''_pincount'' td_atomic_t,
             Field ''_mm_id_mapcount'' (Arr td_mm_id_mapcount_t 2),
             Field '''' (Union [
               Field ''_mm_id'' (Arr td_mm_id_t 2),
               Field ''_mm_ids'' c_unsigned_long])]),
           Field ''_usable_1'' (Arr c_unsigned_long 4)]),
         Field ''_mapcount_1'' td_atomic_t,
         Field ''_refcount_1'' td_atomic_t,
         Field ''_nr_pages'' c_unsigned_int]),
       Field ''__page_1'' st_page]),
     Field '''' (Union [
       Field '''' (Struct [
         Field ''_flags_2'' c_unsigned_long,
         Field ''_head_2'' c_unsigned_long,
         Field ''_deferred_list'' st_list_head]),
       Field ''__page_2'' st_page]),
     Field '''' (Union [
       Field '''' (Struct [
         Field ''_flags_3'' c_unsigned_long,
         Field ''_head_3'' c_unsigned_long,
         Field ''_hugetlb_subpool'' (Ptr ''void''),
         Field ''_hugetlb_cgroup'' (Ptr ''void''),
         Field ''_hugetlb_cgroup_rsvd'' (Ptr ''void''),
         Field ''_hugetlb_hwpoison'' (Ptr ''void'')]),
       Field ''__page_3'' st_page])]"

lemma st_folio_layout [layout_simps]: "csize st_folio = 256" "calign st_folio = 8"
  by (simp_all add: st_folio_def layout_simps layout_eval)

end
