(* ===== verification/KernoH.thy ===== *)
theory KernoH
  imports VmBpf
begin

text \<open>
  \<open>internal/bpf/c/headers/kerno.h\<close>: the constants, the event structures and the map
  declarations shared by the six eBPF programs. Every event structure is modelled twice: as a
  record, which the handlers fill, and as the C type whose layout says where each member of the
  record lies in the ring buffer. \<open>*_image\<close> is the byte image of a record in that layout.
\<close>

section \<open>Constants\<close>

definition TASK_COMM_LEN :: nat where "TASK_COMM_LEN = 16"
definition MAX_ENTRIES :: nat where "MAX_ENTRIES = 8192"
definition RINGBUF_SIZE :: nat where "RINGBUF_SIZE = 256 * 1024"
definition MAX_FILENAME_LEN :: nat where "MAX_FILENAME_LEN = 256"

definition SEVERITY_INFO :: nat where "SEVERITY_INFO = 0"
definition SEVERITY_WARNING :: nat where "SEVERITY_WARNING = 1"
definition SEVERITY_CRITICAL :: nat where "SEVERITY_CRITICAL = 2"

definition EVENT_SYSCALL_LATENCY :: u8 where "EVENT_SYSCALL_LATENCY = 1"
definition EVENT_TCP_MONITOR :: u8 where "EVENT_TCP_MONITOR = 2"
definition EVENT_OOM_KILL :: u8 where "EVENT_OOM_KILL = 3"
definition EVENT_DISK_IO :: u8 where "EVENT_DISK_IO = 4"
definition EVENT_SCHED_DELAY :: u8 where "EVENT_SCHED_DELAY = 5"
definition EVENT_FD_TRACK :: u8 where "EVENT_FD_TRACK = 6"
definition EVENT_FILE_AUDIT :: u8 where "EVENT_FILE_AUDIT = 7"

definition TCP_EVENT_CONNECT :: u8 where "TCP_EVENT_CONNECT = 1"
definition TCP_EVENT_CLOSE :: u8 where "TCP_EVENT_CLOSE = 2"
definition TCP_EVENT_RETRANSMIT :: u8 where "TCP_EVENT_RETRANSMIT = 3"
definition TCP_EVENT_RTT :: u8 where "TCP_EVENT_RTT = 4"

definition FD_OP_OPEN :: u8 where "FD_OP_OPEN = 1"
definition FD_OP_CLOSE :: u8 where "FD_OP_CLOSE = 2"

section \<open>Event structures\<close>

record syscall_event =
  se_timestamp_ns :: u64
  se_latency_ns :: u64
  se_cgroup_id :: u64
  se_pid :: u32
  se_tid :: u32
  se_syscall_nr :: u32
  se_ret :: u32
  se_comm :: bytes

definition struct_syscall_event :: ctype where
  "struct_syscall_event = Struct [
     Field ''timestamp_ns'' td___u64,
     Field ''latency_ns'' td___u64,
     Field ''cgroup_id'' td___u64,
     Field ''pid'' td___u32,
     Field ''tid'' td___u32,
     Field ''syscall_nr'' td___u32,
     Field ''ret'' td___u32,
     Field ''comm'' (Arr c_char TASK_COMM_LEN)]"

record tcp_event =
  te_timestamp_ns :: u64
  te_cgroup_id :: u64
  te_pid :: u32
  te_saddr :: u32
  te_daddr :: u32
  te_sport :: u16
  te_dport :: u16
  te_family :: u16
  te_event_type :: u8
  te_state :: u8
  te_rtt_us :: u32
  te_retransmits :: u32
  te_comm :: bytes
  te_pad :: bytes

definition struct_tcp_event :: ctype where
  "struct_tcp_event = Struct [
     Field ''timestamp_ns'' td___u64,
     Field ''cgroup_id'' td___u64,
     Field ''pid'' td___u32,
     Field ''saddr'' td___u32,
     Field ''daddr'' td___u32,
     Field ''sport'' td___u16,
     Field ''dport'' td___u16,
     Field ''family'' td___u16,
     Field ''event_type'' td___u8,
     Field ''state'' td___u8,
     Field ''rtt_us'' td___u32,
     Field ''retransmits'' td___u32,
     Field ''comm'' (Arr c_char TASK_COMM_LEN),
     Field ''_pad'' (Arr td___u8 4)]"

record oom_event =
  oe_timestamp_ns :: u64
  oe_cgroup_id :: u64
  oe_total_pages :: u64
  oe_rss_pages :: u64
  oe_pid :: u32
  oe_triggered_pid :: u32
  oe_oom_score :: u32
  oe_pad :: u32
  oe_comm :: bytes

definition struct_oom_event :: ctype where
  "struct_oom_event = Struct [
     Field ''timestamp_ns'' td___u64,
     Field ''cgroup_id'' td___u64,
     Field ''total_pages'' td___u64,
     Field ''rss_pages'' td___u64,
     Field ''pid'' td___u32,
     Field ''triggered_pid'' td___u32,
     Field ''oom_score'' td___s32,
     Field ''_pad'' td___u32,
     Field ''comm'' (Arr c_char TASK_COMM_LEN)]"

record disk_event =
  de_timestamp_ns :: u64
  de_latency_ns :: u64
  de_sector :: u64
  de_dev :: u32
  de_nr_bytes :: u32
  de_pid :: u32
  de_op :: u8
  de_pad :: bytes
  de_comm :: bytes

definition struct_disk_event :: ctype where
  "struct_disk_event = Struct [
     Field ''timestamp_ns'' td___u64,
     Field ''latency_ns'' td___u64,
     Field ''sector'' td___u64,
     Field ''dev'' td___u32,
     Field ''nr_bytes'' td___u32,
     Field ''pid'' td___u32,
     Field ''op'' td___u8,
     Field ''_pad'' (Arr td___u8 3),
     Field ''comm'' (Arr c_char TASK_COMM_LEN)]"

record sched_event =
  sc_timestamp_ns :: u64
  sc_runq_delay_ns :: u64
  sc_cgroup_id :: u64
  sc_pid :: u32
  sc_cpu :: u32
  sc_comm :: bytes

definition struct_sched_event :: ctype where
  "struct_sched_event = Struct [
     Field ''timestamp_ns'' td___u64,
     Field ''runq_delay_ns'' td___u64,
     Field ''cgroup_id'' td___u64,
     Field ''pid'' td___u32,
     Field ''cpu'' td___u32,
     Field ''comm'' (Arr c_char TASK_COMM_LEN)]"

record fd_event =
  fe_timestamp_ns :: u64
  fe_cgroup_id :: u64
  fe_pid :: u32
  fe_fd :: u32
  fe_op :: u8
  fe_pad :: bytes
  fe_comm :: bytes

definition struct_fd_event :: ctype where
  "struct_fd_event = Struct [
     Field ''timestamp_ns'' td___u64,
     Field ''cgroup_id'' td___u64,
     Field ''pid'' td___u32,
     Field ''fd'' td___s32,
     Field ''op'' td___u8,
     Field ''_pad'' (Arr td___u8 7),
     Field ''comm'' (Arr c_char TASK_COMM_LEN)]"

record file_event =
  fl_timestamp_ns :: u64
  fl_cgroup_id :: u64
  fl_pid :: u32
  fl_uid :: u32
  fl_flags :: u32
  fl_pad :: u32
  fl_comm :: bytes
  fl_filename :: bytes

definition struct_file_event :: ctype where
  "struct_file_event = Struct [
     Field ''timestamp_ns'' td___u64,
     Field ''cgroup_id'' td___u64,
     Field ''pid'' td___u32,
     Field ''uid'' td___u32,
     Field ''flags'' td___u32,
     Field ''_pad'' td___u32,
     Field ''comm'' (Arr c_char TASK_COMM_LEN),
     Field ''filename'' (Arr c_char MAX_FILENAME_LEN)]"

section \<open>Map declarations\<close>

text \<open>\<open>KERNO_HASH\<close> and \<open>KERNO_RINGBUF\<close> declare a map by its type and its capacity; the hash
  map also names its key and value types.\<close>

record map_decl =
  md_type :: string
  md_max_entries :: nat
  md_key :: "ctype option"
  md_value :: "ctype option"

definition KERNO_RINGBUF :: map_decl where
  "KERNO_RINGBUF =
     \<lparr>md_type = ''BPF_MAP_TYPE_RINGBUF'', md_max_entries = RINGBUF_SIZE,
      md_key = None, md_value = None\<rparr>"

definition KERNO_HASH :: "ctype \<Rightarrow> ctype \<Rightarrow> nat \<Rightarrow> map_decl" where
  "KERNO_HASH key_type val_type max_entries =
     \<lparr>md_type = ''BPF_MAP_TYPE_HASH'', md_max_entries = max_entries,
      md_key = Some key_type, md_value = Some val_type\<rparr>"

section \<open>Loads and stores through a layout\<close>

text \<open>\<open>cload t f mem\<close> is the bytes of member \<open>f\<close> in the object \<open>mem\<close> of type \<open>t\<close>
  (\<open>mem->f\<close>), \<open>ctx_load\<close> the same as an integer; \<open>cstore\<close> writes a member.\<close>

definition cload :: "ctype \<Rightarrow> string \<Rightarrow> bytes \<Rightarrow> bytes" where
  "cload t f mem = bslice (coffset t f) (cmsize t f) mem"

definition ctx_load :: "ctype \<Rightarrow> string \<Rightarrow> bytes \<Rightarrow> 'a::len word" where
  "ctx_load t f mem = le_word (cload t f mem)"

definition cstore :: "ctype \<Rightarrow> string \<Rightarrow> bytes \<Rightarrow> bytes \<Rightarrow> bytes" where
  "cstore t f v mem = patch (coffset t f) v mem"

definition cstores :: "ctype \<Rightarrow> (string \<times> bytes) list \<Rightarrow> bytes \<Rightarrow> bytes" where
  "cstores t fvs mem = fold (\<lambda>(f, v). cstore t f v) fvs mem"

text \<open>An object of type \<open>t\<close> with the given members set and every other byte zero.\<close>

definition zero_with :: "ctype \<Rightarrow> (string \<times> bytes) list \<Rightarrow> bytes" where
  "zero_with t fvs = cstores t fvs (replicate (csize t) 0)"

text \<open>The image of an event in the memory \<open>mem\<close> the ring buffer handed out: each member is
  stored at the offset the layout gives it.\<close>

definition syscall_event_image :: "syscall_event \<Rightarrow> bytes \<Rightarrow> bytes" where
  "syscall_event_image e = cstores struct_syscall_event
     [(''timestamp_ns'', le_bytes 8 (se_timestamp_ns e)),
      (''latency_ns'', le_bytes 8 (se_latency_ns e)),
      (''cgroup_id'', le_bytes 8 (se_cgroup_id e)),
      (''pid'', le_bytes 4 (se_pid e)),
      (''tid'', le_bytes 4 (se_tid e)),
      (''syscall_nr'', le_bytes 4 (se_syscall_nr e)),
      (''ret'', le_bytes 4 (se_ret e)),
      (''comm'', se_comm e)]"

definition tcp_event_image :: "tcp_event \<Rightarrow> bytes \<Rightarrow> bytes" where
  "tcp_event_image e = cstores struct_tcp_event
     [(''timestamp_ns'', le_bytes 8 (te_timestamp_ns e)),
      (''cgroup_id'', le_bytes 8 (te_cgroup_id e)),
      (''pid'', le_bytes 4 (te_pid e)),
      (''saddr'', le_bytes 4 (te_saddr e)),
      (''daddr'', le_bytes 4 (te_daddr e)),
      (''sport'', le_bytes 2 (te_sport e)),
      (''dport'', le_bytes 2 (te_dport e)),
      (''family'', le_bytes 2 (te_family e)),
      (''event_type'', le_bytes 1 (te_event_type e)),
      (''state'', le_bytes 1 (te_state e)),
      (''rtt_us'', le_bytes 4 (te_rtt_us e)),
      (''retransmits'', le_bytes 4 (te_retransmits e)),
      (''comm'', te_comm e),
      (''_pad'', te_pad e)]"

definition oom_event_image :: "oom_event \<Rightarrow> bytes \<Rightarrow> bytes" where
  "oom_event_image e = cstores struct_oom_event
     [(''timestamp_ns'', le_bytes 8 (oe_timestamp_ns e)),
      (''cgroup_id'', le_bytes 8 (oe_cgroup_id e)),
      (''total_pages'', le_bytes 8 (oe_total_pages e)),
      (''rss_pages'', le_bytes 8 (oe_rss_pages e)),
      (''pid'', le_bytes 4 (oe_pid e)),
      (''triggered_pid'', le_bytes 4 (oe_triggered_pid e)),
      (''oom_score'', le_bytes 4 (oe_oom_score e)),
      (''_pad'', le_bytes 4 (oe_pad e)),
      (''comm'', oe_comm e)]"

definition disk_event_image :: "disk_event \<Rightarrow> bytes \<Rightarrow> bytes" where
  "disk_event_image e = cstores struct_disk_event
     [(''timestamp_ns'', le_bytes 8 (de_timestamp_ns e)),
      (''latency_ns'', le_bytes 8 (de_latency_ns e)),
      (''sector'', le_bytes 8 (de_sector e)),
      (''dev'', le_bytes 4 (de_dev e)),
      (''nr_bytes'', le_bytes 4 (de_nr_bytes e)),
      (''pid'', le_bytes 4 (de_pid e)),
      (''op'', le_bytes 1 (de_op e)),
      (''_pad'', de_pad e),
      (''comm'', de_comm e)]"

definition sched_event_image :: "sched_event \<Rightarrow> bytes \<Rightarrow> bytes" where
  "sched_event_image e = cstores struct_sched_event
     [(''timestamp_ns'', le_bytes 8 (sc_timestamp_ns e)),
      (''runq_delay_ns'', le_bytes 8 (sc_runq_delay_ns e)),
      (''cgroup_id'', le_bytes 8 (sc_cgroup_id e)),
      (''pid'', le_bytes 4 (sc_pid e)),
      (''cpu'', le_bytes 4 (sc_cpu e)),
      (''comm'', sc_comm e)]"

definition fd_event_image :: "fd_event \<Rightarrow> bytes \<Rightarrow> bytes" where
  "fd_event_image e = cstores struct_fd_event
     [(''timestamp_ns'', le_bytes 8 (fe_timestamp_ns e)),
      (''cgroup_id'', le_bytes 8 (fe_cgroup_id e)),
      (''pid'', le_bytes 4 (fe_pid e)),
      (''fd'', le_bytes 4 (fe_fd e)),
      (''op'', le_bytes 1 (fe_op e)),
      (''_pad'', fe_pad e),
      (''comm'', fe_comm e)]"

section \<open>The computed layout of the events\<close>

lemmas kerno_consts = TASK_COMM_LEN_def MAX_ENTRIES_def RINGBUF_SIZE_def MAX_FILENAME_LEN_def
lemmas field_eval = coffset_def cmsize_def layout_simps layout_eval

lemmas load_eval = ctx_load_def cload_def zero_with_def cstores_def cstore_def field_eval
  bslice_patch_before bslice_patch_after le_word_le_bytes

lemma event_size [layout_simps]:
  "csize struct_syscall_event = 56" "csize struct_tcp_event = 64" "csize struct_oom_event = 64"
  "csize struct_disk_event = 56" "csize struct_sched_event = 48" "csize struct_fd_event = 48"
  "csize struct_file_event = 304"
  by (simp_all add: struct_syscall_event_def struct_tcp_event_def struct_oom_event_def
      struct_disk_event_def struct_sched_event_def struct_fd_event_def struct_file_event_def
      kerno_consts layout_simps layout_eval)

end
