(* ===== verification/BpfRuntime.thy ===== *)
theory BpfRuntime
  imports KernoH
begin

unbundle bit_operations_syntax

text \<open>
  What the eBPF programs ask of the kernel. The helpers are kernel code, so each is a parameter
  of the model: \<open>bpf_env\<close> holds what the helpers return during one run of a program, and
  \<open>hash_ops\<close> the operations of a hash map. The locale \<open>bpf_hash\<close> states the documented
  behaviour of a \<open>BPF_MAP_TYPE_HASH\<close> the programs rely on; \<open>khash\<close> is a concrete map with
  that behaviour. The second half is the abstract specification three of the programs share: a
  table of pending start times.
\<close>

section \<open>Helpers\<close>

text \<open>\<open>h_ktime n\<close> is what the \<open>n\<close>-th call of \<open>bpf_ktime_get_ns\<close> in the run returns,
  \<open>h_comm\<close> what \<open>bpf_get_current_comm\<close> leaves in its 16-byte buffer, \<open>h_probe n bs\<close> what
  the \<open>n\<close>-th \<open>bpf_probe_read_kernel\<close> leaves in its destination when the source holds
  \<open>bs\<close>, and \<open>h_core_read\<close>, \<open>h_core_read_str\<close> what the CO-RE reads of kernel memory leave in
  theirs (address and size; address and previous content). \<open>h_ntohs\<close> is libbpf's
  \<open>bpf_ntohs\<close>.\<close>

record bpf_env =
  h_ktime :: "nat \<Rightarrow> u64"
  h_pid_tgid :: u64
  h_cgroup_id :: u64
  h_smp_processor_id :: u32
  h_comm :: bytes
  h_probe :: "nat \<Rightarrow> bytes \<Rightarrow> bytes"
  h_core_read :: "u64 \<Rightarrow> nat \<Rightarrow> bytes"
  h_core_read_str :: "u64 \<Rightarrow> bytes \<Rightarrow> bytes"
  h_ntohs :: "u16 \<Rightarrow> u16"

text \<open>Exchange of the two bytes of a 16-bit word.\<close>

definition swap16 :: "u16 \<Rightarrow> u16" where
  "swap16 x = push_bit 8 x OR drop_bit 8 x"

lemma unat_swap16: "unat (swap16 x) = 256 * (unat x mod 256) + unat x div 256"
proof -
  have disj: "push_bit 8 x AND drop_bit 8 x = 0"
    by (rule bit_word_eqI) (auto simp: bit_simps dest: bit_imp_le_length)
  have "unat (push_bit 8 x) = 256 * unat x mod 65536"
    by (simp add: push_bit_eq_mult unat_word_ariths mult.commute)
  also have "\<dots> = 256 * (unat x mod 256)" using mult_mod_right [of 256 "unat x" 256] by simp
  finally have hi: "unat (push_bit 8 x) = 256 * (unat x mod 256)" .
  have lo: "unat (drop_bit 8 x) = unat x div 256"
    by (subst unat_drop_bit_eq) (simp add: drop_bit_eq_div)
  have "swap16 x = push_bit 8 x + drop_bit 8 x"
    unfolding swap16_def using disjunctive_add_eq_or [OF disj] by (rule sym)
  moreover have "unat x < 65536" using unsigned_less [of x] by simp
  ultimately show ?thesis
    using hi lo by (simp add: unat_word_ariths)
qed

lemma swap16_involution [simp]: "swap16 (swap16 x) = x"
proof -
  have "unat x < 65536" using unsigned_less [of x] by simp
  then have "unat x div 256 < 256" by simp
  then have "unat (swap16 (swap16 x)) = unat x" by (simp add: unat_swap16)
  then show ?thesis by (simp add: word_unat_eq_iff)
qed

text \<open>The documented contract: a probe read copies its source or, when it faults, clears its
  destination; the \<open>comm\<close> helper fills the whole buffer; reads keep the size of the
  destination; on the little-endian target \<open>bpf_ntohs\<close> swaps the two bytes.\<close>

definition helpers_ok :: "bpf_env \<Rightarrow> bool" where
  "helpers_ok env \<longleftrightarrow>
     length (h_comm env) = TASK_COMM_LEN \<and>
     (\<forall>n bs. h_probe env n bs = bs \<or> h_probe env n bs = replicate (length bs) 0) \<and>
     (\<forall>a n. length (h_core_read env a n) = n) \<and>
     (\<forall>a bs. length (h_core_read_str env a bs) = length bs) \<and>
     (\<forall>x. h_ntohs env x = swap16 x)"

lemma helpers_okD [helper_simps]:
  "helpers_ok env \<Longrightarrow> length (h_comm env) = TASK_COMM_LEN"
  "helpers_ok env \<Longrightarrow> length (h_core_read env a n) = n"
  "helpers_ok env \<Longrightarrow> length (h_core_read_str env a bs) = length bs"
  "helpers_ok env \<Longrightarrow> h_ntohs env x = swap16 x"
  by (simp_all add: helpers_ok_def)

lemma length_h_probe [helper_simps]: "helpers_ok env \<Longrightarrow> length (h_probe env n bs) = length bs"
  unfolding helpers_ok_def by (metis length_replicate)

text \<open>\<open>pid_tgid >> 32\<close>, truncated to 32 bits as the assignment to a \<open>__u32\<close> does.\<close>

definition hi32 :: "u64 \<Rightarrow> u32" where "hi32 w = ucast (drop_bit 32 w)"
definition lo32 :: "u64 \<Rightarrow> u32" where "lo32 w = ucast w"

text \<open>An environment for concrete runs: the calling thread and the time are given, probe reads
  succeed.\<close>

definition demo_env :: "u64 \<Rightarrow> u64 \<Rightarrow> bpf_env" where
  "demo_env who now =
     \<lparr>h_ktime = (\<lambda>n. now + of_nat n), h_pid_tgid = who, h_cgroup_id = 7,
      h_smp_processor_id = 3, h_comm = replicate TASK_COMM_LEN 97, h_probe = (\<lambda>_ bs. bs),
      h_core_read = (\<lambda>_ n. replicate n 1), h_core_read_str = (\<lambda>_ bs. map (\<lambda>_. 0) bs),
      h_ntohs = swap16\<rparr>"

lemma demo_env_simps [helper_simps]:
  "h_ktime (demo_env who now) n = now + of_nat n"
  "h_pid_tgid (demo_env who now) = who"
  "h_probe (demo_env who now) n bs = bs"
  "h_core_read (demo_env who now) a k = replicate k 1"
  by (simp_all add: demo_env_def)

lemma helpers_ok_demo_env [helper_simps]: "helpers_ok (demo_env who now)"
  by (simp add: helpers_ok_def demo_env_def)

section \<open>Hash maps\<close>

record ('k, 'v, 'm) hash_ops =
  map_lookup_elem :: "'m \<Rightarrow> 'k \<Rightarrow> 'v option"
  map_update_elem :: "'m \<Rightarrow> 'k \<Rightarrow> 'v \<Rightarrow> 'm"
  map_delete_elem :: "'m \<Rightarrow> 'k \<Rightarrow> 'm"

text \<open>With \<open>BPF_ANY\<close> an update replaces the value of a key that is there, adds a key while the
  map holds fewer than \<open>max_entries\<close>, and fails, leaving the map as it is, when a new key
  meets a full map.\<close>

definition bounded_upd :: "nat \<Rightarrow> ('k \<rightharpoonup> 'v) \<Rightarrow> 'k \<Rightarrow> 'v \<Rightarrow> ('k \<rightharpoonup> 'v)" where
  "bounded_upd cap m k v = (if k \<in> dom m \<or> card (dom m) < cap then m(k \<mapsto> v) else m)"

locale bpf_hash =
  fixes ops :: "('k, 'v, 'm) hash_ops"
    and max_entries :: nat
    and inv :: "'m \<Rightarrow> bool"
  assumes finite_lookup: "inv m \<Longrightarrow> finite (dom (map_lookup_elem ops m))"
    and card_lookup: "inv m \<Longrightarrow> card (dom (map_lookup_elem ops m)) \<le> max_entries"
    and inv_update: "inv m \<Longrightarrow> inv (map_update_elem ops m k v)"
    and inv_delete: "inv m \<Longrightarrow> inv (map_delete_elem ops m k)"
    and lookup_update: "inv m \<Longrightarrow>
      map_lookup_elem ops (map_update_elem ops m k v) =
      bounded_upd max_entries (map_lookup_elem ops m) k v"
    and lookup_delete: "inv m \<Longrightarrow>
      map_lookup_elem ops (map_delete_elem ops m k) = (map_lookup_elem ops m)(k := None)"
begin

lemma lookup_update_known:
  "inv m \<Longrightarrow> map_lookup_elem ops m k = Some w \<Longrightarrow>
   map_lookup_elem ops (map_update_elem ops m k v) k = Some v"
  by (simp add: lookup_update bounded_upd_def domI)

lemma lookup_update_other:
  "inv m \<Longrightarrow> k' \<noteq> k \<Longrightarrow>
   map_lookup_elem ops (map_update_elem ops m k v) k' = map_lookup_elem ops m k'"
  by (simp add: lookup_update bounded_upd_def)

lemma update_delete_absent:
  assumes "inv m"
  shows "map_lookup_elem ops (map_delete_elem ops (map_update_elem ops m k v) k) k = None"
  using assms by (simp add: lookup_delete inv_update)

end

text \<open>A concrete hash map: the content and its capacity, as \<open>KERNO_HASH\<close> declares it.\<close>

definition khash_lookup :: "('k \<times> 'v) list \<Rightarrow> 'k \<Rightarrow> 'v option" where
  "khash_lookup m k = map_of m k"

definition khash_update :: "nat \<Rightarrow> ('k \<times> 'v) list \<Rightarrow> 'k \<Rightarrow> 'v \<Rightarrow> ('k \<times> 'v) list" where
  "khash_update cap m k v =
     (if k \<in> fst ` set m \<or> length m < cap
      then (k, v) # filter (\<lambda>e. fst e \<noteq> k) m else m)"

definition khash_delete :: "('k \<times> 'v) list \<Rightarrow> 'k \<Rightarrow> ('k \<times> 'v) list" where
  "khash_delete m k = filter (\<lambda>e. fst e \<noteq> k) m"

definition khash :: "nat \<Rightarrow> ('k, 'v, ('k \<times> 'v) list) hash_ops" where
  "khash cap = \<lparr>map_lookup_elem = khash_lookup, map_update_elem = khash_update cap,
                map_delete_elem = khash_delete\<rparr>"

definition khash_inv :: "nat \<Rightarrow> ('k \<times> 'v) list \<Rightarrow> bool" where
  "khash_inv cap m \<longleftrightarrow> distinct (map fst m) \<and> length m \<le> cap"

lemma map_of_filter_key: "map_of (filter (\<lambda>e. fst e \<noteq> k) m) = (map_of m)(k := None)"
  by (induction m) (auto simp: fun_eq_iff)

lemma distinct_map_fst_filter: "distinct (map fst m) \<Longrightarrow> distinct (map fst (filter P m))"
  by (induction m) (auto simp: image_iff)

lemma length_filter_key:
  "distinct (map fst m) \<Longrightarrow> k \<in> fst ` set m \<Longrightarrow>
   Suc (length (filter (\<lambda>e. fst e \<noteq> k) m)) = length m"
proof (induction m)
  case Nil
  then show ?case by simp
next
  case (Cons e m)
  show ?case
  proof (cases "fst e = k")
    case True
    with Cons.prems have "\<forall>x \<in> set m. fst x \<noteq> k" by (auto simp: image_iff)
    then have "filter (\<lambda>e. fst e \<noteq> k) m = m" by (simp add: filter_id_conv)
    with True show ?thesis by simp
  next
    case False
    with Cons show ?thesis by auto
  qed
qed

lemma khash_inv_update: "khash_inv cap m \<Longrightarrow> khash_inv cap (khash_update cap m k v)"
proof -
  assume inv: "khash_inv cap m"
  have "length (filter (\<lambda>e. fst e \<noteq> k) m) < cap" if "k \<in> fst ` set m"
    using length_filter_key [OF _ that] inv unfolding khash_inv_def by simp
  moreover have "length (filter (\<lambda>e. fst e \<noteq> k) m) < cap" if "length m < cap"
    using that by (meson length_filter_le le_less_trans)
  moreover have "k \<notin> fst ` set (filter (\<lambda>e. fst e \<noteq> k) m)" by auto
  ultimately show ?thesis
    using inv unfolding khash_inv_def khash_update_def
    by (cases "k \<in> fst ` set m"; cases "length m < cap")
      (simp_all add: distinct_map_fst_filter Suc_leI)
qed

lemma khash_lookup_update:
  assumes "khash_inv cap m"
  shows "khash_lookup (khash_update cap m k v) = bounded_upd cap (khash_lookup m) k v"
proof -
  have d: "card (dom (map_of m)) = length m"
    using assms distinct_card [of "map fst m"]
    by (simp add: khash_inv_def dom_map_of_conv_image_fst)
  have "map_of ((k, v) # filter (\<lambda>e. fst e \<noteq> k) m) = (map_of m)(k \<mapsto> v)"
    by (simp add: map_of_filter_key)
  then show ?thesis
    using d by (simp add: khash_lookup_def [abs_def] khash_update_def bounded_upd_def
        dom_map_of_conv_image_fst fun_eq_iff)
qed

lemmas khash_simps = khash_def khash_lookup_def khash_update_def khash_delete_def

interpretation kh: bpf_hash "khash cap" cap "khash_inv cap" for cap
proof unfold_locales
  fix m :: "('a \<times> 'b) list" and k v
  assume inv: "khash_inv cap m"
  have look: "map_lookup_elem (khash cap) m = map_of m"
    by (simp add: khash_def khash_lookup_def fun_eq_iff)
  show "finite (dom (map_lookup_elem (khash cap) m))"
    by (simp add: look finite_dom_map_of)
  show "card (dom (map_lookup_elem (khash cap) m)) \<le> cap"
    using inv card_image_le [of "set m" fst] card_length [of m]
    by (simp add: look khash_inv_def dom_map_of_conv_image_fst)
  show "khash_inv cap (map_update_elem (khash cap) m k v)"
    using khash_inv_update [OF inv] by (simp add: khash_def)
  show "khash_inv cap (map_delete_elem (khash cap) m k)"
    using inv le_trans [OF length_filter_le [of "\<lambda>e. fst e \<noteq> k" m], of cap]
    by (simp add: khash_def khash_inv_def khash_delete_def distinct_map_fst_filter)
  show "map_lookup_elem (khash cap) (map_update_elem (khash cap) m k v) =
        bounded_upd cap (map_lookup_elem (khash cap) m) k v"
    using khash_lookup_update [OF inv] by (simp add: khash_def)
  show "map_lookup_elem (khash cap) (map_delete_elem (khash cap) m k) =
        (map_lookup_elem (khash cap) m)(k := None)"
    by (simp add: khash_def khash_lookup_def [abs_def] khash_delete_def map_of_filter_key)
qed

lemma khash_empty: "khash_inv cap []" "map_lookup_elem (khash cap) [] = Map.empty"
  by (simp_all add: khash_inv_def khash_def khash_lookup_def [abs_def])

end
