(* ===== verification/Tracker.thy ===== *)
theory Tracker
  imports BpfRuntime
begin

text \<open>
  The contract \<open>syscall_latency.c\<close>, \<open>disk_io.c\<close> and \<open>sched_delay.c\<close> share: a hash map
  holds the start time of every operation in flight; one hook stores a start, the other takes it
  out and reports the difference. \<open>tracker_prog\<close> is that contract over any program state; its
  lemmas say which earlier start a measurement comes from and that no start is lost while the
  map has room. Each program is an instance.
\<close>

datatype 'k tev = TStart 'k u64 | TFinish 'k

primrec tev_key :: "'k tev \<Rightarrow> 'k" where
  "tev_key (TStart k t) = k"
| "tev_key (TFinish k) = k"

primrec pend_step :: "nat \<Rightarrow> ('k \<rightharpoonup> u64) \<Rightarrow> 'k tev \<Rightarrow> ('k \<rightharpoonup> u64)" where
  "pend_step cap m (TStart k t) = bounded_upd cap m k t"
| "pend_step cap m (TFinish k) = m(k := None)"

lemma pend_step_other: "tev_key e \<noteq> k \<Longrightarrow> pend_step cap m e k = m k"
  by (cases e) (auto simp: bounded_upd_def)

lemma pend_step_Some:
  "pend_step cap m e k = Some t \<Longrightarrow> e = TStart k t \<or> (m k = Some t \<and> tev_key e \<noteq> k)"
  by (cases e) (auto simp: bounded_upd_def split: if_splits)

section \<open>The abstract table over a run\<close>

text \<open>The table after a list of events that may contain steps without effect (\<open>None\<close>).\<close>

definition pend_opt :: "nat \<Rightarrow> ('k \<rightharpoonup> u64) \<Rightarrow> 'k tev option \<Rightarrow> ('k \<rightharpoonup> u64)" where
  "pend_opt cap m e = (case e of None \<Rightarrow> m | Some ev \<Rightarrow> pend_step cap m ev)"

definition pending :: "nat \<Rightarrow> 'k tev option list \<Rightarrow> ('k \<rightharpoonup> u64)" where
  "pending cap es = foldl (pend_opt cap) Map.empty es"

definition touches :: "'k \<Rightarrow> 'k tev option \<Rightarrow> bool" where
  "touches k e = (case e of None \<Rightarrow> False | Some ev \<Rightarrow> tev_key ev = k)"

lemma pending_simps [simp]:
  "pending cap [] = Map.empty"
  "pending cap (es @ [e]) = pend_opt cap (pending cap es) e"
  by (simp_all add: pending_def)

lemma pend_opt_untouched: "\<not> touches k e \<Longrightarrow> pend_opt cap m e k = m k"
  by (auto simp: touches_def pend_opt_def pend_step_other split: option.splits)

lemma pending_untouched:
  "\<forall>e \<in> set ys. \<not> touches k e \<Longrightarrow> pending cap (xs @ ys) k = pending cap xs k"
proof (induction ys rule: rev_induct)
  case Nil
  then show ?case by simp
next
  case (snoc e ys)
  then show ?case
    by (simp add: pend_opt_untouched append_assoc [symmetric] del: append_assoc)
qed

text \<open>A pending start time was stored by a start of the same key that no later event of that
  key follows.\<close>

lemma pending_origin:
  "pending cap es k = Some t \<Longrightarrow>
   \<exists>xs ys. es = xs @ Some (TStart k t) # ys \<and> (\<forall>e \<in> set ys. \<not> touches k e)"
proof (induction es rule: rev_induct)
  case Nil
  then show ?case by simp
next
  case (snoc e es)
  show ?case
  proof (cases "touches k e")
    case True
    then obtain ev where e: "e = Some ev" "tev_key ev = k"
      by (auto simp: touches_def split: option.splits)
    with snoc.prems have "ev = TStart k t"
      by (auto simp: pend_opt_def dest: pend_step_Some)
    with e show ?thesis by (intro exI [of _ es] exI [of _ "[]"]) simp
  next
    case False
    with snoc.prems have "pending cap es k = Some t" by (simp add: pend_opt_untouched)
    from snoc.IH [OF this] obtain xs ys
      where "es = xs @ Some (TStart k t) # ys" "\<forall>e \<in> set ys. \<not> touches k e" by blast
    with False show ?thesis by (intro exI [of _ xs] exI [of _ "ys @ [e]"]) simp
  qed
qed

lemma pending_start:
  assumes "k \<in> dom (pending cap xs) \<or> card (dom (pending cap xs)) < cap"
    and "\<forall>e \<in> set ys. \<not> touches k e"
  shows "pending cap (xs @ Some (TStart k t) # ys) k = Some t"
proof -
  have "pending cap (xs @ [Some (TStart k t)]) k = Some t"
    using assms(1) by (auto simp: pend_opt_def bounded_upd_def)
  then show ?thesis using pending_untouched [OF assms(2), of cap "xs @ [Some (TStart k t)]"] by simp
qed

lemma pending_finish: "pending cap (es @ [Some (TFinish k)]) k = None"
  by (simp add: pend_opt_def)

lemma dom_bounded_upd:
  "finite (dom m) \<Longrightarrow> card (dom m) \<le> cap \<Longrightarrow>
   finite (dom (bounded_upd cap m k v)) \<and> card (dom (bounded_upd cap m k v)) \<le> cap"
  by (auto simp: bounded_upd_def card_insert_if insert_absorb)

lemma pending_bounded: "finite (dom (pending cap es)) \<and> card (dom (pending cap es)) \<le> cap"
proof (induction es rule: rev_induct)
  case Nil
  then show ?case by simp
next
  case (snoc e es)
  show ?case
  proof (cases e)
    case None
    with snoc show ?thesis by (simp add: pend_opt_def)
  next
    case (Some ev)
    show ?thesis
    proof (cases ev)
      case (TStart k t)
      with Some snoc show ?thesis by (simp add: pend_opt_def dom_bounded_upd)
    next
      case (TFinish k)
      have "card (dom (pending cap es) - {k}) \<le> card (dom (pending cap es))"
        using snoc by (simp add: card_Diff1_le)
      moreover have "dom (pending cap (es @ [e])) = dom (pending cap es) - {k}"
        using Some TFinish by (auto simp: pend_opt_def split: if_splits)
      ultimately show ?thesis using snoc by simp
    qed
  qed
qed

section \<open>Runs\<close>

text \<open>What a run appends to an output is what its steps append.\<close>

lemma foldl_output_origin:
  assumes "\<And>s i. out (step s i) = out s @ emits s i"
    and "e \<in> set (out (foldl step s is))"
  shows "e \<in> set (out s) \<or>
    (\<exists>xs i ys. is = xs @ i # ys \<and> e \<in> set (emits (foldl step s xs) i))"
  using assms(2)
proof (induction "is" rule: rev_induct)
  case Nil
  then show ?case by simp
next
  case (snoc i "is")
  then consider "e \<in> set (out (foldl step s is))" | "e \<in> set (emits (foldl step s is) i)"
    by (auto simp: assms(1))
  then show ?case
  proof cases
    case 1
    from snoc.IH [OF this] show ?thesis
    proof
      assume "\<exists>xs i ys. is = xs @ i # ys \<and> e \<in> set (emits (foldl step s xs) i)"
      then obtain xs j ys where "is = xs @ j # ys" "e \<in> set (emits (foldl step s xs) j)" by blast
      then have "is @ [i] = xs @ j # (ys @ [i])" by simp
      with \<open>e \<in> set (emits (foldl step s xs) j)\<close> show ?thesis by blast
    qed simp
  next
    case 2
    then show ?thesis by blast
  qed
qed

lemma foldl_output_mono:
  assumes "\<And>s i. out (step s i) = out s @ emits s i"
    and "e \<in> set (out s)"
  shows "e \<in> set (out (foldl step s is))"
  using assms(2) by (induction "is" arbitrary: s) (simp_all add: assms(1))

section \<open>The contract\<close>

locale tracker_prog = bpf_hash ops max_entries inv
  for ops :: "('k, u64, 'm) hash_ops" and max_entries :: nat and inv :: "'m \<Rightarrow> bool" +
  fixes step :: "'s \<Rightarrow> 'i \<Rightarrow> 's"
    and tbl :: "'s \<Rightarrow> 'm"
    and ev :: "'i \<Rightarrow> 'k tev option"
  assumes tbl_none: "ev i = None \<Longrightarrow> tbl (step s i) = tbl s"
    and tbl_start: "ev i = Some (TStart k t) \<Longrightarrow> tbl (step s i) = map_update_elem ops (tbl s) k t"
    and tbl_finish: "ev i = Some (TFinish k) \<Longrightarrow> map_lookup_elem ops (tbl s) k \<noteq> None \<Longrightarrow>
      tbl (step s i) = map_delete_elem ops (tbl s) k"
    and tbl_miss: "ev i = Some (TFinish k) \<Longrightarrow> map_lookup_elem ops (tbl s) k = None \<Longrightarrow>
      tbl (step s i) = tbl s"
begin

lemma step_table:
  assumes "inv (tbl s)"
  shows "inv (tbl (step s i)) \<and>
    map_lookup_elem ops (tbl (step s i)) =
    pend_opt max_entries (map_lookup_elem ops (tbl s)) (ev i)"
proof (cases "ev i")
  case None
  with assms show ?thesis by (simp add: tbl_none pend_opt_def)
next
  case (Some e)
  show ?thesis
  proof (cases e)
    case (TStart k t)
    with Some assms show ?thesis
      by (simp add: tbl_start pend_opt_def inv_update lookup_update)
  next
    case (TFinish k)
    with Some assms show ?thesis
      by (cases "map_lookup_elem ops (tbl s) k")
        (simp_all add: tbl_finish tbl_miss pend_opt_def inv_delete lookup_delete fun_upd_idem)
  qed
qed

text \<open>After any run from an empty table, the map holds exactly the pending starts.\<close>

lemma run_table:
  assumes "inv (tbl s)" "map_lookup_elem ops (tbl s) = Map.empty"
  shows "inv (tbl (foldl step s is)) \<and>
    map_lookup_elem ops (tbl (foldl step s is)) = pending max_entries (map ev is)"
proof (induction "is" rule: rev_induct)
  case Nil
  with assms show ?case by simp
next
  case (snoc i "is")
  then show ?case using step_table [of "foldl step s is" i] by simp
qed

text \<open>A start time found by a step was stored by an earlier step, with no step on the same key
  in between.\<close>

lemma found_origin:
  assumes "inv (tbl s)" "map_lookup_elem ops (tbl s) = Map.empty"
    and "map_lookup_elem ops (tbl (foldl step s is)) k = Some t"
  shows "\<exists>xs i ys. is = xs @ i # ys \<and> ev i = Some (TStart k t) \<and>
    (\<forall>j \<in> set ys. \<not> touches k (ev j))"
proof -
  have "pending max_entries (map ev is) k = Some t"
    using run_table [OF assms(1,2)] assms(3) by simp
  from pending_origin [OF this] obtain us vs
    where m: "map ev is = us @ Some (TStart k t) # vs" and u: "\<forall>e \<in> set vs. \<not> touches k e" by blast
  from m obtain xs i ys where "is = xs @ i # ys" "ev i = Some (TStart k t)" "map ev ys = vs"
    by (auto simp: map_eq_append_conv map_eq_Cons_conv)
  with u show ?thesis by fastforce
qed

text \<open>A start is still there at any later step, as long as no step on its key came in between
  and the table had room for it.\<close>

lemma start_found:
  assumes "inv (tbl s)" "map_lookup_elem ops (tbl s) = Map.empty"
    and "ev i = Some (TStart k t)"
    and "k \<in> dom (pending max_entries (map ev xs)) \<or>
         card (dom (pending max_entries (map ev xs))) < max_entries"
    and "\<forall>j \<in> set ys. \<not> touches k (ev j)"
  shows "map_lookup_elem ops (tbl (foldl step s (xs @ i # ys))) k = Some t"
  using run_table [OF assms(1,2), of "xs @ i # ys"] assms(3,5)
    pending_start [OF assms(4), of "map ev ys" t] by simp

end

section \<open>The contract with its output\<close>

text \<open>\<open>report i t\<close> is what the finishing step \<open>i\<close> submits when it finds the start time \<open>t\<close>:
  one record, or none when the record is filtered out or the ring buffer is full.\<close>

primrec tev_of :: "('k \<Rightarrow> u64 option) \<Rightarrow> 'k tev \<Rightarrow> u64 option" where
  "tev_of m (TStart k t) = None"
| "tev_of m (TFinish k) = m k"

definition measured :: "('k \<Rightarrow> u64 option) \<Rightarrow> 'k tev option \<Rightarrow> u64 option" where
  "measured m e = Option.bind e (tev_of m)"

definition is_start :: "'k tev option \<Rightarrow> bool" where
  "is_start e \<longleftrightarrow> (case e of Some (TStart _ _) \<Rightarrow> True | _ \<Rightarrow> False)"

lemma measured_Some:
  "measured m e = Some t \<longleftrightarrow> (\<exists>k. e = Some (TFinish k) \<and> m k = Some t)"
  unfolding measured_def by (cases e) (auto, case_tac a, auto)

locale tracker_out = tracker_prog ops max_entries inv step tbl ev
  for ops :: "('k, u64, 'm) hash_ops" and max_entries :: nat and inv :: "'m \<Rightarrow> bool"
    and step :: "'s \<Rightarrow> 'i \<Rightarrow> 's" and tbl :: "'s \<Rightarrow> 'm" and ev :: "'i \<Rightarrow> 'k tev option" +
  fixes out :: "'s \<Rightarrow> 'e list"
    and report :: "'i \<Rightarrow> u64 \<Rightarrow> 'e list"
  assumes out_step: "out (step s i) = out s @
      (case measured (map_lookup_elem ops (tbl s)) (ev i) of None \<Rightarrow> [] | Some t \<Rightarrow> report i t)"
    and report_once: "length (report i t) \<le> 1"
begin

text \<open>Every record reports a start and a finish of the same key, nothing on that key between.\<close>

lemma report_origin:
  assumes "inv (tbl s)" "map_lookup_elem ops (tbl s) = Map.empty" "out s = []"
    and "e \<in> set (out (foldl step s is))"
  shows "\<exists>xs a ys b zs k t. is = xs @ a # ys @ b # zs \<and> ev a = Some (TStart k t) \<and>
    ev b = Some (TFinish k) \<and> (\<forall>j \<in> set ys. \<not> touches k (ev j)) \<and> e \<in> set (report b t)"
proof -
  obtain us b zs where run: "is = us @ b # zs"
    and em: "e \<in> set (case measured (map_lookup_elem ops (tbl (foldl step s us))) (ev b) of
                       None \<Rightarrow> [] | Some t \<Rightarrow> report b t)"
    using foldl_output_origin [of out step, OF out_step assms(4)] assms(3) by auto
  from em obtain t where t: "e \<in> set (report b t)"
    and "measured (map_lookup_elem ops (tbl (foldl step s us))) (ev b) = Some t"
    by (auto split: option.splits)
  then obtain k where k: "ev b = Some (TFinish k)"
    and found: "map_lookup_elem ops (tbl (foldl step s us)) k = Some t"
    by (auto simp: measured_Some)
  from found_origin [OF assms(1,2) found] run k t show ?thesis by fastforce
qed

text \<open>A start that finds room is reported by the next step that finishes its key.\<close>

lemma report_complete:
  assumes "inv (tbl s)" "map_lookup_elem ops (tbl s) = Map.empty"
    and "is = xs @ a # ys @ b # zs" "ev a = Some (TStart k t)" "ev b = Some (TFinish k)"
    and "\<forall>j \<in> set ys. \<not> touches k (ev j)"
    and "card (dom (pending max_entries (map ev xs))) < max_entries"
  shows "set (report b t) \<subseteq> set (out (foldl step s is))"
proof
  fix e assume e: "e \<in> set (report b t)"
  let ?s = "foldl step s (xs @ a # ys)"
  have "map_lookup_elem ops (tbl ?s) k = Some t"
    using start_found [OF assms(1,2,4) _ assms(6)] assms(7) by blast
  then have "measured (map_lookup_elem ops (tbl ?s)) (ev b) = Some t"
    using assms(5) by (simp add: measured_Some)
  then have "e \<in> set (out (step ?s b))" using e by (simp add: out_step)
  from foldl_output_mono [of out step, OF out_step this, of zs]
  show "e \<in> set (out (foldl step s is))" by (simp add: assms(3))
qed

text \<open>No start is reported twice: the records and the starts still pending never outnumber the
  starts of the run.\<close>

lemma reports_bounded:
  assumes "inv (tbl s)" "map_lookup_elem ops (tbl s) = Map.empty" "out s = []"
  shows "length (out (foldl step s is)) + card (dom (map_lookup_elem ops (tbl (foldl step s is))))
    \<le> length (filter (is_start \<circ> ev) is)"
proof (induction "is" rule: rev_induct)
  case Nil
  then show ?case by (simp add: assms)
next
  case (snoc i "is")
  let ?s = "foldl step s is"
  let ?m = "map_lookup_elem ops (tbl ?s)"
  have inv: "inv (tbl ?s)" using run_table [OF assms(1,2)] by simp
  have tbl: "map_lookup_elem ops (tbl (step ?s i)) = pend_opt max_entries ?m (ev i)"
    using step_table [OF inv] by simp
  have fin: "finite (dom ?m)" by (rule finite_lookup [OF inv])
  show ?case
  proof (cases "ev i")
    case None
    with snoc show ?thesis by (simp add: tbl_none out_step measured_def is_start_def)
  next
    case (Some e)
    show ?thesis
    proof (cases e)
      case (TStart k t)
      have "card (dom (bounded_upd max_entries ?m k t)) \<le> Suc (card (dom ?m))"
        using fin by (auto simp: bounded_upd_def card_insert_if)
      with Some TStart snoc show ?thesis
        by (simp add: out_step measured_def tbl pend_opt_def is_start_def)
    next
      case (TFinish k)
      have dom: "dom (pend_opt max_entries ?m (Some (TFinish k))) = dom ?m - {k}"
        by (auto simp: pend_opt_def split: if_splits)
      show ?thesis
      proof (cases "?m k")
        case None
        then have "measured ?m (ev i) = None" "dom ?m - {k} = dom ?m"
          using Some TFinish by (auto simp: measured_def)
        with Some TFinish snoc show ?thesis by (simp add: out_step tbl dom is_start_def)
      next
        case found: (Some t)
        then have "k \<in> dom ?m" by blast
        with fin have "Suc (card (dom ?m - {k})) = card (dom ?m)" by (rule card_Suc_Diff1)
        moreover have "measured ?m (ev i) = Some t" using Some TFinish found by (simp add: measured_def)
        ultimately show ?thesis
          using Some TFinish snoc report_once [of i t] by (simp add: out_step tbl dom is_start_def)
      qed
    qed
  qed
qed

end

end
