(* ===== verification/SyscallLatency.thy ===== *)
theory SyscallLatency
  imports Tracker
begin

text \<open>
  \<open>internal/bpf/c/syscall_latency.c\<close>: the two handlers of the syscall latency tracer, its map
  \<open>syscall_start\<close> and its ring buffer. The state is the map and the records submitted so far;
  \<open>slot\<close> is what \<open>bpf_ringbuf_reserve\<close> returned: \<open>None\<close> for NULL, otherwise the reserved
  record with the content it happens to hold.
\<close>

definition syscall_start_decl :: map_decl where
  "syscall_start_decl = KERNO_HASH td___u64 td___u64 MAX_ENTRIES"

record 'm syscall_prog =
  syscall_start :: 'm
  syscall_events :: "syscall_event list"

definition tracepoint_sys_enter ::
  "(u64, u64, 'm) hash_ops \<Rightarrow> bpf_env \<Rightarrow> bytes \<Rightarrow> 'm syscall_prog \<Rightarrow> 'm syscall_prog \<times> int" where
  "tracepoint_sys_enter ops env ctx s =
     (let pid_tgid = h_pid_tgid env;
          ts = h_ktime env 0
      in (s\<lparr>syscall_start := map_update_elem ops (syscall_start s) pid_tgid ts\<rparr>, 0))"

definition tracepoint_sys_exit ::
  "(u64, u64, 'm) hash_ops \<Rightarrow> bpf_env \<Rightarrow> syscall_event option \<Rightarrow> bytes \<Rightarrow>
   'm syscall_prog \<Rightarrow> 'm syscall_prog \<times> int" where
  "tracepoint_sys_exit ops env slot ctx s =
     (let pid_tgid = h_pid_tgid env in
      case map_lookup_elem ops (syscall_start s) pid_tgid of
        None \<Rightarrow> (s, 0)
      | Some start_ts \<Rightarrow>
          (let latency = h_ktime env 0 - start_ts;
               s = s\<lparr>syscall_start := map_delete_elem ops (syscall_start s) pid_tgid\<rparr>
           in if latency < 1000 then (s, 0)
              else case slot of
                     None \<Rightarrow> (s, 0)
                   | Some e \<Rightarrow>
                       (let e = e\<lparr>se_timestamp_ns := h_ktime env 1,
                                  se_latency_ns := latency,
                                  se_cgroup_id := h_cgroup_id env,
                                  se_pid := hi32 pid_tgid,
                                  se_tid := lo32 pid_tgid,
                                  se_syscall_nr := ctx_load st_trace_event_raw_sys_exit ''id'' ctx,
                                  se_ret := ctx_load st_trace_event_raw_sys_exit ''ret'' ctx,
                                  se_comm := h_comm env\<rparr>
                        in (s\<lparr>syscall_events := syscall_events s @ [e]\<rparr>, 0))))"

text \<open>A run is a sequence of handler invocations, each atomic, in the order the kernel runs
  them.\<close>

datatype sys_input =
    SysEnter bpf_env bytes
  | SysExit bpf_env "syscall_event option" bytes

primrec sys_env :: "sys_input \<Rightarrow> bpf_env" where
  "sys_env (SysEnter env _) = env"
| "sys_env (SysExit env _ _) = env"

primrec sys_step ::
  "(u64, u64, 'm) hash_ops \<Rightarrow> 'm syscall_prog \<Rightarrow> sys_input \<Rightarrow> 'm syscall_prog" where
  "sys_step ops s (SysEnter env ctx) = fst (tracepoint_sys_enter ops env ctx s)"
| "sys_step ops s (SysExit env slot ctx) = fst (tracepoint_sys_exit ops env slot ctx s)"

definition sys_run ::
  "(u64, u64, 'm) hash_ops \<Rightarrow> 'm syscall_prog \<Rightarrow> sys_input list \<Rightarrow> 'm syscall_prog" where
  "sys_run ops s is = foldl (sys_step ops) s is"

definition sys_init :: "'m \<Rightarrow> 'm syscall_prog" where
  "sys_init m = \<lparr>syscall_start = m, syscall_events = []\<rparr>"

section \<open>The handlers as a tracker\<close>

primrec sys_ev :: "sys_input \<Rightarrow> u64 tev option" where
  "sys_ev (SysEnter env _) = Some (TStart (h_pid_tgid env) (h_ktime env 0))"
| "sys_ev (SysExit env _ _) = Some (TFinish (h_pid_tgid env))"

lemmas sys_handler_defs = tracepoint_sys_enter_def tracepoint_sys_exit_def

lemma touches_sys_ev [simp]: "touches k (sys_ev i) \<longleftrightarrow> h_pid_tgid (sys_env i) = k"
  by (cases i) (simp_all add: touches_def)

text \<open>The record an exit submits for the start time \<open>t\<close>.\<close>

definition sys_record :: "bpf_env \<Rightarrow> bytes \<Rightarrow> u64 \<Rightarrow> syscall_event" where
  "sys_record env ctx t =
     \<lparr>se_timestamp_ns = h_ktime env 1, se_latency_ns = h_ktime env 0 - t,
      se_cgroup_id = h_cgroup_id env, se_pid = hi32 (h_pid_tgid env),
      se_tid = lo32 (h_pid_tgid env),
      se_syscall_nr = ctx_load st_trace_event_raw_sys_exit ''id'' ctx,
      se_ret = ctx_load st_trace_event_raw_sys_exit ''ret'' ctx, se_comm = h_comm env\<rparr>"

primrec sys_report :: "sys_input \<Rightarrow> u64 \<Rightarrow> syscall_event list" where
  "sys_report (SysEnter env ctx) t = []"
| "sys_report (SysExit env slot ctx) t =
     (if h_ktime env 0 - t < 1000 then [] else
      case slot of None \<Rightarrow> [] | Some e \<Rightarrow> [sys_record env ctx t])"

lemma sys_report_iff:
  "e \<in> set (sys_report i t) \<longleftrightarrow> (\<exists>env e0 ctx. i = SysExit env (Some e0) ctx \<and>
     1000 \<le> h_ktime env 0 - t \<and> e = sys_record env ctx t)"
  by (cases i) (auto simp: not_less split: option.splits)

lemma sys_tracker:
  "bpf_hash ops cap ok \<Longrightarrow>
   tracker_out ops cap ok (sys_step ops) syscall_start sys_ev syscall_events sys_report"
proof (intro tracker_out.intro tracker_prog.intro tracker_prog_axioms.intro tracker_out_axioms.intro)
  fix i s
  show "sys_ev i = None \<Longrightarrow> syscall_start (sys_step ops s i) = syscall_start s"
    by (cases i) simp_all
  show "sys_ev i = Some (TStart k t) \<Longrightarrow>
      syscall_start (sys_step ops s i) = map_update_elem ops (syscall_start s) k t" for k t
    by (cases i) (auto simp: sys_handler_defs)
  show "sys_ev i = Some (TFinish k) \<Longrightarrow> map_lookup_elem ops (syscall_start s) k \<noteq> None \<Longrightarrow>
      syscall_start (sys_step ops s i) = map_delete_elem ops (syscall_start s) k" for k
    by (cases i) (auto simp: sys_handler_defs Let_def split: option.splits)
  show "sys_ev i = Some (TFinish k) \<Longrightarrow> map_lookup_elem ops (syscall_start s) k = None \<Longrightarrow>
      syscall_start (sys_step ops s i) = syscall_start s" for k
    by (cases i) (auto simp: sys_handler_defs Let_def split: option.splits)
  show "syscall_events (sys_step ops s i) = syscall_events s @
      (case measured (map_lookup_elem ops (syscall_start s)) (sys_ev i) of
         None \<Rightarrow> [] | Some t \<Rightarrow> sys_report i t)"
    by (cases i) (auto simp: sys_handler_defs Let_def measured_def sys_record_def split: option.splits)
  show "length (sys_report i t) \<le> 1" for t
    by (cases i) (auto split: option.splits)
qed

interpretation sys_kh: tracker_out "khash cap" cap "khash_inv cap" "sys_step (khash cap)"
  syscall_start sys_ev syscall_events sys_report for cap
  by (rule sys_tracker) unfold_locales

text \<open>Where a submitted record comes from.\<close>

lemma sys_event_origin:
  assumes "bpf_hash ops cap ok" "ok m" "map_lookup_elem ops m = Map.empty"
    and "e \<in> set (syscall_events (sys_run ops (sys_init m) is))"
  shows "\<exists>xs env0 c0 ys env1 e0 c1 zs.
    is = xs @ SysEnter env0 c0 # ys @ SysExit env1 (Some e0) c1 # zs \<and>
    h_pid_tgid env0 = h_pid_tgid env1 \<and>
    (\<forall>j \<in> set ys. h_pid_tgid (sys_env j) \<noteq> h_pid_tgid env1) \<and>
    1000 \<le> h_ktime env1 0 - h_ktime env0 0 \<and> e = sys_record env1 c1 (h_ktime env0 0)"
proof -
  have start: "ok (syscall_start (sys_init m))" "syscall_events (sys_init m) = []"
    "map_lookup_elem ops (syscall_start (sys_init m)) = Map.empty"
    using assms(2,3) by (simp_all add: sys_init_def)
  obtain xs a ys b zs k t where run: "is = xs @ a # ys @ b # zs"
    and a: "sys_ev a = Some (TStart k t)" and b: "sys_ev b = Some (TFinish k)"
    and ys: "\<forall>j \<in> set ys. \<not> touches k (sys_ev j)" and e: "e \<in> set (sys_report b t)"
    using tracker_out.report_origin [OF sys_tracker [OF assms(1)] start(1,3,2)
        assms(4) [unfolded sys_run_def]] by blast
  from a obtain env0 c0 where "a = SysEnter env0 c0" "k = h_pid_tgid env0" "t = h_ktime env0 0"
    by (cases a) auto
  with run b ys e show ?thesis by (fastforce simp: sys_report_iff)
qed

section \<open>Properties\<close>

text \<open>C1: every record the tracer submits measures one system call. The run contains an entry
  and a later exit of the same thread with no other entry or exit of that thread between them,
  the latency is the difference of the two timestamps and at least 1000 ns, and the record
  carries the thread, the syscall number and the return value of that exit.\<close>

theorem syscall_event_pairing:
  assumes "bpf_hash ops MAX_ENTRIES ok" "ok m" "map_lookup_elem ops m = Map.empty"
    and "e \<in> set (syscall_events (sys_run ops (sys_init m) is))"
  shows "\<exists>xs env0 c0 ys env1 e0 c1 zs.
    is = xs @ SysEnter env0 c0 # ys @ SysExit env1 (Some e0) c1 # zs \<and>
    h_pid_tgid env0 = h_pid_tgid env1 \<and>
    (\<forall>j \<in> set ys. h_pid_tgid (sys_env j) \<noteq> h_pid_tgid env1) \<and>
    se_latency_ns e = h_ktime env1 0 - h_ktime env0 0 \<and> 1000 \<le> se_latency_ns e \<and>
    se_pid e = hi32 (h_pid_tgid env1) \<and> se_tid e = lo32 (h_pid_tgid env1) \<and>
    se_syscall_nr e = ctx_load st_trace_event_raw_sys_exit ''id'' c1 \<and>
    se_ret e = ctx_load st_trace_event_raw_sys_exit ''ret'' c1 \<and> se_comm e = h_comm env1"
  using sys_event_origin [OF assms] by (fastforce simp: sys_record_def)

text \<open>A thread enters a system call at time 1000 and leaves it at time 9000.\<close>

definition demo_sys_slot :: syscall_event where
  "demo_sys_slot = \<lparr>se_timestamp_ns = 0, se_latency_ns = 0, se_cgroup_id = 0, se_pid = 0,
     se_tid = 0, se_syscall_nr = 0, se_ret = 0, se_comm = []\<rparr>"

definition demo_sys_run :: "sys_input list" where
  "demo_sys_run =
     [SysEnter (demo_env 42 1000) [], SysExit (demo_env 42 9000) (Some demo_sys_slot) []]"

lemma demo_sys_run_events:
  "syscall_events (sys_run (khash MAX_ENTRIES) (sys_init []) demo_sys_run) \<noteq> []"
  by (simp add: sys_run_def demo_sys_run_def sys_init_def sys_handler_defs khash_simps
      kerno_consts helper_simps)

theorem syscall_event_pairing_witness:
  "let es = syscall_events (sys_run (khash MAX_ENTRIES) (sys_init []) demo_sys_run)
   in es \<noteq> [] \<and> 1000 \<le> se_latency_ns (hd es)"
  using syscall_event_pairing [OF kh.bpf_hash_axioms khash_empty, of "hd (syscall_events
      (sys_run (khash MAX_ENTRIES) (sys_init []) demo_sys_run))" demo_sys_run]
    demo_sys_run_events by (auto simp: Let_def)

text \<open>C2: no measurement is lost. When a thread enters and later leaves a system call with no
  other entry or exit of that thread in between, the map had room for the entry, the call took at
  least 1000 ns and the ring buffer had space, the run submits a record with that thread and that
  latency.\<close>

theorem syscall_event_reported:
  assumes "bpf_hash ops MAX_ENTRIES ok" "ok m" "map_lookup_elem ops m = Map.empty"
    and "is = xs @ SysEnter env0 c0 # ys @ SysExit env1 (Some e0) c1 # zs"
    and "h_pid_tgid env0 = h_pid_tgid env1"
    and "\<forall>j \<in> set ys. h_pid_tgid (sys_env j) \<noteq> h_pid_tgid env1"
    and "card (dom (pending MAX_ENTRIES (map sys_ev xs))) < MAX_ENTRIES"
    and "1000 \<le> h_ktime env1 0 - h_ktime env0 0"
  shows "\<exists>e \<in> set (syscall_events (sys_run ops (sys_init m) is)).
    se_latency_ns e = h_ktime env1 0 - h_ktime env0 0 \<and>
    se_pid e = hi32 (h_pid_tgid env1) \<and> se_tid e = lo32 (h_pid_tgid env1) \<and>
    se_timestamp_ns e = h_ktime env1 1"
proof -
  have "set (sys_report (SysExit env1 (Some e0) c1) (h_ktime env0 0))
      \<subseteq> set (syscall_events (sys_run ops (sys_init m) is))"
    unfolding sys_run_def
    by (rule tracker_out.report_complete [OF sys_tracker [OF assms(1)] _ _ assms(4) _ _ _ assms(7),
          where k = "h_pid_tgid env1"])
      (use assms in \<open>simp_all add: sys_init_def\<close>)
  then show ?thesis using assms(8) by (force simp: sys_record_def not_less [symmetric])
qed

theorem syscall_event_reported_witness:
  "\<exists>e \<in> set (syscall_events (sys_run (khash MAX_ENTRIES) (sys_init []) demo_sys_run)).
     se_latency_ns e = 8000"
  using syscall_event_reported [OF kh.bpf_hash_axioms khash_empty, of demo_sys_run "[]"
      "demo_env 42 1000" "[]" "[]" "demo_env 42 9000" demo_sys_slot "[]" "[]"]
  by (auto simp: helper_simps kerno_consts demo_sys_run_def)

text \<open>No entry is measured twice and the table stays within its declared size: in every run
  the records submitted and the entries still pending together are at most the entries of the
  run, and at most \<open>MAX_ENTRIES\<close> are pending.\<close>

theorem syscall_entries_conserved:
  assumes "bpf_hash ops MAX_ENTRIES ok" "ok m" "map_lookup_elem ops m = Map.empty"
    and "s = sys_run ops (sys_init m) is"
  shows "length (syscall_events s) + card (dom (map_lookup_elem ops (syscall_start s)))
      \<le> length (filter (is_start \<circ> sys_ev) is) \<and>
    card (dom (map_lookup_elem ops (syscall_start s))) \<le> MAX_ENTRIES"
proof -
  have start: "ok (syscall_start (sys_init m))" "syscall_events (sys_init m) = []"
    "map_lookup_elem ops (syscall_start (sys_init m)) = Map.empty"
    using assms(2,3) by (simp_all add: sys_init_def)
  note tr = sys_tracker [OF assms(1)]
  have "ok (syscall_start s)"
    using tracker_prog.run_table [OF tracker_out.axioms(1) [OF tr] start(1,3)]
    by (simp add: assms(4) sys_run_def)
  then show ?thesis
    using tracker_out.reports_bounded [OF tr start(1,3,2), of "is"] bpf_hash.card_lookup [OF assms(1)]
    by (simp add: assms(4) sys_run_def)
qed

theorem syscall_entries_conserved_witness:
  "length (syscall_events (sys_run (khash MAX_ENTRIES) (sys_init []) demo_sys_run)) \<le> 1"
  using syscall_entries_conserved [OF kh.bpf_hash_axioms khash_empty refl, of demo_sys_run]
  by (simp add: demo_sys_run_def is_start_def)

end
