(* ===== verification/SyscallSmp.thy ===== *)
theory SyscallSmp
  imports SyscallLatency "HOL-Library.Multiset"
begin

text \<open>
  \<open>internal/bpf/c/syscall_latency.c\<close> on several CPUs. Handlers of different threads run
  concurrently, so an exit is split at its calls into the kernel: the lookup, the delete, and the
  submission. A thread runs one handler at a time. The theory shows that every interleaving is
  equivalent to a run of atomic handlers.
\<close>

section \<open>The exit handler in three parts\<close>

definition sys_exit_lookup ::
  "(u64, u64, 'm) hash_ops \<Rightarrow> bpf_env \<Rightarrow> 'm syscall_prog \<Rightarrow> u64 option" where
  "sys_exit_lookup ops env s = map_lookup_elem ops (syscall_start s) (h_pid_tgid env)"

definition sys_exit_delete ::
  "(u64, u64, 'm) hash_ops \<Rightarrow> bpf_env \<Rightarrow> 'm syscall_prog \<Rightarrow> 'm syscall_prog" where
  "sys_exit_delete ops env s =
     s\<lparr>syscall_start := map_delete_elem ops (syscall_start s) (h_pid_tgid env)\<rparr>"

definition sys_exit_submit ::
  "bpf_env \<Rightarrow> syscall_event option \<Rightarrow> bytes \<Rightarrow> u64 \<Rightarrow> 'm syscall_prog \<Rightarrow> 'm syscall_prog" where
  "sys_exit_submit env slot ctx start_ts s =
     (let latency = h_ktime env 0 - start_ts in
      if latency < 1000 then s
      else case slot of
        None \<Rightarrow> s
      | Some e \<Rightarrow>
          (let e = e\<lparr>se_timestamp_ns := h_ktime env 1,
                     se_latency_ns := latency,
                     se_cgroup_id := h_cgroup_id env,
                     se_pid := hi32 (h_pid_tgid env),
                     se_tid := lo32 (h_pid_tgid env),
                     se_syscall_nr := ctx_load st_trace_event_raw_sys_exit ''id'' ctx,
                     se_ret := ctx_load st_trace_event_raw_sys_exit ''ret'' ctx,
                     se_comm := h_comm env\<rparr>
           in s\<lparr>syscall_events := syscall_events s @ [e]\<rparr>))"

lemmas sys_exit_parts = sys_exit_lookup_def sys_exit_delete_def sys_exit_submit_def

lemma sys_exit_composed:
  "sys_step ops s (SysExit env slot ctx) =
     (case sys_exit_lookup ops env s of
        None \<Rightarrow> s
      | Some ts \<Rightarrow> sys_exit_submit env slot ctx ts (sys_exit_delete ops env s))"
  by (auto simp: sys_handler_defs sys_exit_parts Let_def split: option.splits)

lemma sys_exit_submit_events:
  "sys_exit_submit env slot ctx ts s =
     s\<lparr>syscall_events := syscall_events s @ sys_report (SysExit env slot ctx) ts\<rparr>"
  by (simp add: sys_exit_submit_def sys_record_def Let_def split: option.splits)

section \<open>Interleaved runs\<close>

text \<open>Where a thread is in its exit handler: not in it, between the lookup that found its start
  time and the delete, or between the delete and the submission.\<close>

datatype sys_phase =
    SysIdle
  | SysFound u64 bpf_env "syscall_event option" bytes
  | SysDeleted u64 bpf_env "syscall_event option" bytes

record 'm sys_smp =
  smp_prog :: "'m syscall_prog"
  smp_phase :: "u64 \<Rightarrow> sys_phase"

definition sys_smp_init :: "'m \<Rightarrow> 'm sys_smp" where
  "sys_smp_init m = \<lparr>smp_prog = sys_init m, smp_phase = (\<lambda>_. SysIdle)\<rparr>"

text \<open>One step of one thread. The label is the invocation that takes effect in this step, if
  any: an entry at its update, an exit that finds nothing at its lookup, any other exit at its
  delete.\<close>

inductive sys_smp_step ::
  "(u64, u64, 'm) hash_ops \<Rightarrow> 'm sys_smp \<Rightarrow> sys_input list \<Rightarrow> 'm sys_smp \<Rightarrow> bool"
  for ops where
  smp_enter:
    "smp_phase \<sigma> (h_pid_tgid env) = SysIdle \<Longrightarrow>
     sys_smp_step ops \<sigma> [SysEnter env ctx]
       (\<sigma>\<lparr>smp_prog := fst (tracepoint_sys_enter ops env ctx (smp_prog \<sigma>))\<rparr>)"
| smp_miss:
    "smp_phase \<sigma> (h_pid_tgid env) = SysIdle \<Longrightarrow> sys_exit_lookup ops env (smp_prog \<sigma>) = None \<Longrightarrow>
     sys_smp_step ops \<sigma> [SysExit env slot ctx] \<sigma>"
| smp_hit:
    "smp_phase \<sigma> (h_pid_tgid env) = SysIdle \<Longrightarrow> sys_exit_lookup ops env (smp_prog \<sigma>) = Some ts \<Longrightarrow>
     sys_smp_step ops \<sigma> []
       (\<sigma>\<lparr>smp_phase := (smp_phase \<sigma>)(h_pid_tgid env := SysFound ts env slot ctx)\<rparr>)"
| smp_delete:
    "smp_phase \<sigma> k = SysFound ts env slot ctx \<Longrightarrow>
     sys_smp_step ops \<sigma> [SysExit env slot ctx]
       (\<sigma>\<lparr>smp_prog := sys_exit_delete ops env (smp_prog \<sigma>),
          smp_phase := (smp_phase \<sigma>)(k := SysDeleted ts env slot ctx)\<rparr>)"
| smp_submit:
    "smp_phase \<sigma> k = SysDeleted ts env slot ctx \<Longrightarrow>
     sys_smp_step ops \<sigma> []
       (\<sigma>\<lparr>smp_prog := sys_exit_submit env slot ctx ts (smp_prog \<sigma>),
          smp_phase := (smp_phase \<sigma>)(k := SysIdle)\<rparr>)"

inductive sys_smp_run ::
  "(u64, u64, 'm) hash_ops \<Rightarrow> 'm sys_smp \<Rightarrow> sys_input list \<Rightarrow> 'm sys_smp \<Rightarrow> bool"
  for ops where
  smp_refl: "sys_smp_run ops \<sigma> [] \<sigma>"
| smp_trans: "sys_smp_run ops \<sigma> is \<sigma>' \<Longrightarrow> sys_smp_step ops \<sigma>' js \<sigma>'' \<Longrightarrow>
    sys_smp_run ops \<sigma> (is @ js) \<sigma>''"

text \<open>The steps as a function, to run a schedule: which thread does what next.\<close>

datatype smp_action =
    DoEnter bpf_env bytes
  | DoLookup bpf_env "syscall_event option" bytes
  | DoDelete u64
  | DoSubmit u64

fun smp_act ::
  "(u64, u64, 'm) hash_ops \<Rightarrow> 'm sys_smp \<Rightarrow> smp_action \<Rightarrow> ('m sys_smp \<times> sys_input list) option" where
  "smp_act ops \<sigma> (DoEnter env ctx) =
     (case smp_phase \<sigma> (h_pid_tgid env) of
        SysIdle \<Rightarrow> Some (\<sigma>\<lparr>smp_prog := fst (tracepoint_sys_enter ops env ctx (smp_prog \<sigma>))\<rparr>,
                       [SysEnter env ctx])
      | _ \<Rightarrow> None)"
| "smp_act ops \<sigma> (DoLookup env slot ctx) =
     (case smp_phase \<sigma> (h_pid_tgid env) of
        SysIdle \<Rightarrow>
          (case sys_exit_lookup ops env (smp_prog \<sigma>) of
             None \<Rightarrow> Some (\<sigma>, [SysExit env slot ctx])
           | Some ts \<Rightarrow>
               Some (\<sigma>\<lparr>smp_phase := (smp_phase \<sigma>)(h_pid_tgid env := SysFound ts env slot ctx)\<rparr>, []))
      | _ \<Rightarrow> None)"
| "smp_act ops \<sigma> (DoDelete k) =
     (case smp_phase \<sigma> k of
        SysFound ts env slot ctx \<Rightarrow>
          Some (\<sigma>\<lparr>smp_prog := sys_exit_delete ops env (smp_prog \<sigma>),
                  smp_phase := (smp_phase \<sigma>)(k := SysDeleted ts env slot ctx)\<rparr>,
                [SysExit env slot ctx])
      | _ \<Rightarrow> None)"
| "smp_act ops \<sigma> (DoSubmit k) =
     (case smp_phase \<sigma> k of
        SysDeleted ts env slot ctx \<Rightarrow>
          Some (\<sigma>\<lparr>smp_prog := sys_exit_submit env slot ctx ts (smp_prog \<sigma>),
                  smp_phase := (smp_phase \<sigma>)(k := SysIdle)\<rparr>, [])
      | _ \<Rightarrow> None)"

fun smp_sched ::
  "(u64, u64, 'm) hash_ops \<Rightarrow> 'm sys_smp \<Rightarrow> smp_action list \<Rightarrow> ('m sys_smp \<times> sys_input list) option"
  where
  "smp_sched ops \<sigma> [] = Some (\<sigma>, [])"
| "smp_sched ops \<sigma> (a # as) =
     (case smp_act ops \<sigma> a of
        None \<Rightarrow> None
      | Some (\<sigma>', js) \<Rightarrow> map_option (\<lambda>(\<sigma>'', ks). (\<sigma>'', js @ ks)) (smp_sched ops \<sigma>' as))"

lemma smp_act_step: "smp_act ops \<sigma> a = Some (\<sigma>', js) \<Longrightarrow> sys_smp_step ops \<sigma> js \<sigma>'"
  by (cases a) (auto intro: sys_smp_step.intros split: sys_phase.splits option.splits)

lemma sys_smp_run_app:
  "sys_smp_run ops \<sigma>' js \<sigma>'' \<Longrightarrow> sys_smp_run ops \<sigma> is \<sigma>' \<Longrightarrow> sys_smp_run ops \<sigma> (is @ js) \<sigma>''"
  by (induction \<sigma>' js \<sigma>'' rule: sys_smp_run.induct)
    (simp_all add: sys_smp_run.smp_trans flip: append_assoc)

lemma smp_sched_run: "smp_sched ops \<sigma> as = Some (\<sigma>', is) \<Longrightarrow> sys_smp_run ops \<sigma> is \<sigma>'"
proof (induction "as" arbitrary: \<sigma> "is")
  case Nil
  then show ?case by (simp add: sys_smp_run.smp_refl)
next
  case (Cons a as')
  then obtain \<sigma>1 js ks where act: "smp_act ops \<sigma> a = Some (\<sigma>1, js)"
    and rest: "smp_sched ops \<sigma>1 as' = Some (\<sigma>', ks)" and "is = js @ ks"
    by (auto split: option.splits)
  moreover have "sys_smp_run ops \<sigma> js \<sigma>1"
    using sys_smp_run.smp_trans [OF sys_smp_run.smp_refl smp_act_step [OF act]] by simp
  ultimately show ?case using sys_smp_run_app [OF Cons.IH [OF rest]] by simp
qed

section \<open>Simulation by atomic handlers\<close>

text \<open>Between lookup and delete the entry of the thread stays in the map, because no other thread
  uses its key; after the delete the thread owes the record it will submit.\<close>

definition smp_found_ok :: "(u64, u64, 'm) hash_ops \<Rightarrow> 'm sys_smp \<Rightarrow> bool" where
  "smp_found_ok ops \<sigma> \<longleftrightarrow> (\<forall>k ts env slot ctx. smp_phase \<sigma> k = SysFound ts env slot ctx \<longrightarrow>
     h_pid_tgid env = k \<and> map_lookup_elem ops (syscall_start (smp_prog \<sigma>)) k = Some ts)"

primrec phase_owes :: "sys_phase \<Rightarrow> syscall_event list" where
  "phase_owes SysIdle = []"
| "phase_owes (SysFound ts env slot ctx) = []"
| "phase_owes (SysDeleted ts env slot ctx) = sys_report (SysExit env slot ctx) ts"

definition smp_owes :: "(u64 \<Rightarrow> sys_phase) \<Rightarrow> syscall_event multiset" where
  "smp_owes ph = (\<Sum>k \<in> UNIV. mset (phase_owes (ph k)))"

lemma smp_owes_upd:
  "mset (phase_owes (ph k)) + smp_owes (ph(k := p)) = mset (phase_owes p) + smp_owes ph"
proof -
  have split: "smp_owes f = mset (phase_owes (f k)) + (\<Sum>j \<in> UNIV - {k}. mset (phase_owes (f j)))"
    for f unfolding smp_owes_def by (rule sum.remove) simp_all
  have "(\<Sum>j \<in> UNIV - {k}. mset (phase_owes ((ph(k := p)) j))) =
      (\<Sum>j \<in> UNIV - {k}. mset (phase_owes (ph j)))" by (rule sum.cong) auto
  then show ?thesis unfolding split [of "ph(k := p)"] split [of ph] by simp
qed

text \<open>The simulation relation between an interleaved state and the state of the atomic run.\<close>

definition smp_sim ::
  "(u64, u64, 'm) hash_ops \<Rightarrow> ('m \<Rightarrow> bool) \<Rightarrow> 'm sys_smp \<Rightarrow> 'm syscall_prog \<Rightarrow> bool" where
  "smp_sim ops ok \<sigma> s \<longleftrightarrow>
     ok (syscall_start s) \<and> syscall_start (smp_prog \<sigma>) = syscall_start s \<and> smp_found_ok ops \<sigma> \<and>
     mset (syscall_events s) = mset (syscall_events (smp_prog \<sigma>)) + smp_owes (smp_phase \<sigma>)"

lemma sys_step_found:
  "map_lookup_elem ops (syscall_start s) (h_pid_tgid env) = Some ts \<Longrightarrow>
   syscall_start (sys_step ops s (SysExit env slot ctx)) =
     map_delete_elem ops (syscall_start s) (h_pid_tgid env) \<and>
   syscall_events (sys_step ops s (SysExit env slot ctx)) =
     syscall_events s @ sys_report (SysExit env slot ctx) ts"
  unfolding sys_exit_composed by (simp add: sys_exit_lookup_def sys_exit_delete_def
      sys_exit_submit_events del: sys_report.simps)

lemma smp_sim_step:
  assumes hash: "bpf_hash ops cap ok"
    and step: "sys_smp_step ops \<sigma> js \<sigma>'" and sim: "smp_sim ops ok \<sigma> s"
  shows "smp_sim ops ok \<sigma>' (foldl (sys_step ops) s js)"
  using step
proof cases
  case (smp_enter env ctx)
  have other: "map_lookup_elem ops (map_update_elem ops (syscall_start s) k t) j = Some ts"
    if "map_lookup_elem ops (syscall_start s) j = Some ts" "j \<noteq> k" for j k t ts
    using that sim by (simp add: smp_sim_def bpf_hash.lookup_update [OF hash] bounded_upd_def)
  from smp_enter sim show ?thesis
    by (auto simp: smp_sim_def smp_found_ok_def tracepoint_sys_enter_def Let_def
        bpf_hash.inv_update [OF hash] intro!: other)
next
  case (smp_miss env slot ctx)
  then have "sys_step ops s (SysExit env slot ctx) = s"
    using sim unfolding sys_exit_composed by (simp add: sys_exit_lookup_def smp_sim_def)
  then show ?thesis using smp_miss sim by simp
next
  case (smp_hit env ts slot ctx)
  then have "smp_owes ((smp_phase \<sigma>)(h_pid_tgid env := SysFound ts env slot ctx)) =
      smp_owes (smp_phase \<sigma>)"
    using smp_owes_upd [of "smp_phase \<sigma>" "h_pid_tgid env" "SysFound ts env slot ctx"] by simp
  with smp_hit sim show ?thesis
    by (auto simp: smp_sim_def smp_found_ok_def sys_exit_lookup_def)
next
  case (smp_delete k ts env slot ctx)
  let ?p = "SysDeleted ts env slot ctx"
  have k: "h_pid_tgid env = k" "map_lookup_elem ops (syscall_start s) k = Some ts"
    using sim smp_delete(3) by (auto simp: smp_sim_def smp_found_ok_def)
  note step' = sys_step_found [OF k(2) [folded k(1)], of slot ctx]
  have "smp_owes ((smp_phase \<sigma>)(k := ?p)) =
      mset (sys_report (SysExit env slot ctx) ts) + smp_owes (smp_phase \<sigma>)"
    using smp_owes_upd [of "smp_phase \<sigma>" k ?p] smp_delete(3) by (simp del: sys_report.simps)
  with smp_delete sim step' k show ?thesis
    by (auto simp: smp_sim_def smp_found_ok_def sys_exit_delete_def bpf_hash.inv_delete [OF hash]
        bpf_hash.lookup_delete [OF hash] simp del: sys_report.simps sys_step.simps)
next
  case (smp_submit k ts env slot ctx)
  have "mset (sys_report (SysExit env slot ctx) ts) + smp_owes ((smp_phase \<sigma>)(k := SysIdle)) =
      smp_owes (smp_phase \<sigma>)"
    using smp_owes_upd [of "smp_phase \<sigma>" k SysIdle] smp_submit(3) by (simp del: sys_report.simps)
  with smp_submit sim show ?thesis
    by (auto simp: smp_sim_def smp_found_ok_def sys_exit_submit_events simp del: sys_report.simps
        split: if_splits)
qed

lemma smp_sim_run:
  assumes "bpf_hash ops cap ok" "ok m"
  shows "sys_smp_run ops (sys_smp_init m) is \<sigma> \<Longrightarrow> smp_sim ops ok \<sigma> (sys_run ops (sys_init m) is)"
proof (induction "sys_smp_init m" "is" \<sigma> rule: sys_smp_run.induct)
  case smp_refl
  show ?case using assms(2)
    by (simp add: smp_sim_def sys_smp_init_def sys_run_def smp_found_ok_def smp_owes_def sys_init_def)
next
  case (smp_trans "is" \<sigma>' js \<sigma>'')
  then show ?case using smp_sim_step [OF assms(1)] by (simp add: sys_run_def)
qed

section \<open>Properties\<close>

text \<open>C3: concurrent handlers behave like atomic ones. For every interleaving of the handlers of
  any number of threads that ends with no handler running, the map equals the map after running
  the same invocations one after the other, each at its update or delete, and the same records
  were submitted, each as often.\<close>

theorem sys_smp_atomic:
  assumes "bpf_hash ops MAX_ENTRIES ok" "ok m"
    and "sys_smp_run ops (sys_smp_init m) is \<sigma>" "\<forall>k. smp_phase \<sigma> k = SysIdle"
  shows "syscall_start (smp_prog \<sigma>) = syscall_start (sys_run ops (sys_init m) is) \<and>
    mset (syscall_events (smp_prog \<sigma>)) = mset (syscall_events (sys_run ops (sys_init m) is))"
  using smp_sim_run [OF assms(1-3)] assms(4) by (simp add: smp_sim_def smp_owes_def)

text \<open>Threads 1 and 2 enter, then leave with their exits interleaved.\<close>

definition demo_schedule :: "smp_action list" where
  "demo_schedule =
     [DoEnter (demo_env 1 1000) [], DoEnter (demo_env 2 2000) [],
      DoLookup (demo_env 1 9000) (Some demo_sys_slot) [],
      DoLookup (demo_env 2 8000) (Some demo_sys_slot) [],
      DoDelete 2, DoDelete 1, DoSubmit 1, DoSubmit 2]"

definition demo_smp_end :: "(u64 \<times> u64) list sys_smp \<times> sys_input list" where
  "demo_smp_end = the (smp_sched (khash MAX_ENTRIES) (sys_smp_init []) demo_schedule)"

lemmas smp_eval = demo_schedule_def sys_smp_init_def sys_init_def sys_handler_defs sys_exit_parts
  khash_simps kerno_consts helper_simps

lemma demo_smp_runs:
  "smp_sched (khash MAX_ENTRIES) (sys_smp_init []) demo_schedule = Some demo_smp_end"
  unfolding demo_smp_end_def by (simp add: smp_eval)

lemma demo_smp_run:
  "sys_smp_run (khash MAX_ENTRIES) (sys_smp_init []) (snd demo_smp_end) (fst demo_smp_end)"
  by (rule smp_sched_run [of _ _ demo_schedule]) (simp add: demo_smp_runs)

lemma demo_smp_result:
  "smp_phase (fst demo_smp_end) = (\<lambda>_. SysIdle)"
  "map se_latency_ns (syscall_events (smp_prog (fst demo_smp_end))) = [8000, 6000]"
  unfolding demo_smp_end_def by (simp_all add: smp_eval fun_eq_iff)

theorem sys_smp_atomic_witness:
  "mset (syscall_events (smp_prog (fst demo_smp_end))) =
   mset (syscall_events (sys_run (khash MAX_ENTRIES) (sys_init []) (snd demo_smp_end)))"
  using sys_smp_atomic [OF kh.bpf_hash_axioms khash_empty(1) demo_smp_run]
  by (simp add: demo_smp_result)

text \<open>Concurrency never mixes up threads. In any state of any interleaving every submitted
  record measures an entry and a later exit of one thread, in the order they took effect, with no
  other entry or exit of that thread between them.\<close>

theorem sys_smp_pairing:
  assumes "bpf_hash ops MAX_ENTRIES ok" "ok m" "map_lookup_elem ops m = Map.empty"
    and "sys_smp_run ops (sys_smp_init m) is \<sigma>" "e \<in> set (syscall_events (smp_prog \<sigma>))"
  shows "\<exists>xs env0 c0 ys env1 e0 c1 zs.
    is = xs @ SysEnter env0 c0 # ys @ SysExit env1 (Some e0) c1 # zs \<and>
    h_pid_tgid env0 = h_pid_tgid env1 \<and>
    (\<forall>j \<in> set ys. h_pid_tgid (sys_env j) \<noteq> h_pid_tgid env1) \<and>
    1000 \<le> h_ktime env1 0 - h_ktime env0 0 \<and> e = sys_record env1 c1 (h_ktime env0 0)"
proof -
  have "mset (syscall_events (smp_prog \<sigma>)) \<subseteq># mset (syscall_events (sys_run ops (sys_init m) is))"
    using smp_sim_run [OF assms(1,2,4)] by (simp add: smp_sim_def)
  then have "e \<in> set (syscall_events (sys_run ops (sys_init m) is))"
    using assms(5) by (metis mset_subset_eqD set_mset_mset)
  then show ?thesis by (rule sys_event_origin [OF assms(1-3)])
qed

theorem sys_smp_pairing_witness:
  "\<exists>xs env0 c0 ys env1 e0 c1 zs.
     snd demo_smp_end = xs @ SysEnter env0 c0 # ys @ SysExit env1 (Some e0) c1 # zs \<and>
     h_ktime env1 0 - h_ktime env0 0 = 8000"
proof -
  let ?es = "syscall_events (smp_prog (fst demo_smp_end))"
  obtain e where e: "e \<in> set ?es" "se_latency_ns e = 8000"
    using demo_smp_result(2) by (cases ?es) auto
  show ?thesis
    using sys_smp_pairing [OF kh.bpf_hash_axioms khash_empty demo_smp_run e(1)] e(2)
    unfolding sys_record_def by fastforce
qed

end
