(* ===== verification/SchedDelay.thy ===== *)
theory SchedDelay
  imports Tracker
begin

text \<open>
  \<open>internal/bpf/c/sched_delay.c\<close>: the run-queue latency tracer. \<open>sched_wakeup\<close> stores the
  wakeup time under the pid, \<open>sched_switch\<close> takes out the time of the task switched in.
\<close>

definition wakeup_ts_decl :: map_decl where
  "wakeup_ts_decl = KERNO_HASH td___u32 td___u64 MAX_ENTRIES"

record 'm sched_prog =
  wakeup_ts :: 'm
  sched_events :: "sched_event list"

definition tracepoint_sched_wakeup ::
  "(u32, u64, 'm) hash_ops \<Rightarrow> bpf_env \<Rightarrow> bytes \<Rightarrow> 'm sched_prog \<Rightarrow> 'm sched_prog \<times> int" where
  "tracepoint_sched_wakeup ops env ctx s =
     (let pid = ctx_load st_trace_event_raw_sched_wakeup_template ''pid'' ctx;
          ts = h_ktime env 0
      in (s\<lparr>wakeup_ts := map_update_elem ops (wakeup_ts s) pid ts\<rparr>, 0))"

text \<open>\<open>next_pid\<close> and \<open>next_comm\<close> are read with \<open>bpf_probe_read_kernel\<close>.\<close>

definition sched_next_pid :: "bpf_env \<Rightarrow> bytes \<Rightarrow> u32" where
  "sched_next_pid env ctx =
     le_word (h_probe env 0 (cload st_trace_event_raw_sched_switch ''next_pid'' ctx))"

definition tracepoint_sched_switch ::
  "(u32, u64, 'm) hash_ops \<Rightarrow> bpf_env \<Rightarrow> sched_event option \<Rightarrow> bytes \<Rightarrow>
   'm sched_prog \<Rightarrow> 'm sched_prog \<times> int" where
  "tracepoint_sched_switch ops env slot ctx s =
     (let pid = sched_next_pid env ctx in
      case map_lookup_elem ops (wakeup_ts s) pid of
        None \<Rightarrow> (s, 0)
      | Some ts \<Rightarrow>
          (let delay = h_ktime env 0 - ts;
               s = s\<lparr>wakeup_ts := map_delete_elem ops (wakeup_ts s) pid\<rparr>
           in if delay < 1000 then (s, 0)
              else case slot of
                     None \<Rightarrow> (s, 0)
                   | Some e \<Rightarrow>
                       (let e = e\<lparr>sc_timestamp_ns := h_ktime env 1,
                                  sc_runq_delay_ns := delay,
                                  sc_cgroup_id := h_cgroup_id env,
                                  sc_pid := pid,
                                  sc_cpu := h_smp_processor_id env,
                                  sc_comm := h_probe env 1
                                    (take TASK_COMM_LEN
                                      (cload st_trace_event_raw_sched_switch ''next_comm'' ctx))\<rparr>
                        in (s\<lparr>sched_events := sched_events s @ [e]\<rparr>, 0))))"

datatype sched_input =
    SchedWakeup bpf_env bytes
  | SchedSwitch bpf_env "sched_event option" bytes

primrec sched_step ::
  "(u32, u64, 'm) hash_ops \<Rightarrow> 'm sched_prog \<Rightarrow> sched_input \<Rightarrow> 'm sched_prog" where
  "sched_step ops s (SchedWakeup env ctx) = fst (tracepoint_sched_wakeup ops env ctx s)"
| "sched_step ops s (SchedSwitch env slot ctx) = fst (tracepoint_sched_switch ops env slot ctx s)"

definition sched_run ::
  "(u32, u64, 'm) hash_ops \<Rightarrow> 'm sched_prog \<Rightarrow> sched_input list \<Rightarrow> 'm sched_prog" where
  "sched_run ops s is = foldl (sched_step ops) s is"

definition sched_init :: "'m \<Rightarrow> 'm sched_prog" where
  "sched_init m = \<lparr>wakeup_ts = m, sched_events = []\<rparr>"

section \<open>The handlers as a tracker\<close>

text \<open>The task a step is about: the one woken up or the one switched in.\<close>

primrec sched_pid :: "sched_input \<Rightarrow> u32" where
  "sched_pid (SchedWakeup _ ctx) = ctx_load st_trace_event_raw_sched_wakeup_template ''pid'' ctx"
| "sched_pid (SchedSwitch env _ ctx) = sched_next_pid env ctx"

primrec sched_ev :: "sched_input \<Rightarrow> u32 tev option" where
  "sched_ev (SchedWakeup env ctx) =
     Some (TStart (ctx_load st_trace_event_raw_sched_wakeup_template ''pid'' ctx) (h_ktime env 0))"
| "sched_ev (SchedSwitch env _ ctx) = Some (TFinish (sched_next_pid env ctx))"

lemma touches_sched_ev [simp]: "touches k (sched_ev i) \<longleftrightarrow> sched_pid i = k"
  by (cases i) (simp_all add: touches_def)

primrec sched_report :: "sched_input \<Rightarrow> u64 \<Rightarrow> sched_event list" where
  "sched_report (SchedWakeup env ctx) t = []"
| "sched_report (SchedSwitch env slot ctx) t =
     (if h_ktime env 0 - t < 1000 then [] else
      case slot of None \<Rightarrow> [] | Some e \<Rightarrow>
        [\<lparr>sc_timestamp_ns = h_ktime env 1, sc_runq_delay_ns = h_ktime env 0 - t,
          sc_cgroup_id = h_cgroup_id env, sc_pid = sched_next_pid env ctx,
          sc_cpu = h_smp_processor_id env,
          sc_comm = h_probe env 1
            (take TASK_COMM_LEN (cload st_trace_event_raw_sched_switch ''next_comm'' ctx))\<rparr>])"

lemmas sched_handler_defs = tracepoint_sched_wakeup_def tracepoint_sched_switch_def

lemma sched_tracker:
  "bpf_hash ops cap ok \<Longrightarrow>
   tracker_out ops cap ok (sched_step ops) wakeup_ts sched_ev sched_events sched_report"
proof (intro tracker_out.intro tracker_prog.intro tracker_prog_axioms.intro tracker_out_axioms.intro)
  fix i s
  show "sched_ev i = None \<Longrightarrow> wakeup_ts (sched_step ops s i) = wakeup_ts s"
    by (cases i) simp_all
  show "sched_ev i = Some (TStart k t) \<Longrightarrow>
      wakeup_ts (sched_step ops s i) = map_update_elem ops (wakeup_ts s) k t" for k t
    by (cases i) (auto simp: sched_handler_defs Let_def)
  show "sched_ev i = Some (TFinish k) \<Longrightarrow> map_lookup_elem ops (wakeup_ts s) k \<noteq> None \<Longrightarrow>
      wakeup_ts (sched_step ops s i) = map_delete_elem ops (wakeup_ts s) k" for k
    by (cases i) (auto simp: sched_handler_defs Let_def split: option.splits)
  show "sched_ev i = Some (TFinish k) \<Longrightarrow> map_lookup_elem ops (wakeup_ts s) k = None \<Longrightarrow>
      wakeup_ts (sched_step ops s i) = wakeup_ts s" for k
    by (cases i) (auto simp: sched_handler_defs Let_def split: option.splits)
  show "sched_events (sched_step ops s i) = sched_events s @
      (case measured (map_lookup_elem ops (wakeup_ts s)) (sched_ev i) of
         None \<Rightarrow> [] | Some t \<Rightarrow> sched_report i t)"
    by (cases i) (auto simp: sched_handler_defs Let_def measured_def split: option.splits)
  show "length (sched_report i t) \<le> 1" for t
    by (cases i) (auto split: option.splits)
qed

interpretation sched_kh: tracker_out "khash cap" cap "khash_inv cap" "sched_step (khash cap)"
  wakeup_ts sched_ev sched_events sched_report for cap
  by (rule sched_tracker) unfold_locales

section \<open>Properties\<close>

text \<open>C7: every run-queue record measures one wait. The run contains a wakeup of the reported pid
  and a later switch to it with no other wakeup of it or switch to it in between, the delay is the
  difference of the two timestamps and at least 1000 ns, and CPU and name are those of the
  switch.\<close>

theorem sched_event_pairing:
  assumes "bpf_hash ops MAX_ENTRIES ok" "ok m" "map_lookup_elem ops m = Map.empty"
    and "e \<in> set (sched_events (sched_run ops (sched_init m) is))"
  shows "\<exists>xs env0 c0 ys env1 e0 c1 zs.
    is = xs @ SchedWakeup env0 c0 # ys @ SchedSwitch env1 (Some e0) c1 # zs \<and>
    ctx_load st_trace_event_raw_sched_wakeup_template ''pid'' c0 = sc_pid e \<and>
    sched_next_pid env1 c1 = sc_pid e \<and> (\<forall>j \<in> set ys. sched_pid j \<noteq> sc_pid e) \<and>
    sc_runq_delay_ns e = h_ktime env1 0 - h_ktime env0 0 \<and> 1000 \<le> sc_runq_delay_ns e \<and>
    sc_cpu e = h_smp_processor_id env1 \<and>
    sc_comm e = h_probe env1 1
      (take TASK_COMM_LEN (cload st_trace_event_raw_sched_switch ''next_comm'' c1))"
proof -
  have start: "ok (wakeup_ts (sched_init m))" "sched_events (sched_init m) = []"
    "map_lookup_elem ops (wakeup_ts (sched_init m)) = Map.empty"
    using assms(2,3) by (simp_all add: sched_init_def)
  obtain xs a ys b zs k t where run: "is = xs @ a # ys @ b # zs"
    and a: "sched_ev a = Some (TStart k t)" and b: "sched_ev b = Some (TFinish k)"
    and ys: "\<forall>j \<in> set ys. \<not> touches k (sched_ev j)" and e: "e \<in> set (sched_report b t)"
    using tracker_out.report_origin [OF sched_tracker [OF assms(1)] start(1,3,2)
        assms(4) [unfolded sched_run_def]] by blast
  from a obtain env0 c0 where a': "a = SchedWakeup env0 c0" "t = h_ktime env0 0"
      "k = ctx_load st_trace_event_raw_sched_wakeup_template ''pid'' c0"
    by (cases a) auto
  from b e obtain env1 e0 c1 where b': "b = SchedSwitch env1 (Some e0) c1"
      "k = sched_next_pid env1 c1"
    by (cases b) (auto split: option.splits if_splits)
  from run a' b' ys e show ?thesis
    by (intro exI [of _ xs] exI [of _ env0] exI [of _ c0] exI [of _ ys] exI [of _ env1]
        exI [of _ e0] exI [of _ c1] exI [of _ zs])
      (auto simp: not_less split: if_splits)
qed

text \<open>Task 77 is woken up at time 1000 and switched in at time 5000.\<close>

definition demo_wakeup_ctx :: "u32 \<Rightarrow> bytes" where
  "demo_wakeup_ctx pid = zero_with st_trace_event_raw_sched_wakeup_template
     [(''pid'', le_bytes 4 pid)]"

definition demo_switch_ctx :: "u32 \<Rightarrow> bytes" where
  "demo_switch_ctx pid = zero_with st_trace_event_raw_sched_switch
     [(''prev_pid'', le_bytes 4 (1 :: u32)), (''next_pid'', le_bytes 4 pid)]"

lemma demo_sched_ctx [abi_simps]:
  "ctx_load st_trace_event_raw_sched_wakeup_template ''pid'' (demo_wakeup_ctx p) = (p :: u32)"
  "sched_next_pid (demo_env who now) (demo_switch_ctx p) = p"
  by (simp_all add: demo_wakeup_ctx_def demo_switch_ctx_def sched_next_pid_def helper_simps load_eval
      st_trace_event_raw_sched_wakeup_template_def st_trace_event_raw_sched_switch_def
      td_pid_t_def td___kernel_pid_t_def)

definition demo_sched_slot :: sched_event where
  "demo_sched_slot = \<lparr>sc_timestamp_ns = 0, sc_runq_delay_ns = 0, sc_cgroup_id = 0, sc_pid = 0,
     sc_cpu = 0, sc_comm = []\<rparr>"

definition demo_sched_run :: "sched_input list" where
  "demo_sched_run =
     [SchedWakeup (demo_env 42 1000) (demo_wakeup_ctx 77),
      SchedSwitch (demo_env 42 5000) (Some demo_sched_slot) (demo_switch_ctx 77)]"

lemmas sched_eval = sched_run_def sched_init_def sched_handler_defs khash_simps kerno_consts
  helper_simps abi_simps

theorem sched_event_pairing_witness:
  "let es = sched_events (sched_run (khash MAX_ENTRIES) (sched_init []) demo_sched_run)
   in es \<noteq> [] \<and> 1000 \<le> sc_runq_delay_ns (hd es)"
proof -
  let ?es = "sched_events (sched_run (khash MAX_ENTRIES) (sched_init []) demo_sched_run)"
  have es: "?es \<noteq> []" by (simp add: demo_sched_run_def sched_eval)
  then show ?thesis
    using sched_event_pairing [OF kh.bpf_hash_axioms khash_empty, of "hd ?es" demo_sched_run]
    by (auto simp: Let_def)
qed

text \<open>A wait is reported when the task is switched in. When a task is woken up while the map
  has room and later switched in, with no other wakeup of it or switch to it in between, a delay
  of at least 1000 ns and space in the ring buffer, the run submits a record of that task with
  that delay. Only the last wakeup before the switch counts.\<close>

theorem sched_event_reported:
  assumes "bpf_hash ops MAX_ENTRIES ok" "ok m" "map_lookup_elem ops m = Map.empty"
    and "is = xs @ SchedWakeup env0 c0 # ys @ SchedSwitch env1 (Some e0) c1 # zs"
    and "ctx_load st_trace_event_raw_sched_wakeup_template ''pid'' c0 = k"
    and "sched_next_pid env1 c1 = k" and "\<forall>j \<in> set ys. sched_pid j \<noteq> k"
    and "card (dom (pending MAX_ENTRIES (map sched_ev xs))) < MAX_ENTRIES"
    and "1000 \<le> h_ktime env1 0 - h_ktime env0 0"
  shows "\<exists>e \<in> set (sched_events (sched_run ops (sched_init m) is)).
    sc_pid e = k \<and> sc_runq_delay_ns e = h_ktime env1 0 - h_ktime env0 0"
proof -
  have "set (sched_report (SchedSwitch env1 (Some e0) c1) (h_ktime env0 0))
      \<subseteq> set (sched_events (sched_run ops (sched_init m) is))"
    unfolding sched_run_def
    by (rule tracker_out.report_complete [OF sched_tracker [OF assms(1)] _ _ assms(4) _ _ _ assms(8),
          where k = k])
      (use assms in \<open>simp_all add: sched_init_def\<close>)
  then show ?thesis using assms(6,9) by (force simp: not_less [symmetric])
qed

theorem sched_event_reported_witness:
  "\<exists>e \<in> set (sched_events (sched_run (khash MAX_ENTRIES) (sched_init []) demo_sched_run)).
     sc_pid e = 77 \<and> sc_runq_delay_ns e = 4000"
  using sched_event_reported [OF kh.bpf_hash_axioms khash_empty, of demo_sched_run "[]"
      "demo_env 42 1000" "demo_wakeup_ctx 77" "[]" "demo_env 42 5000" demo_sched_slot
      "demo_switch_ctx 77" "[]" 77]
  by (auto simp: abi_simps helper_simps kerno_consts demo_sched_run_def)

end
