(* ===== verification/TcpMonitor.thy ===== *)
theory TcpMonitor
  imports Tracker
begin

text \<open>
  \<open>internal/bpf/c/tcp_monitor.c\<close>: the two handlers of the TCP tracer. It keeps no map; its
  state is the list of records submitted so far.
\<close>

definition AF_INET :: u16 where "AF_INET = 2"
definition AF_INET6 :: u16 where "AF_INET6 = 10"

record tcp_prog =
  tcp_events :: "tcp_event list"

definition tracepoint_tcp_retransmit ::
  "bpf_env \<Rightarrow> tcp_event option \<Rightarrow> bytes \<Rightarrow> tcp_prog \<Rightarrow> tcp_prog \<times> int" where
  "tracepoint_tcp_retransmit env slot ctx s =
     (if ctx_load st_trace_event_raw_tcp_retransmit_skb ''family'' ctx \<noteq> AF_INET then (s, 0)
      else case slot of
        None \<Rightarrow> (s, 0)
      | Some e \<Rightarrow>
          (let e = e\<lparr>te_timestamp_ns := h_ktime env 0,
                     te_cgroup_id := h_cgroup_id env,
                     te_pid := hi32 (h_pid_tgid env),
                     te_saddr := le_word
                       (h_probe env 0 (cload st_trace_event_raw_tcp_retransmit_skb ''saddr'' ctx)),
                     te_daddr := le_word
                       (h_probe env 1 (cload st_trace_event_raw_tcp_retransmit_skb ''daddr'' ctx)),
                     te_sport := ctx_load st_trace_event_raw_tcp_retransmit_skb ''sport'' ctx,
                     te_dport := h_ntohs env
                       (ctx_load st_trace_event_raw_tcp_retransmit_skb ''dport'' ctx),
                     te_family := ctx_load st_trace_event_raw_tcp_retransmit_skb ''family'' ctx,
                     te_event_type := TCP_EVENT_RETRANSMIT,
                     te_state := ucast
                       (ctx_load st_trace_event_raw_tcp_retransmit_skb ''state'' ctx :: u32),
                     te_rtt_us := 0,
                     te_retransmits := 0,
                     te_comm := h_comm env\<rparr>
           in (s\<lparr>tcp_events := tcp_events s @ [e]\<rparr>, 0)))"

text \<open>The event type a new TCP state stands for: 1 is ESTABLISHED, 7 is CLOSE.\<close>

definition state_event_type :: "u32 \<Rightarrow> u8 option" where
  "state_event_type newstate =
     (if newstate = 1 then Some TCP_EVENT_CONNECT
      else if newstate = 7 then Some TCP_EVENT_CLOSE
      else None)"

definition tracepoint_inet_sock_set_state ::
  "bpf_env \<Rightarrow> tcp_event option \<Rightarrow> bytes \<Rightarrow> tcp_prog \<Rightarrow> tcp_prog \<times> int" where
  "tracepoint_inet_sock_set_state env slot ctx s =
     (if ctx_load st_trace_event_raw_inet_sock_set_state ''family'' ctx \<noteq> AF_INET then (s, 0)
      else case state_event_type (ctx_load st_trace_event_raw_inet_sock_set_state ''newstate'' ctx) of
        None \<Rightarrow> (s, 0)
      | Some event_type \<Rightarrow>
          (case slot of
             None \<Rightarrow> (s, 0)
           | Some e \<Rightarrow>
               (let e = e\<lparr>te_timestamp_ns := h_ktime env 0,
                          te_cgroup_id := h_cgroup_id env,
                          te_pid := hi32 (h_pid_tgid env),
                          te_saddr := le_word
                            (h_probe env 0 (cload st_trace_event_raw_inet_sock_set_state ''saddr'' ctx)),
                          te_daddr := le_word
                            (h_probe env 1 (cload st_trace_event_raw_inet_sock_set_state ''daddr'' ctx)),
                          te_sport := ctx_load st_trace_event_raw_inet_sock_set_state ''sport'' ctx,
                          te_dport := h_ntohs env
                            (ctx_load st_trace_event_raw_inet_sock_set_state ''dport'' ctx),
                          te_family := ctx_load st_trace_event_raw_inet_sock_set_state ''family'' ctx,
                          te_event_type := event_type,
                          te_state := ucast
                            (ctx_load st_trace_event_raw_inet_sock_set_state ''newstate'' ctx :: u32),
                          te_rtt_us := 0,
                          te_retransmits := 0,
                          te_comm := h_comm env\<rparr>
                in (s\<lparr>tcp_events := tcp_events s @ [e]\<rparr>, 0))))"

datatype tcp_input =
    TcpRetransmit bpf_env "tcp_event option" bytes
  | TcpSetState bpf_env "tcp_event option" bytes

primrec tcp_step :: "tcp_prog \<Rightarrow> tcp_input \<Rightarrow> tcp_prog" where
  "tcp_step s (TcpRetransmit env slot ctx) = fst (tracepoint_tcp_retransmit env slot ctx s)"
| "tcp_step s (TcpSetState env slot ctx) = fst (tracepoint_inet_sock_set_state env slot ctx s)"

definition tcp_run :: "tcp_prog \<Rightarrow> tcp_input list \<Rightarrow> tcp_prog" where
  "tcp_run s is = foldl tcp_step s is"

definition tcp_init :: tcp_prog where "tcp_init = \<lparr>tcp_events = []\<rparr>"

lemmas tcp_handler_defs = tracepoint_tcp_retransmit_def tracepoint_inet_sock_set_state_def

section \<open>What a run submits\<close>

text \<open>The record one step submits.\<close>

definition tcp_emits :: "tcp_input \<Rightarrow> tcp_event list" where
  "tcp_emits i = tcp_events (tcp_step tcp_init i)"

lemma tcp_step_append: "tcp_events (tcp_step s i) = tcp_events s @ tcp_emits i"
  by (cases i) (simp_all add: tcp_emits_def tcp_init_def tcp_handler_defs Let_def split: option.splits)

lemma tcp_run_events: "tcp_events (tcp_run s is) = tcp_events s @ concat (map tcp_emits is)"
  by (induction "is" arbitrary: s) (simp_all add: tcp_run_def tcp_step_append)

lemmas tcp_emit_defs = tcp_emits_def tcp_init_def tcp_handler_defs Let_def

primrec tcp_in_slot :: "tcp_input \<Rightarrow> tcp_event option" where
  "tcp_in_slot (TcpRetransmit _ slot _) = slot"
| "tcp_in_slot (TcpSetState _ slot _) = slot"

text \<open>The TCP event type a hook invocation stands for, \<open>None\<close> when it is to be ignored: not
  IPv4, or an intermediate state.\<close>

primrec tcp_kind :: "tcp_input \<Rightarrow> u8 option" where
  "tcp_kind (TcpRetransmit _ _ ctx) =
     (if ctx_load st_trace_event_raw_tcp_retransmit_skb ''family'' ctx = AF_INET
      then Some TCP_EVENT_RETRANSMIT else None)"
| "tcp_kind (TcpSetState _ _ ctx) =
     (if ctx_load st_trace_event_raw_inet_sock_set_state ''family'' ctx = AF_INET
      then state_event_type (ctx_load st_trace_event_raw_inet_sock_set_state ''newstate'' ctx)
      else None)"

lemma tcp_emits_types:
  "map te_event_type (tcp_emits i) =
     (case tcp_kind i of None \<Rightarrow> [] | Some ty \<Rightarrow> if tcp_in_slot i = None then [] else [ty])"
  by (cases i) (auto simp: tcp_emit_defs split: option.splits)

lemma tcp_emits_fields:
  "e \<in> set (tcp_emits i) \<Longrightarrow> te_family e = AF_INET \<and> te_rtt_us e = 0 \<and> te_retransmits e = 0"
  by (cases i) (auto simp: tcp_emit_defs split: option.splits if_splits)

section \<open>Properties\<close>

text \<open>The records follow the hooks. In every run the event types submitted are exactly the
  kinds of the hook invocations that found space in the ring buffer, in their order: retransmit
  for an IPv4 retransmission, connect and close for an IPv4 socket entering ESTABLISHED and
  CLOSE, nothing for other families and states.\<close>

theorem tcp_types_follow_hooks:
  "map te_event_type (tcp_events (tcp_run tcp_init is)) =
   concat (map (\<lambda>i. case tcp_kind i of None \<Rightarrow> []
                   | Some ty \<Rightarrow> if tcp_in_slot i = None then [] else [ty]) is)"
  by (simp add: tcp_run_events tcp_init_def map_concat comp_def tcp_emits_types)

text \<open>No round-trip time is ever measured. Every record of every run is a connect, close or
  retransmit record of an IPv4 connection, and its RTT and retransmit counters are zero; the
  record type for RTT samples is never used.\<close>

theorem tcp_rtt_never_measured:
  "list_all (\<lambda>e. te_event_type e \<in> {TCP_EVENT_CONNECT, TCP_EVENT_CLOSE, TCP_EVENT_RETRANSMIT} \<and>
     te_event_type e \<noteq> TCP_EVENT_RTT \<and> te_family e = AF_INET \<and> te_rtt_us e = 0 \<and>
     te_retransmits e = 0) (tcp_events (tcp_run tcp_init is))"
proof -
  have kinds: "te_event_type e \<in> {TCP_EVENT_CONNECT, TCP_EVENT_CLOSE, TCP_EVENT_RETRANSMIT}"
    if "e \<in> set (tcp_emits i)" for e i
  proof -
    have "te_event_type e \<in> set (map te_event_type (tcp_emits i))" using that by simp
    then show ?thesis unfolding tcp_emits_types
      by (cases i) (auto simp: state_event_type_def split: if_splits)
  qed
  have "te_event_type e \<noteq> TCP_EVENT_RTT"
    if "te_event_type e \<in> {TCP_EVENT_CONNECT, TCP_EVENT_CLOSE, TCP_EVENT_RETRANSMIT}" for e :: tcp_event
    using that by (auto simp: TCP_EVENT_CONNECT_def TCP_EVENT_CLOSE_def TCP_EVENT_RETRANSMIT_def
        TCP_EVENT_RTT_def)
  with kinds show ?thesis
    by (auto simp: list_all_iff tcp_run_events tcp_init_def tcp_emits_fields)
qed


end
