(* ===== verification/FdTrack.thy ===== *)
theory FdTrack
  imports Tracker
begin

text \<open>
  \<open>internal/bpf/c/fd_track.c\<close>: the descriptor tracer. A successful \<open>openat\<close> submits an open
  record, a successful \<open>close\<close> a close record; there is no map.
\<close>

record fd_prog =
  fd_events :: "fd_event list"

definition tracepoint_sys_exit_openat ::
  "bpf_env \<Rightarrow> fd_event option \<Rightarrow> bytes \<Rightarrow> fd_prog \<Rightarrow> fd_prog \<times> int" where
  "tracepoint_sys_exit_openat env slot ctx s =
     (let ret = ctx_load st_trace_event_raw_sys_exit ''ret'' ctx :: u64 in
      if sint ret < 0 then (s, 0)
      else case slot of
        None \<Rightarrow> (s, 0)
      | Some e \<Rightarrow>
          (let pid_tgid = h_pid_tgid env;
               e = e\<lparr>fe_timestamp_ns := h_ktime env 0,
                     fe_cgroup_id := h_cgroup_id env,
                     fe_pid := hi32 pid_tgid,
                     fe_fd := ucast ret,
                     fe_op := FD_OP_OPEN,
                     fe_pad := replicate 7 0,
                     fe_comm := h_comm env\<rparr>
           in (s\<lparr>fd_events := fd_events s @ [e]\<rparr>, 0)))"

definition tracepoint_sys_exit_close ::
  "bpf_env \<Rightarrow> fd_event option \<Rightarrow> bytes \<Rightarrow> fd_prog \<Rightarrow> fd_prog \<times> int" where
  "tracepoint_sys_exit_close env slot ctx s =
     (if ctx_load st_trace_event_raw_sys_exit ''ret'' ctx \<noteq> (0 :: u64) then (s, 0)
      else case slot of
        None \<Rightarrow> (s, 0)
      | Some e \<Rightarrow>
          (let pid_tgid = h_pid_tgid env;
               e = e\<lparr>fe_timestamp_ns := h_ktime env 0,
                     fe_cgroup_id := h_cgroup_id env,
                     fe_pid := hi32 pid_tgid,
                     fe_fd := 0,
                     fe_op := FD_OP_CLOSE,
                     fe_pad := replicate 7 0,
                     fe_comm := h_comm env\<rparr>
           in (s\<lparr>fd_events := fd_events s @ [e]\<rparr>, 0)))"

datatype fd_input =
    FdOpenat bpf_env "fd_event option" bytes
  | FdClose bpf_env "fd_event option" bytes

primrec fd_step :: "fd_prog \<Rightarrow> fd_input \<Rightarrow> fd_prog" where
  "fd_step s (FdOpenat env slot ctx) = fst (tracepoint_sys_exit_openat env slot ctx s)"
| "fd_step s (FdClose env slot ctx) = fst (tracepoint_sys_exit_close env slot ctx s)"

definition fd_run :: "fd_prog \<Rightarrow> fd_input list \<Rightarrow> fd_prog" where
  "fd_run s is = foldl fd_step s is"

definition fd_init :: fd_prog where "fd_init = \<lparr>fd_events = []\<rparr>"

lemmas fd_handler_defs = tracepoint_sys_exit_openat_def tracepoint_sys_exit_close_def

definition fd_emits :: "fd_input \<Rightarrow> fd_event list" where
  "fd_emits i = fd_events (fd_step fd_init i)"

lemma fd_step_append: "fd_events (fd_step s i) = fd_events s @ fd_emits i"
  by (cases i) (simp_all add: fd_emits_def fd_init_def fd_handler_defs Let_def split: option.splits)

lemma fd_run_events: "fd_events (fd_run s is) = fd_events s @ concat (map fd_emits is)"
  by (induction "is" arbitrary: s) (simp_all add: fd_run_def fd_step_append)

text \<open>The descriptor operation of process \<open>p\<close> a hook invocation observes: a successful open or
  close, given space in the ring buffer.\<close>

primrec fd_observes :: "u32 \<Rightarrow> u8 \<Rightarrow> fd_input \<Rightarrow> bool" where
  "fd_observes p op (FdOpenat env slot ctx) \<longleftrightarrow>
     op = FD_OP_OPEN \<and> slot \<noteq> None \<and> hi32 (h_pid_tgid env) = p \<and>
     0 \<le> sint (ctx_load st_trace_event_raw_sys_exit ''ret'' ctx :: u64)"
| "fd_observes p op (FdClose env slot ctx) \<longleftrightarrow>
     op = FD_OP_CLOSE \<and> slot \<noteq> None \<and> hi32 (h_pid_tgid env) = p \<and>
     ctx_load st_trace_event_raw_sys_exit ''ret'' ctx = (0 :: u64)"

lemma fd_emits_count:
  "length (filter (\<lambda>e. fe_pid e = p \<and> fe_op e = op) (fd_emits i)) =
     (if fd_observes p op i then 1 else 0)"
  by (cases i) (auto simp: fd_emits_def fd_init_def fd_handler_defs Let_def split: option.splits)

section \<open>Properties\<close>

text \<open>Opens and closes are counted exactly. In every run the number of open records of a
  process is the number of its \<open>openat\<close> exits with a non-negative result that found space in
  the ring buffer, and likewise for closes with result zero; so the difference of the two, the
  leak signal, is the difference of the observed operations.\<close>

theorem fd_records_count:
  "length (filter (\<lambda>e. fe_pid e = p \<and> fe_op e = op) (fd_events (fd_run fd_init is))) =
   length (filter (fd_observes p op) is)"
  by (induction "is")
    (simp_all add: fd_run_events fd_init_def filter_concat comp_def fd_emits_count)

text \<open>The whole record is written. The submitted record does not depend on what the reserved
  memory held, a close record always carries descriptor 0, and an open of descriptor 0 is
  recorded like any other.\<close>

theorem fd_record_complete:
  "fd_emits (FdOpenat env (Some e0) ctx) = fd_emits (FdOpenat env (Some e1) ctx) \<and>
   fd_emits (FdClose env (Some e0) ctx) = fd_emits (FdClose env (Some e1) ctx) \<and>
   list_all (\<lambda>e. fe_fd e = 0) (fd_emits (FdClose env (Some e0) ctx)) \<and>
   length (fd_emits (FdOpenat env (Some e0) (zero_with st_trace_event_raw_sys_exit []))) = 1"
  by (simp add: fd_emits_def fd_init_def fd_handler_defs Let_def load_eval
      st_trace_event_raw_sys_exit_def le_word_def)

end
