(* ===== verification/OomTrack.thy ===== *)
theory OomTrack
  imports Tracker
begin

text \<open>
  \<open>internal/bpf/c/oom_track.c\<close>: the kprobe on \<open>oom_kill_process\<close>. Its first argument comes
  from the register file; the victim and its fields are read from kernel memory through the
  CO-RE offsets of \<open>oom_control\<close> and \<open>task_struct\<close>.
\<close>

text \<open>\<open>BPF_CORE_READ(p, f)\<close>: the address of the field and the bytes read there; the macro reads
  as many bytes as the field has.\<close>

definition core_addr :: "ctype \<Rightarrow> u64 \<Rightarrow> string \<Rightarrow> u64" where
  "core_addr t p f = p + of_nat (coffset t f)"

definition BPF_CORE_READ :: "bpf_env \<Rightarrow> ctype \<Rightarrow> u64 \<Rightarrow> string \<Rightarrow> 'a::len word" where
  "BPF_CORE_READ env t p f = le_word (h_core_read env (core_addr t p f) (cmsize t f))"

record oom_prog =
  oom_events :: "oom_event list"

definition kprobe_oom_kill ::
  "bpf_env \<Rightarrow> oom_event option \<Rightarrow> bytes \<Rightarrow> oom_prog \<Rightarrow> oom_prog \<times> int" where
  "kprobe_oom_kill env slot regs s =
     (let oc = ctx_load st_pt_regs ''di'' regs;
          victim = BPF_CORE_READ env st_oom_control oc ''chosen''
      in if victim = 0 then (s, 0)
         else case slot of
           None \<Rightarrow> (s, 0)
         | Some e \<Rightarrow>
             (let e = e\<lparr>oe_timestamp_ns := h_ktime env 0,
                        oe_cgroup_id := h_cgroup_id env,
                        oe_total_pages := BPF_CORE_READ env st_oom_control oc ''totalpages'',
                        oe_rss_pages := 0,
                        oe_pid := BPF_CORE_READ env st_task_struct victim ''tgid'',
                        oe_triggered_pid := hi32 (h_pid_tgid env),
                        oe_oom_score := ucast
                          (BPF_CORE_READ env st_oom_control oc ''chosen_points'' :: u64),
                        oe_pad := 0\<rparr>;
                  e = e\<lparr>oe_comm := h_core_read_str env
                          (core_addr st_task_struct victim ''comm'') (oe_comm e)\<rparr>
              in (s\<lparr>oom_events := oom_events s @ [e]\<rparr>, 0)))"

section \<open>The kernel fields it reads\<close>

lemma oom_control_fields [layout_simps]:
  "cfield st_oom_control ''totalpages'' = Some (32, c_unsigned_long)"
  "cfield st_oom_control ''chosen'' = Some (40, Ptr ''struct task_struct'')"
  "cfield st_oom_control ''chosen_points'' = Some (48, c_long)"
  by (simp_all add: st_oom_control_def layout_simps layout_eval)

lemmas task_struct_defs = st_task_struct_def st_task_struct_members_1_def
  st_task_struct_members_2_def

lemma task_struct_fields [layout_simps]:
  "cfield st_task_struct ''tgid'' = Some (2708, td_pid_t)"
  "cfield st_task_struct ''comm'' = Some (3248, Arr c_char 16)"
  by (simp_all add: task_struct_defs layout_simps layout_eval)

lemma pt_regs_di [layout_simps]: "cfield st_pt_regs ''di'' = Some (112, c_unsigned_long)"
  by (simp add: st_pt_regs_def layout_simps layout_eval)

lemma oom_core_reads [helper_simps]:
  "BPF_CORE_READ env st_oom_control p ''chosen'' = le_word (h_core_read env (p + 40) 8)"
  "BPF_CORE_READ env st_oom_control p ''totalpages'' = le_word (h_core_read env (p + 32) 8)"
  "BPF_CORE_READ env st_oom_control p ''chosen_points'' = le_word (h_core_read env (p + 48) 8)"
  "BPF_CORE_READ env st_task_struct p ''tgid'' = le_word (h_core_read env (p + 2708) 4)"
  "core_addr st_task_struct p ''comm'' = p + 3248"
  by (simp_all add: BPF_CORE_READ_def core_addr_def coffset_def cmsize_def layout_simps)

text \<open>Every CO-RE access of the program: type, field, and the number of bytes of the
  destination.\<close>

definition oom_accesses :: "(ctype \<times> string \<times> nat) list" where
  "oom_accesses =
     [(st_pt_regs, ''di'', 8), (st_oom_control, ''chosen'', 8), (st_oom_control, ''totalpages'', 8),
      (st_task_struct, ''tgid'', 4), (st_oom_control, ''chosen_points'', 8),
      (st_task_struct, ''comm'', TASK_COMM_LEN)]"

definition oom_emits :: "bpf_env \<Rightarrow> oom_event option \<Rightarrow> bytes \<Rightarrow> oom_event list" where
  "oom_emits env slot regs = oom_events (fst (kprobe_oom_kill env slot regs \<lparr>oom_events = []\<rparr>))"

lemma oom_step_append:
  "oom_events (fst (kprobe_oom_kill env slot regs s)) = oom_events s @ oom_emits env slot regs"
  by (simp add: oom_emits_def kprobe_oom_kill_def Let_def split: option.splits)

section \<open>Properties\<close>

text \<open>The OOM tracer reads kernel memory in bounds. Each field it accesses exists in the kernel
  type, lies inside the object, and has exactly the size of the variable it is read into.\<close>

theorem oom_accesses_in_bounds:
  "list_all (\<lambda>(t, f, n). cfield t f \<noteq> None \<and> coffset t f + n \<le> csize t \<and> cmsize t f = n)
     oom_accesses"
  by (simp add: oom_accesses_def coffset_def cmsize_def layout_simps kerno_consts)

text \<open>What one OOM kill submits. The control structure is the first argument of the probed
  function; nothing is submitted when its \<open>chosen\<close> pointer (offset 40) is NULL or the ring
  buffer is full; otherwise one record with the page total, the victim's thread group id, the
  badness points truncated to 32 bits and the victim's name, read at their kernel offsets.\<close>

theorem oom_record:
  "oom_emits env slot regs =
     (let oc = ctx_load st_pt_regs ''di'' regs :: u64;
          victim = le_word (h_core_read env (oc + 40) 8) :: u64
      in if victim = 0 then [] else case slot of None \<Rightarrow> [] | Some e0 \<Rightarrow>
        [\<lparr>oe_timestamp_ns = h_ktime env 0, oe_cgroup_id = h_cgroup_id env,
          oe_total_pages = le_word (h_core_read env (oc + 32) 8), oe_rss_pages = 0,
          oe_pid = le_word (h_core_read env (victim + 2708) 4),
          oe_triggered_pid = hi32 (h_pid_tgid env),
          oe_oom_score = ucast (le_word (h_core_read env (oc + 48) 8) :: u64), oe_pad = 0,
          oe_comm = h_core_read_str env (victim + 3248) (oe_comm e0)\<rparr>])"
  unfolding oom_emits_def kprobe_oom_kill_def oom_core_reads Let_def
  by (cases slot) simp_all

end
