(* ===== verification/DiskIo.thy ===== *)
theory DiskIo
  imports Tracker
begin

text \<open>
  \<open>internal/bpf/c/disk_io.c\<close>: the block I/O latency tracer. \<open>block_rq_issue\<close> stores the issue
  time under the sector number, \<open>block_rq_complete\<close> takes it out and submits a record.
\<close>

definition io_start_decl :: map_decl where
  "io_start_decl = KERNO_HASH td___u64 td___u64 MAX_ENTRIES"

record 'm disk_prog =
  io_start :: 'm
  disk_events :: "disk_event list"

definition tracepoint_block_rq_issue ::
  "(u64, u64, 'm) hash_ops \<Rightarrow> bpf_env \<Rightarrow> bytes \<Rightarrow> 'm disk_prog \<Rightarrow> 'm disk_prog \<times> int" where
  "tracepoint_block_rq_issue ops env ctx s =
     (let sector = ctx_load st_trace_event_raw_block_rq ''sector'' ctx in
      if sector = 0 then (s, 0)
      else let ts = h_ktime env 0
           in (s\<lparr>io_start := map_update_elem ops (io_start s) sector ts\<rparr>, 0))"

text \<open>The operation a completion reports: the first character of the eight copied from
  \<open>rwbs\<close>, or \<open>S\<close> (83) when one of the next three is \<open>S\<close> or \<open>F\<close> (70).\<close>

definition disk_op :: "bytes \<Rightarrow> u8" where
  "disk_op rwbs =
     (let op = rwbs ! 0 in
      if rwbs ! 1 = 83 \<or> rwbs ! 1 = 70 \<or>
         rwbs ! 2 = 83 \<or> rwbs ! 2 = 70 \<or>
         rwbs ! 3 = 83 \<or> rwbs ! 3 = 70
      then 83 else op)"

definition tracepoint_block_rq_complete ::
  "(u64, u64, 'm) hash_ops \<Rightarrow> bpf_env \<Rightarrow> disk_event option \<Rightarrow> bytes \<Rightarrow>
   'm disk_prog \<Rightarrow> 'm disk_prog \<times> int" where
  "tracepoint_block_rq_complete ops env slot ctx s =
     (let sector = ctx_load st_trace_event_raw_block_rq_completion ''sector'' ctx in
      case map_lookup_elem ops (io_start s) sector of
        None \<Rightarrow> (s, 0)
      | Some start_ts \<Rightarrow>
          (let latency = h_ktime env 0 - start_ts;
               s = s\<lparr>io_start := map_delete_elem ops (io_start s) sector\<rparr>
           in case slot of
                None \<Rightarrow> (s, 0)
              | Some e \<Rightarrow>
                  (let e = e\<lparr>de_timestamp_ns := h_ktime env 1,
                             de_latency_ns := latency,
                             de_sector := sector,
                             de_dev := ctx_load st_trace_event_raw_block_rq_completion ''dev'' ctx,
                             de_nr_bytes :=
                               ctx_load st_trace_event_raw_block_rq_completion ''nr_sector'' ctx * 512,
                             de_pid := hi32 (h_pid_tgid env)\<rparr>;
                       rwbs = h_probe env 0
                         (take 8 (cload st_trace_event_raw_block_rq_completion ''rwbs'' ctx));
                       e = e\<lparr>de_op := disk_op rwbs,
                             de_pad := replicate 3 0,
                             de_comm := h_comm env\<rparr>
                   in (s\<lparr>disk_events := disk_events s @ [e]\<rparr>, 0))))"

datatype disk_input =
    DiskIssue bpf_env bytes
  | DiskComplete bpf_env "disk_event option" bytes

primrec disk_step ::
  "(u64, u64, 'm) hash_ops \<Rightarrow> 'm disk_prog \<Rightarrow> disk_input \<Rightarrow> 'm disk_prog" where
  "disk_step ops s (DiskIssue env ctx) = fst (tracepoint_block_rq_issue ops env ctx s)"
| "disk_step ops s (DiskComplete env slot ctx) = fst (tracepoint_block_rq_complete ops env slot ctx s)"

definition disk_run ::
  "(u64, u64, 'm) hash_ops \<Rightarrow> 'm disk_prog \<Rightarrow> disk_input list \<Rightarrow> 'm disk_prog" where
  "disk_run ops s is = foldl (disk_step ops) s is"

definition disk_init :: "'m \<Rightarrow> 'm disk_prog" where
  "disk_init m = \<lparr>io_start = m, disk_events = []\<rparr>"

section \<open>The handlers as a tracker\<close>

primrec disk_sector :: "disk_input \<Rightarrow> u64" where
  "disk_sector (DiskIssue _ ctx) = ctx_load st_trace_event_raw_block_rq ''sector'' ctx"
| "disk_sector (DiskComplete _ _ ctx) =
     ctx_load st_trace_event_raw_block_rq_completion ''sector'' ctx"

primrec disk_ev :: "disk_input \<Rightarrow> u64 tev option" where
  "disk_ev (DiskIssue env ctx) =
     (if ctx_load st_trace_event_raw_block_rq ''sector'' ctx = (0 :: u64) then None
      else Some (TStart (ctx_load st_trace_event_raw_block_rq ''sector'' ctx) (h_ktime env 0)))"
| "disk_ev (DiskComplete _ _ ctx) =
     Some (TFinish (ctx_load st_trace_event_raw_block_rq_completion ''sector'' ctx))"

lemma touches_disk_ev: "k \<noteq> 0 \<Longrightarrow> touches k (disk_ev i) \<longleftrightarrow> disk_sector i = k"
  by (cases i) (auto simp: touches_def)

definition disk_record :: "bpf_env \<Rightarrow> bytes \<Rightarrow> u64 \<Rightarrow> disk_event" where
  "disk_record env ctx t =
     \<lparr>de_timestamp_ns = h_ktime env 1, de_latency_ns = h_ktime env 0 - t,
      de_sector = ctx_load st_trace_event_raw_block_rq_completion ''sector'' ctx,
      de_dev = ctx_load st_trace_event_raw_block_rq_completion ''dev'' ctx,
      de_nr_bytes = ctx_load st_trace_event_raw_block_rq_completion ''nr_sector'' ctx * 512,
      de_pid = hi32 (h_pid_tgid env),
      de_op = disk_op (h_probe env 0
        (take 8 (cload st_trace_event_raw_block_rq_completion ''rwbs'' ctx))),
      de_pad = replicate 3 0, de_comm = h_comm env\<rparr>"

primrec disk_report :: "disk_input \<Rightarrow> u64 \<Rightarrow> disk_event list" where
  "disk_report (DiskIssue env ctx) t = []"
| "disk_report (DiskComplete env slot ctx) t =
     (case slot of None \<Rightarrow> [] | Some e \<Rightarrow> [disk_record env ctx t])"

lemmas disk_handler_defs = tracepoint_block_rq_issue_def tracepoint_block_rq_complete_def

lemma disk_tracker:
  "bpf_hash ops cap ok \<Longrightarrow>
   tracker_out ops cap ok (disk_step ops) io_start disk_ev disk_events disk_report"
proof (intro tracker_out.intro tracker_prog.intro tracker_prog_axioms.intro tracker_out_axioms.intro)
  fix i s
  show "disk_ev i = None \<Longrightarrow> io_start (disk_step ops s i) = io_start s"
    by (cases i) (auto simp: disk_handler_defs split: if_splits)
  show "disk_ev i = Some (TStart k t) \<Longrightarrow>
      io_start (disk_step ops s i) = map_update_elem ops (io_start s) k t" for k t
    by (cases i) (auto simp: disk_handler_defs Let_def split: if_splits)
  show "disk_ev i = Some (TFinish k) \<Longrightarrow> map_lookup_elem ops (io_start s) k \<noteq> None \<Longrightarrow>
      io_start (disk_step ops s i) = map_delete_elem ops (io_start s) k" for k
    by (cases i) (auto simp: disk_handler_defs Let_def split: option.splits if_splits)
  show "disk_ev i = Some (TFinish k) \<Longrightarrow> map_lookup_elem ops (io_start s) k = None \<Longrightarrow>
      io_start (disk_step ops s i) = io_start s" for k
    by (cases i) (auto simp: disk_handler_defs Let_def split: option.splits if_splits)
  show "disk_events (disk_step ops s i) = disk_events s @
      (case measured (map_lookup_elem ops (io_start s)) (disk_ev i) of
         None \<Rightarrow> [] | Some t \<Rightarrow> disk_report i t)"
    by (cases i)
      (auto simp: disk_handler_defs Let_def measured_def disk_record_def split: option.splits)
  show "length (disk_report i t) \<le> 1" for t
    by (cases i) (auto split: option.splits)
qed

interpretation disk_kh: tracker_out "khash cap" cap "khash_inv cap" "disk_step (khash cap)"
  io_start disk_ev disk_events disk_report for cap
  by (rule disk_tracker) unfold_locales

section \<open>Properties\<close>

text \<open>Every block I/O record measures one request. The run contains an issue and a later
  completion of the reported sector with no other issue or completion of that sector between
  them, the latency is the difference of the two timestamps, the sector is not zero, and size,
  operation, process and device are those of the completion; the byte count is exact for
  requests below 2^23 sectors.\<close>

theorem disk_event_pairing:
  assumes "bpf_hash ops MAX_ENTRIES ok" "ok m" "map_lookup_elem ops m = Map.empty"
    and "e \<in> set (disk_events (disk_run ops (disk_init m) is))"
  shows "\<exists>xs env0 c0 ys env1 e0 c1 zs.
    is = xs @ DiskIssue env0 c0 # ys @ DiskComplete env1 (Some e0) c1 # zs \<and>
    ctx_load st_trace_event_raw_block_rq ''sector'' c0 = de_sector e \<and>
    ctx_load st_trace_event_raw_block_rq_completion ''sector'' c1 = de_sector e \<and>
    de_sector e \<noteq> 0 \<and> (\<forall>j \<in> set ys. disk_sector j \<noteq> de_sector e) \<and>
    de_latency_ns e = h_ktime env1 0 - h_ktime env0 0 \<and>
    de_dev e = ctx_load st_trace_event_raw_block_rq_completion ''dev'' c1 \<and>
    (unat (ctx_load st_trace_event_raw_block_rq_completion ''nr_sector'' c1 :: u32) < 2 ^ 23 \<longrightarrow>
      unat (de_nr_bytes e) =
      512 * unat (ctx_load st_trace_event_raw_block_rq_completion ''nr_sector'' c1 :: u32)) \<and>
    de_op e = disk_op (h_probe env1 0
      (take 8 (cload st_trace_event_raw_block_rq_completion ''rwbs'' c1))) \<and>
    de_pid e = hi32 (h_pid_tgid env1)"
proof -
  have start: "ok (io_start (disk_init m))" "disk_events (disk_init m) = []"
    "map_lookup_elem ops (io_start (disk_init m)) = Map.empty"
    using assms(2,3) by (simp_all add: disk_init_def)
  obtain xs a ys b zs k t where run: "is = xs @ a # ys @ b # zs"
    and a: "disk_ev a = Some (TStart k t)" and b: "disk_ev b = Some (TFinish k)"
    and ys: "\<forall>j \<in> set ys. \<not> touches k (disk_ev j)" and e: "e \<in> set (disk_report b t)"
    using tracker_out.report_origin [OF disk_tracker [OF assms(1)] start(1,3,2)
        assms(4) [unfolded disk_run_def]] by blast
  from a obtain env0 c0 where a': "a = DiskIssue env0 c0" "t = h_ktime env0 0" "k \<noteq> 0"
      "k = ctx_load st_trace_event_raw_block_rq ''sector'' c0"
    by (cases a) (auto split: if_splits)
  from b e obtain env1 e0 c1 where b': "b = DiskComplete env1 (Some e0) c1" "e = disk_record env1 c1 t"
      "k = ctx_load st_trace_event_raw_block_rq_completion ''sector'' c1"
    by (cases b) (auto split: option.splits)
  have size: "unat (w * 512 :: u32) = 512 * unat w" if "unat w < 2 ^ 23" for w :: u32
    using that by (simp add: unat_word_ariths)
  from run a' b' ys size show ?thesis
    by (intro exI [of _ xs] exI [of _ env0] exI [of _ c0] exI [of _ ys] exI [of _ env1]
        exI [of _ e0] exI [of _ c1] exI [of _ zs]) (simp add: disk_record_def touches_disk_ev)
qed

text \<open>A 4 KiB write to sector 500 of device 9 is issued at time 1000 and completes at 251000.\<close>

definition demo_issue_ctx :: "u32 \<Rightarrow> u64 \<Rightarrow> bytes" where
  "demo_issue_ctx dev sector = zero_with st_trace_event_raw_block_rq
     [(''dev'', le_bytes 4 dev), (''sector'', le_bytes 8 sector)]"

definition demo_complete_ctx :: "u32 \<Rightarrow> u64 \<Rightarrow> bytes" where
  "demo_complete_ctx dev sector = zero_with st_trace_event_raw_block_rq_completion
     [(''dev'', le_bytes 4 dev), (''sector'', le_bytes 8 sector),
      (''nr_sector'', le_bytes 4 (8 :: u32)), (''rwbs'', [87, 83, 0, 0, 0, 0, 0, 0, 0, 0])]"

lemma demo_disk_ctx [abi_simps]:
  "ctx_load st_trace_event_raw_block_rq ''sector'' (demo_issue_ctx d k) = (k :: u64)"
  "ctx_load st_trace_event_raw_block_rq ''dev'' (demo_issue_ctx d k) = (d :: u32)"
  "ctx_load st_trace_event_raw_block_rq_completion ''sector'' (demo_complete_ctx d k) = (k :: u64)"
  "ctx_load st_trace_event_raw_block_rq_completion ''dev'' (demo_complete_ctx d k) = (d :: u32)"
  "ctx_load st_trace_event_raw_block_rq_completion ''nr_sector'' (demo_complete_ctx d k) = (8 :: u32)"
  "cload st_trace_event_raw_block_rq_completion ''rwbs'' (demo_complete_ctx d k) =
     [87, 83, 0, 0, 0, 0, 0, 0, 0, 0]"
  by (simp_all add: demo_issue_ctx_def demo_complete_ctx_def load_eval
      st_trace_event_raw_block_rq_def st_trace_event_raw_block_rq_completion_def)

definition demo_disk_slot :: disk_event where
  "demo_disk_slot = \<lparr>de_timestamp_ns = 0, de_latency_ns = 0, de_sector = 0, de_dev = 0,
     de_nr_bytes = 0, de_pid = 0, de_op = 0, de_pad = [], de_comm = []\<rparr>"

definition demo_disk_run :: "disk_input list" where
  "demo_disk_run =
     [DiskIssue (demo_env 42 1000) (demo_issue_ctx 9 500),
      DiskComplete (demo_env 0 251000) (Some demo_disk_slot) (demo_complete_ctx 9 500)]"

lemmas disk_eval = disk_run_def disk_init_def disk_handler_defs khash_simps kerno_consts
  helper_simps abi_simps

theorem disk_event_pairing_witness:
  "let es = disk_events (disk_run (khash MAX_ENTRIES) (disk_init []) demo_disk_run)
   in es \<noteq> [] \<and> de_sector (hd es) \<noteq> 0 \<and> unat (de_nr_bytes (hd es)) = 4096"
proof -
  let ?es = "disk_events (disk_run (khash MAX_ENTRIES) (disk_init []) demo_disk_run)"
  have es: "?es \<noteq> []" by (simp add: demo_disk_run_def disk_eval)
  have "de_nr_bytes (hd ?es) = 4096" by (simp add: demo_disk_run_def disk_eval)
  then show ?thesis
    using disk_event_pairing [OF kh.bpf_hash_axioms khash_empty, of "hd ?es" demo_disk_run] es
    by (auto simp: Let_def)
qed

text \<open>A request that is issued and completed is reported. When a sector other than zero is
  issued while the map has room and later completed, with nothing on that sector in between and
  space in the ring buffer, the run submits a record of that sector with that latency.\<close>

theorem disk_event_reported:
  assumes "bpf_hash ops MAX_ENTRIES ok" "ok m" "map_lookup_elem ops m = Map.empty"
    and "is = xs @ DiskIssue env0 c0 # ys @ DiskComplete env1 (Some e0) c1 # zs"
    and "ctx_load st_trace_event_raw_block_rq ''sector'' c0 = k"
    and "ctx_load st_trace_event_raw_block_rq_completion ''sector'' c1 = k"
    and "k \<noteq> 0" and "\<forall>j \<in> set ys. disk_sector j \<noteq> k"
    and "card (dom (pending MAX_ENTRIES (map disk_ev xs))) < MAX_ENTRIES"
  shows "\<exists>e \<in> set (disk_events (disk_run ops (disk_init m) is)).
    de_sector e = k \<and> de_latency_ns e = h_ktime env1 0 - h_ktime env0 0"
proof -
  have "set (disk_report (DiskComplete env1 (Some e0) c1) (h_ktime env0 0))
      \<subseteq> set (disk_events (disk_run ops (disk_init m) is))"
    unfolding disk_run_def
    by (rule tracker_out.report_complete [OF disk_tracker [OF assms(1)] _ _ assms(4) _ _ _ assms(9),
          where k = k])
      (use assms in \<open>simp_all add: disk_init_def touches_disk_ev\<close>)
  then show ?thesis using assms(6) by (force simp: disk_record_def)
qed

theorem disk_event_reported_witness:
  "\<exists>e \<in> set (disk_events (disk_run (khash MAX_ENTRIES) (disk_init []) demo_disk_run)).
     de_sector e = 500 \<and> de_latency_ns e = 250000"
  using disk_event_reported [OF kh.bpf_hash_axioms khash_empty, of demo_disk_run "[]"
      "demo_env 42 1000" "demo_issue_ctx 9 500" "[]" "demo_env 0 251000" demo_disk_slot
      "demo_complete_ctx 9 500" "[]" 500]
  by (auto simp: abi_simps helper_simps kerno_consts demo_disk_run_def)

text \<open>The issue times are kept per sector number and not per device, so requests to the same
  sector of two devices are confused: here device 8 issues sector 500 at time 1000, device 9
  issues the same sector at time 200000, and the completion on device 8 at time 251000 is
  reported with 51 microseconds instead of 250.\<close>

theorem disk_devices_collide:
  "disk_events (disk_run (khash MAX_ENTRIES) (disk_init [])
     [DiskIssue (demo_env 42 1000) (demo_issue_ctx 8 500),
      DiskIssue (demo_env 43 200000) (demo_issue_ctx 9 500),
      DiskComplete (demo_env 0 251000) (Some demo_disk_slot) (demo_complete_ctx 8 500)]) =
   [disk_record (demo_env 0 251000) (demo_complete_ctx 8 500) 200000] \<and>
   de_dev (disk_record (demo_env 0 251000) (demo_complete_ctx 8 500) 200000) = 8 \<and>
   de_latency_ns (disk_record (demo_env 0 251000) (demo_complete_ctx 8 500) 200000) = 51000"
  by (simp add: disk_eval disk_record_def disk_op_def Let_def)

end
