(* ===== verification/Float64.thy ===== *)
theory Float64
  imports Prelude Complex_Main
begin

text \<open>
  The part of Go's float64 arithmetic the program uses: every operation is the exact result
  rounded to the nearest double, and for the magnitudes that occur neither overflow nor the
  subnormal range is reached. A double is its value, a rational number.
\<close>

section \<open>Rounding\<close>

text \<open>The float64 operations used are correctly rounded. \<open>f64_round x\<close> is the double nearest to
  the non-negative number \<open>x\<close>, ties to even, for \<open>x\<close> between \<open>2 ^ -64\<close> and the largest double:
  \<open>f64_exp x\<close> is the exponent of the last of its 53 significant bits.\<close>

fun bit_len :: "nat \<Rightarrow> nat" where
  "bit_len n = (if n = 0 then 0 else Suc (bit_len (n div 2)))"

declare bit_len.simps [simp del]

definition f64_exp :: "rat \<Rightarrow> int" where
  "f64_exp x = int (bit_len (nat \<lfloor>x * 2 ^ 64\<rfloor>)) - 117"

definition round_half_even :: "rat \<Rightarrow> int" where
  "round_half_even x =
     (let f = \<lfloor>x\<rfloor>; d = x - of_int f
      in if d < 1 / 2 then f else if 1 / 2 < d then f + 1 else if even f then f else f + 1)"

definition f64_round :: "rat \<Rightarrow> rat" where
  "f64_round x =
     (if x = 0 then 0 else of_int (round_half_even (x / 2 powi f64_exp x)) * 2 powi f64_exp x)"

text \<open>The same for a value of either sign.\<close>

definition f64 :: "rat \<Rightarrow> rat" where
  "f64 x = (if x < 0 then - f64_round (- x) else f64_round x)"

section \<open>Bit length\<close>

lemma bit_len_bounds: "0 < n \<Longrightarrow> 2 ^ (bit_len n - 1) \<le> n \<and> n < 2 ^ bit_len n \<and> 0 < bit_len n"
proof (induction n rule: bit_len.induct)
  case (1 n)
  show ?case
  proof (cases "n = 1")
    case True
    then show ?thesis by (simp add: bit_len.simps)
  next
    case False
    then have "0 < n div 2" using 1(2) by simp
    then have IH: "2 ^ (bit_len (n div 2) - 1) \<le> n div 2" "n div 2 < 2 ^ bit_len (n div 2)"
      "0 < bit_len (n div 2)" using 1 by simp_all
    have len: "bit_len n = Suc (bit_len (n div 2))" using 1(2) by (simp add: bit_len.simps)
    have "2 * 2 ^ (bit_len (n div 2) - 1) = (2::nat) ^ bit_len (n div 2)"
      using IH(3) by (simp flip: power_Suc)
    moreover have "2 * (n div 2) \<le> n" "n < 2 * (n div 2) + 2" by simp_all
    ultimately have "2 ^ bit_len (n div 2) \<le> n" "n < 2 * 2 ^ bit_len (n div 2)"
      using IH by linarith+
    then show ?thesis unfolding len by simp
  qed
qed

lemma bit_len_unique: "2 ^ k \<le> n \<Longrightarrow> n < 2 ^ Suc k \<Longrightarrow> bit_len n = Suc k"
proof -
  assume n: "2 ^ k \<le> n" "n < 2 ^ Suc k"
  then have "0 < n" by (meson less_le_trans zero_less_numeral zero_less_power)
  note b = bit_len_bounds [OF this]
  have "(2::nat) ^ k < 2 ^ bit_len n" "(2::nat) ^ (bit_len n - 1) < 2 ^ Suc k"
    using b n by linarith+
  then have "k < bit_len n" "bit_len n - 1 < Suc k" by (simp_all only: power_strict_increasing_iff)
  then show ?thesis by simp
qed

lemma bit_len_mono: "m \<le> n \<Longrightarrow> bit_len m \<le> bit_len n"
proof (cases "m = 0")
  case True
  then show ?thesis by (simp add: bit_len.simps)
next
  case False
  assume "m \<le> n"
  with False bit_len_bounds [of m] bit_len_bounds [of n]
  have "(2::nat) ^ (bit_len m - 1) < 2 ^ bit_len n" by linarith
  then have "bit_len m - 1 < bit_len n" by (simp only: power_strict_increasing_iff)
  then show ?thesis by simp
qed

section \<open>Exactness and error bound\<close>

lemma round_half_even_of_int: "round_half_even (of_int k) = k"
  by (simp add: round_half_even_def)

lemma round_half_even_err: "\<bar>of_int (round_half_even y) - y\<bar> \<le> 1 / 2"
  using floor_correct [of y] unfolding round_half_even_def Let_def by (auto simp: abs_le_iff)

lemma f64_exp_le:
  assumes "1 \<le> x * 2 ^ 64"
  shows "2 powi f64_exp x \<le> x / 2 ^ 52"
proof -
  define N where "N = nat \<lfloor>x * 2 ^ 64\<rfloor>"
  have "1 \<le> \<lfloor>x * 2 ^ 64\<rfloor>" using assms by simp
  then have N: "0 < N" "of_nat N \<le> x * 2 ^ 64" by (simp_all add: N_def)
  have L: "2 ^ (bit_len N - 1) \<le> N" "0 < bit_len N" using bit_len_bounds [OF N(1)] by simp_all
  have "f64_exp x = int (bit_len N - 1) - 116" using L(2) by (simp add: f64_exp_def N_def)
  then have "2 powi f64_exp x = (2::rat) ^ (bit_len N - 1) / 2 ^ 116"
    by (simp add: power_int_diff)
  also have "(2::rat) ^ (bit_len N - 1) \<le> of_nat N"
    using L(1) of_nat_le_iff [of "2 ^ (bit_len N - 1)" N, where 'a = rat] by simp
  then have "(2::rat) ^ (bit_len N - 1) / 2 ^ 116 \<le> x * 2 ^ 64 / 2 ^ 116"
    using N(2) by (intro divide_right_mono) (linarith, simp)
  finally show ?thesis by simp
qed

lemma f64_round_err:
  assumes "1 \<le> x * 2 ^ 64"
  shows "\<bar>f64_round x - x\<bar> \<le> x / 2 ^ 53"
proof -
  let ?u = "2 powi f64_exp x :: rat"
  have u: "0 < ?u" by simp
  have x: "x \<noteq> 0" using assms by auto
  have "f64_round x - x = (of_int (round_half_even (x / ?u)) - x / ?u) * ?u"
    using x u by (simp add: f64_round_def left_diff_distrib)
  then have "\<bar>f64_round x - x\<bar> = \<bar>of_int (round_half_even (x / ?u)) - x / ?u\<bar> * ?u"
    using u by (simp add: abs_mult)
  also have "\<dots> \<le> 1 / 2 * ?u"
    using round_half_even_err [of "x / ?u"] u by (intro mult_right_mono) simp_all
  also have "\<dots> \<le> 1 / 2 * (x / 2 ^ 52)" using f64_exp_le [OF assms] by (intro mult_left_mono) simp_all
  finally show ?thesis by simp
qed

lemma f64_round_of_nat:
  assumes "n < 2 ^ 53"
  shows "f64_round (of_nat n) = of_nat n"
proof (cases "n = 0")
  case True
  then show ?thesis by (simp add: f64_round_def)
next
  case False
  define N where "N = n * 2 ^ 64"
  have "of_nat n * 2 ^ 64 = (of_int (int N) :: rat)" by (simp add: N_def)
  then have e_def: "f64_exp (of_nat n) = int (bit_len N) - 117"
    unfolding f64_exp_def by (simp only: floor_of_int nat_int)
  have "0 < N" using False by (simp add: N_def)
  then have L: "2 ^ (bit_len N - 1) \<le> N" using bit_len_bounds by blast
  also have "N < 2 ^ 53 * 2 ^ 64" unfolding N_def using assms by (rule mult_strict_right_mono) simp
  also have "(2::nat) ^ 53 * 2 ^ 64 = 2 ^ 117" by simp
  finally have "bit_len N - 1 < 117" by (simp only: power_strict_increasing_iff)
  then have e: "f64_exp (of_nat n) \<le> 0" unfolding e_def by simp
  define k where "k = nat (- f64_exp (of_nat n :: rat))"
  have ek: "f64_exp (of_nat n) = - int k" using e unfolding k_def by linarith
  have powi: "2 powi f64_exp (of_nat n :: rat) = (1 :: rat) / 2 ^ k"
    unfolding ek power_int_minus power_int_of_nat by (rule inverse_eq_divide)
  have "of_nat n / (1 / 2 ^ k) = (of_int (int (n * 2 ^ k)) :: rat)" by simp
  then have "round_half_even (of_nat n / (1 / 2 ^ k)) = int (n * 2 ^ k)"
    by (simp only: round_half_even_of_int)
  then show ?thesis using False by (simp add: f64_round_def powi)
qed

lemma f64_of_int: "\<bar>n\<bar> < 2 ^ 53 \<Longrightarrow> f64 (of_int n) = of_int n"
  using f64_round_of_nat [of "nat n"] f64_round_of_nat [of "nat (- n)"] by (auto simp: f64_def)

end
