(* ===== verification/Histogram.thy ===== *)
theory Histogram
  imports Float64
begin

unbundle bit_operations_syntax

text \<open>
  \<open>internal/collector/aggregator/histogram.go\<close>: the log2-bucketed histogram the collectors keep
  per key. The mutex only makes each operation atomic.
\<close>

section \<open>The histogram\<close>

definition histBuckets :: nat where "histBuckets = 64"

record histogram =
  hg_buckets :: "u64 list"
  hg_count :: u64
  hg_sum :: u64
  hg_minV :: u64
  hg_maxV :: u64

definition hist_New :: histogram where
  "hist_New = \<lparr>hg_buckets = replicate histBuckets 0, hg_count = 0, hg_sum = 0,
               hg_minV = 0, hg_maxV = 0\<rparr>"

definition hist_Record :: "u64 \<Rightarrow> histogram \<Rightarrow> histogram" where
  "hist_Record v h =
     (let v = (if v = 0 then 1 else v);
          bucket = int (bit_len (unat v)) - 1;
          bucket = (if bucket < 0 then 0 else bucket);
          bucket = (if int histBuckets \<le> bucket then int histBuckets - 1 else bucket)
      in \<lparr>hg_buckets = (hg_buckets h)[nat bucket := hg_buckets h ! nat bucket + 1],
          hg_count = hg_count h + 1,
          hg_sum = hg_sum h + v,
          hg_minV = (if hg_minV h = 0 \<or> v < hg_minV h then v else hg_minV h),
          hg_maxV = (if hg_maxV h < v then v else hg_maxV h)\<rparr>)"

definition hist_bucketEstimate :: "histogram \<Rightarrow> nat \<Rightarrow> u64" where
  "hist_bucketEstimate h i =
     (if histBuckets - 1 \<le> i then hg_maxV h
      else let low = push_bit i 1;
               high = push_bit 1 low;
               mid = low + (high - low) div 2
           in if mid < hg_minV h then hg_minV h
              else if hg_maxV h < mid then hg_maxV h
              else mid)"

definition hist_target :: "u64 \<Rightarrow> rat \<Rightarrow> u64" where
  "hist_target cnt p =
     (let target = word_of_int \<lceil>f64_round (f64_round (f64_round (of_nat (unat cnt)) * p) / 100)\<rceil>
      in if target = 0 then 1 else target)"

text \<open>The loop over the buckets: the index of the first bucket at which the cumulative count
  reaches the target.\<close>

fun hist_scan :: "u64 \<Rightarrow> u64 \<Rightarrow> nat \<Rightarrow> u64 list \<Rightarrow> nat option" where
  "hist_scan target cum i [] = None"
| "hist_scan target cum i (b # bs) =
     (if target \<le> cum + b then Some i else hist_scan target (cum + b) (Suc i) bs)"

definition hist_Percentile :: "rat \<Rightarrow> histogram \<Rightarrow> u64" where
  "hist_Percentile p h =
     (if hg_count h = 0 then 0
      else if p \<le> 0 then hg_minV h
      else if 100 \<le> p then hg_maxV h
      else case hist_scan (hist_target (hg_count h) p) 0 0 (hg_buckets h) of
             Some i \<Rightarrow> hist_bucketEstimate h i
           | None \<Rightarrow> hg_maxV h)"

definition hist_Reset :: "histogram \<Rightarrow> histogram" where
  "hist_Reset h = \<lparr>hg_buckets = replicate histBuckets 0, hg_count = 0, hg_sum = 0,
                   hg_minV = 0, hg_maxV = 0\<rparr>"

definition hist_Merge :: "histogram \<Rightarrow> histogram \<Rightarrow> histogram" where
  "hist_Merge h other =
     \<lparr>hg_buckets = map2 (+) (hg_buckets h) (hg_buckets other),
      hg_count = hg_count h + hg_count other,
      hg_sum = hg_sum h + hg_sum other,
      hg_minV = (if hg_minV h = 0 \<or> (hg_minV other \<noteq> 0 \<and> hg_minV other < hg_minV h)
                 then hg_minV other else hg_minV h),
      hg_maxV = (if hg_maxV h < hg_maxV other then hg_maxV other else hg_maxV h)\<rparr>"

definition hist_Snapshot :: "histogram \<Rightarrow> histogram" where
  "hist_Snapshot h = hist_Merge hist_New h"

text \<open>The readers.\<close>

definition hist_Count :: "histogram \<Rightarrow> u64" where "hist_Count h = hg_count h"
definition hist_Sum :: "histogram \<Rightarrow> u64" where "hist_Sum h = hg_sum h"
definition hist_Max :: "histogram \<Rightarrow> u64" where "hist_Max h = hg_maxV h"
definition hist_Min :: "histogram \<Rightarrow> u64" where "hist_Min h = hg_minV h"

definition hist_Mean :: "histogram \<Rightarrow> rat" where
  "hist_Mean h =
     (if hg_count h = 0 then 0
      else f64 (f64 (of_nat (unat (hg_sum h))) / f64 (of_nat (unat (hg_count h)))))"

section \<open>Buckets\<close>

text \<open>The bucket of a recorded value: the exponent of the largest power of two below it.\<close>

definition hist_norm :: "u64 \<Rightarrow> nat" where
  "hist_norm v = (if v = 0 then 1 else unat v)"

definition hist_bucket :: "nat \<Rightarrow> nat" where
  "hist_bucket n = bit_len n - 1"

lemma hist_norm_bounds: "0 < hist_norm v" "hist_norm v < 2 ^ 64"
  using unsigned_less [of v] by (auto simp: hist_norm_def unat_gt_0)

lemma hist_bucket_bounds:
  assumes "0 < n"
  shows "2 ^ hist_bucket n \<le> n" "n < 2 ^ Suc (hist_bucket n)"
  using bit_len_bounds [OF assms] by (simp_all add: hist_bucket_def)

lemma hist_bucket_mono: "m \<le> n \<Longrightarrow> hist_bucket m \<le> hist_bucket n"
  unfolding hist_bucket_def using bit_len_mono diff_le_mono by blast

lemma hist_bucket_lt: "hist_bucket (hist_norm v) < 64"
proof -
  have "(2::nat) ^ hist_bucket (hist_norm v) < 2 ^ 64"
    using hist_bucket_bounds(1) [OF hist_norm_bounds(1), of v] hist_norm_bounds(2) [of v] by linarith
  then show ?thesis by (simp only: power_strict_increasing_iff)
qed

lemma hist_Record_norm:
  "hist_Record v h =
     (let n = hist_norm v; b = hist_bucket n
      in \<lparr>hg_buckets = (hg_buckets h)[b := hg_buckets h ! b + 1],
          hg_count = hg_count h + 1,
          hg_sum = hg_sum h + of_nat n,
          hg_minV = (if hg_minV h = 0 \<or> of_nat n < hg_minV h then of_nat n else hg_minV h),
          hg_maxV = (if hg_maxV h < of_nat n then of_nat n else hg_maxV h)\<rparr>)"
proof -
  have v: "(if v = 0 then 1 else v) = of_nat (hist_norm v)" by (simp add: hist_norm_def)
  have n: "unat (of_nat (hist_norm v) :: u64) = hist_norm v" by (simp add: hist_norm_def)
  have b: "int (bit_len (hist_norm v)) - 1 = int (hist_bucket (hist_norm v))"
    using bit_len_bounds [OF hist_norm_bounds(1), of v] by (simp add: hist_bucket_def)
  show ?thesis using hist_bucket_lt [of v]
    unfolding hist_Record_def v Let_def n b histBuckets_def by simp
qed

section \<open>What a histogram holds of its samples\<close>

definition hist_of :: "u64 list \<Rightarrow> histogram" where
  "hist_of vs = foldl (\<lambda>h v. hist_Record v h) hist_New vs"

definition hist_below :: "u64 list \<Rightarrow> nat \<Rightarrow> nat" where
  "hist_below vs i = length (filter (\<lambda>v. hist_bucket (hist_norm v) < i) vs)"

definition hist_in :: "u64 list \<Rightarrow> nat \<Rightarrow> nat" where
  "hist_in vs i = length (filter (\<lambda>v. hist_bucket (hist_norm v) = i) vs)"

definition hist_min :: "u64 list \<Rightarrow> nat" where
  "hist_min vs = (if vs = [] then 0 else Min (hist_norm ` set vs))"

definition hist_max :: "u64 list \<Rightarrow> nat" where
  "hist_max vs = Max (insert 0 (hist_norm ` set vs))"

lemma hist_min_Nil [simp]: "hist_min [] = 0"
  by (simp add: hist_min_def)

lemma hist_min_single [simp]: "hist_min [v] = hist_norm v"
  by (simp add: hist_min_def)

lemma hist_min_range: "vs \<noteq> [] \<Longrightarrow> 0 < hist_min vs" "hist_min vs < 2 ^ 64"
proof -
  have mem: "hist_min vs \<in> hist_norm ` set vs" if "vs \<noteq> []"
    using Min_in [of "hist_norm ` set vs"] that unfolding hist_min_def by simp
  then show "vs \<noteq> [] \<Longrightarrow> 0 < hist_min vs" using hist_norm_bounds(1) by fastforce
  show "hist_min vs < 2 ^ 64"
    using mem hist_norm_bounds(2) by (cases "vs = []") (fastforce, auto)
qed

lemma hist_max_range: "hist_max vs < 2 ^ 64"
  using hist_norm_bounds(2) by (auto simp: hist_max_def)

lemma hist_min_append:
  "hist_min (us @ vs) =
     (if us = [] then hist_min vs else if vs = [] then hist_min us
      else min (hist_min us) (hist_min vs))"
  by (simp add: hist_min_def image_Un Min_Un)

lemma hist_min_snoc:
  "hist_min (vs @ [v]) = (if vs = [] \<or> hist_norm v < hist_min vs then hist_norm v else hist_min vs)"
  by (simp add: hist_min_append min_def)

lemma hist_max_snoc:
  "hist_max (vs @ [v]) = (if hist_max vs < hist_norm v then hist_norm v else hist_max vs)"
proof -
  have "insert 0 (hist_norm ` set (vs @ [v])) = insert (hist_norm v) (insert 0 (hist_norm ` set vs))"
    by auto
  then have "hist_max (vs @ [v]) = max (hist_norm v) (hist_max vs)"
    unfolding hist_max_def by (simp only: Max_insert finite_insert finite_imageI finite_set) simp
  then show ?thesis by (simp add: max_def)
qed

lemma of_nat64_less: "m < 2 ^ 64 \<Longrightarrow> n < 2 ^ 64 \<Longrightarrow> (of_nat m :: u64) < of_nat n \<longleftrightarrow> m < n"
  by (simp add: word_less_nat_alt unat_of_nat)

lemma of_nat64_eq_0: "m < 2 ^ 64 \<Longrightarrow> (of_nat m :: u64) = 0 \<longleftrightarrow> m = 0"
  using of_nat64_less [of 0 m] by (auto simp: word_gt_0)

text \<open>The state after recording \<open>vs\<close>, in closed form.\<close>

lemma hist_of_eq:
  "hist_of vs =
     \<lparr>hg_buckets = map (\<lambda>i. of_nat (hist_in vs i)) [0..<64], hg_count = of_nat (length vs),
      hg_sum = of_nat (sum_list (map hist_norm vs)), hg_minV = of_nat (hist_min vs),
      hg_maxV = of_nat (hist_max vs)\<rparr>"
proof (induction vs rule: rev_induct)
  case Nil
  have "replicate 64 0 = map (\<lambda>i. of_nat (hist_in [] i) :: u64) [0..<64]"
    by (rule nth_equalityI) (simp_all add: hist_in_def)
  then show ?case
    by (simp add: hist_of_def hist_New_def histBuckets_def hist_min_def hist_max_def)
next
  case (snoc v vs)
  let ?b = "hist_bucket (hist_norm v)"
  have "(map (\<lambda>i. of_nat (hist_in vs i) :: u64) [0..<64])[?b := of_nat (hist_in vs ?b) + 1] =
      map (\<lambda>i. of_nat (hist_in (vs @ [v]) i)) [0..<64]"
    by (rule nth_equalityI) (auto simp: nth_list_update hist_in_def)
  moreover have "(of_nat (hist_min (vs @ [v])) :: u64) =
      (if (of_nat (hist_min vs) :: u64) = 0 \<or> of_nat (hist_norm v) < (of_nat (hist_min vs) :: u64)
       then of_nat (hist_norm v) else of_nat (hist_min vs))"
    using hist_min_range [of vs] hist_norm_bounds(2) [of v]
    by (cases "vs = []") (simp_all add: hist_min_snoc of_nat64_less of_nat64_eq_0)
  moreover have "(of_nat (hist_max (vs @ [v])) :: u64) =
      (if (of_nat (hist_max vs) :: u64) < of_nat (hist_norm v) then of_nat (hist_norm v)
       else of_nat (hist_max vs))"
    using hist_max_range [of vs] hist_norm_bounds(2) [of v] by (simp add: hist_max_snoc of_nat64_less)
  ultimately show ?case using snoc hist_bucket_lt [of v]
    by (simp add: hist_of_def hist_Record_norm Let_def)
qed

lemma hist_max_append: "hist_max (us @ vs) = max (hist_max us) (hist_max vs)"
proof -
  have "insert 0 (hist_norm ` set (us @ vs)) =
      insert 0 (hist_norm ` set us) \<union> insert 0 (hist_norm ` set vs)" by auto
  then show ?thesis unfolding hist_max_def by (simp only: Max_Un finite_insert finite_imageI
        finite_set insert_not_empty not_False_eq_True)
qed

lemma hist_Merge_of: "hist_Merge (hist_of us) (hist_of vs) = hist_of (us @ vs)"
proof -
  have bs: "map2 (+) (map (\<lambda>i. of_nat (hist_in us i) :: u64) [0..<64])
      (map (\<lambda>i. of_nat (hist_in vs i)) [0..<64]) = map (\<lambda>i. of_nat (hist_in (us @ vs) i)) [0..<64]"
    by (rule nth_equalityI) (simp_all add: hist_in_def)
  have mi: "(if (of_nat (hist_min us) :: u64) = 0 \<or>
        ((of_nat (hist_min vs) :: u64) \<noteq> 0 \<and> (of_nat (hist_min vs) :: u64) < of_nat (hist_min us))
      then of_nat (hist_min vs) else of_nat (hist_min us) :: u64) = of_nat (hist_min (us @ vs))"
    using hist_min_range [of us] hist_min_range [of vs]
    by (cases "us = []"; cases "vs = []")
      (simp_all add: hist_min_append of_nat64_less of_nat64_eq_0 min_def)
  have ma: "(if (of_nat (hist_max us) :: u64) < of_nat (hist_max vs) then of_nat (hist_max vs)
      else of_nat (hist_max us) :: u64) = of_nat (hist_max (us @ vs))"
    using hist_max_range [of us] hist_max_range [of vs]
    by (auto simp: hist_max_append of_nat64_less max_def)
  show ?thesis unfolding hist_Merge_def hist_of_eq histogram.select_convs bs mi ma by simp
qed

lemma hist_Snapshot_of: "hist_Snapshot (hist_of vs) = hist_of vs"
  using hist_Merge_of [of "[]" vs] by (simp add: hist_Snapshot_def hist_of_def)

section \<open>The percentile target\<close>

lemma hist_target_exact:
  assumes p: "1 \<le> p" and n: "0 < unat c" "unat c * p < 2 ^ 52"
  shows "hist_target c (of_nat p) = of_nat ((unat c * p + 99) div 100)"
proof -
  define m where "m = unat c * p"
  define k where "k = (m + 99) div 100"
  have "unat c * 1 \<le> m" unfolding m_def using p by (rule mult_le_mono2)
  then have cm: "unat c \<le> m" by simp
  have m: "0 < m" "m < 2 ^ 52" using cm n by (simp_all add: m_def)
  have c: "unat c < 2 ^ 53" using cm m(2) by simp
  have "100 * k + (m + 99) mod 100 = m + 99" "(m + 99) mod 100 < 100" by (simp_all add: k_def)
  then have k: "m \<le> 100 * k" "100 * k < m + 100" by linarith+
  have q: "f64_round (f64_round (of_nat (unat c)) * of_nat p) = of_nat m"
    using m c f64_round_of_nat [of "unat c"] f64_round_of_nat [of m] by (simp add: m_def)
  have "\<lceil>f64_round (of_nat m / 100)\<rceil> = int k"
  proof (cases "m = 100 * k")
    case True
    then have "of_nat m / 100 = (of_nat k :: rat)" by simp
    moreover have "k < 2 ^ 53" using True m by simp
    ultimately show ?thesis using f64_round_of_nat [of k] by simp
  next
    case False
    let ?q = "of_nat m / 100 :: rat"
    have km: "m + 1 \<le> 100 * k" "100 * k + 1 \<le> m + 100" using False k by simp_all
    have up: "of_nat m + 1 \<le> 100 * (of_nat k :: rat)"
      using km(1) of_nat_mono [OF km(1), where 'a = rat] by simp
    have lo: "100 * (of_nat k :: rat) + 1 \<le> of_nat m + 100"
      using of_nat_mono [OF km(2), where 'a = rat] by simp
    have small: "(of_nat m :: rat) < 2 ^ 52"
      using m(2) of_nat_less_iff [of m "2 ^ 52", where 'a = rat] by simp
    have "(1 :: rat) \<le> of_nat m" using m(1) by (simp add: Suc_leI)
    then have "1 * 1 \<le> of_nat m * (2 ^ 64 / 100 :: rat)" by (intro mult_mono) simp_all
    then have "1 \<le> ?q * 2 ^ 64" by (simp only: mult_1 times_divide_eq_right times_divide_eq_left)
    from f64_round_err [OF this] have "\<bar>f64_round ?q - ?q\<bar> \<le> ?q / 2 ^ 53" .
    also have "?q / 2 ^ 53 = of_nat m / 2 ^ 52 * (1 / 200)" by simp
    also have "\<dots> < 1 * (1 / 200)"
      using small by (intro mult_strict_right_mono) (simp_all only: divide_less_eq_1_pos
          zero_less_power zero_less_numeral zero_less_divide_1_iff)
    finally have "\<bar>f64_round ?q - ?q\<bar> < 1 / 200" by (simp only: mult_1)
    then have "?q - 1 / 200 < f64_round ?q" "f64_round ?q < ?q + 1 / 200" by linarith+
    moreover have "of_nat k - 1 + 1 / 100 \<le> ?q" "?q \<le> of_nat k - 1 / 100"
      using up lo by (simp_all add: field_simps)
    ultimately have "of_nat k - 1 < f64_round ?q" "f64_round ?q \<le> of_nat k" by linarith+
    then show ?thesis by (intro ceiling_unique) simp_all
  qed
  moreover have "0 < k" "k < 2 ^ 64" using k m by simp_all
  then have "(of_nat k :: u64) \<noteq> 0" by (simp add: of_nat64_eq_0)
  ultimately show ?thesis using q by (simp add: hist_target_def m_def k_def Let_def)
qed

section \<open>The bucket of the percentile\<close>

lemma hist_below_Suc: "hist_below vs (Suc i) = hist_below vs i + hist_in vs i"
  by (induction vs) (auto simp: hist_below_def hist_in_def less_Suc_eq)

lemma hist_below_le: "hist_below vs i \<le> length vs"
  by (simp add: hist_below_def)

lemma hist_below_mono: "i \<le> j \<Longrightarrow> hist_below vs i \<le> hist_below vs j"
  by (induction vs) (auto simp: hist_below_def)

text \<open>The loop stops at the bucket in which the cumulative count reaches the target.\<close>

lemma hist_scan_finds:
  assumes "length vs < 2 ^ 64" "i < 64" "hist_below vs i < t" "t \<le> hist_below vs (Suc i)"
  shows "k \<le> i \<Longrightarrow> hist_scan (of_nat t) (of_nat (hist_below vs k)) k
      (map (\<lambda>j. of_nat (hist_in vs j)) [k..<64]) = Some i"
proof (induction "i - k" arbitrary: k)
  case 0
  then have k: "k = i" by simp
  have "t < 2 ^ 64" "hist_below vs (Suc i) < 2 ^ 64"
    using hist_below_le [of vs "Suc i"] assms(1,4) by linarith+
  then have "(of_nat t :: u64) \<le> of_nat (hist_below vs (Suc i))"
    using assms(4) by (simp add: word_le_nat_alt unat_of_nat)
  then show ?case using assms(2) by (simp add: k upt_conv_Cons hist_below_Suc)
next
  case (Suc d)
  then have k: "k < i" "d = i - Suc k" by simp_all
  have mono: "hist_below vs (Suc k) \<le> hist_below vs i"
    using k(1) by (intro hist_below_mono) simp
  have "t < 2 ^ 64" "hist_below vs (Suc k) < 2 ^ 64"
    using hist_below_le [of vs "Suc i"] hist_below_le [of vs "Suc k"] assms(1,4) by linarith+
  then have "\<not> (of_nat t :: u64) \<le> of_nat (hist_below vs (Suc k))"
    using mono assms(3) by (simp add: word_le_nat_alt unat_of_nat)
  moreover have "[k..<64] = k # [Suc k..<64]" using k(1) assms(2) by (simp add: upt_conv_Cons)
  ultimately show ?case using Suc.hyps(1) [OF k(2)] k(1) by (simp add: hist_below_Suc)
qed

lemma sorted_nth_filter:
  assumes "sorted ss" "\<And>x y. x \<le> y \<Longrightarrow> P y \<Longrightarrow> P x" "i < length ss"
  shows "P (ss ! i) \<longleftrightarrow> i < length (filter P ss)"
  using assms(1,3)
proof (induction ss arbitrary: i)
  case Nil
  then show ?case by simp
next
  case (Cons s ss)
  show ?case
  proof (cases "P s")
    case True
    then show ?thesis using Cons by (cases i) simp_all
  next
    case False
    then have "\<not> P x" if "x \<in> set (s # ss)" for x using Cons.prems(1) assms(2) [of s x] that by auto
    then have "\<not> P ((s # ss) ! i)" "filter P (s # ss) = []"
      using nth_mem [OF Cons.prems(2)] by (auto simp: filter_empty_conv)
    then show ?thesis by simp
  qed
qed

definition hist_rank :: "u64 list \<Rightarrow> nat \<Rightarrow> nat" where
  "hist_rank vs t = sort (map hist_norm vs) ! (t - 1)"

lemma hist_rank_mem: "0 < t \<Longrightarrow> t \<le> length vs \<Longrightarrow> hist_rank vs t \<in> hist_norm ` set vs"
  unfolding hist_rank_def using nth_mem [of "t - 1" "sort (map hist_norm vs)"] by auto

lemma hist_rank_mono: "s \<le> t \<Longrightarrow> 0 < s \<Longrightarrow> t \<le> length vs \<Longrightarrow> hist_rank vs s \<le> hist_rank vs t"
  unfolding hist_rank_def by (intro sorted_nth_mono) auto

lemma hist_rank_bounds:
  assumes "0 < t" "t \<le> length vs"
  shows "hist_min vs \<le> hist_rank vs t" "hist_rank vs t \<le> hist_max vs" "hist_bucket (hist_rank vs t) < 64"
  using hist_rank_mem [OF assms] assms hist_bucket_lt
  by (auto simp: hist_min_def hist_max_def)

lemma hist_below_sort:
  "hist_below vs i = length (filter (\<lambda>n. hist_bucket n < i) (sort (map hist_norm vs)))"
proof -
  have "length (filter P (sort xs)) = length (filter P xs)" for P and xs :: "nat list"
    by (simp add: filter_sort)
  then show ?thesis by (simp add: hist_below_def filter_map comp_def)
qed

lemma hist_rank_bucket:
  assumes "0 < t" "t \<le> length vs"
  shows "hist_below vs (hist_bucket (hist_rank vs t)) < t"
    "t \<le> hist_below vs (Suc (hist_bucket (hist_rank vs t)))"
proof -
  let ?ss = "sort (map hist_norm vs)"
  have cut: "hist_bucket (hist_rank vs t) < i \<longleftrightarrow> t - 1 < hist_below vs i" for i
    unfolding hist_below_sort hist_rank_def using assms
    by (intro sorted_nth_filter) (auto intro: le_less_trans [OF hist_bucket_mono])
  show "hist_below vs (hist_bucket (hist_rank vs t)) < t"
    using cut [of "hist_bucket (hist_rank vs t)"] assms(1) by simp
  show "t \<le> hist_below vs (Suc (hist_bucket (hist_rank vs t)))"
    using cut [of "Suc (hist_bucket (hist_rank vs t))"] by simp
qed

text \<open>The estimate of a bucket, over natural numbers.\<close>

definition hist_est :: "u64 list \<Rightarrow> nat \<Rightarrow> nat" where
  "hist_est vs b =
     (if 63 \<le> b then hist_max vs
      else let mid = 2 ^ b + 2 ^ b div 2
           in if mid < hist_min vs then hist_min vs
              else if hist_max vs < mid then hist_max vs else mid)"

lemma unat_pow64: "b < 64 \<Longrightarrow> unat (2 ^ b :: u64) = 2 ^ b"
proof -
  assume "b < 64"
  then have "(2::nat) ^ b < 2 ^ 64" by (rule power_strict_increasing) simp
  then show ?thesis using unat_of_nat [where 'a = 64, of "2 ^ b"] by (simp add: take_bit_eq_mod)
qed

lemma hist_bucketEstimate_of:
  "unat (hist_bucketEstimate (hist_of vs) b) = hist_est vs b"
proof (cases "63 \<le> b")
  case True
  then show ?thesis using hist_max_range [of vs]
    by (simp add: hist_bucketEstimate_def hist_est_def histBuckets_def hist_of_eq unat_of_nat)
next
  case False
  let ?low = "2 ^ b :: u64"
  let ?mid = "?low + ?low div 2"
  have low: "push_bit b 1 = ?low" "push_bit 1 ?low - ?low = ?low"
    by (simp_all add: push_bit_eq_mult)
  have l: "unat ?low = 2 ^ b" "(2::nat) ^ b \<le> 2 ^ 62"
    using False power_increasing [of b 62 "2 :: nat"] by (simp_all add: unat_pow64)
  have mid: "unat ?mid = 2 ^ b + 2 ^ b div 2"
    using l by (simp add: unat_word_ariths unat_div)
  have "unat ?mid < 2 ^ 64" using unsigned_less [of ?mid] by simp
  then show ?thesis using False mid hist_min_range(2) [of vs] hist_max_range [of vs]
    by (simp add: hist_bucketEstimate_def hist_est_def histBuckets_def hist_of_eq low Let_def
        word_less_nat_alt unat_of_nat)
qed

lemma hist_target_rank:
  assumes "vs \<noteq> []" "1 \<le> p" "p \<le> 99"
  shows "0 < (length vs * p + 99) div 100 \<and> (length vs * p + 99) div 100 \<le> length vs"
proof -
  have n: "0 < length vs" using assms(1) by simp
  have "length vs * 1 \<le> length vs * p" "length vs * p \<le> length vs * 99"
    using assms(2,3) by (simp_all only: mult_le_mono2)
  then show ?thesis using n by linarith
qed

lemma hist_Percentile_of:
  assumes "vs \<noteq> []" "1 \<le> p" "p \<le> 99" "length vs * p < 2 ^ 52"
  shows "unat (hist_Percentile (of_nat p) (hist_of vs)) =
    hist_est vs (hist_bucket (hist_rank vs ((length vs * p + 99) div 100)))"
proof -
  let ?n = "length vs" and ?t = "(length vs * p + 99) div 100"
  let ?b = "hist_bucket (hist_rank vs ?t)"
  have "?n * 1 \<le> ?n * p" using assms(2) by (rule mult_le_mono2)
  then have "?n < 2 ^ 52" using assms(4) by linarith
  then have n: "0 < ?n" "?n < 2 ^ 64" using assms(1) by simp_all
  then have c: "unat (of_nat ?n :: u64) = ?n" "(of_nat ?n :: u64) \<noteq> 0"
    by (simp_all add: unat_of_nat of_nat64_eq_0)
  have t: "0 < ?t" "?t \<le> ?n" using hist_target_rank [OF assms(1-3)] by simp_all
  have "hist_target (of_nat ?n) (of_nat p) = of_nat ?t"
    using hist_target_exact [of p "of_nat ?n"] assms(2,4) n(1) c by simp
  moreover have "hist_scan (of_nat ?t) 0 0 (map (\<lambda>j. of_nat (hist_in vs j)) [0..<64]) = Some ?b"
    using hist_scan_finds [OF n(2) hist_rank_bounds(3) [OF t] hist_rank_bucket [OF t], of 0]
    by (simp add: hist_below_def)
  moreover have "(of_nat p :: rat) < 100" "\<not> (of_nat p :: rat) \<le> 0" using assms(2,3) by simp_all
  ultimately show ?thesis using c(2) hist_bucketEstimate_of [of vs ?b]
    by (simp add: hist_Percentile_def hist_of_eq)
qed

lemma pow_half: "2 ^ b \<le> (2 ^ b + 2 ^ b div 2 :: nat)" "2 * (2 ^ b + 2 ^ b div 2) \<le> (3 * 2 ^ b :: nat)"
  "3 * 2 ^ Suc b \<le> 4 * (2 ^ b + 2 ^ b div 2 :: nat) + 2"
  by (cases b; simp)+

lemma hist_est_mono:
  assumes "b \<le> b'"
  shows "hist_est vs b \<le> hist_est vs b'"
proof -
  have mm: "hist_min vs \<le> hist_max vs"
    by (auto simp: hist_min_def hist_max_def intro!: Min_le_iff [THEN iffD2])
  have "(2::nat) ^ b \<le> 2 ^ b'" using assms by (simp add: power_increasing)
  then have "(2::nat) ^ b + 2 ^ b div 2 \<le> 2 ^ b' + 2 ^ b' div 2"
    by (intro add_mono div_le_mono)
  then show ?thesis using mm assms by (auto simp: hist_est_def Let_def)
qed

lemma hist_est_range: "vs \<noteq> [] \<Longrightarrow> hist_min vs \<le> hist_est vs b \<and> hist_est vs b \<le> hist_max vs"
  using hist_rank_bounds [of "length vs" vs] by (auto simp: hist_est_def Let_def)

lemma hist_est_accuracy:
  assumes "hist_min vs \<le> r" "r \<le> hist_max vs" "0 < r" "hist_bucket r < 63"
  shows "2 * hist_est vs (hist_bucket r) \<le> 3 * r \<and> 3 * r \<le> 4 * hist_est vs (hist_bucket r)"
proof -
  let ?b = "hist_bucket r"
  let ?m = "2 ^ ?b + 2 ^ ?b div 2 :: nat"
  have b: "2 ^ ?b \<le> r" "r < 2 ^ Suc ?b" using hist_bucket_bounds [OF assms(3)] by auto
  have "2 * ?m \<le> 3 * r" using pow_half(2) [of ?b] b(1) by linarith
  moreover have "3 * r \<le> 4 * ?m" using pow_half(3) [of ?b] b(2) by linarith
  ultimately show ?thesis using assms by (auto simp: hist_est_def Let_def)
qed

section \<open>Properties\<close>

text \<open>C21: merging is recording everything. A histogram that merges two others is the histogram of
  all samples of both, in any order of merging, and a snapshot is the histogram itself; resetting
  gives the empty histogram.\<close>

theorem hist_merge_homomorphism:
  "hist_Merge (hist_of us) (hist_of vs) = hist_of (us @ vs) \<and>
   hist_Merge (hist_of us) (hist_of vs) = hist_Merge (hist_of vs) (hist_of us) \<and>
   hist_Snapshot (hist_of vs) = hist_of vs \<and> hist_Reset (hist_of vs) = hist_of []"
proof -
  have "hist_of (us @ vs) = hist_of (vs @ us)"
    by (simp add: hist_of_eq hist_in_def hist_min_append hist_max_append min.commute max.commute
        add.commute)
  moreover have "hist_Reset (hist_of vs) = hist_of []"
    by (simp add: hist_Reset_def hist_of_def hist_New_def)
  ultimately show ?thesis by (simp add: hist_Merge_of hist_Snapshot_of)
qed

text \<open>C20: the percentile estimate is accurate. For p between 1 and 99 and fewer than 2^52 / p
  samples (a zero counts as one) the estimate lies between the smallest and the largest sample,
  and against the exact nearest-rank percentile r, the sample of rank ceil(n p / 100), it is at
  most 50% too high and at most a quarter too low, as long as r is below 2^63; the double
  precision arithmetic of the target loses nothing.\<close>

theorem hist_percentile_accuracy:
  assumes "vs \<noteq> []" "1 \<le> p" "p \<le> 99" "length vs * p < 2 ^ 52"
    and "r = sort (map hist_norm vs) ! ((length vs * p + 99) div 100 - 1)"
    and "est = unat (hist_Percentile (of_nat p) (hist_of vs))"
  shows "hist_min vs \<le> est \<and> est \<le> hist_max vs \<and>
    (r < 2 ^ 63 \<longrightarrow> 2 * est \<le> 3 * r \<and> 3 * r \<le> 4 * est)"
proof -
  let ?t = "(length vs * p + 99) div 100"
  have t: "0 < ?t" "?t \<le> length vs" using hist_target_rank [OF assms(1-3)] by simp_all
  have r: "r = hist_rank vs ?t" by (simp add: assms(5) hist_rank_def)
  have est: "est = hist_est vs (hist_bucket r)"
    using hist_Percentile_of [OF assms(1-4)] assms(6) r by simp
  have pos: "0 < r" using hist_rank_mem [OF t] hist_norm_bounds(1) r by auto
  have "hist_bucket r < 63" if "r < 2 ^ 63"
  proof -
    have "(2::nat) ^ hist_bucket r < 2 ^ 63" using hist_bucket_bounds(1) [OF pos] that by linarith
    then show ?thesis by (simp only: power_strict_increasing_iff)
  qed
  then show ?thesis using hist_est_accuracy [OF hist_rank_bounds(1,2) [OF t, folded r] pos]
      hist_est_range [OF assms(1)] by (simp add: est)
qed

text \<open>Latencies of 1, 2, 4 and 900 microseconds.\<close>

definition demo_samples :: "u64 list" where "demo_samples = [4000, 1000, 900000, 2000]"

theorem hist_percentile_accuracy_witness:
  "hist_min demo_samples = 1000 \<and>
   2 * unat (hist_Percentile 50 (hist_of demo_samples)) \<le> 6000 \<and>
   6000 \<le> 4 * unat (hist_Percentile 50 (hist_of demo_samples))"
  using hist_percentile_accuracy [OF _ _ _ _ refl refl, of demo_samples 50]
  by (simp add: demo_samples_def hist_min_def hist_norm_def)

text \<open>Percentiles are ordered. For p below q the estimate for p is at most the estimate for q
  and both are at most \<open>Max\<close>; so in every report p50 <= p95 <= p99 <= max.\<close>

theorem hist_percentile_mono:
  assumes "vs \<noteq> []" "1 \<le> p" "p \<le> q" "q \<le> 99" "length vs * q < 2 ^ 52"
  shows "hist_Percentile (of_nat p) (hist_of vs) \<le> hist_Percentile (of_nat q) (hist_of vs) \<and>
    hist_Percentile (of_nat q) (hist_of vs) \<le> hg_maxV (hist_of vs)"
proof -
  have pq: "length vs * p \<le> length vs * q" using assms(3) by simp
  then have p: "length vs * p < 2 ^ 52" "p \<le> 99" "1 \<le> q" using assms by linarith+
  let ?tp = "(length vs * p + 99) div 100" and ?tq = "(length vs * q + 99) div 100"
  have t: "?tp \<le> ?tq" "0 < ?tp" "?tq \<le> length vs"
    using pq hist_target_rank [OF assms(1,2) p(2)] hist_target_rank [OF assms(1) p(3) assms(4)]
    by (simp_all add: div_le_mono)
  have "hist_est vs (hist_bucket (hist_rank vs ?tp)) \<le> hist_est vs (hist_bucket (hist_rank vs ?tq))"
    by (intro hist_est_mono hist_bucket_mono hist_rank_mono t)
  then show ?thesis
    using hist_Percentile_of [OF assms(1,2) p(2,1)] hist_Percentile_of [OF assms(1) p(3) assms(4,5)]
      hist_est_range [OF assms(1), of "hist_bucket (hist_rank vs ?tq)"] hist_max_range [of vs]
    by (simp add: word_le_nat_alt hist_of_eq unat_of_nat)
qed

theorem hist_percentile_mono_witness:
  "hist_Percentile 50 (hist_of demo_samples) \<le> hist_Percentile 99 (hist_of demo_samples)"
  using hist_percentile_mono [of demo_samples 50 99] by (simp add: demo_samples_def)

end
