(* ===== verification/Lru.thy ===== *)
theory Lru
  imports Prelude
begin

text \<open>
  \<open>internal/collector/aggregator/lru.go\<close>: the bounded cache in which the collectors keep one
  aggregate per key, as the code builds it: a doubly linked list of elements, newest first, and a
  map from keys to elements. Elements have identities, so that the map and the list can disagree;
  the invariant says they do not. The locale \<open>keyed_cache\<close> is what the collectors rely on.
\<close>

section \<open>The cache\<close>

text \<open>An element is a number; \<open>lru_elem\<close> holds the \<open>lruEntry\<close> of every element allocated so far
  and \<open>lru_fresh\<close> the next element to allocate.\<close>

record ('k, 'v) lru =
  lru_cap :: nat
  lru_list :: "nat list"
  lru_elem :: "nat \<Rightarrow> 'k \<times> 'v"
  lru_fresh :: nat
  lru_items :: "'k \<rightharpoonup> nat"
  lru_evicted :: u64

definition lru_New :: "int \<Rightarrow> ('k, 'v) lru" where
  "lru_New capacity =
     (let capacity = (if capacity \<le> 0 then 1 else capacity)
      in \<lparr>lru_cap = nat capacity, lru_list = [], lru_elem = (\<lambda>_. undefined), lru_fresh = 0,
          lru_items = Map.empty, lru_evicted = 0\<rparr>)"

definition lru_MoveToFront :: "nat \<Rightarrow> nat list \<Rightarrow> nat list" where
  "lru_MoveToFront el els = el # remove1 el els"

definition lru_Get :: "'k \<Rightarrow> ('k, 'v) lru \<Rightarrow> 'v option \<times> ('k, 'v) lru" where
  "lru_Get k l =
     (case lru_items l k of
        None \<Rightarrow> (None, l)
      | Some el \<Rightarrow>
          (Some (snd (lru_elem l el)), l\<lparr>lru_list := lru_MoveToFront el (lru_list l)\<rparr>))"

definition lru_Put :: "'k \<Rightarrow> 'v \<Rightarrow> ('k, 'v) lru \<Rightarrow> ('k, 'v) lru" where
  "lru_Put k v l =
     (case lru_items l k of
        Some el \<Rightarrow>
          l\<lparr>lru_list := lru_MoveToFront el (lru_list l),
            lru_elem := (lru_elem l)(el := (fst (lru_elem l el), v))\<rparr>
      | None \<Rightarrow>
          (let l = (if lru_cap l \<le> length (lru_list l) \<and> lru_list l \<noteq> []
                    then let oldest = last (lru_list l)
                         in l\<lparr>lru_list := remove1 oldest (lru_list l),
                              lru_items := (lru_items l)(fst (lru_elem l oldest) := None),
                              lru_evicted := lru_evicted l + 1\<rparr>
                    else l);
               el = lru_fresh l
           in l\<lparr>lru_list := el # lru_list l, lru_elem := (lru_elem l)(el := (k, v)),
                lru_fresh := Suc el, lru_items := (lru_items l)(k \<mapsto> el)\<rparr>))"

definition lru_Len :: "('k, 'v) lru \<Rightarrow> nat" where
  "lru_Len l = length (lru_list l)"

definition lru_Cap :: "('k, 'v) lru \<Rightarrow> nat" where "lru_Cap l = lru_cap l"
definition lru_Evicted :: "('k, 'v) lru \<Rightarrow> u64" where "lru_Evicted l = lru_evicted l"

text \<open>\<open>Range\<close> visits the entries newest first; the collectors never stop it early, so it is the
  list it visits. \<open>lru_modify\<close> is not a method: the values the collectors store are pointers, and
  it is the effect of writing through the pointer stored under \<open>k\<close>.\<close>

definition lru_Range :: "('k, 'v) lru \<Rightarrow> ('k \<times> 'v) list" where
  "lru_Range l = map (lru_elem l) (lru_list l)"

definition lru_modify :: "'k \<Rightarrow> ('v \<Rightarrow> 'v) \<Rightarrow> ('k, 'v) lru \<Rightarrow> ('k, 'v) lru" where
  "lru_modify k f l =
     (case lru_items l k of
        None \<Rightarrow> l
      | Some el \<Rightarrow> l\<lparr>lru_elem := (lru_elem l)(el := (k, f (snd (lru_elem l el))))\<rparr>)"

section \<open>The cache seen as a list of entries by recency\<close>

definition key_filter :: "'k \<Rightarrow> ('k \<times> 'v) list \<Rightarrow> ('k \<times> 'v) list" where
  "key_filter k xs = filter (\<lambda>e. fst e \<noteq> k) xs"

definition recency_touch :: "'k \<Rightarrow> ('k \<times> 'v) list \<Rightarrow> ('k \<times> 'v) list" where
  "recency_touch k xs =
     (case map_of xs k of None \<Rightarrow> xs | Some v \<Rightarrow> (k, v) # key_filter k xs)"

definition recency_push :: "nat \<Rightarrow> 'k \<Rightarrow> 'v \<Rightarrow> ('k \<times> 'v) list \<Rightarrow> ('k \<times> 'v) list" where
  "recency_push cap k v xs =
     (if k \<in> fst ` set xs then (k, v) # key_filter k xs
      else (k, v) # (if cap \<le> length xs then butlast xs else xs))"

definition recency_modify :: "'k \<Rightarrow> ('v \<Rightarrow> 'v) \<Rightarrow> ('k \<times> 'v) list \<Rightarrow> ('k \<times> 'v) list" where
  "recency_modify k f xs = map (\<lambda>(j, v). (j, if j = k then f v else v)) xs"

locale keyed_cache =
  fixes cget :: "'k \<Rightarrow> 'c \<Rightarrow> 'v option \<times> 'c"
    and cput :: "'k \<Rightarrow> 'v \<Rightarrow> 'c \<Rightarrow> 'c"
    and cmodify :: "'k \<Rightarrow> ('v \<Rightarrow> 'v) \<Rightarrow> 'c \<Rightarrow> 'c"
    and view :: "'c \<Rightarrow> ('k \<times> 'v) list"
    and cap :: nat
    and inv :: "'c \<Rightarrow> bool"
  assumes cap_pos: "0 < cap"
    and view_distinct: "inv c \<Longrightarrow> distinct (map fst (view c))"
    and view_length: "inv c \<Longrightarrow> length (view c) \<le> cap"
    and get_inv: "inv c \<Longrightarrow> inv (snd (cget k c))"
    and get_value: "inv c \<Longrightarrow> fst (cget k c) = map_of (view c) k"
    and get_view: "inv c \<Longrightarrow> view (snd (cget k c)) = recency_touch k (view c)"
    and put_inv: "inv c \<Longrightarrow> inv (cput k v c)"
    and put_view: "inv c \<Longrightarrow> view (cput k v c) = recency_push cap k v (view c)"
    and modify_inv: "inv c \<Longrightarrow> inv (cmodify k f c)"
    and modify_view: "inv c \<Longrightarrow> view (cmodify k f c) = recency_modify k f (view c)"

section \<open>The linked list and the map agree\<close>

definition lru_inv :: "nat \<Rightarrow> ('k, 'v) lru \<Rightarrow> bool" where
  "lru_inv cap l \<longleftrightarrow>
     0 < cap \<and> lru_cap l = cap \<and> length (lru_list l) \<le> cap \<and> distinct (lru_list l) \<and>
     (\<forall>el \<in> set (lru_list l). el < lru_fresh l) \<and>
     (\<forall>k el. lru_items l k = Some el \<longleftrightarrow> el \<in> set (lru_list l) \<and> fst (lru_elem l el) = k)"

lemma lru_invD:
  assumes "lru_inv cap l"
  shows "0 < cap" "lru_cap l = cap" "length (lru_list l) \<le> cap" "distinct (lru_list l)"
    "el \<in> set (lru_list l) \<Longrightarrow> el < lru_fresh l"
    "el \<in> set (lru_list l) \<Longrightarrow> lru_items l (fst (lru_elem l el)) = Some el"
    "lru_items l k = Some el \<Longrightarrow> el \<in> set (lru_list l)"
    "lru_items l k = Some el \<Longrightarrow> fst (lru_elem l el) = k"
  using assms unfolding lru_inv_def by blast+

lemma lru_inv_New: "lru_inv (nat (if c \<le> 0 then 1 else c)) (lru_New c)"
  by (simp add: lru_inv_def lru_New_def Let_def)

lemma lru_keys_inj: "lru_inv cap l \<Longrightarrow> inj_on (\<lambda>el. fst (lru_elem l el)) (set (lru_list l))"
  by (rule inj_onI) (metis lru_invD(6) option.inject)

lemma lru_Range_distinct: "lru_inv cap l \<Longrightarrow> distinct (map fst (lru_Range l))"
  using lru_keys_inj [of cap l] lru_invD(4) [of cap l]
  by (simp add: lru_Range_def distinct_map comp_def)

lemma lru_items_Range: "lru_inv cap l \<Longrightarrow> map_option (\<lambda>el. snd (lru_elem l el)) (lru_items l k) =
    map_of (lru_Range l) k"
proof (cases "lru_items l k")
  case None
  assume inv: "lru_inv cap l"
  then have "k \<notin> fst ` set (lru_Range l)"
    using None lru_invD(6) [OF inv] by (auto simp: lru_Range_def)
  then have "map_of (lru_Range l) k = None" by (simp add: map_of_eq_None_iff)
  then show ?thesis using None by simp
next
  case (Some el)
  assume inv: "lru_inv cap l"
  have "(k, snd (lru_elem l el)) \<in> set (lru_Range l)"
    using lru_invD(7,8) [OF inv Some] by (force simp: lru_Range_def)
  then show ?thesis using Some lru_Range_distinct [OF inv] by simp
qed

text \<open>Removing an element from the list is removing its key from the view.\<close>

lemma lru_Range_remove:
  assumes "lru_inv cap l" "el \<in> set (lru_list l)"
  shows "map (lru_elem l) (remove1 el (lru_list l)) = key_filter (fst (lru_elem l el)) (lru_Range l)"
proof -
  have "remove1 el (lru_list l) = filter (\<lambda>e. e \<noteq> el) (lru_list l)"
    using lru_invD(4) [OF assms(1)] 
    by (simp add: distinct_remove1_removeAll removeAll_filter_not_eq eq_commute)
  also have "\<dots> = filter (\<lambda>e. fst (lru_elem l e) \<noteq> fst (lru_elem l el)) (lru_list l)"
    using inj_onD [OF lru_keys_inj [OF assms(1)]] assms(2) by (intro filter_cong) auto
  finally show ?thesis by (simp add: key_filter_def lru_Range_def filter_map comp_def)
qed

lemma remove1_last: "distinct xs \<Longrightarrow> xs \<noteq> [] \<Longrightarrow> remove1 (last xs) xs = butlast xs"
  by (induction xs rule: rev_induct) (simp_all add: remove1_append)

lemma lru_map_other:
  "el \<notin> set els \<Longrightarrow> map ((lru_elem l)(el := x)) els = map (lru_elem l) els"
  by (induction els) auto

lemma lru_Get_ok:
  assumes "lru_inv cap l"
  shows "lru_inv cap (snd (lru_Get k l))" "fst (lru_Get k l) = map_of (lru_Range l) k"
    "lru_Range (snd (lru_Get k l)) = recency_touch k (lru_Range l)"
proof -
  note val = lru_items_Range [OF assms, of k]
  show "lru_inv cap (snd (lru_Get k l))"
  proof (cases "lru_items l k")
    case (Some el)
    then have el: "el \<in> set (lru_list l)" using lru_invD(7) [OF assms] by blast
    moreover from el have "Suc (length (lru_list l) - 1) = length (lru_list l)"
      by (cases "lru_list l") simp_all
    with el have "set (lru_MoveToFront el (lru_list l)) = set (lru_list l)"
      "length (lru_MoveToFront el (lru_list l)) = length (lru_list l)"
      "distinct (lru_MoveToFront el (lru_list l))"
      using lru_invD(4) [OF assms]
      by (auto simp: lru_MoveToFront_def length_remove1)
    moreover have "snd (lru_Get k l) = l\<lparr>lru_list := lru_MoveToFront el (lru_list l)\<rparr>"
      using Some by (simp add: lru_Get_def)
    ultimately show ?thesis using assms by (simp add: lru_inv_def)
  qed (simp add: assms lru_Get_def)
  show "fst (lru_Get k l) = map_of (lru_Range l) k"
    using val by (auto simp: lru_Get_def split: option.splits)
  show "lru_Range (snd (lru_Get k l)) = recency_touch k (lru_Range l)"
  proof (cases "lru_items l k")
    case None
    then have "map_of (lru_Range l) k = None" using val by simp
    then show ?thesis using None by (simp add: lru_Get_def recency_touch_def)
  next
    case (Some el)
    then have el: "el \<in> set (lru_list l)" "fst (lru_elem l el) = k"
      using lru_invD(7,8) [OF assms] by blast+
    have "map_of (lru_Range l) k = Some (snd (lru_elem l el))" using val Some by simp
    then show ?thesis using Some lru_Range_remove [OF assms el(1)] el(2)
      by (simp add: lru_Get_def recency_touch_def lru_Range_def lru_MoveToFront_def)
        (metis prod.collapse)
  qed
qed

lemma lru_modify_ok:
  assumes "lru_inv cap l"
  shows "lru_inv cap (lru_modify k f l)"
    "lru_Range (lru_modify k f l) = recency_modify k f (lru_Range l)"
proof -
  have other: "fst (lru_elem l e) \<noteq> k"
    if "e \<in> set (lru_list l)" "lru_items l k \<noteq> Some e" for e
    using lru_invD(6) [OF assms that(1)] that(2) by auto
  show "lru_inv cap (lru_modify k f l)"
    using assms by (auto simp: lru_modify_def lru_inv_def split: option.splits)
  show "lru_Range (lru_modify k f l) = recency_modify k f (lru_Range l)"
  proof (cases "lru_items l k")
    case None
    then show ?thesis using other
      by (auto simp: lru_modify_def lru_Range_def recency_modify_def case_prod_unfold)
  next
    case (Some el)
    then have "fst (lru_elem l el) = k" by (rule lru_invD(8) [OF assms])
    with Some other show ?thesis
      by (auto simp: lru_modify_def lru_Range_def recency_modify_def case_prod_unfold
          intro!: prod_eqI)
  qed
qed

text \<open>Evicting the last element.\<close>

definition lru_evict :: "('k, 'v) lru \<Rightarrow> ('k, 'v) lru" where
  "lru_evict l =
     (let oldest = last (lru_list l)
      in l\<lparr>lru_list := remove1 oldest (lru_list l),
           lru_items := (lru_items l)(fst (lru_elem l oldest) := None),
           lru_evicted := lru_evicted l + 1\<rparr>)"

lemma lru_evict_ok:
  assumes "lru_inv cap l" "lru_list l \<noteq> []"
  shows "lru_inv cap (lru_evict l)" "lru_Range (lru_evict l) = butlast (lru_Range l)"
    "length (lru_list (lru_evict l)) < cap" "lru_items l k = None \<Longrightarrow> lru_items (lru_evict l) k = None"
proof -
  let ?o = "last (lru_list l)"
  have o: "?o \<in> set (lru_list l)" using assms(2) by simp
  have keys: "fst (lru_elem l e) \<noteq> fst (lru_elem l ?o)" if "e \<in> set (lru_list l)" "e \<noteq> ?o" for e
    using lru_keys_inj [OF assms(1)] that o by (auto dest: inj_onD)
  have rem: "remove1 ?o (lru_list l) = butlast (lru_list l)"
    "set (remove1 ?o (lru_list l)) = set (lru_list l) - {?o}"
    using remove1_last [OF lru_invD(4) [OF assms(1)] assms(2)]
      set_remove1_eq [OF lru_invD(4) [OF assms(1)]] by blast+
  show "lru_inv cap (lru_evict l)"
    using assms o keys unfolding lru_inv_def lru_evict_def Let_def
    by (auto simp: rem(2) length_remove1 split: if_splits)
  show "lru_Range (lru_evict l) = butlast (lru_Range l)"
    by (simp add: lru_evict_def lru_Range_def rem(1) map_butlast Let_def)
  show "length (lru_list (lru_evict l)) < cap"
    using lru_invD(1,3) [OF assms(1)] assms(2) by (simp add: lru_evict_def rem(1) Let_def)
  show "lru_items l k = None \<Longrightarrow> lru_items (lru_evict l) k = None"
    by (simp add: lru_evict_def Let_def)
qed

definition lru_insert :: "'k \<Rightarrow> 'v \<Rightarrow> ('k, 'v) lru \<Rightarrow> ('k, 'v) lru" where
  "lru_insert k v l =
     l\<lparr>lru_list := lru_fresh l # lru_list l, lru_elem := (lru_elem l)(lru_fresh l := (k, v)),
       lru_fresh := Suc (lru_fresh l), lru_items := (lru_items l)(k \<mapsto> lru_fresh l)\<rparr>"

lemma lru_insert_ok:
  assumes "lru_inv cap l" "length (lru_list l) < cap" "lru_items l k = None"
  shows "lru_inv cap (lru_insert k v l)" "lru_Range (lru_insert k v l) = (k, v) # lru_Range l"
proof -
  have fresh: "lru_fresh l \<notin> set (lru_list l)" using lru_invD(5) [OF assms(1)] by blast
  have other: "fst (lru_elem l e) \<noteq> k" if "e \<in> set (lru_list l)" for e
    using lru_invD(6) [OF assms(1) that] assms(3) by auto
  show "lru_inv cap (lru_insert k v l)"
    using assms fresh other unfolding lru_inv_def lru_insert_def by (auto simp: less_Suc_eq)
  show "lru_Range (lru_insert k v l) = (k, v) # lru_Range l"
    by (simp add: lru_insert_def lru_Range_def lru_map_other [OF fresh])
qed

lemma lru_Put_cases:
  "lru_Put k v l =
     (case lru_items l k of
        Some el \<Rightarrow> lru_modify k (\<lambda>_. v) (snd (lru_Get k l))
      | None \<Rightarrow> lru_insert k v
          (if lru_cap l \<le> length (lru_list l) \<and> lru_list l \<noteq> [] then lru_evict l else l))"
  if "lru_inv cap l"
  using lru_invD(8) [OF that]
  by (auto simp: lru_Put_def lru_modify_def lru_Get_def lru_evict_def lru_insert_def Let_def
      split: option.splits)

lemma lru_Put_ok:
  assumes inv: "lru_inv cap l"
  shows "lru_inv cap (lru_Put k v l)" "lru_Range (lru_Put k v l) = recency_push cap k v (lru_Range l)"
proof -
  note val = lru_items_Range [OF inv, of k]
  have "lru_inv cap (lru_Put k v l) \<and>
    lru_Range (lru_Put k v l) = recency_push cap k v (lru_Range l)"
  proof (cases "lru_items l k")
    case None
    let ?l = "if lru_cap l \<le> length (lru_list l) \<and> lru_list l \<noteq> [] then lru_evict l else l"
    have "map_of (lru_Range l) k = None" using val None by simp
    then have "k \<notin> fst ` set (lru_Range l)" by (simp add: map_of_eq_None_iff)
    moreover have len: "length (lru_Range l) = length (lru_list l)" by (simp add: lru_Range_def)
    moreover have "lru_inv cap ?l" "length (lru_list ?l) < cap" "lru_items ?l k = None"
      "lru_Range ?l = (if cap \<le> length (lru_list l) then butlast (lru_Range l) else lru_Range l)"
      using lru_evict_ok [OF inv] inv None lru_invD(1,2) [OF inv]
      by (auto simp: lru_Range_def not_le)
    ultimately show ?thesis using lru_insert_ok [of cap ?l k v] None
      by (simp add: lru_Put_cases [OF inv] recency_push_def)
  next
    case (Some el)
    note get = lru_Get_ok [OF inv, of k]
    have "map_of (lru_Range l) k = Some (snd (lru_elem l el))" using val Some by simp
    moreover from this have "k \<in> fst ` set (lru_Range l)" by (metis map_of_eq_None_iff option.distinct(1))
    moreover have "recency_modify k f (key_filter k xs) = key_filter k xs" for f and xs :: "('a \<times> 'b) list"
      by (induction xs) (auto simp: recency_modify_def key_filter_def)
    moreover have "recency_modify k f (e # xs) =
        (fst e, if fst e = k then f (snd e) else snd e) # recency_modify k f xs"
      for f and e and xs :: "('a \<times> 'b) list" by (simp add: recency_modify_def case_prod_unfold)
    ultimately show ?thesis using Some lru_modify_ok [OF get(1), of k "\<lambda>_. v"] get(3)
      by (simp add: lru_Put_cases [OF inv] recency_push_def recency_touch_def)
  qed
  then show "lru_inv cap (lru_Put k v l)"
    "lru_Range (lru_Put k v l) = recency_push cap k v (lru_Range l)" by simp_all
qed

interpretation lru: keyed_cache lru_Get lru_Put lru_modify lru_Range "Suc n" "lru_inv (Suc n)" for n
  using lru_Range_distinct lru_Get_ok lru_Put_ok lru_modify_ok lru_invD(3)
  by unfold_locales (auto simp: lru_Range_def)

section \<open>Aggregating per key\<close>

text \<open>What every collector does with an event: get the entry of the key, insert a new one when
  there is none, and update the entry in place.\<close>

definition keyed_record ::
  "('k \<Rightarrow> 'c \<Rightarrow> 'v option \<times> 'c) \<Rightarrow> ('k \<Rightarrow> 'v \<Rightarrow> 'c \<Rightarrow> 'c) \<Rightarrow> ('k \<Rightarrow> ('v \<Rightarrow> 'v) \<Rightarrow> 'c \<Rightarrow> 'c) \<Rightarrow>
   'k \<Rightarrow> 'v \<Rightarrow> ('v \<Rightarrow> 'v) \<Rightarrow> 'c \<Rightarrow> 'c" where
  "keyed_record get put modif k new f c =
     (case get k c of
        (Some _, c) \<Rightarrow> modif k f c
      | (None, c) \<Rightarrow> modif k f (put k new c))"

definition recency_record ::
  "nat \<Rightarrow> 'k \<Rightarrow> 'v \<Rightarrow> ('v \<Rightarrow> 'v) \<Rightarrow> ('k \<times> 'v) list \<Rightarrow> ('k \<times> 'v) list" where
  "recency_record cap k new f xs =
     (case map_of xs k of
        Some v \<Rightarrow> (k, f v) # key_filter k xs
      | None \<Rightarrow> (k, f new) # (if cap \<le> length xs then butlast xs else xs))"

lemma recency_modify_head:
  "recency_modify k f ((k, v) # xs) = (k, f v) # recency_modify k f xs"
  by (simp add: recency_modify_def)

lemma recency_modify_absent: "k \<notin> fst ` set xs \<Longrightarrow> recency_modify k f xs = xs"
  by (induction xs) (auto simp: recency_modify_def)

lemma key_filter_absent: "k \<notin> fst ` set (key_filter k xs)"
  by (auto simp: key_filter_def)

lemma key_filter_facts:
  "map_of (key_filter j xs) k = (if k = j then None else map_of xs k)"
  "distinct (map fst xs) \<Longrightarrow> distinct (map fst (key_filter j xs))"
  "fst ` set (key_filter j xs) = fst ` set xs - {j}"
  by (induction xs) (auto simp: key_filter_def image_iff)

lemma recency_record_mem:
  assumes "(k, v) \<in> set (recency_record cap j new f xs)"
  shows "(k = j \<and> v = f (case map_of xs j of None \<Rightarrow> new | Some w \<Rightarrow> w)) \<or>
    (j \<noteq> k \<and> (k, v) \<in> set xs)"
proof (cases "map_of xs j")
  case None
  then have "j \<notin> fst ` set xs" by (simp add: map_of_eq_None_iff)
  then have "(j, w) \<notin> set xs" for w by force
  then show ?thesis using assms None
    by (auto simp: recency_record_def dest: in_set_butlastD split: if_splits)
next
  case (Some w)
  then show ?thesis using assms by (auto simp: recency_record_def key_filter_def)
qed

context keyed_cache
begin

lemma record_inv: "inv c \<Longrightarrow> inv (keyed_record cget cput cmodify k new f c)"
  using get_inv [of c k] put_inv modify_inv
  by (auto simp: keyed_record_def split: prod.splits option.splits)

lemma record_view:
  assumes "inv c"
  shows "view (keyed_record cget cput cmodify k new f c) = recency_record cap k new f (view c)"
proof (cases "map_of (view c) k")
  case None
  obtain c' where get: "cget k c = (None, c')"
    using get_value [OF assms, of k] None by (cases "cget k c") auto
  have c': "inv c'" "view c' = view c"
    using get_inv [OF assms, of k] get_view [OF assms, of k] None get
    by (simp_all add: recency_touch_def)
  have k: "k \<notin> fst ` set (view c)" using None by (simp add: map_of_eq_None_iff)
  have "k \<notin> fst ` set (if cap \<le> length (view c) then butlast (view c) else view c)"
    using k by (auto dest: in_set_butlastD)
  then show ?thesis using None get c' k
    by (simp add: keyed_record_def recency_record_def modify_view put_inv put_view recency_push_def
        recency_modify_head recency_modify_absent)
next
  case (Some v)
  obtain c' where get: "cget k c = (Some v, c')"
    using get_value [OF assms, of k] Some by (cases "cget k c") auto
  have "inv c'" "view c' = (k, v) # key_filter k (view c)"
    using get_inv [OF assms, of k] get_view [OF assms, of k] Some get
    by (simp_all add: recency_touch_def)
  then show ?thesis using Some get
    by (simp add: keyed_record_def recency_record_def modify_view recency_modify_head
        recency_modify_absent key_filter_absent)
qed

lemma record_run:
  assumes "inv c"
  shows "inv (foldl (\<lambda>c (k, new, f). keyed_record cget cput cmodify k new f c) c es) \<and>
    view (foldl (\<lambda>c (k, new, f). keyed_record cget cput cmodify k new f c) c es) =
    foldl (\<lambda>xs (k, new, f). recency_record cap k new f xs) (view c) es"
  using assms
proof (induction es arbitrary: c)
  case Nil
  then show ?case by simp
next
  case (Cons e es)
  obtain k new f where e: "e = (k, new, f)" by (cases e)
  show ?case using Cons.IH [OF record_inv [OF Cons.prems]] record_view [OF Cons.prems]
    by (simp add: e)
qed

end

section \<open>What an entry aggregates\<close>

text \<open>The updates of one key, and the value they build: the first update of the list also gives
  the initial entry.\<close>

definition key_events :: "'k \<Rightarrow> ('k \<times> 'v \<times> ('v \<Rightarrow> 'v)) list \<Rightarrow> ('v \<times> ('v \<Rightarrow> 'v)) list" where
  "key_events k es = map snd (filter (\<lambda>e. fst e = k) es)"

definition aggregate :: "('v \<times> ('v \<Rightarrow> 'v)) list \<Rightarrow> 'v" where
  "aggregate us = foldl (\<lambda>v u. snd u v) (fst (hd us)) us"

definition recency_run :: "nat \<Rightarrow> ('k \<times> 'v \<times> ('v \<Rightarrow> 'v)) list \<Rightarrow> ('k \<times> 'v) list" where
  "recency_run cap es = foldl (\<lambda>xs (k, new, f). recency_record cap k new f xs) [] es"

lemma key_events_snoc:
  "key_events k (es @ [(j, new, f)]) = key_events k es @ (if j = k then [(new, f)] else [])"
  by (simp add: key_events_def)

lemma aggregate_snoc: "us \<noteq> [] \<Longrightarrow> aggregate (us @ [u]) = snd u (aggregate us)"
  by (simp add: aggregate_def)

lemma aggregate_single: "aggregate [(new, f)] = f new"
  by (simp add: aggregate_def)

lemma recency_run_snoc:
  "recency_run cap (es @ [(k, new, f)]) = recency_record cap k new f (recency_run cap es)"
  by (simp add: recency_run_def)

text \<open>An entry holds the updates of its key since it was last inserted: a suffix.\<close>

lemma recency_run_suffix:
  "(k, v) \<in> set (recency_run cap es) \<Longrightarrow>
   \<exists>pre suf. key_events k es = pre @ suf \<and> suf \<noteq> [] \<and> v = aggregate suf"
proof (induction es arbitrary: v rule: rev_induct)
  case Nil
  then show ?case by (simp add: recency_run_def)
next
  case (snoc e es)
  obtain j new f where e: "e = (j, new, f)" by (cases e)
  let ?xs = "recency_run cap es"
  have old: "\<exists>pre suf. key_events k (es @ [e]) = pre @ suf \<and> suf \<noteq> [] \<and> v = aggregate suf"
    if "(k, v) \<in> set ?xs" "j \<noteq> k" using snoc.IH [OF that(1)] that(2) by (simp add: e key_events_snoc)
  show ?case
  proof (cases "j = k")
    case False
    then show ?thesis using snoc.prems old
      by (auto simp: e recency_run_snoc dest: recency_record_mem)
  next
    case True
    then have v: "v = f (case map_of ?xs k of None \<Rightarrow> new | Some w \<Rightarrow> w)"
      using recency_record_mem [of k v cap j new f ?xs] snoc.prems by (simp add: e recency_run_snoc)
    have es: "key_events k (es @ [e]) = key_events k es @ [(new, f)]"
      by (simp add: e key_events_snoc True)
    show ?thesis
    proof (cases "map_of ?xs k")
      case None
      then show ?thesis using es v by (intro exI [of _ "key_events k es"] exI [of _ "[(new, f)]"])
        (simp add: aggregate_single)
    next
      case (Some w)
      obtain pre suf where pre: "key_events k es = pre @ suf" "suf \<noteq> []" "w = aggregate suf"
        using snoc.IH [OF map_of_SomeD [OF Some]] by blast
      then show ?thesis using es v Some
        by (intro exI [of _ pre] exI [of _ "suf @ [(new, f)]"]) (simp add: aggregate_snoc)
    qed
  qed
qed

lemma key_events_Nil: "key_events k es = [] \<longleftrightarrow> k \<notin> fst ` set es"
  by (induction es) (auto simp: key_events_def)

text \<open>While the distinct keys fit, nothing is evicted and every key has all its updates.\<close>

lemma recency_run_exact:
  "card (fst ` set es) \<le> cap \<Longrightarrow>
   distinct (map fst (recency_run cap es)) \<and> fst ` set (recency_run cap es) = fst ` set es \<and>
   map_of (recency_run cap es) k =
     (if key_events k es = [] then None else Some (aggregate (key_events k es)))"
proof (induction es arbitrary: k rule: rev_induct)
  case Nil
  then show ?case by (simp add: recency_run_def key_events_def)
next
  case (snoc e es)
  obtain j new f where e: "e = (j, new, f)" by (cases e)
  let ?xs = "recency_run cap es"
  have "card (fst ` set es) \<le> card (fst ` set (es @ [e]))" by (intro card_mono) auto
  then have IH: "distinct (map fst ?xs)" "fst ` set ?xs = fst ` set es"
    "\<And>k. map_of ?xs k = (if key_events k es = [] then None else Some (aggregate (key_events k es)))"
    using snoc by (meson order_trans)+
  have room: "\<not> cap \<le> length ?xs" if "j \<notin> fst ` set es"
  proof -
    have "length ?xs = card (fst ` set es)" using distinct_card [OF IH(1)] IH(2) by simp
    also have "\<dots> < card (insert j (fst ` set es))" using that by simp
    finally show ?thesis using snoc.prems by (simp add: e)
  qed
  have j: "map_of ?xs j = None \<longleftrightarrow> j \<notin> fst ` set es"
    using IH(3) [of j] by (simp add: key_events_Nil)
  note filt = key_filter_facts [where j = j and xs = ?xs]
  show ?case
  proof (cases "map_of ?xs j")
    case None
    then have new: "j \<notin> fst ` set es" using j by simp
    then have "recency_run cap (es @ [e]) = (j, f new) # ?xs"
      using None room by (simp add: e recency_run_snoc recency_record_def)
    moreover have "key_events j es = []" using new by (simp add: key_events_Nil)
    ultimately show ?thesis using IH new
      by (auto simp: e key_events_snoc aggregate_single)
  next
    case (Some v)
    then have "recency_run cap (es @ [e]) = (j, f v) # key_filter j ?xs"
      by (simp add: e recency_run_snoc recency_record_def)
    moreover have "key_events j es \<noteq> []" "v = aggregate (key_events j es)"
      using IH(3) [of j] Some by (auto split: if_splits)
    moreover have "j \<in> fst ` set es" using Some j by auto
    ultimately show ?thesis using IH filt
      by (auto simp: e key_events_snoc aggregate_snoc)
  qed
qed

section \<open>Runs of the cache\<close>

datatype ('k, 'v) lru_op = LGet 'k | LPut 'k 'v

primrec lru_step :: "('k, 'v) lru \<Rightarrow> ('k, 'v) lru_op \<Rightarrow> ('k, 'v) lru" where
  "lru_step l (LGet k) = snd (lru_Get k l)"
| "lru_step l (LPut k v) = lru_Put k v l"

definition lru_run :: "('k, 'v) lru \<Rightarrow> ('k, 'v) lru_op list \<Rightarrow> ('k, 'v) lru" where
  "lru_run l os = foldl lru_step l os"

text \<open>The number of insertions of a key that is not there.\<close>

fun lru_inserts :: "('k, 'v) lru \<Rightarrow> ('k, 'v) lru_op list \<Rightarrow> nat" where
  "lru_inserts l [] = 0"
| "lru_inserts l (LGet k # os) = lru_inserts (lru_step l (LGet k)) os"
| "lru_inserts l (LPut k v # os) =
     (if lru_items l k = None then 1 else 0) + lru_inserts (lru_step l (LPut k v)) os"

lemma lru_step_inv: "lru_inv cap l \<Longrightarrow> lru_inv cap (lru_step l x)"
  by (cases x) (simp_all add: lru_Get_ok lru_Put_ok)

lemma lru_run_inv: "lru_inv cap l \<Longrightarrow> lru_inv cap (lru_run l os)"
  unfolding lru_run_def by (induction os arbitrary: l) (simp_all add: lru_step_inv)

lemma lru_MoveToFront_length:
  "el \<in> set els \<Longrightarrow> length (lru_MoveToFront el els) = length els"
  using length_pos_if_in_set [of el els] by (simp add: lru_MoveToFront_def length_remove1)

lemma lru_Get_count:
  "lru_inv cap l \<Longrightarrow> lru_Len (snd (lru_Get k l)) = lru_Len l \<and>
   lru_evicted (snd (lru_Get k l)) = lru_evicted l"
  using lru_invD(7) [of cap l k]
  by (auto simp: lru_Get_def lru_Len_def lru_MoveToFront_length split: option.splits)

lemma lru_Put_count:
  assumes "lru_inv cap l"
  shows "of_nat (lru_Len (lru_Put k v l)) + lru_evicted (lru_Put k v l) =
    of_nat (lru_Len l) + lru_evicted l + (if lru_items l k = None then 1 else (0 :: u64))"
proof (cases "lru_items l k")
  case None
  have "of_nat (lru_Len (lru_evict l)) + lru_evicted (lru_evict l) =
      (of_nat (lru_Len l) + lru_evicted l :: u64)" if "lru_list l \<noteq> []"
    using that by (cases "lru_list l" rule: rev_cases)
      (simp_all add: lru_evict_def lru_Len_def Let_def length_remove1)
  then show ?thesis using None
    by (simp add: lru_Put_cases [OF assms] lru_insert_def lru_Len_def add.assoc add.commute)
next
  case (Some el)
  then show ?thesis using lru_Get_count [OF assms, of k]
    by (simp add: lru_Put_cases [OF assms] lru_modify_def lru_Len_def split: option.splits)
qed

lemma lru_run_count:
  assumes "lru_inv cap l"
  shows "of_nat (lru_Len (lru_run l os)) + lru_evicted (lru_run l os) =
    of_nat (lru_Len l) + lru_evicted l + (of_nat (lru_inserts l os) :: u64)"
  using assms
proof (induction os arbitrary: l)
  case Nil
  then show ?case by (simp add: lru_run_def)
next
  case (Cons x os)
  have "of_nat (lru_Len (lru_run l (x # os))) + lru_evicted (lru_run l (x # os)) =
      of_nat (lru_Len (lru_step l x)) + lru_evicted (lru_step l x) +
      (of_nat (lru_inserts (lru_step l x) os) :: u64)"
    using Cons.IH [OF lru_step_inv [OF Cons.prems], of x] by (simp add: lru_run_def)
  then show ?case
    using lru_Get_count [OF Cons.prems] lru_Put_count [OF Cons.prems] by (cases x) simp_all
qed

section \<open>Properties\<close>

text \<open>C19: the linked list and the map implement a recency list. In a state whose list and map
  agree, Get returns the value last stored under the key and moves its entry to the front, Put
  replaces the value in front or inserts it in front, dropping the oldest entry when the cache is
  full, and each leaves list and map in agreement.\<close>

theorem lru_refines_recency_list:
  assumes "lru_inv cap l"
  shows "fst (lru_Get k l) = map_of (lru_Range l) k \<and>
    lru_Range (snd (lru_Get k l)) = recency_touch k (lru_Range l) \<and>
    lru_Range (lru_Put k v l) = recency_push cap k v (lru_Range l) \<and>
    fst (lru_Get k (lru_Put k v l)) = Some v \<and>
    lru_inv cap (snd (lru_Get k l)) \<and> lru_inv cap (lru_Put k v l)"
  using lru_Get_ok [OF assms, of k] lru_Put_ok [OF assms, of k v] lru_Get_ok(2) [OF lru_Put_ok(1) [OF assms]]
  by (simp add: recency_push_def)

theorem lru_refines_recency_list_witness:
  "lru_Range (lru_Put ''c'' (3 :: nat) (snd (lru_Get ''a''
     (lru_Put ''b'' 2 (lru_Put ''a'' 1 (lru_New 2)))))) = [(''c'', 3), (''a'', 1)]"
proof -
  let ?l = "snd (lru_Get ''a'' (lru_Put ''b'' (2 :: nat) (lru_Put ''a'' 1 (lru_New 2))))"
  have "lru_inv 2 (lru_New 2 :: (string, nat) lru)" using lru_inv_New [of 2] by simp
  then have inv: "lru_inv 2 ?l" by (intro lru_Get_ok(1) lru_Put_ok(1))
  have "lru_Range ?l = [(''a'', 1), (''b'', 2)]"
    by (simp add: lru_Get_def lru_Put_def lru_New_def lru_MoveToFront_def lru_Range_def)
  then show ?thesis using lru_refines_recency_list [OF inv, of "''c''" 3]
    by (simp add: recency_push_def)
qed

text \<open>The cache is bounded and its counters add up. After any sequence of operations on a new
  cache there are at most capacity entries (one, for a capacity below one), no key twice, and the
  entries present plus the evictions counted are the insertions of new keys, modulo 2^64.\<close>

theorem lru_bounded_and_counted:
  "length (lru_Range (lru_run (lru_New c) os)) \<le> nat (max 1 c) \<and>
   distinct (map fst (lru_Range (lru_run (lru_New c) os))) \<and>
   of_nat (lru_Len (lru_run (lru_New c) os)) + lru_evicted (lru_run (lru_New c) os) =
     (of_nat (lru_inserts (lru_New c) os) :: u64)"
proof -
  have new: "lru_inv (nat (max 1 c)) (lru_New c)"
    using lru_inv_New [of c] by (simp add: max_def split: if_splits)
  note inv = lru_run_inv [OF new, of os]
  show ?thesis using lru_run_count [OF new, of os] lru_invD(3) [OF inv] lru_Range_distinct [OF inv]
    by (simp add: lru_Range_def) (simp add: lru_New_def lru_Len_def)
qed

end
