(* ===== verification/GoEvents.thy ===== *)
theory GoEvents
  imports KernoH
begin

text \<open>
  The user-space end of the ring buffers (\<open>internal/bpf/*.go\<close>): the Go event structures of
  \<open>events.go\<close> with their accessors, the \<open>Decode*Event\<close> functions of the loaders, and the
  return value test of \<open>syscalls.go\<close>. The lemmas tie them to the C structures of
  \<open>kerno.h\<close>: same fields at the same offsets, so what a program submits is what Go decodes.
\<close>

section \<open>\<open>encoding/binary\<close>\<close>

text \<open>\<open>binary.Read\<close> of a structure reads exactly as many bytes as its fields need and fails
  otherwise, with EOF on empty input; the fields follow each other without padding.\<close>

datatype go_error = EOF | ErrUnexpectedEOF

fun chunks :: "nat \<Rightarrow> nat list \<Rightarrow> bytes \<Rightarrow> bytes list" where
  "chunks off [] data = []"
| "chunks off (w # ws) data = bslice off w data # chunks (off + w) ws data"

definition binary_Read :: "nat list \<Rightarrow> bytes \<Rightarrow> go_error + bytes list" where
  "binary_Read ws data =
     (if length data < sum_list ws
      then Inl (if data = [] then EOF else ErrUnexpectedEOF)
      else Inr (chunks 0 ws data))"

section \<open>Event structures\<close>

definition TaskCommLen :: nat where "TaskCommLen = 16"

record SyscallEvent =
  SE_TimestampNs :: u64
  SE_LatencyNs :: u64
  SE_CgroupID :: u64
  SE_PID :: u32
  SE_TID :: u32
  SE_SyscallNr :: u32
  SE_Ret :: u32
  SE_Comm :: bytes

definition SyscallEvent_fields :: "nat list" where
  "SyscallEvent_fields = [8, 8, 8, 4, 4, 4, 4, TaskCommLen]"

record TCPEvent =
  TE_TimestampNs :: u64
  TE_CgroupID :: u64
  TE_PID :: u32
  TE_SAddr :: u32
  TE_DAddr :: u32
  TE_SPort :: u16
  TE_DPort :: u16
  TE_Family :: u16
  TE_EventType :: u8
  TE_State :: u8
  TE_RTTUs :: u32
  TE_Retransmits :: u32
  TE_Comm :: bytes
  TE_Pad :: bytes

definition TCPEvent_fields :: "nat list" where
  "TCPEvent_fields = [8, 8, 4, 4, 4, 2, 2, 2, 1, 1, 4, 4, TaskCommLen, 4]"

record OOMEvent =
  OE_TimestampNs :: u64
  OE_CgroupID :: u64
  OE_TotalPages :: u64
  OE_RSSPages :: u64
  OE_PID :: u32
  OE_TriggeredPID :: u32
  OE_OOMScore :: u32
  OE_Pad0 :: u32
  OE_Comm :: bytes

definition OOMEvent_fields :: "nat list" where
  "OOMEvent_fields = [8, 8, 8, 8, 4, 4, 4, 4, TaskCommLen]"

record DiskEvent =
  DE_TimestampNs :: u64
  DE_LatencyNs :: u64
  DE_Sector :: u64
  DE_Dev :: u32
  DE_NrBytes :: u32
  DE_PID :: u32
  DE_Op :: u8
  DE_Pad0 :: bytes
  DE_Comm :: bytes

definition DiskEvent_fields :: "nat list" where
  "DiskEvent_fields = [8, 8, 8, 4, 4, 4, 1, 3, TaskCommLen]"

record SchedEvent =
  SC_TimestampNs :: u64
  SC_RunqDelayNs :: u64
  SC_CgroupID :: u64
  SC_PID :: u32
  SC_CPU :: u32
  SC_Comm :: bytes

definition SchedEvent_fields :: "nat list" where
  "SchedEvent_fields = [8, 8, 8, 4, 4, TaskCommLen]"

record FDEvent =
  FE_TimestampNs :: u64
  FE_CgroupID :: u64
  FE_PID :: u32
  FE_FD :: u32
  FE_Op :: u8
  FE_Pad0 :: bytes
  FE_Comm :: bytes

definition FDEvent_fields :: "nat list" where
  "FDEvent_fields = [8, 8, 4, 4, 1, 7, TaskCommLen]"

section \<open>Decoders\<close>

definition DecodeSyscallEvent :: "bytes \<Rightarrow> go_error + SyscallEvent" where
  "DecodeSyscallEvent data =
     (case binary_Read SyscallEvent_fields data of
        Inl e \<Rightarrow> Inl e
      | Inr f \<Rightarrow> Inr \<lparr>SE_TimestampNs = le_word (f ! 0), SE_LatencyNs = le_word (f ! 1),
          SE_CgroupID = le_word (f ! 2), SE_PID = le_word (f ! 3), SE_TID = le_word (f ! 4),
          SE_SyscallNr = le_word (f ! 5), SE_Ret = le_word (f ! 6), SE_Comm = f ! 7\<rparr>)"

definition DecodeTCPEvent :: "bytes \<Rightarrow> go_error + TCPEvent" where
  "DecodeTCPEvent data =
     (case binary_Read TCPEvent_fields data of
        Inl e \<Rightarrow> Inl e
      | Inr f \<Rightarrow> Inr \<lparr>TE_TimestampNs = le_word (f ! 0), TE_CgroupID = le_word (f ! 1),
          TE_PID = le_word (f ! 2), TE_SAddr = le_word (f ! 3), TE_DAddr = le_word (f ! 4),
          TE_SPort = le_word (f ! 5), TE_DPort = le_word (f ! 6), TE_Family = le_word (f ! 7),
          TE_EventType = le_word (f ! 8), TE_State = le_word (f ! 9), TE_RTTUs = le_word (f ! 10),
          TE_Retransmits = le_word (f ! 11), TE_Comm = f ! 12, TE_Pad = f ! 13\<rparr>)"

definition DecodeOOMEvent :: "bytes \<Rightarrow> go_error + OOMEvent" where
  "DecodeOOMEvent data =
     (case binary_Read OOMEvent_fields data of
        Inl e \<Rightarrow> Inl e
      | Inr f \<Rightarrow> Inr \<lparr>OE_TimestampNs = le_word (f ! 0), OE_CgroupID = le_word (f ! 1),
          OE_TotalPages = le_word (f ! 2), OE_RSSPages = le_word (f ! 3), OE_PID = le_word (f ! 4),
          OE_TriggeredPID = le_word (f ! 5), OE_OOMScore = le_word (f ! 6),
          OE_Pad0 = le_word (f ! 7), OE_Comm = f ! 8\<rparr>)"

definition DecodeDiskEvent :: "bytes \<Rightarrow> go_error + DiskEvent" where
  "DecodeDiskEvent data =
     (case binary_Read DiskEvent_fields data of
        Inl e \<Rightarrow> Inl e
      | Inr f \<Rightarrow> Inr \<lparr>DE_TimestampNs = le_word (f ! 0), DE_LatencyNs = le_word (f ! 1),
          DE_Sector = le_word (f ! 2), DE_Dev = le_word (f ! 3), DE_NrBytes = le_word (f ! 4),
          DE_PID = le_word (f ! 5), DE_Op = le_word (f ! 6), DE_Pad0 = f ! 7, DE_Comm = f ! 8\<rparr>)"

definition DecodeSchedEvent :: "bytes \<Rightarrow> go_error + SchedEvent" where
  "DecodeSchedEvent data =
     (case binary_Read SchedEvent_fields data of
        Inl e \<Rightarrow> Inl e
      | Inr f \<Rightarrow> Inr \<lparr>SC_TimestampNs = le_word (f ! 0), SC_RunqDelayNs = le_word (f ! 1),
          SC_CgroupID = le_word (f ! 2), SC_PID = le_word (f ! 3), SC_CPU = le_word (f ! 4),
          SC_Comm = f ! 5\<rparr>)"

definition DecodeFDEvent :: "bytes \<Rightarrow> go_error + FDEvent" where
  "DecodeFDEvent data =
     (case binary_Read FDEvent_fields data of
        Inl e \<Rightarrow> Inl e
      | Inr f \<Rightarrow> Inr \<lparr>FE_TimestampNs = le_word (f ! 0), FE_CgroupID = le_word (f ! 1),
          FE_PID = le_word (f ! 2), FE_FD = le_word (f ! 3), FE_Op = le_word (f ! 4),
          FE_Pad0 = f ! 5, FE_Comm = f ! 6\<rparr>)"

section \<open>Accessors\<close>

text \<open>Go strings are byte sequences.\<close>

fun nullTermString :: "bytes \<Rightarrow> bytes" where
  "nullTermString [] = []"
| "nullTermString (c # cs) = (if c = 0 then [] else c # nullTermString cs)"

lemma nullTermString_app: "0 \<notin> set s \<Longrightarrow> nullTermString (s @ 0 # r) = s"
  by (induction s) auto

text \<open>\<open>SrcAddr\<close> and \<open>DstAddr\<close> write the address with \<open>binary.BigEndian.PutUint32\<close>.\<close>

definition BigEndian_PutUint32 :: "u32 \<Rightarrow> bytes" where
  "BigEndian_PutUint32 w = rev (le_bytes 4 w)"

definition SrcAddr :: "TCPEvent \<Rightarrow> bytes" where
  "SrcAddr e = BigEndian_PutUint32 (TE_SAddr e)"

definition DstAddr :: "TCPEvent \<Rightarrow> bytes" where
  "DstAddr e = BigEndian_PutUint32 (TE_DAddr e)"

definition IsSyscallError :: "u32 \<Rightarrow> bool" where
  "IsSyscallError ret \<longleftrightarrow> 0xFFFFF001 \<le> ret"

section \<open>C layout and Go layout agree\<close>

definition running_sums :: "nat list \<Rightarrow> nat list" where
  "running_sums ws = map (\<lambda>i. sum_list (take i ws)) [0..<length ws]"

lemmas event_structs = struct_syscall_event_def struct_tcp_event_def struct_oom_event_def
  struct_disk_event_def struct_sched_event_def struct_fd_event_def

lemmas go_fields = SyscallEvent_fields_def TCPEvent_fields_def OOMEvent_fields_def
  DiskEvent_fields_def SchedEvent_fields_def FDEvent_fields_def TaskCommLen_def

lemma syscall_event_offsets [abi_simps]:
  "coffset struct_syscall_event ''timestamp_ns'' = 0" "coffset struct_syscall_event ''latency_ns'' = 8"
  "coffset struct_syscall_event ''cgroup_id'' = 16" "coffset struct_syscall_event ''pid'' = 24"
  "coffset struct_syscall_event ''tid'' = 28" "coffset struct_syscall_event ''syscall_nr'' = 32"
  "coffset struct_syscall_event ''ret'' = 36" "coffset struct_syscall_event ''comm'' = 40"
  by (simp_all add: struct_syscall_event_def field_eval kerno_consts)

lemma tcp_event_offsets [abi_simps]:
  "coffset struct_tcp_event ''timestamp_ns'' = 0" "coffset struct_tcp_event ''cgroup_id'' = 8"
  "coffset struct_tcp_event ''pid'' = 16" "coffset struct_tcp_event ''saddr'' = 20"
  "coffset struct_tcp_event ''daddr'' = 24" "coffset struct_tcp_event ''sport'' = 28"
  "coffset struct_tcp_event ''dport'' = 30" "coffset struct_tcp_event ''family'' = 32"
  "coffset struct_tcp_event ''event_type'' = 34" "coffset struct_tcp_event ''state'' = 35"
  "coffset struct_tcp_event ''rtt_us'' = 36" "coffset struct_tcp_event ''retransmits'' = 40"
  "coffset struct_tcp_event ''comm'' = 44" "coffset struct_tcp_event ''_pad'' = 60"
  by (simp_all add: struct_tcp_event_def field_eval kerno_consts)

lemma oom_event_offsets [abi_simps]:
  "coffset struct_oom_event ''timestamp_ns'' = 0" "coffset struct_oom_event ''cgroup_id'' = 8"
  "coffset struct_oom_event ''total_pages'' = 16" "coffset struct_oom_event ''rss_pages'' = 24"
  "coffset struct_oom_event ''pid'' = 32" "coffset struct_oom_event ''triggered_pid'' = 36"
  "coffset struct_oom_event ''oom_score'' = 40" "coffset struct_oom_event ''_pad'' = 44"
  "coffset struct_oom_event ''comm'' = 48"
  by (simp_all add: struct_oom_event_def field_eval kerno_consts)

lemma disk_event_offsets [abi_simps]:
  "coffset struct_disk_event ''timestamp_ns'' = 0" "coffset struct_disk_event ''latency_ns'' = 8"
  "coffset struct_disk_event ''sector'' = 16" "coffset struct_disk_event ''dev'' = 24"
  "coffset struct_disk_event ''nr_bytes'' = 28" "coffset struct_disk_event ''pid'' = 32"
  "coffset struct_disk_event ''op'' = 36" "coffset struct_disk_event ''_pad'' = 37"
  "coffset struct_disk_event ''comm'' = 40"
  by (simp_all add: struct_disk_event_def field_eval kerno_consts)

lemma sched_event_offsets [abi_simps]:
  "coffset struct_sched_event ''timestamp_ns'' = 0" "coffset struct_sched_event ''runq_delay_ns'' = 8"
  "coffset struct_sched_event ''cgroup_id'' = 16" "coffset struct_sched_event ''pid'' = 24"
  "coffset struct_sched_event ''cpu'' = 28" "coffset struct_sched_event ''comm'' = 32"
  by (simp_all add: struct_sched_event_def field_eval kerno_consts)

lemma fd_event_offsets [abi_simps]:
  "coffset struct_fd_event ''timestamp_ns'' = 0" "coffset struct_fd_event ''cgroup_id'' = 8"
  "coffset struct_fd_event ''pid'' = 16" "coffset struct_fd_event ''fd'' = 20"
  "coffset struct_fd_event ''op'' = 24" "coffset struct_fd_event ''_pad'' = 25"
  "coffset struct_fd_event ''comm'' = 32"
  by (simp_all add: struct_fd_event_def field_eval kerno_consts)

section \<open>Reading back what was stored\<close>

text \<open>Stores to consecutive offsets leave the concatenation of the stored values, whatever the
  memory held; \<open>binary.Read\<close> with the same widths gives the values back.\<close>

fun consecutive :: "ctype \<Rightarrow> nat \<Rightarrow> (string \<times> bytes) list \<Rightarrow> bool" where
  "consecutive t off [] \<longleftrightarrow> True"
| "consecutive t off ((f, v) # r) \<longleftrightarrow> coffset t f = off \<and> consecutive t (off + length v) r"

lemma cstores_consecutive:
  "consecutive t off fvs \<Longrightarrow> off + length (concat (map snd fvs)) \<le> length mem \<Longrightarrow>
   cstores t fvs mem =
     take off mem @ concat (map snd fvs) @ drop (off + length (concat (map snd fvs))) mem"
proof (induction fvs arbitrary: off mem)
  case Nil
  then show ?case by (simp add: cstores_def)
next
  case (Cons fv r)
  obtain f v where fv: "fv = (f, v)" by (cases fv)
  have "cstores t (fv # r) mem = cstores t r (patch off v mem)"
    using Cons.prems by (simp add: cstores_def cstore_def fv)
  also have "\<dots> = take (off + length v) (patch off v mem) @ concat (map snd r) @
      drop (off + length v + length (concat (map snd r))) (patch off v mem)"
    using Cons.prems by (intro Cons.IH) (simp_all add: fv)
  moreover have "off \<le> length mem" "off + length v \<le> length mem" using Cons.prems fv by simp_all
  then have "take (off + length v) (patch off v mem) = take off mem @ v"
    "drop (off + length v + n) (patch off v mem) = drop (off + length v + n) mem" for n
    by (simp_all add: patch_def add.assoc add.commute)
  ultimately show ?case by (simp add: fv add.assoc)
qed

lemma chunks_concat:
  "chunks (length pre) (map length vs) (pre @ concat vs @ post) = vs"
proof (induction vs arbitrary: pre)
  case Nil
  then show ?case by simp
next
  case (Cons v vs)
  show ?case using Cons.IH [of "pre @ v"] by (simp add: bslice_def)
qed

lemma binary_Read_cstores:
  assumes "consecutive t 0 fvs" "map (length \<circ> snd) fvs = ws" "length mem = csize t"
    and "csize t = sum_list ws"
  shows "binary_Read ws (cstores t fvs mem) = Inr (map snd fvs)"
proof -
  have len: "length (concat (map snd fvs)) = sum_list ws"
    using assms(2) by (auto simp: length_concat comp_def)
  have mem: "cstores t fvs mem = [] @ concat (map snd fvs) @ []"
    using cstores_consecutive [OF assms(1)] assms(3,4) len by simp
  moreover have "chunks 0 ws ([] @ concat (map snd fvs) @ []) = map snd fvs"
    using chunks_concat [of "[]" "map snd fvs" "[]"] assms(2) by simp
  ultimately show ?thesis using len by (simp add: binary_Read_def)
qed

lemma le_word_single: "le_word [b] = (b :: 8 word)"
  by (simp add: le_word_def)

lemmas decode_eval = binary_Read_cstores abi_simps event_size go_fields kerno_consts
  le_word_le_bytes le_word_single

lemma decode_syscall_image:
  "length mem = csize struct_syscall_event \<Longrightarrow> length (se_comm e) = TASK_COMM_LEN \<Longrightarrow>
   DecodeSyscallEvent (syscall_event_image e mem) =
     Inr \<lparr>SE_TimestampNs = se_timestamp_ns e, SE_LatencyNs = se_latency_ns e,
          SE_CgroupID = se_cgroup_id e, SE_PID = se_pid e, SE_TID = se_tid e,
          SE_SyscallNr = se_syscall_nr e, SE_Ret = se_ret e, SE_Comm = se_comm e\<rparr>"
  by (simp add: DecodeSyscallEvent_def syscall_event_image_def decode_eval del: le_bytes.simps)

lemma decode_tcp_image:
  "length mem = csize struct_tcp_event \<Longrightarrow> length (te_comm e) = TASK_COMM_LEN \<Longrightarrow>
   length (te_pad e) = 4 \<Longrightarrow>
   DecodeTCPEvent (tcp_event_image e mem) =
     Inr \<lparr>TE_TimestampNs = te_timestamp_ns e, TE_CgroupID = te_cgroup_id e, TE_PID = te_pid e,
          TE_SAddr = te_saddr e, TE_DAddr = te_daddr e, TE_SPort = te_sport e,
          TE_DPort = te_dport e, TE_Family = te_family e, TE_EventType = te_event_type e,
          TE_State = te_state e, TE_RTTUs = te_rtt_us e, TE_Retransmits = te_retransmits e,
          TE_Comm = te_comm e, TE_Pad = te_pad e\<rparr>"
  by (simp add: DecodeTCPEvent_def tcp_event_image_def decode_eval del: le_bytes.simps)

lemma decode_oom_image:
  "length mem = csize struct_oom_event \<Longrightarrow> length (oe_comm e) = TASK_COMM_LEN \<Longrightarrow>
   DecodeOOMEvent (oom_event_image e mem) =
     Inr \<lparr>OE_TimestampNs = oe_timestamp_ns e, OE_CgroupID = oe_cgroup_id e,
          OE_TotalPages = oe_total_pages e, OE_RSSPages = oe_rss_pages e, OE_PID = oe_pid e,
          OE_TriggeredPID = oe_triggered_pid e, OE_OOMScore = oe_oom_score e,
          OE_Pad0 = oe_pad e, OE_Comm = oe_comm e\<rparr>"
  by (simp add: DecodeOOMEvent_def oom_event_image_def decode_eval del: le_bytes.simps)

lemma decode_disk_image:
  "length mem = csize struct_disk_event \<Longrightarrow> length (de_comm e) = TASK_COMM_LEN \<Longrightarrow>
   length (de_pad e) = 3 \<Longrightarrow>
   DecodeDiskEvent (disk_event_image e mem) =
     Inr \<lparr>DE_TimestampNs = de_timestamp_ns e, DE_LatencyNs = de_latency_ns e,
          DE_Sector = de_sector e, DE_Dev = de_dev e, DE_NrBytes = de_nr_bytes e,
          DE_PID = de_pid e, DE_Op = de_op e, DE_Pad0 = de_pad e, DE_Comm = de_comm e\<rparr>"
  by (simp add: DecodeDiskEvent_def disk_event_image_def decode_eval del: le_bytes.simps)

lemma decode_sched_image:
  "length mem = csize struct_sched_event \<Longrightarrow> length (sc_comm e) = TASK_COMM_LEN \<Longrightarrow>
   DecodeSchedEvent (sched_event_image e mem) =
     Inr \<lparr>SC_TimestampNs = sc_timestamp_ns e, SC_RunqDelayNs = sc_runq_delay_ns e,
          SC_CgroupID = sc_cgroup_id e, SC_PID = sc_pid e, SC_CPU = sc_cpu e,
          SC_Comm = sc_comm e\<rparr>"
  by (simp add: DecodeSchedEvent_def sched_event_image_def decode_eval del: le_bytes.simps)

lemma decode_fd_image:
  "length mem = csize struct_fd_event \<Longrightarrow> length (fe_comm e) = TASK_COMM_LEN \<Longrightarrow>
   length (fe_pad e) = 7 \<Longrightarrow>
   DecodeFDEvent (fd_event_image e mem) =
     Inr \<lparr>FE_TimestampNs = fe_timestamp_ns e, FE_CgroupID = fe_cgroup_id e,
          FE_PID = fe_pid e, FE_FD = fe_fd e, FE_Op = fe_op e, FE_Pad0 = fe_pad e,
          FE_Comm = fe_comm e\<rparr>"
  by (simp add: DecodeFDEvent_def fd_event_image_def decode_eval del: le_bytes.simps)

lemmas decode_images = decode_syscall_image decode_tcp_image decode_oom_image decode_disk_image
  decode_sched_image decode_fd_image

lemma is_syscall_error_mod:
  "IsSyscallError (ucast (r :: u64)) \<longleftrightarrow> 4294963201 \<le> sint r mod 4294967296"
proof -
  have "uint (ucast r :: u32) = take_bit 32 (uint r)" by (simp add: unsigned_ucast_eq)
  also have "uint r = take_bit 64 (sint r)" by (simp add: uint_sint)
  finally have "uint (ucast r :: u32) = sint r mod 4294967296"
    by (simp add: take_bit_eq_mod mod_mod_cancel)
  then show ?thesis by (simp add: IsSyscallError_def word_le_def)
qed

lemmas decode_defs = DecodeSyscallEvent_def DecodeTCPEvent_def DecodeOOMEvent_def
  DecodeDiskEvent_def DecodeSchedEvent_def DecodeFDEvent_def

section \<open>Properties\<close>

text \<open>The Go structures mirror the C structures. For each event the members of the C
  structure lie, in their order, exactly where \<open>binary.Read\<close> looks for the corresponding Go field
  (the running sums of the field widths), and the C structure has no trailing padding beyond
  what Go reads.\<close>

theorem event_layouts_agree:
  "map (coffset struct_syscall_event) [''timestamp_ns'', ''latency_ns'', ''cgroup_id'', ''pid'',
      ''tid'', ''syscall_nr'', ''ret'', ''comm''] = running_sums SyscallEvent_fields \<and>
   map (coffset struct_tcp_event) [''timestamp_ns'', ''cgroup_id'', ''pid'', ''saddr'', ''daddr'',
      ''sport'', ''dport'', ''family'', ''event_type'', ''state'', ''rtt_us'', ''retransmits'',
      ''comm'', ''_pad''] = running_sums TCPEvent_fields \<and>
   map (coffset struct_oom_event) [''timestamp_ns'', ''cgroup_id'', ''total_pages'', ''rss_pages'',
      ''pid'', ''triggered_pid'', ''oom_score'', ''_pad'', ''comm''] = running_sums OOMEvent_fields \<and>
   map (coffset struct_disk_event) [''timestamp_ns'', ''latency_ns'', ''sector'', ''dev'',
      ''nr_bytes'', ''pid'', ''op'', ''_pad'', ''comm''] = running_sums DiskEvent_fields \<and>
   map (coffset struct_sched_event) [''timestamp_ns'', ''runq_delay_ns'', ''cgroup_id'', ''pid'',
      ''cpu'', ''comm''] = running_sums SchedEvent_fields \<and>
   map (coffset struct_fd_event) [''timestamp_ns'', ''cgroup_id'', ''pid'', ''fd'', ''op'',
      ''_pad'', ''comm''] = running_sums FDEvent_fields \<and>
   map csize [struct_syscall_event, struct_tcp_event, struct_oom_event, struct_disk_event,
      struct_sched_event, struct_fd_event] =
   map sum_list [SyscallEvent_fields, TCPEvent_fields, OOMEvent_fields, DiskEvent_fields,
      SchedEvent_fields, FDEvent_fields]"
  by (simp add: running_sums_def go_fields upt_rec event_size abi_simps)

text \<open>The contract of a decoder for the type \<open>t\<close>: it fails exactly on samples shorter than the
  type, with the error \<open>binary.Read\<close> gives, and ignores what follows the structure.\<close>

definition decode_rejects_short :: "(bytes \<Rightarrow> go_error + 'e) \<Rightarrow> ctype \<Rightarrow> bytes \<Rightarrow> bool" where
  "decode_rejects_short dec t data \<longleftrightarrow>
     (\<forall>err. dec data = Inl err \<longleftrightarrow>
        length data < csize t \<and> err = (if data = [] then EOF else ErrUnexpectedEOF)) \<and>
     dec (take (csize t) data) = dec data"

lemma bslice_take: "off + w \<le> n \<Longrightarrow> bslice off w (take n data) = bslice off w data"
  by (simp add: bslice_def drop_take min_def)

lemma chunks_take: "off + sum_list ws \<le> n \<Longrightarrow> chunks off ws (take n data) = chunks off ws data"
  by (induction off ws data rule: chunks.induct) (simp_all add: bslice_take)

lemma decode_rejects_shortI:
  assumes "\<And>d. dec d = (case binary_Read ws d of Inl e \<Rightarrow> Inl e | Inr f \<Rightarrow> Inr (mk f))"
    and "sum_list ws = csize t"
  shows "decode_rejects_short dec t data"
  using chunks_take [of 0 ws "csize t" data] assms
  by (auto simp: decode_rejects_short_def binary_Read_def min_def)

text \<open>The decoders reject exactly the short samples. A decoder fails if and only if the
  sample is shorter than the C structure; the error is EOF for the empty sample and
  ErrUnexpectedEOF otherwise, and bytes after the structure do not change the result.\<close>

theorem decoders_reject_short_samples:
  "decode_rejects_short DecodeSyscallEvent struct_syscall_event data \<and>
   decode_rejects_short DecodeTCPEvent struct_tcp_event data \<and>
   decode_rejects_short DecodeOOMEvent struct_oom_event data \<and>
   decode_rejects_short DecodeDiskEvent struct_disk_event data \<and>
   decode_rejects_short DecodeSchedEvent struct_sched_event data \<and>
   decode_rejects_short DecodeFDEvent struct_fd_event data"
  by (intro conjI; rule decode_rejects_shortI, rule decode_defs, simp add: go_fields event_size)

text \<open>C13: what is stored is what is decoded. Every event record, stored member by member into a
  ring buffer slot of the size of its C structure, decodes to the Go structure with the same field
  values, whatever the slot held before: nothing of the old content of the ring buffer reaches
  the Go side.\<close>

theorem events_roundtrip:
  assumes "map length [m1, m2, m3, m4, m5, m6] =
      map csize [struct_syscall_event, struct_tcp_event, struct_oom_event, struct_disk_event,
        struct_sched_event, struct_fd_event]"
    and "map length [se_comm e1, te_comm e2, oe_comm e3, de_comm e4, sc_comm e5, fe_comm e6] =
      replicate 6 TASK_COMM_LEN"
    and "map length [te_pad e2, de_pad e4, fe_pad e6] = [4, 3, 7]"
  shows "DecodeSyscallEvent (syscall_event_image e1 m1) =
      Inr \<lparr>SE_TimestampNs = se_timestamp_ns e1, SE_LatencyNs = se_latency_ns e1,
           SE_CgroupID = se_cgroup_id e1, SE_PID = se_pid e1, SE_TID = se_tid e1,
           SE_SyscallNr = se_syscall_nr e1, SE_Ret = se_ret e1, SE_Comm = se_comm e1\<rparr> \<and>
    DecodeTCPEvent (tcp_event_image e2 m2) =
      Inr \<lparr>TE_TimestampNs = te_timestamp_ns e2, TE_CgroupID = te_cgroup_id e2,
           TE_PID = te_pid e2, TE_SAddr = te_saddr e2, TE_DAddr = te_daddr e2,
           TE_SPort = te_sport e2, TE_DPort = te_dport e2, TE_Family = te_family e2,
           TE_EventType = te_event_type e2, TE_State = te_state e2, TE_RTTUs = te_rtt_us e2,
           TE_Retransmits = te_retransmits e2, TE_Comm = te_comm e2, TE_Pad = te_pad e2\<rparr> \<and>
    DecodeOOMEvent (oom_event_image e3 m3) =
      Inr \<lparr>OE_TimestampNs = oe_timestamp_ns e3, OE_CgroupID = oe_cgroup_id e3,
           OE_TotalPages = oe_total_pages e3, OE_RSSPages = oe_rss_pages e3, OE_PID = oe_pid e3,
           OE_TriggeredPID = oe_triggered_pid e3, OE_OOMScore = oe_oom_score e3,
           OE_Pad0 = oe_pad e3, OE_Comm = oe_comm e3\<rparr> \<and>
    DecodeDiskEvent (disk_event_image e4 m4) =
      Inr \<lparr>DE_TimestampNs = de_timestamp_ns e4, DE_LatencyNs = de_latency_ns e4,
           DE_Sector = de_sector e4, DE_Dev = de_dev e4, DE_NrBytes = de_nr_bytes e4,
           DE_PID = de_pid e4, DE_Op = de_op e4, DE_Pad0 = de_pad e4, DE_Comm = de_comm e4\<rparr> \<and>
    DecodeSchedEvent (sched_event_image e5 m5) =
      Inr \<lparr>SC_TimestampNs = sc_timestamp_ns e5, SC_RunqDelayNs = sc_runq_delay_ns e5,
           SC_CgroupID = sc_cgroup_id e5, SC_PID = sc_pid e5, SC_CPU = sc_cpu e5,
           SC_Comm = sc_comm e5\<rparr> \<and>
    DecodeFDEvent (fd_event_image e6 m6) =
      Inr \<lparr>FE_TimestampNs = fe_timestamp_ns e6, FE_CgroupID = fe_cgroup_id e6,
           FE_PID = fe_pid e6, FE_FD = fe_fd e6, FE_Op = fe_op e6, FE_Pad0 = fe_pad e6,
           FE_Comm = fe_comm e6\<rparr>"
  using assms by (simp add: decode_images numeral_eq_Suc)

definition demo_comm :: bytes where "demo_comm = replicate TASK_COMM_LEN 120"

theorem events_roundtrip_witness:
  "(case DecodeDiskEvent (disk_event_image \<lparr>de_timestamp_ns = 9, de_latency_ns = 8, de_sector = 7,
        de_dev = 6, de_nr_bytes = 5, de_pid = 4, de_op = 82, de_pad = [0, 0, 0],
        de_comm = demo_comm\<rparr> (replicate 56 255)) of
      Inl _ \<Rightarrow> False
    | Inr g \<Rightarrow> DE_LatencyNs g = 8 \<and> DE_Sector g = 7 \<and> DE_Op g = 82)"
  using events_roundtrip [of "replicate 56 0" "replicate 64 1" "replicate 64 2"
      "replicate 56 255" "replicate 48 3" "replicate 48 4"
      "\<lparr>se_timestamp_ns = 0, se_latency_ns = 0, se_cgroup_id = 0, se_pid = 0, se_tid = 0,
        se_syscall_nr = 0, se_ret = 0, se_comm = demo_comm\<rparr>"
      "\<lparr>te_timestamp_ns = 0, te_cgroup_id = 0, te_pid = 0, te_saddr = 0, te_daddr = 0,
        te_sport = 0, te_dport = 0, te_family = 2, te_event_type = 1, te_state = 1, te_rtt_us = 0,
        te_retransmits = 0, te_comm = demo_comm, te_pad = replicate 4 9\<rparr>"
      "\<lparr>oe_timestamp_ns = 0, oe_cgroup_id = 0, oe_total_pages = 0, oe_rss_pages = 0, oe_pid = 0,
        oe_triggered_pid = 0, oe_oom_score = 0, oe_pad = 0, oe_comm = demo_comm\<rparr>"
      "\<lparr>de_timestamp_ns = 9, de_latency_ns = 8, de_sector = 7,
        de_dev = 6, de_nr_bytes = 5, de_pid = 4, de_op = 82, de_pad = [0, 0, 0],
        de_comm = demo_comm\<rparr>"
      "\<lparr>sc_timestamp_ns = 0, sc_runq_delay_ns = 0, sc_cgroup_id = 0, sc_pid = 0, sc_cpu = 0,
        sc_comm = demo_comm\<rparr>"
      "\<lparr>fe_timestamp_ns = 0, fe_cgroup_id = 0, fe_pid = 0, fe_fd = 0, fe_op = 1,
        fe_pad = replicate 7 0, fe_comm = demo_comm\<rparr>"]
  by (simp add: event_size demo_comm_def numeral_eq_Suc)

text \<open>The error test on the 32 bits the record keeps. A return value that fits a signed
  32-bit integer is classified as an error exactly when it lies between -4095 and -1, the range
  the kernel uses for error codes.\<close>

theorem syscall_error_test:
  assumes "- (2 ^ 31) \<le> sint r" "sint r < 2 ^ 31"
  shows "IsSyscallError (ucast (r :: u64)) \<longleftrightarrow> -4095 \<le> sint r \<and> sint r < 0"
proof -
  have "sint r mod 2 ^ 32 = (if sint r < 0 then sint r + 2 ^ 32 else sint r)"
    using assms mod_pos_pos_trivial [of "sint r + 2 ^ 32" "2 ^ 32"] by (auto simp: mod_pos_pos_trivial)
  then show ?thesis using assms by (auto simp: is_syscall_error_mod)
qed

theorem syscall_error_test_witness: "IsSyscallError (ucast (- 11 :: u64)) \<and> \<not> IsSyscallError (ucast (5 :: u64))"
  using syscall_error_test [of "- 11"] syscall_error_test [of 5] by simp

text \<open>The truncation loses information. On any 64-bit return value the test only sees the
  residue modulo \<open>2 ^ 32\<close>, so a successful call whose result falls in the last 4095 values of a
  4 GiB window, such as an \<open>lseek\<close> to offset 4294965248, is counted as an error.\<close>

theorem syscall_error_truncation:
  "(IsSyscallError (ucast (r :: u64)) \<longleftrightarrow> 2 ^ 32 - 4095 \<le> sint r mod 2 ^ 32) \<and>
   IsSyscallError (ucast (4294965248 :: u64)) \<and> sint (4294965248 :: u64) = 4294965248"
  by (simp add: is_syscall_error_mod) (simp add: IsSyscallError_def)

end
