(* ===== verification/CollectorCore.thy ===== *)
theory CollectorCore
  imports Histogram Lru GoEvents "HOL-Library.Multiset"
begin

text \<open>
  What the collectors of \<open>internal/collector\<close> share: the percentile summary of a histogram, the
  contract of \<open>sort.Slice\<close>, the ranking that keeps the first entries of a sorted list, and what a
  cache of per-key aggregates holds after a run.
\<close>

section \<open>Consuming raw events\<close>

text \<open>The \<open>consume\<close> loops decode each sample from the ring buffer and record it, skipping those that
  do not decode; this is the list of events recorded.\<close>

definition consumed :: "(bytes \<Rightarrow> go_error + 'e) \<Rightarrow> bytes list \<Rightarrow> 'e list" where
  "consumed decode raws =
     concat (map (\<lambda>raw. case decode raw of Inl err \<Rightarrow> [] | Inr event \<Rightarrow> [event]) raws)"

lemma consumed_images:
  assumes "\<And>e m. e \<in> set es \<Longrightarrow> m \<in> set ms \<Longrightarrow> decode (img e m) = Inr (f e)"
    and "length ms = length es"
  shows "consumed decode (map2 img es ms) = map f es"
  using assms(2,1)
proof (induction ms es rule: list_induct2)
  case Nil
  then show ?case by (simp add: consumed_def)
next
  case (Cons m ms e es)
  then show ?case by (simp add: consumed_def)
qed

section \<open>Percentiles\<close>

text \<open>Durations are signed 64-bit integers; a conversion from \<open>uint64\<close> keeps the bits.\<close>

record Percentiles =
  P50 :: u64
  P95 :: u64
  P99 :: u64
  PMax :: u64

definition histogramPercentiles :: "histogram \<Rightarrow> Percentiles" where
  "histogramPercentiles h =
     \<lparr>P50 = hist_Percentile 50 h, P95 = hist_Percentile 95 h, P99 = hist_Percentile 99 h,
      PMax = hg_maxV h\<rparr>"

lemma sint_inject: "sint v = sint w \<longleftrightarrow> v = (w :: 'a::len word)"
  by (metis uint_sint word_uint_eq_iff)

lemma hist_of_snoc: "hist_of (vs @ [v]) = hist_Record v (hist_of vs)"
  by (simp add: hist_of_def)

lemma histogramPercentiles_empty:
  "histogramPercentiles (hist_of []) = \<lparr>P50 = 0, P95 = 0, P99 = 0, PMax = 0\<rparr>"
  by (simp add: histogramPercentiles_def hist_of_def hist_New_def hist_Percentile_def)

lemma hist_Percentile_single:
  assumes "0 < v" "1 \<le> p" "p \<le> 99"
  shows "hist_Percentile (of_nat p) (hist_of [v]) = v"
proof -
  have "hist_norm v = unat v" using assms(1) by (auto simp: hist_norm_def)
  then have "hist_min [v] = unat v" "hist_max [v] = unat v" by (simp_all add: hist_max_def)
  moreover have "p < 2 ^ 52" using assms(3) by simp
  then have "unat (hist_Percentile (of_nat p) (hist_of [v])) =
      hist_est [v] (hist_bucket (hist_rank [v] ((1 * p + 99) div 100)))"
    using hist_Percentile_of [of "[v]" p] assms by simp
  ultimately show ?thesis using hist_est_range [of "[v]"]
    by (metis antisym list.distinct(1) word_unat_eq_iff)
qed

section \<open>\<open>sort.Slice\<close>\<close>

text \<open>\<open>sort.Slice\<close> permutes the slice so that no element is less than one before it, provided the
  comparison is a strict weak order; it leaves the order of equal elements open, so the sorting
  function is a parameter.\<close>

definition strict_weak :: "('a \<Rightarrow> 'a \<Rightarrow> bool) \<Rightarrow> bool" where
  "strict_weak lt \<longleftrightarrow>
     (\<forall>x. \<not> lt x x) \<and> (\<forall>x y z. lt x y \<longrightarrow> lt y z \<longrightarrow> lt x z) \<and>
     (\<forall>x y z. \<not> lt y x \<longrightarrow> \<not> lt z y \<longrightarrow> \<not> lt z x)"

definition sort_slice_ok :: "(('a \<Rightarrow> 'a \<Rightarrow> bool) \<Rightarrow> 'a list \<Rightarrow> 'a list) \<Rightarrow> bool" where
  "sort_slice_ok sort_Slice \<longleftrightarrow>
     (\<forall>lt xs. mset (sort_Slice lt xs) = mset xs \<and>
        (strict_weak lt \<longrightarrow> sorted_wrt (\<lambda>x y. \<not> lt y x) (sort_Slice lt xs)))"

text \<open>Insertion sort meets the contract.\<close>

fun insert_by :: "('a \<Rightarrow> 'a \<Rightarrow> bool) \<Rightarrow> 'a \<Rightarrow> 'a list \<Rightarrow> 'a list" where
  "insert_by lt x [] = [x]"
| "insert_by lt x (y # ys) = (if lt y x then y # insert_by lt x ys else x # y # ys)"

definition isort_by :: "('a \<Rightarrow> 'a \<Rightarrow> bool) \<Rightarrow> 'a list \<Rightarrow> 'a list" where
  "isort_by lt xs = foldr (insert_by lt) xs []"

lemma mset_insert_by: "mset (insert_by lt x ys) = add_mset x (mset ys)"
  by (induction lt x ys rule: insert_by.induct) auto

lemma set_insert_by: "set (insert_by lt x ys) = insert x (set ys)"
  using arg_cong [OF mset_insert_by [of lt x ys], of set_mset] by simp

lemma sorted_insert_by:
  assumes "strict_weak lt"
  shows "sorted_wrt (\<lambda>x y. \<not> lt y x) ys \<Longrightarrow> sorted_wrt (\<lambda>x y. \<not> lt y x) (insert_by lt x ys)"
proof (induction ys)
  case Nil
  then show ?case by simp
next
  case (Cons y ys)
  have asym: "\<not> lt x y" if "lt y x" using assms that unfolding strict_weak_def by blast
  have trans: "\<not> lt z x" if "\<not> lt y x" "\<not> lt z y" for z
    using assms that unfolding strict_weak_def by blast
  show ?case
  proof (cases "lt y x")
    case True
    then show ?thesis using Cons asym by (auto simp: set_insert_by)
  next
    case False
    then show ?thesis using Cons trans by auto
  qed
qed

lemma sort_slice_isort: "sort_slice_ok isort_by"
proof -
  have "mset (isort_by lt xs) = mset xs" for lt :: "'a \<Rightarrow> 'a \<Rightarrow> bool" and xs
    by (induction xs) (simp_all add: isort_by_def mset_insert_by)
  moreover have "sorted_wrt (\<lambda>x y. \<not> lt y x) (isort_by lt xs)" if "strict_weak lt"
    for lt :: "'a \<Rightarrow> 'a \<Rightarrow> bool" and xs
    by (induction xs) (simp_all add: isort_by_def sorted_insert_by [OF that])
  ultimately show ?thesis by (simp add: sort_slice_ok_def)
qed

text \<open>It is stable: elements neither of which is less than the other keep their order.\<close>

definition tied :: "('a \<Rightarrow> 'a \<Rightarrow> bool) \<Rightarrow> 'a \<Rightarrow> 'a \<Rightarrow> bool" where
  "tied lt x y \<longleftrightarrow> \<not> lt x y \<and> \<not> lt y x"

lemma insert_by_tied:
  assumes "strict_weak lt"
  shows "filter (tied lt x) (insert_by lt a ys) = filter (tied lt x) (a # ys)"
proof (induction ys)
  case Nil
  then show ?case by simp
next
  case (Cons y ys)
  have "\<not> (tied lt x a \<and> tied lt x y)" if "lt y a"
    using assms that unfolding strict_weak_def tied_def by metis
  with Cons show ?case by auto
qed

lemma isort_by_stable: "strict_weak lt \<Longrightarrow> filter (tied lt x) (isort_by lt xs) = filter (tied lt x) xs"
  by (induction xs) (simp_all add: isort_by_def insert_by_tied)

text \<open>Keeping the first \<open>n\<close> entries of a sorted slice: nothing dropped ranks before anything
  kept.\<close>

lemma top_of_sorted:
  assumes "sort_slice_ok sort_Slice" "strict_weak lt"
  shows "sorted_wrt (\<lambda>x y. \<not> lt y x) (take n (sort_Slice lt xs)) \<and>
    length (take n (sort_Slice lt xs)) = min n (length xs) \<and>
    mset (take n (sort_Slice lt xs)) \<subseteq># mset xs \<and>
    (\<forall>x \<in># mset xs - mset (take n (sort_Slice lt xs)). \<forall>y \<in> set (take n (sort_Slice lt xs)).
       \<not> lt x y)"
proof -
  let ?ys = "sort_Slice lt xs"
  have m: "mset ?ys = mset xs" and s: "sorted_wrt (\<lambda>x y. \<not> lt y x) ?ys"
    using assms by (simp_all add: sort_slice_ok_def)
  have split: "mset (take n ?ys) + mset (drop n ?ys) = mset xs"
    using m by (metis append_take_drop_id mset_append)
  then have rest: "mset xs - mset (take n ?ys) = mset (drop n ?ys)" by (metis add_diff_cancel_left')
  have "sorted_wrt (\<lambda>x y. \<not> lt y x) (take n ?ys @ drop n ?ys)" using s by simp
  then have "\<forall>x \<in> set (take n ?ys). \<forall>y \<in> set (drop n ?ys). \<not> lt y x"
    "sorted_wrt (\<lambda>x y. \<not> lt y x) (take n ?ys)"
    unfolding sorted_wrt_append by blast+
  moreover have "length ?ys = length xs" using m by (metis size_mset)
  moreover have "mset (take n ?ys) \<subseteq># mset xs" using split by (metis mset_subset_eq_add_left)
  ultimately show ?thesis unfolding rest by (auto simp: min_def)
qed

section \<open>Caches of aggregates\<close>

abbreviation lru_record ::
  "'k \<Rightarrow> 'v \<Rightarrow> ('v \<Rightarrow> 'v) \<Rightarrow> ('k, 'v) lru \<Rightarrow> ('k, 'v) lru" where
  "lru_record \<equiv> keyed_record lru_Get lru_Put lru_modify"

text \<open>The cache after recording the updates \<open>es\<close>.\<close>

definition lru_agg :: "int \<Rightarrow> ('k \<times> 'v \<times> ('v \<Rightarrow> 'v)) list \<Rightarrow> ('k, 'v) lru" where
  "lru_agg cap es = foldl (\<lambda>c (k, new, f). lru_record k new f c) (lru_New cap) es"

lemma lru_agg_snoc: "lru_agg cap (es @ [(k, new, f)]) = lru_record k new f (lru_agg cap es)"
  by (simp add: lru_agg_def)

lemma lru_agg_run:
  "lru_inv (nat (max 1 cap)) (lru_agg cap es) \<and>
   lru_Range (lru_agg cap es) = recency_run (nat (max 1 cap)) es"
proof -
  obtain n where n: "nat (max 1 cap) = Suc n" by (cases "nat (max 1 cap)") auto
  have "lru_inv (Suc n) (lru_New cap :: ('a, 'b) lru)"
    using lru_inv_New [of cap] n by (simp add: max_def split: if_splits)
  from lru.record_run [OF this, of es] show ?thesis
    by (simp add: lru_agg_def n recency_run_def lru_Range_def lru_New_def)
qed

lemma lru_agg_bounded:
  "length (lru_Range (lru_agg cap es)) \<le> nat (max 1 cap) \<and>
   distinct (map fst (lru_Range (lru_agg cap es)))"
proof -
  have inv: "lru_inv (nat (max 1 cap)) (lru_agg cap es)" using lru_agg_run by blast
  show ?thesis using lru_invD(3) [OF inv] lru_Range_distinct [OF inv] by (simp add: lru_Range_def)
qed

lemma lru_agg_suffix:
  "(k, v) \<in> set (lru_Range (lru_agg cap es)) \<Longrightarrow>
   \<exists>pre suf. key_events k es = pre @ suf \<and> suf \<noteq> [] \<and> v = aggregate suf"
  using recency_run_suffix [of k v "nat (max 1 cap)" es] lru_agg_run [of cap es] by simp

lemma lru_agg_exact:
  assumes "card (fst ` set es) \<le> nat (max 1 cap)"
  shows "map_of (lru_Range (lru_agg cap es)) k =
    (if key_events k es = [] then None else Some (aggregate (key_events k es)))"
  using recency_run_exact [OF assms, of k] lru_agg_run [of cap es] by simp

text \<open>When every event \<open>e\<close> updates the entry of \<open>key e\<close> by \<open>upd e\<close>.\<close>

definition keyed_updates ::
  "('e \<Rightarrow> 'k) \<Rightarrow> ('e \<Rightarrow> 'v) \<Rightarrow> ('e \<Rightarrow> 'v \<Rightarrow> 'v) \<Rightarrow> 'e list \<Rightarrow> ('k \<times> 'v \<times> ('v \<Rightarrow> 'v)) list" where
  "keyed_updates key new upd es = map (\<lambda>e. (key e, new e, upd e)) es"

lemma keyed_updates_snoc:
  "keyed_updates key new upd (es @ [e]) = keyed_updates key new upd es @ [(key e, new e, upd e)]"
  by (simp add: keyed_updates_def)

lemma keyed_updates_keys: "fst ` set (keyed_updates key new upd es) = key ` set es"
  by (force simp: keyed_updates_def)

lemma key_events_updates:
  "key_events k (keyed_updates key new upd es) =
   map (\<lambda>e. (new e, upd e)) (filter (\<lambda>e. key e = k) es)"
  by (induction es) (auto simp: key_events_def keyed_updates_def)

text \<open>Both facts for a value that is a function \<open>summary\<close> of the events it aggregates.\<close>

lemma keyed_exact:
  assumes "\<And>us. us \<noteq> [] \<Longrightarrow> aggregate (map (\<lambda>e. (new e, upd e)) us) = summary us"
    and "card (key ` set es) \<le> nat (max 1 cap)"
  shows "map_of (lru_Range (lru_agg cap (keyed_updates key new upd es))) k =
    (let us = filter (\<lambda>e. key e = k) es in if us = [] then None else Some (summary us))"
  using lru_agg_exact [of "keyed_updates key new upd es" cap k] assms
  by (simp add: keyed_updates_keys key_events_updates Let_def)

lemma keyed_suffix:
  assumes "\<And>us. us \<noteq> [] \<Longrightarrow> aggregate (map (\<lambda>e. (new e, upd e)) us) = summary us"
    and "(k, v) \<in> set (lru_Range (lru_agg cap (keyed_updates key new upd es)))"
  shows "\<exists>pre suf. filter (\<lambda>e. key e = k) es = pre @ suf \<and> suf \<noteq> [] \<and> v = summary suf"
proof -
  obtain pre suf where pre: "map (\<lambda>e. (new e, upd e)) (filter (\<lambda>e. key e = k) es) = pre @ suf"
    and suf: "suf \<noteq> []" "v = aggregate suf"
    using lru_agg_suffix [OF assms(2)] unfolding key_events_updates by blast
  then obtain pre' suf' where us: "filter (\<lambda>e. key e = k) es = pre' @ suf'"
    and suf': "suf = map (\<lambda>e. (new e, upd e)) suf'"
    unfolding map_eq_append_conv by blast
  have "suf' \<noteq> []" using suf(1) suf' by simp
  moreover from this have "v = summary suf'" using suf(2) suf' assms(1) by simp
  ultimately show ?thesis using us by blast
qed

lemma keyed_suffix_drop:
  assumes "\<And>us. us \<noteq> [] \<Longrightarrow> aggregate (map (\<lambda>e. (new e, upd e)) us) = summary us"
    and "(k, v) \<in> set (lru_Range (lru_agg cap (keyed_updates key new upd es)))"
  shows "\<exists>n < length (filter (\<lambda>e. key e = k) es). v = summary (drop n (filter (\<lambda>e. key e = k) es))"
proof -
  obtain pre suf where "filter (\<lambda>e. key e = k) es = pre @ suf" "suf \<noteq> []" "v = summary suf"
    using keyed_suffix [OF assms] by blast
  then show ?thesis by (intro exI [of _ "length pre"]) simp
qed

end
