(* ===== verification/GoSyscalls.thy ===== *)
theory GoSyscalls
  imports Prelude
begin

text \<open>
  \<open>internal/bpf/syscalls.go\<close>: names of system calls and the set of blocking ones.
\<close>

text \<open>\<open>fmt.Sprintf("%d")\<close> of an unsigned number.\<close>

fun decimal :: "nat \<Rightarrow> string" where
  "decimal n = (if n < 10 then [char_of (48 + n)] else decimal (n div 10) @ [char_of (48 + n mod 10)])"

declare decimal.simps [simp del]

definition syscallNames :: "(nat \<times> string) list" where
  "syscallNames =
     [(0, ''read''), (1, ''write''), (2, ''open''), (3, ''close''),
      (4, ''stat''), (5, ''fstat''), (6, ''lstat''), (7, ''poll''),
      (8, ''lseek''), (9, ''mmap''), (10, ''mprotect''), (11, ''munmap''),
      (12, ''brk''), (13, ''rt_sigaction''), (14, ''rt_sigprocmask''),
      (16, ''ioctl''), (17, ''pread64''), (18, ''pwrite64''),
      (19, ''readv''), (20, ''writev''), (21, ''access''),
      (22, ''pipe''), (23, ''select''), (24, ''sched_yield''),
      (32, ''dup''), (33, ''dup2''),
      (39, ''getpid''), (41, ''socket''), (42, ''connect''), (43, ''accept''),
      (44, ''sendto''), (45, ''recvfrom''), (46, ''sendmsg''), (47, ''recvmsg''),
      (48, ''shutdown''), (49, ''bind''), (50, ''listen''),
      (56, ''clone''), (57, ''fork''), (58, ''vfork''), (59, ''execve''),
      (60, ''exit''), (61, ''wait4''), (62, ''kill''),
      (72, ''fcntl''), (73, ''flock''), (74, ''fsync''), (75, ''fdatasync''),
      (77, ''ftruncate''), (78, ''getdents''),
      (79, ''getcwd''), (80, ''chdir''), (82, ''rename''),
      (83, ''mkdir''), (84, ''rmdir''), (85, ''creat''), (86, ''link''), (87, ''unlink''),
      (89, ''readlink''), (90, ''chmod''), (92, ''chown''),
      (137, ''statfs''), (186, ''gettid''),
      (202, ''futex''), (217, ''getdents64''),
      (231, ''exit_group''), (232, ''epoll_wait''),
      (257, ''openat''), (262, ''newfstatat''),
      (268, ''fchmodat''), (280, ''utimensat''),
      (288, ''accept4''), (290, ''sendmmsg''),
      (302, ''prlimit64''), (318, ''getrandom''),
      (332, ''statx''),
      (435, ''clone3'')]"

definition SyscallName :: "u32 \<Rightarrow> string" where
  "SyscallName nr =
     (case map_of syscallNames (unat nr) of
        Some name \<Rightarrow> name
      | None \<Rightarrow> ''syscall_'' @ decimal (unat nr))"

definition blockingSyscalls :: "nat list" where
  "blockingSyscalls = [7, 23, 61, 35, 34, 232, 202, 247, 270, 271, 281, 441, 43, 288]"

definition IsBlockingSyscall :: "u32 \<Rightarrow> bool" where
  "IsBlockingSyscall nr \<longleftrightarrow> unat nr \<in> set blockingSyscalls"

end
