(* ===== verification/SyscallCollector.thy ===== *)
theory SyscallCollector
  imports CollectorCore GoSyscalls
begin

text \<open>
  \<open>internal/collector/syscall.go\<close>: latency and errors per (system call, command), the ranked
  snapshot, and what both mean for the events consumed.
\<close>

type_synonym syscallKey = "u32 \<times> bytes"

record syscallEntry =
  sy_hist :: histogram
  sy_count :: u64
  sy_errorCount :: u64

record SyscallCollector =
  syc_keys :: "(syscallKey, syscallEntry) lru"
  syc_totalCount :: u64

definition DefaultSyscallKeyCap :: int where "DefaultSyscallKeyCap = 4096"
definition MaxSyscallEntriesPerSnapshot :: nat where "MaxSyscallEntriesPerSnapshot = 64"

definition NewSyscallCollectorWithCap :: "int \<Rightarrow> SyscallCollector" where
  "NewSyscallCollectorWithCap keyCap = \<lparr>syc_keys = lru_New keyCap, syc_totalCount = 0\<rparr>"

definition syscall_record :: "SyscallCollector \<Rightarrow> SyscallEvent \<Rightarrow> SyscallCollector" where
  "syscall_record c event =
     (let key = (SE_SyscallNr event, nullTermString (SE_Comm event));
          (entry, keys) = lru_Get key (syc_keys c);
          keys = (if entry = None
                  then lru_Put key \<lparr>sy_hist = hist_New, sy_count = 0, sy_errorCount = 0\<rparr> keys
                  else keys);
          keys = lru_modify key (\<lambda>entry. entry
            \<lparr>sy_hist := hist_Record (SE_LatencyNs event) (sy_hist entry),
             sy_count := sy_count entry + 1,
             sy_errorCount := (if IsSyscallError (SE_Ret event) then sy_errorCount entry + 1
                               else sy_errorCount entry)\<rparr>) keys
      in c\<lparr>syc_keys := keys, syc_totalCount := syc_totalCount c + 1\<rparr>)"

record SyscallEntry =
  Sy_SyscallNr :: u32
  Sy_Name :: string
  Sy_Comm :: bytes
  Sy_Count :: u64
  Sy_ErrorCount :: u64
  Sy_Latency :: Percentiles

record SyscallSnapshot =
  Sy_Entries :: "SyscallEntry list"
  Sy_TotalCount :: u64

definition syscall_less :: "SyscallEntry \<Rightarrow> SyscallEntry \<Rightarrow> bool" where
  "syscall_less a b =
     (if P99 (Sy_Latency a) \<noteq> P99 (Sy_Latency b)
      then sint (P99 (Sy_Latency b)) < sint (P99 (Sy_Latency a))
      else Sy_Count b < Sy_Count a)"

definition syscall_entry :: "syscallKey \<times> syscallEntry \<Rightarrow> SyscallEntry" where
  "syscall_entry kv =
     \<lparr>Sy_SyscallNr = fst (fst kv), Sy_Name = SyscallName (fst (fst kv)), Sy_Comm = snd (fst kv),
      Sy_Count = sy_count (snd kv), Sy_ErrorCount = sy_errorCount (snd kv),
      Sy_Latency = histogramPercentiles (sy_hist (snd kv))\<rparr>"

definition syscall_Snapshot ::
  "((SyscallEntry \<Rightarrow> SyscallEntry \<Rightarrow> bool) \<Rightarrow> SyscallEntry list \<Rightarrow> SyscallEntry list) \<Rightarrow>
   SyscallCollector \<Rightarrow> SyscallSnapshot" where
  "syscall_Snapshot sort_Slice c =
     (let entries = map syscall_entry (lru_Range (syc_keys c));
          entries = sort_Slice syscall_less entries;
          entries = (if MaxSyscallEntriesPerSnapshot < length entries
                     then take MaxSyscallEntriesPerSnapshot entries else entries)
      in \<lparr>Sy_Entries = entries, Sy_TotalCount = syc_totalCount c\<rparr>)"

section \<open>What the collector holds\<close>

definition syscall_run :: "int \<Rightarrow> SyscallEvent list \<Rightarrow> SyscallCollector" where
  "syscall_run keyCap es = foldl syscall_record (NewSyscallCollectorWithCap keyCap) es"

definition syscall_key :: "SyscallEvent \<Rightarrow> syscallKey" where
  "syscall_key e = (SE_SyscallNr e, nullTermString (SE_Comm e))"

text \<open>The entry that describes exactly the events \<open>us\<close>.\<close>

definition syscall_summary :: "SyscallEvent list \<Rightarrow> syscallEntry" where
  "syscall_summary us =
     \<lparr>sy_hist = hist_of (map SE_LatencyNs us), sy_count = of_nat (length us),
      sy_errorCount = of_nat (length (filter (\<lambda>e. IsSyscallError (SE_Ret e)) us))\<rparr>"

definition syscall_new :: "SyscallEvent \<Rightarrow> syscallEntry" where
  "syscall_new e = \<lparr>sy_hist = hist_New, sy_count = 0, sy_errorCount = 0\<rparr>"

definition syscall_upd :: "SyscallEvent \<Rightarrow> syscallEntry \<Rightarrow> syscallEntry" where
  "syscall_upd e entry = entry
     \<lparr>sy_hist := hist_Record (SE_LatencyNs e) (sy_hist entry),
      sy_count := sy_count entry + 1,
      sy_errorCount := (if IsSyscallError (SE_Ret e) then sy_errorCount entry + 1
                        else sy_errorCount entry)\<rparr>"

lemma syscall_aggregate:
  "us \<noteq> [] \<Longrightarrow> aggregate (map (\<lambda>e. (syscall_new e, syscall_upd e)) us) = syscall_summary us"
proof (induction us rule: rev_nonempty_induct)
  case (single u)
  show ?case
    by (simp add: aggregate_def syscall_upd_def syscall_new_def syscall_summary_def hist_of_def)
next
  case (snoc u us)
  then show ?case
    by (simp add: aggregate_snoc syscall_upd_def syscall_summary_def hist_of_snoc)
qed

lemma syscall_record_eq:
  "syscall_record c e =
     c\<lparr>syc_keys := lru_record (syscall_key e) (syscall_new e) (syscall_upd e) (syc_keys c),
       syc_totalCount := syc_totalCount c + 1\<rparr>"
  by (auto simp: syscall_record_def keyed_record_def syscall_key_def syscall_new_def
      syscall_upd_def [abs_def] Let_def split: prod.splits option.splits)

lemma syscall_run_eq:
  "syscall_run keyCap es =
     \<lparr>syc_keys = lru_agg keyCap (keyed_updates syscall_key syscall_new syscall_upd es),
      syc_totalCount = of_nat (length es)\<rparr>"
proof (induction es rule: rev_induct)
  case Nil
  then show ?case
    by (simp add: syscall_run_def NewSyscallCollectorWithCap_def lru_agg_def keyed_updates_def)
next
  case (snoc e es)
  then show ?case
    by (simp add: syscall_run_def syscall_record_eq keyed_updates_snoc lru_agg_snoc)
qed

lemma strict_weak_syscall_less: "strict_weak syscall_less"
  unfolding strict_weak_def syscall_less_def
  by (auto simp: not_less sint_inject dest: sint_inject [THEN iffD1] split: if_splits)

section \<open>Properties\<close>

text \<open>Aggregation is exact while the keys fit. When the events have at most capacity distinct
  (system call, command) keys, the collector holds for every key that occurred exactly the
  histogram of its latencies, its number of events and its number of failed calls, nothing for
  other keys, and the total number of events.\<close>

theorem syscall_collector_exact:
  assumes "card (syscall_key ` set es) \<le> nat (max 1 keyCap)"
  shows "map_of (lru_Range (syc_keys (syscall_run keyCap es))) k =
      (let us = filter (\<lambda>e. syscall_key e = k) es
       in if us = [] then None else Some \<lparr>sy_hist = hist_of (map SE_LatencyNs us),
            sy_count = of_nat (length us),
            sy_errorCount = of_nat (length (filter (\<lambda>e. IsSyscallError (SE_Ret e)) us))\<rparr>) \<and>
    syc_totalCount (syscall_run keyCap es) = of_nat (length es)"
  using keyed_exact [OF syscall_aggregate assms, of k]
  by (simp add: syscall_run_eq syscall_summary_def Let_def)

definition demo_syscall_event :: "u32 \<Rightarrow> u64 \<Rightarrow> u32 \<Rightarrow> SyscallEvent" where
  "demo_syscall_event nr lat ret = \<lparr>SE_TimestampNs = 0, SE_LatencyNs = lat, SE_CgroupID = 0,
     SE_PID = 1, SE_TID = 1, SE_SyscallNr = nr, SE_Ret = ret, SE_Comm = [115, 104, 0]\<rparr>"

definition demo_syscall_events :: "SyscallEvent list" where
  "demo_syscall_events =
     [demo_syscall_event 0 2000 5, demo_syscall_event 1 9000 0xFFFFFFF5, demo_syscall_event 0 4000 0]"

lemmas demo_syscall_defs = demo_syscall_events_def demo_syscall_event_def syscall_key_def

theorem syscall_collector_exact_witness:
  "map_option sy_count (map_of (lru_Range (syc_keys (syscall_run 4096 demo_syscall_events)))
     (0, [115, 104])) = Some 2"
proof -
  have "card (syscall_key ` set demo_syscall_events) \<le> nat (max 1 4096)"
    by (rule le_trans [OF card_image_le]) (simp_all add: demo_syscall_defs)
  from syscall_collector_exact [OF this, of "(0, [115, 104])"] show ?thesis
    by (simp add: demo_syscall_defs Let_def)
qed

text \<open>Eviction never invents data. Whatever the capacity, the collector holds at most capacity
  entries, no key twice, and every entry describes exactly the last events of its key from some
  point on: the events since the key was last inserted.\<close>

theorem syscall_collector_suffix:
  "list_all (\<lambda>(k, v). \<exists>n < length (filter (\<lambda>e. syscall_key e = k) es).
       v = syscall_summary (drop n (filter (\<lambda>e. syscall_key e = k) es)))
     (lru_Range (syc_keys (syscall_run keyCap es))) \<and>
   length (lru_Range (syc_keys (syscall_run keyCap es))) \<le> nat (max 1 keyCap) \<and>
   distinct (map fst (lru_Range (syc_keys (syscall_run keyCap es))))"
proof -
  let ?xs = "lru_Range (syc_keys (syscall_run keyCap es))"
  have "\<exists>n < length (filter (\<lambda>e. syscall_key e = k) es).
      v = syscall_summary (drop n (filter (\<lambda>e. syscall_key e = k) es))" if "(k, v) \<in> set ?xs" for k v
  proof -
    have "(k, v) \<in> set (lru_Range (lru_agg keyCap
        (keyed_updates syscall_key syscall_new syscall_upd es)))"
      using that by (simp add: syscall_run_eq)
    from keyed_suffix_drop [OF syscall_aggregate this] show ?thesis .
  qed
  then show ?thesis
    using lru_agg_bounded [of keyCap "keyed_updates syscall_key syscall_new syscall_upd es"]
    by (auto simp: list_all_iff syscall_run_eq)
qed

text \<open>The snapshot shows the worst. Its entries are ranked by falling p99 and, for equal p99,
  by falling count; there are at most 64, all of them entries of the collector, and no entry left
  out ranks before one that is shown.\<close>

theorem syscall_snapshot_ranked:
  assumes "sort_slice_ok sort_Slice"
    and "shown = Sy_Entries (syscall_Snapshot sort_Slice c)"
    and "all = map syscall_entry (lru_Range (syc_keys c))"
  shows "sorted_wrt (\<lambda>x y. \<not> syscall_less y x) shown \<and> length shown = min 64 (length all) \<and>
    mset shown \<subseteq># mset all \<and>
    (\<forall>x \<in># mset all - mset shown. \<forall>y \<in> set shown. \<not> syscall_less x y)"
proof -
  have "length (sort_Slice syscall_less all) = length all"
    using assms(1) by (metis sort_slice_ok_def size_mset)
  then have "shown = take 64 (sort_Slice syscall_less all)"
    by (auto simp: assms(2,3) syscall_Snapshot_def MaxSyscallEntriesPerSnapshot_def Let_def)
  then show ?thesis using top_of_sorted [OF assms(1) strict_weak_syscall_less] by simp
qed

theorem syscall_snapshot_ranked_witness:
  "length (Sy_Entries (syscall_Snapshot isort_by (syscall_run 4096 demo_syscall_events))) \<le> 64"
  using syscall_snapshot_ranked [OF sort_slice_isort refl refl, of "syscall_run 4096 demo_syscall_events"]
  by simp

end
