(* ===== verification/SchedCollector.thy ===== *)
theory SchedCollector
  imports CollectorCore
begin

text \<open>
  \<open>internal/collector/sched.go\<close>: run-queue delays, over all tasks and per (pid, command).
  A snapshot is taken at one instant here; the code copies the keys under its mutex and reads the
  aggregates behind them after releasing it.
\<close>

type_synonym schedKey = "u32 \<times> bytes"

record schedEntry =
  sd_hist :: histogram
  sd_count :: u64

record SchedCollector =
  sdc_global :: histogram
  sdc_keys :: "(schedKey, schedEntry) lru"
  sdc_total :: u64

definition DefaultSchedKeyCap :: int where "DefaultSchedKeyCap = 4096"
definition MaxSchedEntriesPerSnapshot :: nat where "MaxSchedEntriesPerSnapshot = 16"

definition NewSchedCollectorWithCap :: "int \<Rightarrow> SchedCollector" where
  "NewSchedCollectorWithCap keyCap =
     \<lparr>sdc_global = hist_New, sdc_keys = lru_New keyCap, sdc_total = 0\<rparr>"

definition sched_record :: "SchedCollector \<Rightarrow> SchedEvent \<Rightarrow> SchedCollector" where
  "sched_record c event =
     (let key = (SC_PID event, nullTermString (SC_Comm event));
          c = c\<lparr>sdc_global := hist_Record (SC_RunqDelayNs event) (sdc_global c)\<rparr>;
          (entry, keys) = lru_Get key (sdc_keys c);
          keys = (if entry = None then lru_Put key \<lparr>sd_hist = hist_New, sd_count = 0\<rparr> keys
                  else keys);
          keys = lru_modify key (\<lambda>entry. entry
            \<lparr>sd_hist := hist_Record (SC_RunqDelayNs event) (sd_hist entry),
             sd_count := sd_count entry + 1\<rparr>) keys
      in c\<lparr>sdc_keys := keys, sdc_total := sdc_total c + 1\<rparr>)"

record SchedEntry =
  Sd_PID :: u32
  Sd_Comm :: bytes
  Sd_Count :: u64
  Sd_RunqDelay :: Percentiles

record SchedSnapshot =
  Sd_Global :: Percentiles
  Sd_TopDelayed :: "SchedEntry list"
  Sd_TotalCount :: u64

definition sched_less :: "schedKey \<times> schedEntry \<Rightarrow> schedKey \<times> schedEntry \<Rightarrow> bool" where
  "sched_less a b \<longleftrightarrow> hist_Percentile 99 (sd_hist (snd b)) < hist_Percentile 99 (sd_hist (snd a))"

definition sched_Snapshot ::
  "((schedKey \<times> schedEntry \<Rightarrow> schedKey \<times> schedEntry \<Rightarrow> bool) \<Rightarrow> (schedKey \<times> schedEntry) list \<Rightarrow>
    (schedKey \<times> schedEntry) list) \<Rightarrow> SchedCollector \<Rightarrow> SchedSnapshot" where
  "sched_Snapshot sort_Slice c =
     (let globalSnap = hist_Snapshot (sdc_global c);
          all = sort_Slice sched_less (lru_Range (sdc_keys c));
          limit = (if length all < MaxSchedEntriesPerSnapshot then length all
                   else MaxSchedEntriesPerSnapshot);
          top = map (\<lambda>(k, v). \<lparr>Sd_PID = fst k, Sd_Comm = snd k, Sd_Count = sd_count v,
                                Sd_RunqDelay = histogramPercentiles (sd_hist v)\<rparr>) (take limit all)
      in \<lparr>Sd_Global = \<lparr>P50 = hist_Percentile 50 globalSnap, P95 = hist_Percentile 95 globalSnap,
                       P99 = hist_Percentile 99 globalSnap, PMax = hg_maxV globalSnap\<rparr>,
          Sd_TopDelayed = top, Sd_TotalCount = sdc_total c\<rparr>)"

section \<open>What the collector holds\<close>

definition sched_collect :: "int \<Rightarrow> SchedEvent list \<Rightarrow> SchedCollector" where
  "sched_collect keyCap es = foldl sched_record (NewSchedCollectorWithCap keyCap) es"

definition sched_key :: "SchedEvent \<Rightarrow> schedKey" where
  "sched_key e = (SC_PID e, nullTermString (SC_Comm e))"

definition sched_new :: "SchedEvent \<Rightarrow> schedEntry" where
  "sched_new e = \<lparr>sd_hist = hist_New, sd_count = 0\<rparr>"

definition sched_upd :: "SchedEvent \<Rightarrow> schedEntry \<Rightarrow> schedEntry" where
  "sched_upd e entry = entry\<lparr>sd_hist := hist_Record (SC_RunqDelayNs e) (sd_hist entry),
     sd_count := sd_count entry + 1\<rparr>"

definition sched_summary :: "SchedEvent list \<Rightarrow> schedEntry" where
  "sched_summary us = \<lparr>sd_hist = hist_of (map SC_RunqDelayNs us), sd_count = of_nat (length us)\<rparr>"

lemma sched_aggregate:
  "us \<noteq> [] \<Longrightarrow> aggregate (map (\<lambda>e. (sched_new e, sched_upd e)) us) = sched_summary us"
proof (induction us rule: rev_nonempty_induct)
  case (single u)
  show ?case by (simp add: aggregate_def sched_upd_def sched_new_def sched_summary_def hist_of_def)
next
  case (snoc u us)
  then show ?case by (simp add: aggregate_snoc sched_upd_def sched_summary_def hist_of_snoc)
qed

lemma sched_record_eq:
  "sched_record c e =
     \<lparr>sdc_global = hist_Record (SC_RunqDelayNs e) (sdc_global c),
      sdc_keys = lru_record (sched_key e) (sched_new e) (sched_upd e) (sdc_keys c),
      sdc_total = sdc_total c + 1\<rparr>"
  by (auto simp: sched_record_def keyed_record_def sched_key_def sched_new_def
      sched_upd_def [abs_def] Let_def split: prod.splits option.splits)

lemma sched_collect_eq:
  "sched_collect keyCap es =
     \<lparr>sdc_global = hist_of (map SC_RunqDelayNs es),
      sdc_keys = lru_agg keyCap (keyed_updates sched_key sched_new sched_upd es),
      sdc_total = of_nat (length es)\<rparr>"
proof (induction es rule: rev_induct)
  case Nil
  then show ?case
    by (simp add: sched_collect_def NewSchedCollectorWithCap_def lru_agg_def keyed_updates_def
        hist_of_def)
next
  case (snoc e es)
  then show ?case
    by (simp add: sched_collect_def sched_record_eq keyed_updates_snoc lru_agg_snoc hist_of_snoc)
qed

lemma strict_weak_sched_less: "strict_weak sched_less"
  unfolding strict_weak_def sched_less_def by auto

section \<open>Properties\<close>

text \<open>The global delay distribution misses nothing. Whatever tasks were evicted, the
  distribution in the snapshot is that of all events consumed, and the total is their number; the
  tasks listed are at most 16, ranked by falling p99, and none left out has a larger p99 than one
  that is listed.\<close>

theorem sched_snapshot_global:
  assumes "sort_slice_ok sort_Slice"
    and "all = lru_Range (sdc_keys (sched_collect keyCap es))"
    and "s = sched_Snapshot sort_Slice (sched_collect keyCap es)"
  shows "Sd_Global s = histogramPercentiles (hist_of (map SC_RunqDelayNs es)) \<and>
    Sd_TotalCount s = of_nat (length es) \<and>
    (\<exists>top. Sd_TopDelayed s = map (\<lambda>(k, v). \<lparr>Sd_PID = fst k, Sd_Comm = snd k, Sd_Count = sd_count v,
         Sd_RunqDelay = histogramPercentiles (sd_hist v)\<rparr>) top \<and>
       mset top \<subseteq># mset all \<and> length top = min 16 (length all) \<and>
       sorted_wrt (\<lambda>x y. \<not> sched_less y x) top \<and>
       (\<forall>x \<in># mset all - mset top. \<forall>y \<in> set top. \<not> sched_less x y))"
proof -
  let ?top = "take 16 (sort_Slice sched_less all)"
  have "take (if length (sort_Slice sched_less all) < 16 then length (sort_Slice sched_less all)
      else 16) (sort_Slice sched_less all) = ?top" by simp
  then have "Sd_TopDelayed s = map (\<lambda>(k, v). \<lparr>Sd_PID = fst k, Sd_Comm = snd k, Sd_Count = sd_count v,
      Sd_RunqDelay = histogramPercentiles (sd_hist v)\<rparr>) ?top"
    by (simp add: assms(2,3) sched_Snapshot_def MaxSchedEntriesPerSnapshot_def Let_def)
  moreover have "Sd_Global s = histogramPercentiles (hist_of (map SC_RunqDelayNs es))"
    "Sd_TotalCount s = of_nat (length es)"
    by (simp_all add: assms(3) sched_Snapshot_def sched_collect_eq hist_Snapshot_of
        histogramPercentiles_def Let_def)
  ultimately show ?thesis
    using top_of_sorted [OF assms(1) strict_weak_sched_less, of 16 all]
    by (intro conjI exI [of _ ?top]) simp_all
qed

definition demo_sched_events :: "SchedEvent list" where
  "demo_sched_events =
     [\<lparr>SC_TimestampNs = 0, SC_RunqDelayNs = 5000, SC_CgroupID = 0, SC_PID = 1, SC_CPU = 0,
       SC_Comm = [97, 0]\<rparr>,
      \<lparr>SC_TimestampNs = 0, SC_RunqDelayNs = 9000, SC_CgroupID = 0, SC_PID = 2, SC_CPU = 1,
       SC_Comm = [98, 0]\<rparr>]"

theorem sched_snapshot_global_witness:
  "Sd_TotalCount (sched_Snapshot isort_by (sched_collect 1 demo_sched_events)) = 2"
  using sched_snapshot_global [OF sort_slice_isort refl refl, of 1 demo_sched_events]
  by (simp add: demo_sched_events_def)

text \<open>Per-task aggregation. While the distinct (pid, command) keys fit, each key holds exactly
  its delays and its number of events; otherwise each entry still describes the last events of
  its key from some point on.\<close>

theorem sched_collector_keys:
  "(card (sched_key ` set es) \<le> nat (max 1 keyCap) \<longrightarrow>
      map_of (lru_Range (sdc_keys (sched_collect keyCap es))) k =
      (let us = filter (\<lambda>e. sched_key e = k) es
       in if us = [] then None else Some \<lparr>sd_hist = hist_of (map SC_RunqDelayNs us),
                                            sd_count = of_nat (length us)\<rparr>)) \<and>
   ((k, v) \<in> set (lru_Range (sdc_keys (sched_collect keyCap es))) \<longrightarrow>
      (\<exists>n < length (filter (\<lambda>e. sched_key e = k) es).
         v = sched_summary (drop n (filter (\<lambda>e. sched_key e = k) es))))"
proof (intro conjI impI)
  assume "card (sched_key ` set es) \<le> nat (max 1 keyCap)"
  from keyed_exact [OF sched_aggregate this, of k] show
    "map_of (lru_Range (sdc_keys (sched_collect keyCap es))) k =
      (let us = filter (\<lambda>e. sched_key e = k) es
       in if us = [] then None else Some \<lparr>sd_hist = hist_of (map SC_RunqDelayNs us),
                                            sd_count = of_nat (length us)\<rparr>)"
    by (simp add: sched_collect_eq sched_summary_def Let_def)
next
  assume "(k, v) \<in> set (lru_Range (sdc_keys (sched_collect keyCap es)))"
  then have "(k, v) \<in> set (lru_Range (lru_agg keyCap (keyed_updates sched_key sched_new sched_upd es)))"
    by (simp add: sched_collect_eq)
  from keyed_suffix_drop [OF sched_aggregate this] show
    "\<exists>n < length (filter (\<lambda>e. sched_key e = k) es).
       v = sched_summary (drop n (filter (\<lambda>e. sched_key e = k) es))" .
qed

theorem sched_collector_keys_witness:
  "map_option sd_count (map_of (lru_Range (sdc_keys (sched_collect 2 demo_sched_events))) (2, [98]))
     = Some 1 \<and>
   (\<exists>n < length (filter (\<lambda>e. sched_key e = (2, [98])) demo_sched_events).
      the (map_of (lru_Range (sdc_keys (sched_collect 2 demo_sched_events))) (2, [98])) =
      sched_summary (drop n (filter (\<lambda>e. sched_key e = (2, [98])) demo_sched_events)))"
proof -
  let ?m = "lru_Range (sdc_keys (sched_collect 2 demo_sched_events))"
  have "card (sched_key ` set demo_sched_events) \<le> nat (max 1 2)"
    by (rule le_trans [OF card_image_le])
      (simp_all add: demo_sched_events_def card_insert_if)
  then have one: "map_option sd_count (map_of ?m (2, [98])) = Some 1"
    using sched_collector_keys [of demo_sched_events 2 "(2, [98])"]
    by (simp add: demo_sched_events_def sched_key_def Let_def)
  then obtain v where "map_of ?m (2, [98]) = Some v" by auto
  then show ?thesis
    using one sched_collector_keys [of demo_sched_events 2 "(2, [98])" v] by (auto dest: map_of_SomeD)
qed

end
