(* ===== verification/DiskCollector.thy ===== *)
theory DiskCollector
  imports CollectorCore
begin

text \<open>
  \<open>internal/collector/disk.go\<close>: latency and volume of reads, writes and synchronous writes.
\<close>

record DiskIOCollector =
  dk_readHist :: histogram
  dk_writeHist :: histogram
  dk_syncHist :: histogram
  dk_reads :: u64
  dk_writes :: u64
  dk_syncs :: u64
  dk_rdBytes :: u64
  dk_wrBytes :: u64

definition NewDiskIOCollector :: DiskIOCollector where
  "NewDiskIOCollector =
     \<lparr>dk_readHist = hist_New, dk_writeHist = hist_New, dk_syncHist = hist_New,
      dk_reads = 0, dk_writes = 0, dk_syncs = 0, dk_rdBytes = 0, dk_wrBytes = 0\<rparr>"

text \<open>82, 87 and 83 are the characters R, W and S.\<close>

definition diskio_record :: "DiskIOCollector \<Rightarrow> DiskEvent \<Rightarrow> DiskIOCollector" where
  "diskio_record c event =
     (if DE_Op event = 82 then
        c\<lparr>dk_readHist := hist_Record (DE_LatencyNs event) (dk_readHist c),
          dk_reads := dk_reads c + 1,
          dk_rdBytes := dk_rdBytes c + ucast (DE_NrBytes event)\<rparr>
      else if DE_Op event = 87 then
        c\<lparr>dk_writeHist := hist_Record (DE_LatencyNs event) (dk_writeHist c),
          dk_writes := dk_writes c + 1,
          dk_wrBytes := dk_wrBytes c + ucast (DE_NrBytes event)\<rparr>
      else if DE_Op event = 83 then
        c\<lparr>dk_syncHist := hist_Record (DE_LatencyNs event) (dk_syncHist c),
          dk_syncs := dk_syncs c + 1\<rparr>
      else c)"

record DiskIOSnapshot =
  Dk_ReadLatency :: Percentiles
  Dk_WriteLatency :: Percentiles
  Dk_SyncLatency :: Percentiles
  Dk_TotalReads :: u64
  Dk_TotalWrites :: u64
  Dk_TotalSyncs :: u64
  Dk_ReadBytes :: u64
  Dk_WriteBytes :: u64

definition diskio_Snapshot :: "DiskIOCollector \<Rightarrow> DiskIOSnapshot" where
  "diskio_Snapshot c =
     \<lparr>Dk_ReadLatency = histogramPercentiles (dk_readHist c),
      Dk_WriteLatency = histogramPercentiles (dk_writeHist c),
      Dk_SyncLatency = histogramPercentiles (dk_syncHist c),
      Dk_TotalReads = dk_reads c, Dk_TotalWrites = dk_writes c, Dk_TotalSyncs = dk_syncs c,
      Dk_ReadBytes = dk_rdBytes c, Dk_WriteBytes = dk_wrBytes c\<rparr>"

definition diskio_collect :: "DiskEvent list \<Rightarrow> DiskIOCollector" where
  "diskio_collect es = foldl diskio_record NewDiskIOCollector es"

definition op_is :: "u8 \<Rightarrow> DiskEvent \<Rightarrow> bool" where
  "op_is op e \<longleftrightarrow> DE_Op e = op"

lemma diskio_collect_eq:
  "diskio_collect es =
     \<lparr>dk_readHist = hist_of (map DE_LatencyNs (filter (op_is 82) es)),
      dk_writeHist = hist_of (map DE_LatencyNs (filter (op_is 87) es)),
      dk_syncHist = hist_of (map DE_LatencyNs (filter (op_is 83) es)),
      dk_reads = of_nat (length (filter (op_is 82) es)),
      dk_writes = of_nat (length (filter (op_is 87) es)),
      dk_syncs = of_nat (length (filter (op_is 83) es)),
      dk_rdBytes = of_nat (sum_list (map (unat \<circ> DE_NrBytes) (filter (op_is 82) es))),
      dk_wrBytes = of_nat (sum_list (map (unat \<circ> DE_NrBytes) (filter (op_is 87) es)))\<rparr>"
proof (induction es rule: rev_induct)
  case Nil
  then show ?case by (simp add: diskio_collect_def NewDiskIOCollector_def hist_of_def)
next
  case (snoc e es)
  have step: "diskio_collect (es @ [e]) = diskio_record (diskio_collect es) e"
    by (simp add: diskio_collect_def)
  consider "DE_Op e = 82" | "DE_Op e = 87" | "DE_Op e = 83"
    | "DE_Op e \<noteq> 82" "DE_Op e \<noteq> 87" "DE_Op e \<noteq> 83" by blast
  then show ?case
    by cases (simp_all add: step snoc.IH diskio_record_def op_is_def hist_of_snoc
        add.commute [of "1 :: u64"])
qed

section \<open>Properties\<close>

text \<open>Every disk event is counted in its class and in no other. The snapshot of the events
  consumed gives, for reads, writes and synchronous writes each, the percentiles of exactly the
  latencies of that operation and their number, and for reads and writes the bytes moved, modulo
  2^64; events of any other operation leave no trace.\<close>

theorem disk_snapshot_exact:
  "diskio_Snapshot (diskio_collect es) =
     \<lparr>Dk_ReadLatency = histogramPercentiles (hist_of (map DE_LatencyNs (filter (op_is 82) es))),
      Dk_WriteLatency = histogramPercentiles (hist_of (map DE_LatencyNs (filter (op_is 87) es))),
      Dk_SyncLatency = histogramPercentiles (hist_of (map DE_LatencyNs (filter (op_is 83) es))),
      Dk_TotalReads = of_nat (length (filter (op_is 82) es)),
      Dk_TotalWrites = of_nat (length (filter (op_is 87) es)),
      Dk_TotalSyncs = of_nat (length (filter (op_is 83) es)),
      Dk_ReadBytes = of_nat (sum_list (map (unat \<circ> DE_NrBytes) (filter (op_is 82) es))),
      Dk_WriteBytes = of_nat (sum_list (map (unat \<circ> DE_NrBytes) (filter (op_is 87) es)))\<rparr>"
  by (simp add: diskio_Snapshot_def diskio_collect_eq)

end
