(* ===== verification/OomCollector.thy ===== *)
theory OomCollector
  imports GoEvents
begin

text \<open>
  \<open>internal/collector/oom.go\<close>: the OOM kills of the window, the newest 256 of them.
\<close>

definition MaxOOMEvents :: nat where "MaxOOMEvents = 256"

record OOMEventEntry =
  Om_Timestamp :: u64
  Om_PID :: u32
  Om_Comm :: bytes
  Om_TriggeredPID :: u32
  Om_TotalPages :: u64
  Om_RSSPages :: u64
  Om_OOMScore :: u32
  Om_CgroupID :: u64

record OOMCollector =
  om_events :: "OOMEventEntry list"

definition oom_entry :: "OOMEvent \<Rightarrow> OOMEventEntry" where
  "oom_entry event =
     \<lparr>Om_Timestamp = OE_TimestampNs event, Om_PID = OE_PID event,
      Om_Comm = nullTermString (OE_Comm event), Om_TriggeredPID = OE_TriggeredPID event,
      Om_TotalPages = OE_TotalPages event, Om_RSSPages = OE_RSSPages event,
      Om_OOMScore = OE_OOMScore event, Om_CgroupID = OE_CgroupID event\<rparr>"

definition oomc_record :: "OOMCollector \<Rightarrow> OOMEvent \<Rightarrow> OOMCollector" where
  "oomc_record c event =
     (let c = (if MaxOOMEvents \<le> length (om_events c)
               then c\<lparr>om_events := drop 1 (om_events c)\<rparr> else c)
      in c\<lparr>om_events := om_events c @ [oom_entry event]\<rparr>)"

record OOMSnapshot =
  Om_Events :: "OOMEventEntry list"
  Om_Count :: int

definition oomc_Snapshot :: "OOMCollector \<Rightarrow> OOMSnapshot" where
  "oomc_Snapshot c = \<lparr>Om_Events = om_events c, Om_Count = int (length (om_events c))\<rparr>"

definition oomc_collect :: "OOMEvent list \<Rightarrow> OOMCollector" where
  "oomc_collect es = foldl oomc_record \<lparr>om_events = []\<rparr> es"

lemma oomc_collect_eq:
  "om_events (oomc_collect es) = map oom_entry (drop (length es - MaxOOMEvents) es)"
proof (induction es rule: rev_induct)
  case Nil
  then show ?case by (simp add: oomc_collect_def)
next
  case (snoc e es)
  have "om_events (oomc_collect (es @ [e])) =
      (if MaxOOMEvents \<le> length (om_events (oomc_collect es))
       then drop 1 (om_events (oomc_collect es)) else om_events (oomc_collect es)) @ [oom_entry e]"
    by (simp add: oomc_collect_def oomc_record_def Let_def)
  moreover have "Suc (length es - 256) = length es - 255" if "256 \<le> length es" using that by simp
  ultimately show ?case using snoc.IH
    by (cases "256 \<le> length es") (simp_all add: MaxOOMEvents_def drop_map min_def)
qed

section \<open>Properties\<close>

text \<open>The newest OOM kills survive. After any number of events the snapshot holds the last 256,
  all of them when there were fewer, in order, and its count is their number; so a window with a
  kill never reports none.\<close>

theorem oom_snapshot_newest:
  "Om_Events (oomc_Snapshot (oomc_collect es)) = map oom_entry (drop (length es - 256) es) \<and>
   Om_Count (oomc_Snapshot (oomc_collect es)) = int (min 256 (length es)) \<and>
   (Om_Count (oomc_Snapshot (oomc_collect es)) = 0 \<longleftrightarrow> es = [])"
proof -
  have "length es - (length es - 256) = min 256 (length es)" by simp
  then show ?thesis
    by (auto simp: oomc_Snapshot_def oomc_collect_eq MaxOOMEvents_def min_def)
qed

end
