(* ===== verification/GoTime.thy ===== *)
theory GoTime
  imports Float64
begin

text \<open>
  Durations as Go computes with them (package \<open>time\<close>) and \<open>internal/doctor/eta.go\<close>. An instant is
  its number of nanoseconds on the monotonic clock; a duration is a signed 64-bit number of
  nanoseconds. Lemmas on the signs and bounds of the float64 results follow.
\<close>

section \<open>Rounding keeps signs and whole bounds\<close>

lemma scaled_pos: "1 \<le> x * 2 ^ 64 \<Longrightarrow> (0 :: rat) < x"
proof (rule ccontr)
  assume "1 \<le> x * 2 ^ 64" "\<not> 0 < x"
  moreover from this(2) have "x * 2 ^ 64 \<le> 0" by (simp add: mult_nonpos_nonneg)
  ultimately show False by linarith
qed

lemma f64_round_pos:
  assumes "1 \<le> x * 2 ^ 64"
  shows "0 < f64_round x"
proof -
  have "0 < x" by (rule scaled_pos [OF assms])
  then have "x / 2 ^ 53 < x" by (simp add: divide_less_eq)
  with f64_round_err [OF assms] show ?thesis by linarith
qed

lemma f64_0 [simp]: "f64 0 = 0" by (simp add: f64_def f64_round_def)

lemma f64_sign:
  assumes "x = 0 \<or> 1 \<le> \<bar>x\<bar> * 2 ^ 64"
  shows "0 < f64 x \<longleftrightarrow> 0 < x" "f64 x < 0 \<longleftrightarrow> x < 0"
  using assms f64_round_pos [of x] f64_round_pos [of "- x"]
  by (auto simp: f64_def f64_round_def split: if_splits)

lemma f64_round_upper: "1 \<le> x * 2 ^ 64 \<Longrightarrow> f64_round x \<le> 2 * x"
proof -
  assume x: "1 \<le> x * 2 ^ 64"
  then have "0 \<le> x" using scaled_pos by force
  then have "x / 2 ^ 53 \<le> x" by (simp add: divide_le_eq)
  with f64_round_err [OF x] show ?thesis by linarith
qed

lemma round_half_even_le: "y \<le> of_int N \<Longrightarrow> round_half_even y \<le> N"
proof -
  assume y: "y \<le> of_int N"
  show ?thesis
  proof (cases "\<lfloor>y\<rfloor> < N")
    case True
    then show ?thesis by (auto simp: round_half_even_def Let_def)
  next
    case False
    then have "\<lfloor>y\<rfloor> = N" using y by linarith
    moreover have "y = of_int N" using y \<open>\<lfloor>y\<rfloor> = N\<close> by linarith
    ultimately show ?thesis by (simp add: round_half_even_of_int)
  qed
qed

lemma f64_near: "1 \<le> x * 2 ^ 64 \<Longrightarrow> \<bar>f64 x - x\<bar> \<le> x / 2 ^ 53"
  using f64_round_err [of x] scaled_pos [of x] by (simp add: f64_def)

text \<open>Rounding does not cross a whole number below \<open>2 ^ 53\<close>.\<close>

lemma f64_round_le_nat:
  assumes "0 < x" "x \<le> of_nat n" "n < 2 ^ 53"
  shows "f64_round x \<le> of_nat n"
proof -
  have n: "0 < n" using assms(1,2) by (cases n) simp_all
  have "nat \<lfloor>x * 2 ^ 64\<rfloor> \<le> nat \<lfloor>of_nat n * 2 ^ 64 :: rat\<rfloor>"
    using assms(2) by (intro nat_mono floor_mono mult_right_mono) simp_all
  moreover have "(of_nat n * 2 ^ 64 :: rat) = of_int (int (n * 2 ^ 64))" by simp
  then have "nat \<lfloor>of_nat n * 2 ^ 64 :: rat\<rfloor> = n * 2 ^ 64" by (simp only: floor_of_int nat_int)
  ultimately have "bit_len (nat \<lfloor>x * 2 ^ 64\<rfloor>) \<le> bit_len (n * 2 ^ 64)" by (simp add: bit_len_mono)
  moreover have "bit_len (n * 2 ^ 64) \<le> 117"
  proof -
    have "n * 2 ^ 64 < 2 ^ 53 * 2 ^ 64" using assms(3) by (rule mult_strict_right_mono) simp
    then have "n * 2 ^ 64 < (2::nat) ^ 117" by simp
    moreover have "2 ^ (bit_len (n * 2 ^ 64) - 1) \<le> n * 2 ^ 64"
      using bit_len_bounds [of "n * 2 ^ 64"] n by simp
    ultimately have "(2::nat) ^ (bit_len (n * 2 ^ 64) - 1) < 2 ^ 117" by linarith
    then have "bit_len (n * 2 ^ 64) - 1 < 117" by (simp only: power_strict_increasing_iff)
    then show ?thesis by simp
  qed
  ultimately have e: "f64_exp x \<le> 0" unfolding f64_exp_def by linarith
  define k where "k = nat (- f64_exp x)"
  have "f64_exp x = - int k" using e unfolding k_def by linarith
  then have powi: "2 powi f64_exp x = (1 :: rat) / 2 ^ k"
    by (simp add: power_int_minus inverse_eq_divide)
  have "x / (1 / 2 ^ k) \<le> of_int (int (n * 2 ^ k))"
    using assms(2) by (simp add: mult_right_mono)
  then have "round_half_even (x / (1 / 2 ^ k)) \<le> int (n * 2 ^ k)" by (rule round_half_even_le)
  then have "(of_int (round_half_even (x / (1 / 2 ^ k))) :: rat) \<le> of_int (int (n * 2 ^ k))"
    by (simp only: of_int_le_iff)
  then have "of_int (round_half_even (x / (1 / 2 ^ k))) / 2 ^ k \<le> (of_nat n :: rat)"
    by (simp add: divide_le_eq)
  then show ?thesis using assms(1) by (simp add: f64_round_def powi)
qed

section \<open>Percentages\<close>

text \<open>\<open>float64(part) / float64(whole) * 100.0\<close>.\<close>

definition pct_of :: "nat \<Rightarrow> nat \<Rightarrow> rat" where
  "pct_of part whole = f64 (f64 (f64 (of_nat part) / f64 (of_nat whole)) * 100)"

text \<open>Float64 rounding neither takes a percentage over 100 nor hides a single part.\<close>

lemma pct_of_bounds:
  assumes "m \<le> n" "0 < n" "n < 2 ^ 53"
  shows "0 \<le> pct_of m n" "pct_of m n \<le> 100"
    "0 < pct_of m n \<longleftrightarrow> 0 < m"
proof -
  have exact: "f64 (of_nat m) = of_nat m" "f64 (of_nat n) = of_nat n"
    using f64_of_int [of "int m"] f64_of_int [of "int n"] assms by simp_all
  define x where "x = (of_nat m / of_nat n :: rat)"
  have rate: "pct_of m n = f64 (f64 x * 100)"
    by (simp add: pct_of_def exact x_def)
  show "0 \<le> pct_of m n" "pct_of m n \<le> 100"
    "0 < pct_of m n \<longleftrightarrow> 0 < m"
  proof -
    have "0 \<le> pct_of m n \<and> pct_of m n \<le> 100 \<and>
      (0 < pct_of m n \<longleftrightarrow> 0 < m)"
    proof (cases "m = 0")
      case True
      then show ?thesis unfolding rate by (simp add: x_def)
    next
      case False
      have le: "(of_nat m :: rat) \<le> of_nat n" using assms(1) by simp
      have x: "0 < x" "x \<le> of_nat 1" using False assms(2) le by (simp_all add: x_def divide_le_eq)
      have "(of_nat n :: rat) \<le> 2 ^ 53" using assms(3) of_nat_le_iff [of n "2 ^ 53", where 'a = rat] by simp
      then have "1 / 2 ^ 53 \<le> 1 / (of_nat n :: rat)" using assms(2) by (intro divide_left_mono) simp_all
      also have "\<dots> \<le> x" unfolding x_def using False assms(2) by (intro divide_right_mono) simp_all
      finally have low: "1 / 2 ^ 53 \<le> x" .
      then have "1 \<le> x * 2 ^ 64" by (simp add: divide_le_eq)
      note err = f64_round_err [OF this] and up = f64_round_le_nat [OF x]
      have y: "f64 x = f64_round x" using x by (simp add: f64_def)
      have "x / 2 ^ 53 \<le> x / 2" using x(1) by simp
      then have "\<bar>f64_round x - x\<bar> \<le> x / 2" using err by (rule order_trans [rotated])
      then have "x / 2 \<le> f64_round x" by linarith
      moreover have "1 / 2 ^ 54 \<le> x / 2" using low by simp
      ultimately have ylow: "1 / 2 ^ 54 \<le> f64 x" unfolding y by (rule order_trans [rotated])
      have yup: "f64 x \<le> 1" using up unfolding y by simp
      have z: "0 < f64 x * 100" "f64 x * 100 \<le> of_nat 100" "1 \<le> f64 x * 100 * 2 ^ 64"
        using ylow yup by simp_all
      have "f64 (f64 x * 100) = f64_round (f64 x * 100)" using z(1) by (simp add: f64_def)
      then show ?thesis unfolding rate
        using f64_round_pos [OF z(3)] f64_round_le_nat [OF z(1,2)] False by simp
    qed
    then show "0 \<le> pct_of m n" "pct_of m n \<le> 100"
      "0 < pct_of m n \<longleftrightarrow> 0 < m" by simp_all
  qed
qed

section \<open>Durations\<close>

text \<open>\<open>t.Sub(u)\<close> saturates; \<open>Seconds\<close> adds the whole seconds and the rest, truncating towards
  zero. The conversion of a float64 to a duration truncates; outside the range of \<open>int64\<close> it gives
  the smallest value, as on amd64.\<close>

definition go_Sub :: "int \<Rightarrow> int \<Rightarrow> int" where
  "go_Sub t u = max (- (2 ^ 63)) (min (2 ^ 63 - 1) (t - u))"

definition go_Seconds :: "int \<Rightarrow> rat" where
  "go_Seconds d =
     (let sec = sgn d * (\<bar>d\<bar> div 1000000000); nsec = sgn d * (\<bar>d\<bar> mod 1000000000)
      in f64 (f64 (of_int sec) + f64 (f64 (of_int nsec) / 1000000000)))"

definition float_to_int64 :: "rat \<Rightarrow> int" where
  "float_to_int64 x =
     (let n = (if x < 0 then \<lceil>x\<rceil> else \<lfloor>x\<rfloor>)
      in if - (2 ^ 63) \<le> n \<and> n < 2 ^ 63 then n else - (2 ^ 63))"

lemma go_Seconds_pos:
  assumes "0 < d" "d < 2 ^ 63"
  shows "0 < go_Seconds d" "go_Seconds d \<le> 2 ^ 40"
proof -
  define s n where "s = d div 1000000000" and "n = d mod 1000000000"
  have sn: "0 \<le> s" "s < 2 ^ 34" "0 \<le> n" "n < 1000000000" "0 < s \<or> 0 < n"
  proof -
    have "d = s * 1000000000 + n" by (simp add: s_def n_def)
    moreover show n: "0 \<le> n" "n < 1000000000" by (simp_all add: n_def)
    moreover have "d < 9223372036854775808" using assms(2) by simp
    ultimately have "s < 17179869184" and "0 < s * 1000000000 + n" using assms(1) by linarith+
    then show "s < 2 ^ 34" "0 < s \<or> 0 < n" using n by (simp, linarith)
    show "0 \<le> s" using assms(1) by (simp add: s_def)
  qed
  have exact: "f64 (of_int s) = of_int s" "f64 (of_int n) = of_int n"
    using sn by (intro f64_of_int; simp)+
  define q where "q = f64 (of_int n / 1000000000)"
  have q: "0 \<le> q" "q \<le> 1" "0 < n \<Longrightarrow> 1 \<le> q * 2 ^ 63"
  proof -
    have "0 \<le> q \<and> q \<le> 1 \<and> (0 < n \<longrightarrow> 1 \<le> q * 2 ^ 63)"
    proof (cases "n = 0")
      case True
      then show ?thesis by (simp add: q_def)
    next
      case False
      then have n: "1 \<le> (of_int n :: rat)" "(of_int n :: rat) \<le> 1000000000" using sn by simp_all
      let ?x = "of_int n / 1000000000 :: rat"
      have x: "0 < ?x" "?x \<le> of_nat 1" "1 \<le> ?x * 2 ^ 64" using n by simp_all
      have "q = f64_round ?x" using x(1) by (simp add: q_def f64_def)
      moreover have "\<bar>f64_round ?x - ?x\<bar> \<le> ?x / 2 ^ 53" by (rule f64_round_err [OF x(3)])
      moreover have "f64_round ?x \<le> of_nat 1" by (rule f64_round_le_nat [OF x(1,2)]) simp
      ultimately have "?x - ?x / 2 ^ 53 \<le> q" "q \<le> 1" by linarith+
      moreover have "?x / 2 ^ 53 \<le> ?x / 2" "1 / 1000000000 \<le> ?x" using n by simp_all
      ultimately have "1 / 2000000000 \<le> q" "q \<le> 1" by linarith+
      then show ?thesis by simp
    qed
    then show "0 \<le> q" "q \<le> 1" "0 < n \<Longrightarrow> 1 \<le> q * 2 ^ 63" by simp_all
  qed
  have sum: "1 \<le> (of_int s + q) * 2 ^ 64" "of_int s + q \<le> 2 ^ 35"
  proof -
    show "1 \<le> (of_int s + q) * 2 ^ 64"
    proof (cases "0 < n")
      case True
      then have "1 \<le> q * 2 ^ 63" by (rule q(3))
      moreover have "0 \<le> (of_int s :: rat)" using sn by simp
      ultimately show ?thesis by (simp add: distrib_right)
    next
      case False
      then have "1 \<le> (of_int s :: rat)" using sn by simp
      with q(1) show ?thesis by (simp add: distrib_right)
    qed
    have "of_int s < (of_int (2 ^ 34) :: rat)" using sn(2) by (simp only: of_int_less_iff)
    with q(2) show "of_int s + q \<le> 2 ^ 35" by simp
  qed
  have "go_Seconds d = f64 (of_int s + q)"
    using assms(1) by (simp add: go_Seconds_def Let_def s_def [symmetric] n_def [symmetric] exact q_def)
  moreover have "\<not> of_int s + q < 0" using q(1) sn(1) by simp
  ultimately have eq: "go_Seconds d = f64_round (of_int s + q)" by (simp add: f64_def)
  show "0 < go_Seconds d" unfolding eq by (rule f64_round_pos [OF sum(1)])
  show "go_Seconds d \<le> 2 ^ 40" unfolding eq using f64_round_upper [OF sum(1)] sum(2) by simp
qed

text \<open>The rate of a signed change: the change over the seconds elapsed, one second when the clock
  did not advance. It has the sign of the change.\<close>

definition elapsed_or_1 :: "int \<Rightarrow> int \<Rightarrow> rat" where
  "elapsed_or_1 now start =
     (let elapsed = go_Seconds (go_Sub now start) in if elapsed \<le> 0 then 1 else elapsed)"

lemma go_Seconds_nonpos:
  assumes "d \<le> 0"
  shows "go_Seconds d \<le> 0"
proof -
  define s n where "s = sgn d * (\<bar>d\<bar> div 1000000000)" and "n = sgn d * (\<bar>d\<bar> mod 1000000000)"
  have sn: "s \<le> 0" "n \<le> 0"
    using assms(1) by (auto simp: s_def n_def sgn_if mult_le_0_iff pos_imp_zdiv_nonneg_iff)
  have neg: "f64 x \<le> 0" if "x \<le> 0" for x
  proof (cases "x = 0")
    case False
    with that have "0 < - x" by simp
    have "0 \<le> round_half_even (- x / 2 powi f64_exp (- x))"
      using that by (auto simp: round_half_even_def Let_def divide_nonpos_pos)
    with False that show ?thesis by (simp add: f64_def f64_round_def mult_nonpos_nonneg)
  qed simp
  have "f64 (of_int s) + f64 (f64 (of_int n) / 1000000000) \<le> 0"
    using sn by (intro add_nonpos_nonpos neg) (simp_all add: neg divide_nonpos_pos)
  then show ?thesis by (simp add: go_Seconds_def Let_def s_def [symmetric] n_def [symmetric] neg)
qed

lemma go_Seconds_Sub_pos: "0 < go_Seconds (go_Sub t u) \<longleftrightarrow> u < t"
proof
  assume "u < t"
  then show "0 < go_Seconds (go_Sub t u)" by (intro go_Seconds_pos(1)) (simp_all add: go_Sub_def)
next
  assume pos: "0 < go_Seconds (go_Sub t u)"
  show "u < t"
  proof (rule ccontr)
    assume "\<not> u < t"
    then have "go_Sub t u \<le> 0" by (simp add: go_Sub_def)
    with pos go_Seconds_nonpos show False by force
  qed
qed

lemma go_Seconds_Sub_le: "go_Seconds (go_Sub t u) \<le> 2 ^ 40"
proof (cases "0 < go_Sub t u")
  case True
  then show ?thesis by (intro go_Seconds_pos(2)) (simp_all add: go_Sub_def)
next
  case False
  then have "go_Seconds (go_Sub t u) \<le> 0" by (intro go_Seconds_nonpos) simp
  then show ?thesis by simp
qed

lemma elapsed_or_1_bounds: "0 < elapsed_or_1 now start" "elapsed_or_1 now start \<le> 2 ^ 40"
  using go_Seconds_Sub_le [of now start] by (simp_all add: elapsed_or_1_def Let_def)

lemma rate_sign:
  fixes t :: rat
  assumes "0 < t" "t \<le> 2 ^ 40" "\<bar>n\<bar> < 2 ^ 53"
  shows "0 < f64 (f64 (of_int n) / t) \<longleftrightarrow> 0 < n"
proof -
  have "f64 (of_int n) = of_int n" using assms(3) by (rule f64_of_int)
  moreover have "of_int n / t = 0 \<or> 1 \<le> \<bar>of_int n / t\<bar> * 2 ^ 64"
  proof (cases "n = 0")
    case False
    then have "1 \<le> \<bar>of_int n :: rat\<bar>" by (simp flip: of_int_abs)
    then have "1 \<le> \<bar>of_int n\<bar> * 2 ^ 64 / (2 ^ 40 :: rat)" by simp
    also have "\<dots> \<le> \<bar>of_int n\<bar> * 2 ^ 64 / t" using assms by (intro divide_left_mono) simp_all
    finally show ?thesis using assms(1) by (simp add: abs_divide)
  qed simp
  ultimately show ?thesis using f64_sign(1) assms(1) by (simp add: zero_less_divide_iff)
qed

text \<open>Below \<open>2 ^ 63\<close> the wrapped difference is the difference.\<close>

lemma net_delta:
  assumes "m < 2 ^ 63" "n < 2 ^ 63"
  shows "sint (of_nat m - of_nat n :: u64) = int m - int n"
proof -
  have eq: "(of_nat m - of_nat n :: u64) = of_int (int m - int n)" by simp
  have "signed_take_bit 63 (int m - int n) = int m - int n"
    using assms by (intro signed_take_bit_int_eq_self) simp_all
  then show ?thesis unfolding eq sint_sbintrunc' by simp
qed

lemma net_delta_small: "m < 2 ^ 53 \<Longrightarrow> n < 2 ^ 53 \<Longrightarrow> \<bar>int m - int n\<bar> < 2 ^ 53"
  by simp

section \<open>Estimated times\<close>

definition maxMeaningfulETA :: int where "maxMeaningfulETA = 7 * 24 * 3600 * 1000000000"

definition etaDuration :: "rat \<Rightarrow> int option" where
  "etaDuration etaSecs =
     (if etaSecs \<le> 0 then None
      else let eta = float_to_int64 (f64 (etaSecs * 1000000000))
           in if eta \<le> 0 \<or> maxMeaningfulETA < eta then None else Some eta)"

lemma etaDuration_bounds:
  "etaDuration x = Some eta \<Longrightarrow>
     0 < eta \<and> eta \<le> maxMeaningfulETA \<and> eta = \<lfloor>f64 (x * 1000000000)\<rfloor> \<and> 0 < x"
proof -
  assume eta: "etaDuration x = Some eta"
  then have x: "0 < x" and pos: "0 < eta" "eta \<le> maxMeaningfulETA"
    and e: "eta = float_to_int64 (f64 (x * 1000000000))"
    by (auto simp: etaDuration_def Let_def split: if_splits)
  have "\<not> f64 (x * 1000000000) < 0"
  proof
    assume "f64 (x * 1000000000) < 0"
    then have "\<lceil>f64 (x * 1000000000)\<rceil> \<le> 0" by linarith
    with e pos show False by (auto simp: float_to_int64_def Let_def split: if_splits)
  qed
  with e pos have "eta = \<lfloor>f64 (x * 1000000000)\<rfloor>"
    by (auto simp: float_to_int64_def Let_def split: if_splits)
  with x pos show ?thesis by simp
qed

end
