(* ===== verification/FdCollector.thy ===== *)
theory FdCollector
  imports CollectorCore GoTime
begin

text \<open>
  \<open>internal/collector/fd.go\<close>: descriptors opened and closed, over all processes and per (pid,
  command), and the growth rates a leak shows in. Instants are read by the caller and passed in.
  A snapshot is taken at one instant here; the code copies the keys under its mutex and reads the
  aggregates behind them after releasing it.
\<close>

type_synonym fdKey = "u32 \<times> bytes"

record fdEntry =
  fd_opens :: u64
  fd_closes :: u64
  fd_firstSeen :: int

record FDCollector =
  fdc_keys :: "(fdKey, fdEntry) lru"
  fdc_totalOpens :: u64
  fdc_totalCloses :: u64
  fdc_startTime :: int

definition DefaultFDKeyCap :: int where "DefaultFDKeyCap = 4096"
definition MaxFDEntriesPerSnapshot :: nat where "MaxFDEntriesPerSnapshot = 16"

definition NewFDCollectorWithCap :: "int \<Rightarrow> int \<Rightarrow> FDCollector" where
  "NewFDCollectorWithCap start keyCap =
     \<lparr>fdc_keys = lru_New keyCap, fdc_totalOpens = 0, fdc_totalCloses = 0, fdc_startTime = start\<rparr>"

text \<open>Operation 1 is an open, 2 a close.\<close>

definition fd_record :: "FDCollector \<Rightarrow> int \<times> FDEvent \<Rightarrow> FDCollector" where
  "fd_record c ne =
     (let (now, event) = ne;
          key = (FE_PID event, nullTermString (FE_Comm event));
          (entry, keys) = lru_Get key (fdc_keys c);
          keys = (if entry = None
                  then lru_Put key \<lparr>fd_opens = 0, fd_closes = 0, fd_firstSeen = now\<rparr> keys
                  else keys);
          c = c\<lparr>fdc_keys := keys\<rparr>
      in if FE_Op event = 1 then
           c\<lparr>fdc_keys := lru_modify key (\<lambda>entry. entry\<lparr>fd_opens := fd_opens entry + 1\<rparr>) keys,
             fdc_totalOpens := fdc_totalOpens c + 1\<rparr>
         else if FE_Op event = 2 then
           c\<lparr>fdc_keys := lru_modify key (\<lambda>entry. entry\<lparr>fd_closes := fd_closes entry + 1\<rparr>) keys,
             fdc_totalCloses := fdc_totalCloses c + 1\<rparr>
         else c)"

text \<open>Differences are subtractions of the 64 bits, read as signed numbers.\<close>

record FDEntry =
  Fd_PID :: u32
  Fd_Comm :: bytes
  Fd_Opens :: u64
  Fd_Closes :: u64
  Fd_NetDelta :: u64
  Fd_GrowthRate :: rat

record FDSnapshot =
  Fd_Entries :: "FDEntry list"
  Fd_TotalOpens :: u64
  Fd_TotalCloses :: u64
  Fd_TotalDelta :: u64
  Fd_TotalRate :: rat

definition fd_less :: "FDEntry \<Rightarrow> FDEntry \<Rightarrow> bool" where
  "fd_less a b \<longleftrightarrow> sint (Fd_NetDelta b) < sint (Fd_NetDelta a)"

definition fd_entry :: "int \<Rightarrow> fdKey \<times> fdEntry \<Rightarrow> FDEntry" where
  "fd_entry now kv =
     (let (k, v) = kv; entryDelta = fd_opens v - fd_closes v
      in \<lparr>Fd_PID = fst k, Fd_Comm = snd k, Fd_Opens = fd_opens v, Fd_Closes = fd_closes v,
          Fd_NetDelta = entryDelta,
          Fd_GrowthRate = f64 (f64 (of_int (sint entryDelta)) / elapsed_or_1 now (fd_firstSeen v))\<rparr>)"

definition fd_Snapshot ::
  "((FDEntry \<Rightarrow> FDEntry \<Rightarrow> bool) \<Rightarrow> FDEntry list \<Rightarrow> FDEntry list) \<Rightarrow> int \<Rightarrow> FDCollector \<Rightarrow> FDSnapshot" where
  "fd_Snapshot sort_Slice now c =
     (let netDelta = fdc_totalOpens c - fdc_totalCloses c;
          growthRate = f64 (f64 (of_int (sint netDelta)) / elapsed_or_1 now (fdc_startTime c));
          entries = sort_Slice fd_less (map (fd_entry now) (lru_Range (fdc_keys c)));
          entries = (if MaxFDEntriesPerSnapshot < length entries
                     then take MaxFDEntriesPerSnapshot entries else entries)
      in \<lparr>Fd_Entries = entries, Fd_TotalOpens = fdc_totalOpens c,
          Fd_TotalCloses = fdc_totalCloses c, Fd_TotalDelta = netDelta,
          Fd_TotalRate = growthRate\<rparr>)"

section \<open>What the collector holds\<close>

definition fd_collect :: "int \<Rightarrow> int \<Rightarrow> (int \<times> FDEvent) list \<Rightarrow> FDCollector" where
  "fd_collect start keyCap es = foldl fd_record (NewFDCollectorWithCap start keyCap) es"

definition fd_key :: "int \<times> FDEvent \<Rightarrow> fdKey" where
  "fd_key ne = (FE_PID (snd ne), nullTermString (FE_Comm (snd ne)))"

definition fd_new :: "int \<times> FDEvent \<Rightarrow> fdEntry" where
  "fd_new ne = \<lparr>fd_opens = 0, fd_closes = 0, fd_firstSeen = fst ne\<rparr>"

definition fd_op_is :: "u8 \<Rightarrow> int \<times> FDEvent \<Rightarrow> bool" where
  "fd_op_is op ne \<longleftrightarrow> FE_Op (snd ne) = op"

definition fd_upd :: "int \<times> FDEvent \<Rightarrow> fdEntry \<Rightarrow> fdEntry" where
  "fd_upd ne entry = entry
     \<lparr>fd_opens := fd_opens entry + (if fd_op_is 1 ne then 1 else 0),
      fd_closes := fd_closes entry + (if fd_op_is 2 ne then 1 else 0)\<rparr>"

definition fd_count :: "u8 \<Rightarrow> (int \<times> FDEvent) list \<Rightarrow> nat" where
  "fd_count op es = length (filter (fd_op_is op) es)"

definition fd_summary :: "(int \<times> FDEvent) list \<Rightarrow> fdEntry" where
  "fd_summary us = \<lparr>fd_opens = of_nat (fd_count 1 us), fd_closes = of_nat (fd_count 2 us),
     fd_firstSeen = fst (hd us)\<rparr>"

lemma fd_count_snoc: "fd_count op (es @ [e]) = fd_count op es + (if fd_op_is op e then 1 else 0)"
  by (simp add: fd_count_def)

lemma fd_count_le: "fd_count op es \<le> length es" by (simp add: fd_count_def)

lemma fd_aggregate:
  "us \<noteq> [] \<Longrightarrow> aggregate (map (\<lambda>e. (fd_new e, fd_upd e)) us) = fd_summary us"
proof (induction us rule: rev_nonempty_induct)
  case (single u)
  show ?case by (simp add: aggregate_def fd_upd_def fd_new_def fd_summary_def fd_count_def)
next
  case (snoc u us)
  then show ?case by (simp add: aggregate_snoc fd_upd_def fd_summary_def fd_count_snoc)
qed

text \<open>An event with another operation touches its entry without changing it.\<close>

lemma lru_modify_id: "lru_inv cap l \<Longrightarrow> lru_modify k (\<lambda>v. v) l = l"
  using lru_invD(8) [of cap l k]
  by (auto simp: lru_modify_def fun_upd_idem prod_eq_iff split: option.splits)

lemma fd_upd_cases:
  "FE_Op (snd ne) = 1 \<Longrightarrow> fd_upd ne = (\<lambda>entry. entry\<lparr>fd_opens := fd_opens entry + 1\<rparr>)"
  "FE_Op (snd ne) = 2 \<Longrightarrow> fd_upd ne = (\<lambda>entry. entry\<lparr>fd_closes := fd_closes entry + 1\<rparr>)"
  "FE_Op (snd ne) \<noteq> 1 \<Longrightarrow> FE_Op (snd ne) \<noteq> 2 \<Longrightarrow> fd_upd ne = (\<lambda>entry. entry)"
  by (simp_all add: fd_upd_def fd_op_is_def fun_eq_iff)

lemma fd_record_eq:
  assumes inv: "lru_inv (Suc n) (fdc_keys c)"
  shows "fd_record c ne =
     \<lparr>fdc_keys = lru_record (fd_key ne) (fd_new ne) (fd_upd ne) (fdc_keys c),
      fdc_totalOpens = fdc_totalOpens c + (if fd_op_is 1 ne then 1 else 0),
      fdc_totalCloses = fdc_totalCloses c + (if fd_op_is 2 ne then 1 else 0),
      fdc_startTime = fdc_startTime c\<rparr>"
proof -
  obtain now event where ne: "ne = (now, event)" by (cases ne)
  obtain entry keys where get: "lru_Get (fd_key ne) (fdc_keys c) = (entry, keys)" by fastforce
  define ks where "ks = (if entry = None then lru_Put (fd_key ne) (fd_new ne) keys else keys)"
  have "lru_inv (Suc n) keys" using lru.get_inv [OF inv, of "fd_key ne"] get by simp
  then have ks: "lru_inv (Suc n) ks" by (simp add: ks_def lru.put_inv)
  have rec: "lru_record (fd_key ne) (fd_new ne) (fd_upd ne) (fdc_keys c) =
      lru_modify (fd_key ne) (fd_upd ne) ks"
    by (simp add: keyed_record_def get ks_def split: option.splits)
  have key: "(FE_PID event, nullTermString (FE_Comm event)) = fd_key ne"
    and new: "\<lparr>fd_opens = 0, fd_closes = 0, fd_firstSeen = now\<rparr> = fd_new ne"
    by (simp_all add: ne fd_key_def fd_new_def)
  consider "FE_Op event = 1" | "FE_Op event = 2" | "FE_Op event \<noteq> 1" "FE_Op event \<noteq> 2" by blast
  then show ?thesis
  proof cases
    case 1
    then show ?thesis unfolding rec using fd_upd_cases(1) [of ne] get
      by (simp add: fd_record_def ne key new fd_op_is_def ks_def Let_def)
  next
    case 2
    then show ?thesis unfolding rec using fd_upd_cases(2) [of ne] get
      by (simp add: fd_record_def ne key new fd_op_is_def ks_def Let_def)
  next
    case 3
    then have "fd_record c ne = c\<lparr>fdc_keys := ks\<rparr>"
      using get by (simp add: fd_record_def ne key new ks_def Let_def)
    moreover have "lru_modify (fd_key ne) (fd_upd ne) ks = ks"
      using 3 fd_upd_cases(3) [of ne] lru_modify_id [OF ks] by (simp add: ne)
    ultimately show ?thesis unfolding rec using 3 by (simp add: fd_op_is_def ne)
  qed
qed

lemma fd_collect_eq:
  "fd_collect start keyCap es =
     \<lparr>fdc_keys = lru_agg keyCap (keyed_updates fd_key fd_new fd_upd es),
      fdc_totalOpens = of_nat (fd_count 1 es), fdc_totalCloses = of_nat (fd_count 2 es),
      fdc_startTime = start\<rparr>"
proof (induction es rule: rev_induct)
  case Nil
  then show ?case
    by (simp add: fd_collect_def NewFDCollectorWithCap_def lru_agg_def keyed_updates_def fd_count_def)
next
  case (snoc e es)
  obtain n where "nat (max 1 keyCap) = Suc n" by (cases "nat (max 1 keyCap)") auto
  then have "lru_inv (Suc n) (fdc_keys (fd_collect start keyCap es))"
    using lru_agg_run [of keyCap "keyed_updates fd_key fd_new fd_upd es"] snoc.IH by simp
  from fd_record_eq [OF this, of e] show ?case
    by (simp add: fd_collect_def [symmetric] snoc.IH keyed_updates_snoc lru_agg_snoc fd_count_snoc)
      (simp add: fd_collect_def snoc.IH [unfolded fd_collect_def])
qed

lemma strict_weak_fd_less: "strict_weak fd_less"
  unfolding strict_weak_def fd_less_def by auto

section \<open>Properties\<close>

text \<open>A leak shows in the totals. While fewer than \<open>2 ^ 53\<close> events were consumed, the snapshot
  totals are the numbers of opens and closes, over all processes and whatever was evicted; the
  net delta is their difference as a signed number; and the growth rate is positive exactly when
  more descriptors were opened than closed, for any clock.\<close>

theorem fd_snapshot_totals:
  assumes "length es < 2 ^ 53"
    and "s = fd_Snapshot sort_Slice now (fd_collect start keyCap es)"
  shows "unat (Fd_TotalOpens s) = fd_count 1 es \<and> unat (Fd_TotalCloses s) = fd_count 2 es \<and>
    sint (Fd_TotalDelta s) = int (fd_count 1 es) - int (fd_count 2 es) \<and>
    (0 < Fd_TotalRate s \<longleftrightarrow> fd_count 2 es < fd_count 1 es)"
proof -
  have "fd_count 1 es \<le> length es" "fd_count 2 es \<le> length es" by (rule fd_count_le)+
  then have cnt: "fd_count 1 es < 9007199254740992" "fd_count 2 es < 9007199254740992"
    using assms(1) by simp_all
  let ?d = "of_nat (fd_count 1 es) - of_nat (fd_count 2 es) :: u64"
  have delta: "sint ?d = int (fd_count 1 es) - int (fd_count 2 es)"
    using cnt by (intro net_delta) simp_all
  then have "\<bar>sint ?d\<bar> < 2 ^ 53" using cnt by simp
  from rate_sign [OF elapsed_or_1_bounds this, of now start]
  have "0 < Fd_TotalRate s \<longleftrightarrow> 0 < sint ?d"
    by (simp add: assms(2) fd_Snapshot_def fd_collect_eq Let_def)
  then show ?thesis using cnt delta
    by (simp add: assms(2) fd_Snapshot_def fd_collect_eq Let_def unsigned_of_nat take_bit_nat_eq_self)
qed

definition demo_fd_event :: "u8 \<Rightarrow> FDEvent" where
  "demo_fd_event op = \<lparr>FE_TimestampNs = 0, FE_CgroupID = 0, FE_PID = 7, FE_FD = 3, FE_Op = op,
     FE_Pad0 = [], FE_Comm = [120, 0]\<rparr>"

theorem fd_snapshot_totals_witness:
  "sint (Fd_TotalDelta (fd_Snapshot isort_by 5 (fd_collect 0 4096
     [(1, demo_fd_event 1), (2, demo_fd_event 1), (3, demo_fd_event 2)]))) = 1"
  using fd_snapshot_totals [OF _ refl, of "[(1, demo_fd_event 1), (2, demo_fd_event 1),
      (3, demo_fd_event 2)]" isort_by 5 0 4096]
  by (simp add: fd_count_def fd_op_is_def demo_fd_event_def)

text \<open>The likely leakers are named. The entries shown are at most 16, ranked by falling net
  delta, none left out has a larger net delta than one shown, and each describes the last events
  of its (pid, command) from some point on.\<close>

theorem fd_snapshot_ranked:
  assumes "sort_slice_ok sort_Slice"
    and "all = map (fd_entry now) (lru_Range (fdc_keys (fd_collect start keyCap es)))"
    and "shown = Fd_Entries (fd_Snapshot sort_Slice now (fd_collect start keyCap es))"
  shows "sorted_wrt (\<lambda>x y. \<not> fd_less y x) shown \<and> length shown = min 16 (length all) \<and>
    mset shown \<subseteq># mset all \<and>
    (\<forall>x \<in># mset all - mset shown. \<forall>y \<in> set shown. \<not> fd_less x y) \<and>
    (\<forall>x \<in> set shown. \<exists>k n. n < length (filter (\<lambda>e. fd_key e = k) es) \<and>
       x = fd_entry now (k, fd_summary (drop n (filter (\<lambda>e. fd_key e = k) es))))"
proof -
  have "length (sort_Slice fd_less all) = length all"
    using assms(1) by (metis sort_slice_ok_def size_mset)
  then have shown: "shown = take 16 (sort_Slice fd_less all)"
    by (auto simp: assms(2,3) fd_Snapshot_def MaxFDEntriesPerSnapshot_def Let_def)
  note top = top_of_sorted [OF assms(1) strict_weak_fd_less, of 16 all]
  have "\<exists>k n. n < length (filter (\<lambda>e. fd_key e = k) es) \<and>
      x = fd_entry now (k, fd_summary (drop n (filter (\<lambda>e. fd_key e = k) es)))"
    if "x \<in> set shown" for x
  proof -
    have "x \<in> set all" using that top shown by (metis mset_subset_eqD set_mset_mset)
    then obtain k v where x: "x = fd_entry now (k, v)"
      and "(k, v) \<in> set (lru_Range (lru_agg keyCap (keyed_updates fd_key fd_new fd_upd es)))"
      by (auto simp: assms(2) fd_collect_eq)
    from keyed_suffix_drop [OF fd_aggregate this(2)] x show ?thesis by blast
  qed
  with top shown show ?thesis by simp
qed

theorem fd_snapshot_ranked_witness:
  "length (Fd_Entries (fd_Snapshot isort_by 5 (fd_collect 0 4096
     [(1, demo_fd_event 1), (2, demo_fd_event 1)]))) \<le> 16"
  using fd_snapshot_ranked [OF sort_slice_isort refl refl, of 5 0 4096
      "[(1, demo_fd_event 1), (2, demo_fd_event 1)]"] by simp

end
