(* ===== verification/TcpCollector.thy ===== *)
theory TcpCollector
  imports CollectorCore GoTime GoSyscalls
begin

text \<open>
  \<open>internal/collector/tcp.go\<close>: round-trip times and retransmissions, over all connections and per
  connection and command.
  A snapshot is taken at one instant here; the code copies the keys under its mutex and reads the
  aggregates behind them after releasing it.
\<close>

text \<open>\<open>String\<close> of a four-byte \<open>net.IP\<close>.\<close>

definition ip_string :: "bytes \<Rightarrow> string" where
  "ip_string ip =
     decimal (unat (ip ! 0)) @ ''.'' @ decimal (unat (ip ! 1)) @ ''.'' @
     decimal (unat (ip ! 2)) @ ''.'' @ decimal (unat (ip ! 3))"

record tcpConnKey =
  tk_saddr :: u32
  tk_daddr :: u32
  tk_sport :: u16
  tk_dport :: u16
  tk_comm :: bytes

record tcpConnAgg =
  ta_srcAddr :: string
  ta_dstAddr :: string
  ta_sport :: u16
  ta_dport :: u16
  ta_comm :: bytes
  ta_rttHist :: histogram
  ta_retransmits :: u32

record TCPCollector =
  tc_conns :: "(tcpConnKey, tcpConnAgg) lru"
  tc_rttHist :: histogram
  tc_totalRetransmits :: u64
  tc_totalEvents :: u64

definition DefaultTCPConnCap :: int where "DefaultTCPConnCap = 8192"
definition MaxTCPConnEntriesPerSnapshot :: nat where "MaxTCPConnEntriesPerSnapshot = 32"

definition NewTCPCollectorWithCap :: "int \<Rightarrow> TCPCollector" where
  "NewTCPCollectorWithCap connCap =
     \<lparr>tc_conns = lru_New connCap, tc_rttHist = hist_New, tc_totalRetransmits = 0,
      tc_totalEvents = 0\<rparr>"

definition tcp_key :: "TCPEvent \<Rightarrow> tcpConnKey" where
  "tcp_key event = \<lparr>tk_saddr = TE_SAddr event, tk_daddr = TE_DAddr event,
     tk_sport = TE_SPort event, tk_dport = TE_DPort event,
     tk_comm = nullTermString (TE_Comm event)\<rparr>"

definition tcp_new :: "TCPEvent \<Rightarrow> tcpConnAgg" where
  "tcp_new event = \<lparr>ta_srcAddr = ip_string (SrcAddr event), ta_dstAddr = ip_string (DstAddr event),
     ta_sport = TE_SPort event, ta_dport = TE_DPort event,
     ta_comm = nullTermString (TE_Comm event), ta_rttHist = hist_New, ta_retransmits = 0\<rparr>"

definition tcp_rttNs :: "TCPEvent \<Rightarrow> u64" where
  "tcp_rttNs event = ucast (TE_RTTUs event) * 1000"

text \<open>Event type 3 is a retransmission. The entry of the connection is updated in place.\<close>

definition tcp_update :: "TCPEvent \<Rightarrow> tcpConnAgg \<Rightarrow> tcpConnAgg" where
  "tcp_update event agg =
     (let agg = (if 0 < TE_RTTUs event
                 then agg\<lparr>ta_rttHist := hist_Record (tcp_rttNs event) (ta_rttHist agg)\<rparr> else agg)
      in if TE_EventType event = 3 then agg\<lparr>ta_retransmits := ta_retransmits agg + 1\<rparr> else agg)"

definition tcp_record :: "TCPCollector \<Rightarrow> TCPEvent \<Rightarrow> TCPCollector" where
  "tcp_record c event =
     (let key = tcp_key event;
          c = c\<lparr>tc_totalEvents := tc_totalEvents c + 1\<rparr>;
          (agg, conns) = lru_Get key (tc_conns c);
          conns = (if agg = None then lru_Put key (tcp_new event) conns else conns);
          c = c\<lparr>tc_conns := lru_modify key (tcp_update event) conns\<rparr>;
          c = (if 0 < TE_RTTUs event
               then c\<lparr>tc_rttHist := hist_Record (tcp_rttNs event) (tc_rttHist c)\<rparr> else c)
      in if TE_EventType event = 3
         then c\<lparr>tc_totalRetransmits := tc_totalRetransmits c + 1\<rparr> else c)"

record TCPConnectionEntry =
  Tc_SrcAddr :: string
  Tc_DstAddr :: string
  Tc_SrcPort :: u16
  Tc_DstPort :: u16
  Tc_Comm :: bytes
  Tc_RTT :: u64
  Tc_Retransmits :: u32

record TCPSnapshot =
  Tc_ActiveConnections :: int
  Tc_TotalRetransmits :: u64
  Tc_RetransmitRate :: rat
  Tc_RTTs :: Percentiles
  Tc_TopRetransmitters :: "TCPConnectionEntry list"

definition tcp_less :: "tcpConnKey \<times> tcpConnAgg \<Rightarrow> tcpConnKey \<times> tcpConnAgg \<Rightarrow> bool" where
  "tcp_less a b =
     (if ta_retransmits (snd a) \<noteq> ta_retransmits (snd b)
      then ta_retransmits (snd b) < ta_retransmits (snd a)
      else hist_Percentile 99 (ta_rttHist (snd b)) < hist_Percentile 99 (ta_rttHist (snd a)))"

definition tcp_entry :: "tcpConnKey \<times> tcpConnAgg \<Rightarrow> TCPConnectionEntry" where
  "tcp_entry e =
     \<lparr>Tc_SrcAddr = ta_srcAddr (snd e), Tc_DstAddr = ta_dstAddr (snd e),
      Tc_SrcPort = ta_sport (snd e), Tc_DstPort = ta_dport (snd e), Tc_Comm = ta_comm (snd e),
      Tc_RTT = hist_Percentile 99 (ta_rttHist (snd e)), Tc_Retransmits = ta_retransmits (snd e)\<rparr>"

definition tcp_Snapshot ::
  "((tcpConnKey \<times> tcpConnAgg \<Rightarrow> tcpConnKey \<times> tcpConnAgg \<Rightarrow> bool) \<Rightarrow>
    (tcpConnKey \<times> tcpConnAgg) list \<Rightarrow> (tcpConnKey \<times> tcpConnAgg) list) \<Rightarrow>
   TCPCollector \<Rightarrow> TCPSnapshot" where
  "tcp_Snapshot sort_Slice c =
     (let rttSnap = hist_Snapshot (tc_rttHist c);
          connCount = int (length (lru_list (tc_conns c)));
          all = sort_Slice tcp_less (lru_Range (tc_conns c));
          limit = (if length all < MaxTCPConnEntriesPerSnapshot then length all
                   else MaxTCPConnEntriesPerSnapshot);
          rate = (if 0 < tc_totalEvents c
                  then pct_of (unat (tc_totalRetransmits c)) (unat (tc_totalEvents c))
                  else 0)
      in \<lparr>Tc_ActiveConnections = connCount, Tc_TotalRetransmits = tc_totalRetransmits c,
          Tc_RetransmitRate = rate,
          Tc_RTTs = \<lparr>P50 = hist_Percentile 50 rttSnap, P95 = hist_Percentile 95 rttSnap,
                     P99 = hist_Percentile 99 rttSnap, PMax = hg_maxV rttSnap\<rparr>,
          Tc_TopRetransmitters = map tcp_entry (take limit all)\<rparr>)"

section \<open>What the collector holds\<close>

definition tcp_collect :: "int \<Rightarrow> TCPEvent list \<Rightarrow> TCPCollector" where
  "tcp_collect connCap es = foldl tcp_record (NewTCPCollectorWithCap connCap) es"

definition is_retransmit :: "TCPEvent \<Rightarrow> bool" where
  "is_retransmit e \<longleftrightarrow> TE_EventType e = 3"

definition has_rtt :: "TCPEvent \<Rightarrow> bool" where
  "has_rtt e \<longleftrightarrow> 0 < TE_RTTUs e"

definition tcp_summary :: "TCPEvent list \<Rightarrow> tcpConnAgg" where
  "tcp_summary us = (tcp_new (hd us))
     \<lparr>ta_rttHist := hist_of (map tcp_rttNs (filter has_rtt us)),
      ta_retransmits := of_nat (length (filter is_retransmit us))\<rparr>"

lemma tcp_aggregate:
  "us \<noteq> [] \<Longrightarrow> aggregate (map (\<lambda>e. (tcp_new e, tcp_update e)) us) = tcp_summary us"
proof (induction us rule: rev_nonempty_induct)
  case (single u)
  show ?case
    by (simp add: aggregate_def tcp_update_def tcp_summary_def hist_of_def has_rtt_def
        is_retransmit_def Let_def tcp_new_def)
next
  case (snoc u us)
  then show ?case
    by (simp add: aggregate_snoc tcp_update_def tcp_summary_def hist_of_snoc has_rtt_def
        is_retransmit_def Let_def)
qed

lemma tcp_record_eq:
  "tcp_record c e =
     \<lparr>tc_conns = lru_record (tcp_key e) (tcp_new e) (tcp_update e) (tc_conns c),
      tc_rttHist = (if has_rtt e then hist_Record (tcp_rttNs e) (tc_rttHist c) else tc_rttHist c),
      tc_totalRetransmits = tc_totalRetransmits c + (if is_retransmit e then 1 else 0),
      tc_totalEvents = tc_totalEvents c + 1\<rparr>"
  by (simp add: tcp_record_def keyed_record_def Let_def has_rtt_def is_retransmit_def
      split: prod.splits option.splits)

lemma tcp_collect_eq:
  "tcp_collect connCap es =
     \<lparr>tc_conns = lru_agg connCap (keyed_updates tcp_key tcp_new tcp_update es),
      tc_rttHist = hist_of (map tcp_rttNs (filter has_rtt es)),
      tc_totalRetransmits = of_nat (length (filter is_retransmit es)),
      tc_totalEvents = of_nat (length es)\<rparr>"
proof (induction es rule: rev_induct)
  case Nil
  then show ?case
    by (simp add: tcp_collect_def NewTCPCollectorWithCap_def lru_agg_def keyed_updates_def hist_of_def)
next
  case (snoc e es)
  then show ?case
    by (simp add: tcp_collect_def tcp_record_eq keyed_updates_snoc lru_agg_snoc hist_of_snoc)
qed

lemma strict_weak_tcp_less: "strict_weak tcp_less"
  unfolding strict_weak_def tcp_less_def by (auto split: if_splits)

lemma count_u64:
  assumes "m \<le> n" "n < 2 ^ 53"
  shows "unat (of_nat m :: u64) = m" "0 < (of_nat m :: u64) \<longleftrightarrow> 0 < m"
proof -
  have "m < 2 ^ 53" using assms by (rule le_less_trans)
  then have "m < 18446744073709551616" by simp
  then show "unat (of_nat m :: u64) = m" by (simp add: unsigned_of_nat take_bit_nat_eq_self)
  then show "0 < (of_nat m :: u64) \<longleftrightarrow> 0 < m" by (auto simp: word_less_nat_alt)
qed

section \<open>Properties\<close>

text \<open>Retransmissions are never lost. While fewer than \<open>2 ^ 53\<close> events were consumed, the
  snapshot's total is the number of retransmission events, over all connections and whatever was
  evicted; the rate lies between 0 and 100 and is positive exactly when there was one; the RTT
  distribution is that of the events that carry a round-trip time, scaled to nanoseconds; and at
  most the capacity of connections is active.\<close>

theorem tcp_snapshot_totals:
  assumes "length es < 2 ^ 53" and "s = tcp_Snapshot sort_Slice (tcp_collect connCap es)"
  shows "unat (Tc_TotalRetransmits s) = length (filter is_retransmit es) \<and>
    0 \<le> Tc_RetransmitRate s \<and> Tc_RetransmitRate s \<le> 100 \<and>
    (0 < Tc_RetransmitRate s \<longleftrightarrow> filter is_retransmit es \<noteq> []) \<and>
    Tc_RTTs s = histogramPercentiles (hist_of (map tcp_rttNs (filter has_rtt es))) \<and>
    Tc_ActiveConnections s \<le> max 1 connCap"
proof -
  let ?m = "length (filter is_retransmit es)"
  have un: "unat (of_nat ?m :: u64) = ?m" "0 < (of_nat (length es) :: u64) \<longleftrightarrow> es \<noteq> []"
    "unat (of_nat (length es) :: u64) = length es"
    using count_u64 [OF length_filter_le assms(1), of is_retransmit] count_u64 [OF order_refl assms(1)]
    by simp_all
  then have rate: "Tc_RetransmitRate s = (if es = [] then 0 else pct_of ?m (length es))"
    by (simp add: assms(2) tcp_Snapshot_def tcp_collect_eq Let_def)
  have act: "length (lru_list (lru_agg connCap (keyed_updates tcp_key tcp_new tcp_update es)))
      \<le> nat (max 1 connCap)"
    using lru_agg_bounded [of connCap "keyed_updates tcp_key tcp_new tcp_update es"]
    by (simp add: lru_Range_def)
  have "Tc_RTTs s = histogramPercentiles (hist_of (map tcp_rttNs (filter has_rtt es)))"
    "unat (Tc_TotalRetransmits s) = ?m" "Tc_ActiveConnections s \<le> max 1 connCap"
    using act un(1) by (simp_all add: assms(2) tcp_Snapshot_def tcp_collect_eq hist_Snapshot_of
        histogramPercentiles_def Let_def)
  moreover have "0 \<le> Tc_RetransmitRate s \<and> Tc_RetransmitRate s \<le> 100 \<and>
    (0 < Tc_RetransmitRate s \<longleftrightarrow> filter is_retransmit es \<noteq> [])"
  proof (cases "es = []")
    case False
    then have "0 < length es" by simp
    note pct_of_bounds [OF length_filter_le this assms(1), of is_retransmit]
    with False show ?thesis unfolding rate by (simp add: length_greater_0_conv)
  qed (simp add: rate)
  ultimately show ?thesis by blast
qed

definition demo_tcp_event :: "u8 \<Rightarrow> TCPEvent" where
  "demo_tcp_event ty = \<lparr>TE_TimestampNs = 0, TE_CgroupID = 0, TE_PID = 9, TE_SAddr = 0x0100000A,
     TE_DAddr = 0x0200000A, TE_SPort = 443, TE_DPort = 80, TE_Family = 2, TE_EventType = ty,
     TE_State = 1, TE_RTTUs = 0, TE_Retransmits = 0, TE_Comm = [99, 0], TE_Pad = []\<rparr>"

theorem tcp_snapshot_totals_witness:
  "unat (Tc_TotalRetransmits (tcp_Snapshot isort_by (tcp_collect 8192
     [demo_tcp_event 1, demo_tcp_event 3]))) = 1"
  using tcp_snapshot_totals [OF _ refl, of "[demo_tcp_event 1, demo_tcp_event 3]" isort_by 8192]
  by (simp add: demo_tcp_event_def is_retransmit_def)

end
