(* ===== verification/MemoryCollector.thy ===== *)
theory MemoryCollector
  imports GoTime GoSyscalls
begin

text \<open>
  \<open>internal/collector/memory.go\<close>: system memory from \<open>/proc/meminfo\<close>. The text is given as its
  lines, the instant of a poll is passed in.
\<close>

section \<open>Parsing\<close>

definition is_space :: "char \<Rightarrow> bool" where
  "is_space c \<longleftrightarrow> (of_char c :: nat) \<in> {9, 10, 11, 12, 13, 32}"

definition TrimSpace :: "string \<Rightarrow> string" where
  "TrimSpace s = rev (dropWhile is_space (rev (dropWhile is_space s)))"

definition TrimSuffix :: "string \<Rightarrow> string \<Rightarrow> string" where
  "TrimSuffix suf s =
     (if length suf \<le> length s \<and> drop (length s - length suf) s = suf
      then take (length s - length suf) s else s)"

definition is_digit :: "char \<Rightarrow> bool" where
  "is_digit c \<longleftrightarrow> 48 \<le> (of_char c :: nat) \<and> (of_char c :: nat) \<le> 57"

definition digits_value :: "string \<Rightarrow> nat" where
  "digits_value s = foldl (\<lambda>n c. 10 * n + (of_char c - 48)) 0 s"

text \<open>\<open>strconv.ParseUint(s, 10, 64)\<close>: at least one decimal digit, nothing else, and a value that
  fits.\<close>

definition ParseUint :: "string \<Rightarrow> u64 option" where
  "ParseUint s =
     (if s \<noteq> [] \<and> list_all is_digit s \<and> digits_value s < 2 ^ 64
      then Some (of_nat (digits_value s)) else None)"

definition parseMeminfoLine :: "string \<Rightarrow> (string \<times> u64) option" where
  "parseMeminfoLine line =
     (if CHR '':'' \<notin> set line then None
      else let key = takeWhile (\<lambda>c. c \<noteq> CHR '':'') line;
               rest = TrimSpace (drop (length key + 1) line);
               rest = TrimSuffix '' kB'' rest
           in map_option (\<lambda>v. (key, v)) (ParseUint (TrimSpace rest)))"

section \<open>Decimal numbers read back\<close>

lemma of_char_digit: "n < 10 \<Longrightarrow> of_char (char_of (48 + n) :: char) = (48 + n :: nat)"
  by (simp add: of_char_of)

lemma decimal_digits: "decimal n \<noteq> [] \<and> list_all is_digit (decimal n)"
proof (induction n rule: decimal.induct)
  case (1 n)
  have "is_digit (char_of (48 + k))" if "k < 10" for k :: nat
    using that by (simp add: is_digit_def of_char_digit)
  then show ?case using 1 by (subst (1 2) decimal.simps) simp
qed

lemma digits_value_snoc: "digits_value (s @ [c]) = 10 * digits_value s + (of_char c - 48)"
  by (simp add: digits_value_def)

lemma digits_value_decimal: "digits_value (decimal n) = n"
proof (induction n rule: decimal.induct)
  case (1 n)
  show ?case
  proof (cases "n < 10")
    case True
    then show ?thesis by (subst decimal.simps) (simp add: digits_value_def of_char_digit)
  next
    case False
    then show ?thesis
      by (subst decimal.simps) (simp add: digits_value_snoc 1 of_char_digit)
  qed
qed

lemma digit_not_space: "is_digit c \<Longrightarrow> \<not> is_space c"
  by (auto simp: is_digit_def is_space_def)

lemma TrimSpace_frame:
  assumes "list_all is_space pre" "list_all is_space post"
    and "s \<noteq> []" "\<not> is_space (hd s)" "\<not> is_space (last s)"
  shows "TrimSpace (pre @ s @ post) = s"
proof -
  have d: "dropWhile is_space (ws @ t) = t" if "list_all is_space ws" "t \<noteq> []" "\<not> is_space (hd t)"
    for ws t
    using that by (induction ws) (auto simp: neq_Nil_conv)
  have "dropWhile is_space (pre @ s @ post) = s @ post" using assms by (intro d) auto
  moreover have "dropWhile is_space (rev post @ rev s) = rev s"
    using assms by (intro d) (simp_all add: hd_rev list_all_iff)
  ultimately show ?thesis by (simp add: TrimSpace_def)
qed

lemma ParseUint_decimal: "n < 2 ^ 64 \<Longrightarrow> ParseUint (decimal n) = Some (of_nat n)"
  using decimal_digits [of n] by (simp add: ParseUint_def digits_value_decimal)

section \<open>The collector\<close>

record MemorySnapshot =
  Mm_TotalBytes :: u64
  Mm_UsedBytes :: u64
  Mm_UsedPct :: rat
  Mm_GrowthRate :: rat
  Mm_AvailableBytes :: u64
  Mm_SwapUsedBytes :: u64
  Mm_SwapTotalBytes :: u64

text \<open>\<open>prev\<close> is the used bytes and the instant of the previous sample; \<open>have\<close> is whether the first
  poll has succeeded, so both fields together are an option.\<close>

record MemoryCollector =
  mm_snap :: MemorySnapshot
  mm_prev :: "(u64 \<times> int) option"

definition NewMemoryCollector :: MemoryCollector where
  "NewMemoryCollector =
     \<lparr>mm_snap = \<lparr>Mm_TotalBytes = 0, Mm_UsedBytes = 0, Mm_UsedPct = 0, Mm_GrowthRate = 0,
        Mm_AvailableBytes = 0, Mm_SwapUsedBytes = 0, Mm_SwapTotalBytes = 0\<rparr>,
      mm_prev = None\<rparr>"

datatype mem_error = OpenMeminfo | ScanMeminfo | NoMemTotal

text \<open>The four variables the scan fills: total, available, swap total and swap free.\<close>

definition meminfo_line ::
  "u64 \<times> u64 \<times> u64 \<times> u64 \<Rightarrow> string \<Rightarrow> u64 \<times> u64 \<times> u64 \<times> u64" where
  "meminfo_line vs line =
     (case vs of (mtotal, available, swapTotal, swapFree) \<Rightarrow>
        (case parseMeminfoLine line of
           None \<Rightarrow> vs
         | Some (key, val) \<Rightarrow>
             if key = ''MemTotal'' then (val * 1024, available, swapTotal, swapFree)
             else if key = ''MemAvailable'' then (mtotal, val * 1024, swapTotal, swapFree)
             else if key = ''SwapTotal'' then (mtotal, available, val * 1024, swapFree)
             else if key = ''SwapFree'' then (mtotal, available, swapTotal, val * 1024)
             else vs))"

text \<open>\<open>file\<close> is the content of \<open>/proc/meminfo\<close> as its lines, \<open>Inl\<close> an error opening or reading
  it.\<close>

definition memory_poll ::
  "int \<Rightarrow> mem_error + string list \<Rightarrow> MemoryCollector \<Rightarrow> mem_error option \<times> MemoryCollector" where
  "memory_poll now file c =
     (case file of
        Inl e \<Rightarrow> (Some e, c)
      | Inr lines \<Rightarrow>
          (let (mtotal, available, swapTotal, swapFree) = foldl meminfo_line (0, 0, 0, 0) lines
           in if mtotal = 0 then (Some NoMemTotal, c)
              else
                (let used = mtotal - available;
                     usedPct = pct_of (unat used) (unat mtotal);
                     growth = (case mm_prev c of
                         None \<Rightarrow> 0
                       | Some (prev_used, prev_at) \<Rightarrow>
                           (let dt = go_Seconds (go_Sub now prev_at)
                            in if 0 < dt then f64 (f64 (of_int (sint (used - prev_used))) / dt)
                               else 0))
                 in (None, c\<lparr>mm_snap := \<lparr>Mm_TotalBytes = mtotal, Mm_UsedBytes = used,
                         Mm_UsedPct = usedPct, Mm_GrowthRate = growth,
                         Mm_AvailableBytes = available, Mm_SwapUsedBytes = swapTotal - swapFree,
                         Mm_SwapTotalBytes = swapTotal\<rparr>,
                       mm_prev := Some (used, now)\<rparr>))))"

definition memory_Snapshot :: "MemoryCollector \<Rightarrow> MemorySnapshot option" where
  "memory_Snapshot c = (if mm_prev c = None then None else Some (mm_snap c))"

section \<open>Lines\<close>

lemma takeWhile_colon: "CHR '':'' \<notin> set key \<Longrightarrow> takeWhile (\<lambda>c. c \<noteq> CHR '':'') (key @ CHR '':'' # r) = key"
  by (induction key) auto

lemma TrimSuffix_app: "TrimSuffix suf (s @ suf) = s"
  by (simp add: TrimSuffix_def)

lemma meminfo_line_built:
  assumes "CHR '':'' \<notin> set key" "list_all is_space blanks" "n < 2 ^ 64"
  shows "parseMeminfoLine (key @ '':'' @ blanks @ decimal n @ '' kB'') = Some (key, of_nat n)"
proof -
  let ?d = "decimal n"
  have d: "?d \<noteq> []" "list_all is_digit ?d" using decimal_digits by blast+
  then have ends: "\<not> is_space (hd ?d)" "\<not> is_space (last ?d)"
    by (simp_all add: digit_not_space list_all_iff)
  have "\<not> is_space CHR ''B''" by (simp add: is_space_def)
  then have trim: "TrimSpace (blanks @ ?d @ '' kB'') = ?d @ '' kB''"
    using TrimSpace_frame [OF assms(2), of "[]" "?d @ '' kB''"] d(1) ends(1) by simp
  have plain: "TrimSpace ?d = ?d" using TrimSpace_frame [of "[]" "[]" ?d] d(1) ends by simp
  show ?thesis
    using takeWhile_colon [OF assms(1), of "blanks @ ?d @ '' kB''"] ParseUint_decimal [OF assms(3)]
    by (simp add: parseMeminfoLine_def Let_def trim plain TrimSuffix_app)
qed

lemma meminfo_line_shape:
  assumes "parseMeminfoLine line = Some (key, v)"
  shows "\<exists>rest. line = key @ '':'' @ rest \<and> CHR '':'' \<notin> set key \<and>
    ParseUint (TrimSpace (TrimSuffix '' kB'' (TrimSpace rest))) = Some v"
proof -
  have "CHR '':'' \<in> set line" using assms by (auto simp: parseMeminfoLine_def split: if_splits)
  then obtain k r where line: "line = k @ CHR '':'' # r" and k: "CHR '':'' \<notin> set k"
    by (metis split_list_first)
  show ?thesis using assms takeWhile_colon [OF k, of r] k
    by (intro exI [of _ r]) (auto simp: parseMeminfoLine_def line Let_def)
qed

section \<open>What a scan finds\<close>

text \<open>The value of a key is that of its last line that parses, in bytes.\<close>

definition meminfo_value :: "string \<Rightarrow> string list \<Rightarrow> u64" where
  "meminfo_value key lines =
     (let kvs = filter (\<lambda>kv. fst kv = key) (List.map_filter parseMeminfoLine lines)
      in if kvs = [] then 0 else snd (last kvs) * 1024)"

lemma meminfo_value_Nil [simp]: "meminfo_value key [] = 0"
  by (simp add: meminfo_value_def map_filter_simps)

lemma meminfo_value_snoc:
  "meminfo_value key (lines @ [line]) =
     (case parseMeminfoLine line of
        None \<Rightarrow> meminfo_value key lines
      | Some (k, val) \<Rightarrow> if k = key then val * 1024 else meminfo_value key lines)"
proof -
  have "List.map_filter parseMeminfoLine (lines @ [line]) =
      List.map_filter parseMeminfoLine lines @
      (case parseMeminfoLine line of None \<Rightarrow> [] | Some kv \<Rightarrow> [kv])"
    by (simp add: List.map_filter_def split: option.splits)
  then show ?thesis
    by (auto simp: meminfo_value_def Let_def split: option.splits)
qed

lemma meminfo_scan:
  "foldl meminfo_line (0, 0, 0, 0) lines =
     (meminfo_value ''MemTotal'' lines, meminfo_value ''MemAvailable'' lines,
      meminfo_value ''SwapTotal'' lines, meminfo_value ''SwapFree'' lines)"
  by (induction lines rule: rev_induct)
    (auto simp: meminfo_line_def meminfo_value_snoc split: option.splits)

lemma pct_of_self: "0 < n \<Longrightarrow> n < 2 ^ 53 \<Longrightarrow> pct_of n n = 100"
  using f64_of_int [of "int n"] f64_of_int [of 1] f64_of_int [of 100] by (simp add: pct_of_def)

section \<open>Properties\<close>

text \<open>A meminfo line is read back. A line made of a key without colon, a colon, white space,
  the decimal digits of a number that fits 64 bits, and the unit parses to that key and number;
  and nothing but a decimal number below \<open>2 ^ 64\<close> after the colon, with surrounding white
  space and an optional unit, is ever accepted.\<close>

theorem meminfo_line_roundtrip:
  assumes "CHR '':'' \<notin> set key" "list_all is_space blanks" "n < 2 ^ 64"
  shows "parseMeminfoLine (key @ '':'' @ blanks @ decimal n @ '' kB'') = Some (key, of_nat n) \<and>
    (parseMeminfoLine line = Some (key', v) \<longrightarrow>
       (\<exists>rest. line = key' @ '':'' @ rest \<and> CHR '':'' \<notin> set key' \<and>
          ParseUint (TrimSpace (TrimSuffix '' kB'' (TrimSpace rest))) = Some v))"
  using meminfo_line_built [OF assms] meminfo_line_shape by blast

theorem meminfo_line_roundtrip_witness:
  "parseMeminfoLine (''MemTotal'' @ '':'' @ ''    '' @ decimal 16284980 @ '' kB'') =
     Some (''MemTotal'', 16284980)"
  using meminfo_line_roundtrip [of "''MemTotal''" "''    ''" 16284980] by (simp add: is_space_def)

text \<open>What a poll measures. After a scan that finds a total below \<open>2 ^ 53\<close> bytes and no more
  available than that, the snapshot's used and available bytes add up to the total, the
  percentage lies between 0 and 100, and the growth rate is positive exactly when the clock
  advanced and more is used than at the previous poll. A text without \<open>MemAvailable\<close> line, as
  kernels before 3.14 write it, counts as 100 percent used.\<close>

theorem memory_poll_snapshot:
  assumes "mtotal = meminfo_value ''MemTotal'' lines" "avail = meminfo_value ''MemAvailable'' lines"
    and "0 < mtotal" "mtotal < 2 ^ 53" "avail \<le> mtotal"
    and "memory_poll now (Inr lines) c = (err, c')"
  shows "\<exists>s. err = None \<and> memory_Snapshot c' = Some s \<and>
    unat (Mm_UsedBytes s) + unat (Mm_AvailableBytes s) = unat (Mm_TotalBytes s) \<and>
    Mm_TotalBytes s = mtotal \<and> 0 \<le> Mm_UsedPct s \<and> Mm_UsedPct s \<le> 100 \<and>
    (avail = 0 \<longrightarrow> Mm_UsedPct s = 100) \<and>
    (case mm_prev c of
       None \<Rightarrow> Mm_GrowthRate s = 0
     | Some (u, t0) \<Rightarrow> u < 2 ^ 53 \<longrightarrow> (0 < Mm_GrowthRate s \<longleftrightarrow> t0 < now \<and> u < Mm_UsedBytes s))"
proof -
  have t: "unat mtotal < 2 ^ 53" "0 < unat mtotal"
    using assms(3,4) by (simp_all add: word_less_nat_alt)
  have used_eq: "unat (mtotal - avail) = unat mtotal - unat avail" "unat avail \<le> unat mtotal"
    using assms(5) by (simp_all add: unat_sub word_le_nat_alt)
  have growth: "0 < f64 (f64 (of_int (sint (mtotal - avail - u))) / t') \<longleftrightarrow> u < mtotal - avail"
    if "u < 2 ^ 53" "0 < t'" "t' \<le> 2 ^ 40" for u t'
  proof -
    have u: "unat u < 2 ^ 53" using that(1) by (simp add: word_less_nat_alt)
    have d: "sint (mtotal - avail - u) = int (unat (mtotal - avail)) - int (unat u)"
      using t u used_eq net_delta [of "unat (mtotal - avail)" "unat u"] by simp
    have "unat (mtotal - avail) < 2 ^ 53" using used_eq(1) t(1) by linarith
    then have "\<bar>sint (mtotal - avail - u)\<bar> < 2 ^ 53" unfolding d using u by (rule net_delta_small)
    note rate_sign [OF that(2,3) this]
    moreover have "0 < sint (mtotal - avail - u) \<longleftrightarrow> u < mtotal - avail"
      unfolding d word_less_nat_alt by linarith
    ultimately show ?thesis by (simp only:)
  qed
  have nz: "mtotal \<noteq> 0" using assms(3) by simp
  let ?used = "mtotal - avail"
  have pct: "0 \<le> pct_of (unat ?used) (unat mtotal)" "pct_of (unat ?used) (unat mtotal) \<le> 100"
    using pct_of_bounds [of "unat ?used" "unat mtotal"] t used_eq by simp_all
  define s where "s = mm_snap c'"
  have s: "Mm_TotalBytes s = mtotal" "Mm_UsedBytes s = ?used" "Mm_AvailableBytes s = avail"
      "Mm_UsedPct s = pct_of (unat ?used) (unat mtotal)"
      "Mm_GrowthRate s = (case mm_prev c of None \<Rightarrow> 0 | Some (prev_used, prev_at) \<Rightarrow>
         (let dt = go_Seconds (go_Sub now prev_at)
          in if 0 < dt then f64 (f64 (of_int (sint (?used - prev_used))) / dt) else 0))"
    and err: "err = None" and snap: "memory_Snapshot c' = Some s"
    using assms(6) nz
    by (auto simp: memory_poll_def meminfo_scan s_def memory_Snapshot_def Let_def
        simp flip: assms(1,2))
  show ?thesis
  proof (intro exI [of _ s] conjI err snap)
    show "unat (Mm_UsedBytes s) + unat (Mm_AvailableBytes s) = unat (Mm_TotalBytes s)"
      using used_eq by (simp add: s)
    show "avail = 0 \<longrightarrow> Mm_UsedPct s = 100" using pct_of_self t by (simp add: s)
    show "case mm_prev c of None \<Rightarrow> Mm_GrowthRate s = 0
     | Some (u, t0) \<Rightarrow> u < 2 ^ 53 \<longrightarrow> (0 < Mm_GrowthRate s \<longleftrightarrow> t0 < now \<and> u < Mm_UsedBytes s)"
      using growth go_Seconds_Sub_pos [of now] go_Seconds_Sub_le [of now]
      by (auto simp: s Let_def split: option.splits)
  qed (simp_all add: s pct)
qed

definition demo_meminfo :: "string list" where
  "demo_meminfo = [''MemTotal:  8 kB'', ''MemFree:  1 kB'', ''MemAvailable:  2 kB'']"

lemmas parse_eval = parseMeminfoLine_def TrimSpace_def TrimSuffix_def ParseUint_def
  digits_value_def is_space_def is_digit_def Let_def

lemma demo_meminfo_values:
  "meminfo_value ''MemTotal'' demo_meminfo = 8192" "meminfo_value ''MemAvailable'' demo_meminfo = 2048"
  by (simp_all add: demo_meminfo_def meminfo_value_def map_filter_simps parse_eval)

theorem memory_poll_snapshot_witness:
  "\<exists>s. memory_Snapshot (snd (memory_poll 7 (Inr demo_meminfo) NewMemoryCollector)) = Some s \<and>
     Mm_TotalBytes s = 8192"
  using memory_poll_snapshot [OF demo_meminfo_values [symmetric], of 7
      NewMemoryCollector, OF _ _ _ prod.collapse [symmetric]] by auto

end
