(* ===== verification/CgroupMemory.thy ===== *)
theory CgroupMemory
  imports MemoryCollector "HOL-Library.Sublist"
begin

text \<open>
  \<open>internal/collector/cgroup_memory.go\<close>: memory of the containers, found by walking the cgroup v2
  hierarchy. The hierarchy is a tree: a directory that can be listed, with its files and
  subdirectories in the order of \<open>os.ReadDir\<close>, or one that cannot, because it is gone or closed
  (\<open>True\<close>) or for another reason (\<open>False\<close>). A path is the list of its components.
\<close>

datatype cgdir =
    CgDir "(string \<times> string) list" "(string \<times> cgdir) list"
  | CgUnreadable bool

section \<open>Reading the control files\<close>

text \<open>A missing file is \<open>None\<close>.\<close>

definition readCgroupMemoryMax :: "string option \<Rightarrow> u64 option" where
  "readCgroupMemoryMax data =
     (case data of
        None \<Rightarrow> None
      | Some d \<Rightarrow>
          (let s = TrimSpace d in if s = ''max'' \<or> s = '''' then None else ParseUint s))"

definition readCgroupUint64File :: "string option \<Rightarrow> u64" where
  "readCgroupUint64File data =
     (case data of
        None \<Rightarrow> 0
      | Some d \<Rightarrow>
          (let s = TrimSpace d
           in if s = ''max'' then 0 else (case ParseUint s of None \<Rightarrow> 0 | Some v \<Rightarrow> v)))"

text \<open>\<open>bufio.Scanner\<close> lines and \<open>strings.Fields\<close>.\<close>

fun split_at :: "(char \<Rightarrow> bool) \<Rightarrow> string \<Rightarrow> string list" where
  "split_at p [] = [[]]"
| "split_at p (c # cs) =
     (if p c then [] # split_at p cs
      else case split_at p cs of [] \<Rightarrow> [[c]] | w # ws \<Rightarrow> (c # w) # ws)"

definition Fields :: "string \<Rightarrow> string list" where
  "Fields s = filter (\<lambda>w. w \<noteq> []) (split_at is_space s)"

definition events_line :: "(string \<rightharpoonup> u64) \<Rightarrow> string \<Rightarrow> (string \<rightharpoonup> u64)" where
  "events_line out line =
     (let parts = Fields line
      in if length parts \<noteq> 2 then out
         else case ParseUint (parts ! 1) of None \<Rightarrow> out | Some v \<Rightarrow> out(parts ! 0 \<mapsto> v))"

definition readCgroupMemoryEvents :: "string option \<Rightarrow> (string \<rightharpoonup> u64)" where
  "readCgroupMemoryEvents data =
     (case data of
        None \<Rightarrow> Map.empty
      | Some d \<Rightarrow> foldl events_line Map.empty (split_at (\<lambda>c. c = CHR 0x0A) d))"

definition event_count :: "(string \<rightharpoonup> u64) \<Rightarrow> string \<Rightarrow> u64" where
  "event_count ev k = (case ev k of None \<Rightarrow> 0 | Some v \<Rightarrow> v)"

definition parseCgroupPod :: "string list \<Rightarrow> string" where
  "parseCgroupPod parts =
     (case filter (\<lambda>p. prefix ''pod'' p \<and> 3 < length p) parts of
        p # _ \<Rightarrow> p
      | [] \<Rightarrow>
          (case filter (\<lambda>p. p \<noteq> []) parts of
             [] \<Rightarrow> if length parts \<le> 1 then ''.'' else ''/''
           | ps \<Rightarrow> last ps))"

section \<open>The walk\<close>

record CgroupMemoryEntry =
  Cg_CgroupPath :: "string list"
  Cg_Pod :: string
  Cg_Namespace :: string
  Cg_CurrentBytes :: u64
  Cg_LimitBytes :: u64
  Cg_HighBytes :: u64
  Cg_UsedPct :: rat
  Cg_GrowthRate :: rat
  Cg_HighEventRate :: rat
  Cg_EventsHigh :: u64
  Cg_EventsMax :: u64
  Cg_EventsOOM :: u64
  Cg_EventsOOMKill :: u64

definition maxCgroupWalkDepth :: nat where "maxCgroupWalkDepth = 8"

text \<open>The optional \<open>PodLookup\<close> gives a pod and a namespace for a path.\<close>

type_synonym pod_lookup = "(string list \<Rightarrow> string \<times> string) option"

definition cgroup_entry ::
  "pod_lookup \<Rightarrow> string list \<Rightarrow> (string \<times> string) list \<Rightarrow> u64 \<Rightarrow> CgroupMemoryEntry" where
  "cgroup_entry enricher dir files limitBytes =
     (let current = readCgroupUint64File (map_of files ''memory.current'');
          highBytes = readCgroupUint64File (map_of files ''memory.high'');
          events = readCgroupMemoryEvents (map_of files ''memory.events'');
          usedPct = (if 0 < limitBytes then pct_of (unat current) (unat limitBytes) else 0);
          (pod, ns) = (case enricher of
              None \<Rightarrow> (parseCgroupPod dir, '''')
            | Some lookup \<Rightarrow>
                (case lookup dir of (p, n) \<Rightarrow> if p \<noteq> '''' then (p, n) else (parseCgroupPod dir, '''')))
      in \<lparr>Cg_CgroupPath = dir, Cg_Pod = pod, Cg_Namespace = ns, Cg_CurrentBytes = current,
          Cg_LimitBytes = limitBytes, Cg_HighBytes = highBytes, Cg_UsedPct = usedPct,
          Cg_GrowthRate = 0, Cg_HighEventRate = 0, Cg_EventsHigh = event_count events ''high'',
          Cg_EventsMax = event_count events ''max'', Cg_EventsOOM = event_count events ''oom'',
          Cg_EventsOOMKill = event_count events ''oom_kill''\<rparr>)"

text \<open>\<open>None\<close> is an error; an error in a subdirectory is logged and the subdirectory skipped.\<close>

function walkCgroups ::
  "pod_lookup \<Rightarrow> string list \<Rightarrow> nat \<Rightarrow> cgdir \<Rightarrow> CgroupMemoryEntry list option" where
  "walkCgroups enricher dir depth node =
     (if maxCgroupWalkDepth < depth then Some []
      else case node of
        CgUnreadable gone \<Rightarrow> if gone then Some [] else None
      | CgDir files subs \<Rightarrow>
          (let result = concat (map (\<lambda>(name, sub).
                 case walkCgroups enricher (dir @ [name]) (depth + 1) sub of
                   None \<Rightarrow> [] | Some children \<Rightarrow> children) subs)
           in case readCgroupMemoryMax (map_of files ''memory.max'') of
                Some limitBytes \<Rightarrow>
                  if result = [] then Some [cgroup_entry enricher dir files limitBytes]
                  else Some result
              | None \<Rightarrow> Some result))"
  by pat_completeness auto

termination
  by (relation "measure (\<lambda>(enricher, dir, depth, node). Suc maxCgroupWalkDepth - depth)") auto

declare walkCgroups.simps [simp del]

section \<open>Polling\<close>

record cgroupMemSample =
  cs_currentBytes :: u64
  cs_eventsHigh :: u64
  cs_at :: int

text \<open>The snapshot is \<open>None\<close> when no container has a limit.\<close>

record CgroupMemoryCollector =
  cg_snap :: "CgroupMemoryEntry list option"
  cg_prev :: "string list \<rightharpoonup> cgroupMemSample"

definition NewCgroupMemoryCollector :: CgroupMemoryCollector where
  "NewCgroupMemoryCollector = \<lparr>cg_snap = None, cg_prev = Map.empty\<rparr>"

definition cgroup_rates :: "int \<Rightarrow> cgroupMemSample \<Rightarrow> CgroupMemoryEntry \<Rightarrow> CgroupMemoryEntry" where
  "cgroup_rates now prev e =
     (let dt = go_Seconds (go_Sub now (cs_at prev))
      in if 0 < dt then
           (let e = e\<lparr>Cg_GrowthRate :=
                        f64 (f64 (of_int (sint (Cg_CurrentBytes e - cs_currentBytes prev))) / dt)\<rparr>;
                rate = f64 (f64 (of_int (sint (Cg_EventsHigh e - cs_eventsHigh prev))) / dt)
            in if 0 < rate then e\<lparr>Cg_HighEventRate := rate\<rparr> else e)
         else e)"

fun cgroup_update ::
  "int \<Rightarrow> (string list \<rightharpoonup> cgroupMemSample) \<Rightarrow> CgroupMemoryEntry list \<Rightarrow>
   CgroupMemoryEntry list \<times> (string list \<rightharpoonup> cgroupMemSample)" where
  "cgroup_update now prev [] = ([], prev)"
| "cgroup_update now prev (e # es) =
     (let e' = (case prev (Cg_CgroupPath e) of None \<Rightarrow> e | Some p \<Rightarrow> cgroup_rates now p e);
          prev = prev(Cg_CgroupPath e \<mapsto> \<lparr>cs_currentBytes = Cg_CurrentBytes e,
                   cs_eventsHigh = Cg_EventsHigh e, cs_at = now\<rparr>);
          (es', prev) = cgroup_update now prev es
      in (e' # es', prev))"

text \<open>The first component tells whether the poll succeeded.\<close>

definition cgroup_poll ::
  "pod_lookup \<Rightarrow> string list \<Rightarrow> int \<Rightarrow> cgdir \<Rightarrow> CgroupMemoryCollector \<Rightarrow> bool \<times> CgroupMemoryCollector" where
  "cgroup_poll enricher cgroupRoot now tree c =
     (case walkCgroups enricher cgroupRoot 0 tree of
        None \<Rightarrow> (False, c)
      | Some entries \<Rightarrow>
          (let (entries, prev) = cgroup_update now (cg_prev c) entries
           in (True, \<lparr>cg_snap = (if entries = [] then None else Some entries), cg_prev = prev\<rparr>)))"

section \<open>What a walk finds\<close>

text \<open>The directory at a relative path.\<close>

fun cg_at :: "cgdir \<Rightarrow> string list \<Rightarrow> cgdir option" where
  "cg_at node [] = Some node"
| "cg_at (CgUnreadable gone) (n # q) = None"
| "cg_at (CgDir files subs) (n # q) =
     (case map_of subs n of None \<Rightarrow> None | Some sub \<Rightarrow> cg_at sub q)"

text \<open>Names are unique in every directory.\<close>

fun cg_wf :: "cgdir \<Rightarrow> bool" where
  "cg_wf (CgUnreadable gone) \<longleftrightarrow> True"
| "cg_wf (CgDir files subs) \<longleftrightarrow>
     distinct (map fst subs) \<and> list_all (\<lambda>(n, sub). cg_wf sub) subs"

definition cg_limit :: "cgdir \<Rightarrow> u64 option" where
  "cg_limit node =
     (case node of
        CgUnreadable gone \<Rightarrow> None
      | CgDir files subs \<Rightarrow> readCgroupMemoryMax (map_of files ''memory.max''))"

abbreviation cg_children ::
  "pod_lookup \<Rightarrow> string list \<Rightarrow> nat \<Rightarrow> string \<times> cgdir \<Rightarrow> CgroupMemoryEntry list" where
  "cg_children enricher dir depth \<equiv> (\<lambda>(name, sub).
     case walkCgroups enricher (dir @ [name]) (depth + 1) sub of None \<Rightarrow> [] | Some es \<Rightarrow> es)"

lemma cgroup_entry_path [simp]:
  "Cg_CgroupPath (cgroup_entry enricher dir files limit) = dir"
  "Cg_LimitBytes (cgroup_entry enricher dir files limit) = limit"
  by (simp_all add: cgroup_entry_def Let_def split: option.splits prod.splits)

lemma walk_cases:
  assumes "walkCgroups enricher dir depth node = Some es"
  obtains
    "maxCgroupWalkDepth < depth" "es = []"
  | "node = CgUnreadable True" "es = []"
  | files subs limit where "depth \<le> maxCgroupWalkDepth" "node = CgDir files subs"
      "concat (map (cg_children enricher dir depth) subs) = []" "cg_limit node = Some limit"
      "es = [cgroup_entry enricher dir files limit]"
  | files subs where "depth \<le> maxCgroupWalkDepth" "node = CgDir files subs"
      "es = concat (map (cg_children enricher dir depth) subs)" "cg_limit node \<noteq> None \<Longrightarrow> es \<noteq> []"
  using assms
  by (subst (asm) walkCgroups.simps)
    (auto simp: cg_limit_def Let_def not_less split: if_splits cgdir.splits option.splits)

text \<open>Every entry lies below the directory walked, is a directory there with the limit reported,
  and no entry lies below another.\<close>

lemma walk_sound:
  "walkCgroups enricher dir depth node = Some es \<Longrightarrow> cg_wf node \<Longrightarrow> e \<in> set es \<Longrightarrow>
   \<exists>q sub. Cg_CgroupPath e = dir @ q \<and> depth + length q \<le> maxCgroupWalkDepth \<and>
     cg_at node q = Some sub \<and> cg_limit sub = Some (Cg_LimitBytes e)"
proof (induction enricher dir depth node arbitrary: es e rule: walkCgroups.induct)
  case (1 enricher dir depth node)
  from 1(2) show ?case
  proof (cases rule: walk_cases)
    case (3 files subs limit)
    then show ?thesis using 1(4) by (intro exI [of _ "[]"] exI [of _ node]) simp
  next
    case (4 files subs)
    then obtain name sub where sub: "(name, sub) \<in> set subs"
      and e: "e \<in> set (cg_children enricher dir depth (name, sub))" using 1(4) by auto
    then obtain cs where walk: "walkCgroups enricher (dir @ [name]) (depth + 1) sub = Some cs"
      and "e \<in> set cs"
      by (cases "walkCgroups enricher (dir @ [name]) (depth + 1) sub") auto
    moreover have "cg_wf sub" "map_of subs name = Some sub"
      using 1(3) 4(2) sub by (auto simp: list_all_iff)
    ultimately obtain q t where "Cg_CgroupPath e = (dir @ [name]) @ q"
      "depth + 1 + length q \<le> maxCgroupWalkDepth" "cg_at sub q = Some t"
      "cg_limit t = Some (Cg_LimitBytes e)"
      using 1(1) [of files subs] 4(1,2) sub by (metis not_less)
    then show ?thesis using 4(2) \<open>map_of subs name = Some sub\<close>
      by (intro exI [of _ "name # q"] exI [of _ t]) simp
  qed (use 1(4) in simp_all)
qed

lemma walk_readable:
  "cg_at node q = Some t \<Longrightarrow> cg_limit t \<noteq> None \<Longrightarrow> walkCgroups enricher dir depth node \<noteq> None"
  by (cases node; cases q)
    (auto simp: walkCgroups.simps [of enricher dir depth] cg_limit_def Let_def split: option.splits)

lemma walk_complete:
  "walkCgroups enricher dir depth node = Some es \<Longrightarrow> cg_wf node \<Longrightarrow> cg_at node q = Some t \<Longrightarrow>
   cg_limit t \<noteq> None \<Longrightarrow> depth + length q \<le> maxCgroupWalkDepth \<Longrightarrow>
   \<exists>e \<in> set es. prefix (dir @ q) (Cg_CgroupPath e)"
proof (induction enricher dir depth node arbitrary: es q rule: walkCgroups.induct)
  case (1 enricher dir depth node)
  note IH = 1(1) and walk = 1(2) and wf = 1(3) and at_q = 1(4) and lim = 1(5) and len = 1(6)
  have depth: "\<not> maxCgroupWalkDepth < depth" using len by simp
  show ?case
  proof (cases q)
    case Nil
    then have node: "cg_limit node \<noteq> None" using at_q lim by simp
    from walk have "es \<noteq> []" using node depth by (cases rule: walk_cases) (auto simp: cg_limit_def)
    then obtain e where e: "e \<in> set es" by (cases es) auto
    from walk_sound [OF walk wf e] obtain r where "Cg_CgroupPath e = dir @ r" by blast
    with e Nil show ?thesis by (intro bexI [of _ e]) simp_all
  next
    case (Cons n q')
    then obtain files subs where node: "node = CgDir files subs" using at_q by (cases node) auto
    then obtain sub where sub: "map_of subs n = Some sub" "cg_at sub q' = Some t"
      using at_q Cons by (auto split: option.splits)
    then have mem: "(n, sub) \<in> set subs" by (simp add: map_of_SomeD)
    obtain cs where cs: "walkCgroups enricher (dir @ [n]) (depth + 1) sub = Some cs"
      using walk_readable [OF sub(2) lim] by blast
    moreover have "cg_wf sub" using wf node mem by (auto simp: list_all_iff)
    ultimately have "\<exists>e \<in> set cs. prefix ((dir @ [n]) @ q') (Cg_CgroupPath e)"
      using IH [OF depth node mem refl] sub(2) lim len Cons by simp
    then obtain e where e: "e \<in> set cs" "prefix (dir @ q) (Cg_CgroupPath e)" using Cons by auto
    have below: "e \<in> set (concat (map (cg_children enricher dir depth) subs))"
      using mem cs e(1) by force
    from walk have "e \<in> set es"
    proof (cases rule: walk_cases)
      case (3 files' subs' limit)
      then show ?thesis using below node by auto
    next
      case (4 files' subs')
      then show ?thesis using below node by auto
    qed (use depth node in auto)
    with e(2) show ?thesis by blast
  qed
qed

lemma sorted_wrt_concat:
  "\<forall>x \<in> set xs. sorted_wrt R (f x) \<Longrightarrow>
   sorted_wrt (\<lambda>x y. \<forall>a \<in> set (f x). \<forall>b \<in> set (f y). R a b) xs \<Longrightarrow>
   sorted_wrt R (concat (map f xs))"
  by (induction xs) (auto simp: sorted_wrt_append)

definition cg_unrelated :: "CgroupMemoryEntry \<Rightarrow> CgroupMemoryEntry \<Rightarrow> bool" where
  "cg_unrelated e e' \<longleftrightarrow>
     \<not> prefix (Cg_CgroupPath e) (Cg_CgroupPath e') \<and> \<not> prefix (Cg_CgroupPath e') (Cg_CgroupPath e)"

lemma walk_unrelated:
  "walkCgroups enricher dir depth node = Some es \<Longrightarrow> cg_wf node \<Longrightarrow> sorted_wrt cg_unrelated es"
proof (induction enricher dir depth node arbitrary: es rule: walkCgroups.induct)
  case (1 enricher dir depth node)
  from 1(2) show ?case
  proof (cases rule: walk_cases)
    case (4 files subs)
    let ?f = "cg_children enricher dir depth"
    have wf: "cg_wf sub" if "(n, sub) \<in> set subs" for n sub
      using that 1(3) 4(2) by (auto simp: list_all_iff)
    have below: "\<exists>q. Cg_CgroupPath e = dir @ n # q"
      if "(n, sub) \<in> set subs" "e \<in> set (?f (n, sub))" for n sub e
      using that walk_sound [OF _ wf] by (cases "walkCgroups enricher (dir @ [n]) (depth + 1) sub") force+
    have "sorted_wrt cg_unrelated (?f x)" if "x \<in> set subs" for x
    proof -
      obtain n sub where x: "x = (n, sub)" by (cases x)
      show ?thesis
      proof (cases "walkCgroups enricher (dir @ [n]) (depth + 1) sub")
        case (Some cs)
        then show ?thesis using 1(1) [of files subs] 4(1,2) that wf x by (simp add: not_less)
      qed (simp add: x)
    qed
    moreover have "sorted_wrt (\<lambda>x y. fst x \<noteq> fst y) subs"
      using 1(3) 4(2) by (simp add: distinct_conv_nth sorted_wrt_iff_nth_less)
    then have "sorted_wrt (\<lambda>x y. \<forall>a \<in> set (?f x). \<forall>b \<in> set (?f y). cg_unrelated a b) subs"
      by (rule sorted_wrt_mono_rel [rotated]) (force dest: below simp: cg_unrelated_def)
    ultimately show ?thesis unfolding 4(3) by (intro sorted_wrt_concat) blast+
  qed simp_all
qed

lemma cgroup_entry_fresh [simp]:
  "Cg_HighEventRate (cgroup_entry enricher dir files limit) = 0"
  by (simp add: cgroup_entry_def Let_def split: option.splits prod.splits)

lemma walk_fresh:
  "walkCgroups enricher dir depth node = Some es \<Longrightarrow> e \<in> set es \<Longrightarrow> Cg_HighEventRate e = 0"
proof (induction enricher dir depth node arbitrary: es e rule: walkCgroups.induct)
  case (1 enricher dir depth node)
  from 1(2) show ?case
  proof (cases rule: walk_cases)
    case (4 files subs)
    then obtain name sub where sub: "(name, sub) \<in> set subs"
      and e: "e \<in> set (cg_children enricher dir depth (name, sub))" using 1(3) by auto
    then show ?thesis using 1(1) [of files subs] 4(1,2)
      by (cases "walkCgroups enricher (dir @ [name]) (depth + 1) sub") (auto simp: not_less)
  qed (use 1(3) in \<open>simp_all\<close>)
qed

section \<open>What a poll computes\<close>

text \<open>As the paths differ, the samples stored during a poll do not influence its rates.\<close>

definition cg_sample :: "int \<Rightarrow> CgroupMemoryEntry \<Rightarrow> cgroupMemSample" where
  "cg_sample now e = \<lparr>cs_currentBytes = Cg_CurrentBytes e, cs_eventsHigh = Cg_EventsHigh e, cs_at = now\<rparr>"

definition cg_rated ::
  "int \<Rightarrow> (string list \<rightharpoonup> cgroupMemSample) \<Rightarrow> CgroupMemoryEntry \<Rightarrow> CgroupMemoryEntry" where
  "cg_rated now prev e = (case prev (Cg_CgroupPath e) of None \<Rightarrow> e | Some p \<Rightarrow> cgroup_rates now p e)"

lemma cgroup_rates_other [simp]:
  "Cg_CgroupPath (cgroup_rates now p e) = Cg_CgroupPath e"
  "Cg_EventsHigh (cgroup_rates now p e) = Cg_EventsHigh e"
  "Cg_LimitBytes (cgroup_rates now p e) = Cg_LimitBytes e"
  by (simp_all add: cgroup_rates_def Let_def)

lemma cgroup_update_eq:
  "distinct (map Cg_CgroupPath es) \<Longrightarrow>
   cgroup_update now prev es =
     (map (cg_rated now prev) es, prev ++ map_of (map (\<lambda>e. (Cg_CgroupPath e, cg_sample now e)) es))"
proof (induction es arbitrary: prev)
  case Nil
  then show ?case by simp
next
  case (Cons e es)
  let ?prev = "prev(Cg_CgroupPath e \<mapsto> cg_sample now e)"
  have new: "Cg_CgroupPath e \<notin> Cg_CgroupPath ` set es" using Cons.prems by simp
  then have "map (cg_rated now ?prev) es = map (cg_rated now prev) es"
    by (intro map_cong refl) (force simp: cg_rated_def image_iff)
  moreover have "?prev ++ map_of (map (\<lambda>e. (Cg_CgroupPath e, cg_sample now e)) es) =
      (prev ++ map_of (map (\<lambda>e. (Cg_CgroupPath e, cg_sample now e)) es))
        (Cg_CgroupPath e \<mapsto> cg_sample now e)"
    using new by (intro map_add_upd_left) (auto simp: dom_map_of_conv_image_fst)
  moreover have "map_of (map (\<lambda>e. (Cg_CgroupPath e, cg_sample now e)) (e # es)) =
      (map_of (map (\<lambda>e. (Cg_CgroupPath e, cg_sample now e)) es))(Cg_CgroupPath e \<mapsto> cg_sample now e)"
    by auto
  moreover have "distinct (map Cg_CgroupPath es)" using Cons.prems by simp
  from Cons.IH [OF this] have "cgroup_update now ?prev es = (map (cg_rated now ?prev) es,
      ?prev ++ map_of (map (\<lambda>e. (Cg_CgroupPath e, cg_sample now e)) es))" .
  ultimately show ?case
    by (simp only: cgroup_update.simps cg_sample_def [symmetric] Let_def prod.case map_add_upd
        list.map(2) cg_rated_def [of now prev e])
qed

lemma cgroup_rates_high:
  assumes "Cg_HighEventRate e = 0" "cs_eventsHigh p < 2 ^ 53" "Cg_EventsHigh e < 2 ^ 53"
  shows "0 \<le> Cg_HighEventRate (cgroup_rates now p e) \<and>
    (0 < Cg_HighEventRate (cgroup_rates now p e) \<longleftrightarrow>
       cs_at p < now \<and> cs_eventsHigh p < Cg_EventsHigh e)"
proof -
  let ?d = "Cg_EventsHigh e - cs_eventsHigh p" and ?dt = "go_Seconds (go_Sub now (cs_at p))"
  have lt: "unat (Cg_EventsHigh e) < 2 ^ 53" "unat (cs_eventsHigh p) < 2 ^ 53"
    using assms(2,3) by (simp_all add: word_less_nat_alt)
  then have d: "sint ?d = int (unat (Cg_EventsHigh e)) - int (unat (cs_eventsHigh p))"
    using net_delta [of "unat (Cg_EventsHigh e)" "unat (cs_eventsHigh p)"] by simp
  have small: "\<bar>sint ?d\<bar> < 2 ^ 53" unfolding d using lt by (rule net_delta_small)
  have pos: "0 < f64 (f64 (of_int (sint ?d)) / ?dt) \<longleftrightarrow> cs_eventsHigh p < Cg_EventsHigh e"
    if "0 < ?dt"
  proof -
    note rate_sign [OF that go_Seconds_Sub_le small]
    moreover have "0 < sint ?d \<longleftrightarrow> cs_eventsHigh p < Cg_EventsHigh e"
      unfolding d word_less_nat_alt by linarith
    ultimately show ?thesis by (simp only:)
  qed
  have rate: "Cg_HighEventRate (cgroup_rates now p e) =
      (if 0 < ?dt \<and> 0 < f64 (f64 (of_int (sint ?d)) / ?dt)
       then f64 (f64 (of_int (sint ?d)) / ?dt) else 0)"
    using assms(1) by (simp add: cgroup_rates_def Let_def)
  show ?thesis
  proof (cases "0 < ?dt")
    case True
    then show ?thesis unfolding rate using pos go_Seconds_Sub_pos [of now "cs_at p"] by auto
  next
    case False
    then show ?thesis unfolding rate using go_Seconds_Sub_pos [of now "cs_at p"] by simp
  qed
qed

lemma unrelated_distinct: "sorted_wrt cg_unrelated es \<Longrightarrow> distinct (map Cg_CgroupPath es)"
  by (induction es) (auto simp: cg_unrelated_def)

section \<open>Properties\<close>

text \<open>C33: the walk reports the innermost limits. In a hierarchy with unique names, every container
  reported is a readable directory at most 8 levels down, with the finite limit of its
  \<open>memory.max\<close>; none lies above another or is reported twice; and every such directory with a
  finite limit is reported itself or has a reported directory below it. The walk fails only when
  the first directory cannot be listed for a reason other than absence or permission.\<close>

theorem cgroup_walk_leaves:
  assumes "cg_wf tree" "walkCgroups enricher cgroupRoot 0 tree = es"
  shows "(es = None \<longleftrightarrow> tree = CgUnreadable False) \<and>
    (\<forall>xs. es = Some xs \<longrightarrow>
      (\<forall>e \<in> set xs. \<exists>q sub. Cg_CgroupPath e = cgroupRoot @ q \<and> length q \<le> 8 \<and>
         cg_at tree q = Some sub \<and> cg_limit sub = Some (Cg_LimitBytes e)) \<and>
      sorted_wrt cg_unrelated xs \<and>
      (\<forall>q sub. length q \<le> 8 \<longrightarrow> cg_at tree q = Some sub \<longrightarrow> cg_limit sub \<noteq> None \<longrightarrow>
         (\<exists>e \<in> set xs. prefix (cgroupRoot @ q) (Cg_CgroupPath e))))"
proof -
  have "es = None \<longleftrightarrow> tree = CgUnreadable False"
    unfolding assms(2) [symmetric]
    by (subst walkCgroups.simps) (auto simp: Let_def split: cgdir.splits option.splits)
  then show ?thesis
    using walk_sound [of enricher cgroupRoot 0 tree] walk_unrelated [of enricher cgroupRoot 0 tree]
      walk_complete [of enricher cgroupRoot 0 tree] assms
    by (simp add: maxCgroupWalkDepth_def)
qed

text \<open>A pod whose slice and container both have a limit, next to a service without one.\<close>

definition demo_cgroups :: cgdir where
  "demo_cgroups = CgDir []
     [(''kubepods'', CgDir [(''memory.max'', ''8192'')]
        [(''pod1'', CgDir [(''memory.max'', ''4096''), (''memory.current'', ''4000'')] [])]),
      (''sshd'', CgDir [(''memory.max'', ''max'')] []), (''gone'', CgUnreadable True)]"

theorem cgroup_walk_leaves_witness:
  "\<exists>e \<in> set (the (walkCgroups None [''sys''] 0 demo_cgroups)).
     prefix [''sys'', ''kubepods''] (Cg_CgroupPath e)"
proof -
  have "cg_wf demo_cgroups" by (simp add: demo_cgroups_def)
  note leaves = cgroup_walk_leaves [OF this refl, of None "[''sys'']"]
  have "cg_at demo_cgroups [''kubepods''] = Some (CgDir [(''memory.max'', ''8192'')]
      [(''pod1'', CgDir [(''memory.max'', ''4096''), (''memory.current'', ''4000'')] [])])"
    "cg_limit (CgDir [(''memory.max'', ''8192'')]
      [(''pod1'', CgDir [(''memory.max'', ''4096''), (''memory.current'', ''4000'')] [])]) = Some 8192"
    "demo_cgroups \<noteq> CgUnreadable False"
    by (simp_all add: demo_cgroups_def cg_limit_def readCgroupMemoryMax_def parse_eval)
  with leaves show ?thesis by fastforce
qed

text \<open>Rates compare with the previous poll only. A poll of a hierarchy with unique names stores
  the containers of the walk, each rated against the sample of its path before the poll, or no
  snapshot when there is none, and remembers every container; a container's throttling rate is
  never negative and is positive exactly when the clock advanced and its count of \<open>high\<close> events
  grew.\<close>

theorem cgroup_poll_rates:
  assumes "cg_wf tree" "walkCgroups enricher cgroupRoot 0 tree = Some es"
    and "cgroup_poll enricher cgroupRoot now tree c = (ok, c')"
  shows "ok \<and> cg_snap c' = (if es = [] then None else Some (map (cg_rated now (cg_prev c)) es)) \<and>
    (\<forall>e \<in> set es. cg_prev c' (Cg_CgroupPath e) = Some (cg_sample now e) \<and>
       (\<forall>p. cg_prev c (Cg_CgroupPath e) = Some p \<and> cs_eventsHigh p < 2 ^ 53 \<and>
            Cg_EventsHigh e < 2 ^ 53 \<longrightarrow>
          0 \<le> Cg_HighEventRate (cg_rated now (cg_prev c) e) \<and>
          (0 < Cg_HighEventRate (cg_rated now (cg_prev c) e) \<longleftrightarrow>
             cs_at p < now \<and> cs_eventsHigh p < Cg_EventsHigh e)))"
proof -
  have dist: "distinct (map Cg_CgroupPath es)"
    using walk_unrelated [OF assms(2,1)] by (rule unrelated_distinct)
  have poll: "ok" "cg_snap c' = (if es = [] then None else Some (map (cg_rated now (cg_prev c)) es))"
    "cg_prev c' = cg_prev c ++ map_of (map (\<lambda>e. (Cg_CgroupPath e, cg_sample now e)) es)"
    using assms(2,3) cgroup_update_eq [OF dist, of now "cg_prev c"] by (auto simp: cgroup_poll_def)
  have fresh: "Cg_HighEventRate e = 0" if "e \<in> set es" for e
    using walk_fresh [OF assms(2) that] .
  have "cg_prev c' (Cg_CgroupPath e) = Some (cg_sample now e)" if "e \<in> set es" for e
  proof -
    have "map_of (map (\<lambda>e. (Cg_CgroupPath e, cg_sample now e)) es) (Cg_CgroupPath e) =
        Some (cg_sample now e)"
      using that dist by (intro map_of_is_SomeI) (auto simp: comp_def)
    then show ?thesis unfolding poll(3) by (simp add: map_add_Some_iff)
  qed
  with poll(1,2) fresh cgroup_rates_high show ?thesis by (auto simp: cg_rated_def)
qed

theorem cgroup_poll_rates_witness:
  "fst (cgroup_poll None [''sys''] 5 demo_cgroups NewCgroupMemoryCollector)"
proof -
  have "cg_wf demo_cgroups" by (simp add: demo_cgroups_def)
  moreover obtain es where "walkCgroups None [''sys''] 0 demo_cgroups = Some es"
    using walk_readable [of demo_cgroups "[''kubepods'']" _ None "[''sys'']" 0]
    by (auto simp: demo_cgroups_def cg_limit_def readCgroupMemoryMax_def parse_eval)
  ultimately show ?thesis using cgroup_poll_rates [OF _ _ prod.collapse [symmetric]] by blast
qed

end
