(* ===== verification/Signals.thy ===== *)
theory Signals
  imports SyscallCollector SchedCollector DiskCollector OomCollector FdCollector TcpCollector
    CgroupMemory
begin

text \<open>
  \<open>internal/collector/signals.go\<close> and \<open>collector.go\<close>: the combined snapshot of all collectors and
  the registry that builds it.
\<close>

record Signals =
  Sg_Timestamp :: int
  Sg_Duration :: int
  Sg_Syscall :: "SyscallSnapshot option"
  Sg_TCP :: "TCPSnapshot option"
  Sg_OOM :: "OOMSnapshot option"
  Sg_DiskIO :: "DiskIOSnapshot option"
  Sg_Sched :: "SchedSnapshot option"
  Sg_FD :: "FDSnapshot option"
  Sg_Memory :: "MemorySnapshot option"
  Sg_CgroupMemory :: "CgroupMemoryEntry list option"

text \<open>What \<open>Snapshot\<close> of a collector returns: one of the snapshot types, or \<open>nil\<close>.\<close>

datatype snapshot =
    NilSnapshot
  | SyscallSnap SyscallSnapshot
  | TCPSnap TCPSnapshot
  | OOMSnap OOMSnapshot
  | DiskIOSnap DiskIOSnapshot
  | SchedSnap SchedSnapshot
  | FDSnap FDSnapshot
  | MemorySnap MemorySnapshot
  | CgroupMemorySnap "CgroupMemoryEntry list"

fun add_snapshot :: "Signals \<Rightarrow> snapshot \<Rightarrow> Signals" where
  "add_snapshot s NilSnapshot = s"
| "add_snapshot s (SyscallSnap v) = s\<lparr>Sg_Syscall := Some v\<rparr>"
| "add_snapshot s (TCPSnap v) = s\<lparr>Sg_TCP := Some v\<rparr>"
| "add_snapshot s (OOMSnap v) = s\<lparr>Sg_OOM := Some v\<rparr>"
| "add_snapshot s (DiskIOSnap v) = s\<lparr>Sg_DiskIO := Some v\<rparr>"
| "add_snapshot s (SchedSnap v) = s\<lparr>Sg_Sched := Some v\<rparr>"
| "add_snapshot s (FDSnap v) = s\<lparr>Sg_FD := Some v\<rparr>"
| "add_snapshot s (MemorySnap v) = s\<lparr>Sg_Memory := Some v\<rparr>"
| "add_snapshot s (CgroupMemorySnap v) = s\<lparr>Sg_CgroupMemory := Some v\<rparr>"

definition empty_signals :: "int \<Rightarrow> int \<Rightarrow> Signals" where
  "empty_signals now duration =
     \<lparr>Sg_Timestamp = now, Sg_Duration = duration, Sg_Syscall = None, Sg_TCP = None, Sg_OOM = None,
      Sg_DiskIO = None, Sg_Sched = None, Sg_FD = None, Sg_Memory = None, Sg_CgroupMemory = None\<rparr>"

text \<open>The registry: a map from names to collectors, here to what their snapshot returns. Go ranges
  over a map in any order, so the order of the names is an argument.\<close>

type_synonym registry = "string \<rightharpoonup> snapshot"

definition registry_Register :: "string \<Rightarrow> snapshot \<Rightarrow> registry \<Rightarrow> bool \<times> registry" where
  "registry_Register name c r =
     (case r name of Some _ \<Rightarrow> (False, r) | None \<Rightarrow> (True, r(name \<mapsto> c)))"

definition registry_Signals :: "string list \<Rightarrow> int \<Rightarrow> int \<Rightarrow> registry \<Rightarrow> Signals" where
  "registry_Signals order now duration r =
     foldl add_snapshot (empty_signals now duration) (map (\<lambda>n. the (r n)) order)"

section \<open>The iteration order does not matter\<close>

text \<open>The slot of the combined snapshot a snapshot fills.\<close>

fun snap_slot :: "snapshot \<Rightarrow> nat" where
  "snap_slot NilSnapshot = 0"
| "snap_slot (SyscallSnap v) = 1"
| "snap_slot (TCPSnap v) = 2"
| "snap_slot (OOMSnap v) = 3"
| "snap_slot (DiskIOSnap v) = 4"
| "snap_slot (SchedSnap v) = 5"
| "snap_slot (FDSnap v) = 6"
| "snap_slot (MemorySnap v) = 7"
| "snap_slot (CgroupMemorySnap v) = 8"

lemma add_snapshot_commute:
  "snap_slot a = 0 \<or> snap_slot a \<noteq> snap_slot b \<Longrightarrow>
   add_snapshot (add_snapshot s a) b = add_snapshot (add_snapshot s b) a"
  by (cases a; cases b) simp_all

end
