(* ===== verification/Doctor.thy ===== *)
theory Doctor
  imports Signals
begin

text \<open>
  \<open>internal/doctor/finding.go\<close> and \<open>rules.go\<close>: findings, their ranking, and the diagnostic rules.
  A finding is what decides its rank and its meaning: severity, rule, signal, metric, value,
  threshold, estimated time and process; title and evidence are in \<open>Prompt\<close>; cause, impact and
  fixes are not modelled.
\<close>

section \<open>Findings\<close>

datatype Severity = SeverityInfo | SeverityWarning | SeverityCritical

text \<open>The constants are numbered from 0.\<close>

primrec severity_iota :: "Severity \<Rightarrow> nat" where
  "severity_iota SeverityInfo = 0"
| "severity_iota SeverityWarning = 1"
| "severity_iota SeverityCritical = 2"

lemma severity_iota_inject: "severity_iota a = severity_iota b \<longleftrightarrow> a = b"
  by (cases a; cases b) simp_all

instantiation Severity :: linorder
begin

definition less_eq_Severity :: "Severity \<Rightarrow> Severity \<Rightarrow> bool" where
  "less_eq_Severity a b \<longleftrightarrow> severity_iota a \<le> severity_iota b"

definition less_Severity :: "Severity \<Rightarrow> Severity \<Rightarrow> bool" where
  "less_Severity a b \<longleftrightarrow> severity_iota a < severity_iota b"

instance
  by standard (auto simp: less_eq_Severity_def less_Severity_def severity_iota_inject)

end

record Finding =
  Fi_Severity :: Severity
  Fi_Rule :: string
  Fi_Signal :: string
  Fi_Metric :: string
  Fi_Value :: rat
  Fi_Threshold :: rat
  Fi_ETA :: "int option"
  Fi_Process :: bytes

definition thresholdRatio :: "Finding \<Rightarrow> rat" where
  "thresholdRatio f = (if Fi_Threshold f = 0 then 0 else f64 (Fi_Value f / Fi_Threshold f))"

definition finding_less :: "Finding \<Rightarrow> Finding \<Rightarrow> bool" where
  "finding_less a b =
     (if Fi_Severity a \<noteq> Fi_Severity b then Fi_Severity b < Fi_Severity a
      else case (Fi_ETA a, Fi_ETA b) of
        (Some x, Some y) \<Rightarrow> x < y
      | (Some x, None) \<Rightarrow> True
      | (None, Some y) \<Rightarrow> False
      | (None, None) \<Rightarrow> thresholdRatio b < thresholdRatio a)"

text \<open>\<open>sort.SliceStable\<close>: for a strict weak order the stable sorting of a list is unique, so
  insertion sort, which is stable, computes it.\<close>

definition RankFindings :: "Finding list \<Rightarrow> Finding list" where
  "RankFindings findings = isort_by finding_less findings"

section \<open>Thresholds\<close>

record DoctorThresholds =
  Th_SyscallP99WarningNs :: int
  Th_SyscallP99CriticalNs :: int
  Th_TCPRetransmitPct :: rat
  Th_OOMMemoryPct :: rat
  Th_DiskP99WarningNs :: int
  Th_DiskP99CriticalNs :: int
  Th_SchedDelayWarningNs :: int
  Th_SchedDelayCriticalNs :: int
  Th_FDGrowthPerSec :: rat

definition DefaultThresholds :: DoctorThresholds where
  "DefaultThresholds =
     \<lparr>Th_SyscallP99WarningNs = 100000000, Th_SyscallP99CriticalNs = 500000000,
      Th_TCPRetransmitPct = 2, Th_OOMMemoryPct = 90,
      Th_DiskP99WarningNs = 50000000, Th_DiskP99CriticalNs = 200000000,
      Th_SchedDelayWarningNs = 5000000, Th_SchedDelayCriticalNs = 20000000,
      Th_FDGrowthPerSec = 10\<rparr>"

section \<open>Rules\<close>

text \<open>A duration is read from its 64 bits; \<open>ns_float\<close> is \<open>float64(d.Nanoseconds())\<close>.\<close>

definition ns_float :: "int \<Rightarrow> rat" where
  "ns_float d = f64 (of_int d)"

definition evalDiskIOBottleneck :: "Signals \<Rightarrow> DoctorThresholds \<Rightarrow> Finding list" where
  "evalDiskIOBottleneck s t =
     (case Sg_DiskIO s of
        None \<Rightarrow> []
      | Some disk \<Rightarrow>
          (let warningNs = Th_DiskP99WarningNs t; criticalNs = Th_DiskP99CriticalNs t;
               syncP99 = sint (P99 (Dk_SyncLatency disk));
               writeP99 = sint (P99 (Dk_WriteLatency disk))
           in (if 0 < syncP99 then
                 if criticalNs \<le> syncP99 then
                   [\<lparr>Fi_Severity = SeverityCritical, Fi_Rule = ''disk_io_bottleneck'',
                     Fi_Signal = ''diskio'', Fi_Metric = ''disk_sync_p99'',
                     Fi_Value = ns_float syncP99, Fi_Threshold = ns_float criticalNs,
                     Fi_ETA = None, Fi_Process = []\<rparr>]
                 else if warningNs \<le> syncP99 then
                   [\<lparr>Fi_Severity = SeverityWarning, Fi_Rule = ''disk_io_bottleneck'',
                     Fi_Signal = ''diskio'', Fi_Metric = ''disk_sync_p99'',
                     Fi_Value = ns_float syncP99, Fi_Threshold = ns_float warningNs,
                     Fi_ETA = None, Fi_Process = []\<rparr>]
                 else []
               else []) @
              (if criticalNs \<le> writeP99 then
                 [\<lparr>Fi_Severity = SeverityCritical, Fi_Rule = ''disk_io_write_high'',
                   Fi_Signal = ''diskio'', Fi_Metric = ''disk_write_p99'',
                   Fi_Value = ns_float writeP99, Fi_Threshold = ns_float criticalNs,
                   Fi_ETA = None, Fi_Process = []\<rparr>]
               else [])))"

definition evalOOMKillOccurred :: "Signals \<Rightarrow> Finding list" where
  "evalOOMKillOccurred s =
     (case Sg_OOM s of
        None \<Rightarrow> []
      | Some oom \<Rightarrow>
          if Om_Count oom = 0 then []
          else map (\<lambda>evt. \<lparr>Fi_Severity = SeverityCritical, Fi_Rule = ''oom_kill_occurred'',
                 Fi_Signal = ''oom'', Fi_Metric = ''oom_kills'', Fi_Value = 1, Fi_Threshold = 0,
                 Fi_ETA = None, Fi_Process = Om_Comm evt\<rparr>) (Om_Events oom))"

definition evalTCPRetransmitStorm :: "Signals \<Rightarrow> DoctorThresholds \<Rightarrow> Finding list" where
  "evalTCPRetransmitStorm s t =
     (case Sg_TCP s of
        None \<Rightarrow> []
      | Some tcp \<Rightarrow>
          (let rate = Tc_RetransmitRate tcp
           in if rate < Th_TCPRetransmitPct t then []
              else [\<lparr>Fi_Severity = SeverityCritical, Fi_Rule = ''tcp_retransmit_storm'',
                     Fi_Signal = ''tcp'', Fi_Metric = ''tcp_retransmit_pct'', Fi_Value = rate,
                     Fi_Threshold = Th_TCPRetransmitPct t, Fi_ETA = None, Fi_Process = []\<rparr>]))"

definition evalTCPRTTDegradation :: "Signals \<Rightarrow> Finding list" where
  "evalTCPRTTDegradation s =
     (case Sg_TCP s of
        None \<Rightarrow> []
      | Some tcp \<Rightarrow>
          (let rttThreshold = 10 * 1000000; p99 = sint (P99 (Tc_RTTs tcp))
           in if p99 < rttThreshold then []
              else [\<lparr>Fi_Severity = SeverityWarning, Fi_Rule = ''tcp_rtt_degradation'',
                     Fi_Signal = ''tcp'', Fi_Metric = ''tcp_rtt_p99'', Fi_Value = ns_float p99,
                     Fi_Threshold = ns_float rttThreshold, Fi_ETA = None, Fi_Process = []\<rparr>]))"

definition evalSchedulerContention :: "Signals \<Rightarrow> DoctorThresholds \<Rightarrow> Finding list" where
  "evalSchedulerContention s t =
     (case Sg_Sched s of
        None \<Rightarrow> []
      | Some sched \<Rightarrow>
          (let warningNs = Th_SchedDelayWarningNs t; criticalNs = Th_SchedDelayCriticalNs t;
               delay = sint (P99 (Sd_Global sched))
           in if delay < warningNs then []
              else [\<lparr>Fi_Severity = (if criticalNs \<le> delay then SeverityCritical else SeverityWarning),
                     Fi_Rule = ''scheduler_contention'', Fi_Signal = ''sched'',
                     Fi_Metric = ''sched_runq_p99'', Fi_Value = ns_float delay,
                     Fi_Threshold = ns_float warningNs, Fi_ETA = None,
                     Fi_Process = (case Sd_TopDelayed sched of [] \<Rightarrow> [] | e # _ \<Rightarrow> Sd_Comm e)\<rparr>]))"

definition evalFDLeak :: "Signals \<Rightarrow> DoctorThresholds \<Rightarrow> Finding list" where
  "evalFDLeak s t =
     (case Sg_FD s of
        None \<Rightarrow> []
      | Some fd \<Rightarrow>
          if Fd_TotalRate fd < Th_FDGrowthPerSec t then []
          else
            (let eta = (if 0 < Fd_TotalRate fd then
                   let remainingFDs = f64 (65536 - f64 (of_int (sint (Fd_TotalDelta fd))))
                   in if 0 < remainingFDs then etaDuration (f64 (remainingFDs / Fd_TotalRate fd))
                      else None
                   else None)
             in [\<lparr>Fi_Severity = SeverityWarning, Fi_Rule = ''fd_leak'', Fi_Signal = ''fd'',
                  Fi_Metric = ''fd_growth_per_sec'', Fi_Value = Fd_TotalRate fd,
                  Fi_Threshold = Th_FDGrowthPerSec t, Fi_ETA = eta,
                  Fi_Process = (case Fd_Entries fd of [] \<Rightarrow> [] | e # _ \<Rightarrow> Fd_Comm e)\<rparr>]))"

definition syscall_hot :: "DoctorThresholds \<Rightarrow> SyscallEntry list \<Rightarrow> SyscallEntry list" where
  "syscall_hot t entries =
     filter (\<lambda>entry. \<not> IsBlockingSyscall (Sy_SyscallNr entry) \<and>
       \<not> sint (P99 (Sy_Latency entry)) < Th_SyscallP99WarningNs t) entries"

definition evalSyscallLatencyHigh :: "Signals \<Rightarrow> DoctorThresholds \<Rightarrow> Finding list" where
  "evalSyscallLatencyHigh s t =
     (case Sg_Syscall s of
        None \<Rightarrow> []
      | Some sys \<Rightarrow>
          (let warningNs = Th_SyscallP99WarningNs t; criticalNs = Th_SyscallP99CriticalNs t;
               hot = syscall_hot t (Sy_Entries sys);
               sev = (if list_ex (\<lambda>entry. criticalNs \<le> sint (P99 (Sy_Latency entry))) hot
                      then SeverityCritical else SeverityWarning)
           in case hot of
                [] \<Rightarrow> []
              | worst # _ \<Rightarrow>
                  (let thresh = (if sev = SeverityCritical then criticalNs else warningNs)
                   in [\<lparr>Fi_Severity = sev, Fi_Rule = ''syscall_latency_high'',
                        Fi_Signal = ''syscall'', Fi_Metric = ''syscall_p99_max'',
                        Fi_Value = ns_float (sint (P99 (Sy_Latency worst))),
                        Fi_Threshold = ns_float thresh, Fi_ETA = None,
                        Fi_Process = Sy_Comm worst\<rparr>])))"

definition evalOOMImminent :: "Signals \<Rightarrow> DoctorThresholds \<Rightarrow> Finding list" where
  "evalOOMImminent s t =
     (case Sg_Memory s of
        None \<Rightarrow> []
      | Some mem \<Rightarrow>
          (let threshold = Th_OOMMemoryPct t
           in if threshold < 0 then []
              else if Mm_UsedPct mem < threshold then []
              else
                (let sev = (if 95 < Mm_UsedPct mem \<and> 0 < Mm_GrowthRate mem
                            then SeverityCritical else SeverityWarning);
                     eta = (if 0 < Mm_GrowthRate mem \<and> 0 < Mm_AvailableBytes mem
                            then etaDuration (f64 (f64 (of_nat (unat (Mm_AvailableBytes mem))) /
                                   Mm_GrowthRate mem))
                            else None)
                 in [\<lparr>Fi_Severity = sev, Fi_Rule = ''oom_imminent'', Fi_Signal = ''memory'',
                      Fi_Metric = ''memory_used_pct'', Fi_Value = Mm_UsedPct mem,
                      Fi_Threshold = threshold, Fi_ETA = eta, Fi_Process = []\<rparr>])))"

text \<open>The worst entry is the first with the largest rate.\<close>

definition syscall_failing :: "SyscallEntry list \<Rightarrow> (SyscallEntry \<times> rat) list" where
  "syscall_failing entries =
     filter (\<lambda>(entry, rate). \<not> rate < 1)
       (map (\<lambda>entry. (entry, pct_of (unat (Sy_ErrorCount entry)) (unat (Sy_Count entry))))
         (filter (\<lambda>entry. \<not> IsBlockingSyscall (Sy_SyscallNr entry) \<and>
            \<not> (Sy_Count entry = 0 \<or> Sy_ErrorCount entry = 0)) entries))"

definition worst_rate :: "(SyscallEntry \<times> rat) list \<Rightarrow> SyscallEntry \<times> rat" where
  "worst_rate entries = foldl (\<lambda>top e. if snd top < snd e then e else top) (hd entries) (tl entries)"

definition evalSyscallErrorRate :: "Signals \<Rightarrow> Finding list" where
  "evalSyscallErrorRate s =
     (case Sg_Syscall s of
        None \<Rightarrow> []
      | Some sys \<Rightarrow>
          (let entries = syscall_failing (Sy_Entries sys);
               sev = (if list_ex (\<lambda>(entry, rate). 10 \<le> rate) entries
                      then SeverityCritical else SeverityWarning)
           in if entries = [] then []
              else
                (let top = worst_rate entries
                 in [\<lparr>Fi_Severity = sev, Fi_Rule = ''syscall_error_rate'', Fi_Signal = ''syscall'',
                      Fi_Metric = ''syscall_error_pct_max'', Fi_Value = snd top, Fi_Threshold = 1,
                      Fi_ETA = None, Fi_Process = Sy_Comm (fst top)\<rparr>])))"

definition go_bytes :: "string \<Rightarrow> bytes" where
  "go_bytes s = map of_char s"

definition evalMemoryLimitPressure :: "Signals \<Rightarrow> Finding list" where
  "evalMemoryLimitPressure s =
     (case Sg_CgroupMemory s of
        None \<Rightarrow> []
      | Some containers \<Rightarrow>
          map (\<lambda>c.
            let critical = 95 \<le> Cg_UsedPct c \<and> 0 < Cg_GrowthRate c;
                eta = (if critical \<and> 2 ^ 20 \<le> Cg_GrowthRate c \<and> Cg_CurrentBytes c < Cg_LimitBytes c
                       then etaDuration (f64 (f64 (of_nat (unat (Cg_LimitBytes c - Cg_CurrentBytes c))) /
                              Cg_GrowthRate c))
                       else None)
            in \<lparr>Fi_Severity = (if critical then SeverityCritical else SeverityWarning),
                Fi_Rule = ''memory_limit_pressure'', Fi_Signal = ''cgroup_memory'',
                Fi_Metric = ''cgroup_memory_used_pct'', Fi_Value = Cg_UsedPct c,
                Fi_Threshold = (if critical then 95 else 85), Fi_ETA = eta,
                Fi_Process = go_bytes (Cg_Pod c)\<rparr>)
          (filter (\<lambda>c. \<not> (Cg_LimitBytes c = 0 \<or> Cg_UsedPct c < 85)) containers))"

definition evalMemoryHighThrottling :: "Signals \<Rightarrow> Finding list" where
  "evalMemoryHighThrottling s =
     (case Sg_CgroupMemory s of
        None \<Rightarrow> []
      | Some containers \<Rightarrow>
          map (\<lambda>c. \<lparr>Fi_Severity = SeverityWarning, Fi_Rule = ''memory_high_throttling'',
                Fi_Signal = ''cgroup_memory'', Fi_Metric = ''cgroup_memory_high_event_rate'',
                Fi_Value = Cg_HighEventRate c, Fi_Threshold = 1, Fi_ETA = None,
                Fi_Process = go_bytes (Cg_Pod c)\<rparr>)
          (filter (\<lambda>c. \<not> Cg_HighEventRate c < 1) containers))"

definition evalHealthySystem :: "Signals \<Rightarrow> Finding" where
  "evalHealthySystem s =
     \<lparr>Fi_Severity = SeverityInfo, Fi_Rule = ''healthy_system'', Fi_Signal = ''all'',
      Fi_Metric = '''', Fi_Value = 0, Fi_Threshold = 0, Fi_ETA = None, Fi_Process = []\<rparr>"

definition rule_findings :: "Signals \<Rightarrow> DoctorThresholds \<Rightarrow> Finding list" where
  "rule_findings signals thresholds =
     evalDiskIOBottleneck signals thresholds @ evalOOMKillOccurred signals @
     evalTCPRetransmitStorm signals thresholds @ evalTCPRTTDegradation signals @
     evalSchedulerContention signals thresholds @ evalFDLeak signals thresholds @
     evalSyscallLatencyHigh signals thresholds @ evalOOMImminent signals thresholds @
     evalSyscallErrorRate signals @ evalMemoryLimitPressure signals @
     evalMemoryHighThrottling signals"

definition Evaluate :: "Signals \<Rightarrow> DoctorThresholds \<Rightarrow> Finding list" where
  "Evaluate signals thresholds =
     (let findings = rule_findings signals thresholds;
          findings = (if findings = [] then findings @ [evalHealthySystem signals] else findings)
      in RankFindings findings)"

section \<open>Ranking\<close>

lemma strict_weak_finding_less: "strict_weak finding_less"
  unfolding strict_weak_def
proof (intro conjI allI impI)
  fix x y z :: Finding
  show "\<not> finding_less x x" by (auto simp: finding_less_def split: option.splits)
  show "finding_less x y \<Longrightarrow> finding_less y z \<Longrightarrow> finding_less x z"
    by (auto simp: finding_less_def split: option.splits if_splits)
  show "\<not> finding_less y x \<Longrightarrow> \<not> finding_less z y \<Longrightarrow> \<not> finding_less z x"
    by (auto simp: finding_less_def split: option.splits if_splits)
qed

lemma RankFindings_facts:
  "mset (RankFindings fs) = mset fs"
  "sorted_wrt (\<lambda>x y. \<not> finding_less y x) (RankFindings fs)"
  "filter (tied finding_less f) (RankFindings fs) = filter (tied finding_less f) fs"
  using sort_slice_isort [unfolded sort_slice_ok_def] strict_weak_finding_less isort_by_stable
  by (auto simp: RankFindings_def)

lemma set_RankFindings: "set (RankFindings fs) = set fs"
  using RankFindings_facts(1) by (metis set_mset_mset)

lemma finding_less_severity: "Fi_Severity x < Fi_Severity y \<Longrightarrow> finding_less y x"
  by (auto simp: finding_less_def)

lemma RankFindings_severity: "sorted_wrt (\<lambda>x y. Fi_Severity y \<le> Fi_Severity x) (RankFindings fs)"
  using RankFindings_facts(2)
  by (rule sorted_wrt_mono_rel [rotated]) (auto simp: not_less [symmetric] finding_less_severity)

lemma Evaluate_eq:
  "Evaluate s t =
     RankFindings (if rule_findings s t = [] then [evalHealthySystem s] else rule_findings s t)"
  by (simp add: Evaluate_def Let_def)

lemmas rule_defs = evalDiskIOBottleneck_def evalOOMKillOccurred_def evalTCPRetransmitStorm_def
  evalTCPRTTDegradation_def evalSchedulerContention_def evalFDLeak_def evalSyscallLatencyHigh_def
  evalOOMImminent_def evalSyscallErrorRate_def evalMemoryLimitPressure_def
  evalMemoryHighThrottling_def

lemma oom_finding:
  assumes "evt \<in> set (Om_Events oom)" "Sg_OOM s = Some oom" "Om_Count oom \<noteq> 0"
  shows "\<exists>f \<in> set (evalOOMKillOccurred s). Fi_Rule f = ''oom_kill_occurred'' \<and>
    Fi_Process f = Om_Comm evt \<and> Fi_Severity f = SeverityCritical"
  using assms by (auto simp: evalOOMKillOccurred_def)

lemma oom_findings_reported:
  assumes "f \<in> set (evalOOMKillOccurred s)"
  shows "f \<in> set (Evaluate s t)" "rule_findings s t \<noteq> []"
proof -
  have "f \<in> set (rule_findings s t)" using assms by (simp add: rule_findings_def)
  then show "f \<in> set (Evaluate s t)" "rule_findings s t \<noteq> []"
    by (auto simp: Evaluate_eq set_RankFindings)
qed

definition eta_ok :: "Finding \<Rightarrow> bool" where
  "eta_ok f \<longleftrightarrow> (case Fi_ETA f of None \<Rightarrow> True | Some eta \<Rightarrow> 0 < eta \<and> eta \<le> maxMeaningfulETA)"

lemma eval_severity_eta:
  "f \<in> set (evalDiskIOBottleneck s t) \<Longrightarrow> SeverityWarning \<le> Fi_Severity f \<and> eta_ok f"
  "f \<in> set (evalOOMKillOccurred s) \<Longrightarrow> SeverityWarning \<le> Fi_Severity f \<and> eta_ok f"
  "f \<in> set (evalTCPRetransmitStorm s t) \<Longrightarrow> SeverityWarning \<le> Fi_Severity f \<and> eta_ok f"
  "f \<in> set (evalTCPRTTDegradation s) \<Longrightarrow> SeverityWarning \<le> Fi_Severity f \<and> eta_ok f"
  "f \<in> set (evalSchedulerContention s t) \<Longrightarrow> SeverityWarning \<le> Fi_Severity f \<and> eta_ok f"
  "f \<in> set (evalFDLeak s t) \<Longrightarrow> SeverityWarning \<le> Fi_Severity f \<and> eta_ok f"
  "f \<in> set (evalSyscallLatencyHigh s t) \<Longrightarrow> SeverityWarning \<le> Fi_Severity f \<and> eta_ok f"
  "f \<in> set (evalOOMImminent s t) \<Longrightarrow> SeverityWarning \<le> Fi_Severity f \<and> eta_ok f"
  "f \<in> set (evalSyscallErrorRate s) \<Longrightarrow> SeverityWarning \<le> Fi_Severity f \<and> eta_ok f"
  "f \<in> set (evalMemoryLimitPressure s) \<Longrightarrow> SeverityWarning \<le> Fi_Severity f \<and> eta_ok f"
  "f \<in> set (evalMemoryHighThrottling s) \<Longrightarrow> SeverityWarning \<le> Fi_Severity f \<and> eta_ok f"
  by (auto simp: rule_defs eta_ok_def less_eq_Severity_def Let_def
      dest: etaDuration_bounds split: option.splits if_splits list.splits)

lemma rule_findings_ok:
  "f \<in> set (rule_findings s t) \<Longrightarrow> SeverityWarning \<le> Fi_Severity f \<and> eta_ok f"
  by (auto simp: rule_findings_def dest: eval_severity_eta)

lemma size_filter_split:
  "A \<subseteq># M \<Longrightarrow> size (filter_mset P M) = size (filter_mset P A) + size (filter_mset P (M - A))"
  by (metis filter_union_mset size_union subset_mset.add_diff_inverse)

section \<open>Properties\<close>

text \<open>C14: the report is complete and ranked. \<open>Evaluate\<close> returns exactly the findings of the rules, or
  the single healthy finding when no rule fires, so never an empty list; they are ranked by the
  comparison of \<open>RankFindings\<close>, hence by falling severity, and findings that tie stay in rule
  order; every finding of a rule is at least a warning; and every estimated time is positive
  and at most a week.\<close>

theorem evaluate_ranked:
  "mset (Evaluate s t) =
     mset (if rule_findings s t = [] then [evalHealthySystem s] else rule_findings s t) \<and>
   Evaluate s t \<noteq> [] \<and>
   (Fi_Severity (hd (Evaluate s t)) = SeverityInfo \<longleftrightarrow> rule_findings s t = []) \<and>
   sorted_wrt (\<lambda>x y. \<not> finding_less y x \<and> Fi_Severity y \<le> Fi_Severity x) (Evaluate s t) \<and>
   filter (tied finding_less f) (Evaluate s t) =
     filter (tied finding_less f)
       (if rule_findings s t = [] then [evalHealthySystem s] else rule_findings s t) \<and>
   list_all eta_ok (Evaluate s t)"
proof -
  let ?fs = "if rule_findings s t = [] then [evalHealthySystem s] else rule_findings s t"
  have set: "set (Evaluate s t) = set ?fs" unfolding Evaluate_eq by (rule set_RankFindings)
  moreover have "?fs \<noteq> []" by simp
  ultimately have ne: "Evaluate s t \<noteq> []" by (metis set_empty)
  then have hd: "hd (Evaluate s t) \<in> set ?fs" using set by (metis hd_in_set)
  have "Fi_Severity (hd (Evaluate s t)) = SeverityInfo \<longleftrightarrow> rule_findings s t = []"
  proof (cases "rule_findings s t = []")
    case True
    then show ?thesis using hd by (simp add: evalHealthySystem_def)
  next
    case False
    then have "SeverityWarning \<le> Fi_Severity (hd (Evaluate s t))"
      using hd rule_findings_ok by (metis (full_types))
    then show ?thesis using False by (auto simp: less_eq_Severity_def)
  qed
  moreover have "list_all eta_ok (Evaluate s t)"
    unfolding list_all_iff set
    using rule_findings_ok by (auto simp: evalHealthySystem_def eta_ok_def split: if_splits)
  moreover have "sorted_wrt (\<lambda>x y. \<not> finding_less y x \<and> Fi_Severity y \<le> Fi_Severity x) (Evaluate s t)"
    unfolding Evaluate_eq
    using RankFindings_facts(2) RankFindings_severity by (simp add: sorted_wrt_iff_nth_less)
  ultimately show ?thesis using ne RankFindings_facts(1,3) by (simp add: Evaluate_eq)
qed

text \<open>C15: blocking system calls can hide a slow one. The rules skip system calls that block by
  design, but the collector has already cut its snapshot to the 64 entries of largest p99: when 64
  blocking (system call, command) pairs have a larger p99 than every other pair, neither the
  latency rule nor the error rule reports anything, however slow or failing the others are.\<close>

theorem blocking_calls_crowd_out:
  assumes "sort_slice_ok sort_Slice"
    and "all = map syscall_entry (lru_Range (syc_keys c))"
    and "64 \<le> length (filter (\<lambda>e. IsBlockingSyscall (Sy_SyscallNr e) \<and>
           bound \<le> sint (P99 (Sy_Latency e))) all)"
    and "\<forall>e \<in> set all. \<not> IsBlockingSyscall (Sy_SyscallNr e) \<longrightarrow> sint (P99 (Sy_Latency e)) < bound"
    and "Sg_Syscall s = Some (syscall_Snapshot sort_Slice c)"
  shows "evalSyscallLatencyHigh s t = [] \<and> evalSyscallErrorRate s = []"
proof -
  define P :: "SyscallEntry \<Rightarrow> bool" where "P e \<longleftrightarrow> IsBlockingSyscall (Sy_SyscallNr e) \<and> bound \<le> sint (P99 (Sy_Latency e))" for e
  define shown where "shown = Sy_Entries (syscall_Snapshot sort_Slice c)"
  have "length (sort_Slice syscall_less all) = length all"
    using assms(1) by (metis sort_slice_ok_def size_mset)
  then have "shown = take 64 (sort_Slice syscall_less all)"
    by (auto simp: assms(2) shown_def syscall_Snapshot_def MaxSyscallEntriesPerSnapshot_def Let_def)
  then have top: "length shown \<le> 64" "mset shown \<subseteq># mset all"
    "\<forall>x \<in># mset all - mset shown. \<forall>y \<in> set shown. \<not> syscall_less x y"
    using top_of_sorted [OF assms(1) strict_weak_syscall_less, of 64 all] by simp_all
  have block: "IsBlockingSyscall (Sy_SyscallNr y)" if y: "y \<in> set shown" for y
  proof (rule ccontr)
    assume nb: "\<not> IsBlockingSyscall (Sy_SyscallNr y)"
    have "y \<in> set all" using y top(2) by (metis mset_subset_eqD set_mset_mset)
    then have low: "sint (P99 (Sy_Latency y)) < bound" using nb assms(4) by blast
    have "length (filter P shown) < length shown"
      using y nb by (intro length_filter_less) (auto simp: P_def)
    then have "size (filter_mset P (mset shown)) < 64" using top(1) by (simp flip: mset_filter)
    moreover have "64 \<le> size (filter_mset P (mset all))"
      using assms(3) by (simp add: P_def [abs_def] flip: mset_filter)
    ultimately have "filter_mset P (mset all - mset shown) \<noteq> {#}"
      using size_filter_split [OF top(2), of P] by auto
    then obtain x where "x \<in># filter_mset P (mset all - mset shown)" by (meson multiset_nonemptyE)
    then have x: "x \<in># mset all - mset shown" "P x" by (simp_all only: set_mset_filter mem_Collect_eq)
    then have "syscall_less x y" using low by (auto simp: P_def syscall_less_def)
    with top(3) x(1) y show False by blast
  qed
  then show ?thesis using assms(5)
    by (simp add: evalSyscallLatencyHigh_def evalSyscallErrorRate_def syscall_hot_def
        syscall_failing_def shown_def Let_def filter_False)
qed

text \<open>64 processes waiting in \<open>futex\<close>, and one whose reads take a second.\<close>

definition demo_pair :: "nat \<Rightarrow> syscallKey \<times> syscallEntry" where
  "demo_pair n =
     (if n = 64
      then ((0, [65]), \<lparr>sy_hist = hist_of [1000000000], sy_count = 1, sy_errorCount = 0\<rparr>)
      else ((202, [of_nat n]),
            \<lparr>sy_hist = hist_of [9000000000], sy_count = 1, sy_errorCount = 0\<rparr>))"

definition demo_crowd :: SyscallCollector where
  "demo_crowd = \<lparr>syc_keys = \<lparr>lru_cap = 4096, lru_list = [0..<65], lru_elem = demo_pair,
     lru_fresh = 65, lru_items = Map.empty, lru_evicted = 0\<rparr>, syc_totalCount = 65\<rparr>"

lemma demo_crowd_entries:
  "map syscall_entry (lru_Range (syc_keys demo_crowd)) =
     map (\<lambda>n. syscall_entry (demo_pair n)) [0..<65]"
  by (simp add: demo_crowd_def lru_Range_def)

lemma demo_pair_entry:
  "Sy_SyscallNr (syscall_entry (demo_pair n)) = (if n = 64 then 0 else 202)"
  "P99 (Sy_Latency (syscall_entry (demo_pair n))) = (if n = 64 then 1000000000 else 9000000000)"
  using hist_Percentile_single [of _ 99]
  by (simp_all add: demo_pair_def syscall_entry_def histogramPercentiles_def)

theorem blocking_calls_crowd_out_witness:
  "\<exists>e \<in> set (map syscall_entry (lru_Range (syc_keys demo_crowd))).
     \<not> IsBlockingSyscall (Sy_SyscallNr e) \<and> sint (P99 (Sy_Latency e)) = 1000000000 \<and>
     evalSyscallLatencyHigh ((empty_signals 0 0)
       \<lparr>Sg_Syscall := Some (syscall_Snapshot isort_by demo_crowd)\<rparr>) DefaultThresholds = []"
proof -
  let ?all = "map syscall_entry (lru_Range (syc_keys demo_crowd))"
  let ?s = "(empty_signals 0 0)\<lparr>Sg_Syscall := Some (syscall_Snapshot isort_by demo_crowd)\<rparr>"
  have nr: "IsBlockingSyscall (Sy_SyscallNr (syscall_entry (demo_pair n))) \<longleftrightarrow> n \<noteq> 64" for n
    by (simp add: demo_pair_entry IsBlockingSyscall_def blockingSyscalls_def)
  have p99: "sint (P99 (Sy_Latency (syscall_entry (demo_pair n)))) =
      (if n = 64 then 1000000000 else 9000000000)" for n by (simp add: demo_pair_entry)
  have "filter (\<lambda>e. IsBlockingSyscall (Sy_SyscallNr e) \<and> 9000000000 \<le> sint (P99 (Sy_Latency e))) ?all =
      map (\<lambda>n. syscall_entry (demo_pair n)) (filter (\<lambda>n. n \<noteq> 64) [0..<65])"
    unfolding demo_crowd_entries filter_map comp_def nr p99
    by (intro arg_cong [where f = "map _"] filter_cong) auto
  moreover have "length (filter (\<lambda>n. n \<noteq> 64) [0..<65::nat]) = 64" by (simp add: upt_rec)
  ultimately have "64 \<le> length (filter (\<lambda>e. IsBlockingSyscall (Sy_SyscallNr e) \<and>
      9000000000 \<le> sint (P99 (Sy_Latency e))) ?all)" by simp
  moreover have "\<forall>e \<in> set ?all. \<not> IsBlockingSyscall (Sy_SyscallNr e) \<longrightarrow>
      sint (P99 (Sy_Latency e)) < 9000000000"
    unfolding demo_crowd_entries by (auto simp: nr p99)
  ultimately have "evalSyscallLatencyHigh ?s DefaultThresholds = []"
    using blocking_calls_crowd_out [OF sort_slice_isort refl,
        where c = demo_crowd and bound = 9000000000 and s = ?s]
    by (simp add: empty_signals_def)
  moreover have "syscall_entry (demo_pair 64) \<in> set ?all" unfolding demo_crowd_entries by simp
  ultimately show ?thesis using nr [of 64] p99 [of 64] by (metis (mono_tags, lifting))
qed

end
