(* ===== verification/Engine.thy ===== *)
theory Engine
  imports Doctor
begin

text \<open>
  \<open>internal/doctor/engine.go\<close> and the report of \<open>finding.go\<close>: rules first, then the optional AI
  analysis, then the history. The analyzer is a parameter: it returns a response or none, and
  whether it failed.
\<close>

record AnalysisRequest =
  Rq_Signals :: Signals
  Rq_Findings :: "Finding list"
  Rq_History :: "Signals list"

record 'r Report =
  Rp_StartTime :: int
  Rp_EndTime :: int
  Rp_Duration :: int
  Rp_Findings :: "Finding list"
  Rp_EventsCollected :: u64
  Rp_Analysis :: "'r option"
  Rp_Signals :: Signals

record 'r Engine =
  En_thresholds :: DoctorThresholds
  En_analyzer :: "(AnalysisRequest \<Rightarrow> 'r option \<times> bool) option"
  En_history :: "Signals list"
  En_maxHistory :: nat

definition NewEngine ::
  "DoctorThresholds \<Rightarrow> (AnalysisRequest \<Rightarrow> 'r option \<times> bool) option \<Rightarrow> 'r Engine" where
  "NewEngine thresholds analyzer =
     \<lparr>En_thresholds = thresholds, En_analyzer = analyzer, En_history = [], En_maxHistory = 10\<rparr>"

definition hasActionableFindings :: "Finding list \<Rightarrow> bool" where
  "hasActionableFindings findings \<longleftrightarrow> list_ex (\<lambda>f. SeverityWarning \<le> Fi_Severity f) findings"

definition FilterCriticalFindings :: "Finding list \<Rightarrow> Finding list" where
  "FilterCriticalFindings findings = filter (\<lambda>f. Fi_Severity f = SeverityCritical) findings"

definition CountBySeverity :: "'r Report \<Rightarrow> nat \<times> nat \<times> nat" where
  "CountBySeverity r =
     foldl (\<lambda>(critical, warning, info) f.
       case Fi_Severity f of
         SeverityCritical \<Rightarrow> (critical + 1, warning, info)
       | SeverityWarning \<Rightarrow> (critical, warning + 1, info)
       | SeverityInfo \<Rightarrow> (critical, warning, info + 1)) (0, 0, 0) (Rp_Findings r)"

definition HasCritical :: "'r Report \<Rightarrow> bool" where
  "HasCritical r \<longleftrightarrow> list_ex (\<lambda>f. Fi_Severity f = SeverityCritical) (Rp_Findings r)"

definition appendHistory :: "Signals \<Rightarrow> 'r Engine \<Rightarrow> 'r Engine" where
  "appendHistory signals e =
     (let e = e\<lparr>En_history := En_history e @ [signals]\<rparr>
      in if En_maxHistory e < length (En_history e)
         then e\<lparr>En_history := drop 1 (En_history e)\<rparr> else e)"

definition events_collected :: "Signals \<Rightarrow> u64" where
  "events_collected signals =
     (case Sg_Syscall signals of None \<Rightarrow> 0 | Some sys \<Rightarrow> Sy_TotalCount sys) +
     (case Sg_Sched signals of None \<Rightarrow> 0 | Some sched \<Rightarrow> Sd_TotalCount sched)"

definition Diagnose :: "Signals \<Rightarrow> 'r Engine \<Rightarrow> 'r Report \<times> 'r Engine" where
  "Diagnose signals e =
     (let findings = Evaluate signals (En_thresholds e);
          analysis = (case En_analyzer e of
              None \<Rightarrow> None
            | Some analyze \<Rightarrow>
                if hasActionableFindings findings
                then fst (analyze \<lparr>Rq_Signals = signals, Rq_Findings = findings,
                                  Rq_History = En_history e\<rparr>)
                else None);
          report = \<lparr>Rp_StartTime = Sg_Timestamp signals - Sg_Duration signals,
                    Rp_EndTime = Sg_Timestamp signals, Rp_Duration = Sg_Duration signals,
                    Rp_Findings = findings, Rp_EventsCollected = events_collected signals,
                    Rp_Analysis = analysis, Rp_Signals = signals\<rparr>
      in (report, appendHistory signals e))"

section \<open>Runs of the engine\<close>

fun engine_run :: "'r Engine \<Rightarrow> Signals list \<Rightarrow> 'r Report list \<times> 'r Engine" where
  "engine_run e [] = ([], e)"
| "engine_run e (s # ss) =
     (let (report, e) = Diagnose s e; (reports, e) = engine_run e ss in (report # reports, e))"

lemma appendHistory_fields [simp]:
  "En_thresholds (appendHistory s e) = En_thresholds e"
  "En_analyzer (appendHistory s e) = En_analyzer e"
  "En_maxHistory (appendHistory s e) = En_maxHistory e"
  by (simp_all add: appendHistory_def Let_def)

lemma appendHistory_history:
  "length (En_history e) \<le> En_maxHistory e \<Longrightarrow>
   En_history (appendHistory s e) =
     drop (length (En_history e) + 1 - En_maxHistory e) (En_history e @ [s])"
  by (cases "length (En_history e) = En_maxHistory e") (simp_all add: appendHistory_def Let_def)

lemma drop_drop_append:
  "drop (length (drop m xs) + 1 - n) (drop m xs @ [s]) = drop (length xs + 1 - n) (xs @ [s])"
  if "m = length xs - n" "0 < n"
  using that by (cases "length xs \<le> n - 1") (auto simp: drop_Cons' Suc_diff_le not_le)

lemma engine_run_snoc:
  "engine_run e (ss @ [s]) =
     (let (reports, e') = engine_run e ss; (report, e'') = Diagnose s e' in (reports @ [report], e''))"
  by (induction ss arbitrary: e) (simp_all add: Let_def split: prod.splits)

lemma count_severity:
  "foldl (\<lambda>(critical, warning, info) f.
       case Fi_Severity f of
         SeverityCritical \<Rightarrow> (critical + 1, warning, info)
       | SeverityWarning \<Rightarrow> (critical, warning + 1, info)
       | SeverityInfo \<Rightarrow> (critical, warning, info + 1)) (0, 0, 0) fs =
     (length (filter (\<lambda>f. Fi_Severity f = SeverityCritical) fs),
      length (filter (\<lambda>f. Fi_Severity f = SeverityWarning) fs),
      length (filter (\<lambda>f. Fi_Severity f = SeverityInfo) fs))"
  by (induction fs rule: rev_induct) (auto split: Severity.splits)

lemma hasActionable_Evaluate:
  "hasActionableFindings (Evaluate s t) \<longleftrightarrow> rule_findings s t \<noteq> []"
proof (cases "rule_findings s t = []")
  case True
  then have "set (Evaluate s t) = {evalHealthySystem s}" by (simp add: Evaluate_eq set_RankFindings)
  then show ?thesis using True
    by (simp add: hasActionableFindings_def list_ex_iff evalHealthySystem_def less_eq_Severity_def)
next
  case False
  then obtain f where f: "f \<in> set (rule_findings s t)" by (cases "rule_findings s t") auto
  then have "f \<in> set (Evaluate s t)" using False by (simp add: Evaluate_eq set_RankFindings)
  then show ?thesis using False rule_findings_ok [OF f]
    by (auto simp: hasActionableFindings_def list_ex_iff)
qed

section \<open>Properties\<close>

text \<open>C16: the AI never changes a diagnosis. In every run of the engine, each report carries exactly
  the ranked findings of the rules on its signals, whatever the analyzer returns and whether it
  fails; the analyzer is consulted exactly when a rule fired; the severity counts add up to the
  number of findings; and the history holds the last ten signals.\<close>

theorem engine_run_reports:
  assumes "engine_run (NewEngine t analyzer) ss = (reports, e)"
  shows "map Rp_Findings reports = map (\<lambda>s. Evaluate s t) ss \<and> map Rp_Signals reports = ss \<and>
    list_all (\<lambda>r. (Rp_Analysis r \<noteq> None \<longrightarrow> analyzer \<noteq> None \<and> rule_findings (Rp_Signals r) t \<noteq> []) \<and>
      (case CountBySeverity r of (critical, warning, info) \<Rightarrow>
         critical + warning + info = length (Rp_Findings r) \<and>
         (HasCritical r \<longleftrightarrow> 0 < critical) \<and>
         critical = length (FilterCriticalFindings (Rp_Findings r)))) reports \<and>
    En_history e = drop (length ss - 10) ss"
proof -
  have counts: "case CountBySeverity r of (critical, warning, info) \<Rightarrow>
         critical + warning + info = length (Rp_Findings r) \<and> (HasCritical r \<longleftrightarrow> 0 < critical) \<and>
         critical = length (FilterCriticalFindings (Rp_Findings r))" for r :: "'a Report"
  proof -
    have "length (filter (\<lambda>f. Fi_Severity f = SeverityCritical) fs) +
        length (filter (\<lambda>f. Fi_Severity f = SeverityWarning) fs) +
        length (filter (\<lambda>f. Fi_Severity f = SeverityInfo) fs) = length fs" for fs
      by (induction fs) (auto intro: Severity.exhaust)
    then show ?thesis
      by (auto simp: CountBySeverity_def count_severity HasCritical_def list_ex_iff
          FilterCriticalFindings_def filter_empty_conv)
  qed
  have "En_thresholds e = t \<and> En_analyzer e = analyzer \<and> En_maxHistory e = 10 \<and>
    map Rp_Findings reports = map (\<lambda>s. Evaluate s t) ss \<and> map Rp_Signals reports = ss \<and>
    list_all (\<lambda>r. Rp_Analysis r \<noteq> None \<longrightarrow> analyzer \<noteq> None \<and> rule_findings (Rp_Signals r) t \<noteq> [])
      reports \<and> En_history e = drop (length ss - 10) ss"
    using assms
  proof (induction ss arbitrary: reports e rule: rev_induct)
    case Nil
    then show ?case by (auto simp: NewEngine_def)
  next
    case (snoc s ss)
    obtain reports' e' where run: "engine_run (NewEngine t analyzer) ss = (reports', e')" by fastforce
    note IH = snoc.IH [OF run]
    have split: "reports = reports' @ [fst (Diagnose s e')]" "e = snd (Diagnose s e')"
      using snoc.prems run by (auto simp: engine_run_snoc Let_def split: prod.splits)
    have "En_history e = drop (length (ss @ [s]) - 10) (ss @ [s])"
      using IH appendHistory_history [of e' s] drop_drop_append [of "length ss - 10" ss 10 s]
      by (simp add: split(2) Diagnose_def Let_def)
    then show ?case using IH
      by (auto simp: split Diagnose_def Let_def hasActionable_Evaluate split: option.splits)
  qed
  with counts show ?thesis by (simp add: list_all_iff)
qed

text \<open>A quiet window, analysed without AI.\<close>

theorem engine_run_reports_witness:
  "En_history (snd (engine_run (NewEngine DefaultThresholds (None :: (AnalysisRequest \<Rightarrow>
     string option \<times> bool) option)) [empty_signals 30 30])) = [empty_signals 30 30]"
  using engine_run_reports [OF prod.collapse [symmetric], of DefaultThresholds
      "None :: (AnalysisRequest \<Rightarrow> string option \<times> bool) option" "[empty_signals 30 30]"] by simp

end
