(* ===== verification/Pipeline.thy ===== *)
theory Pipeline
  imports TcpMonitor FdTrack OomTrack DiskIo Engine
begin

text \<open>
  From the hooks to the diagnosis: the records a run of a program submits, stored in ring buffer
  slots, decoded and recorded by a collector, and what its snapshot and the rules make of them.
\<close>

section \<open>TCP\<close>

primrec tcp_in_env :: "tcp_input \<Rightarrow> bpf_env" where
  "tcp_in_env (TcpRetransmit env _ _) = env"
| "tcp_in_env (TcpSetState env _ _) = env"

text \<open>The contract of the helpers, and slots of the size reserved.\<close>

definition tcp_input_ok :: "tcp_input \<Rightarrow> bool" where
  "tcp_input_ok i \<longleftrightarrow> helpers_ok (tcp_in_env i) \<and>
     (case tcp_in_slot i of None \<Rightarrow> True | Some e \<Rightarrow> length (te_pad e) = 4)"

definition tcp_go_event :: "tcp_event \<Rightarrow> TCPEvent" where
  "tcp_go_event e =
     \<lparr>TE_TimestampNs = te_timestamp_ns e, TE_CgroupID = te_cgroup_id e, TE_PID = te_pid e,
      TE_SAddr = te_saddr e, TE_DAddr = te_daddr e, TE_SPort = te_sport e,
      TE_DPort = te_dport e, TE_Family = te_family e, TE_EventType = te_event_type e,
      TE_State = te_state e, TE_RTTUs = te_rtt_us e, TE_Retransmits = te_retransmits e,
      TE_Comm = te_comm e, TE_Pad = te_pad e\<rparr>"

definition tcp_observed :: "tcp_event list \<Rightarrow> bytes list \<Rightarrow> TCPEvent list" where
  "tcp_observed es mems = consumed DecodeTCPEvent (map2 tcp_event_image es mems)"

lemma tcp_emits_sizes:
  "tcp_input_ok i \<Longrightarrow> e \<in> set (tcp_emits i) \<Longrightarrow> length (te_comm e) = TASK_COMM_LEN \<and> length (te_pad e) = 4"
  by (cases i) (auto simp: tcp_emit_defs tcp_input_ok_def helper_simps split: option.splits if_splits)

lemma tcp_observed_run:
  assumes "list_all tcp_input_ok is" "es = tcp_events (tcp_run tcp_init is)"
    and "length mems = length es" "list_all (\<lambda>m. length m = csize struct_tcp_event) mems"
  shows "tcp_observed es mems = map tcp_go_event es"
proof -
  have "length (te_comm e) = TASK_COMM_LEN \<and> length (te_pad e) = 4" if "e \<in> set es" for e
    using that assms(1,2) tcp_emits_sizes
    by (auto simp: tcp_run_events tcp_init_def list_all_iff)
  then show ?thesis unfolding tcp_observed_def using assms(3,4)
    by (intro consumed_images) (simp_all add: decode_tcp_image tcp_go_event_def list_all_iff)
qed

text \<open>A hook invocation that records a retransmission.\<close>

definition tcp_retransmits :: "tcp_input \<Rightarrow> bool" where
  "tcp_retransmits i \<longleftrightarrow> tcp_kind i = Some TCP_EVENT_RETRANSMIT \<and> tcp_in_slot i \<noteq> None"

lemma tcp_emits_retransmits:
  "length (filter (\<lambda>e. is_retransmit (tcp_go_event e)) (tcp_emits i)) =
     (if tcp_retransmits i then 1 else 0)"
proof -
  have "length (filter (\<lambda>e. is_retransmit (tcp_go_event e)) es) =
      count_list (map te_event_type es) TCP_EVENT_RETRANSMIT" for es
    by (induction es) (simp_all add: is_retransmit_def tcp_go_event_def TCP_EVENT_RETRANSMIT_def)
  then show ?thesis by (auto simp: tcp_emits_types tcp_retransmits_def split: option.splits)
qed

text \<open>A retransmission from 10.0.0.1 to 10.0.0.2.\<close>

definition demo_retransmit_ctx :: bytes where
  "demo_retransmit_ctx = zero_with st_trace_event_raw_tcp_retransmit_skb
     [(''sport'', le_bytes 2 (443 :: u16)), (''dport'', le_bytes 2 (80 :: u16)),
      (''family'', le_bytes 2 AF_INET), (''saddr'', [10, 0, 0, 1]), (''daddr'', [10, 0, 0, 2])]"

definition demo_tcp_slot :: tcp_event where
  "demo_tcp_slot = \<lparr>te_timestamp_ns = 0, te_cgroup_id = 0, te_pid = 0, te_saddr = 0, te_daddr = 0,
     te_sport = 0, te_dport = 0, te_family = 0, te_event_type = 0, te_state = 0, te_rtt_us = 0,
     te_retransmits = 0, te_comm = [], te_pad = [0, 0, 0, 0]\<rparr>"

lemma demo_retransmit_loads:
  "ctx_load st_trace_event_raw_tcp_retransmit_skb ''family'' demo_retransmit_ctx = AF_INET"
  "cload st_trace_event_raw_tcp_retransmit_skb ''saddr'' demo_retransmit_ctx = [10, 0, 0, 1]"
  "length demo_retransmit_ctx = csize st_trace_event_raw_tcp_retransmit_skb"
  by (simp_all add: demo_retransmit_ctx_def load_eval st_trace_event_raw_tcp_retransmit_skb_def)

text \<open>C11: the round-trip rule can never fire, the retransmission rule sees every retransmission.
  Whatever a run of the TCP program submits, once decoded and collected, gives a snapshot whose
  RTT percentiles are all zero, so \<open>tcp_rtt_degradation\<close> is never reported; and its number of
  retransmissions is the number of IPv4 retransmission hooks that found space.\<close>

theorem tcp_rtt_rule_silent:
  assumes "list_all tcp_input_ok is" "es = tcp_events (tcp_run tcp_init is)"
    and "length mems = length es" "list_all (\<lambda>m. length m = csize struct_tcp_event) mems"
    and "length es < 2 ^ 53"
    and "snap = tcp_Snapshot sort_Slice (tcp_collect connCap (tcp_observed es mems))"
  shows "Tc_RTTs snap = \<lparr>P50 = 0, P95 = 0, P99 = 0, PMax = 0\<rparr> \<and>
    evalTCPRTTDegradation (s\<lparr>Sg_TCP := Some snap\<rparr>) = [] \<and>
    unat (Tc_TotalRetransmits snap) = length (filter tcp_retransmits is)"
proof -
  have obs: "tcp_observed es mems = map tcp_go_event es" by (rule tcp_observed_run [OF assms(1-4)])
  have "te_rtt_us e = 0" if "e \<in> set es" for e
    using that assms(2) tcp_emits_fields by (auto simp: tcp_run_events tcp_init_def)
  then have "filter has_rtt (map tcp_go_event es) = []"
    by (auto simp: filter_empty_conv has_rtt_def tcp_go_event_def)
  then have rtt: "Tc_RTTs snap = \<lparr>P50 = 0, P95 = 0, P99 = 0, PMax = 0\<rparr>"
    using histogramPercentiles_empty
    by (simp add: assms(6) tcp_Snapshot_def tcp_collect_eq obs hist_Snapshot_of
        histogramPercentiles_def Let_def)
  have "length (filter (\<lambda>e. is_retransmit (tcp_go_event e)) es) =
      length (filter tcp_retransmits is)"
    unfolding assms(2) by (induction "is")
      (simp_all add: tcp_run_events tcp_init_def tcp_emits_retransmits)
  moreover have "unat (of_nat (length (filter is_retransmit (map tcp_go_event es))) :: u64) =
      length (filter is_retransmit (map tcp_go_event es))"
    using count_u64(1) [OF length_filter_le, of "map tcp_go_event es" is_retransmit] assms(5)
    by (simp only: length_map)
  ultimately have "unat (Tc_TotalRetransmits snap) = length (filter tcp_retransmits is)"
    by (simp add: assms(6) tcp_Snapshot_def tcp_collect_eq obs Let_def filter_map comp_def)
  with rtt show ?thesis by (simp add: evalTCPRTTDegradation_def)
qed

lemma demo_tcp_run: "tcp_emits (TcpRetransmit (demo_env 42 1000) (Some demo_tcp_slot) demo_retransmit_ctx) \<noteq> []"
  by (simp add: tcp_emit_defs demo_retransmit_loads)

theorem tcp_rtt_rule_silent_witness:
  "unat (Tc_TotalRetransmits (tcp_Snapshot isort_by (tcp_collect 8192 (tcp_observed
     (tcp_events (tcp_run tcp_init
        [TcpRetransmit (demo_env 42 1000) (Some demo_tcp_slot) demo_retransmit_ctx]))
     [replicate 64 170])))) = 1"
proof -
  let ?i = "TcpRetransmit (demo_env 42 1000) (Some demo_tcp_slot) demo_retransmit_ctx"
  have "tcp_input_ok ?i" by (simp add: tcp_input_ok_def helper_simps demo_tcp_slot_def)
  moreover have "length (tcp_events (tcp_run tcp_init [?i])) = 1"
    by (simp add: tcp_run_events tcp_init_def tcp_emit_defs demo_retransmit_loads)
  moreover have "tcp_retransmits ?i"
    by (simp add: tcp_retransmits_def demo_retransmit_loads)
  ultimately show ?thesis
    using tcp_rtt_rule_silent [of "[?i]", OF _ refl _ _ _ refl, of "[replicate 64 170]" isort_by 8192]
    by (simp add: event_size)
qed

section \<open>Descriptors\<close>

primrec fd_in_env :: "fd_input \<Rightarrow> bpf_env" where
  "fd_in_env (FdOpenat env _ _) = env"
| "fd_in_env (FdClose env _ _) = env"

definition fd_go_event :: "fd_event \<Rightarrow> FDEvent" where
  "fd_go_event e =
     \<lparr>FE_TimestampNs = fe_timestamp_ns e, FE_CgroupID = fe_cgroup_id e,
      FE_PID = fe_pid e, FE_FD = fe_fd e, FE_Op = fe_op e, FE_Pad0 = fe_pad e,
      FE_Comm = fe_comm e\<rparr>"

definition fd_observed :: "fd_event list \<Rightarrow> bytes list \<Rightarrow> FDEvent list" where
  "fd_observed es mems = consumed DecodeFDEvent (map2 fd_event_image es mems)"

lemma fd_emits_sizes:
  "helpers_ok (fd_in_env i) \<Longrightarrow> e \<in> set (fd_emits i) \<Longrightarrow>
   length (fe_comm e) = TASK_COMM_LEN \<and> length (fe_pad e) = 7"
  by (cases i) (auto simp: fd_emits_def fd_init_def fd_handler_defs Let_def helper_simps
      split: option.splits if_splits)

lemma fd_observed_run:
  assumes "list_all (\<lambda>i. helpers_ok (fd_in_env i)) is" "es = fd_events (fd_run fd_init is)"
    and "length mems = length es" "list_all (\<lambda>m. length m = csize struct_fd_event) mems"
  shows "fd_observed es mems = map fd_go_event es"
proof -
  have "length (fe_comm e) = TASK_COMM_LEN \<and> length (fe_pad e) = 7" if "e \<in> set es" for e
    using that assms(1,2) fd_emits_sizes
    by (auto simp: fd_run_events fd_init_def list_all_iff)
  then show ?thesis unfolding fd_observed_def using assms(3,4)
    by (intro consumed_images) (simp_all add: decode_fd_image fd_go_event_def list_all_iff)
qed

text \<open>A successful operation of any process that found space.\<close>

definition fd_observes_any :: "u8 \<Rightarrow> fd_input \<Rightarrow> bool" where
  "fd_observes_any op i \<longleftrightarrow> fd_observes (hi32 (h_pid_tgid (fd_in_env i))) op i"

lemma fd_emits_op:
  "length (filter (\<lambda>e. fe_op e = op) (fd_emits i)) = (if fd_observes_any op i then 1 else 0)"
proof -
  let ?p = "hi32 (h_pid_tgid (fd_in_env i))"
  have "\<forall>e \<in> set (fd_emits i). fe_pid e = ?p"
    by (cases i) (auto simp: fd_emits_def fd_init_def fd_handler_defs Let_def
        split: option.splits if_splits)
  then have "filter (\<lambda>e. fe_op e = op) (fd_emits i) =
      filter (\<lambda>e. fe_pid e = ?p \<and> fe_op e = op) (fd_emits i)"
    by (intro filter_cong refl) auto
  then show ?thesis using fd_emits_count [of ?p op i] by (simp add: fd_observes_any_def)
qed

lemma fd_run_op:
  "length (filter (\<lambda>e. fe_op e = op) (fd_events (fd_run fd_init is))) =
   length (filter (fd_observes_any op) is)"
  by (induction "is") (simp_all add: fd_run_events fd_init_def fd_emits_op)

text \<open>C10: the leak signal is the leak. Decoded and collected at any instants, the records of a run
  of the descriptor program give a snapshot whose net delta is the number of successful opens
  less the number of successful closes that found space in the ring buffer; with a positive
  threshold the leak rule can only fire when more descriptors were opened than closed.\<close>

theorem fd_leak_signal:
  assumes "list_all (\<lambda>i. helpers_ok (fd_in_env i)) is" "es = fd_events (fd_run fd_init is)"
    and "length mems = length es" "list_all (\<lambda>m. length m = csize struct_fd_event) mems"
    and "length es < 2 ^ 53" "length stamps = length es" "0 < Th_FDGrowthPerSec t"
    and "snap = fd_Snapshot sort_Slice now
           (fd_collect start keyCap (zip stamps (fd_observed es mems)))"
  shows "sint (Fd_TotalDelta snap) =
      int (length (filter (fd_observes_any FD_OP_OPEN) is)) -
      int (length (filter (fd_observes_any FD_OP_CLOSE) is)) \<and>
    (evalFDLeak (s\<lparr>Sg_FD := Some snap\<rparr>) t \<noteq> [] \<longrightarrow>
      length (filter (fd_observes_any FD_OP_CLOSE) is) <
      length (filter (fd_observes_any FD_OP_OPEN) is))"
proof -
  let ?es = "zip stamps (fd_observed es mems)"
  have obs: "fd_observed es mems = map fd_go_event es" by (rule fd_observed_run [OF assms(1-4)])
  have len: "length ?es = length es" using assms(6) by (simp add: obs)
  have count: "fd_count op ?es = length (filter (fd_observes_any op) is)" for op
  proof -
    have "fd_count op (zip ts (map fd_go_event xs)) = length (filter (\<lambda>e. fe_op e = op) xs)"
      if "length ts = length xs" for ts :: "int list" and xs
      using that by (induction ts xs rule: list_induct2)
        (simp_all add: fd_count_def fd_op_is_def fd_go_event_def)
    from this [OF assms(6)] show ?thesis unfolding obs using fd_run_op [of op "is"] assms(2) by simp
  qed
  have cnt: "fd_count 1 ?es < 2 ^ 53" "fd_count 2 ?es < 2 ^ 53"
    using fd_count_le [of _ ?es] assms(5) unfolding len by (meson le_less_trans)+
  let ?d = "of_nat (fd_count 1 ?es) - of_nat (fd_count 2 ?es) :: u64"
  have delta: "sint ?d = int (fd_count 1 ?es) - int (fd_count 2 ?es)"
    using cnt by (intro net_delta) (auto intro: less_trans)
  have small: "\<bar>sint ?d\<bar> < 2 ^ 53" unfolding delta by (rule net_delta_small [OF cnt])
  have rate: "Fd_TotalRate snap = f64 (f64 (of_int (sint ?d)) / elapsed_or_1 now start)"
    and net: "Fd_TotalDelta snap = ?d"
    by (simp_all add: assms(8) fd_Snapshot_def fd_collect_eq Let_def)
  have "fd_count 2 ?es < fd_count 1 ?es" if "evalFDLeak (s\<lparr>Sg_FD := Some snap\<rparr>) t \<noteq> []"
  proof -
    have "0 < Fd_TotalRate snap" using that assms(7) by (auto simp: evalFDLeak_def split: if_splits)
    then have "0 < sint ?d" unfolding rate rate_sign [OF elapsed_or_1_bounds small] .
    then show ?thesis unfolding delta by linarith
  qed
  then show ?thesis unfolding net delta
    using count [of 1] count [of 2] by (simp add: FD_OP_OPEN_def FD_OP_CLOSE_def)
qed

definition demo_fd_input :: fd_input where
  "demo_fd_input = FdOpenat (demo_env 42 1000) (Some \<lparr>fe_timestamp_ns = 0, fe_cgroup_id = 0,
     fe_pid = 0, fe_fd = 0, fe_op = 0, fe_pad = [], fe_comm = []\<rparr>)
     (zero_with st_trace_event_raw_sys_exit [])"

theorem fd_leak_signal_witness:
  "sint (Fd_TotalDelta (fd_Snapshot isort_by 9 (fd_collect 0 4096 (zip [5]
     (fd_observed (fd_events (fd_run fd_init [demo_fd_input])) [replicate 48 170]))))) = 1"
proof -
  have obs: "fd_observes_any FD_OP_OPEN demo_fd_input" "\<not> fd_observes_any FD_OP_CLOSE demo_fd_input"
    by (simp_all add: fd_observes_any_def demo_fd_input_def load_eval st_trace_event_raw_sys_exit_def
        le_word_def FD_OP_OPEN_def FD_OP_CLOSE_def)
  have "length (fd_events (fd_run fd_init [demo_fd_input])) = 1"
    by (simp add: fd_run_events fd_init_def fd_emits_def fd_handler_defs demo_fd_input_def Let_def
        load_eval st_trace_event_raw_sys_exit_def le_word_def)
  moreover have "helpers_ok (fd_in_env demo_fd_input)"
    by (simp add: demo_fd_input_def helper_simps)
  ultimately show ?thesis
    using fd_leak_signal [of "[demo_fd_input]", OF _ refl _ _ _ _ _ refl, of "[replicate 48 170]"
        "[5]" DefaultThresholds isort_by 9 0 4096] obs
    by (simp add: event_size DefaultThresholds_def)
qed

section \<open>Disk\<close>

text \<open>Every synchronous request counts as a sync. A completion whose \<open>rwbs\<close> flags name it
  synchronous is recorded with operation S whatever its kind, so a synchronous read leaves the
  read counters and bytes unchanged and adds to the sync latency the fsync rule judges.\<close>

theorem disk_sync_reads_counted:
  "diskio_collect (es @ [g\<lparr>DE_Op := disk_op (kind # 83 # flags)\<rparr>]) =
     (diskio_collect es)
       \<lparr>dk_syncHist := hist_Record (DE_LatencyNs g) (dk_syncHist (diskio_collect es)),
        dk_syncs := dk_syncs (diskio_collect es) + 1\<rparr>"
  by (simp add: diskio_collect_def diskio_record_def disk_op_def)

section \<open>OOM kills\<close>

lemma oom_decoded_name:
  assumes "oc = ctx_load st_pt_regs ''di'' regs"
    and "victim = (le_word (h_core_read env (oc + 40) 8) :: u64)" "victim \<noteq> 0"
    and "\<forall>dst. length dst = TASK_COMM_LEN \<longrightarrow>
      h_core_read_str env (victim + 3248) dst = name @ 0 # drop (length name + 1) dst"
    and "length name < TASK_COMM_LEN" "0 \<notin> set name" "length (oe_comm e0) = TASK_COMM_LEN"
    and "length mem = csize struct_oom_event"
  shows "\<exists>e g. oom_emits env (Some e0) regs = [e] \<and>
    DecodeOOMEvent (oom_event_image e mem) = Inr g \<and> nullTermString (OE_Comm g) = name"
proof -
  let ?e = "hd (oom_emits env (Some e0) regs)"
  have emit: "oom_emits env (Some e0) regs = [?e]"
    "oe_comm ?e = h_core_read_str env (victim + 3248) (oe_comm e0)"
    using assms(1-3) unfolding oom_emits_def kprobe_oom_kill_def oom_core_reads Let_def
    by simp_all
  then have comm: "oe_comm ?e = name @ 0 # drop (length name + 1) (oe_comm e0)"
    using assms(4,7) by simp
  then have "length (oe_comm ?e) = TASK_COMM_LEN" using assms(5,7) by simp
  from decode_oom_image [OF assms(8) this] emit(1) show ?thesis
    using nullTermString_app [OF assms(6)] comm by force
qed

text \<open>The victim is called nginx, and the slot still holds 255 in every byte.\<close>

definition demo_oom_env :: bpf_env where
  "demo_oom_env = (demo_env 42 1000)
     \<lparr>h_core_read_str := (\<lambda>_ dst. [110, 103, 105, 110, 120] @ 0 # drop 6 dst)\<rparr>"

definition demo_oom_slot :: oom_event where
  "demo_oom_slot = \<lparr>oe_timestamp_ns = 0, oe_cgroup_id = 0, oe_total_pages = 0, oe_rss_pages = 0,
     oe_pid = 0, oe_triggered_pid = 0, oe_oom_score = 0, oe_pad = 0,
     oe_comm = replicate TASK_COMM_LEN 255\<rparr>"

lemma demo_oom_victim: "le_word (h_core_read demo_oom_env a 8) \<noteq> (0 :: u64)"
proof -
  have "replicate 8 (1 :: u8) = [1, 1, 1, 1, 1, 1, 1, 1]" by (simp add: eval_nat_numeral)
  then show ?thesis by (simp add: demo_oom_env_def demo_env_def le_word_def)
qed

text \<open>C9: an OOM kill heads the report. When the kernel kills a process and the ring buffer has
  space, the decoded event, collected after any others, puts a critical finding with the victim's
  name into the diagnosis, and the first finding of the ranked report is critical, whatever the
  other signals and thresholds are.\<close>

theorem oom_kill_heads_report:
  assumes "oc = ctx_load st_pt_regs ''di'' regs"
    and "victim = (le_word (h_core_read env (oc + 40) 8) :: u64)" "victim \<noteq> 0"
    and "\<forall>dst. length dst = TASK_COMM_LEN \<longrightarrow>
      h_core_read_str env (victim + 3248) dst = name @ 0 # drop (length name + 1) dst"
    and "length name < TASK_COMM_LEN" "0 \<notin> set name" "length (oe_comm e0) = TASK_COMM_LEN"
    and "length mem = csize struct_oom_event"
    and "gs = consumed DecodeOOMEvent (map (\<lambda>e. oom_event_image e mem) (oom_emits env (Some e0) regs))"
    and "report = Evaluate (s\<lparr>Sg_OOM := Some (oomc_Snapshot (oomc_collect (es @ gs)))\<rparr>) t"
  shows "Fi_Severity (hd report) = SeverityCritical \<and>
    (\<exists>f \<in> set report. Fi_Rule f = ''oom_kill_occurred'' \<and> Fi_Process f = name)"
proof -
  obtain e g where e: "oom_emits env (Some e0) regs = [e]"
    and g: "DecodeOOMEvent (oom_event_image e mem) = Inr g" "nullTermString (OE_Comm g) = name"
    using oom_decoded_name [OF assms(1-8)] by blast
  have gs: "gs = [g]" by (simp add: assms(9) e consumed_def g(1))
  let ?s = "s\<lparr>Sg_OOM := Some (oomc_Snapshot (oomc_collect (es @ gs)))\<rparr>"
  let ?c = "oomc_collect (es @ [g])"
  have last: "oom_entry g \<in> set (om_events ?c)" "om_events ?c \<noteq> []"
    by (auto simp: oomc_collect_def oomc_record_def Let_def)
  obtain f where f: "f \<in> set (evalOOMKillOccurred ?s)" "Fi_Rule f = ''oom_kill_occurred''"
      "Fi_Process f = name" "Fi_Severity f = SeverityCritical"
    using oom_finding [of "oom_entry g" "oomc_Snapshot ?c" ?s] last g(2)
    by (auto simp: oomc_Snapshot_def gs oom_entry_def)
  have mem: "f \<in> set report" "rule_findings ?s t \<noteq> []"
    unfolding assms(10) by (rule oom_findings_reported [OF f(1)])+
  then have ne: "report \<noteq> []" by auto
  have "Fi_Severity f \<le> Fi_Severity (hd report)"
  proof (cases "f = hd report")
    case False
    have "sorted_wrt (\<lambda>x y. Fi_Severity y \<le> Fi_Severity x) (hd report # tl report)"
      using RankFindings_severity ne by (simp add: assms(10) Evaluate_eq)
    moreover have "f \<in> set (tl report)" using mem(1) ne False by (metis list.collapse set_ConsD)
    ultimately show ?thesis by simp
  qed simp
  then have "Fi_Severity (hd report) = SeverityCritical"
    using f(4) by (cases "Fi_Severity (hd report)") (simp_all add: less_eq_Severity_def)
  with mem(1) f show ?thesis by blast
qed

theorem oom_kill_heads_report_witness:
  "Fi_Severity (hd (Evaluate ((empty_signals 0 0)\<lparr>Sg_OOM := Some (oomc_Snapshot (oomc_collect ([] @
     consumed DecodeOOMEvent (map (\<lambda>e. oom_event_image e (replicate 64 255))
       (oom_emits demo_oom_env (Some demo_oom_slot) (replicate 168 0))))))\<rparr>) DefaultThresholds)) =
   SeverityCritical"
  by (rule conjunct1 [OF oom_kill_heads_report [OF refl refl demo_oom_victim _ _ _ _ _ refl refl,
        of _ "[110, 103, 105, 110, 120]"]], simp_all add: demo_oom_env_def demo_oom_slot_def
      event_size kerno_consts, simp add: eval_nat_numeral)

end
