(* ===== verification/CAlign.thy ===== *)
theory CAlign
  imports CLayout
begin

text \<open>
  Well-formed C types and what the layout guarantees for them: every alignment is a power of two,
  the size is a multiple of it, and every member found by its name, through any nesting of anonymous
  structures and unions, is aligned for its own type. Packed structures are excluded.
\<close>

fun wf_type :: "ctype \<Rightarrow> bool" and wf_members :: "cmember list \<Rightarrow> bool" where
  "wf_type (CInt _ n) = (n \<in> {1, 2, 4, 8})"
| "wf_type (CEnum n _) = (n \<in> {1, 2, 4, 8})"
| "wf_type (Ptr _) = True"
| "wf_type (Arr t _) = wf_type t"
| "wf_type (Struct ms) = wf_members ms"
| "wf_type (Packed ms) = False"
| "wf_type (Union ms) = wf_members ms"
| "wf_members [] = True"
| "wf_members (Field _ t # ms) = (wf_type t \<and> wf_members ms)"
| "wf_members (Bits _ t _ # ms) = (wf_type t \<and> wf_members ms)"

lemma max_align: "a \<in> {1, 2, 4, 8} \<Longrightarrow> b \<in> {1, 2, 4, 8} \<Longrightarrow>
    max a b \<in> {1, 2, 4, 8} \<and> a dvd max a b \<and> b dvd max a (b :: nat)"
  by (auto simp: max_def)

lemma wf_align:
  "wf_type t \<Longrightarrow> calign t \<in> {1, 2, 4, 8} \<and> calign t dvd csize t"
  "wf_members ms \<Longrightarrow> caligns ms \<in> {1, 2, 4, 8}"
proof (induction t and ms rule: wf_type_wf_members.induct)
  case (5 ms)
  then have "0 < caligns ms" by auto
  then show ?case using 5 roundup_dvd by simp
next
  case (7 ms)
  then have "0 < caligns ms" by auto
  then show ?case using 7 roundup_dvd by simp
next
  case (9 x t ms)
  then show ?case using max_align [of "calign t" "caligns ms"] by simp
next
  case (10 x t w ms)
  then show ?case using max_align [of "calign t" "caligns ms"] by simp
qed (auto intro: dvd_mult2)

text \<open>A field in a structure that is not packed starts at a byte aligned for its type.\<close>

lemma fstart_aligned: "0 < a \<Longrightarrow> 8 dvd fstart False a p \<and> a dvd fstart False a p div 8"
proof -
  assume "0 < a"
  then have "8 * a dvd fstart False a p" using roundup_dvd [of "8 * a" p] by (simp add: fstart_def)
  then obtain k where "fstart False a p = 8 * a * k" by (elim dvdE)
  then show ?thesis by simp
qed

lemma cfield_aligned_aux:
  "wf_type t \<Longrightarrow> cfield t f = Some (off, u) \<Longrightarrow> wf_type u \<and> calign u dvd off \<and> calign u dvd calign t"
  "wf_members ms \<Longrightarrow> \<not> pk \<Longrightarrow> cfind pk ms p f = Some (off, u) \<Longrightarrow>
     wf_type u \<and> calign u dvd off \<and> calign u dvd caligns ms"
  "wf_members ms \<Longrightarrow> ufind ms f = Some (off, u) \<Longrightarrow>
     wf_type u \<and> calign u dvd off \<and> calign u dvd caligns ms"
proof (induction t f and pk ms p f and ms f arbitrary: off u and off u and off u
    rule: cfield_cfind_ufind.induct)
  case (6 pk x t ms p f)
  have t: "calign t \<in> {1, 2, 4, 8}" and ms: "caligns ms \<in> {1, 2, 4, 8}"
    using "6.prems"(1) wf_align by auto
  note up = max_align [OF t ms]
  have start: "calign t dvd fstart pk (calign t) p div 8"
    using fstart_aligned [of "calign t" p] "6.prems"(2) t by auto
  show ?case
  proof (cases "x = f")
    case True
    then show ?thesis using "6.prems" start up by (auto simp: Let_def)
  next
    case neq: False
    show ?thesis
    proof (cases "if x = '''' then cfield t f else None")
      case None
      then have "cfind pk ms (fstart pk (calign t) p + 8 * csize t) f = Some (off, u)"
        using "6.prems"(3) neq by (simp add: Let_def split: if_splits option.splits)
      then have "wf_type u \<and> calign u dvd off \<and> calign u dvd caligns ms"
        using "6.IH"(2) [OF neq None] "6.prems" by simp
      then show ?thesis using up dvd_trans by simp blast
    next
      case (Some r)
      then obtain o1 where r: "r = (o1, u)" "off = fstart pk (calign t) p div 8 + o1" and x: "x = ''''"
        using "6.prems"(3) neq by (cases r) (auto simp: Let_def split: if_splits)
      have "cfield t f = Some (o1, u)" using Some r x by simp
      then have "wf_type u \<and> calign u dvd o1 \<and> calign u dvd calign t"
        using "6.IH"(1) [OF neq x] "6.prems"(1) by simp
      moreover from this have "calign u dvd fstart pk (calign t) p div 8" using start dvd_trans by blast
      ultimately show ?thesis using r(2) up dvd_trans by simp blast
    qed
  qed
next
  case (7 pk x t w ms p f)
  have "calign t \<in> {1, 2, 4, 8}" "caligns ms \<in> {1, 2, 4, 8}"
    using "7.prems"(1) wf_align by auto
  note up = max_align [OF this]
  have "wf_type u \<and> calign u dvd off \<and> calign u dvd caligns ms" using 7 by simp
  then show ?case using up dvd_trans by simp blast
next
  case (9 x t ms f)
  have "calign t \<in> {1, 2, 4, 8}" "caligns ms \<in> {1, 2, 4, 8}"
    using "9.prems"(1) wf_align by auto
  note up = max_align [OF this]
  have "wf_type u \<and> calign u dvd off \<and> (calign u dvd calign t \<or> calign u dvd caligns ms)"
    using 9 by (auto split: if_splits option.splits)
  then show ?case using up dvd_trans by simp blast
next
  case (10 x t w ms f)
  have "calign t \<in> {1, 2, 4, 8}" "caligns ms \<in> {1, 2, 4, 8}"
    using "10.prems"(1) wf_align by auto
  note up = max_align [OF this]
  have "wf_type u \<and> calign u dvd off \<and> calign u dvd caligns ms" using 10 by simp
  then show ?case using up dvd_trans by simp blast
qed auto

text \<open>The typing of member access: a member of a well-formed type is itself well formed, lies inside
  the object at an offset its type is aligned for, and the object's alignment covers it.\<close>

definition member_access_ok :: "ctype \<Rightarrow> string \<Rightarrow> bool" where
  "member_access_ok t f =
     (case cfield t f of
        None \<Rightarrow> True
      | Some (off, u) \<Rightarrow> wf_type u \<and> off + csize u \<le> csize t \<and> calign u dvd off \<and>
          calign u dvd csize u \<and> calign u dvd calign t)"

lemma wf_member_access: "wf_type t \<Longrightarrow> member_access_ok t f"
  using cfield_inside cfield_aligned_aux(1) wf_align(1)
  by (auto simp: member_access_ok_def split: option.splits)

end
