(* ===== verification/KernelTyping.thy ===== *)
theory KernelTyping
  imports CAlign OomTrack SyscallLatency DiskIo SchedDelay TcpMonitor FdTrack
begin

text \<open>
  The types through which the eBPF programs touch memory are well formed: the tracepoint contexts,
  the register file, the kernel objects the OOM probe reads and the six records. The verifier of the
  kernel refuses a program with a misaligned or out-of-bounds access to a context or a record.
\<close>

lemmas accessed_type_defs =
  struct_fd_event_def td___u8_def td___s32_def td___u32_def td___u64_def struct_sched_event_def
  struct_disk_event_def struct_oom_event_def struct_tcp_event_def td___u16_def
  struct_syscall_event_def st_task_struct_def st_task_struct_members_2_def st_thread_struct_def
  st_thread_shstk_def td_u64_def td_u32_def st_desc_struct_def td_u16_def un_rv_task_monitor_def
  st_ltl_monitor_def st_da_monitor_def td_bool_def st_callback_head_def st_llist_head_def
  td_refcount_t_def st_refcount_struct_def td_atomic_t_def st_timer_list_def st_hlist_node_def
  st_kmap_ctrl_def st_latency_record_def st_page_frag_def st_tlbflush_unmap_batch_def
  st_arch_tlbflush_unmap_batch_def st_cpumask_def td_u8_def st_list_head_def st_mutex_def
  st_optimistic_spin_queue_def td_raw_spinlock_t_def st_raw_spinlock_def td_arch_spinlock_t_def
  st_qspinlock_def td_atomic_long_t_def td_atomic64_t_def td_s64_def td___s64_def
  td_seqcount_spinlock_t_def st_seqcount_spinlock_def td_seqcount_t_def st_seqcount_def
  td_nodemask_t_def st_task_io_accounting_def st_rb_root_cached_def st_rb_root_def
  st_wake_q_node_def td_spinlock_t_def st_spinlock_def st_syscall_user_dispatch_def st_seccomp_def
  td_kuid_t_def td_uid_t_def td___kernel_uid32_t_def td_size_t_def td___kernel_size_t_def
  td___kernel_ulong_t_def st_sigpending_def td_sigset_t_def st_task_struct_members_1_def
  st_sysv_shm_def st_sysv_sem_def st_posix_cputimers_work_def st_posix_cputimers_def
  st_posix_cputimer_base_def st_timerqueue_head_def st_vtime_def en_vtime_state_def
  st_prev_cputime_def td_pid_t_def td___kernel_pid_t_def st_restart_block_def en_timespec_type_def
  td_clockid_t_def td___kernel_clockid_t_def st_rb_node_def st_plist_node_def st_sched_info_def
  un_rcu_special_def td_cpumask_t_def st_hlist_head_def st_sched_statistics_def st_uclamp_se_def
  st_sched_ext_entity_def td_s32_def st_scx_dsq_list_node_def st_sched_dl_entity_def
  td_dl_server_pick_f_def st_hrtimer_def td_ktime_t_def st_timerqueue_node_def
  st_sched_rt_entity_def st_sched_entity_def st_sched_avg_def st_load_weight_def
  st___call_single_node_def st_llist_node_def st_thread_info_def st_oom_control_def
  en_oom_constraint_def td_gfp_t_def st_pt_regs_def st_fred_ss_def st_fred_cs_def
  st_trace_event_raw_inet_sock_set_state_def st_trace_entry_def
  st_trace_event_raw_tcp_retransmit_skb_def st_trace_event_raw_sched_switch_def
  st_trace_event_raw_sched_wakeup_template_def st_trace_event_raw_block_rq_completion_def
  td_sector_t_def td_dev_t_def td___kernel_dev_t_def st_trace_event_raw_block_rq_def
  st_trace_event_raw_sys_exit_def

text \<open>The types of the memory the programs read and write.\<close>

definition program_types :: "ctype list" where
  "program_types =
     [st_trace_event_raw_sys_exit, st_trace_event_raw_block_rq, st_trace_event_raw_block_rq_completion,
      st_trace_event_raw_sched_wakeup_template, st_trace_event_raw_sched_switch,
      st_trace_event_raw_tcp_retransmit_skb, st_trace_event_raw_inet_sock_set_state,
      st_pt_regs, st_oom_control, st_task_struct,
      struct_syscall_event, struct_tcp_event, struct_oom_event, struct_disk_event,
      struct_sched_event, struct_fd_event]"

lemma kernel_types_wf:
  "wf_type st_trace_event_raw_sys_exit" "wf_type st_trace_event_raw_block_rq"
  "wf_type st_trace_event_raw_block_rq_completion" "wf_type st_trace_event_raw_sched_wakeup_template"
  "wf_type st_trace_event_raw_sched_switch" "wf_type st_trace_event_raw_tcp_retransmit_skb"
  "wf_type st_trace_event_raw_inet_sock_set_state" "wf_type st_pt_regs" "wf_type st_oom_control"
  "wf_type st_task_struct"
  by (simp_all add: prim_defs accessed_type_defs)

lemma record_types_wf:
  "wf_type struct_syscall_event" "wf_type struct_tcp_event" "wf_type struct_oom_event"
  "wf_type struct_disk_event" "wf_type struct_sched_event" "wf_type struct_fd_event"
  by (simp_all add: prim_defs accessed_type_defs)

lemma program_types_wf: "t \<in> set program_types \<Longrightarrow> wf_type t"
  by (auto simp: program_types_def kernel_types_wf record_types_wf)

section \<open>What the programs read of their hooks\<close>

text \<open>Every access of a tracepoint program to its context: type, member, and the number of bytes
  it takes.\<close>

definition hook_accesses :: "(ctype \<times> string \<times> nat) list" where
  "hook_accesses =
     [(st_trace_event_raw_sys_exit, ''id'', 8), (st_trace_event_raw_sys_exit, ''ret'', 8),
      (st_trace_event_raw_block_rq, ''sector'', 8),
      (st_trace_event_raw_block_rq_completion, ''sector'', 8),
      (st_trace_event_raw_block_rq_completion, ''dev'', 4),
      (st_trace_event_raw_block_rq_completion, ''nr_sector'', 4),
      (st_trace_event_raw_block_rq_completion, ''rwbs'', 8),
      (st_trace_event_raw_sched_wakeup_template, ''pid'', 4),
      (st_trace_event_raw_sched_switch, ''next_pid'', 4),
      (st_trace_event_raw_sched_switch, ''next_comm'', TASK_COMM_LEN),
      (st_trace_event_raw_tcp_retransmit_skb, ''family'', 2),
      (st_trace_event_raw_tcp_retransmit_skb, ''saddr'', 4),
      (st_trace_event_raw_tcp_retransmit_skb, ''daddr'', 4),
      (st_trace_event_raw_tcp_retransmit_skb, ''sport'', 2),
      (st_trace_event_raw_tcp_retransmit_skb, ''dport'', 2),
      (st_trace_event_raw_tcp_retransmit_skb, ''state'', 4),
      (st_trace_event_raw_inet_sock_set_state, ''family'', 2),
      (st_trace_event_raw_inet_sock_set_state, ''newstate'', 4),
      (st_trace_event_raw_inet_sock_set_state, ''saddr'', 4),
      (st_trace_event_raw_inet_sock_set_state, ''daddr'', 4),
      (st_trace_event_raw_inet_sock_set_state, ''sport'', 2),
      (st_trace_event_raw_inet_sock_set_state, ''dport'', 2)]"

lemmas hook_structs = st_trace_event_raw_sys_exit_def st_trace_event_raw_block_rq_def
  st_trace_event_raw_block_rq_completion_def st_trace_event_raw_sched_wakeup_template_def
  st_trace_event_raw_sched_switch_def st_trace_event_raw_tcp_retransmit_skb_def
  st_trace_event_raw_inet_sock_set_state_def

text \<open>The accesses of the programs to their contexts, to the register file and to the kernel objects of the
  OOM probe are typed and in bounds: the member exists with a well-formed type, the access is no wider than the member
  and lies inside the object, and the member is aligned for its type. The offsets are those listed.\<close>

theorem program_accesses_typed:
  "list_all (\<lambda>(t, f, n). \<exists>off u. cfield t f = Some (off, u) \<and> wf_type u \<and> n \<le> csize u \<and>
     calign u dvd off \<and> off + csize u \<le> csize t) (hook_accesses @ oom_accesses) \<and>
   map (\<lambda>(t, f, n). coffset t f) (hook_accesses @ oom_accesses) =
     [8, 16, 16, 16, 8, 24, 34, 24, 56, 40, 32, 34, 38, 28, 30, 24, 28, 20, 32, 36, 24, 26,
      112, 40, 32, 2708, 48, 3248]"
proof -
  have there: "list_all (\<lambda>(t, f, n). cfield t f \<noteq> None \<and> n \<le> cmsize t f) (hook_accesses @ oom_accesses)"
    by (simp add: hook_accesses_def oom_accesses_def hook_structs field_eval layout_simps kerno_consts)
  have known: "fst ` set (hook_accesses @ oom_accesses) \<subseteq> set program_types"
    by (simp add: hook_accesses_def oom_accesses_def program_types_def)
  have "\<exists>off u. cfield t f = Some (off, u) \<and> wf_type u \<and> n \<le> csize u \<and> calign u dvd off \<and> off + csize u \<le> csize t"
    if "(t, f, n) \<in> set (hook_accesses @ oom_accesses)" for t f n
  proof -
    have "wf_type t" using known that by (intro program_types_wf) force
    then have "member_access_ok t f" by (rule wf_member_access)
    moreover have "cfield t f \<noteq> None \<and> n \<le> cmsize t f"
      using bspec [OF there [unfolded list_all_iff] that] by simp
    ultimately show ?thesis
      unfolding member_access_ok_def cmsize_def by (auto split: option.splits)
  qed
  moreover have "map (\<lambda>(t, f, n). coffset t f) (hook_accesses @ oom_accesses) =
     [8, 16, 16, 16, 8, 24, 34, 24, 56, 40, 32, 34, 38, 28, 30, 24, 28, 20, 32, 36, 24, 26,
      112, 40, 32, 2708, 48, 3248]"
    by (simp add: hook_accesses_def oom_accesses_def hook_structs field_eval layout_simps kerno_consts)
  ultimately show ?thesis by (auto simp: list_all_iff)
qed

end
