(* ===== verification/Predict.thy ===== *)
theory Predict
  imports Doctor
begin

text \<open>
  \<open>internal/doctor/predict.go\<close>: extrapolation of the trends of several snapshots, and the in-place
  insertion sort that ranks the predictions. The square root is the correctly rounded one of
  \<open>math.Sqrt\<close>. The formatted texts of a prediction are left out; the two numbers they show are
  kept.
\<close>

section \<open>Square root\<close>

fun isqrt :: "nat \<Rightarrow> nat" where
  "isqrt n = (if n = 0 then 0
     else let r = 2 * isqrt (n div 4) in if (r + 1) * (r + 1) \<le> n then r + 1 else r)"

declare isqrt.simps [simp del]

text \<open>For a double \<open>x\<close>, \<open>x / 4 ^ e\<close> is an integer whose root has 53 bits; it is never the square of
  a number half way between two integers, so the root is rounded up exactly when the remainder is
  more than the root.\<close>

definition go_Sqrt :: "rat \<Rightarrow> rat" where
  "go_Sqrt x =
     (if x = 0 then 0
      else let e = (f64_exp x - 52) div 2; y = nat \<lfloor>x / 2 powi (2 * e)\<rfloor>; r = isqrt y
           in of_nat (if r < y - r * r then r + 1 else r) * 2 powi e)"

section \<open>Trend analysis\<close>

definition average :: "rat list \<Rightarrow> rat" where
  "average values =
     (if values = [] then 0
      else let sum = foldl (\<lambda>sum v. f64 (sum + v)) 0 values in f64 (sum / f64 (of_nat (length values))))"

definition slope_step :: "rat \<times> rat \<times> rat \<times> rat \<Rightarrow> nat \<times> rat \<Rightarrow> rat \<times> rat \<times> rat \<times> rat" where
  "slope_step acc iy =
     (let (sumX, sumY, sumXY, sumX2) = acc; (i, y) = iy; x = f64 (of_nat i)
      in (f64 (sumX + x), f64 (sumY + y), f64 (sumXY + f64 (x * y)), f64 (sumX2 + f64 (x * x))))"

definition linearSlope :: "rat list \<Rightarrow> rat" where
  "linearSlope values =
     (let n = f64 (of_nat (length values))
      in if n < 2 then 0
         else let (sumX, sumY, sumXY, sumX2) = foldl slope_step (0, 0, 0, 0) (enumerate 0 values);
                  denom = f64 (f64 (n * sumX2) - f64 (sumX * sumX))
              in if denom = 0 then 0
                 else f64 (f64 (f64 (n * sumXY) - f64 (sumX * sumY)) / denom))"

definition rateConsistency :: "rat list \<Rightarrow> rat" where
  "rateConsistency values =
     (if length values < 2 then 1 / 2
      else let avg = average values
      in if avg = 0 then 1 / 2
         else let sumSqDiff = foldl (\<lambda>sum v. let diff = f64 (v - avg) in f64 (sum + f64 (diff * diff)))
                    0 values;
                  stdDev = go_Sqrt (f64 (sumSqDiff / f64 (of_nat (length values))));
                  cv = f64 (stdDev / \<bar>avg\<bar>);
                  confidence = f64 (1 - f64 (cv * (1 / 2)));
                  confidence = (if confidence < f64 (3 / 10) then f64 (3 / 10) else confidence)
              in if f64 (95 / 100) < confidence then f64 (95 / 100) else confidence)"

section \<open>Predictions\<close>

record Prediction =
  Pr_Title :: string
  Pr_Signal :: string
  Pr_TimeToImpact :: int
  Pr_Confidence :: rat
  Pr_CurrentValue :: rat
  Pr_TrendRate :: rat
  Pr_Limit :: string

definition predictFDExhaustion :: "Signals list \<Rightarrow> Prediction list" where
  "predictFDExhaustion snapshots =
     (let rates = concat (map (\<lambda>s. case Sg_FD s of
            Some fd \<Rightarrow> if 0 < Fd_TotalRate fd then [Fd_TotalRate fd] else []
          | None \<Rightarrow> []) snapshots)
      in if length rates < 2 then []
      else let avgRate = average rates
      in if avgRate \<le> 0 then []
      else case Sg_FD (last snapshots) of
        None \<Rightarrow> []
      | Some fd \<Rightarrow>
          (let remaining = f64 (65536 - f64 (of_int (sint (Fd_TotalDelta fd))));
               remaining = (if remaining \<le> 0 then 1 else remaining)
           in case etaDuration (f64 (remaining / avgRate)) of
                None \<Rightarrow> []
              | Some eta \<Rightarrow>
                  [\<lparr>Pr_Title = ''File Descriptor Exhaustion'', Pr_Signal = ''fd'',
                    Pr_TimeToImpact = eta, Pr_Confidence = rateConsistency rates,
                    Pr_CurrentValue = avgRate, Pr_TrendRate = avgRate,
                    Pr_Limit = ''ulimit 65536''\<rparr>]))"

text \<open>The part the three extrapolations of a series share: the slope per snapshot, converted to a
  slope per second over the whole window, against a critical value. When the window has no length
  the quotient is \<open>+Inf\<close> and the time zero, which \<open>etaDuration\<close> rejects.\<close>

definition trend_eta :: "rat list \<Rightarrow> rat \<Rightarrow> Signals list \<Rightarrow> (int \<times> rat) option" where
  "trend_eta values critical snapshots =
     (if length values < 2 then None
      else let slope = linearSlope values
      in if slope \<le> 0 then None
      else let current = last values
      in if critical \<le> current then None
      else let remaining = f64 (critical - current);
               interval = go_Seconds (go_Sub (Sg_Timestamp (last snapshots)) (Sg_Timestamp (hd snapshots)))
      in if interval = 0 then None
      else let slopePerSec = f64 (f64 (slope / interval) * f64 (of_nat (length values - 1)))
      in if slopePerSec \<le> 0 then None
      else map_option (\<lambda>eta. (eta, slopePerSec)) (etaDuration (f64 (remaining / slopePerSec))))"

definition disk_latencies :: "Signals list \<Rightarrow> rat list" where
  "disk_latencies snapshots =
     concat (map (\<lambda>s. case Sg_DiskIO s of
       Some d \<Rightarrow> if 0 < sint (P99 (Dk_SyncLatency d)) then [f64 (of_int (sint (P99 (Dk_SyncLatency d))))]
                 else []
     | None \<Rightarrow> []) snapshots)"

definition predictDiskSaturation :: "Signals list \<Rightarrow> Prediction list" where
  "predictDiskSaturation snapshots =
     (let latencies = disk_latencies snapshots
      in case trend_eta latencies 200000000 snapshots of
           None \<Rightarrow> []
         | Some (eta, slopePerSec) \<Rightarrow>
             [\<lparr>Pr_Title = ''Disk I/O Saturation'', Pr_Signal = ''diskio'', Pr_TimeToImpact = eta,
               Pr_Confidence = f64 (rateConsistency latencies * f64 (8 / 10)),
               Pr_CurrentValue = last latencies, Pr_TrendRate = slopePerSec,
               Pr_Limit = ''200ms critical threshold''\<rparr>])"

definition sched_delays :: "Signals list \<Rightarrow> rat list" where
  "sched_delays snapshots =
     concat (map (\<lambda>s. case Sg_Sched s of
       Some d \<Rightarrow> if 0 < sint (P99 (Sd_Global d)) then [f64 (of_int (sint (P99 (Sd_Global d))))] else []
     | None \<Rightarrow> []) snapshots)"

definition predictSchedDegradation :: "Signals list \<Rightarrow> Prediction list" where
  "predictSchedDegradation snapshots =
     (let delays = sched_delays snapshots
      in case trend_eta delays 20000000 snapshots of
           None \<Rightarrow> []
         | Some (eta, slopePerSec) \<Rightarrow>
             [\<lparr>Pr_Title = ''CPU Scheduler Saturation'', Pr_Signal = ''sched'', Pr_TimeToImpact = eta,
               Pr_Confidence = f64 (rateConsistency delays * f64 (7 / 10)),
               Pr_CurrentValue = last delays, Pr_TrendRate = slopePerSec,
               Pr_Limit = ''20ms critical threshold''\<rparr>])"

definition predictTCPDegradation :: "Signals list \<Rightarrow> Prediction list" where
  "predictTCPDegradation snapshots =
     (let rates = concat (map (\<lambda>s. case Sg_TCP s of
            Some tcp \<Rightarrow> [Tc_RetransmitRate tcp] | None \<Rightarrow> []) snapshots)
      in case trend_eta rates 2 snapshots of
           None \<Rightarrow> []
         | Some (eta, slopePerSec) \<Rightarrow>
             [\<lparr>Pr_Title = ''TCP Retransmit Storm'', Pr_Signal = ''tcp'', Pr_TimeToImpact = eta,
               Pr_Confidence = f64 (rateConsistency rates * (3 / 4)),
               Pr_CurrentValue = last rates, Pr_TrendRate = slopePerSec,
               Pr_Limit = ''2% retransmit threshold''\<rparr>])"

section \<open>Sorting in place\<close>

text \<open>The two loops, over the slice and the loop variable. \<open>None\<close> is a loop that does not end or an
  index outside the slice.\<close>

partial_function (option) sort_inner :: "Prediction list \<Rightarrow> nat \<Rightarrow> Prediction list option" where
  "sort_inner ps j =
     (if \<not> 0 < j then Some ps
      else if \<not> j < length ps then None
      else if Pr_TimeToImpact (ps ! j) < Pr_TimeToImpact (ps ! (j - 1))
      then sort_inner (ps[j := ps ! (j - 1), j - 1 := ps ! j]) (j - 1)
      else Some ps)"

partial_function (option) sort_outer :: "Prediction list \<Rightarrow> nat \<Rightarrow> Prediction list option" where
  "sort_outer ps i =
     (if i < length ps
      then Option.bind (sort_inner ps i) (\<lambda>ps. sort_outer ps (i + 1))
      else Some ps)"

definition sortPredictions :: "Prediction list \<Rightarrow> Prediction list option" where
  "sortPredictions predictions = sort_outer predictions 1"

record PredictionReport =
  Pp_Predictions :: "Prediction list"
  Pp_SnapshotCount :: nat
  Pp_AnalysisWindow :: int

definition PredictSignals :: "Signals list \<Rightarrow> PredictionReport option" where
  "PredictSignals snapshots =
     (let report = \<lparr>Pp_Predictions = [], Pp_SnapshotCount = length snapshots, Pp_AnalysisWindow = 0\<rparr>
      in if length snapshots < 2 then Some report
      else let report = report\<lparr>Pp_AnalysisWindow :=
                 go_Sub (Sg_Timestamp (last snapshots)) (Sg_Timestamp (snapshots ! 0)),
               Pp_Predictions := predictFDExhaustion snapshots @ predictDiskSaturation snapshots @
                 predictSchedDegradation snapshots @ predictTCPDegradation snapshots\<rparr>
      in map_option (\<lambda>ps. report\<lparr>Pp_Predictions := ps\<rparr>) (sortPredictions (Pp_Predictions report)))"

section \<open>The square root\<close>

lemma isqrt_bounds: "isqrt n * isqrt n \<le> n \<and> n < (isqrt n + 1) * (isqrt n + 1)"
proof (induction n rule: isqrt.induct)
  case (1 n)
  show ?case
  proof (cases "n = 0")
    case True
    then show ?thesis by (simp add: isqrt.simps)
  next
    case False
    define r where "r = isqrt (n div 4)"
    have IH: "r * r \<le> n div 4" "n div 4 < (r + 1) * (r + 1)" using 1 [OF False] by (simp_all add: r_def)
    have "4 * (r * r) \<le> n" using IH(1) by linarith
    moreover have "n < 4 * ((r + 1) * (r + 1))" using IH(2) by linarith
    moreover have "isqrt n = (if (2 * r + 1) * (2 * r + 1) \<le> n then 2 * r + 1 else 2 * r)"
      using False by (simp add: isqrt.simps [of n] r_def Let_def)
    ultimately show ?thesis by (auto simp: algebra_simps)
  qed
qed

lemma go_Sqrt_nonneg: "0 \<le> go_Sqrt x"
  by (simp add: go_Sqrt_def Let_def)

section \<open>The loops sort\<close>

abbreviation tti :: "Prediction \<Rightarrow> int" where "tti \<equiv> Pr_TimeToImpact"

lemma sort_inner_inserts:
  "sorted (map tti A) \<Longrightarrow>
   sort_inner (A @ x # R) (length A) =
     Some (filter (\<lambda>a. tti a \<le> tti x) A @ x # filter (\<lambda>a. tti x < tti a) A @ R)"
proof (induction A arbitrary: R rule: rev_induct)
  case Nil
  then show ?case by (simp add: sort_inner.simps)
next
  case (snoc y A)
  show ?case
  proof (cases "tti x < tti y")
    case True
    have "(A @ y # x # R)[Suc (length A) := y, length A := x] = A @ x # y # R"
      by (simp add: list_update_append)
    then show ?thesis using True snoc
      by (subst sort_inner.simps) (simp add: nth_append sorted_append)
  next
    case False
    then have "filter (\<lambda>a. tti a \<le> tti x) A = A" "filter (\<lambda>a. tti x < tti a) A = []"
      using snoc.prems by (force simp: sorted_append filter_id_conv filter_empty_conv)+
    then show ?thesis using False by (subst sort_inner.simps) (simp add: nth_append)
  qed
qed

lemma sort_key_snoc:
  "sort_key tti (A @ [x]) =
     filter (\<lambda>a. tti a \<le> tti x) (sort_key tti A) @ x # filter (\<lambda>a. tti x < tti a) (sort_key tti A)"
proof (rule properties_for_sort_key)
  let ?le = "filter (\<lambda>a. tti a \<le> tti x) (sort_key tti A)"
  let ?gt = "filter (\<lambda>a. tti x < tti a) (sort_key tti A)"
  have "mset ?le + mset ?gt = mset A"
    using multiset_partition [of "mset (sort_key tti A)" "\<lambda>a. tti a \<le> tti x"]
    by (simp add: not_le)
  then show "mset (?le @ x # ?gt) = mset (A @ [x])" by simp
  show "filter (\<lambda>y. tti k = tti y) (?le @ x # ?gt) = filter (\<lambda>y. tti k = tti y) (A @ [x])"
    if "k \<in> set (?le @ x # ?gt)" for k
  proof -
    have stable: "filter (\<lambda>y. tti k = tti y) (sort_key tti A) = filter (\<lambda>y. tti k = tti y) A"
      using sort_key_stable [of tti "tti k" A] by (simp add: eq_commute)
    show ?thesis
    proof (cases "tti k \<le> tti x")
      case True
      then have "filter (\<lambda>y. tti k = tti y) ?gt = []" by (auto simp: filter_empty_conv)
      moreover have "filter (\<lambda>y. tti k = tti y) ?le = filter (\<lambda>y. tti k = tti y) (sort_key tti A)"
        unfolding filter_filter using True by (intro filter_cong) auto
      ultimately show ?thesis by (simp add: stable)
    next
      case False
      then have "filter (\<lambda>y. tti k = tti y) ?le = []" by (auto simp: filter_empty_conv)
      moreover have "filter (\<lambda>y. tti k = tti y) ?gt = filter (\<lambda>y. tti k = tti y) (sort_key tti A)"
        unfolding filter_filter using False by (intro filter_cong) auto
      ultimately show ?thesis using False by (simp add: stable)
    qed
  qed
  show "sorted (map tti (?le @ x # ?gt))"
    using sorted_sort_key [of tti A]
    by (auto simp: sorted_append sorted_filter)
qed

lemma sort_outer_sorts:
  assumes "i \<le> length ps" "xs = sort_key tti (take i ps) @ drop i ps"
  shows "sort_outer xs i = Some (sort_key tti ps)"
  using assms
proof (induction "length ps - i" arbitrary: i xs)
  case 0
  then show ?case by (subst sort_outer.simps) simp
next
  case (Suc n)
  then have i: "i < length ps" by linarith
  define S where "S = sort_key tti (take i ps)"
  have S: "length S = i" "sorted (map tti S)" using i by (simp_all add: S_def)
  have split: "xs = S @ ps ! i # drop (Suc i) ps"
    using Suc.prems(2) i by (simp add: S_def Cons_nth_drop_Suc)
  have "sort_inner xs i = Some (sort_key tti (take (Suc i) ps) @ drop (Suc i) ps)"
    using sort_inner_inserts [OF S(2), of "ps ! i" "drop (Suc i) ps"] i
    by (simp add: split S(1) take_Suc_conv_app_nth sort_key_snoc S_def)
  moreover have "sort_outer (sort_key tti (take (Suc i) ps) @ drop (Suc i) ps) (Suc i) =
      Some (sort_key tti ps)"
    using Suc.hyps(2) i by (intro Suc.hyps(1)) auto
  moreover have "i < length xs" using i S(1) by (simp add: split)
  ultimately show ?case by (subst sort_outer.simps) simp
qed

lemma sort_predictions_sorts: "sortPredictions ps = Some (sort_key Pr_TimeToImpact ps)"
proof (cases ps)
  case Nil
  then show ?thesis by (simp add: sortPredictions_def sort_outer.simps)
next
  case (Cons p qs)
  then show ?thesis unfolding sortPredictions_def by (intro sort_outer_sorts) auto
qed

text \<open>C22: the sort of the predictions ends for every slice and never indexes outside it. The two
  loops return the same predictions, ordered by time to impact, those with the same time in the
  order they had.\<close>

theorem sort_predictions_total:
  "\<exists>qs. sortPredictions ps = Some qs \<and> mset qs = mset ps \<and> sorted (map Pr_TimeToImpact qs) \<and>
     (\<forall>t. filter (\<lambda>p. Pr_TimeToImpact p = t) qs = filter (\<lambda>p. Pr_TimeToImpact p = t) ps)"
  by (simp add: sort_predictions_sorts sort_key_stable)

section \<open>Bounds of a prediction\<close>

lemma rateConsistency_bounds: "29 / 100 \<le> rateConsistency vs" "rateConsistency vs \<le> 96 / 100"
proof -
  have "\<bar>f64 (3 / 10) - 3 / 10\<bar> \<le> 3 / 10 / 2 ^ 53" "\<bar>f64 (95 / 100) - 95 / 100\<bar> \<le> 95 / 100 / 2 ^ 53"
    by (intro f64_near; simp)+
  moreover have "(3 / 10 / 2 ^ 53 :: rat) \<le> 1 / 100" "(95 / 100 / 2 ^ 53 :: rat) \<le> 1 / 100" by simp_all
  ultimately have "29 / 100 \<le> f64 (3 / 10)" "f64 (3 / 10) \<le> 96 / 100"
    "29 / 100 \<le> f64 (95 / 100)" "f64 (95 / 100) \<le> 96 / 100" by linarith+
  then show "29 / 100 \<le> rateConsistency vs" "rateConsistency vs \<le> 96 / 100"
    unfolding rateConsistency_def Let_def by auto
qed

lemma weighted_confidence:
  assumes "\<bar>w - 3 / 4\<bar> \<le> 6 / 100"
  shows "1 / 5 < f64 (rateConsistency vs * w)" "f64 (rateConsistency vs * w) < 1"
proof -
  have w: "69 / 100 \<le> w" "w \<le> 81 / 100" using assms by linarith+
  have "29 / 100 * (69 / 100) \<le> rateConsistency vs * w"
    using rateConsistency_bounds [of vs] w by (intro mult_mono) linarith+
  moreover have "rateConsistency vs * w \<le> 96 / 100 * (81 / 100)"
    using rateConsistency_bounds [of vs] w by (intro mult_mono) linarith+
  ultimately have y: "2001 / 10000 \<le> rateConsistency vs * w" "rateConsistency vs * w \<le> 7776 / 10000"
    by simp_all
  then have "1 \<le> rateConsistency vs * w * 2 ^ 64" by simp
  then have "\<bar>f64 (rateConsistency vs * w) - rateConsistency vs * w\<bar> \<le> rateConsistency vs * w / 2 ^ 53"
    by (rule f64_near)
  moreover have "rateConsistency vs * w / 2 ^ 53 \<le> 1 / 2 ^ 53" using y(2) by (simp add: divide_le_eq)
  moreover have "(1 / 2 ^ 53 :: rat) < 1 / 100000" by simp
  ultimately show "1 / 5 < f64 (rateConsistency vs * w)" "f64 (rateConsistency vs * w) < 1"
    using y by linarith+
qed

lemma float_tenth: "1 \<le> (k :: int) \<Longrightarrow> k \<le> 10 \<Longrightarrow> \<bar>f64 (of_int k / 10) - of_int k / 10\<bar> \<le> 1 / 100"
proof -
  assume k: "1 \<le> k" "k \<le> 10"
  then have k': "1 \<le> (of_int k :: rat)" "of_int k \<le> (10 :: rat)" by simp_all
  then have "1 \<le> (of_int k / 10 :: rat) * 2 ^ 64" by simp
  then have "\<bar>f64 (of_int k / 10) - of_int k / 10\<bar> \<le> of_int k / 10 / 2 ^ 53" by (rule f64_near)
  also have "\<dots> \<le> 1 / 100" using k' by simp
  finally show ?thesis .
qed

lemma confidence_range:
  "1 / 5 < rateConsistency vs" "rateConsistency vs < 1"
  "1 / 5 < f64 (rateConsistency vs * f64 (8 / 10))" "f64 (rateConsistency vs * f64 (8 / 10)) < 1"
  "1 / 5 < f64 (rateConsistency vs * f64 (7 / 10))" "f64 (rateConsistency vs * f64 (7 / 10)) < 1"
  "1 / 5 < f64 (rateConsistency vs * (3 / 4))" "f64 (rateConsistency vs * (3 / 4)) < 1"
proof -
  have "\<bar>f64 (8 / 10) - 3 / 4\<bar> \<le> 6 / 100" "\<bar>f64 (7 / 10) - 3 / 4\<bar> \<le> 6 / 100"
    using float_tenth [of 8] float_tenth [of 7] by (simp_all only: of_int_numeral) linarith+
  note w = this [THEN weighted_confidence(1)] this [THEN weighted_confidence(2)]
  show "1 / 5 < f64 (rateConsistency vs * f64 (8 / 10))" "f64 (rateConsistency vs * f64 (8 / 10)) < 1"
    "1 / 5 < f64 (rateConsistency vs * f64 (7 / 10))" "f64 (rateConsistency vs * f64 (7 / 10)) < 1"
    by (rule w)+
  show "1 / 5 < f64 (rateConsistency vs * (3 / 4))" "f64 (rateConsistency vs * (3 / 4)) < 1"
    by (rule weighted_confidence, simp)+
  show "1 / 5 < rateConsistency vs" "rateConsistency vs < 1"
    using rateConsistency_bounds [of vs] by linarith+
qed

text \<open>What a prediction of each rule satisfies.\<close>

definition prediction_ok :: "string \<Rightarrow> Prediction \<Rightarrow> bool" where
  "prediction_ok signal p \<longleftrightarrow>
     Pr_Signal p = signal \<and> 0 < Pr_TimeToImpact p \<and> Pr_TimeToImpact p \<le> maxMeaningfulETA \<and>
     1 / 5 < Pr_Confidence p \<and> Pr_Confidence p < 1 \<and> 0 < Pr_TrendRate p"

lemma trend_eta_Some:
  assumes "trend_eta vs critical ss = Some (eta, rate)"
  shows "0 < eta" "eta \<le> maxMeaningfulETA" "0 < rate" "2 \<le> length vs" "last vs < critical"
    "0 < linearSlope vs"
  using assms etaDuration_bounds
  by (auto simp: trend_eta_def Let_def not_le split: if_splits)

lemma predictFDExhaustion_ok:
  "length (predictFDExhaustion ss) \<le> 1 \<and> list_all (prediction_ok ''fd'') (predictFDExhaustion ss)"
proof (cases "predictFDExhaustion ss")
  case Nil
  then show ?thesis by simp
next
  case (Cons p ps)
  then obtain rates x eta where "p # ps =
      [\<lparr>Pr_Title = ''File Descriptor Exhaustion'', Pr_Signal = ''fd'', Pr_TimeToImpact = eta,
        Pr_Confidence = rateConsistency rates, Pr_CurrentValue = average rates,
        Pr_TrendRate = average rates, Pr_Limit = ''ulimit 65536''\<rparr>]"
    and "etaDuration x = Some eta" "0 < average rates"
    unfolding predictFDExhaustion_def Let_def by (auto simp: not_le split: if_splits option.splits)
  moreover from this(2) have "0 < eta" "eta \<le> maxMeaningfulETA" using etaDuration_bounds by blast+
  ultimately show ?thesis unfolding Cons
    using confidence_range(1,2) [of rates] by (simp add: prediction_ok_def)
qed

lemma trend_predictions_ok:
  "length (predictDiskSaturation ss) \<le> 1 \<and> list_all (prediction_ok ''diskio'') (predictDiskSaturation ss)"
  "length (predictSchedDegradation ss) \<le> 1 \<and>
   list_all (prediction_ok ''sched'') (predictSchedDegradation ss)"
  "length (predictTCPDegradation ss) \<le> 1 \<and> list_all (prediction_ok ''tcp'') (predictTCPDegradation ss)"
  unfolding predictDiskSaturation_def predictSchedDegradation_def predictTCPDegradation_def
    Let_def prediction_ok_def
  using confidence_range(3-) by (auto dest: trend_eta_Some split: option.splits)

section \<open>Least squares\<close>

lemma f64_of_nat: "n < 2 ^ 53 \<Longrightarrow> f64 (of_nat n) = of_nat n"
  using f64_of_int [of "int n"] by simp

text \<open>On whole samples small enough for the sums to be exact, the four sums are those of the
  integers.\<close>

lemma slope_step_sums:
  assumes "a + sum_list (map fst ps) < 2 ^ 53" "b + sum_list (map snd ps) < 2 ^ 53"
    and "c + sum_list (map (\<lambda>(i, y). i * y) ps) < 2 ^ 53"
    and "e + sum_list (map (\<lambda>(i, y). i * i) ps) < 2 ^ 53"
  shows "foldl slope_step (of_nat a, of_nat b, of_nat c, of_nat e) (map (\<lambda>(i, y). (i, of_nat y)) ps) =
    (of_nat (a + sum_list (map fst ps)), of_nat (b + sum_list (map snd ps)),
     of_nat (c + sum_list (map (\<lambda>(i, y). i * y) ps)), of_nat (e + sum_list (map (\<lambda>(i, y). i * i) ps)))"
  using assms
proof (induction ps arbitrary: a b c e)
  case Nil
  then show ?case by simp
next
  case (Cons p ps)
  obtain i y where p: "p = (i, y)" by fastforce
  have exact: "f64 (of_nat k) = of_nat k"
    if "k \<in> {i, a + i, b + y, i * y, c + i * y, i * i, e + i * i}" for k
    using that Cons.prems by (intro f64_of_nat) (auto simp: p)
  have "slope_step (of_nat a, of_nat b, of_nat c, of_nat e) (i, of_nat y) =
      (of_nat (a + i), of_nat (b + y), of_nat (c + i * y), of_nat (e + i * i))"
    by (simp add: slope_step_def exact flip: of_nat_add of_nat_mult)
  then show ?case using Cons.IH [of "a + i" "b + y" "c + i * y" "e + i * i"] Cons.prems
    by (simp add: p add.assoc)
qed

lemma sum_list_le_length: "(\<And>x. x \<in> set xs \<Longrightarrow> f x \<le> (B :: nat)) \<Longrightarrow> sum_list (map f xs) \<le> length xs * B"
  by (induction xs) (auto intro: add_mono)

lemma enumerate_sums:
  "2 * sum_list (map fst (enumerate 0 ys)) = length ys * (length ys - 1)"
  "6 * sum_list (map (\<lambda>(i, y). i * i) (enumerate 0 ys)) =
     (length ys - 1) * length ys * (2 * length ys - 1)"
proof (induction ys rule: rev_induct)
  case (snoc y ys)
  case 1
  show ?case using snoc by (cases "length ys") (simp_all add: enumerate_append_eq algebra_simps)
  case 2
  show ?case using snoc by (cases "length ys") (simp_all add: enumerate_append_eq algebra_simps)
qed simp_all

lemma enumerate_map: "enumerate k (map f xs) = map (\<lambda>(i, x). (i, f x)) (enumerate k xs)"
  by (induction xs arbitrary: k) simp_all

text \<open>The determinant of the normal equations for the positions \<open>0..<n\<close>.\<close>

lemma regression_det:
  assumes "0 < length ys" "ps = enumerate 0 ys"
  shows "12 * (length ys * sum_list (map (\<lambda>(i, y). i * i) ps)) =
    12 * (sum_list (map fst ps) * sum_list (map fst ps)) + (length ys)\<^sup>2 * ((length ys)\<^sup>2 - 1)"
proof -
  obtain m where m: "length ys = Suc m" using assms(1) by (cases "length ys") auto
  define x q where "x = sum_list (map fst ps)" and "q = sum_list (map (\<lambda>(i, y). i * i) ps)"
  have x: "2 * x = Suc m * m" and q: "6 * q = m * Suc m * (2 * m + 1)"
    using enumerate_sums [of ys] by (simp_all add: x_def q_def assms(2) m)
  have "12 * (Suc m * q) = 2 * Suc m * (6 * q)" by simp
  also have "\<dots> = 3 * ((Suc m * m) * (Suc m * m)) + (Suc m)\<^sup>2 * ((Suc m)\<^sup>2 - 1)"
    unfolding q by (simp add: power2_eq_square algebra_simps)
  also have "3 * ((Suc m * m) * (Suc m * m)) = 12 * (x * x)" unfolding x [symmetric] by simp
  finally show ?thesis by (simp add: m x_def q_def)
qed

text \<open>The slope is the least-squares slope. For \<open>n\<close> whole samples \<open>y\<^sub>i\<close>, none above \<open>M\<close> and small
  enough that the sums stay exact (a hundred latencies below 9 seconds do), \<open>linearSlope\<close> returns
  \<open>12 (n \<Sigma> i y\<^sub>i - \<Sigma> i \<Sigma> y\<^sub>i) / (n\<^sup>2 (n\<^sup>2 - 1))\<close> rounded once, and its denominator is never
  zero.\<close>

theorem linear_slope_least_squares:
  assumes "2 \<le> length ys" "\<forall>y \<in> set ys. y \<le> M" "length ys ^ 3 * M < 2 ^ 53" "length ys ^ 4 < 2 ^ 53"
    and "n = length ys" "ps = enumerate 0 ys"
  shows "linearSlope (map of_nat ys) =
    f64 (12 * (of_nat (n * (\<Sum>(i, y) \<leftarrow> ps. i * y)) -
               of_nat (sum_list (map fst ps) * sum_list ys)) / of_nat (n\<^sup>2 * (n\<^sup>2 - 1)))"
proof -
  define sX sXY sX2 where "sX = sum_list (map fst ps)" and "sXY = (\<Sum>(i, y) \<leftarrow> ps. i * y)"
    and "sX2 = (\<Sum>(i, y) \<leftarrow> ps. i * i)"
  have len: "length ps = n" and snd: "sum_list (map snd ps) = sum_list ys"
    by (simp_all add: assms(5,6))
  have at: "fst p < n" "snd p \<le> M" if "p \<in> set ps" for p
    using that assms(2) nth_mem [of "fst p" ys] by (auto simp: assms(5,6) in_set_enumerate_eq)
  have "fst p * fst p \<le> n * n" "fst p * snd p \<le> n * M" if "p \<in> set ps" for p
    using at [OF that] by (auto intro: mult_mono)
  then have bounds: "sX \<le> n * n" "sum_list ys \<le> n * M" "sXY \<le> n * (n * M)" "sX2 \<le> n * (n * n)"
    using sum_list_le_length [of ps fst n] sum_list_le_length [of ps snd M]
      sum_list_le_length [of ps "\<lambda>(i, y). i * y" "n * M"]
      sum_list_le_length [of ps "\<lambda>(i, y). i * i" "n * n"] at
    by (auto simp: len snd sX_def sXY_def sX2_def less_imp_le)
  have n: "2 \<le> n" "1 \<le> n" "n * (n * (n * M)) < 2 ^ 53" "n * (n * (n * n)) < 2 ^ 53"
    using assms by (simp_all add: power3_eq_cube power4_eq_xxxx mult.assoc)
  have up: "k \<le> n * k" for k using n(2) by simp
  have big: "n * sXY < 2 ^ 53" "sX * sum_list ys < 2 ^ 53" "n * sX2 < 2 ^ 53" "sX * sX < 2 ^ 53"
  proof -
    have "n * sXY \<le> n * (n * (n * M))" "n * sX2 \<le> n * (n * (n * n))"
      using bounds by (intro mult_le_mono2; blast)+
    moreover have "sX * sum_list ys \<le> n * n * (n * M)" "sX * sX \<le> n * n * (n * n)"
      using bounds by (simp_all add: mult_le_mono)
    ultimately show "n * sXY < 2 ^ 53" "sX * sum_list ys < 2 ^ 53" "n * sX2 < 2 ^ 53"
      "sX * sX < 2 ^ 53" using n(3,4) unfolding mult.assoc by (blast intro: le_less_trans)+
  qed
  have small: "sX < 2 ^ 53" "sum_list ys < 2 ^ 53" "sXY < 2 ^ 53" "sX2 < 2 ^ 53" "n < 2 ^ 53"
    using bounds up [of sXY] up [of sX2] up [of "n * M"] up [of "n * (n * M)"] up [of n]
      up [of "n * n"] up [of "n * (n * n)"] big n by linarith+
  have fold: "foldl slope_step (0, 0, 0, 0) (enumerate 0 (map of_nat ys)) =
      (of_nat sX, of_nat (sum_list ys), of_nat sXY, of_nat sX2)"
    using slope_step_sums [of 0 ps 0 0 0] small
    by (simp add: snd sX_def sXY_def sX2_def assms(6) enumerate_map case_prod_unfold)
  have "12 * (n * sX2) = 12 * (sX * sX) + n\<^sup>2 * (n\<^sup>2 - 1)"
    unfolding sX_def sX2_def assms(5)
    by (rule regression_det [OF _ assms(6)]) (use assms(1) in linarith)
  then have "12 * (of_nat (n * sX2) :: rat) = 12 * of_nat (sX * sX) + of_nat (n\<^sup>2 * (n\<^sup>2 - 1))"
    by (metis of_nat_add of_nat_mult of_nat_numeral)
  moreover define D :: rat where "D = of_nat (n * sX2) - of_nat (sX * sX)"
  ultimately have D: "of_nat (n\<^sup>2 * (n\<^sup>2 - 1)) = 12 * D" by simp
  have "2 ^ 2 \<le> n\<^sup>2" using n(1) by (rule power_mono) simp
  then have "0 < n\<^sup>2 * (n\<^sup>2 - 1)" using n(1) by simp
  then have "D \<noteq> 0" using D by (metis mult_zero_right neq0_conv of_nat_eq_0_iff)
  have diff: "f64 (of_nat a - of_nat b) = of_nat a - of_nat b" if "a < 2 ^ 53" "b < 2 ^ 53" for a b
    using f64_of_int [of "int a - int b"] net_delta_small [OF that] by simp
  note exact = f64_of_nat [OF big(1)] f64_of_nat [OF big(2)] f64_of_nat [OF big(3)]
    f64_of_nat [OF big(4)] f64_of_nat [OF small(5)]
  have "linearSlope (map of_nat ys) = f64 ((of_nat (n * sXY) - of_nat (sX * sum_list ys)) / D)"
    using \<open>D \<noteq> 0\<close> n(1) unfolding linearSlope_def length_map assms(5) [symmetric] fold Let_def prod.case
      exact(5) of_nat_mult [symmetric] exact(1-4) diff [OF big(1,2)] diff [OF big(3,4)] D_def
    by simp
  moreover have "12 * x / (12 * D) = x / D" for x by simp
  ultimately show ?thesis unfolding D by (simp only: sX_def sXY_def)
qed

text \<open>Three latencies that grow by 7 ns.\<close>

theorem linear_slope_least_squares_witness: "linearSlope (map of_nat [3, 10, 17]) = f64 7"
proof -
  let ?ys = "[3, 10, 17] :: nat list"
  have "linearSlope (map of_nat ?ys) =
      f64 (12 * (of_nat (length ?ys * (\<Sum>(i, y) \<leftarrow> enumerate 0 ?ys. i * y)) -
                 of_nat (sum_list (map fst (enumerate 0 ?ys)) * sum_list ?ys)) /
           of_nat ((length ?ys)\<^sup>2 * ((length ?ys)\<^sup>2 - 1)))"
    by (rule linear_slope_least_squares [where M = 17, OF _ _ _ _ refl refl])
      (simp_all add: power3_eq_cube power4_eq_xxxx)
  then show ?thesis by simp
qed

section \<open>The report\<close>

text \<open>C25: every call of \<open>Predict\<close> returns a report of the snapshots it was given, with at most one
  prediction for each of the four signals, in the order of the time to impact and for equal times in
  the order of the rules. Each predicts a failure within seven days from a strictly growing trend,
  with a confidence between 0.2 and 1; fewer than two snapshots predict nothing.\<close>

theorem predict_report:
  "\<exists>r. PredictSignals ss = Some r \<and> Pp_SnapshotCount r = length ss \<and>
     Pp_Predictions r = (if length ss < 2 then []
       else sort_key Pr_TimeToImpact (predictFDExhaustion ss @ predictDiskSaturation ss @
              predictSchedDegradation ss @ predictTCPDegradation ss)) \<and>
     sorted (map Pr_TimeToImpact (Pp_Predictions r)) \<and> distinct (map Pr_Signal (Pp_Predictions r)) \<and>
     list_all (\<lambda>p. \<exists>signal \<in> {''fd'', ''diskio'', ''sched'', ''tcp''}. prediction_ok signal p)
       (Pp_Predictions r)"
proof -
  let ?ps = "predictFDExhaustion ss @ predictDiskSaturation ss @ predictSchedDegradation ss @
    predictTCPDegradation ss"
  have single: "\<exists>p. xs = [p] \<and> prediction_ok sig p \<or> xs = []"
    if "length xs \<le> 1 \<and> list_all (prediction_ok sig) xs" for xs sig
    using that by (cases xs) auto
  note ok = predictFDExhaustion_ok [of ss, THEN single] trend_predictions_ok [of ss, THEN single]
  have "distinct (map Pr_Signal ?ps)"
    using ok by (auto simp: prediction_ok_def)
  moreover have "list_all (\<lambda>p. \<exists>sig \<in> {''fd'', ''diskio'', ''sched'', ''tcp''}. prediction_ok sig p) ?ps"
    using ok by auto
  moreover have "mset (map Pr_Signal (sort_key tti ?ps)) = mset (map Pr_Signal ?ps)" by simp
  then have "distinct (map Pr_Signal (sort_key tti ?ps)) = distinct (map Pr_Signal ?ps)"
    by (rule mset_eq_imp_distinct_iff)
  ultimately show ?thesis
    by (simp add: PredictSignals_def Let_def sort_predictions_sorts list_all_iff del: map_append)
qed

section \<open>The command\<close>

lemma concat_map_Nil: "concat (map (\<lambda>x. []) ts) = []" by simp

text \<open>\<open>kerno predict\<close> of \<open>internal/cli/predict.go\<close>: it takes a snapshot of a new registry at each
  interval, \<open>clock\<close> being the times of those taken before the context is cancelled.\<close>

datatype predict_outcome =
    TooFewRequested nat
  | NotEnoughSnapshots
  | Rendered PredictionReport

definition runPredict :: "nat \<Rightarrow> int \<Rightarrow> int list \<Rightarrow> predict_outcome option" where
  "runPredict snapshots interval clock =
     (if snapshots < 2 then Some (TooFewRequested snapshots)
      else let registry = Map.empty;
               taken = map (\<lambda>now. registry_Signals [] now interval registry) (take snapshots clock)
           in if length taken < 2 then Some NotEnoughSnapshots
              else map_option Rendered (PredictSignals taken))"

text \<open>\<open>kerno predict\<close> never predicts anything. It registers no collector, so its snapshots are
  empty and every report it renders has an empty list of predictions, whatever the machine does.\<close>

theorem predict_command_silent:
  "runPredict snapshots interval clock =
     Some (if snapshots < 2 then TooFewRequested snapshots
           else if length (take snapshots clock) < 2 then NotEnoughSnapshots
           else Rendered \<lparr>Pp_Predictions = [], Pp_SnapshotCount = length (take snapshots clock),
             Pp_AnalysisWindow = go_Sub (last (take snapshots clock)) (hd (take snapshots clock))\<rparr>)"
proof -
  define ts where "ts = take snapshots clock"
  have empty: "registry_Signals [] now interval Map.empty = empty_signals now interval" for now
    by (simp add: registry_Signals_def)
  let ?taken = "map (\<lambda>now. empty_signals now interval) ts"
  have none: "Sg_FD (empty_signals a d) = None" "Sg_DiskIO (empty_signals a d) = None"
    "Sg_Sched (empty_signals a d) = None" "Sg_TCP (empty_signals a d) = None"
    "Sg_Timestamp (empty_signals a d) = a" for a d
    by (simp_all add: empty_signals_def)
  have "predictFDExhaustion ?taken = []" "predictDiskSaturation ?taken = []"
    "predictSchedDegradation ?taken = []" "predictTCPDegradation ?taken = []"
    by (simp_all add: predictFDExhaustion_def predictDiskSaturation_def predictSchedDegradation_def
        predictTCPDegradation_def trend_eta_def disk_latencies_def sched_delays_def o_def none concat_map_Nil)
  moreover have "2 \<le> length ts \<Longrightarrow> ?taken ! 0 = empty_signals (hd ts) interval"
    "2 \<le> length ts \<Longrightarrow> last ?taken = empty_signals (last ts) interval"
    by (cases ts; simp add: last_map)+
  ultimately show ?thesis
    by (simp add: runPredict_def empty ts_def [symmetric] PredictSignals_def sort_predictions_sorts
        none Let_def)
qed

section \<open>Snapshots without data\<close>

definition sync_snapshot :: "int \<Rightarrow> u64 \<Rightarrow> Signals" where
  "sync_snapshot now p99 =
     (let none = \<lparr>P50 = 0, P95 = 0, P99 = 0, PMax = 0\<rparr>
      in (empty_signals now 10000000000)\<lparr>Sg_DiskIO := Some
           \<lparr>Dk_ReadLatency = none, Dk_WriteLatency = none, Dk_SyncLatency = none\<lparr>P99 := p99\<rparr>,
            Dk_TotalReads = 0, Dk_TotalWrites = 0, Dk_TotalSyncs = 0, Dk_ReadBytes = 0,
            Dk_WriteBytes = 0\<rparr>\<rparr>)"

lemma f64_numeral: "(numeral w :: nat) < 2 ^ 53 \<Longrightarrow> f64 (numeral w) = numeral w"
  using f64_of_nat [of "numeral w"] by simp

lemma f64_1: "f64 1 = 1"
  using f64_of_nat [of 1] by simp

text \<open>Intervals without a sample make a failure look farther away. The p99 latency of syncs is
  10 ms and ten seconds later 20 ms: the critical 200 ms are 180 seconds ahead, and that is what two
  snapshots give. With three earlier snapshots in which nothing was synced, the same trend is spread
  over forty seconds and the prediction is 720 seconds.\<close>

theorem predict_gap_delays:
  "map Pr_TimeToImpact (predictDiskSaturation
     [sync_snapshot 30000000000 10000000, sync_snapshot 40000000000 20000000]) = [180000000000] \<and>
   map Pr_TimeToImpact (predictDiskSaturation
     [sync_snapshot 0 0, sync_snapshot 10000000000 0, sync_snapshot 20000000000 0,
      sync_snapshot 30000000000 10000000, sync_snapshot 40000000000 20000000]) = [720000000000]"
proof -
  have slope: "linearSlope [10000000, 20000000] = 10000000"
    using linear_slope_least_squares [of "[10000000, 20000000]" 20000000, OF _ _ _ _ refl refl]
    by (simp add: f64_numeral power3_eq_cube power4_eq_xxxx)
  have lat: "disk_latencies [sync_snapshot 30000000000 10000000, sync_snapshot 40000000000 20000000] =
      [10000000, 20000000]"
    "disk_latencies [sync_snapshot 0 0, sync_snapshot 10000000000 0, sync_snapshot 20000000000 0,
      sync_snapshot 30000000000 10000000, sync_snapshot 40000000000 20000000] = [10000000, 20000000]"
    by (simp_all add: disk_latencies_def sync_snapshot_def empty_signals_def Let_def f64_numeral)
  have at: "Sg_Timestamp (sync_snapshot t v) = t" for t v
    by (simp add: sync_snapshot_def empty_signals_def Let_def)
  have "go_Seconds 10000000000 = 10" "go_Seconds 40000000000 = 40"
    by (simp_all add: go_Seconds_def f64_numeral)
  then show ?thesis
    by (simp add: predictDiskSaturation_def lat trend_eta_def slope at go_Sub_def
        f64_numeral f64_1 etaDuration_def float_to_int64_def maxMeaningfulETA_def)
qed

end
