(* ===== verification/Metrics.thy ===== *)
theory Metrics
  imports Doctor
begin

text \<open>
  \<open>internal/metrics/bridge.go\<close>: the daemon's consumers, which turn raw events into calls on the
  Prometheus client library. The client is not under the source tree: what the bridge does is the
  list of its calls, and which label values the client accepts is a parameter; a call with another
  value panics and ends the process (\<open>None\<close>). The client documents that label values are UTF-8.
\<close>

section \<open>Strings\<close>

text \<open>\<open>utf8.ValidString\<close>: the number of continuation bytes a leading byte announces, and the range
  of the first of them.\<close>

definition utf8_tail :: "u8 \<Rightarrow> nat" where
  "utf8_tail c =
     (if 0xC2 \<le> c \<and> c \<le> 0xDF then 1 else if 0xE0 \<le> c \<and> c \<le> 0xEF then 2
      else if 0xF0 \<le> c \<and> c \<le> 0xF4 then 3 else 0)"

definition utf8_second :: "u8 \<Rightarrow> u8 \<Rightarrow> bool" where
  "utf8_second c d \<longleftrightarrow>
     (if c = 0xE0 then 0xA0 else if c = 0xF0 then 0x90 else 0x80) \<le> d \<and>
     d \<le> (if c = 0xED then 0x9F else if c = 0xF4 then 0x8F else 0xBF)"

function ValidString :: "bytes \<Rightarrow> bool" where
  "ValidString [] = True"
| "ValidString (c # cs) =
     (if c < 0x80 then ValidString cs
      else let n = utf8_tail c
           in 0 < n \<and> n \<le> length cs \<and> utf8_second c (hd cs) \<and>
              list_all (\<lambda>d. 0x80 \<le> d \<and> d \<le> 0xBF) (take n cs) \<and> ValidString (drop n cs))"
  by pat_completeness auto

termination by (relation "measure length") auto

text \<open>\<open>%c\<close> of a byte, which Go takes as a code point.\<close>

definition utf8_rune :: "u8 \<Rightarrow> bytes" where
  "utf8_rune w =
     (if w < 0x80 then [w] else [0xC0 OR drop_bit 6 w, 0x80 OR (w AND 0x3F)])"

definition OpString :: "DiskEvent \<Rightarrow> bytes" where
  "OpString e =
     (if DE_Op e = 82 then go_bytes ''read''
      else if DE_Op e = 87 then go_bytes ''write''
      else if DE_Op e = 83 then go_bytes ''sync''
      else go_bytes ''unknown('' @ utf8_rune (DE_Op e) @ go_bytes '')'')"

definition formatDev :: "u32 \<Rightarrow> string" where
  "formatDev dev =
     (let major = drop_bit 20 dev; minor = dev AND (push_bit 20 1 - 1)
      in decimal (unat major) @ '':'' @ decimal (unat minor))"

section \<open>Calls on the client\<close>

datatype metric =
    SyscallDuration
  | SyscallTotal
  | TCPRTT
  | TCPRetransmitsTotal
  | TCPConnectionsTotal
  | OOMKillsTotal
  | DiskIODuration
  | DiskIOBytesTotal
  | SchedDelayNs
  | FDOpenTotal
  | FDCloseTotal
  | CollectorEventsTotal
  | CollectorErrorsTotal

datatype metric_call = Inc | Add rat | Observe rat

type_synonym metric_op = "metric \<times> bytes list \<times> metric_call"

definition LabelCardinalityLimit :: nat where "LabelCardinalityLimit = 5000"

text \<open>The counters of \<open>cardinalityOK\<close> and the calls made so far.\<close>

record bridge =
  br_seen :: "string \<Rightarrow> nat"
  br_ops :: "metric_op list"

definition NewBridge :: bridge where
  "NewBridge = \<lparr>br_seen = (\<lambda>_. 0), br_ops = []\<rparr>"

definition op_labels :: "metric_op \<Rightarrow> bytes list" where
  "op_labels p = fst (snd p)"

definition calls :: "(bytes \<Rightarrow> bool) \<Rightarrow> metric_op list \<Rightarrow> bridge \<Rightarrow> bridge option" where
  "calls valid ops b =
     (if list_all (\<lambda>p. list_all valid (op_labels p)) ops
      then Some (b\<lparr>br_ops := br_ops b @ ops\<rparr>) else None)"

definition cardinalityOK :: "string \<Rightarrow> bridge \<Rightarrow> bool \<times> bridge" where
  "cardinalityOK m b =
     (let b = b\<lparr>br_seen := (br_seen b)(m := br_seen b m + 1)\<rparr>
      in (br_seen b m \<le> LabelCardinalityLimit, b))"

definition decode_failed :: "(bytes \<Rightarrow> bool) \<Rightarrow> string \<Rightarrow> bridge \<Rightarrow> bridge option" where
  "decode_failed valid name = calls valid [(CollectorErrorsTotal, [go_bytes name], Inc)]"

section \<open>The consumers\<close>

text \<open>The calls for one decoded event of each program.\<close>

definition syscall_calls :: "SyscallEvent \<Rightarrow> metric_op list" where
  "syscall_calls event =
     (let comm = nullTermString (SE_Comm event); sc = go_bytes (SyscallName (SE_SyscallNr event))
      in [(SyscallDuration, [sc, comm], Observe (f64 (of_nat (unat (SE_LatencyNs event))))),
          (SyscallTotal, [sc, comm], Inc)])"

definition tcp_calls :: "TCPEvent \<Rightarrow> metric_op list" where
  "tcp_calls event =
     (let src = go_bytes (ip_string (SrcAddr event)); dst = go_bytes (ip_string (DstAddr event));
          comm = nullTermString (TE_Comm event)
      in [(TCPConnectionsTotal, [src, dst, comm], Inc)] @
         (if 0 < TE_RTTUs event
          then [(TCPRTT, [src, dst, comm], Observe (f64 (f64 (of_nat (unat (TE_RTTUs event))) * 1000)))]
          else []) @
         (if 0 < TE_Retransmits event
          then [(TCPRetransmitsTotal, [src, dst, comm], Add (f64 (of_nat (unat (TE_Retransmits event)))))]
          else []))"

definition oom_calls :: "OOMEvent \<Rightarrow> metric_op list" where
  "oom_calls event = [(OOMKillsTotal, [nullTermString (OE_Comm event)], Inc)]"

definition disk_calls :: "DiskEvent \<Rightarrow> metric_op list" where
  "disk_calls event =
     (let dev = go_bytes (formatDev (DE_Dev event)); op = OpString event
      in [(DiskIODuration, [dev, op], Observe (f64 (of_nat (unat (DE_LatencyNs event))))),
          (DiskIOBytesTotal, [dev, op], Add (f64 (of_nat (unat (DE_NrBytes event)))))])"

definition sched_calls :: "SchedEvent \<Rightarrow> metric_op list" where
  "sched_calls event =
     [(SchedDelayNs, [nullTermString (SC_Comm event)], Observe (f64 (of_nat (unat (SC_RunqDelayNs event)))))]"

definition fd_calls :: "FDEvent \<Rightarrow> metric_op list" where
  "fd_calls event =
     (let comm = nullTermString (FE_Comm event)
      in if FE_Op event = 1 then [(FDOpenTotal, [comm], Inc)]
         else if FE_Op event = 2 then [(FDCloseTotal, [comm], Inc)]
         else [])"

definition recordSyscall :: "(bytes \<Rightarrow> bool) \<Rightarrow> bytes \<Rightarrow> bridge \<Rightarrow> bridge option" where
  "recordSyscall valid raw b =
     (case DecodeSyscallEvent raw of
        Inl err \<Rightarrow> decode_failed valid ''syscall_latency'' b
      | Inr event \<Rightarrow>
          (case cardinalityOK ''syscall'' b of (ok, b) \<Rightarrow>
             if \<not> ok then Some b else calls valid (syscall_calls event) b))"

definition recordTCP :: "(bytes \<Rightarrow> bool) \<Rightarrow> bytes \<Rightarrow> bridge \<Rightarrow> bridge option" where
  "recordTCP valid raw b =
     (case DecodeTCPEvent raw of
        Inl err \<Rightarrow> decode_failed valid ''tcp_monitor'' b
      | Inr event \<Rightarrow>
          (case cardinalityOK ''tcp'' b of (ok, b) \<Rightarrow>
             if \<not> ok then Some b else calls valid (tcp_calls event) b))"

definition recordOOM :: "(bytes \<Rightarrow> bool) \<Rightarrow> bytes \<Rightarrow> bridge \<Rightarrow> bridge option" where
  "recordOOM valid raw b =
     (case DecodeOOMEvent raw of
        Inl err \<Rightarrow> decode_failed valid ''oom_track'' b
      | Inr event \<Rightarrow> calls valid (oom_calls event) b)"

definition recordDiskIO :: "(bytes \<Rightarrow> bool) \<Rightarrow> bytes \<Rightarrow> bridge \<Rightarrow> bridge option" where
  "recordDiskIO valid raw b =
     (case DecodeDiskEvent raw of
        Inl err \<Rightarrow> decode_failed valid ''disk_io'' b
      | Inr event \<Rightarrow>
          (case cardinalityOK ''disk_io'' b of (ok, b) \<Rightarrow>
             if \<not> ok then Some b else calls valid (disk_calls event) b))"

definition recordSchedDelay :: "(bytes \<Rightarrow> bool) \<Rightarrow> bytes \<Rightarrow> bridge \<Rightarrow> bridge option" where
  "recordSchedDelay valid raw b =
     (case DecodeSchedEvent raw of
        Inl err \<Rightarrow> decode_failed valid ''sched_delay'' b
      | Inr event \<Rightarrow>
          (case cardinalityOK ''sched_delay'' b of (ok, b) \<Rightarrow>
             if \<not> ok then Some b else calls valid (sched_calls event) b))"

definition recordFD :: "(bytes \<Rightarrow> bool) \<Rightarrow> bytes \<Rightarrow> bridge \<Rightarrow> bridge option" where
  "recordFD valid raw b =
     (case DecodeFDEvent raw of
        Inl err \<Rightarrow> decode_failed valid ''fd_track'' b
      | Inr event \<Rightarrow>
          (case cardinalityOK ''fd_track'' b of (ok, b) \<Rightarrow>
             if \<not> ok then Some b else calls valid (fd_calls event) b))"

definition bridge_record :: "(bytes \<Rightarrow> bool) \<Rightarrow> string \<Rightarrow> bytes \<Rightarrow> bridge \<Rightarrow> bridge option" where
  "bridge_record valid name raw b =
     (if name = ''syscall_latency'' then recordSyscall valid raw b
      else if name = ''tcp_monitor'' then recordTCP valid raw b
      else if name = ''oom_track'' then recordOOM valid raw b
      else if name = ''disk_io'' then recordDiskIO valid raw b
      else if name = ''sched_delay'' then recordSchedDelay valid raw b
      else if name = ''fd_track'' then recordFD valid raw b
      else Some b)"

text \<open>One iteration of \<open>consume\<close>, of the goroutine of the program \<open>name\<close>. The goroutines share the
  bridge; a run is any interleaving of their iterations.\<close>

definition bridge_consume ::
  "(bytes \<Rightarrow> bool) \<Rightarrow> string \<times> bytes \<Rightarrow> bridge \<Rightarrow> bridge option" where
  "bridge_consume valid ev b =
     (case ev of (name, raw) \<Rightarrow>
        Option.bind (calls valid [(CollectorEventsTotal, [go_bytes name], Inc)] b)
          (bridge_record valid name raw))"

definition bridge_run ::
  "(bytes \<Rightarrow> bool) \<Rightarrow> (string \<times> bytes) list \<Rightarrow> bridge \<Rightarrow> bridge option" where
  "bridge_run valid evs b = foldl (\<lambda>b ev. Option.bind b (bridge_consume valid ev)) (Some b) evs"

section \<open>What the bridge should do\<close>

text \<open>The programs, the calls an event of each leads to (\<open>None\<close>: it does not decode), and the counter
  that limits them.\<close>

definition bpf_programs :: "string set" where
  "bpf_programs = {''syscall_latency'', ''tcp_monitor'', ''oom_track'', ''disk_io'', ''sched_delay'',
     ''fd_track''}"

definition decoded :: "(go_error + 'e) \<Rightarrow> ('e \<Rightarrow> metric_op list) \<Rightarrow> metric_op list option" where
  "decoded d f = (case d of Inl err \<Rightarrow> None | Inr e \<Rightarrow> Some (f e))"

definition event_calls :: "string \<Rightarrow> bytes \<Rightarrow> metric_op list option" where
  "event_calls name raw =
     (if name = ''syscall_latency'' then decoded (DecodeSyscallEvent raw) syscall_calls
      else if name = ''tcp_monitor'' then decoded (DecodeTCPEvent raw) tcp_calls
      else if name = ''oom_track'' then decoded (DecodeOOMEvent raw) oom_calls
      else if name = ''disk_io'' then decoded (DecodeDiskEvent raw) disk_calls
      else if name = ''sched_delay'' then decoded (DecodeSchedEvent raw) sched_calls
      else if name = ''fd_track'' then decoded (DecodeFDEvent raw) fd_calls
      else None)"

definition limit_key :: "string \<Rightarrow> string option" where
  "limit_key name =
     (if name = ''syscall_latency'' then Some ''syscall'' else if name = ''tcp_monitor'' then Some ''tcp''
      else if name = ''oom_track'' then None else Some name)"

definition metric_program :: "metric \<Rightarrow> string option" where
  "metric_program m =
     (case m of
        SyscallDuration \<Rightarrow> Some ''syscall_latency'' | SyscallTotal \<Rightarrow> Some ''syscall_latency''
      | TCPRTT \<Rightarrow> Some ''tcp_monitor'' | TCPRetransmitsTotal \<Rightarrow> Some ''tcp_monitor''
      | TCPConnectionsTotal \<Rightarrow> Some ''tcp_monitor'' | OOMKillsTotal \<Rightarrow> Some ''oom_track''
      | DiskIODuration \<Rightarrow> Some ''disk_io'' | DiskIOBytesTotal \<Rightarrow> Some ''disk_io''
      | SchedDelayNs \<Rightarrow> Some ''sched_delay'' | FDOpenTotal \<Rightarrow> Some ''fd_track''
      | FDCloseTotal \<Rightarrow> Some ''fd_track'' | CollectorEventsTotal \<Rightarrow> None | CollectorErrorsTotal \<Rightarrow> None)"

text \<open>The samples of one program in a run, the calls of those that decode, and those the limit lets
  through: the first 5000.\<close>

definition samples :: "string \<Rightarrow> (string \<times> bytes) list \<Rightarrow> bytes list" where
  "samples name evs = map snd (filter (\<lambda>ev. fst ev = name) evs)"

definition decoded_calls :: "string \<Rightarrow> (string \<times> bytes) list \<Rightarrow> metric_op list list" where
  "decoded_calls name evs = List.map_filter (event_calls name) (samples name evs)"

definition admitted :: "string \<Rightarrow> 'a list \<Rightarrow> 'a list" where
  "admitted name cs = (if limit_key name = None then cs else take LabelCardinalityLimit cs)"

definition ops_of :: "string \<Rightarrow> bridge \<Rightarrow> metric_op list" where
  "ops_of name b = filter (\<lambda>p. metric_program (fst p) = Some name) (br_ops b)"

definition ops_count :: "metric \<Rightarrow> string \<Rightarrow> bridge \<Rightarrow> nat" where
  "ops_count m name b = length (filter (\<lambda>p. p = (m, [go_bytes name], Inc)) (br_ops b))"

lemmas record_defs = recordSyscall_def recordTCP_def recordOOM_def recordDiskIO_def
  recordSchedDelay_def recordFD_def decode_failed_def

lemma bridge_record_eq:
  assumes "name \<in> bpf_programs"
  shows "bridge_record valid name raw b =
    (case event_calls name raw of
       None \<Rightarrow> calls valid [(CollectorErrorsTotal, [go_bytes name], Inc)] b
     | Some ops \<Rightarrow>
         (case limit_key name of
            None \<Rightarrow> calls valid ops b
          | Some k \<Rightarrow> (case cardinalityOK k b of (ok, b) \<Rightarrow> if \<not> ok then Some b else calls valid ops b)))"
  using assms
  by (auto simp: bpf_programs_def bridge_record_def record_defs event_calls_def decoded_def
      limit_key_def split: sum.split)

lemma limit_key_inj:
  "name \<in> bpf_programs \<Longrightarrow> name' \<in> bpf_programs \<Longrightarrow> limit_key name = Some k \<Longrightarrow>
   limit_key name' = Some k \<Longrightarrow> name = name'"
  by (auto simp: bpf_programs_def limit_key_def split: if_splits)

lemma event_calls_program:
  assumes "event_calls name raw = Some ops" "p \<in> set ops"
  shows "metric_program (fst p) = Some name"
  using assms
  by (auto simp: event_calls_def decoded_def syscall_calls_def tcp_calls_def oom_calls_def
      disk_calls_def sched_calls_def fd_calls_def metric_program_def Let_def
      split: if_splits sum.splits)

lemma samples_simps [simp]:
  "samples name [] = []"
  "samples name (evs @ [(n, raw)]) = samples name evs @ (if n = name then [raw] else [])"
  by (simp_all add: samples_def)

lemma map_filter_snoc:
  "List.map_filter f (xs @ [x]) = List.map_filter f xs @ (case f x of None \<Rightarrow> [] | Some y \<Rightarrow> [y])"
  by (simp add: List.map_filter_def split: option.splits)

lemma decoded_calls_simps [simp]:
  "decoded_calls name [] = []"
  "decoded_calls name (evs @ [(n, raw)]) = decoded_calls name evs @
     (if n = name then (case event_calls name raw of None \<Rightarrow> [] | Some ops \<Rightarrow> [ops]) else [])"
  by (simp_all add: decoded_calls_def map_filter_snoc List.map_filter_simps)

lemma admitted_snoc:
  "admitted name (cs @ [c]) =
     admitted name cs @ (if limit_key name = None \<or> length cs < LabelCardinalityLimit then [c] else [])"
  by (simp add: admitted_def)

definition ops_valid :: "(bytes \<Rightarrow> bool) \<Rightarrow> metric_op list \<Rightarrow> bool" where
  "ops_valid valid ops \<longleftrightarrow> list_all (\<lambda>p. list_all valid (op_labels p)) ops"

definition run_valid :: "(bytes \<Rightarrow> bool) \<Rightarrow> (string \<times> bytes) list \<Rightarrow> bool" where
  "run_valid valid evs \<longleftrightarrow>
     (\<forall>name \<in> bpf_programs. list_all (ops_valid valid) (admitted name (decoded_calls name evs)))"

definition bridge_ok :: "(string \<times> bytes) list \<Rightarrow> bridge \<Rightarrow> bool" where
  "bridge_ok evs b \<longleftrightarrow> (\<forall>name \<in> bpf_programs.
     (\<forall>k. limit_key name = Some k \<longrightarrow> br_seen b k = length (decoded_calls name evs)) \<and>
     ops_of name b = concat (admitted name (decoded_calls name evs)) \<and>
     ops_count CollectorEventsTotal name b = length (samples name evs) \<and>
     ops_count CollectorErrorsTotal name b + length (decoded_calls name evs) = length (samples name evs))"

lemma go_bytes_inj: "go_bytes s = go_bytes t \<longleftrightarrow> s = t"
proof -
  have "inj (of_char :: char \<Rightarrow> u8)"
  proof (rule injI)
    fix c d :: char
    assume "(of_char c :: u8) = of_char d"
    then have "unat (of_char c :: u8) = unat (of_char d :: u8)" by simp
    moreover have "unat (of_char c :: u8) = of_char c" for c :: char
    proof -
      have "unat (of_nat (of_char c :: nat) :: u8) = of_char c" by (simp add: unat_of_nat)
      then show ?thesis by (simp only: of_nat_of_char)
    qed
    ultimately show "c = d" by simp
  qed
  then show ?thesis by (simp add: go_bytes_def inj_map_eq_map)
qed

lemma ops_of_calls: "ops_of name (b\<lparr>br_ops := br_ops b @ ops\<rparr>) =
    ops_of name b @ filter (\<lambda>p. metric_program (fst p) = Some name) ops"
  by (simp add: ops_of_def)

lemma calls_Some:
  "calls valid ops b = (if ops_valid valid ops then Some (b\<lparr>br_ops := br_ops b @ ops\<rparr>) else None)"
  by (simp add: calls_def ops_valid_def)

lemma ops_count_upd [simp]:
  "ops_count m name (b\<lparr>br_seen := f\<rparr>) = ops_count m name b"
  "ops_of name (b\<lparr>br_seen := f\<rparr>) = ops_of name b"
  by (simp_all add: ops_count_def ops_of_def)

lemma ops_count_calls: "ops_count m name (b\<lparr>br_ops := br_ops b @ ops\<rparr>) =
    ops_count m name b + length (filter (\<lambda>p. p = (m, [go_bytes name], Inc)) ops)"
  by (simp add: ops_count_def)

text \<open>The calls of an event are calls on the metrics of its program, none on the self-monitoring
  counters.\<close>

lemma metric_program_self [simp]:
  "metric_program CollectorEventsTotal = None" "metric_program CollectorErrorsTotal = None"
  by (simp_all add: metric_program_def)

lemma event_calls_filter:
  assumes "event_calls name raw = Some ops"
  shows "filter (\<lambda>p. metric_program (fst p) = Some name') ops = (if name' = name then ops else [])"
    "m \<in> {CollectorEventsTotal, CollectorErrorsTotal} \<Longrightarrow>
     filter (\<lambda>p. p = (m, [go_bytes name'], Inc)) ops = []"
proof -
  note prog = event_calls_program [OF assms]
  then show "filter (\<lambda>p. metric_program (fst p) = Some name') ops = (if name' = name then ops else [])"
    by (auto simp: filter_empty_conv filter_id_conv)
  show "filter (\<lambda>p. p = (m, [go_bytes name'], Inc)) ops = []"
    if "m \<in> {CollectorEventsTotal, CollectorErrorsTotal}"
    using that prog by (fastforce simp: filter_empty_conv)
qed

text \<open>What a sample of the program \<open>name\<close> adds, when the client accepts the labels.\<close>

lemma bridge_ok_step:
  assumes "bridge_ok evs b" "name \<in> bpf_programs"
    and "br_seen b' = (case event_calls name raw of None \<Rightarrow> br_seen b | Some ops \<Rightarrow>
           (case limit_key name of None \<Rightarrow> br_seen b | Some k \<Rightarrow> (br_seen b)(k := br_seen b k + 1)))"
    and "br_ops b' = br_ops b @ (CollectorEventsTotal, [go_bytes name], Inc) #
           (case event_calls name raw of None \<Rightarrow> [(CollectorErrorsTotal, [go_bytes name], Inc)]
            | Some ops \<Rightarrow> concat (drop (length (admitted name (decoded_calls name evs)))
                (admitted name (decoded_calls name evs @ [ops]))))"
  shows "bridge_ok (evs @ [(name, raw)]) b'"
proof -
  have inv: "\<And>n k. n \<in> bpf_programs \<Longrightarrow> limit_key n = Some k \<Longrightarrow> br_seen b k = length (decoded_calls n evs)"
    "\<And>n. n \<in> bpf_programs \<Longrightarrow> ops_of n b = concat (admitted n (decoded_calls n evs))"
    "\<And>n. n \<in> bpf_programs \<Longrightarrow> ops_count CollectorEventsTotal n b = length (samples n evs)"
    "\<And>n. n \<in> bpf_programs \<Longrightarrow>
       ops_count CollectorErrorsTotal n b + length (decoded_calls n evs) = length (samples n evs)"
    using assms(1) unfolding bridge_ok_def by blast+
  have seen: "br_seen b' k = length (decoded_calls n (evs @ [(name, raw)]))"
    if "n \<in> bpf_programs" "limit_key n = Some k" for n k
  proof (cases "n = name")
    case True
    then show ?thesis using that inv(1) [OF that] by (simp add: assms(3) split: option.split)
  next
    case False
    then have "limit_key name \<noteq> Some k" using limit_key_inj [OF that(1) assms(2) that(2)] by blast
    then show ?thesis using False inv(1) [OF that] by (simp add: assms(3) split: option.split)
  qed
  show ?thesis
  proof (cases "event_calls name raw")
    case None
    show ?thesis unfolding bridge_ok_def
    proof (intro ballI conjI allI impI)
      fix n assume n: "n \<in> bpf_programs"
      show "br_seen b' k = length (decoded_calls n (evs @ [(name, raw)]))" if "limit_key n = Some k" for k
        by (rule seen [OF n that])
      have "ops_of n b' = ops_of n b" by (simp add: ops_of_def assms(4) None)
      then show "ops_of n b' = concat (admitted n (decoded_calls n (evs @ [(name, raw)])))"
        using inv(2) [OF n] None by (cases "name = n") auto
      show "ops_count CollectorEventsTotal n b' = length (samples n (evs @ [(name, raw)]))"
        using inv(3) [OF n] None by (cases "name = n") (auto simp: ops_count_def assms(4) go_bytes_inj)
      show "ops_count CollectorErrorsTotal n b' + length (decoded_calls n (evs @ [(name, raw)])) =
          length (samples n (evs @ [(name, raw)]))"
        using inv(4) [OF n] None by (cases "name = n") (auto simp: ops_count_def assms(4) go_bytes_inj)
    qed
  next
    case (Some ops)
    note f = event_calls_filter [OF Some]
    have f': "filter (\<lambda>p. metric_program (fst p) = Some n)
          (concat (drop (length (admitted name cs)) (admitted name (cs @ [ops])))) =
        (if n = name then concat (drop (length (admitted name cs)) (admitted name (cs @ [ops]))) else [])"
      "m \<in> {CollectorEventsTotal, CollectorErrorsTotal} \<Longrightarrow> filter (\<lambda>p. p = (m, [go_bytes n], Inc))
          (concat (drop (length (admitted name cs)) (admitted name (cs @ [ops])))) = []" for n cs m
      using f by (auto simp: admitted_snoc)
    have cat: "concat (admitted name cs) @
        concat (drop (length (admitted name cs)) (admitted name (cs @ [ops]))) =
        concat (admitted name (cs @ [ops]))" for cs
      by (simp add: admitted_snoc)
    show ?thesis unfolding bridge_ok_def
    proof (intro ballI conjI allI impI)
      fix n assume n: "n \<in> bpf_programs"
      show "br_seen b' k = length (decoded_calls n (evs @ [(name, raw)]))" if "limit_key n = Some k" for k
        by (rule seen [OF n that])
      have "ops_of n b' = ops_of n b @ filter (\<lambda>p. metric_program (fst p) = Some n)
          (concat (drop (length (admitted name (decoded_calls name evs)))
            (admitted name (decoded_calls name evs @ [ops]))))"
        by (simp add: ops_of_def assms(4) Some)
      then show "ops_of n b' = concat (admitted n (decoded_calls n (evs @ [(name, raw)])))"
        using inv(2) [OF n] cat f' Some by (cases "name = n") auto
      show "ops_count CollectorEventsTotal n b' = length (samples n (evs @ [(name, raw)]))"
        using inv(3) [OF n] f' Some by (cases "name = n") (auto simp: ops_count_def assms(4) go_bytes_inj)
      show "ops_count CollectorErrorsTotal n b' + length (decoded_calls n (evs @ [(name, raw)])) =
          length (samples n (evs @ [(name, raw)]))"
        using inv(4) [OF n] f' Some by (cases "name = n") (auto simp: ops_count_def assms(4))
    qed
  qed
qed

text \<open>One iteration: it fails exactly when a label of an admitted event is refused.\<close>

lemma bridge_consume_ok:
  assumes "bridge_ok evs b" "name \<in> bpf_programs" "valid (go_bytes name)"
  shows "case bridge_consume valid (name, raw) b of
      Some b' \<Rightarrow> bridge_ok (evs @ [(name, raw)]) b' \<and>
        list_all (ops_valid valid) (drop (length (admitted name (decoded_calls name evs)))
          (admitted name (decoded_calls name (evs @ [(name, raw)]))))
    | None \<Rightarrow> \<not> list_all (ops_valid valid) (admitted name (decoded_calls name (evs @ [(name, raw)])))"
proof -
  let ?b = "b\<lparr>br_ops := br_ops b @ [(CollectorEventsTotal, [go_bytes name], Inc)]\<rparr>"
  have ev: "bridge_consume valid (name, raw) b = bridge_record valid name raw ?b"
    using assms(2,3) by (simp add: bridge_consume_def calls_Some ops_valid_def op_labels_def)
  have seen: "br_seen b k = length (decoded_calls name evs)" if "limit_key name = Some k" for k
    using assms(1,2) that by (simp add: bridge_ok_def)
  note step = bridge_ok_step [OF assms(1,2), where raw = raw]
  show ?thesis
  proof (cases "event_calls name raw")
    case None
    then show ?thesis using assms(2,3)
      by (auto simp: ev bridge_record_eq calls_Some ops_valid_def op_labels_def intro!: step)
  next
    case (Some ops)
    then show ?thesis using assms(2)
      by (auto simp: ev bridge_record_eq calls_Some cardinalityOK_def Let_def admitted_snoc seen
          split: option.splits intro!: step)
  qed
qed

section \<open>Runs\<close>

lemma bridge_run_snoc:
  "bridge_run valid (evs @ [ev]) b = Option.bind (bridge_run valid evs b) (bridge_consume valid ev)"
  by (simp add: bridge_run_def)

lemma bridge_ok_Nil: "bridge_ok [] NewBridge"
  by (simp add: bridge_ok_def NewBridge_def ops_of_def ops_count_def admitted_def)

lemma admitted_mono: "\<exists>ys. admitted name (cs @ ds) = admitted name cs @ ys"
  by (simp add: admitted_def)

lemma run_valid_snoc:
  assumes "name \<in> bpf_programs"
  shows "run_valid valid (evs @ [(name, raw)]) \<longleftrightarrow> run_valid valid evs \<and>
    list_all (ops_valid valid) (admitted name (decoded_calls name (evs @ [(name, raw)])))"
proof -
  have "list_all (ops_valid valid) (admitted name (decoded_calls name evs))"
    if "list_all (ops_valid valid) (admitted name (decoded_calls name (evs @ [(name, raw)])))"
    using that admitted_mono [of name "decoded_calls name evs"] by (metis decoded_calls_simps(2) list_all_append)
  then show ?thesis using assms by (auto simp: run_valid_def)
qed

text \<open>The bridge makes exactly the calls it should, or the process ends.\<close>

lemma bridge_run_ok:
  assumes "list_all (\<lambda>ev. fst ev \<in> bpf_programs) evs" "\<forall>n \<in> bpf_programs. valid (go_bytes n)"
  shows "case bridge_run valid evs NewBridge of
      Some b \<Rightarrow> run_valid valid evs \<and> bridge_ok evs b | None \<Rightarrow> \<not> run_valid valid evs"
  using assms(1)
proof (induction evs rule: rev_induct)
  case Nil
  then show ?case by (simp add: bridge_run_def bridge_ok_Nil run_valid_def admitted_def)
next
  case (snoc ev evs)
  obtain name raw where ev: "ev = (name, raw)" by (cases ev)
  then have name: "name \<in> bpf_programs" using snoc.prems by simp
  note valid = run_valid_snoc [OF name, of valid evs raw]
  show ?case
  proof (cases "bridge_run valid evs NewBridge")
    case None
    then show ?thesis using snoc valid by (simp add: bridge_run_snoc ev)
  next
    case (Some b)
    then have b: "run_valid valid evs" "bridge_ok evs b" using snoc by auto
    let ?old = "admitted name (decoded_calls name evs)"
    let ?new = "admitted name (decoded_calls name (evs @ [(name, raw)]))"
    obtain ys where ys: "?new = ?old @ ys" using admitted_mono by (metis decoded_calls_simps(2))
    have old: "list_all (ops_valid valid) ?old" using b(1) name by (simp add: run_valid_def)
    have "valid (go_bytes name)" using assms(2) name by blast
    from bridge_consume_ok [where raw = raw, OF b(2) name, of valid, OF this] show ?thesis
      using b(1) old ys
      by (auto simp: bridge_run_snoc ev Some valid simp del: decoded_calls_simps split: option.splits)
  qed
qed

section \<open>ASCII labels\<close>

definition ascii :: "bytes \<Rightarrow> bool" where
  "ascii s \<longleftrightarrow> list_all (\<lambda>c. c < 0x80) s"

lemma ValidString_ascii_append: "ascii s \<Longrightarrow> ValidString (s @ t) = ValidString t"
  by (induction s) (simp_all add: ascii_def)

lemma ValidString_ascii: "ascii s \<Longrightarrow> ValidString s"
  using ValidString_ascii_append [of s "[]"] by simp

lemma ascii_simps [simp]:
  "ascii []" "ascii (c # cs) \<longleftrightarrow> c < 0x80 \<and> ascii cs" "ascii (s @ t) \<longleftrightarrow> ascii s \<and> ascii t"
  by (simp_all add: ascii_def)

lemma go_bytes_simps [simp]:
  "go_bytes [] = []" "go_bytes (c # cs) = of_char c # go_bytes cs" "go_bytes (s @ t) = go_bytes s @ go_bytes t"
  by (simp_all add: go_bytes_def)

lemma ascii_decimal: "ascii (go_bytes (decimal n))"
proof (induction n rule: decimal.induct)
  case (1 n)
  have digit: "(of_char (char_of (48 + d) :: char) :: u8) < 0x80" if "d < 10" for d :: nat
  proof -
    have "d \<in> set [0..<10]" using that by simp
    moreover have "list_all (\<lambda>d. (of_char (char_of (48 + d) :: char) :: u8) < 0x80) [0..<10]" by code_simp
    ultimately show ?thesis unfolding list_all_iff by blast
  qed
  show ?case
  proof (cases "n < 10")
    case True
    then show ?thesis using digit [of n] by (subst decimal.simps) simp
  next
    case False
    then show ?thesis using 1 digit [of "n mod 10"] by (subst decimal.simps) simp
  qed
qed

lemma ascii_SyscallName: "ascii (go_bytes (SyscallName nr))"
proof -
  have "list_all (\<lambda>p. ascii (go_bytes (snd p))) syscallNames"
    unfolding syscallNames_def by simp
  then have "ascii (go_bytes name)" if "map_of syscallNames n = Some name" for n name
    using map_of_SomeD [OF that] by (force simp: list_all_iff)
  then show ?thesis by (simp add: SyscallName_def ascii_decimal split: option.split)
qed

lemma ascii_ip_string: "ascii (go_bytes (ip_string bs))"
  by (simp add: ip_string_def ascii_decimal)

lemma ascii_formatDev: "ascii (go_bytes (formatDev dev))"
  by (simp add: formatDev_def Let_def ascii_decimal)

lemma utf8_rune_bytes:
  "list_all (\<lambda>n. let c = 0xC0 OR drop_bit 6 (of_nat n :: u8); d = 0x80 OR (of_nat n AND 0x3F)
      in \<not> c < 0x80 \<and> utf8_tail c = 1 \<and> utf8_second c d \<and> 0x80 \<le> d \<and> d \<le> 0xBF) [128..<256]"
  by code_simp

lemma utf8_rune_high:
  assumes "0x80 \<le> w"
  shows "ValidString (utf8_rune w @ t) = ValidString t"
proof -
  have "unat w \<in> {128..<256}"
    using assms unsigned_less [of w, where ?'a = nat] by (simp add: word_le_nat_alt)
  from bspec [OF utf8_rune_bytes [unfolded list_all_iff set_upt] this]
  have w: "\<not> 0xC0 OR drop_bit 6 w < 0x80" "utf8_tail (0xC0 OR drop_bit 6 w) = 1"
    "utf8_second (0xC0 OR drop_bit 6 w) (0x80 OR (w AND 0x3F))"
    "0x80 \<le> 0x80 OR (w AND 0x3F)" "0x80 OR (w AND 0x3F) \<le> 0xBF"
    by (simp_all add: Let_def)
  have "\<not> w < 0x80" using assms by simp
  then show ?thesis using w by (simp add: utf8_rune_def Let_def)
qed

lemma ValidString_OpString: "ValidString (OpString e)"
proof -
  have rune: "ValidString (utf8_rune w @ t) = ValidString t" for w t
    using utf8_rune_high [of w t] by (cases "w < 0x80") (simp_all add: utf8_rune_def not_less)
  have "ValidString (go_bytes ''unknown('' @ utf8_rune w @ go_bytes '')'')" for w
  proof -
    have "ascii (go_bytes ''unknown('')" "ascii (go_bytes '')'')" by simp_all
    then show ?thesis by (simp only: ValidString_ascii_append rune ValidString_ascii)
  qed
  moreover have "ascii (go_bytes ''read'')" "ascii (go_bytes ''write'')" "ascii (go_bytes ''sync'')"
    by simp_all
  ultimately show ?thesis unfolding OpString_def by (auto simp only: ValidString_ascii split: if_split)
qed


section \<open>Properties\<close>

text \<open>The command name an event is labelled with, if it is labelled at all.\<close>

definition event_comm :: "string \<Rightarrow> bytes \<Rightarrow> bytes list" where
  "event_comm name raw =
     (if name = ''syscall_latency'' then (case DecodeSyscallEvent raw of Inl err \<Rightarrow> [] | Inr e \<Rightarrow> [nullTermString (SE_Comm e)])
      else if name = ''tcp_monitor'' then (case DecodeTCPEvent raw of Inl err \<Rightarrow> [] | Inr e \<Rightarrow> [nullTermString (TE_Comm e)])
      else if name = ''oom_track'' then (case DecodeOOMEvent raw of Inl err \<Rightarrow> [] | Inr e \<Rightarrow> [nullTermString (OE_Comm e)])
      else if name = ''sched_delay'' then (case DecodeSchedEvent raw of Inl err \<Rightarrow> [] | Inr e \<Rightarrow> [nullTermString (SC_Comm e)])
      else if name = ''fd_track'' then (case DecodeFDEvent raw of Inl err \<Rightarrow> []
        | Inr e \<Rightarrow> if FE_Op e = 1 \<or> FE_Op e = 2 then [nullTermString (FE_Comm e)] else [])
      else [])"

lemma event_calls_valid:
  assumes "event_calls name raw = Some ops"
  shows "ops_valid ValidString ops \<longleftrightarrow> list_all ValidString (event_comm name raw)"
  using assms ascii_SyscallName ascii_ip_string ascii_formatDev ValidString_OpString
  by (auto simp: event_calls_def decoded_def event_comm_def ops_valid_def op_labels_def syscall_calls_def
      tcp_calls_def oom_calls_def disk_calls_def sched_calls_def fd_calls_def Let_def
      ValidString_ascii split: if_splits sum.splits)

definition decodable :: "string \<Rightarrow> bytes \<Rightarrow> bool" where
  "decodable name raw \<longleftrightarrow> event_calls name raw \<noteq> None"

lemma decoded_calls_filter:
  "decoded_calls name evs = map (\<lambda>raw. the (event_calls name raw)) (filter (decodable name) (samples name evs))"
  unfolding decoded_calls_def List.map_filter_def decodable_def by (simp add: comp_def)

lemma run_valid_comm:
  "run_valid ValidString evs \<longleftrightarrow> (\<forall>name \<in> bpf_programs.
     \<forall>raw \<in> set (admitted name (filter (decodable name) (samples name evs))).
       list_all ValidString (event_comm name raw))"
proof -
  have adm: "admitted name (map f xs) = map f (admitted name xs)" for name and f :: "'x \<Rightarrow> 'y" and xs
    by (simp add: admitted_def take_map)
  have "set (admitted name xs) \<subseteq> set xs" for name and xs :: "bytes list"
    by (auto simp: admitted_def dest: in_set_takeD)
  then have "\<forall>raw \<in> set (admitted name (filter (decodable name) (samples name evs))).
      ops_valid ValidString (the (event_calls name raw)) = list_all ValidString (event_comm name raw)" for name
    using event_calls_valid by (fastforce simp: decodable_def)
  then show ?thesis by (simp add: run_valid_def decoded_calls_filter adm list_all_iff)
qed

text \<open>C27: the metrics of the daemon stop after 5000 events. In any interleaving of the consumers that
  the process survives, the calls on the metrics of each program are those for its first 5000 events
  that decode, in their order (all of them for OOM kills), whatever their labels, while the event
  and error counters go on counting every sample. So the limit on the number of label combinations is
  a limit on the number of events, and the counter of system calls never exceeds it.\<close>

theorem bridge_stops_counting:
  assumes "\<forall>s. valid s \<longleftrightarrow> ValidString s" "list_all (\<lambda>ev. fst ev \<in> bpf_programs) evs"
    and "bridge_run valid evs NewBridge = Some b" "name \<in> bpf_programs"
  shows "ops_of name b = concat (admitted name (decoded_calls name evs)) \<and>
    ops_count CollectorEventsTotal name b = length (samples name evs) \<and>
    ops_count CollectorErrorsTotal name b + length (decoded_calls name evs) = length (samples name evs) \<and>
    length (filter (\<lambda>p. fst p = SyscallTotal) (br_ops b)) =
      min LabelCardinalityLimit (length (decoded_calls ''syscall_latency'' evs))"
proof -
  have names: "\<forall>n \<in> bpf_programs. valid (go_bytes n)"
    using assms(1) by (auto simp: bpf_programs_def ValidString_ascii)
  have ok: "bridge_ok evs b" using bridge_run_ok [OF assms(2) names] assms(3) by simp
  then have sys: "ops_of ''syscall_latency'' b =
      concat (take LabelCardinalityLimit (decoded_calls ''syscall_latency'' evs))"
    by (simp add: bridge_ok_def bpf_programs_def admitted_def limit_key_def)
  have "metric_program m = Some ''syscall_latency''" if "m = SyscallTotal" for m
    using that by (simp add: metric_program_def)
  then have "filter (\<lambda>p. fst p = SyscallTotal) (br_ops b) =
      filter (\<lambda>p. fst p = SyscallTotal) (ops_of ''syscall_latency'' b)"
    by (auto simp: ops_of_def intro: filter_cong)
  moreover have one: "length (filter (\<lambda>p. fst p = SyscallTotal) ops) = 1"
    if "ops \<in> set (decoded_calls ''syscall_latency'' evs)" for ops
    using that by (auto simp: decoded_calls_filter decodable_def event_calls_def decoded_def
        syscall_calls_def Let_def split: sum.splits)
  have "length (filter (\<lambda>p. fst p = SyscallTotal) (concat xs)) = length xs"
    if "\<forall>ops \<in> set xs. length (filter (\<lambda>p. fst p = SyscallTotal) ops) = 1" for xs :: "metric_op list list"
    using that by (induction xs) auto
  from this [of "take LabelCardinalityLimit (decoded_calls ''syscall_latency'' evs)"]
  have "length (filter (\<lambda>p. fst p = SyscallTotal) (ops_of ''syscall_latency'' b)) =
      min LabelCardinalityLimit (length (decoded_calls ''syscall_latency'' evs))"
    using one by (auto simp: sys min.commute dest: in_set_takeD)
  ultimately show ?thesis using ok assms(4) by (simp add: bridge_ok_def)
qed

text \<open>C28: a command name that is not UTF-8 ends the daemon. The process survives a run of the
  consumers exactly when every event they record carries a command name that is valid UTF-8; a
  process chooses its name freely, and the kernel cuts it after 15 bytes.\<close>

theorem bridge_panics_on_name:
  assumes "\<forall>s. valid s \<longleftrightarrow> ValidString s" "list_all (\<lambda>ev. fst ev \<in> bpf_programs) evs"
  shows "bridge_run valid evs NewBridge = None \<longleftrightarrow> (\<exists>name \<in> bpf_programs.
    \<exists>raw \<in> set (admitted name (filter (decodable name) (samples name evs))).
      \<not> list_all ValidString (event_comm name raw))"
proof -
  have "valid = ValidString" using assms(1) by blast
  moreover have "\<forall>n \<in> bpf_programs. ValidString (go_bytes n)"
    by (auto simp: bpf_programs_def ValidString_ascii)
  ultimately show ?thesis
    using bridge_run_ok [OF assms(2), of ValidString] run_valid_comm [of evs] by (auto split: option.splits)
qed


text \<open>The name a process keeps when the kernel cuts it inside a character.\<close>

definition demo_cut_sample :: bytes where
  "demo_cut_sample = replicate 32 0 @ [0x61, 0xC3] @ replicate 14 0"

lemma demo_cut_decodes:
  "DecodeSchedEvent demo_cut_sample = Inr \<lparr>SC_TimestampNs = 0, SC_RunqDelayNs = 0, SC_CgroupID = 0,
     SC_PID = 0, SC_CPU = 0, SC_Comm = [0x61, 0xC3] @ replicate 14 0\<rparr>"
  by (simp add: DecodeSchedEvent_def binary_Read_def SchedEvent_fields_def TaskCommLen_def
      demo_cut_sample_def bslice_def le_word_def eval_nat_numeral)

theorem bridge_panics_on_name_witness:
  "bridge_run ValidString [(''sched_delay'', demo_cut_sample)] NewBridge = None"
proof -
  have "samples ''sched_delay'' [(''sched_delay'', demo_cut_sample)] = [demo_cut_sample]"
    by (simp add: samples_def)
  moreover have "decodable ''sched_delay'' demo_cut_sample"
    by (simp add: decodable_def event_calls_def demo_cut_decodes decoded_def)
  moreover have "nullTermString ([0x61, 0xC3] @ replicate 14 0) = [0x61, 0xC3]"
    using nullTermString_app [of "[0x61, 0xC3]" "replicate 13 0"] by (simp flip: replicate_Suc)
  then have "\<not> list_all ValidString (event_comm ''sched_delay'' demo_cut_sample)"
    by (simp add: event_comm_def demo_cut_decodes utf8_tail_def)
  ultimately show ?thesis
    using bridge_panics_on_name [of ValidString "[(''sched_delay'', demo_cut_sample)]"]
    by (fastforce simp: bpf_programs_def admitted_def limit_key_def LabelCardinalityLimit_def)
qed

theorem bridge_stops_counting_witness:
  "\<exists>b. bridge_run ValidString [(''disk_io'', replicate 56 82), (''disk_io'', [])] NewBridge = Some b \<and>
     ops_count CollectorEventsTotal ''disk_io'' b = 2"
proof -
  let ?evs = "[(''disk_io'', replicate 56 82), (''disk_io'', [])] :: (string \<times> bytes) list"
  have "list_all ValidString (event_comm n raw)" if "raw \<in> set (samples n ?evs)" for n raw
    using that by (auto simp: samples_def event_comm_def split: if_splits)
  then have "run_valid ValidString ?evs"
    unfolding run_valid_comm by (auto simp: admitted_def split: if_splits dest!: in_set_takeD)
  then obtain b where b: "bridge_run ValidString ?evs NewBridge = Some b"
    using bridge_run_ok [of ?evs ValidString]
    by (cases "bridge_run ValidString ?evs NewBridge") (auto simp: bpf_programs_def ValidString_ascii)
  show ?thesis
    using bridge_stops_counting [of ValidString, OF _ _ b, of "''disk_io''"] b
    by (simp add: bpf_programs_def samples_def)
qed

end
