(* ===== verification/AiLimit.thy ===== *)
theory AiLimit
  imports GoTime "HOL-Library.AList"
begin

text \<open>
  What stands between the diagnosis and the language model: the token bucket of
  \<open>internal/ai/ratelimit.go\<close> and the response cache of \<open>internal/ai/cache.go\<close>. Both are used under
  their mutex, so each operation is atomic; the readings of \<open>time.Now()\<close> are arguments.
\<close>

section \<open>Rate limiter\<close>

record RateLimitedProvider =
  rl_tokens :: int
  rl_maxTokens :: int
  rl_interval :: int
  rl_lastFill :: int

definition NewRateLimitedProvider :: "int \<Rightarrow> int \<Rightarrow> RateLimitedProvider" where
  "NewRateLimitedProvider perMinute now =
     (let perMinute = (if perMinute \<le> 0 then 10 else perMinute)
      in \<lparr>rl_tokens = perMinute, rl_maxTokens = perMinute, rl_interval = 60000000000,
          rl_lastFill = now\<rparr>)"

definition rl_refill :: "int \<Rightarrow> RateLimitedProvider \<Rightarrow> int" where
  "rl_refill elapsed r =
     float_to_int64 (f64 (f64 (of_int (rl_maxTokens r)) *
       f64 (f64 (of_int elapsed) / f64 (of_int (rl_interval r)))))"

definition rl_allow :: "int \<Rightarrow> RateLimitedProvider \<Rightarrow> bool \<times> RateLimitedProvider" where
  "rl_allow now r =
     (let elapsed = go_Sub now (rl_lastFill r);
          r = (if rl_interval r \<le> elapsed
               then r\<lparr>rl_tokens := rl_maxTokens r, rl_lastFill := now\<rparr>
               else let refill = rl_refill elapsed r
                    in if 0 < refill
                       then r\<lparr>rl_tokens := (if rl_maxTokens r < rl_tokens r + refill
                                then rl_maxTokens r else rl_tokens r + refill),
                              rl_lastFill := now\<rparr>
                       else r)
      in if rl_tokens r \<le> 0 then (False, r) else (True, r\<lparr>rl_tokens := rl_tokens r - 1\<rparr>))"

text \<open>A sequence of calls at the times \<open>nows\<close>, with the answers.\<close>

fun rl_run :: "RateLimitedProvider \<Rightarrow> int list \<Rightarrow> bool list \<times> RateLimitedProvider" where
  "rl_run r [] = ([], r)"
| "rl_run r (now # nows) =
     (let (ok, r) = rl_allow now r; (oks, r) = rl_run r nows in (ok # oks, r))"

section \<open>Cache\<close>

text \<open>The map as an association list; Go iterates over it in any order, which no operation
  depends on.\<close>

record 'r Cache =
  ca_entries :: "(string \<times> 'r \<times> int) list"
  ca_ttl :: int

definition NewCache :: "int \<Rightarrow> 'r Cache" where
  "NewCache ttl = \<lparr>ca_entries = [], ca_ttl = ttl\<rparr>"

definition cache_Get :: "string \<Rightarrow> int \<Rightarrow> 'r Cache \<Rightarrow> 'r option" where
  "cache_Get key now c =
     (case map_of (ca_entries c) key of
        None \<Rightarrow> None
      | Some (response, expiresAt) \<Rightarrow> if expiresAt < now then None else Some response)"

definition cache_evictExpired :: "int \<Rightarrow> 'r Cache \<Rightarrow> 'r Cache" where
  "cache_evictExpired now c =
     c\<lparr>ca_entries := filter (\<lambda>(k, v). \<not> snd v < now) (ca_entries c)\<rparr>"

text \<open>\<open>now\<close> is the reading for the new entry, \<open>now'\<close> the one of the eviction.\<close>

definition cache_Set :: "string \<Rightarrow> 'r \<Rightarrow> int \<Rightarrow> int \<Rightarrow> 'r Cache \<Rightarrow> 'r Cache" where
  "cache_Set key response now now' c =
     (let c = c\<lparr>ca_entries := AList.update key (response, now + ca_ttl c) (ca_entries c)\<rparr>
      in if 100 < length (ca_entries c) then cache_evictExpired now' c else c)"

section \<open>The bucket\<close>

text \<open>The refill computed in floating point never exceeds the exact share of the elapsed time, and
  reaches one token as soon as that share does with a nanosecond to spare.\<close>

lemma rl_refill_float:
  assumes "0 < e" "e < 60000000000" "1 \<le> m" "m \<le> 32768"
    and "q = (of_int e / 60000000000 :: rat)" "x = of_int m * q"
    and "y = f64 (f64 (of_int m) * f64 (f64 (of_int e) / f64 60000000000))"
  shows "\<bar>y - x\<bar> \<le> x / 2 ^ 51" "0 < x" "x < of_int m"
proof -
  have exact: "f64 (of_int e) = of_int e" "f64 (of_int m) = of_int m" "f64 60000000000 = 60000000000"
    using f64_of_int [of e] f64_of_int [of m] f64_of_int [of 60000000000] assms by simp_all
  have e: "1 \<le> (of_int e :: rat)" "of_int e < (60000000000 :: rat)" using assms(1,2) by simp_all
  have m: "1 \<le> (of_int m :: rat)" "of_int m \<le> (32768 :: rat)" using assms(3,4) by simp_all
  have q: "1 / 60000000000 \<le> q" "q < 1" using e by (simp_all add: assms(5) divide_le_cancel)
  then have near: "\<bar>f64 q - q\<bar> \<le> q / 2 ^ 53" by (intro f64_near) simp
  moreover have "q / 2 ^ 53 \<le> q / 2" using q by simp
  ultimately have p: "q / 2 \<le> f64 q" by linarith
  let ?p = "of_int m * f64 q :: rat"
  have "\<bar>?p - x\<bar> = of_int m * \<bar>f64 q - q\<bar>" using m by (simp add: assms(6) abs_mult flip: right_diff_distrib)
  also have "\<dots> \<le> of_int m * (q / 2 ^ 53)" using near m by (intro mult_left_mono) simp_all
  finally have px: "\<bar>?p - x\<bar> \<le> x / 2 ^ 53" by (simp add: assms(6))
  have "1 * (1 / 120000000000) \<le> ?p" using m p q by (intro mult_mono) simp_all
  then have "1 \<le> ?p * 2 ^ 64" by simp
  then have "\<bar>f64 ?p - ?p\<bar> \<le> ?p / 2 ^ 53" by (rule f64_near)
  moreover have y: "y = f64 ?p" by (simp add: assms(5,7) exact)
  moreover show "0 < x" using m q by (simp add: assms(6) mult_pos_pos)
  moreover have "?p / 2 ^ 53 \<le> 2 * (x / 2 ^ 53)"
  proof -
    have "x / 2 ^ 53 \<le> x" using \<open>0 < x\<close> by simp
    then have "?p \<le> 2 * x" using px by linarith
    then show ?thesis by (simp add: mult.commute)
  qed
  ultimately have "\<bar>y - x\<bar> \<le> 3 * (x / 2 ^ 53)" using px by linarith
  also have "\<dots> \<le> x / 2 ^ 51" using \<open>0 < x\<close> by simp
  finally show "\<bar>y - x\<bar> \<le> x / 2 ^ 51" .
  show "x < of_int m" using m q by (simp add: assms(6))
qed

lemma rl_refill_bounds:
  assumes "0 \<le> e" "e < 60000000000" "1 \<le> m" "m \<le> 32768"
    and "rl_maxTokens r = m" "rl_interval r = 60000000000"
  shows "rl_refill e r * 60000000000 \<le> m * e" "0 \<le> rl_refill e r"
    "60000000000 \<le> (e - 1) * m \<Longrightarrow> 0 < rl_refill e r"
proof -
  define x y where "x = (of_int m * (of_int e / 60000000000) :: rat)"
    and "y = f64 (f64 (of_int m) * f64 (f64 (of_int e) / f64 60000000000))"
  have fill: "rl_refill e r = float_to_int64 y" using assms(5,6) by (simp add: rl_refill_def y_def)
  have "rl_refill e r * 60000000000 \<le> m * e \<and> 0 \<le> rl_refill e r \<and>
    (60000000000 \<le> (e - 1) * m \<longrightarrow> 0 < rl_refill e r)"
  proof (cases "e = 0")
    case True
    then show ?thesis using assms(3) unfolding fill y_def by (simp add: float_to_int64_def)
  next
    case False
    then have e: "0 < e" using assms(1) by simp
    note near = rl_refill_float [OF e assms(2-4) refl x_def y_def]
    have m: "(of_int m :: rat) \<le> 32768" using assms(4) by simp
    then have x: "0 < x" "x < 32768" "x / 2 ^ 51 < 1 / 2 ^ 36" using near(2,3) by simp_all
    then have "x / 2 ^ 51 \<le> x" by simp
    then have y: "0 \<le> y" "y < 65536" using near(1) x by linarith+
    then have "\<lfloor>y\<rfloor> < 65536" by linarith
    then have k: "rl_refill e r = \<lfloor>y\<rfloor>" using y by (simp add: fill float_to_int64_def)
    have xe: "of_int (m * e) = x * 60000000000" by (simp add: x_def)
    have gap: "x / 2 ^ 51 < 1 / 60000000000" using x(3) by (rule less_trans) simp
    have "\<lfloor>y\<rfloor> * 60000000000 \<le> m * e"
    proof (rule ccontr)
      assume "\<not> ?thesis"
      then have "m * e + 1 \<le> \<lfloor>y\<rfloor> * 60000000000" by linarith
      then have "(of_int (m * e + 1) :: rat) \<le> of_int (\<lfloor>y\<rfloor> * 60000000000)" by (simp only: of_int_le_iff)
      then have "x * 60000000000 + 1 \<le> of_int \<lfloor>y\<rfloor> * 60000000000" by (simp add: xe flip: of_int_mult)
      then have "x + 1 / 60000000000 \<le> of_int \<lfloor>y\<rfloor>" by simp
      also have "\<dots> \<le> y" by simp
      finally have "x + 1 / 60000000000 \<le> y" .
      then show False using near(1) gap by linarith
    qed
    moreover have "0 < \<lfloor>y\<rfloor>" if "60000000000 \<le> (e - 1) * m"
    proof -
      have "60000000000 + 1 \<le> m * e" using that assms(3) by (simp add: algebra_simps)
      then have "(of_int (60000000000 + 1) :: rat) \<le> of_int (m * e)" by (simp only: of_int_le_iff)
      then have "1 + 1 / 60000000000 \<le> x" unfolding xe by simp
      then have "1 \<le> y" using near(1) gap by linarith
      then show ?thesis by simp
    qed
    ultimately show ?thesis using y k by simp
  qed
  then show "rl_refill e r * 60000000000 \<le> m * e" "0 \<le> rl_refill e r"
    "60000000000 \<le> (e - 1) * m \<Longrightarrow> 0 < rl_refill e r" by simp_all
qed

text \<open>The invariant: tokens handed out and tokens left are paid for by the initial bucket and the
  time up to the last refill.\<close>

definition rl_inv :: "int \<Rightarrow> int \<Rightarrow> int \<Rightarrow> int \<Rightarrow> RateLimitedProvider \<Rightarrow> bool" where
  "rl_inv m start now used r \<longleftrightarrow>
     rl_maxTokens r = m \<and> rl_interval r = 60000000000 \<and> 0 \<le> rl_tokens r \<and> rl_tokens r \<le> m \<and>
     start \<le> rl_lastFill r \<and> rl_lastFill r \<le> now \<and>
     60000000000 * (used + rl_tokens r) \<le> m * (60000000000 + (rl_lastFill r - start))"

lemma rl_allow_inv:
  assumes "1 \<le> m" "m \<le> 32768" "rl_inv m start now used r" "now \<le> now'" "rl_allow now' r = (ok, r')"
  shows "rl_inv m start now' (used + of_bool ok) r'"
    "60000000000 \<le> (now' - now - 1) * m \<Longrightarrow> ok"
proof -
  define e where "e = go_Sub now' (rl_lastFill r)"
  have r: "rl_maxTokens r = m" "rl_interval r = 60000000000" "0 \<le> rl_tokens r" "rl_tokens r \<le> m"
    "start \<le> rl_lastFill r" "rl_lastFill r \<le> now"
    and paid: "60000000000 * (used + rl_tokens r) \<le> m * (60000000000 + (rl_lastFill r - start))"
    using assms(3) by (simp_all add: rl_inv_def)
  have e: "0 \<le> e" "e \<le> now' - rl_lastFill r" using r(6) assms(4) by (simp_all add: e_def go_Sub_def)
  have e': "e < 60000000000 \<Longrightarrow> e = now' - rl_lastFill r"
    using r(6) assms(4) by (simp add: e_def go_Sub_def)
  note k = rl_refill_bounds [OF e(1) _ assms(1,2) r(1,2)]
  define r1 where "r1 = (if rl_interval r \<le> e
       then r\<lparr>rl_tokens := rl_maxTokens r, rl_lastFill := now'\<rparr>
       else let refill = rl_refill e r
            in if 0 < refill
               then r\<lparr>rl_tokens := (if rl_maxTokens r < rl_tokens r + refill
                        then rl_maxTokens r else rl_tokens r + refill), rl_lastFill := now'\<rparr>
               else r)"
  have "rl_inv m start now' used r1 \<and> (60000000000 \<le> (now' - now - 1) * m \<longrightarrow> 0 < rl_tokens r1)"
  proof (cases "60000000000 \<le> e")
    case True
    then have "m * 60000000000 \<le> m * (now' - rl_lastFill r)"
      using e(2) assms(1) by (intro mult_left_mono) simp_all
    then show ?thesis using True r paid assms(1,4)
      by (simp add: r1_def rl_inv_def algebra_simps)
  next
    case False
    then have eq: "e = now' - rl_lastFill r" and small: "e < 60000000000" using e' by simp_all
    note k = k(1) [OF small] k(3) [OF small]
    have "60000000000 \<le> (e - 1) * m" if "60000000000 \<le> (now' - now - 1) * m"
    proof -
      have "(now' - now - 1) * m \<le> (e - 1) * m"
        using eq r(6) assms(1) by (intro mult_right_mono) simp_all
      with that show ?thesis by linarith
    qed
    with k(2) have live: "0 < rl_refill e r" if "60000000000 \<le> (now' - now - 1) * m" using that by blast
    have "m * e = m * now' - m * rl_lastFill r" by (simp add: eq algebra_simps)
    then show ?thesis using False r paid k(1) live assms(1,4)
      by (auto simp: r1_def rl_inv_def Let_def algebra_simps)
  qed
  moreover have "rl_allow now' r =
      (if rl_tokens r1 \<le> 0 then (False, r1) else (True, r1\<lparr>rl_tokens := rl_tokens r1 - 1\<rparr>))"
    by (simp add: rl_allow_def Let_def e_def r1_def)
  ultimately show "rl_inv m start now' (used + of_bool ok) r'"
    "60000000000 \<le> (now' - now - 1) * m \<Longrightarrow> ok"
    using assms(5) by (auto simp: rl_inv_def split: if_splits)
qed

lemma rl_run_inv:
  assumes "1 \<le> m" "m \<le> 32768"
  shows "rl_inv m start now used r \<Longrightarrow> sorted (now # nows) \<Longrightarrow> rl_run r nows = (oks, r') \<Longrightarrow>
    rl_inv m start (last (now # nows)) (used + int (length (filter id oks))) r'"
proof (induction nows arbitrary: now used r oks)
  case Nil
  then show ?case by simp
next
  case (Cons now' nows)
  obtain ok r1 where step: "rl_allow now' r = (ok, r1)" by fastforce
  obtain oks' where run: "rl_run r1 nows = (oks', r')" "oks = ok # oks'"
    using Cons.prems(3) step by (auto simp: Let_def split: prod.splits)
  have "rl_inv m start now' (used + of_bool ok) r1"
    using rl_allow_inv(1) [OF assms Cons.prems(1) _ step] Cons.prems(2) by simp
  from Cons.IH [OF this _ run(1)] Cons.prems(2) show ?case
    by (cases ok) (simp_all add: run(2) ac_simps)
qed

lemma rl_run_append:
  "rl_run r (xs @ ys) =
     (let (oks, r) = rl_run r xs; (oks', r) = rl_run r ys in (oks @ oks', r))"
  by (induction xs arbitrary: r) (auto simp: Let_def split: prod.splits)

text \<open>The invariant of a window that begins at \<open>s\<close>. As long as no tokens were added in the window, those
  handed out come from the bucket, and a call that added none found less than one token earned since the
  last refill, which may lie before the window; afterwards they are paid for by the bucket, the time since
  \<open>s\<close>, and one token earned earlier.\<close>

definition rl_window :: "int \<Rightarrow> int \<Rightarrow> int \<Rightarrow> int \<Rightarrow> RateLimitedProvider \<Rightarrow> bool" where
  "rl_window m s now used r \<longleftrightarrow>
     rl_maxTokens r = m \<and> rl_interval r = 60000000000 \<and> 0 \<le> rl_tokens r \<and> rl_tokens r \<le> m \<and>
     rl_lastFill r \<le> now \<and> 0 \<le> used \<and>
     (rl_lastFill r \<le> s \<and> used + rl_tokens r \<le> m \<and>
        (used = 0 \<or> m * (s - rl_lastFill r) \<le> 60000000000 + m) \<or>
      s \<le> rl_lastFill r \<and>
        60000000000 * (used + rl_tokens r) \<le> m * (60000000000 + (rl_lastFill r - s) + 1) + 60000000000)"

lemma rl_window_fill:
  assumes "1 \<le> m" "rl_window m s now used r" "s \<le> now'" "0 \<le> t" "t \<le> m"
    and "t = m \<and> 60000000000 * m \<le> m * (now' - rl_lastFill r) \<or>
      60000000000 * (t - rl_tokens r) \<le> m * (now' - rl_lastFill r)"
  shows "rl_window m s now' used (r\<lparr>rl_tokens := t, rl_lastFill := now'\<rparr>)"
proof -
  have w: "rl_maxTokens r = m" "rl_interval r = 60000000000" "0 \<le> rl_tokens r" "0 \<le> used"
    using assms(2) by (simp_all add: rl_window_def)
  have ms: "m * s \<le> m * now'" using assms(1,3) by (intro mult_left_mono) simp_all
  note dist = distrib_left right_diff_distrib
  consider "used = 0" | "used \<le> m" "used + rl_tokens r \<le> m" "m * (s - rl_lastFill r) \<le> 60000000000 + m"
    | "60000000000 * (used + rl_tokens r) \<le> m * (60000000000 + (rl_lastFill r - s) + 1) + 60000000000"
    using assms(2) by (auto simp: rl_window_def)
  then have "60000000000 * (used + t) \<le> m * (60000000000 + (now' - s) + 1) + 60000000000"
  proof cases
    case 1
    then show ?thesis using ms assms(1,5) unfolding dist by linarith
  next
    case 2
    then show ?thesis using assms(1,6) ms w unfolding dist by linarith
  next
    case 3
    then show ?thesis using assms(1,6) w unfolding dist by linarith
  qed
  then show ?thesis using w assms(3-5) by (simp add: rl_window_def)
qed

lemma rl_allow_window:
  assumes "1 \<le> m" "m \<le> 32768" "rl_window m s now used r" "now \<le> now'" "s \<le> now'"
    and "rl_allow now' r = (ok, r')"
  shows "rl_window m s now' (used + of_bool ok) r'"
proof -
  define e where "e = go_Sub now' (rl_lastFill r)"
  have r: "rl_maxTokens r = m" "rl_interval r = 60000000000" "0 \<le> rl_tokens r" "rl_tokens r \<le> m"
    "rl_lastFill r \<le> now" using assms(3) by (simp_all add: rl_window_def)
  have e: "0 \<le> e" "e \<le> now' - rl_lastFill r" using r(5) assms(4) by (simp_all add: e_def go_Sub_def)
  have e': "e < 60000000000 \<Longrightarrow> e = now' - rl_lastFill r"
    using r(5) assms(4) by (simp add: e_def go_Sub_def)
  note k = rl_refill_bounds [OF e(1) _ assms(1,2) r(1,2)]
  define r1 where "r1 = (if rl_interval r \<le> e
       then r\<lparr>rl_tokens := rl_maxTokens r, rl_lastFill := now'\<rparr>
       else let refill = rl_refill e r
            in if 0 < refill
               then r\<lparr>rl_tokens := (if rl_maxTokens r < rl_tokens r + refill
                        then rl_maxTokens r else rl_tokens r + refill), rl_lastFill := now'\<rparr>
               else r)"
  note fill = rl_window_fill [OF assms(1,3,5)]
  have r1: "rl_window m s now' used r1 \<and> (rl_lastFill r1 \<le> s \<longrightarrow>
      s \<le> rl_lastFill r1 \<or> m * (s - rl_lastFill r1) \<le> 60000000000 + m)"
  proof (cases "60000000000 \<le> e")
    case True
    then have "m * 60000000000 \<le> m * (now' - rl_lastFill r)"
      using e(2) assms(1) by (intro mult_left_mono) simp_all
    then show ?thesis using fill [of m] True r assms(1,5) by (simp add: r1_def mult.commute)
  next
    case False
    then have eq: "e = now' - rl_lastFill r" and small: "e < 60000000000" using e' by simp_all
    show ?thesis
    proof (cases "0 < rl_refill e r")
      case True
      have "60000000000 * rl_refill e r \<le> m * (now' - rl_lastFill r)"
        using k(1) [OF small] by (simp add: eq mult.commute)
      then show ?thesis using fill [of m] fill [of "rl_tokens r + rl_refill e r"] True False r assms(1,5)
        by (auto simp: r1_def Let_def algebra_simps)
    next
      case none: False
      then have "\<not> 60000000000 \<le> (e - 1) * m" using k(3) [OF small] by blast
      then have "m * (now' - rl_lastFill r) \<le> 60000000000 + m" by (simp add: eq algebra_simps)
      moreover have "m * (s - rl_lastFill r) \<le> m * (now' - rl_lastFill r)"
        using assms(1,5) by (intro mult_left_mono) simp_all
      ultimately show ?thesis using none False r(2) assms(3,4)
        by (auto simp: r1_def Let_def rl_window_def)
    qed
  qed
  moreover have "rl_allow now' r =
      (if rl_tokens r1 \<le> 0 then (False, r1) else (True, r1\<lparr>rl_tokens := rl_tokens r1 - 1\<rparr>))"
    by (simp add: rl_allow_def Let_def e_def r1_def)
  ultimately show ?thesis using assms(1,6)
    by (auto simp: rl_window_def algebra_simps split: if_splits)
qed

lemma rl_run_window:
  assumes "1 \<le> m" "m \<le> 32768"
  shows "rl_window m s now used r \<Longrightarrow> sorted (now # nows) \<Longrightarrow> \<forall>x \<in> set nows. s \<le> x \<Longrightarrow>
    rl_run r nows = (oks, r') \<Longrightarrow>
    rl_window m s (last (now # nows)) (used + int (length (filter id oks))) r'"
proof (induction nows arbitrary: now used r oks)
  case Nil
  then show ?case by simp
next
  case (Cons now' nows)
  obtain ok r1 where step: "rl_allow now' r = (ok, r1)" by fastforce
  obtain oks' where run: "rl_run r1 nows = (oks', r')" "oks = ok # oks'"
    using Cons.prems(4) step by (auto simp: Let_def split: prod.splits)
  have "rl_window m s now' (used + of_bool ok) r1"
    using rl_allow_window [OF assms Cons.prems(1) _ _ step] Cons.prems(2,3) by simp
  from Cons.IH [OF this _ _ run(1)] Cons.prems(2,3) show ?case
    by (cases ok) (simp_all add: run(2) ac_simps)
qed

text \<open>C23: the rate limit. However the calls are spread, the number let through by some time since the
  limiter was created is at most a full bucket plus the configured rate for the time that has passed.
  Over a window that begins later, after any earlier calls, it is at most one call more: the time before
  the window that has not yet earned a token still counts. Both hold in spite of the floating-point
  refill. And a caller is not locked out: one who waits a nanosecond longer than the time of one token
  gets through.\<close>

theorem rate_limit_bounds:
  assumes "1 \<le> perMinute" "perMinute \<le> 32768" "sorted (start # before @ window)"
    and "rl_run (NewRateLimitedProvider perMinute start) before = (oks0, r0)"
    and "rl_run r0 window = (oks, r)" "now0 = last (start # before @ window)"
  shows "60000000000 * int (length (filter id (oks0 @ oks))) \<le>
      perMinute * (60000000000 + (now0 - start)) \<and>
    (window \<noteq> [] \<longrightarrow> 60000000000 * int (length (filter id oks)) \<le>
      perMinute * (60000000000 + (now0 - hd window) + 1) + 60000000000) \<and>
    0 \<le> rl_tokens r \<and> rl_tokens r \<le> perMinute \<and>
    (\<forall>now \<ge> now0. 60000000000 \<le> (now - now0 - 1) * perMinute \<longrightarrow> fst (rl_allow now r))"
proof -
  have new: "rl_inv perMinute start start 0 (NewRateLimitedProvider perMinute start)"
    using assms(1) by (simp add: rl_inv_def NewRateLimitedProvider_def)
  have "rl_run (NewRateLimitedProvider perMinute start) (before @ window) = (oks0 @ oks, r)"
    using assms(4,5) by (simp add: rl_run_append)
  from rl_run_inv [OF assms(1,2) new assms(3) this]
  have inv: "rl_inv perMinute start now0 (int (length (filter id (oks0 @ oks)))) r"
    by (simp add: assms(6))
  have "perMinute * rl_lastFill r \<le> perMinute * now0"
    using inv assms(1) by (intro mult_left_mono) (simp_all add: rl_inv_def)
  then have total: "60000000000 * int (length (filter id (oks0 @ oks))) \<le>
      perMinute * (60000000000 + (now0 - start))"
    using inv unfolding rl_inv_def by (simp only: distrib_left right_diff_distrib) linarith
  have "60000000000 * int (length (filter id oks)) \<le>
      perMinute * (60000000000 + (now0 - hd window) + 1) + 60000000000" if "window \<noteq> []"
  proof -
    have "rl_inv perMinute start (last (start # before)) (int (length (filter id oks0))) r0"
      using rl_run_inv [OF assms(1,2) new _ assms(4)] assms(3) by (simp add: sorted_append)
    moreover have "last (start # before) \<le> hd window" "\<forall>x \<in> set window. hd window \<le> x"
      using assms(3) that by (cases window; auto simp: sorted_append)+
    ultimately have "rl_window perMinute (hd window) (hd window) 0 r0"
      by (auto simp: rl_inv_def rl_window_def)
    from rl_run_window [OF assms(1,2) this _ _ assms(5)] \<open>\<forall>x \<in> set window. hd window \<le> x\<close> assms(3,6) that
    have win: "rl_window perMinute (hd window) now0 (int (length (filter id oks))) r"
      by (simp add: sorted_append)
    then have "perMinute * rl_lastFill r \<le> perMinute * now0" "perMinute * hd window \<le> perMinute * now0"
      using assms(1,6) that \<open>\<forall>x \<in> set window. hd window \<le> x\<close>
      by (auto simp: rl_window_def intro: mult_left_mono)
    with win assms(1) show ?thesis unfolding rl_window_def distrib_left right_diff_distrib
      by (elim conjE disjE) linarith+
  qed
  moreover have "fst (rl_allow now r)"
    if "now0 \<le> now" "60000000000 \<le> (now - now0 - 1) * perMinute" for now
    using rl_allow_inv(2) [OF assms(1,2) inv that(1) prod.collapse [symmetric] that(2)] .
  ultimately show ?thesis using total inv by (simp add: rl_inv_def)
qed

text \<open>One call a minute, the limiter created at 0: calls at 59.9 and 60 seconds both pass, a third in the
  same instant does not.\<close>

theorem rate_limit_bounds_witness:
  "fst (rl_run (NewRateLimitedProvider 1 0) [59900000000, 60000000000, 60000000000]) = [True, True, False] \<and>
   int (length (filter id (fst (rl_run (NewRateLimitedProvider 1 0) [59900000000, 60000000000, 60000000000])))) \<le> 2"
proof -
  let ?r = "NewRateLimitedProvider 1 0"
  have "rl_refill 59900000000 ?r = 0"
    using rl_refill_bounds(1,2) [of 59900000000 1 ?r] by (simp add: NewRateLimitedProvider_def)
  then have "fst (rl_run ?r [59900000000, 60000000000, 60000000000]) = [True, True, False]"
    by (simp add: NewRateLimitedProvider_def rl_allow_def go_Sub_def rl_refill_def float_to_int64_def)
  then show ?thesis
    using rate_limit_bounds [where perMinute = 1 and start = 0 and before = "[]"
        and window = "[59900000000, 60000000000, 60000000000]", OF _ _ _ _ prod.collapse [symmetric] refl]
    by simp
qed

section \<open>The cache keeps what was stored last\<close>

text \<open>A call of \<open>Set\<close>: key, response and the two clock readings.\<close>

record 'r set_call =
  pc_key :: string
  pc_response :: 'r
  pc_now :: int
  pc_now' :: int

definition cache_run :: "int \<Rightarrow> 'r set_call list \<Rightarrow> 'r Cache" where
  "cache_run ttl cs =
     foldl (\<lambda>c s. cache_Set (pc_key s) (pc_response s) (pc_now s) (pc_now' s) c) (NewCache ttl) cs"

text \<open>The specification: the last response stored under the key, for \<open>ttl\<close> nanoseconds.\<close>

definition last_stored :: "int \<Rightarrow> string \<Rightarrow> int \<Rightarrow> 'r set_call list \<Rightarrow> 'r option" where
  "last_stored ttl key now cs =
     (case filter (\<lambda>s. pc_key s = key) (rev cs) of
        [] \<Rightarrow> None
      | s # _ \<Rightarrow> if pc_now s + ttl < now then None else Some (pc_response s))"

lemma map_of_filter_snd:
  "distinct (map fst xs) \<Longrightarrow>
   map_of (filter (\<lambda>(k, v). P v) xs) k = (case map_of xs k of Some v \<Rightarrow> if P v then Some v else None
                                         | None \<Rightarrow> None)"
  by (induction xs) (auto simp: image_iff split: option.splits dest: map_of_SomeD)

lemma cache_run_snoc:
  "cache_run ttl (cs @ [s]) = cache_Set (pc_key s) (pc_response s) (pc_now s) (pc_now' s) (cache_run ttl cs)"
  by (simp add: cache_run_def)

lemma cache_Set_ttl [simp]: "ca_ttl (cache_Set k v t t' c) = ca_ttl c"
  by (simp add: cache_Set_def cache_evictExpired_def Let_def)

lemma cache_run_wf: "ca_ttl (cache_run ttl cs) = ttl \<and> distinct (map fst (ca_entries (cache_run ttl cs)))"
proof (induction cs rule: rev_induct)
  case Nil
  then show ?case by (simp add: cache_run_def NewCache_def)
next
  case (snoc s cs)
  then show ?case
    by (auto simp: cache_run_snoc cache_Set_def cache_evictExpired_def Let_def distinct_update
        intro!: distinct_map_filter)
qed

lemma cache_Get_Set:
  assumes "distinct (map fst (ca_entries c))" "t' \<le> now"
  shows "cache_Get key now (cache_Set k v t t' c) =
    (if key = k then if t + ca_ttl c < now then None else Some v else cache_Get key now c)"
  using assms
  by (auto simp: cache_Set_def cache_evictExpired_def cache_Get_def Let_def map_of_filter_snd
      distinct_update update_conv' split: option.splits)

text \<open>C24: the cache never answers with anything but the last response stored under the key, for
  exactly its lifetime: eviction, which happens only in a full cache, is invisible to every lookup.
  After a call to \<open>Set\<close> more than a hundred entries remain only if all of them are alive.\<close>

theorem cache_refines_last_stored:
  assumes "\<forall>s \<in> set cs. pc_now' s \<le> now"
  shows "cache_Get key now (cache_run ttl cs) = last_stored ttl key now cs \<and>
    (length (ca_entries (cache_run ttl cs)) \<le> 100 \<or>
     list_all (\<lambda>(k, response, expiresAt). pc_now' (last cs) \<le> expiresAt) (ca_entries (cache_run ttl cs)))"
proof -
  have "cache_Get key now (cache_run ttl cs) = last_stored ttl key now cs"
    using assms
  proof (induction cs rule: rev_induct)
    case Nil
    then show ?case by (simp add: cache_run_def NewCache_def cache_Get_def last_stored_def)
  next
    case (snoc s cs)
    then show ?case using cache_run_wf [of ttl cs]
      by (simp add: cache_run_snoc cache_Get_Set last_stored_def)
  qed
  moreover have "length (ca_entries (cache_run ttl cs)) \<le> 100 \<or>
     list_all (\<lambda>(k, response, expiresAt). pc_now' (last cs) \<le> expiresAt) (ca_entries (cache_run ttl cs))"
  proof (cases cs rule: rev_cases)
    case Nil
    then show ?thesis by (simp add: cache_run_def NewCache_def)
  next
    case (snoc ds s)
    then show ?thesis
      by (auto simp: cache_run_snoc cache_Set_def cache_evictExpired_def Let_def list_all_iff)
  qed
  ultimately show ?thesis by blast
qed

text \<open>One response, asked for in time and too late.\<close>

theorem cache_refines_last_stored_witness:
  "cache_Get ''healthy'' 5 (cache_run 5 [\<lparr>pc_key = ''healthy'', pc_response = True, pc_now = 0, pc_now' = 0\<rparr>]) =
     Some True"
  using cache_refines_last_stored [of "[\<lparr>pc_key = ''healthy'', pc_response = True, pc_now = 0, pc_now' = 0\<rparr>]"
      5 "''healthy''" 5]
  by (simp add: last_stored_def)

end
