(* ===== verification/AiAnalyzer.thy ===== *)
theory AiAnalyzer
  imports AiLimit Doctor
begin

text \<open>
  \<open>internal/ai/analyzer.go\<close>: the analysis of the findings by a language model behind the cache and
  the rate limiter, and the decoding of its answer into the response of \<open>doctor/engine.go\<close>. What
  the provider answers is an input; the prompt it answers to is in \<open>Prompt\<close>. The grammar of JSON
  is a parameter \<open>parse_json\<close>; how \<open>encoding/json\<close> stores a parsed value in the structures is
  modelled.
\<close>

section \<open>Fingerprints\<close>

primrec severity_String :: "Severity \<Rightarrow> string" where
  "severity_String SeverityInfo = ''INFO''"
| "severity_String SeverityWarning = ''WARNING''"
| "severity_String SeverityCritical = ''CRITICAL''"

fun join_bar :: "string list \<Rightarrow> string" where
  "join_bar [] = ''''"
| "join_bar [p] = p"
| "join_bar (p # q # ps) = p @ ''|'' @ join_bar (q # ps)"

definition findingsFingerprint :: "Finding list \<Rightarrow> string" where
  "findingsFingerprint findings =
     (if findings = [] then ''healthy''
      else join_bar (map (\<lambda>f. Fi_Rule f @ '':'' @ severity_String (Fi_Severity f)) findings))"

section \<open>Extracting the JSON text\<close>

definition findSubstring :: "string \<Rightarrow> string \<Rightarrow> nat option" where
  "findSubstring s sub =
     List.find (\<lambda>i. take (length sub) (drop i s) = sub) [0..<length s + 1 - length sub]"

definition extractJSON :: "string \<Rightarrow> string" where
  "extractJSON text =
     (case Option.bind (findSubstring text ''```json'') (\<lambda>start.
            let content = drop (start + 7) text
            in map_option (\<lambda>end. take end content) (findSubstring content ''```'')) of
        Some json \<Rightarrow> json
      | None \<Rightarrow>
          (case Option.bind (findSubstring text ''```'') (\<lambda>start.
                 let content = drop (start + 3) text
                 in map_option (\<lambda>end. take end content) (findSubstring content ''```'')) of
             Some json \<Rightarrow> json
           | None \<Rightarrow> text))"

section \<open>Decoding\<close>

text \<open>A number is kept as an integer when its literal has neither fraction nor exponent.\<close>

datatype json =
    JNull
  | JBool bool
  | JInt int
  | JFloat rat
  | JStr string
  | JArr "json list"
  | JObj "(string \<times> json) list"

record Correlation =
  Co_Signals :: "string list"
  Co_Description :: string
  Co_Confidence :: rat

record RootCause =
  Rc_Description :: string
  Rc_Severity :: int
  Rc_Fix :: string
  Rc_Confidence :: rat

record Anomaly =
  An_Signal :: string
  An_Metric :: string
  An_CurrentVal :: string
  An_BaselineVal :: string
  An_Description :: string

record AnalysisResponse =
  Ar_Summary :: string
  Ar_Correlations :: "Correlation list"
  Ar_RootCauses :: "RootCause list"
  Ar_Anomalies :: "Anomaly list"
  Ar_TrendSummary :: string
  Ar_TokensUsed :: int

text \<open>Storing a parsed value into a variable of each kind, which holds \<open>old\<close>: \<open>null\<close> leaves a
  string, a number or a structure as it is and empties a slice; a value of another kind is an
  \<open>UnmarshalTypeError\<close>, here \<open>None\<close>, after which the whole result is discarded.\<close>

fun dec_string :: "json \<Rightarrow> string \<Rightarrow> string option" where
  "dec_string JNull old = Some old"
| "dec_string (JStr s) old = Some s"
| "dec_string _ old = None"

fun dec_float64 :: "json \<Rightarrow> rat \<Rightarrow> rat option" where
  "dec_float64 JNull old = Some old"
| "dec_float64 (JInt n) old = Some (f64 (of_int n))"
| "dec_float64 (JFloat x) old = Some (f64 x)"
| "dec_float64 _ old = None"

fun dec_int :: "json \<Rightarrow> int \<Rightarrow> int option" where
  "dec_int JNull old = Some old"
| "dec_int (JInt n) old = (if - (2 ^ 63) \<le> n \<and> n < 2 ^ 63 then Some n else None)"
| "dec_int _ old = None"

fun all_some :: "'a option list \<Rightarrow> 'a list option" where
  "all_some [] = Some []"
| "all_some (x # xs) = Option.bind x (\<lambda>v. map_option (\<lambda>vs. v # vs) (all_some xs))"

fun dec_slice :: "(json \<Rightarrow> 'a option) \<Rightarrow> json \<Rightarrow> 'a list option" where
  "dec_slice d JNull = Some []"
| "dec_slice d (JArr vs) = all_some (map d vs)"
| "dec_slice d _ = None"

fun dec_struct :: "(string \<Rightarrow> json \<Rightarrow> 'a \<Rightarrow> 'a option) \<Rightarrow> json \<Rightarrow> 'a \<Rightarrow> 'a option" where
  "dec_struct field JNull old = Some old"
| "dec_struct field (JObj ms) old = foldl (\<lambda>acc (k, v). Option.bind acc (field k v)) (Some old) ms"
| "dec_struct field _ old = None"

text \<open>A member is stored in the field of its name, compared without regard to ASCII case; members of
  other names are skipped.\<close>

definition ascii_lower :: "char \<Rightarrow> char" where
  "ascii_lower c = (let n = of_char c :: nat in if 65 \<le> n \<and> n \<le> 90 then char_of (n + 32) else c)"

definition key_is :: "string \<Rightarrow> string \<Rightarrow> bool" where
  "key_is name k \<longleftrightarrow> map ascii_lower k = map ascii_lower name"

definition Correlation_field :: "string \<Rightarrow> json \<Rightarrow> Correlation \<Rightarrow> Correlation option" where
  "Correlation_field k v r =
     (if key_is ''signals'' k
      then map_option (\<lambda>x. r\<lparr>Co_Signals := x\<rparr>) (dec_slice (\<lambda>s. dec_string s []) v)
      else if key_is ''description'' k
      then map_option (\<lambda>x. r\<lparr>Co_Description := x\<rparr>) (dec_string v (Co_Description r))
      else if key_is ''confidence'' k
      then map_option (\<lambda>x. r\<lparr>Co_Confidence := x\<rparr>) (dec_float64 v (Co_Confidence r))
      else Some r)"

definition dec_Correlation :: "json \<Rightarrow> Correlation option" where
  "dec_Correlation v = dec_struct Correlation_field v
     \<lparr>Co_Signals = [], Co_Description = [], Co_Confidence = 0\<rparr>"

definition RootCause_field :: "string \<Rightarrow> json \<Rightarrow> RootCause \<Rightarrow> RootCause option" where
  "RootCause_field k v r =
     (if key_is ''description'' k
      then map_option (\<lambda>x. r\<lparr>Rc_Description := x\<rparr>) (dec_string v (Rc_Description r))
      else if key_is ''severity'' k
      then map_option (\<lambda>x. r\<lparr>Rc_Severity := x\<rparr>) (dec_int v (Rc_Severity r))
      else if key_is ''fix'' k
      then map_option (\<lambda>x. r\<lparr>Rc_Fix := x\<rparr>) (dec_string v (Rc_Fix r))
      else if key_is ''confidence'' k
      then map_option (\<lambda>x. r\<lparr>Rc_Confidence := x\<rparr>) (dec_float64 v (Rc_Confidence r))
      else Some r)"

definition dec_RootCause :: "json \<Rightarrow> RootCause option" where
  "dec_RootCause v = dec_struct RootCause_field v
     \<lparr>Rc_Description = [], Rc_Severity = 0, Rc_Fix = [], Rc_Confidence = 0\<rparr>"

definition Anomaly_field :: "string \<Rightarrow> json \<Rightarrow> Anomaly \<Rightarrow> Anomaly option" where
  "Anomaly_field k v r =
     (if key_is ''signal'' k
      then map_option (\<lambda>x. r\<lparr>An_Signal := x\<rparr>) (dec_string v (An_Signal r))
      else if key_is ''metric'' k
      then map_option (\<lambda>x. r\<lparr>An_Metric := x\<rparr>) (dec_string v (An_Metric r))
      else if key_is ''currentVal'' k
      then map_option (\<lambda>x. r\<lparr>An_CurrentVal := x\<rparr>) (dec_string v (An_CurrentVal r))
      else if key_is ''baselineVal'' k
      then map_option (\<lambda>x. r\<lparr>An_BaselineVal := x\<rparr>) (dec_string v (An_BaselineVal r))
      else if key_is ''description'' k
      then map_option (\<lambda>x. r\<lparr>An_Description := x\<rparr>) (dec_string v (An_Description r))
      else Some r)"

definition dec_Anomaly :: "json \<Rightarrow> Anomaly option" where
  "dec_Anomaly v = dec_struct Anomaly_field v
     \<lparr>An_Signal = [], An_Metric = [], An_CurrentVal = [], An_BaselineVal = [], An_Description = []\<rparr>"

definition plain_response :: "string \<Rightarrow> AnalysisResponse" where
  "plain_response text = \<lparr>Ar_Summary = text, Ar_Correlations = [], Ar_RootCauses = [],
     Ar_Anomalies = [], Ar_TrendSummary = [], Ar_TokensUsed = 0\<rparr>"

definition AnalysisResponse_field :: "string \<Rightarrow> json \<Rightarrow> AnalysisResponse \<Rightarrow> AnalysisResponse option" where
  "AnalysisResponse_field k v r =
     (if key_is ''summary'' k
      then map_option (\<lambda>x. r\<lparr>Ar_Summary := x\<rparr>) (dec_string v (Ar_Summary r))
      else if key_is ''correlations'' k
      then map_option (\<lambda>x. r\<lparr>Ar_Correlations := x\<rparr>) (dec_slice dec_Correlation v)
      else if key_is ''rootCauses'' k
      then map_option (\<lambda>x. r\<lparr>Ar_RootCauses := x\<rparr>) (dec_slice dec_RootCause v)
      else if key_is ''anomalies'' k
      then map_option (\<lambda>x. r\<lparr>Ar_Anomalies := x\<rparr>) (dec_slice dec_Anomaly v)
      else if key_is ''trendSummary'' k
      then map_option (\<lambda>x. r\<lparr>Ar_TrendSummary := x\<rparr>) (dec_string v (Ar_TrendSummary r))
      else if key_is ''tokensUsed'' k
      then map_option (\<lambda>x. r\<lparr>Ar_TokensUsed := x\<rparr>) (dec_int v (Ar_TokensUsed r))
      else Some r)"

definition parseAnalysisResponse :: "(string \<Rightarrow> json option) \<Rightarrow> string \<Rightarrow> AnalysisResponse option" where
  "parseAnalysisResponse parse_json text =
     (case parse_json (extractJSON text) of
        None \<Rightarrow> None
      | Some v \<Rightarrow> dec_struct AnalysisResponse_field v (plain_response []))"

section \<open>The analyzer\<close>

record Completion =
  Cp_Text :: string
  Cp_TokensUsed :: int

text \<open>One call of \<open>Analyze\<close>: the findings, the clock readings of \<open>Cache.Get\<close>, of the limiter and of
  \<open>Cache.Set\<close>, and what the provider answers if it is asked (\<open>None\<close> is an error).\<close>

record analyze_call =
  ac_Findings :: "Finding list"
  ac_get :: int
  ac_allow :: int
  ac_reply :: "Completion option"
  ac_set :: int
  ac_evict :: int

record DefaultAnalyzer =
  Az_limiter :: "RateLimitedProvider option"
  Az_cache :: "AnalysisResponse Cache option"

text \<open>The provider as \<open>buildAnalyzer\<close> wraps it: with a limiter when a rate is configured. The first
  component says whether the inner provider was asked.\<close>

definition provider_Complete ::
  "analyze_call \<Rightarrow> DefaultAnalyzer \<Rightarrow> bool \<times> Completion option \<times> DefaultAnalyzer" where
  "provider_Complete q a =
     (case Az_limiter a of
        None \<Rightarrow> (True, ac_reply q, a)
      | Some r \<Rightarrow>
          (case rl_allow (ac_allow q) r of
             (ok, r) \<Rightarrow> (ok, if ok then ac_reply q else None, a\<lparr>Az_limiter := Some r\<rparr>)))"

definition Analyze ::
  "(string \<Rightarrow> json option) \<Rightarrow> analyze_call \<Rightarrow> DefaultAnalyzer \<Rightarrow>
   bool \<times> AnalysisResponse option \<times> DefaultAnalyzer" where
  "Analyze parse_json q a =
     (case Option.bind (Az_cache a) (cache_Get (findingsFingerprint (ac_Findings q)) (ac_get q)) of
        Some cached \<Rightarrow> (False, Some cached, a)
      | None \<Rightarrow>
          (case provider_Complete q a of
             (asked, None, a) \<Rightarrow> (asked, None, a)
           | (asked, Some completion, a) \<Rightarrow>
               (let response = (case parseAnalysisResponse parse_json (Cp_Text completion) of
                      Some response \<Rightarrow> response
                    | None \<Rightarrow> plain_response (Cp_Text completion));
                    response = response\<lparr>Ar_TokensUsed := Cp_TokensUsed completion\<rparr>;
                    a = a\<lparr>Az_cache := map_option (cache_Set (findingsFingerprint (ac_Findings q))
                          response (ac_set q) (ac_evict q)) (Az_cache a)\<rparr>
                in (asked, Some response, a))))"

definition buildAnalyzer :: "int \<Rightarrow> int option \<Rightarrow> int \<Rightarrow> DefaultAnalyzer" where
  "buildAnalyzer rateLimitPerMinute cacheTTL now =
     \<lparr>Az_limiter = (if 0 < rateLimitPerMinute
        then Some (NewRateLimitedProvider rateLimitPerMinute now) else None),
      Az_cache = map_option NewCache cacheTTL\<rparr>"

text \<open>A session: the calls with, for each, whether the provider was asked and the response.\<close>

fun analyze_run ::
  "(string \<Rightarrow> json option) \<Rightarrow> analyze_call list \<Rightarrow> DefaultAnalyzer \<Rightarrow>
   (analyze_call \<times> bool \<times> AnalysisResponse option) list \<times> DefaultAnalyzer" where
  "analyze_run parse_json [] a = ([], a)"
| "analyze_run parse_json (q # qs) a =
     (case Analyze parse_json q a of
        (asked, answer, a) \<Rightarrow>
          (case analyze_run parse_json qs a of (entries, a) \<Rightarrow> ((q, asked, answer) # entries, a)))"

section \<open>Fenced answers\<close>

lemma find_first:
  assumes "P i" "i < n" "\<And>j. j < i \<Longrightarrow> \<not> P j"
  shows "List.find P [0..<n] = Some i"
proof -
  have "i = [0..<n] ! i" using assms(2) by simp
  then show ?thesis using assms unfolding find_Some_iff
    by (intro exI [of _ i]) auto
qed

text \<open>Text without a backquote before the fence.\<close>

lemma findSubstring_at:
  assumes "CHR ''`'' \<notin> set xs" "sub = CHR ''`'' # sub'" "take (length sub) ys = sub"
  shows "findSubstring (xs @ ys) sub = Some (length xs)"
  unfolding findSubstring_def
proof (rule find_first)
  have "length sub \<le> length ys" using assms(3) by (metis length_take min.cobounded1)
  then show "length xs < length (xs @ ys) + 1 - length sub" by simp
  show "take (length sub) (drop (length xs) (xs @ ys)) = sub" using assms(3) by simp
  fix j assume j: "j < length xs"
  then have "drop j (xs @ ys) = xs ! j # drop (Suc j) xs @ ys" by (simp add: Cons_nth_drop_Suc [symmetric])
  moreover have "xs ! j \<noteq> CHR ''`''" using nth_mem [OF j] assms(1) by metis
  ultimately show "take (length sub) (drop j (xs @ ys)) \<noteq> sub" by (simp add: assms(2))
qed

lemma findSubstring_none:
  assumes "CHR ''`'' \<notin> set xs" "sub = CHR ''`'' # sub'"
  shows "findSubstring xs sub = None"
proof -
  have "take (length sub) (drop j xs) \<noteq> sub" if "j < length xs + 1 - length sub" for j
  proof -
    have j: "j < length xs" using that by (simp add: assms(2))
    then have "drop j xs = xs ! j # drop (Suc j) xs" by (simp add: Cons_nth_drop_Suc)
    moreover have "xs ! j \<noteq> CHR ''`''" using nth_mem [OF j] assms(1) by metis
    ultimately show ?thesis by (simp add: assms(2))
  qed
  then show ?thesis by (simp add: findSubstring_def find_None_iff)
qed

text \<open>The JSON of an answer is found inside a tagged code block, whatever surrounds it; an answer
  without a fence is taken as it is.\<close>

lemma extract_json_fenced:
  assumes "CHR ''`'' \<notin> set pre" "CHR ''`'' \<notin> set body"
  shows "extractJSON (pre @ ''```json'' @ body @ ''```'' @ post) = body" "extractJSON body = body"
proof -
  have "findSubstring (body @ ''```'' @ post) ''```'' = Some (length body)"
    using assms(2) by (intro findSubstring_at) simp_all
  moreover have "findSubstring (pre @ ''```json'' @ body @ ''```'' @ post) ''```json'' = Some (length pre)"
    using assms(1) by (intro findSubstring_at) simp_all
  moreover have "drop (length pre + 7) (pre @ ''```json'' @ body @ ''```'' @ post) = body @ ''```'' @ post"
    by simp
  ultimately show "extractJSON (pre @ ''```json'' @ body @ ''```'' @ post) = body"
    by (simp add: extractJSON_def Let_def)
  show "extractJSON body = body"
    using findSubstring_none [OF assms(2)] by (simp add: extractJSON_def)
qed

section \<open>Severities in answers\<close>

lemma dec_struct_None:
  assumes "(k, v) \<in> set ms" "\<And>r. field k v r = None"
  shows "dec_struct field (JObj ms) old = None"
proof -
  have none: "foldl (\<lambda>acc (k, v). Option.bind acc (field k v)) None ms = None" for ms
    by (induction ms) auto
  have "foldl (\<lambda>acc (k, v). Option.bind acc (field k v)) acc ms = None" for acc
    using assms(1)
  proof (induction ms arbitrary: acc)
    case (Cons m ms)
    show ?case
    proof (cases "m = (k, v)")
      case True
      then have "Option.bind acc (field k v) = None" by (cases acc) (simp_all add: assms(2))
      then show ?thesis using True none by simp
    next
      case False
      then show ?thesis using Cons by simp
    qed
  qed simp
  then show ?thesis by simp
qed

lemma all_some_None: "None \<in> set xs \<Longrightarrow> all_some xs = None"
proof (induction xs)
  case (Cons x xs)
  then show ?case by (cases x) auto
qed simp

lemma keys_distinct:
  "key_is ''severity'' ''severity''" "\<not> key_is ''description'' ''severity''"
  "key_is ''rootCauses'' ''rootCauses''" "\<not> key_is ''summary'' ''rootCauses''"
  "\<not> key_is ''correlations'' ''rootCauses''"
  by (simp_all add: key_is_def ascii_lower_def)

lemma parse_severity_None:
  assumes "parse_json (extractJSON text) = Some (JObj ms)" "(''rootCauses'', JArr cs) \<in> set ms"
    and "JObj fs \<in> set cs" "(''severity'', JStr s) \<in> set fs"
  shows "parseAnalysisResponse parse_json text = None"
proof -
  have "dec_RootCause (JObj fs) = None"
    unfolding dec_RootCause_def
    by (rule dec_struct_None [OF assms(4)]) (simp add: RootCause_field_def keys_distinct)
  then have "None \<in> set (map dec_RootCause cs)" using assms(3) by (metis image_eqI set_map)
  then have "dec_slice dec_RootCause (JArr cs) = None" by (simp add: all_some_None)
  then have "dec_struct AnalysisResponse_field (JObj ms) (plain_response []) = None"
    by (intro dec_struct_None [OF assms(2)]) (simp add: AnalysisResponse_field_def keys_distinct)
  then show ?thesis by (simp add: parseAnalysisResponse_def assms(1))
qed

lemma Analyze_unwrapped:
  assumes "ac_reply q = Some completion" "a = \<lparr>Az_limiter = None, Az_cache = None\<rparr>"
  shows "\<exists>response. Analyze parse_json q a = (True, Some response, a)"
  using assms by (simp add: Analyze_def provider_Complete_def Let_def)

text \<open>C17: no answer with a root cause in the form the prompt asks for is ever understood. The prompt
  wants the severity of a root cause as one of the words CRITICAL, WARNING and INFO; the field of the
  structure is an integer without a decoder of its own. Decoding fails, and the raw JSON text becomes
  the summary of a response without any root cause, correlation or anomaly.\<close>

theorem severity_words_rejected:
  assumes "parse_json (extractJSON (Cp_Text completion)) = Some (JObj ms)"
    and "(''rootCauses'', JArr cs) \<in> set ms" "JObj fs \<in> set cs" "(''severity'', JStr s) \<in> set fs"
    and "s \<in> {''CRITICAL'', ''WARNING'', ''INFO''}"
    and "ac_reply q = Some completion" "Analyze parse_json q a = (True, answer, a')"
  shows "answer = Some ((plain_response (Cp_Text completion))\<lparr>Ar_TokensUsed := Cp_TokensUsed completion\<rparr>)"
proof -
  have "parseAnalysisResponse parse_json (Cp_Text completion) = None"
    using assms(1-4) by (rule parse_severity_None)
  then show ?thesis using assms(6,7)
    by (auto simp: Analyze_def provider_Complete_def Let_def split: option.splits prod.splits if_splits)
qed

text \<open>The shortest such answer.\<close>

theorem severity_words_rejected_witness:
  "Analyze (\<lambda>text. Some (JObj [(''rootCauses'', JArr [JObj [(''severity'', JStr ''INFO'')]])]))
     \<lparr>ac_Findings = [], ac_get = 0, ac_allow = 0,
      ac_reply = Some \<lparr>Cp_Text = ''{}'', Cp_TokensUsed = 7\<rparr>, ac_set = 0, ac_evict = 0\<rparr>
     \<lparr>Az_limiter = None, Az_cache = None\<rparr> =
   (True, Some ((plain_response ''{}'')\<lparr>Ar_TokensUsed := 7\<rparr>), \<lparr>Az_limiter = None, Az_cache = None\<rparr>)"
  (is "Analyze ?parse ?q ?a = _")
proof -
  obtain response where run: "Analyze ?parse ?q ?a = (True, Some response, ?a)"
    using Analyze_unwrapped [of ?q "\<lparr>Cp_Text = ''{}'', Cp_TokensUsed = 7\<rparr>" ?a ?parse] by auto
  have "Some response = Some ((plain_response ''{}'')\<lparr>Ar_TokensUsed := 7\<rparr>)"
    using severity_words_rejected [where completion = "\<lparr>Cp_Text = ''{}'', Cp_TokensUsed = 7\<rparr>"
        and cs = "[JObj [(''severity'', JStr ''INFO'')]]" and fs = "[(''severity'', JStr ''INFO'')]"
        and s = "''INFO''", OF _ _ _ _ _ _ run] by simp
  then show ?thesis using run by simp
qed

section \<open>A session of analyses\<close>

lemma Analyze_limiter:
  assumes "Az_limiter a = Some r" "Analyze parse_json q a = (asked, answer, a1)"
  shows "\<not> asked \<and> Az_limiter a1 = Some r \<or>
    (\<exists>r'. rl_allow (ac_allow q) r = (asked, r') \<and> Az_limiter a1 = Some r')"
proof -
  obtain ok r' where "rl_allow (ac_allow q) r = (ok, r')" by fastforce
  then show ?thesis using assms
    by (auto simp: Analyze_def provider_Complete_def Let_def split: option.splits)
qed

definition asked_count :: "(analyze_call \<times> bool \<times> AnalysisResponse option) list \<Rightarrow> int" where
  "asked_count es = int (length (filter (\<lambda>(q, asked, answer). asked) es))"

lemma analyze_run_limiter:
  assumes "1 \<le> m" "m \<le> 32768"
  shows "rl_inv m start now used r \<Longrightarrow> Az_limiter a = Some r \<Longrightarrow> sorted (now # map ac_allow qs) \<Longrightarrow>
    analyze_run parse_json qs a = (es, a') \<Longrightarrow>
    \<exists>r'. rl_inv m start (last (now # map ac_allow qs)) (used + asked_count es) r'"
proof (induction qs arbitrary: now used r a es)
  case Nil
  then show ?case by (auto simp: asked_count_def)
next
  case (Cons q qs)
  obtain asked answer a1 where step: "Analyze parse_json q a = (asked, answer, a1)" by (cases "Analyze parse_json q a")
  obtain es' where run: "analyze_run parse_json qs a1 = (es', a')" and es: "es = (q, asked, answer) # es'"
    using Cons.prems(4) step by (auto split: prod.splits)
  have "\<exists>r1. rl_inv m start (ac_allow q) (used + of_bool asked) r1 \<and> Az_limiter a1 = Some r1"
    using Analyze_limiter [OF Cons.prems(2) step]
  proof
    assume "\<not> asked \<and> Az_limiter a1 = Some r"
    then show ?thesis using Cons.prems(1,3) by (auto simp: rl_inv_def)
  next
    assume "\<exists>r'. rl_allow (ac_allow q) r = (asked, r') \<and> Az_limiter a1 = Some r'"
    then show ?thesis using rl_allow_inv(1) [OF assms Cons.prems(1), of "ac_allow q" asked] Cons.prems(3)
      by auto
  qed
  then obtain r1 where r1: "rl_inv m start (ac_allow q) (used + of_bool asked) r1" "Az_limiter a1 = Some r1"
    by blast
  have "sorted (ac_allow q # map ac_allow qs)" using Cons.prems(3) by simp
  from Cons.IH [OF r1 this run] show ?case
    by (cases asked) (simp_all add: es asked_count_def ac_simps)
qed

text \<open>Every entry of the cache is the answer of an earlier call that asked the provider.\<close>

definition answered_before ::
  "(analyze_call \<times> bool \<times> AnalysisResponse option) list \<Rightarrow> string \<Rightarrow> AnalysisResponse \<Rightarrow> int \<Rightarrow> bool" where
  "answered_before es k response stored \<longleftrightarrow>
     list_ex (\<lambda>(q, asked, answer). asked \<and> answer = Some response \<and>
       findingsFingerprint (ac_Findings q) = k \<and> ac_set q = stored) es"

definition cache_from :: "int \<Rightarrow> (analyze_call \<times> bool \<times> AnalysisResponse option) list \<Rightarrow>
    DefaultAnalyzer \<Rightarrow> bool" where
  "cache_from ttl es a \<longleftrightarrow>
     (case Az_cache a of None \<Rightarrow> True
      | Some c \<Rightarrow> ca_ttl c = ttl \<and>
          list_all (\<lambda>(k, response, exp). answered_before es k response (exp - ttl)) (ca_entries c))"

lemma set_alist_update: "x \<in> set (AList.update k v xs) \<Longrightarrow> x = (k, v) \<or> x \<in> set xs"
  by (induction xs) (auto split: if_splits)

lemma answered_before_append [simp]:
  "answered_before (es @ es') k v t \<longleftrightarrow> answered_before es k v t \<or> answered_before es' k v t"
  by (simp add: answered_before_def)

lemma cache_Get_Some:
  "cache_Get k now c = Some v \<longleftrightarrow> (\<exists>exp. map_of (ca_entries c) k = Some (v, exp) \<and> now \<le> exp)"
  by (cases "map_of (ca_entries c) k") (auto simp: cache_Get_def split: if_splits)

lemma Analyze_cached:
  assumes "cache_from ttl es a" "Analyze parse_json q a = (False, Some response, a1)"
  shows "\<exists>stored. answered_before es (findingsFingerprint (ac_Findings q)) response stored \<and>
    ac_get q \<le> stored + ttl"
proof -
  have hit: "Option.bind (Az_cache a) (cache_Get (findingsFingerprint (ac_Findings q)) (ac_get q)) = Some response"
    using assms(2)
    by (auto simp: Analyze_def provider_Complete_def Let_def split: option.splits prod.splits)
  then obtain c exp where c: "Az_cache a = Some c"
    and entry: "map_of (ca_entries c) (findingsFingerprint (ac_Findings q)) = Some (response, exp)"
    and alive: "ac_get q \<le> exp"
    by (auto simp: bind_eq_Some_conv cache_Get_Some)
  have "answered_before es (findingsFingerprint (ac_Findings q)) response (exp - ttl)"
    using assms(1) map_of_SomeD [OF entry] by (auto simp: cache_from_def c list_all_iff)
  then show ?thesis using alive by (intro exI [of _ "exp - ttl"]) simp
qed

lemma cache_Set_from:
  assumes "ca_ttl c = ttl" "list_all (\<lambda>(k, v, exp). P k v (exp - ttl)) (ca_entries c)" "P k v t"
  shows "list_all (\<lambda>(k, v, exp). P k v (exp - ttl)) (ca_entries (cache_Set k v t t' c))"
  using assms
  by (auto simp: cache_Set_def cache_evictExpired_def Let_def list_all_iff dest!: set_alist_update)

lemma Analyze_cache_from:
  assumes "cache_from ttl es a" "Analyze parse_json q a = (asked, answer, a1)"
  shows "cache_from ttl (es @ [(q, asked, answer)]) a1"
proof -
  have keep: "cache_from ttl (es @ [(q, asked, answer)]) a"
    using assms(1) by (auto simp: cache_from_def list_all_iff split: option.splits)
  have "Az_cache a1 = Az_cache a \<or>
    (\<exists>response. answer = Some response \<and> asked \<and> Az_cache a1 =
       map_option (cache_Set (findingsFingerprint (ac_Findings q)) response (ac_set q) (ac_evict q)) (Az_cache a))"
    using assms(2)
    by (auto simp: Analyze_def provider_Complete_def Let_def split: option.splits prod.splits if_splits)
  then show ?thesis
  proof
    assume "Az_cache a1 = Az_cache a"
    then show ?thesis using keep by (simp add: cache_from_def)
  next
    assume "\<exists>response. answer = Some response \<and> asked \<and> Az_cache a1 =
       map_option (cache_Set (findingsFingerprint (ac_Findings q)) response (ac_set q) (ac_evict q)) (Az_cache a)"
    then obtain response where r: "answer = Some response" asked "Az_cache a1 =
       map_option (cache_Set (findingsFingerprint (ac_Findings q)) response (ac_set q) (ac_evict q)) (Az_cache a)"
      by blast
    have "answered_before (es @ [(q, asked, answer)]) (findingsFingerprint (ac_Findings q)) response (ac_set q)"
      using r(1,2) by (simp add: answered_before_def)
    then show ?thesis using keep r(3)
      by (auto simp: cache_from_def intro: cache_Set_from split: option.splits)
  qed
qed

lemma analyze_run_cached:
  "cache_from ttl es a \<Longrightarrow> analyze_run parse_json qs a = (fs, a') \<Longrightarrow>
   fs = pre @ (q, False, Some response) # post \<Longrightarrow>
   \<exists>stored. answered_before (es @ pre) (findingsFingerprint (ac_Findings q)) response stored \<and>
     ac_get q \<le> stored + ttl"
proof (induction qs arbitrary: es a fs pre)
  case Nil
  then show ?case by simp
next
  case (Cons q1 qs)
  obtain asked answer a1 where step: "Analyze parse_json q1 a = (asked, answer, a1)"
    by (cases "Analyze parse_json q1 a")
  obtain fs' where run: "analyze_run parse_json qs a1 = (fs', a')" and fs: "fs = (q1, asked, answer) # fs'"
    using Cons.prems(2) step by (auto split: prod.splits)
  show ?case
  proof (cases pre)
    case Nil
    then have "Analyze parse_json q a = (False, Some response, a1)" using Cons.prems(3) fs step by simp
    then show ?thesis using Analyze_cached [OF Cons.prems(1)] Nil by simp
  next
    case (Cons p pre')
    then have "fs' = pre' @ (q, False, Some response) # post" "p = (q1, asked, answer)"
      using Cons.prems(3) fs by simp_all
    then show ?thesis
      using Cons.IH [OF Analyze_cache_from [OF Cons.prems(1) step] run] Cons by simp
  qed
qed

text \<open>C18: what a session asks of the language model. With a rate configured, the provider is asked at
  most a full bucket plus the rate for the time since the start, however often the engine
  diagnoses; and whenever a response comes without asking, it is the answer the provider gave to an
  earlier call with the same rules and severities, stored no longer than the lifetime ago.\<close>

theorem analyze_session:
  assumes "1 \<le> rate" "rate \<le> 32768" "sorted (start # map ac_allow qs)"
    and "analyze_run parse_json qs (buildAnalyzer rate (Some ttl) start) = (es, a)"
  shows "60000000000 * asked_count es \<le>
      rate * (60000000000 + (last (start # map ac_allow qs) - start)) \<and>
    (\<forall>pre q response post. es = pre @ (q, False, Some response) # post \<longrightarrow>
       (\<exists>stored. answered_before pre (findingsFingerprint (ac_Findings q)) response stored \<and>
          ac_get q \<le> stored + ttl))"
proof -
  let ?a = "buildAnalyzer rate (Some ttl) start"
  have "rl_inv rate start start 0 (NewRateLimitedProvider rate start)"
    using assms(1) by (simp add: rl_inv_def NewRateLimitedProvider_def)
  moreover have "Az_limiter ?a = Some (NewRateLimitedProvider rate start)"
    using assms(1) by (simp add: buildAnalyzer_def)
  ultimately obtain r where inv: "rl_inv rate start (last (start # map ac_allow qs)) (asked_count es) r"
    using analyze_run_limiter [OF assms(1,2) _ _ assms(3,4)] by fastforce
  then have "rate * rl_lastFill r \<le> rate * last (start # map ac_allow qs)"
    using assms(1) by (intro mult_left_mono) (simp_all add: rl_inv_def)
  then have "60000000000 * asked_count es \<le> rate * (60000000000 + (last (start # map ac_allow qs) - start))"
    using inv by (simp add: rl_inv_def algebra_simps)
  moreover have "cache_from ttl [] ?a" by (simp add: cache_from_def buildAnalyzer_def NewCache_def)
  note analyze_run_cached [OF this assms(4)]
  ultimately show ?thesis by simp
qed

text \<open>The same healthy report twice within the lifetime: the second answer is the first one.\<close>

definition demo_call :: "int \<Rightarrow> analyze_call" where
  "demo_call t = \<lparr>ac_Findings = [], ac_get = t, ac_allow = t,
     ac_reply = Some \<lparr>Cp_Text = ''ok'', Cp_TokensUsed = 3\<rparr>, ac_set = t, ac_evict = t\<rparr>"

lemma demo_run:
  "\<exists>a. analyze_run (\<lambda>text. None) [demo_call 0, demo_call 5] (buildAnalyzer 1 (Some 10) 0) =
     ([(demo_call 0, True, Some ((plain_response ''ok'')\<lparr>Ar_TokensUsed := 3\<rparr>)),
       (demo_call 5, False, Some ((plain_response ''ok'')\<lparr>Ar_TokensUsed := 3\<rparr>))], a)"
  by (simp add: demo_call_def buildAnalyzer_def NewRateLimitedProvider_def NewCache_def Analyze_def
      provider_Complete_def rl_allow_def rl_refill_def go_Sub_def float_to_int64_def cache_Get_def
      cache_Set_def findingsFingerprint_def parseAnalysisResponse_def Let_def)

theorem analyze_session_witness:
  "\<exists>stored. answered_before [(demo_call 0, True, Some ((plain_response ''ok'')\<lparr>Ar_TokensUsed := 3\<rparr>))]
     ''healthy'' ((plain_response ''ok'')\<lparr>Ar_TokensUsed := 3\<rparr>) stored \<and> 5 \<le> stored + 10"
proof -
  let ?r = "(plain_response ''ok'')\<lparr>Ar_TokensUsed := 3\<rparr>"
  obtain a where run: "analyze_run (\<lambda>text. None) [demo_call 0, demo_call 5] (buildAnalyzer 1 (Some 10) 0) =
     ([(demo_call 0, True, Some ?r), (demo_call 5, False, Some ?r)], a)"
    using demo_run by blast
  have "[(demo_call 0, True, Some ?r), (demo_call 5, False, Some ?r)] =
      [(demo_call 0, True, Some ?r)] @ (demo_call 5, False, Some ?r) # []" by simp
  moreover have "sorted (0 # map ac_allow [demo_call 0, demo_call 5])" by (simp add: demo_call_def)
  ultimately have "\<exists>stored. answered_before [(demo_call 0, True, Some ?r)]
      (findingsFingerprint (ac_Findings (demo_call 5))) ?r stored \<and> ac_get (demo_call 5) \<le> stored + 10"
    using analyze_session [OF _ _ _ run] by fastforce
  then show ?thesis by (simp add: demo_call_def findingsFingerprint_def)
qed

section \<open>What shares an answer\<close>

definition rule_name_ok :: "Finding \<Rightarrow> bool" where
  "rule_name_ok f \<longleftrightarrow> CHR '':'' \<notin> set (Fi_Rule f) \<and> CHR ''|'' \<notin> set (Fi_Rule f)"

lemma eval_rule_names:
  "f \<in> set (evalDiskIOBottleneck s t) \<Longrightarrow> rule_name_ok f"
  "f \<in> set (evalOOMKillOccurred s) \<Longrightarrow> rule_name_ok f"
  "f \<in> set (evalTCPRetransmitStorm s t) \<Longrightarrow> rule_name_ok f"
  "f \<in> set (evalTCPRTTDegradation s) \<Longrightarrow> rule_name_ok f"
  "f \<in> set (evalSchedulerContention s t) \<Longrightarrow> rule_name_ok f"
  "f \<in> set (evalFDLeak s t) \<Longrightarrow> rule_name_ok f"
  "f \<in> set (evalSyscallLatencyHigh s t) \<Longrightarrow> rule_name_ok f"
  "f \<in> set (evalOOMImminent s t) \<Longrightarrow> rule_name_ok f"
  "f \<in> set (evalSyscallErrorRate s) \<Longrightarrow> rule_name_ok f"
  "f \<in> set (evalMemoryLimitPressure s) \<Longrightarrow> rule_name_ok f"
  "f \<in> set (evalMemoryHighThrottling s) \<Longrightarrow> rule_name_ok f"
  by (auto simp: rule_defs rule_name_ok_def Let_def split: option.splits if_splits list.splits)

lemma Evaluate_rule_names: "f \<in> set (Evaluate s t) \<Longrightarrow> rule_name_ok f"
  by (auto simp: Evaluate_eq set_RankFindings rule_findings_def evalHealthySystem_def
      dest: eval_rule_names split: if_splits) (simp add: rule_name_ok_def)

lemma takeWhile_sep: "c \<notin> set p \<Longrightarrow> takeWhile (\<lambda>x. x \<noteq> c) (p @ c # rest) = p"
  by (subst takeWhile_append2) auto

lemma join_bar_inj:
  assumes "\<forall>p \<in> set ps \<union> set qs. CHR ''|'' \<notin> set p" "ps \<noteq> []" "qs \<noteq> []"
    and "join_bar ps = join_bar qs"
  shows "ps = qs"
  using assms
proof (induction ps arbitrary: qs rule: join_bar.induct)
  case 1
  then show ?case by simp
next
  case (2 p)
  then show ?case by (cases qs rule: join_bar.cases) auto
next
  case (3 p p' ps)
  obtain q q' qs' where qs: "qs = q # q' # qs'"
    using "3.prems" by (cases qs rule: join_bar.cases) auto
  then have eq: "p @ CHR ''|'' # join_bar (p' # ps) = q @ CHR ''|'' # join_bar (q' # qs')"
    using "3.prems"(4) by simp
  have "CHR ''|'' \<notin> set p" "CHR ''|'' \<notin> set q" using "3.prems"(1) qs by simp_all
  then have "p = q" using takeWhile_sep eq by metis
  then show ?case using eq "3.IH" [of "q' # qs'"] "3.prems"(1) qs by simp
qed

lemma fingerprint_part_inj:
  assumes "rule_name_ok f" "rule_name_ok g"
    and "Fi_Rule f @ '':'' @ severity_String (Fi_Severity f) = Fi_Rule g @ '':'' @ severity_String (Fi_Severity g)"
  shows "Fi_Rule f = Fi_Rule g \<and> Fi_Severity f = Fi_Severity g"
proof -
  have "CHR '':'' \<notin> set (Fi_Rule f)" "CHR '':'' \<notin> set (Fi_Rule g)"
    using assms(1,2) by (simp_all add: rule_name_ok_def)
  then have rule: "Fi_Rule f = Fi_Rule g"
    using arg_cong [OF assms(3), of "takeWhile (\<lambda>x. x \<noteq> CHR '':'')"]
    by (simp add: takeWhile_sep)
  then have "severity_String (Fi_Severity f) = severity_String (Fi_Severity g)" using assms(3) by simp
  with rule show ?thesis by (cases "Fi_Severity f"; cases "Fi_Severity g") simp_all
qed

text \<open>Two reports share an answer of the cache exactly when the same rules fired with the same
  severities in the same order. No two reports the rules can produce collide otherwise, and nothing
  else of a finding, such as the process it names, keeps them apart.\<close>

theorem fingerprint_shared:
  "findingsFingerprint (Evaluate s t) = findingsFingerprint (Evaluate s' t') \<longleftrightarrow>
   map (\<lambda>f. (Fi_Rule f, Fi_Severity f)) (Evaluate s t) =
   map (\<lambda>f. (Fi_Rule f, Fi_Severity f)) (Evaluate s' t')"
proof -
  let ?part = "\<lambda>f. Fi_Rule f @ '':'' @ severity_String (Fi_Severity f)"
  have ne: "Evaluate s t \<noteq> []" for s t
    by (auto simp: Evaluate_eq set_RankFindings simp flip: set_empty split: if_splits)
  have bar: "CHR ''|'' \<notin> set (?part f)" if "f \<in> set (Evaluate s t)" for f s t
    using Evaluate_rule_names [OF that] by (cases "Fi_Severity f") (auto simp: rule_name_ok_def)
  have parts: "map ?part fs = map ?part gs \<longleftrightarrow>
      map (\<lambda>f. (Fi_Rule f, Fi_Severity f)) fs = map (\<lambda>f. (Fi_Rule f, Fi_Severity f)) gs"
    if "list_all rule_name_ok fs" "list_all rule_name_ok gs" for fs gs
    using that
  proof (induction fs arbitrary: gs)
    case (Cons f fs)
    then show ?case using fingerprint_part_inj by (cases gs) auto
  qed auto
  have "findingsFingerprint (Evaluate s t) = findingsFingerprint (Evaluate s' t') \<longleftrightarrow>
      map ?part (Evaluate s t) = map ?part (Evaluate s' t')"
  proof
    assume "findingsFingerprint (Evaluate s t) = findingsFingerprint (Evaluate s' t')"
    then have "join_bar (map ?part (Evaluate s t)) = join_bar (map ?part (Evaluate s' t'))"
      by (simp add: findingsFingerprint_def ne)
    moreover have "\<forall>p \<in> set (map ?part (Evaluate s t)) \<union> set (map ?part (Evaluate s' t')).
        CHR ''|'' \<notin> set p"
      using bar by fastforce
    ultimately show "map ?part (Evaluate s t) = map ?part (Evaluate s' t')"
      using ne by (intro join_bar_inj) simp_all
  qed (simp add: findingsFingerprint_def ne)
  then show ?thesis using parts Evaluate_rule_names by (simp add: list_all_iff)
qed

end
