(* ===== verification/Config.thy ===== *)
theory Config
  imports AiAnalyzer
begin

text \<open>
  \<open>internal/config/config.go\<close> with its defaults and its validation, \<open>NewProvider\<close> of
  \<open>internal/ai/provider.go\<close> and \<open>buildAnalyzer\<close> of \<open>internal/cli/doctor.go\<close>, which turns a
  configuration into an analyzer. Reading the configuration is left to a library;
  \<open>time.ParseDuration\<close> is a parameter.
\<close>

section \<open>Configuration\<close>

record AIConfig =
  Ai_Enabled :: bool
  Ai_Provider :: string
  Ai_Model :: string
  Ai_APIKey :: string
  Ai_Endpoint :: string
  Ai_MaxTokens :: int
  Ai_Temperature :: rat
  Ai_CacheTTL :: string
  Ai_RateLimitPerMinute :: int
  Ai_PrivacyMode :: string

record CollectorsConfig =
  Cl_SyscallLatency :: bool
  Cl_TCPMonitor :: bool
  Cl_OOMTrack :: bool
  Cl_DiskIO :: bool
  Cl_SchedDelay :: bool
  Cl_FDTrack :: bool
  Cl_FileAudit :: bool

record DoctorConfig =
  Dc_Duration :: int
  Dc_Thresholds :: DoctorThresholds

record ServerConfig =
  Sv_Enabled :: bool
  Sv_Addr :: string

record KubernetesConfig =
  Kc_Enabled :: bool
  Kc_Kubeconfig :: string

record Config =
  Cf_LogLevel :: string
  Cf_LogFormat :: string
  Cf_Collectors :: CollectorsConfig
  Cf_Doctor :: DoctorConfig
  Cf_AI :: AIConfig
  Cf_Prometheus :: ServerConfig
  Cf_Dashboard :: ServerConfig
  Cf_Kubernetes :: KubernetesConfig

definition DefaultConfig :: Config where
  "DefaultConfig =
     \<lparr>Cf_LogLevel = ''info'', Cf_LogFormat = ''auto'',
      Cf_Collectors = \<lparr>Cl_SyscallLatency = True, Cl_TCPMonitor = True, Cl_OOMTrack = True,
        Cl_DiskIO = True, Cl_SchedDelay = True, Cl_FDTrack = True, Cl_FileAudit = False\<rparr>,
      Cf_Doctor = \<lparr>Dc_Duration = 30 * 1000000000, Dc_Thresholds = DefaultThresholds\<rparr>,
      Cf_AI = \<lparr>Ai_Enabled = False, Ai_Provider = ''anthropic'', Ai_Model = [], Ai_APIKey = [],
        Ai_Endpoint = [], Ai_MaxTokens = 1024, Ai_Temperature = f64 (2 / 10), Ai_CacheTTL = ''5m'',
        Ai_RateLimitPerMinute = 10, Ai_PrivacyMode = ''summary''\<rparr>,
      Cf_Prometheus = \<lparr>Sv_Enabled = True, Sv_Addr = '':9090''\<rparr>,
      Cf_Dashboard = \<lparr>Sv_Enabled = False, Sv_Addr = '':8080''\<rparr>,
      Cf_Kubernetes = \<lparr>Kc_Enabled = False, Kc_Kubeconfig = []\<rparr>\<rparr>"

text \<open>The errors of \<open>Validate\<close>, one for each message.\<close>

datatype config_error =
    InvalidLogLevel string
  | InvalidLogFormat string
  | DurationTooShort int
  | DurationTooLong int
  | InvalidProvider string
  | APIKeyRequired string
  | InvalidPrivacyMode string
  | InvalidMaxTokens int
  | InvalidRateLimit int
  | InvalidTemperature rat
  | PrometheusAddrMissing
  | DashboardAddrMissing

definition validate_ai :: "AIConfig \<Rightarrow> config_error option" where
  "validate_ai ai =
     (if \<not> Ai_Enabled ai then None
      else if Ai_Provider ai \<notin> {''anthropic'', ''openai'', ''ollama''}
      then Some (InvalidProvider (Ai_Provider ai))
      else if Ai_Provider ai \<noteq> ''ollama'' \<and> Ai_APIKey ai = []
      then Some (APIKeyRequired (Ai_Provider ai))
      else if Ai_PrivacyMode ai \<notin> {''full'', ''redacted'', ''summary'', []}
      then Some (InvalidPrivacyMode (Ai_PrivacyMode ai))
      else if Ai_MaxTokens ai \<le> 0 then Some (InvalidMaxTokens (Ai_MaxTokens ai))
      else if Ai_RateLimitPerMinute ai < 0 then Some (InvalidRateLimit (Ai_RateLimitPerMinute ai))
      else if Ai_Temperature ai < 0 \<or> 1 < Ai_Temperature ai
      then Some (InvalidTemperature (Ai_Temperature ai))
      else None)"

definition Validate :: "Config \<Rightarrow> config_error option" where
  "Validate c =
     (if Cf_LogLevel c \<notin> {''debug'', ''info'', ''warn'', ''error''}
      then Some (InvalidLogLevel (Cf_LogLevel c))
      else if Cf_LogFormat c \<notin> {''text'', ''json'', ''auto'', []}
      then Some (InvalidLogFormat (Cf_LogFormat c))
      else if Dc_Duration (Cf_Doctor c) < 1000000000 then Some (DurationTooShort (Dc_Duration (Cf_Doctor c)))
      else if 5 * 60000000000 < Dc_Duration (Cf_Doctor c)
      then Some (DurationTooLong (Dc_Duration (Cf_Doctor c)))
      else case validate_ai (Cf_AI c) of
        Some e \<Rightarrow> Some e
      | None \<Rightarrow>
          if Sv_Enabled (Cf_Prometheus c) \<and> Sv_Addr (Cf_Prometheus c) = [] then Some PrometheusAddrMissing
          else if Sv_Enabled (Cf_Dashboard c) \<and> Sv_Addr (Cf_Dashboard c) = [] then Some DashboardAddrMissing
          else None)"

section \<open>From the configuration to the analyzer\<close>

datatype provider_kind = AnthropicProvider | OpenAIProvider | OllamaProvider

definition NewProvider :: "string \<Rightarrow> string + provider_kind" where
  "NewProvider name =
     (if name = ''anthropic'' then Inr AnthropicProvider
      else if name = ''openai'' then Inr OpenAIProvider
      else if name = ''ollama'' then Inr OllamaProvider
      else Inl name)"

text \<open>The API key, the wrapped provider and the privacy mode; \<open>Inl\<close> is the error of an unknown
  provider.\<close>

record built_analyzer =
  Bu_provider :: provider_kind
  Bu_apiKey :: string
  Bu_analyzer :: DefaultAnalyzer
  Bu_privacy :: string

definition build_analyzer ::
  "(string \<Rightarrow> int option) \<Rightarrow> Config \<Rightarrow> int \<Rightarrow> string + built_analyzer" where
  "build_analyzer parse_duration c now =
     (let ai = Cf_AI c
      in case NewProvider (Ai_Provider ai) of
           Inl e \<Rightarrow> Inl e
         | Inr provider \<Rightarrow>
             (let ttl = (if Ai_CacheTTL ai = [] then None
                    else Some (case parse_duration (Ai_CacheTTL ai) of
                        None \<Rightarrow> 5 * 60000000000 | Some d \<Rightarrow> d))
              in Inr \<lparr>Bu_provider = provider, Bu_apiKey = Ai_APIKey ai,
                      Bu_analyzer = buildAnalyzer (Ai_RateLimitPerMinute ai) ttl now,
                      Bu_privacy = (if Ai_PrivacyMode ai = [] then ''summary'' else Ai_PrivacyMode ai)\<rparr>))"

text \<open>The command: the flags \<open>--ai\<close> and \<open>--no-ai\<close> are combined with the setting after the
  configuration has been loaded and validated; an error of the analyzer only turns the analysis
  off.\<close>

definition doctor_analyzer ::
  "(string \<Rightarrow> int option) \<Rightarrow> bool \<Rightarrow> bool \<Rightarrow> Config \<Rightarrow> int \<Rightarrow>
   config_error + built_analyzer option" where
  "doctor_analyzer parse_duration useAI noAI c now =
     (case Validate c of
        Some e \<Rightarrow> Inl e
      | None \<Rightarrow>
          if (Ai_Enabled (Cf_AI c) \<or> useAI) \<and> \<not> noAI
          then Inr (case build_analyzer parse_duration c now of Inl e \<Rightarrow> None | Inr b \<Rightarrow> Some b)
          else Inr None)"

section \<open>Properties\<close>

lemma validate_ai_key:
  assumes "validate_ai ai = None" "Ai_Enabled ai"
  shows "Ai_Provider ai \<in> {''anthropic'', ''openai'', ''ollama''}"
    "Ai_Provider ai \<noteq> ''ollama'' \<Longrightarrow> Ai_APIKey ai \<noteq> []"
  using assms unfolding validate_ai_def by (simp_all split: if_splits)

text \<open>A valid configuration with AI enabled always gives an analyzer.\<close>

lemma enabled_config_builds:
  assumes "Validate c = None" "Ai_Enabled (Cf_AI c)"
  shows "\<exists>b. doctor_analyzer parse_duration useAI False c now = Inr (Some b)"
proof -
  have "validate_ai (Cf_AI c) = None" using assms(1) by (auto simp: Validate_def split: if_splits option.splits)
  from validate_ai_key(1) [OF this assms(2)] show ?thesis
    using assms by (auto simp: doctor_analyzer_def build_analyzer_def NewProvider_def Let_def)
qed

text \<open>The flag \<open>--ai\<close> bypasses the validation of the AI settings. Without it, every analyzer
  the command builds for a remote provider has an API key. With it, the default configuration, which
  is rejected when it enables AI itself, passes and an analyzer for the remote provider is built
  with an empty key.\<close>

theorem ai_flag_skips_validation:
  "(case doctor_analyzer parse_duration False noAI c now of
      Inr (Some b) \<Rightarrow> (Bu_provider b, Bu_apiKey b) \<notin> {(AnthropicProvider, []), (OpenAIProvider, [])}
    | _ \<Rightarrow> True) \<and>
   Validate (DefaultConfig\<lparr>Cf_AI := (Cf_AI DefaultConfig)\<lparr>Ai_Enabled := True\<rparr>\<rparr>) =
     Some (APIKeyRequired ''anthropic'') \<and>
   (case doctor_analyzer parse_duration True False DefaultConfig now of
      Inr (Some b) \<Rightarrow> Bu_provider b = AnthropicProvider \<and> Bu_apiKey b = []
    | _ \<Rightarrow> False)"
proof (intro conjI)
  show "case doctor_analyzer parse_duration False noAI c now of
      Inr (Some b) \<Rightarrow> (Bu_provider b, Bu_apiKey b) \<notin> {(AnthropicProvider, []), (OpenAIProvider, [])}
    | _ \<Rightarrow> True"
  proof (cases "Validate c = None \<and> Ai_Enabled (Cf_AI c) \<and> \<not> noAI")
    case True
    then have "validate_ai (Cf_AI c) = None" by (auto simp: Validate_def split: if_splits option.splits)
    note key = validate_ai_key [OF this]
    show ?thesis using True key
      by (auto simp: doctor_analyzer_def build_analyzer_def NewProvider_def Let_def)
  next
    case False
    then show ?thesis by (auto simp: doctor_analyzer_def split: option.splits)
  qed
  show "Validate (DefaultConfig\<lparr>Cf_AI := (Cf_AI DefaultConfig)\<lparr>Ai_Enabled := True\<rparr>\<rparr>) =
     Some (APIKeyRequired ''anthropic'')"
    by (simp add: Validate_def validate_ai_def DefaultConfig_def)
  have "Validate DefaultConfig = None" by (simp add: Validate_def validate_ai_def DefaultConfig_def)
  then show "case doctor_analyzer parse_duration True False DefaultConfig now of
      Inr (Some b) \<Rightarrow> Bu_provider b = AnthropicProvider \<and> Bu_apiKey b = [] | _ \<Rightarrow> False"
    by (simp add: doctor_analyzer_def build_analyzer_def NewProvider_def DefaultConfig_def Let_def)
qed

end
