(* ===== verification/Adapter.thy ===== *)
theory Adapter
  imports CgroupMemory
begin

text \<open>
  The environment adapters of \<open>internal/adapter\<close>: which adapter runs, the cgroup path of a process,
  and the metadata each adapter derives from it. For Kubernetes the indexes the informer maintains
  and the lookups on them; the API client that calls the handlers is not modelled, and a pod is the
  part of it the handlers read. Files are inputs: their text, or \<open>None\<close> when they cannot be read.
\<close>

section \<open>Strings of the Go library\<close>

text \<open>\<open>strings.Index\<close> and \<open>strings.LastIndex\<close>, \<open>ReplaceAll\<close> for single characters, \<open>SplitN\<close> with
  three parts.\<close>

fun str_Index :: "string \<Rightarrow> string \<Rightarrow> nat option" where
  "str_Index sub [] = (if sub = [] then Some 0 else None)"
| "str_Index sub (c # cs) =
     (if prefix sub (c # cs) then Some 0 else map_option Suc (str_Index sub cs))"

fun str_LastIndex :: "string \<Rightarrow> string \<Rightarrow> nat option" where
  "str_LastIndex sub [] = (if sub = [] then Some 0 else None)"
| "str_LastIndex sub (c # cs) =
     (case str_LastIndex sub cs of
        Some i \<Rightarrow> Some (Suc i)
      | None \<Rightarrow> if prefix sub (c # cs) then Some 0 else None)"

definition replace_char :: "char \<Rightarrow> char \<Rightarrow> string \<Rightarrow> string" where
  "replace_char a b s = map (\<lambda>c. if c = a then b else c) s"

definition before_char :: "char \<Rightarrow> string \<Rightarrow> string" where
  "before_char c s = takeWhile (\<lambda>x. x \<noteq> c) s"

definition SplitN3 :: "char \<Rightarrow> string \<Rightarrow> string list" where
  "SplitN3 c s =
     (case split_at (\<lambda>x. x = c) s of
        a # b # d # ps \<Rightarrow> [a, b, drop (length a + length b + 2) s]
      | ps \<Rightarrow> ps)"

section \<open>The cgroup path of a process\<close>

text \<open>The loops of \<open>parseCgroupPath\<close>, over the index \<open>i\<close>.\<close>

function scan_end :: "string \<Rightarrow> nat \<Rightarrow> nat" where
  "scan_end s i = (if i < length s \<and> s ! i \<noteq> CHR 0x0A then scan_end s (i + 1) else i)"
  by pat_completeness auto

termination by (relation "measure (\<lambda>(s, i). length s - i)") auto

declare scan_end.simps [simp del]

lemma scan_end_ge: "i \<le> scan_end s i"
proof (induction s i rule: scan_end.induct)
  case (1 s i)
  then show ?case by (subst scan_end.simps) auto
qed

definition next_line :: "string \<Rightarrow> nat \<Rightarrow> nat" where
  "next_line s i = (let e = scan_end s i in if e < length s then e + 1 else e)"

lemma next_line_gt: "i < length s \<Longrightarrow> i < next_line s i"
proof -
  assume i: "i < length s"
  have "i < scan_end s i" if "s ! i \<noteq> CHR 0x0A"
    using i that scan_end_ge [of "Suc i" s] by (subst scan_end.simps) auto
  moreover have "scan_end s i = i" if "s ! i = CHR 0x0A" using that by (subst scan_end.simps) simp
  ultimately show ?thesis using i by (cases "s ! i = CHR 0x0A") (auto simp: next_line_def Let_def)
qed

definition line_at :: "string \<Rightarrow> nat \<Rightarrow> string" where
  "line_at s i = take (scan_end s i - i) (drop i s)"

definition v2_line :: "string \<Rightarrow> bool" where
  "v2_line line \<longleftrightarrow> 3 < length line \<and> line ! 0 = CHR ''0'' \<and> line ! 1 = CHR '':'' \<and> line ! 2 = CHR '':''"

function cgroup_v2_loop :: "string \<Rightarrow> nat \<Rightarrow> string option" where
  "cgroup_v2_loop s i =
     (if i < length s
      then let line = line_at s i
           in if v2_line line then Some (drop 3 line) else cgroup_v2_loop s (next_line s i)
      else None)"
  by pat_completeness auto

termination
  by (relation "measure (\<lambda>(s, i). length s - i)") (auto dest: next_line_gt intro: diff_less_mono2)

text \<open>One line of cgroup v1: \<open>Inl\<close> returns, \<open>Inr\<close> continues with the first path seen.\<close>

definition cgroup_v1_line :: "string \<Rightarrow> string \<Rightarrow> string + string" where
  "cgroup_v1_line firstPath line =
     (let fields = SplitN3 (CHR '':'') line
      in if length fields < 3 \<or> fields ! 2 = [] then Inr firstPath
         else let firstPath = (if firstPath = [] then fields ! 2 else firstPath)
              in if ''memory'' \<in> set (split_at (\<lambda>c. c = CHR '','') (fields ! 1)) then Inl (fields ! 2)
                 else Inr firstPath)"

function cgroup_v1_loop :: "string \<Rightarrow> string \<Rightarrow> nat \<Rightarrow> string" where
  "cgroup_v1_loop firstPath s i =
     (if i < length s
      then case cgroup_v1_line firstPath (line_at s i) of
             Inl path \<Rightarrow> path
           | Inr firstPath \<Rightarrow> cgroup_v1_loop firstPath s (next_line s i)
      else firstPath)"
  by pat_completeness auto

termination
  by (relation "measure (\<lambda>(firstPath, s, i). length s - i)")
    (auto dest: next_line_gt intro: diff_less_mono2)

declare cgroup_v2_loop.simps [simp del] cgroup_v1_loop.simps [simp del]

definition parseCgroupPath :: "string \<Rightarrow> string" where
  "parseCgroupPath content =
     (case cgroup_v2_loop content 0 of Some path \<Rightarrow> path | None \<Rightarrow> cgroup_v1_loop [] content 0)"

definition cgroupPathForPID :: "(u32 \<Rightarrow> string option) \<Rightarrow> u32 \<Rightarrow> string" where
  "cgroupPathForPID proc_cgroup pid =
     (case proc_cgroup pid of None \<Rightarrow> [] | Some content \<Rightarrow> parseCgroupPath content)"

section \<open>Environment and metadata\<close>

datatype Environment = EnvBareMetal | EnvKubernetes | EnvSystemd

definition isSystemdManaged :: "string option \<Rightarrow> bool" where
  "isSystemdManaged init_comm =
     (case init_comm of None \<Rightarrow> False
      | Some comm \<Rightarrow> 7 \<le> length comm \<and> take 7 comm = ''systemd'')"

definition DetectEnvironment :: "bool \<Rightarrow> string option \<Rightarrow> Environment" where
  "DetectEnvironment token_exists init_comm =
     (if token_exists then EnvKubernetes
      else if isSystemdManaged init_comm then EnvSystemd
      else EnvBareMetal)"

record EventMeta =
  Me_Hostname :: string
  Me_Comm :: string
  Me_PID :: u32
  Me_Pod :: string
  Me_Namespace :: string
  Me_Node :: string
  Me_Deployment :: string
  Me_Container :: string
  Me_Unit :: string
  Me_Slice :: string
  Me_Scope :: string
  Me_CgroupPath :: string

definition with_cgroup_path :: "(u32 \<Rightarrow> string option) \<Rightarrow> EventMeta \<Rightarrow> EventMeta" where
  "with_cgroup_path proc_cgroup meta =
     (if 0 < Me_PID meta \<and> Me_CgroupPath meta = []
      then meta\<lparr>Me_CgroupPath := cgroupPathForPID proc_cgroup (Me_PID meta)\<rparr> else meta)"

definition baremetal_Enrich :: "string \<Rightarrow> (u32 \<Rightarrow> string option) \<Rightarrow> EventMeta \<Rightarrow> EventMeta" where
  "baremetal_Enrich hostname proc_cgroup meta =
     with_cgroup_path proc_cgroup (meta\<lparr>Me_Hostname := hostname\<rparr>)"

section \<open>systemd\<close>

fun join_slash :: "string list \<Rightarrow> string" where
  "join_slash [] = []"
| "join_slash [p] = p"
| "join_slash (p # q # ps) = p @ ''/'' @ join_slash (q # ps)"

definition systemd_part ::
  "string \<times> string \<times> string list \<Rightarrow> string \<Rightarrow> string \<times> string \<times> string list" where
  "systemd_part acc p =
     (case acc of (unit, scope, sliceParts) \<Rightarrow>
        if suffix ''.service'' p then (p, scope, sliceParts)
        else if suffix ''.scope'' p then (unit, p, sliceParts)
        else if suffix ''.slice'' p then (unit, scope, sliceParts @ [p])
        else (unit, scope, sliceParts))"

text \<open>Unit, slice and scope.\<close>

definition parseSystemdCgroup :: "string \<Rightarrow> string \<times> string \<times> string" where
  "parseSystemdCgroup path =
     (let path = (if prefix ''/'' path then drop 1 path else path)
      in if path = [] then ([], [], [])
         else case foldl systemd_part ([], [], []) (split_at (\<lambda>c. c = CHR ''/'') path) of
           (unit, scope, sliceParts) \<Rightarrow>
             (unit, if sliceParts \<noteq> [] then join_slash sliceParts else [], scope))"

definition systemd_Enrich :: "string \<Rightarrow> (u32 \<Rightarrow> string option) \<Rightarrow> EventMeta \<Rightarrow> EventMeta" where
  "systemd_Enrich hostname proc_cgroup meta =
     (let meta = with_cgroup_path proc_cgroup (meta\<lparr>Me_Hostname := hostname\<rparr>)
      in if Me_CgroupPath meta = [] then meta
         else case parseSystemdCgroup (Me_CgroupPath meta) of
           (unit, slc, scope) \<Rightarrow> meta\<lparr>Me_Unit := unit, Me_Slice := slc, Me_Scope := scope\<rparr>)"

section \<open>Kubernetes\<close>

text \<open>What the handlers read of a pod of the Kubernetes API.\<close>

record Pod =
  Po_Name :: string
  Po_Namespace :: string
  Po_NodeName :: string
  Po_UID :: string
  Po_OwnerReferences :: "(string \<times> string) list"
  Po_Labels :: "(string \<times> string) list"
  Po_ContainerIDs :: "string list"
  Po_InitContainerIDs :: "string list"

record PodInfo =
  Pi_Name :: string
  Pi_Namespace :: string
  Pi_Node :: string
  Pi_Deployment :: string
  Pi_UID :: string

definition extractDeploymentName :: "string \<Rightarrow> string" where
  "extractDeploymentName replicaSetName =
     (case str_LastIndex ''-'' replicaSetName of
        None \<Rightarrow> replicaSetName
      | Some lastDash \<Rightarrow> if lastDash = 0 then replicaSetName else take lastDash replicaSetName)"

definition podInfoFromK8s :: "Pod \<Rightarrow> PodInfo" where
  "podInfoFromK8s pod =
     (let deployment = (case filter (\<lambda>(kind, name). kind = ''ReplicaSet'') (Po_OwnerReferences pod) of
            (kind, name) # refs \<Rightarrow> extractDeploymentName name
          | [] \<Rightarrow> []);
          deployment = (if deployment = []
            then case map_of (Po_Labels pod) ''app'' of Some d \<Rightarrow> d | None \<Rightarrow> deployment
            else deployment)
      in \<lparr>Pi_Name = Po_Name pod, Pi_Namespace = Po_Namespace pod, Pi_Node = Po_NodeName pod,
          Pi_Deployment = deployment, Pi_UID = Po_UID pod\<rparr>)"

definition stripRuntimePrefix :: "string \<Rightarrow> string" where
  "stripRuntimePrefix ref =
     (case str_LastIndex ''//'' ref of Some i \<Rightarrow> drop (i + 2) ref | None \<Rightarrow> ref)"

record KubernetesAdapter =
  ka_nodeName :: string
  ka_hostname :: string
  ka_uidIndex :: "string \<rightharpoonup> PodInfo"
  ka_cgroupIndex :: "string \<rightharpoonup> PodInfo"

definition indexContainerID :: "PodInfo \<Rightarrow> string \<Rightarrow> (string \<rightharpoonup> PodInfo) \<Rightarrow> (string \<rightharpoonup> PodInfo)" where
  "indexContainerID info ref index =
     (let cid = stripRuntimePrefix ref
      in if cid = [] then index
         else let index = index(cid \<mapsto> info)
              in if 12 \<le> length cid then index(take 12 cid \<mapsto> info) else index)"

definition unindexContainerID :: "string \<Rightarrow> (string \<rightharpoonup> PodInfo) \<Rightarrow> (string \<rightharpoonup> PodInfo)" where
  "unindexContainerID ref index =
     (let cid = stripRuntimePrefix ref
      in if cid = [] then index
         else let index = index(cid := None)
              in if 12 \<le> length cid then index(take 12 cid := None) else index)"

definition addPod :: "Pod \<Rightarrow> KubernetesAdapter \<Rightarrow> KubernetesAdapter" where
  "addPod pod a =
     (let info = podInfoFromK8s pod; uid = Po_UID pod;
          index = (ka_cgroupIndex a)(uid \<mapsto> info, replace_char (CHR ''-'') (CHR ''_'') uid \<mapsto> info);
          index = fold (indexContainerID info) (Po_ContainerIDs pod) index;
          index = fold (indexContainerID info) (Po_InitContainerIDs pod) index
      in a\<lparr>ka_uidIndex := (ka_uidIndex a)(uid \<mapsto> info), ka_cgroupIndex := index\<rparr>)"

definition removePod :: "Pod \<Rightarrow> KubernetesAdapter \<Rightarrow> KubernetesAdapter" where
  "removePod pod a =
     (let uid = Po_UID pod;
          index = (ka_cgroupIndex a)(uid := None, replace_char (CHR ''-'') (CHR ''_'') uid := None);
          index = fold unindexContainerID (Po_ContainerIDs pod) index;
          index = fold unindexContainerID (Po_InitContainerIDs pod) index
      in a\<lparr>ka_uidIndex := (ka_uidIndex a)(uid := None), ka_cgroupIndex := index\<rparr>)"

text \<open>The handlers the informer calls.\<close>

datatype informer_event = PodAdded Pod | PodUpdated Pod Pod | PodDeleted Pod

fun informer_step :: "informer_event \<Rightarrow> KubernetesAdapter \<Rightarrow> KubernetesAdapter" where
  "informer_step (PodAdded pod) a = addPod pod a"
| "informer_step (PodUpdated oldPod pod) a = addPod pod (removePod oldPod a)"
| "informer_step (PodDeleted pod) a = removePod pod a"

definition NewKubernetesAdapter :: "string \<Rightarrow> string \<Rightarrow> string \<Rightarrow> KubernetesAdapter" where
  "NewKubernetesAdapter node_env kerno_env hostname =
     \<lparr>ka_nodeName = (if node_env \<noteq> [] then node_env else if kerno_env \<noteq> [] then kerno_env else hostname),
      ka_hostname = hostname, ka_uidIndex = Map.empty, ka_cgroupIndex = Map.empty\<rparr>"

definition isUIDLike :: "string \<Rightarrow> bool" where
  "isUIDLike s \<longleftrightarrow> 32 \<le> length s \<and> list_all (\<lambda>c. c \<in> set ''0123456789abcdef-_'') s"

definition extractPodUID :: "string \<Rightarrow> string" where
  "extractPodUID cgroupPath =
     (case Option.bind (str_Index ''/pod'' cgroupPath) (\<lambda>idx.
            let uid = before_char (CHR ''/'') (drop (idx + 4) cgroupPath)
            in if isUIDLike uid then Some uid else None) of
        Some uid \<Rightarrow> uid
      | None \<Rightarrow>
          (case str_Index ''-pod'' cgroupPath of
             None \<Rightarrow> []
           | Some podIdx \<Rightarrow>
               (let uid = replace_char (CHR ''_'') (CHR ''-'')
                      (before_char (CHR ''.'') (drop (podIdx + 4) cgroupPath))
                in if isUIDLike uid then uid else [])))"

definition lookup_uid :: "KubernetesAdapter \<Rightarrow> string \<Rightarrow> PodInfo option" where
  "lookup_uid a uid =
     (case ka_uidIndex a uid of
        Some info \<Rightarrow> Some info
      | None \<Rightarrow> ka_cgroupIndex a (replace_char (CHR ''-'') (CHR ''_'') uid))"

definition LookupByPath :: "KubernetesAdapter \<Rightarrow> string \<Rightarrow> string \<times> string" where
  "LookupByPath a cgroupPath =
     (let uid = extractPodUID cgroupPath
      in if uid = [] then ([], [])
         else case lookup_uid a uid of
           None \<Rightarrow> ([], [])
         | Some info \<Rightarrow> (Pi_Name info, Pi_Namespace info))"

definition kubernetes_Enrich ::
  "KubernetesAdapter \<Rightarrow> (u32 \<Rightarrow> string option) \<Rightarrow> EventMeta \<Rightarrow> EventMeta" where
  "kubernetes_Enrich a proc_cgroup meta =
     (let meta = with_cgroup_path proc_cgroup
            (meta\<lparr>Me_Hostname := ka_hostname a, Me_Node := ka_nodeName a\<rparr>)
      in if Me_CgroupPath meta = [] then meta
         else let uid = extractPodUID (Me_CgroupPath meta)
      in if uid = [] then meta
         else case lookup_uid a uid of
           None \<Rightarrow> meta
         | Some info \<Rightarrow> meta\<lparr>Me_Pod := Pi_Name info, Me_Namespace := Pi_Namespace info,
               Me_Node := Pi_Node info, Me_Deployment := Pi_Deployment info\<rparr>)"

section \<open>Lines\<close>

definition unlines :: "string list \<Rightarrow> string" where
  "unlines ls = concat (map (\<lambda>l. l @ [CHR 0x0A]) ls)"

lemma scan_end_line:
  "CHR 0x0A \<notin> set l \<Longrightarrow> scan_end (pre @ l @ CHR 0x0A # post) (length pre) = length pre + length l"
proof (induction l arbitrary: pre)
  case Nil
  then show ?case by (subst scan_end.simps) simp
next
  case (Cons c l)
  then show ?case using Cons.IH [of "pre @ [c]"] by (subst scan_end.simps) auto
qed

lemma line_at_line:
  assumes "CHR 0x0A \<notin> set l"
  shows "line_at (pre @ l @ CHR 0x0A # post) (length pre) = l"
    "next_line (pre @ l @ CHR 0x0A # post) (length pre) = length (pre @ l @ [CHR 0x0A])"
  using scan_end_line [OF assms, of pre post] by (simp_all add: line_at_def next_line_def)

lemma cgroup_v2_lines:
  "\<forall>l \<in> set ls. CHR 0x0A \<notin> set l \<Longrightarrow>
   cgroup_v2_loop (pre @ unlines ls) (length pre) = map_option (drop 3) (List.find v2_line ls)"
proof (induction ls arbitrary: pre)
  case Nil
  then show ?case by (simp add: unlines_def cgroup_v2_loop.simps)
next
  case (Cons l ls)
  have s: "pre @ unlines (l # ls) = pre @ l @ CHR 0x0A # unlines ls" by (simp add: unlines_def)
  have "cgroup_v2_loop (pre @ unlines (l # ls)) (length (pre @ l @ [CHR 0x0A])) =
      map_option (drop 3) (List.find v2_line ls)"
    using Cons.IH [of "pre @ l @ [CHR 0x0A]"] Cons.prems by (simp add: unlines_def)
  moreover have "CHR 0x0A \<notin> set l" using Cons.prems by simp
  note line = line_at_line [OF this, of pre "unlines ls", folded s]
  moreover have "length pre < length (pre @ unlines (l # ls))" by (simp add: unlines_def)
  ultimately show ?case by (subst cgroup_v2_loop.simps) (simp add: Let_def)
qed

fun cgroup_v1_lines :: "string \<Rightarrow> string list \<Rightarrow> string" where
  "cgroup_v1_lines firstPath [] = firstPath"
| "cgroup_v1_lines firstPath (l # ls) =
     (case cgroup_v1_line firstPath l of Inl path \<Rightarrow> path | Inr firstPath \<Rightarrow> cgroup_v1_lines firstPath ls)"

lemma cgroup_v1_loop_lines:
  "\<forall>l \<in> set ls. CHR 0x0A \<notin> set l \<Longrightarrow>
   cgroup_v1_loop firstPath (pre @ unlines ls) (length pre) = cgroup_v1_lines firstPath ls"
proof (induction ls arbitrary: pre firstPath)
  case Nil
  then show ?case by (simp add: unlines_def cgroup_v1_loop.simps)
next
  case (Cons l ls)
  have s: "pre @ unlines (l # ls) = pre @ l @ CHR 0x0A # unlines ls" by (simp add: unlines_def)
  have "cgroup_v1_loop fp (pre @ unlines (l # ls)) (length (pre @ l @ [CHR 0x0A])) = cgroup_v1_lines fp ls" for fp
    using Cons.IH [of fp "pre @ l @ [CHR 0x0A]"] Cons.prems by (simp add: unlines_def)
  moreover have "CHR 0x0A \<notin> set l" using Cons.prems by simp
  note line = line_at_line [OF this, of pre "unlines ls", folded s]
  moreover have "length pre < length (pre @ unlines (l # ls))" by (simp add: unlines_def)
  ultimately show ?case by (subst cgroup_v1_loop.simps) (simp split: sum.split)
qed

section \<open>Rendered entries\<close>

text \<open>The file as the kernel prints it: hierarchy number, controllers, path.\<close>

type_synonym cgroup_line = "nat \<times> string list \<times> string"

fun join_comma :: "string list \<Rightarrow> string" where
  "join_comma [] = []"
| "join_comma [p] = p"
| "join_comma (p # q # ps) = p @ CHR '','' # join_comma (q # ps)"

definition render_line :: "cgroup_line \<Rightarrow> string" where
  "render_line e = (case e of (h, cs, p) \<Rightarrow> decimal h @ CHR '':'' # join_comma cs @ CHR '':'' # p)"

definition line_ok :: "cgroup_line \<Rightarrow> bool" where
  "line_ok e \<longleftrightarrow> (case e of (h, cs, p) \<Rightarrow> CHR 0x0A \<notin> set p \<and>
     list_all (\<lambda>c. c \<noteq> [] \<and> CHR 0x0A \<notin> set c \<and> CHR '':'' \<notin> set c \<and> CHR '','' \<notin> set c) cs)"

text \<open>What should be chosen: the unified hierarchy, else the one of the memory controller, else the
  first; lines without a path do not count.\<close>

definition cgroup_choice :: "cgroup_line list \<Rightarrow> string" where
  "cgroup_choice es =
     (let es = filter (\<lambda>(h, cs, p). p \<noteq> []) es
      in case filter (\<lambda>(h, cs, p). h = 0 \<and> cs = []) es of
           (h, cs, p) # _ \<Rightarrow> p
         | [] \<Rightarrow>
             (case filter (\<lambda>(h, cs, p). ''memory'' \<in> set cs) es of
                (h, cs, p) # _ \<Rightarrow> p
              | [] \<Rightarrow> (case es of (h, cs, p) # _ \<Rightarrow> p | [] \<Rightarrow> [])))"

lemma decimal_chars: "c \<in> set (decimal n) \<Longrightarrow> is_digit c"
  using decimal_digits [of n] by (auto simp: list_all_iff)

lemma is_digit_not: "\<not> is_digit (CHR '':'')" "\<not> is_digit (CHR 0x0A)"
  by (simp_all add: is_digit_def)

lemma decimal_hd: "0 < n \<Longrightarrow> hd (decimal n) \<noteq> CHR ''0''"
proof (induction n rule: decimal.induct)
  case (1 n)
  show ?case
  proof (cases "n < 10")
    case True
    then have "n \<in> {1, 2, 3, 4, 5, 6, 7, 8, 9}" using 1(2) by auto
    then show ?thesis by (subst decimal.simps) (auto simp: char_of_eq_iff take_bit_eq_mod)
  next
    case False
    then have "hd (decimal (n div 10)) \<noteq> CHR ''0''" using 1 by simp
    then show ?thesis using False decimal_digits [of "n div 10"] by (subst decimal.simps) simp
  qed
qed

lemma decimal_0: "decimal 0 = ''0''"
  by (subst decimal.simps) (simp add: char_of_eq_iff take_bit_eq_mod)

lemma split_at_sep: "\<forall>c \<in> set xs. \<not> p c \<Longrightarrow> p d \<Longrightarrow> split_at p (xs @ d # ys) = xs # split_at p ys"
  by (induction xs) auto

lemma split_at_none: "\<forall>c \<in> set xs. \<not> p c \<Longrightarrow> split_at p xs = [xs]"
  by (induction xs) auto

lemma split_at_ne: "split_at p xs \<noteq> []"
  by (induction xs) (auto split: list.splits)

lemma split_join_comma:
  "list_all (\<lambda>c. CHR '','' \<notin> set c) cs \<Longrightarrow> cs \<noteq> [] \<Longrightarrow> split_at (\<lambda>c. c = CHR '','') (join_comma cs) = cs"
proof (induction cs rule: join_comma.induct)
  case (2 p)
  then have "\<forall>c \<in> set p. c \<noteq> CHR '',''" by auto
  then show ?case by (simp add: split_at_none)
next
  case (3 p q ps)
  then have "\<forall>c \<in> set p. c \<noteq> CHR '',''" by auto
  then have "split_at (\<lambda>c. c = CHR '','') (join_comma (p # q # ps)) =
      p # split_at (\<lambda>c. c = CHR '','') (join_comma (q # ps))"
    by (simp add: split_at_sep)
  then show ?case using 3 by simp
qed simp

lemma join_comma_chars: "c \<in> set (join_comma cs) \<Longrightarrow> c = CHR '','' \<or> (\<exists>p \<in> set cs. c \<in> set p)"
  by (induction cs rule: join_comma.induct) auto

lemma join_comma_plain:
  assumes "line_ok (h, cs, p)"
  shows "CHR 0x0A \<notin> set (join_comma cs)" "CHR '':'' \<notin> set (join_comma cs)"
  using assms join_comma_chars [of "CHR 0x0A" cs] join_comma_chars [of "CHR '':''" cs]
  by (auto simp: line_ok_def list_all_iff)

lemma join_comma_empty: "line_ok (h, cs, p) \<Longrightarrow> join_comma cs = [] \<longleftrightarrow> cs = []"
  by (cases cs rule: join_comma.cases) (auto simp: line_ok_def)

lemma render_line_plain: "line_ok e \<Longrightarrow> CHR 0x0A \<notin> set (render_line e)"
  using join_comma_plain(1) decimal_chars is_digit_not(2)
  by (cases e) (fastforce simp: render_line_def line_ok_def)

lemma v2_render:
  assumes "line_ok (h, cs, p)"
  shows "v2_line (render_line (h, cs, p)) \<longleftrightarrow> h = 0 \<and> cs = [] \<and> p \<noteq> []"
proof (cases "h = 0")
  case True
  show ?thesis
  proof (cases "cs = []")
    case True
    then show ?thesis using \<open>h = 0\<close> by (auto simp: render_line_def decimal_0 v2_line_def)
  next
    case False
    then obtain c js where js: "join_comma cs = c # js" using join_comma_empty [OF assms] by (cases "join_comma cs") auto
    then have "c \<noteq> CHR '':''" using join_comma_plain(2) [OF assms] by auto
    then show ?thesis using False \<open>h = 0\<close> js by (auto simp: render_line_def decimal_0 v2_line_def)
  qed
next
  case False
  obtain d ds where d: "decimal h = d # ds" using decimal_digits [of h] by (cases "decimal h") auto
  then have "d \<noteq> CHR ''0''" using decimal_hd [of h] False by auto
  then show ?thesis using False by (auto simp: render_line_def v2_line_def d)
qed

lemma v2_path: "line_ok (0, [], p) \<Longrightarrow> drop 3 (render_line (0, [], p)) = p"
  by (simp add: render_line_def decimal_0)

lemma SplitN3_render:
  assumes "line_ok (h, cs, p)"
  shows "SplitN3 (CHR '':'') (render_line (h, cs, p)) = [decimal h, join_comma cs, p]"
proof -
  let ?sp = "split_at (\<lambda>x. x = CHR '':'')"
  have "\<forall>c \<in> set (decimal h). c \<noteq> CHR '':''" using decimal_chars is_digit_not(1) by metis
  moreover have "\<forall>c \<in> set (join_comma cs). c \<noteq> CHR '':''" using join_comma_plain(2) [OF assms] by metis
  ultimately have "?sp (render_line (h, cs, p)) = decimal h # join_comma cs # ?sp p"
    by (simp add: render_line_def split_at_sep)
  then show ?thesis using split_at_ne [of "\<lambda>x. x = CHR '':''" p]
    by (cases "?sp p") (simp_all add: SplitN3_def render_line_def)
qed

lemma v1_render:
  assumes "line_ok (h, cs, p)"
  shows "cgroup_v1_line fp (render_line (h, cs, p)) =
    (if p = [] then Inr fp
     else if ''memory'' \<in> set cs then Inl p else Inr (if fp = [] then p else fp))"
proof -
  have "''memory'' \<in> set (split_at (\<lambda>c. c = CHR '','') (join_comma cs)) \<longleftrightarrow> ''memory'' \<in> set cs"
  proof (cases "cs = []")
    case False
    then show ?thesis using assms split_join_comma [of cs] by (simp add: line_ok_def list_all_iff)
  qed simp
  then show ?thesis by (simp add: cgroup_v1_line_def SplitN3_render [OF assms] Let_def)
qed

lemma v1_lines_choice:
  assumes "list_all line_ok es"
  shows "cgroup_v1_lines fp (map render_line es) =
    (case filter (\<lambda>(h, cs, p). ''memory'' \<in> set cs) (filter (\<lambda>(h, cs, p). p \<noteq> []) es) of
       (h, cs, p) # _ \<Rightarrow> p
     | [] \<Rightarrow> if fp \<noteq> [] then fp
             else (case filter (\<lambda>(h, cs, p). p \<noteq> []) es of (h, cs, p) # _ \<Rightarrow> p | [] \<Rightarrow> []))"
  using assms
proof (induction es arbitrary: fp)
  case (Cons e es)
  obtain h cs p where e: "e = (h, cs, p)" by (cases e)
  have ok: "line_ok (h, cs, p)" using Cons.prems e by simp
  then show ?case using Cons by (auto simp: e v1_render split: list.splits)
qed simp

text \<open>C35: the cgroup path of a process is read from \<open>/proc\<close> as intended, whatever the file holds. For
  every list of hierarchies, printed as the kernel does, the two index loops return the path of the
  unified hierarchy when it has one, otherwise that of the memory controller, otherwise the first;
  colons in a path and co-mounted controllers included. On a hybrid host the unified line hides the
  line of the memory controller.\<close>

theorem cgroup_path_of_proc_file:
  assumes "list_all line_ok es"
  shows "parseCgroupPath (unlines (map render_line es)) = cgroup_choice es"
proof -
  have plain: "\<forall>l \<in> set (map render_line es). CHR 0x0A \<notin> set l"
    using assms render_line_plain by (auto simp: list_all_iff)
  have v2: "cgroup_v2_loop (unlines (map render_line es)) 0 =
      map_option (drop 3) (List.find v2_line (map render_line es))"
    using cgroup_v2_lines [OF plain, of "[]"] by simp
  have v1: "cgroup_v1_loop [] (unlines (map render_line es)) 0 = cgroup_v1_lines [] (map render_line es)"
    using cgroup_v1_loop_lines [OF plain, of "[]" "[]"] by simp
  have "map_option (drop 3) (List.find v2_line (map render_line es)) =
      (case filter (\<lambda>(h, cs, p). h = 0 \<and> cs = []) (filter (\<lambda>(h, cs, p). p \<noteq> []) es) of
         (h, cs, p) # _ \<Rightarrow> Some p | [] \<Rightarrow> None)"
    using assms
  proof (induction es)
    case (Cons e es)
    obtain h cs p where e: "e = (h, cs, p)" by (cases e)
    have ok: "line_ok (h, cs, p)" using Cons.prems e by simp
    then show ?case using Cons v2_path by (auto simp: e v2_render)
  qed simp
  then show ?thesis using v1_lines_choice [OF assms, of "[]"]
    by (simp add: parseCgroupPath_def v2 v1 cgroup_choice_def Let_def split: list.splits)
qed

text \<open>A hybrid host.\<close>

theorem cgroup_path_of_proc_file_witness:
  "parseCgroupPath (unlines (map render_line
     [(5, [''cpu'', ''memory''], ''/kubepods/pod1''), (0, [], ''/system.slice'')])) = ''/system.slice''"
  using cgroup_path_of_proc_file
    [of "[(5, [''cpu'', ''memory''], ''/kubepods/pod1''), (0, [], ''/system.slice'')]"]
  by (simp add: line_ok_def cgroup_choice_def)

section \<open>Pod paths\<close>

text \<open>What follows the first occurrence.\<close>

definition after_sub :: "string \<Rightarrow> string \<Rightarrow> string option" where
  "after_sub sub s = map_option (\<lambda>i. drop (i + length sub) s) (str_Index sub s)"

lemma after_sub_simps [simp]:
  "sub \<noteq> [] \<Longrightarrow> after_sub sub [] = None"
  "after_sub sub (c # cs) =
     (if prefix sub (c # cs) then Some (drop (length sub) (c # cs)) else after_sub sub cs)"
  by (auto simp: after_sub_def option.map_comp o_def intro: option.map_cong0)

lemma after_sub_skip: "hd sub \<notin> set xs \<Longrightarrow> sub \<noteq> [] \<Longrightarrow> after_sub sub (xs @ ys) = after_sub sub ys"
  by (induction xs) (auto simp: prefix_def neq_Nil_conv)

lemma after_sub_append:
  "after_sub sub xs = None \<Longrightarrow> c \<notin> set (tl sub) \<Longrightarrow> sub \<noteq> [] \<Longrightarrow>
   after_sub sub (xs @ c # ys) = after_sub sub (c # ys)"
proof (induction xs)
  case (Cons x xs)
  have none: "\<not> prefix sub (x # xs)" "after_sub sub xs = None"
    using Cons.prems(1) by (auto split: if_splits)
  have "\<not> prefix sub ((x # xs) @ c # ys)"
  proof
    assume "prefix sub ((x # xs) @ c # ys)"
    with none(1) obtain us where us: "sub = (x # xs) @ us" "prefix us (c # ys)"
      unfolding prefix_append by blast
    moreover have "us \<noteq> []" using us(1) none(1) by auto
    ultimately have "c \<in> set (tl sub)" by (cases us) auto
    with Cons.prems(2) show False by simp
  qed
  then show ?case using Cons.IH [OF none(2) Cons.prems(2,3)] by simp
qed simp

lemma extractPodUID_after:
  "extractPodUID path =
     (case Option.bind (after_sub ''/pod'' path) (\<lambda>s.
            if isUIDLike (before_char (CHR ''/'') s) then Some (before_char (CHR ''/'') s) else None) of
        Some uid \<Rightarrow> uid
      | None \<Rightarrow>
          (case after_sub ''-pod'' path of
             None \<Rightarrow> []
           | Some s \<Rightarrow>
               (let uid = replace_char (CHR ''_'') (CHR ''-'') (before_char (CHR ''.'') s)
                in if isUIDLike uid then uid else [])))"
proof -
  have "after_sub ''/pod'' path = map_option (\<lambda>i. drop (i + 4) path) (str_Index ''/pod'' path)"
    "after_sub ''-pod'' path = map_option (\<lambda>i. drop (i + 4) path) (str_Index ''-pod'' path)"
    by (simp_all add: after_sub_def numeral_eq_Suc)
  then show ?thesis
    by (cases "str_Index ''/pod'' path"; cases "str_Index ''-pod'' path")
      (simp_all add: extractPodUID_def Let_def)
qed

text \<open>The identifier of a pod of the API server, and the cgroup paths the kubelet makes of it with
  the cgroupfs and the systemd driver below a mount point \<open>pre\<close>; \<open>rest\<close> leads to a container.\<close>

definition uid_char :: "char \<Rightarrow> bool" where
  "uid_char c \<longleftrightarrow> c \<in> set ''0123456789abcdef-''"

definition pod_uid :: "string \<Rightarrow> bool" where
  "pod_uid u \<longleftrightarrow> 32 \<le> length u \<and> list_all uid_char u \<and> CHR ''-'' \<in> set u"

abbreviation underscored :: "string \<Rightarrow> string" where
  "underscored u \<equiv> replace_char (CHR ''-'') (CHR ''_'') u"

datatype qos = Guaranteed | Burstable | BestEffort

fun cgroupfs_dir :: "qos \<Rightarrow> string" where
  "cgroupfs_dir Guaranteed = ''/kubepods/pod''"
| "cgroupfs_dir Burstable = ''/kubepods/burstable/pod''"
| "cgroupfs_dir BestEffort = ''/kubepods/besteffort/pod''"

fun systemd_dir :: "qos \<Rightarrow> string" where
  "systemd_dir Guaranteed = ''/kubepods.slice/kubepods-pod''"
| "systemd_dir Burstable = ''/kubepods.slice/kubepods-burstable.slice/kubepods-burstable-pod''"
| "systemd_dir BestEffort = ''/kubepods.slice/kubepods-besteffort.slice/kubepods-besteffort-pod''"

definition pod_paths :: "string \<Rightarrow> qos \<Rightarrow> string \<Rightarrow> string \<Rightarrow> string set" where
  "pod_paths pre q u rest =
     {pre @ cgroupfs_dir q @ u @ rest, pre @ systemd_dir q @ underscored u @ ''.slice'' @ rest}"

lemma uid_char_not:
  "\<not> uid_char (CHR ''/'')" "\<not> uid_char (CHR ''.'')" "\<not> uid_char (CHR ''_'')"
  by (simp_all add: uid_char_def)

lemma underscored_inverse:
  "list_all uid_char u \<Longrightarrow> replace_char (CHR ''_'') (CHR ''-'') (underscored u) = u"
proof (induction u)
  case (Cons c u)
  then have "c \<noteq> CHR ''_''" using uid_char_not(3) by auto
  then show ?case using Cons by (simp add: replace_char_def)
qed (simp add: replace_char_def)

lemma underscored_chars: "c \<in> set (underscored u) \<Longrightarrow> c = CHR ''_'' \<or> c \<in> set u"
  by (auto simp: replace_char_def split: if_splits)

lemma pod_uid_plain:
  assumes "pod_uid u"
  shows "CHR ''/'' \<notin> set u" "CHR ''/'' \<notin> set (underscored u)" "CHR ''.'' \<notin> set (underscored u)"
    "CHR ''_'' \<notin> set u" "CHR ''_'' \<in> set (underscored u)" "isUIDLike u"
proof -
  have chars: "\<forall>c \<in> set u. uid_char c" using assms by (simp add: pod_uid_def list_all_iff)
  then show u: "CHR ''/'' \<notin> set u" "CHR ''_'' \<notin> set u" using uid_char_not by metis+
  have "CHR ''.'' \<notin> set u" using chars uid_char_not by metis
  then show "CHR ''.'' \<notin> set (underscored u)" using underscored_chars [of "CHR ''.''" u] by auto
  show "CHR ''/'' \<notin> set (underscored u)" using u(1) underscored_chars [of "CHR ''/''" u] by auto
  show "CHR ''_'' \<in> set (underscored u)" using assms by (force simp: pod_uid_def replace_char_def)
  have "uid_char c \<Longrightarrow> c \<in> set ''0123456789abcdef-_''" for c by (auto simp: uid_char_def)
  then have "list_all (\<lambda>c. c \<in> set ''0123456789abcdef-_'') u"
    using chars unfolding list_all_iff by blast
  then show "isUIDLike u" using assms unfolding isUIDLike_def pod_uid_def by blast
qed

lemma before_char_append: "c \<notin> set xs \<Longrightarrow> before_char c (xs @ c # ys) = xs"
  by (induction xs) (auto simp: before_char_def)

lemma before_char_all: "c \<notin> set xs \<Longrightarrow> before_char c xs = xs"
  by (induction xs) (auto simp: before_char_def)

lemma cgroupfs_dir_uid:
  assumes "after_sub ''/pod'' pre = None"
  shows "after_sub ''/pod'' (pre @ cgroupfs_dir q @ s) = Some s"
proof -
  have "after_sub ''/pod'' (pre @ CHR ''/'' # ys) = after_sub ''/pod'' (CHR ''/'' # ys)" for ys
    by (rule after_sub_append [OF assms]) simp_all
  then show ?thesis by (cases q) simp_all
qed

lemma systemd_dir_uid:
  assumes "after_sub ''/pod'' pre = None" "after_sub ''-pod'' pre = None"
  shows "after_sub ''/pod'' (pre @ systemd_dir q @ s) = after_sub ''/pod'' s"
    "after_sub ''-pod'' (pre @ systemd_dir q @ s) = Some s"
proof -
  have "after_sub ''/pod'' (pre @ CHR ''/'' # ys) = after_sub ''/pod'' (CHR ''/'' # ys)"
    "after_sub ''-pod'' (pre @ CHR ''/'' # ys) = after_sub ''-pod'' (CHR ''/'' # ys)" for ys
    by (rule after_sub_append; simp add: assms)+
  then show "after_sub ''/pod'' (pre @ systemd_dir q @ s) = after_sub ''/pod'' s"
    "after_sub ''-pod'' (pre @ systemd_dir q @ s) = Some s"
    by (cases q; simp)+
qed

lemma extract_pod_path:
  assumes "pod_uid u" "after_sub ''/pod'' pre = None" "after_sub ''-pod'' pre = None"
    and "after_sub ''/pod'' rest = None" "rest = [] \<or> hd rest = CHR ''/''"
    and "path \<in> pod_paths pre q u rest"
  shows "extractPodUID path = u"
proof -
  note u = pod_uid_plain [OF assms(1)]
  consider "path = pre @ cgroupfs_dir q @ u @ rest"
    | "path = pre @ systemd_dir q @ underscored u @ ''.slice'' @ rest"
    using assms(6) by (auto simp: pod_paths_def)
  then show ?thesis
  proof cases
    case 1
    have "before_char (CHR ''/'') (u @ rest) = u"
      using assms(5) u(1) before_char_append [of "CHR ''/''" u "tl rest"] before_char_all
      by (cases rest) auto
    then show ?thesis using u(6) by (simp only: extractPodUID_after 1 cgroupfs_dir_uid [OF assms(2)]) simp
  next
    case 2
    have "after_sub ''/pod'' (underscored u @ ''.slice'' @ rest) = None"
      using after_sub_skip [of "''/pod''" "underscored u @ ''.slice''" rest] u(2) assms(4) by simp
    moreover have "before_char (CHR ''.'') (underscored u @ ''.slice'' @ rest) = underscored u"
      using before_char_append [OF u(3)] by simp
    moreover have "list_all uid_char u" using assms(1) by (simp add: pod_uid_def)
    ultimately show ?thesis using u(6) underscored_inverse
      by (simp only: extractPodUID_after 2 systemd_dir_uid [OF assms(2,3)]) (simp add: Let_def)
  qed
qed

section \<open>The indexes follow the live pods\<close>

definition pod_ok :: "Pod \<Rightarrow> bool" where
  "pod_ok pod \<longleftrightarrow> pod_uid (Po_UID pod) \<and>
     list_all (\<lambda>ref. CHR ''_'' \<notin> set (stripRuntimePrefix ref))
       (Po_ContainerIDs pod @ Po_InitContainerIDs pod)"

fun event_ok :: "informer_event \<Rightarrow> bool" where
  "event_ok (PodAdded pod) = pod_ok pod"
| "event_ok (PodUpdated oldPod pod) = (pod_ok oldPod \<and> pod_ok pod)"
| "event_ok (PodDeleted pod) = pod_ok pod"

text \<open>The specification: the pods that live, by identifier.\<close>

fun live_step :: "informer_event \<Rightarrow> (string \<rightharpoonup> Pod) \<Rightarrow> (string \<rightharpoonup> Pod)" where
  "live_step (PodAdded pod) m = m(Po_UID pod \<mapsto> pod)"
| "live_step (PodUpdated oldPod pod) m = m(Po_UID oldPod := None, Po_UID pod \<mapsto> pod)"
| "live_step (PodDeleted pod) m = m(Po_UID pod := None)"

lemma index_other:
  assumes "CHR ''_'' \<in> set k" "list_all (\<lambda>ref. CHR ''_'' \<notin> set (stripRuntimePrefix ref)) refs"
  shows "fold (indexContainerID info) refs index k = index k"
    "fold unindexContainerID refs index k = index k"
proof -
  have ne: "k \<noteq> stripRuntimePrefix ref \<and> k \<noteq> take 12 (stripRuntimePrefix ref)"
    if "CHR ''_'' \<notin> set (stripRuntimePrefix ref)" for ref
    using that assms(1) set_take_subset [of 12 "stripRuntimePrefix ref"] by auto
  show "fold (indexContainerID info) refs index k = index k"
    "fold unindexContainerID refs index k = index k"
    using assms(2) ne
    by (induction refs arbitrary: index) (simp_all add: indexContainerID_def unindexContainerID_def Let_def)
qed

lemma underscored_inj:
  assumes "pod_uid u" "pod_uid v"
  shows "underscored u = underscored v \<longleftrightarrow> u = v" "underscored u \<noteq> v"
proof -
  show "underscored u = underscored v \<longleftrightarrow> u = v"
    using assms underscored_inverse by (metis pod_uid_def)
  show "underscored u \<noteq> v" using pod_uid_plain(5) [OF assms(1)] pod_uid_plain(4) [OF assms(2)] by metis
qed

lemma addPod_index:
  assumes "pod_ok pod" "pod_uid u"
  shows "ka_cgroupIndex (addPod pod a) (underscored u) =
      (if u = Po_UID pod then Some (podInfoFromK8s pod) else ka_cgroupIndex a (underscored u))"
    "ka_uidIndex (addPod pod a) u = (if u = Po_UID pod then Some (podInfoFromK8s pod) else ka_uidIndex a u)"
proof -
  have "pod_uid (Po_UID pod)" and refs:
    "list_all (\<lambda>ref. CHR ''_'' \<notin> set (stripRuntimePrefix ref)) (Po_ContainerIDs pod)"
    "list_all (\<lambda>ref. CHR ''_'' \<notin> set (stripRuntimePrefix ref)) (Po_InitContainerIDs pod)"
    using assms(1) by (simp_all add: pod_ok_def)
  note inj = underscored_inj [OF assms(2) this(1)]
  note other = index_other(1) [OF pod_uid_plain(5) [OF assms(2)]]
  show "ka_cgroupIndex (addPod pod a) (underscored u) =
      (if u = Po_UID pod then Some (podInfoFromK8s pod) else ka_cgroupIndex a (underscored u))"
    by (simp add: addPod_def Let_def other [OF refs(1)] other [OF refs(2)] inj)
  show "ka_uidIndex (addPod pod a) u = (if u = Po_UID pod then Some (podInfoFromK8s pod) else ka_uidIndex a u)"
    by (simp add: addPod_def Let_def)
qed

lemma removePod_index:
  assumes "pod_ok pod" "pod_uid u"
  shows "ka_cgroupIndex (removePod pod a) (underscored u) =
      (if u = Po_UID pod then None else ka_cgroupIndex a (underscored u))"
    "ka_uidIndex (removePod pod a) u = (if u = Po_UID pod then None else ka_uidIndex a u)"
proof -
  have "pod_uid (Po_UID pod)" and refs:
    "list_all (\<lambda>ref. CHR ''_'' \<notin> set (stripRuntimePrefix ref)) (Po_ContainerIDs pod)"
    "list_all (\<lambda>ref. CHR ''_'' \<notin> set (stripRuntimePrefix ref)) (Po_InitContainerIDs pod)"
    using assms(1) by (simp_all add: pod_ok_def)
  note inj = underscored_inj [OF assms(2) this(1)]
  note other = index_other(2) [OF pod_uid_plain(5) [OF assms(2)]]
  show "ka_cgroupIndex (removePod pod a) (underscored u) =
      (if u = Po_UID pod then None else ka_cgroupIndex a (underscored u))"
    by (simp add: removePod_def Let_def other [OF refs(1)] other [OF refs(2)] inj)
  show "ka_uidIndex (removePod pod a) u = (if u = Po_UID pod then None else ka_uidIndex a u)"
    by (simp add: removePod_def Let_def)
qed

lemma informer_live:
  assumes "list_all event_ok es" "pod_uid u"
    and "ka_uidIndex a u = map_option podInfoFromK8s (live u)"
    and "ka_cgroupIndex a (underscored u) = ka_uidIndex a u"
  shows "ka_uidIndex (fold informer_step es a) u = map_option podInfoFromK8s (fold live_step es live u) \<and>
    ka_cgroupIndex (fold informer_step es a) (underscored u) = ka_uidIndex (fold informer_step es a) u"
  using assms
proof (induction es arbitrary: a live)
  case (Cons e es)
  have "ka_uidIndex (informer_step e a) u = map_option podInfoFromK8s (live_step e live u) \<and>
    ka_cgroupIndex (informer_step e a) (underscored u) = ka_uidIndex (informer_step e a) u"
    using Cons.prems addPod_index removePod_index by (cases e) auto
  then show ?case using Cons.IH [of "informer_step e a" "live_step e live"] Cons.prems(1,2) by simp
qed simp

text \<open>C34: a container is attributed to the pod that owns it. After any sequence of informer events, the
  lookup of a cgroup path the kubelet makes of a pod's identifier, with either cgroup driver, any
  quality of service class and any path below, gives the name and namespace of the live pod with
  that identifier as last announced, and nothing when there is none; and the memory entry of that
  cgroup carries them.\<close>

theorem pod_path_lookup:
  assumes "list_all event_ok es" "pod_uid u" "path \<in> pod_paths pre q u rest"
    and "after_sub ''/pod'' pre = None" "after_sub ''-pod'' pre = None"
    and "after_sub ''/pod'' rest = None" "rest = [] \<or> hd rest = CHR ''/''"
    and "a = fold informer_step es (NewKubernetesAdapter node_env kerno_env hostname)"
    and "live = fold live_step es Map.empty"
    and "enricher = Some (\<lambda>dir. LookupByPath a (concat (map (\<lambda>d. CHR ''/'' # d) dir)))"
    and "path = concat (map (\<lambda>d. CHR ''/'' # d) dir)"
  shows "LookupByPath a path =
      (case live u of None \<Rightarrow> ([], []) | Some pod \<Rightarrow> (Po_Name pod, Po_Namespace pod)) \<and>
    (case live u of None \<Rightarrow> True
     | Some pod \<Rightarrow> Po_Name pod = [] \<or>
         (Cg_Pod (cgroup_entry enricher dir files limit), Cg_Namespace (cgroup_entry enricher dir files limit)) =
         (Po_Name pod, Po_Namespace pod))"
proof -
  have uid: "extractPodUID path = u" using assms(2,4-7,3) by (rule extract_pod_path)
  have "ka_uidIndex a u = map_option podInfoFromK8s (live u)"
    and "ka_cgroupIndex a (underscored u) = ka_uidIndex a u"
    using informer_live [OF assms(1,2), of "NewKubernetesAdapter node_env kerno_env hostname" Map.empty]
    by (simp_all add: NewKubernetesAdapter_def assms(8,9))
  moreover have "u \<noteq> []" using assms(2) by (auto simp: pod_uid_def)
  ultimately have look: "LookupByPath a path =
      (case live u of None \<Rightarrow> ([], []) | Some pod \<Rightarrow> (Po_Name pod, Po_Namespace pod))"
    by (simp add: LookupByPath_def uid lookup_uid_def podInfoFromK8s_def Let_def split: option.splits)
  then show ?thesis
    by (auto simp: cgroup_entry_def assms(10) assms(11) [symmetric] Let_def split: option.splits)
qed

text \<open>A pod that was added and renamed, found below \<open>/sys/fs/cgroup\<close>.\<close>

definition demo_uid :: string where "demo_uid = ''0f2c1ab4-77de-4c0b-9a61-5d3be8f70c11''"

definition demo_pod :: "string \<Rightarrow> Pod" where
  "demo_pod name = \<lparr>Po_Name = name, Po_Namespace = ''web'', Po_NodeName = ''n1'', Po_UID = demo_uid,
     Po_OwnerReferences = [(''ReplicaSet'', ''shop-5d4f'')], Po_Labels = [],
     Po_ContainerIDs = [''containerd://4be1ab9c01d2e3''], Po_InitContainerIDs = []\<rparr>"

theorem pod_path_lookup_witness:
  "LookupByPath (fold informer_step [PodAdded (demo_pod ''old''), PodUpdated (demo_pod ''old'') (demo_pod ''shop'')]
      (NewKubernetesAdapter [] [] ''h''))
     (''/sys/fs/cgroup'' @ systemd_dir Burstable @ underscored demo_uid @ ''.slice'' @ ''/cri-1.scope'') =
   (''shop'', ''web'')"
proof -
  have uid: "pod_uid demo_uid" by (simp add: pod_uid_def demo_uid_def uid_char_def)
  have ok: "pod_ok (demo_pod name)" for name
    using uid by (simp add: pod_ok_def demo_pod_def stripRuntimePrefix_def)
  let ?path = "''/sys/fs/cgroup'' @ systemd_dir Burstable @ underscored demo_uid @ ''.slice'' @ ''/cri-1.scope''"
  let ?es = "[PodAdded (demo_pod ''old''), PodUpdated (demo_pod ''old'') (demo_pod ''shop'')]"
  let ?dir = "[''sys'', ''fs'', ''cgroup'', ''kubepods.slice'', ''kubepods-burstable.slice'',
    ''kubepods-burstable-pod'' @ underscored demo_uid @ ''.slice'', ''cri-1.scope'']"
  let ?a = "fold informer_step ?es (NewKubernetesAdapter [] [] ''h'')"
  have events: "list_all event_ok ?es" using ok by (simp add: demo_pod_def)
  have path: "?path \<in> pod_paths ''/sys/fs/cgroup'' Burstable demo_uid ''/cri-1.scope''"
    by (simp add: pod_paths_def)
  have dir: "?path = concat (map (\<lambda>d. CHR ''/'' # d) ?dir)" by (simp add: systemd_dir.simps)
  have free: "after_sub ''/pod'' ''/sys/fs/cgroup'' = None" "after_sub ''-pod'' ''/sys/fs/cgroup'' = None"
    "after_sub ''/pod'' ''/cri-1.scope'' = None" "''/cri-1.scope'' = [] \<or> hd ''/cri-1.scope'' = CHR ''/''"
    by code_simp+
  have live: "fold live_step ?es Map.empty demo_uid = Some (demo_pod ''shop'')"
    by (simp add: demo_pod_def)
  show ?thesis
    using pod_path_lookup [OF events uid path free refl refl refl dir] live
    by (simp add: demo_pod_def)
qed

end
