(* ===== verification/Commands.thy ===== *)
theory Commands
  imports Config Engine Adapter Pipeline Metrics
begin

text \<open>
  The commands \<open>kerno doctor\<close> and \<open>kerno start\<close> (\<open>internal/cli/doctor.go\<close>, \<open>start.go\<close>): loading the
  programs, registering the collectors, the diagnostic cycles with their output and exit code, and
  the JSON report of \<open>internal/doctor/render.go\<close>. Whether a program loads is a parameter: the error
  text of \<open>Load\<close>, or \<open>None\<close>. The terminal layout of a report and the progress line are not modelled.
\<close>

section \<open>Loading\<close>

record LoadFailure =
  Lf_Program :: string
  Lf_Error :: string
  Lf_Hint :: string

definition str_Contains :: "string \<Rightarrow> string \<Rightarrow> bool" where
  "str_Contains s sub \<longleftrightarrow> str_Index sub s \<noteq> None"

definition classifyLoadError :: "string \<Rightarrow> string" where
  "classifyLoadError err =
     (let msg = map ascii_lower err
      in if str_Contains msg ''operation not permitted'' \<or> str_Contains msg ''permission denied''
         then ''re-run with sudo, or grant CAP_BPF + CAP_PERFMON to the binary''
         else if str_Contains msg ''memlock''
         then ''increase memlock rlimit (ulimit -l unlimited) or run as root''
         else if str_Contains msg ''btf'' \<or> str_Contains msg ''vmlinux''
         then ''kernel needs CONFIG_DEBUG_INFO_BTF (kernel >= 5.8 with BTF)''
         else if str_Contains msg ''verifier'' \<or> str_Contains msg ''load program''
         then ''kernel verifier rejected the program '' @ [CHR 0xE2, CHR 0x80, CHR 0x94] @
              '' file an issue with kernel version''
         else if str_Contains msg ''no such file'' \<and> str_Contains msg ''tracepoint''
         then ''this kernel may lack the required tracepoint '' @ [CHR 0xE2, CHR 0x80, CHR 0x94] @
              '' try a newer kernel''
         else [])"

text \<open>\<open>buildLoaders\<close> of the daemon, and the registrations of the doctor: program, name of the
  collector, whether it is enabled, and whether it loads a program at all.\<close>

definition buildLoaders :: "CollectorsConfig \<Rightarrow> string list" where
  "buildLoaders c =
     (if Cl_SyscallLatency c then [''syscall_latency''] else []) @
     (if Cl_TCPMonitor c then [''tcp_monitor''] else []) @
     (if Cl_OOMTrack c then [''oom_track''] else []) @
     (if Cl_DiskIO c then [''disk_io''] else []) @
     (if Cl_SchedDelay c then [''sched_delay''] else []) @
     (if Cl_FDTrack c then [''fd_track''] else [])"

record registration =
  Rg_name :: string
  Rg_collector :: string
  Rg_enabled :: bool
  Rg_loads :: bool

definition registrations :: "CollectorsConfig \<Rightarrow> registration list" where
  "registrations c =
     [\<lparr>Rg_name = ''syscall_latency'', Rg_collector = ''syscall'', Rg_enabled = Cl_SyscallLatency c, Rg_loads = True\<rparr>,
      \<lparr>Rg_name = ''tcp_monitor'', Rg_collector = ''tcp'', Rg_enabled = Cl_TCPMonitor c, Rg_loads = True\<rparr>,
      \<lparr>Rg_name = ''oom_track'', Rg_collector = ''oom'', Rg_enabled = Cl_OOMTrack c, Rg_loads = True\<rparr>,
      \<lparr>Rg_name = ''disk_io'', Rg_collector = ''diskio'', Rg_enabled = Cl_DiskIO c, Rg_loads = True\<rparr>,
      \<lparr>Rg_name = ''sched_delay'', Rg_collector = ''sched'', Rg_enabled = Cl_SchedDelay c, Rg_loads = True\<rparr>,
      \<lparr>Rg_name = ''fd_track'', Rg_collector = ''fd'', Rg_enabled = Cl_FDTrack c, Rg_loads = True\<rparr>,
      \<lparr>Rg_name = ''memory'', Rg_collector = ''memory'', Rg_enabled = True, Rg_loads = False\<rparr>,
      \<lparr>Rg_name = ''cgroup_memory'', Rg_collector = ''cgroup_memory'', Rg_enabled = True, Rg_loads = False\<rparr>]"

text \<open>The registered collectors, what has to be closed, and the two numbers of the report.\<close>

record build_result =
  Bd_registry :: "string list"
  Bd_closers :: "string list"
  Bd_loaded :: nat
  Bd_total :: nat
  Bd_failures :: "LoadFailure list"

definition build_step ::
  "(string \<Rightarrow> string option) \<Rightarrow> build_result \<Rightarrow> registration \<Rightarrow> build_result" where
  "build_step load b r =
     (if \<not> Rg_enabled r then b
      else let b = b\<lparr>Bd_total := Bd_total b + 1\<rparr>
        in case (if Rg_loads r then load (Rg_name r) else None) of
             Some err \<Rightarrow>
               b\<lparr>Bd_failures := Bd_failures b @
                  [\<lparr>Lf_Program = Rg_name r, Lf_Error = err, Lf_Hint = classifyLoadError err\<rparr>]\<rparr>
           | None \<Rightarrow>
               (let b = b\<lparr>Bd_closers := Bd_closers b @ [Rg_name r]\<rparr>
                in if Rg_collector r \<in> set (Bd_registry b)
                   then b\<lparr>Bd_failures := Bd_failures b @
                          [\<lparr>Lf_Program = Rg_collector r,
                            Lf_Error = ''collector \"'' @ Rg_collector r @ ''\" already registered'',
                            Lf_Hint = ''internal: collector registration conflict''\<rparr>]\<rparr>
                   else b\<lparr>Bd_registry := Bd_registry b @ [Rg_collector r], Bd_loaded := Bd_loaded b + 1\<rparr>))"

definition buildCollectors ::
  "(string \<Rightarrow> string option) \<Rightarrow> CollectorsConfig \<Rightarrow> build_result" where
  "buildCollectors load c =
     (let b = foldl (build_step load)
            \<lparr>Bd_registry = [], Bd_closers = [], Bd_loaded = 0, Bd_total = 0, Bd_failures = []\<rparr>
            (registrations c)
      in b\<lparr>Bd_closers := Bd_closers b @ [''kubernetes'']\<rparr>)"

text \<open>The daemon: the number of loaded programs, those whose events the bridge consumes, and the
  status of \<open>/readyz\<close>. \<open>Events\<close> fails on a loader that has not been loaded.\<close>

definition start_loaded :: "(string \<Rightarrow> string option) \<Rightarrow> CollectorsConfig \<Rightarrow> nat" where
  "start_loaded load c = length (filter (\<lambda>l. load l = None) (buildLoaders c))"

definition bridge_consumers :: "(string \<Rightarrow> string option) \<Rightarrow> CollectorsConfig \<Rightarrow> string list" where
  "bridge_consumers load c = filter (\<lambda>l. load l = None) (buildLoaders c)"

definition readyz_status :: "nat \<Rightarrow> nat" where
  "readyz_status loaded = (if loaded = 0 then 503 else 200)"

section \<open>Reports\<close>

text \<open>The report with what the command adds to it.\<close>

record 'r full_report =
  Fr_Report :: "'r Report"
  Fr_Environment :: Environment
  Fr_LoadFailures :: "LoadFailure list"
  Fr_ProgramsLoaded :: nat

definition fmt_int :: "int \<Rightarrow> string" where
  "fmt_int n = (if n < 0 then ''-'' @ decimal (nat (- n)) else decimal (nat n))"

definition go_Minutes :: "int \<Rightarrow> rat" where
  "go_Minutes d =
     (let m = sgn d * (\<bar>d\<bar> div 60000000000); nsec = sgn d * (\<bar>d\<bar> mod 60000000000)
      in f64 (f64 (of_int m) + f64 (f64 (of_int nsec) / 60000000000)))"

definition go_Hours :: "int \<Rightarrow> rat" where
  "go_Hours d =
     (let h = sgn d * (\<bar>d\<bar> div 3600000000000); nsec = sgn d * (\<bar>d\<bar> mod 3600000000000)
      in f64 (f64 (of_int h) + f64 (f64 (of_int nsec) / 3600000000000)))"

definition ETAString :: "int option \<Rightarrow> string" where
  "ETAString eta =
     (case eta of
        None \<Rightarrow> []
      | Some d \<Rightarrow>
          if d < 60000000000 then ''~'' @ fmt_int (float_to_int64 (go_Seconds d)) @ ''s''
          else if d < 3600000000000 then ''~'' @ fmt_int (float_to_int64 (go_Minutes d)) @ ''m''
          else ''~'' @ fmt_int (float_to_int64 (go_Hours d)) @ ''h'')"

text \<open>The JSON document, without the sentences of a finding and the host; a Go slice that was never
  appended to is \<open>None\<close> and encoded as \<open>null\<close>.\<close>

record jsonFinding =
  Jf_Severity :: string
  Jf_Rule :: string
  Jf_Signal :: string
  Jf_ETA :: string
  Jf_Metric :: string
  Jf_Value :: rat
  Jf_Threshold :: rat
  Jf_Process :: bytes

record reportSummary =
  Rs_Critical :: nat
  Rs_Warning :: nat
  Rs_Info :: nat
  Rs_EventsCollected :: u64

record 'r jsonReport =
  Jr_StartTime :: int
  Jr_EndTime :: int
  Jr_Duration :: int
  Jr_Findings :: "jsonFinding list option"
  Jr_Summary :: reportSummary
  Jr_Analysis :: "'r option"
  Jr_Signals :: Signals

definition json_finding :: "Finding \<Rightarrow> jsonFinding" where
  "json_finding f =
     \<lparr>Jf_Severity = severity_String (Fi_Severity f), Jf_Rule = Fi_Rule f, Jf_Signal = Fi_Signal f,
      Jf_ETA = (if Fi_ETA f \<noteq> None then ETAString (Fi_ETA f) else []),
      Jf_Metric = Fi_Metric f, Jf_Value = Fi_Value f, Jf_Threshold = Fi_Threshold f,
      Jf_Process = Fi_Process f\<rparr>"

definition append_slice :: "'a list option \<Rightarrow> 'a \<Rightarrow> 'a list option" where
  "append_slice s x = Some (case s of None \<Rightarrow> [x] | Some xs \<Rightarrow> xs @ [x])"

definition json_Render :: "'r Report \<Rightarrow> 'r jsonReport" where
  "json_Render r =
     (case CountBySeverity r of (crit, warn, info) \<Rightarrow>
       \<lparr>Jr_StartTime = Rp_StartTime r, Jr_EndTime = Rp_EndTime r, Jr_Duration = Rp_Duration r,
        Jr_Findings = foldl (\<lambda>fs f. append_slice fs (json_finding f)) None (Rp_Findings r),
        Jr_Summary = \<lparr>Rs_Critical = crit, Rs_Warning = warn, Rs_Info = info,
          Rs_EventsCollected = Rp_EventsCollected r\<rparr>,
        Jr_Analysis = Rp_Analysis r, Jr_Signals = Rp_Signals r\<rparr>)"

section \<open>Cycles\<close>

record doctorOpts =
  Do_duration :: int
  Do_exitCode :: bool
  Do_continuous :: bool
  Do_json :: bool
  Do_quiet :: bool
  Do_onlyCritical :: bool

text \<open>What a cycle writes, and the error it returns. \<open>write_fails\<close> says that writing the report fails.\<close>

datatype 'r cycle_output = Rendered "'r full_report" | AllNominal int u64

datatype doctor_error = RenderError | ExitCode nat

definition runDiagnosticCycle ::
  "doctorOpts \<Rightarrow> build_result \<Rightarrow> Environment \<Rightarrow> bool \<Rightarrow> Signals \<Rightarrow> 'r Engine \<Rightarrow>
   'r cycle_output option \<times> doctor_error option \<times> 'r Engine" where
  "runDiagnosticCycle opts build env write_fails signals engine =
     (case Diagnose signals engine of (report, engine) \<Rightarrow>
       let report = (if Do_onlyCritical opts
             then report\<lparr>Rp_Findings := FilterCriticalFindings (Rp_Findings report)\<rparr> else report);
           full = \<lparr>Fr_Report = report, Fr_Environment = env, Fr_LoadFailures = Bd_failures build,
                   Fr_ProgramsLoaded = Bd_loaded build\<rparr>;
           nominal = (Do_quiet opts \<and> \<not> Do_json opts \<and>
             \<not> list_ex (\<lambda>f. SeverityWarning \<le> Fi_Severity f) (Rp_Findings report))
       in if \<not> nominal \<and> write_fails then (None, Some RenderError, engine)
          else (Some (if nominal then AllNominal (Do_duration opts) (Rp_EventsCollected report)
                      else Rendered full),
                if Do_exitCode opts \<and> HasCritical report then Some (ExitCode 1) else None, engine))"

text \<open>The loop of \<open>runDoctor\<close>, over the snapshots at the end of the windows until the context is
  cancelled. What these snapshots are, the collectors being started once before the loop, is the subject
  of \<open>DoctorSession\<close>.\<close>

fun doctor_loop ::
  "doctorOpts \<Rightarrow> build_result \<Rightarrow> Environment \<Rightarrow> bool \<Rightarrow> 'r Engine \<Rightarrow> Signals list \<Rightarrow>
   'r cycle_output list \<times> doctor_error option \<times> 'r Engine" where
  "doctor_loop opts build env write_fails engine [] = ([], None, engine)"
| "doctor_loop opts build env write_fails engine (signals # rest) =
     (case runDiagnosticCycle opts build env write_fails signals engine of (out, err, engine) \<Rightarrow>
        let outs = (case out of None \<Rightarrow> [] | Some x \<Rightarrow> [x])
        in if err \<noteq> None then (outs, err, engine)
           else if \<not> Do_continuous opts then (outs, None, engine)
           else case doctor_loop opts build env write_fails engine rest of (outs', err, engine) \<Rightarrow>
             (outs @ outs', err, engine))"

definition with_duration :: "Config \<Rightarrow> doctorOpts \<Rightarrow> doctorOpts" where
  "with_duration cfg opts =
     (if Do_duration opts = 0 then opts\<lparr>Do_duration := Dc_Duration (Cf_Doctor cfg)\<rparr> else opts)"

definition runDoctor ::
  "doctorOpts \<Rightarrow> Config \<Rightarrow> (string \<Rightarrow> string option) \<Rightarrow> Environment \<Rightarrow> bool \<Rightarrow>
   (AnalysisRequest \<Rightarrow> 'r option \<times> bool) option \<Rightarrow> Signals list \<Rightarrow>
   'r cycle_output list \<times> doctor_error option \<times> 'r Engine" where
  "runDoctor opts cfg load env write_fails analyzer windows =
     (let opts = with_duration cfg opts;
          engine = NewEngine (Dc_Thresholds (Cf_Doctor cfg)) analyzer;
          build = buildCollectors load (Cf_Collectors cfg)
      in doctor_loop opts build env write_fails engine windows)"

section \<open>Loading accounts for every program\<close>

definition load_failure :: "(string \<Rightarrow> string option) \<Rightarrow> string \<Rightarrow> LoadFailure" where
  "load_failure load p =
     \<lparr>Lf_Program = p, Lf_Error = the (load p), Lf_Hint = classifyLoadError (the (load p))\<rparr>"

lemma buildLoaders_registrations:
  "map Rg_name (filter (\<lambda>r. Rg_enabled r \<and> Rg_loads r) (registrations c)) = buildLoaders c"
  by (simp add: registrations_def buildLoaders_def)

lemma registrations_distinct: "distinct (map Rg_collector (registrations c))"
  by (simp add: registrations_def)

definition reg_ok :: "(string \<Rightarrow> string option) \<Rightarrow> registration \<Rightarrow> bool" where
  "reg_ok load r \<longleftrightarrow> Rg_loads r \<longrightarrow> load (Rg_name r) = None"

lemma build_fold:
  assumes "distinct (map Rg_collector rs)" "set (map Rg_collector rs) \<inter> set (Bd_registry b) = {}"
  shows "foldl (build_step load) b rs =
    b\<lparr>Bd_registry := Bd_registry b @ map Rg_collector (filter (\<lambda>r. Rg_enabled r \<and> reg_ok load r) rs),
      Bd_closers := Bd_closers b @ map Rg_name (filter (\<lambda>r. Rg_enabled r \<and> reg_ok load r) rs),
      Bd_loaded := Bd_loaded b + length (filter (\<lambda>r. Rg_enabled r \<and> reg_ok load r) rs),
      Bd_total := Bd_total b + length (filter Rg_enabled rs),
      Bd_failures := Bd_failures b @
        map (load_failure load \<circ> Rg_name) (filter (\<lambda>r. Rg_enabled r \<and> \<not> reg_ok load r) rs)\<rparr>"
  using assms
proof (induction rs arbitrary: b)
  case (Cons r rs)
  have "set (map Rg_collector rs) \<inter> set (Bd_registry (build_step load b r)) = {}"
    using Cons.prems by (auto simp: build_step_def Let_def split: option.splits)
  from Cons.IH [OF _ this] Cons.prems show ?case
    by (auto simp: build_step_def load_failure_def reg_ok_def Let_def split: option.splits)
qed simp

section \<open>Diagnoses\<close>

definition has_critical :: "Signals \<Rightarrow> DoctorThresholds \<Rightarrow> bool" where
  "has_critical s t \<longleftrightarrow> (\<exists>f \<in> set (Evaluate s t). Fi_Severity f = SeverityCritical)"

lemma Diagnose_facts:
  assumes "Diagnose s e = (r, e')"
  shows "Rp_Findings r = Evaluate s (En_thresholds e)" "En_thresholds e' = En_thresholds e"
    "Rp_Signals r = s" "Rp_EventsCollected r = events_collected s"
  using assms by (auto simp: Diagnose_def Let_def)

lemma cycle_facts:
  assumes "runDiagnosticCycle opts build env fails s e = (out, err, e')"
  defines "t \<equiv> En_thresholds e"
  defines "nominal \<equiv> Do_quiet opts \<and> \<not> Do_json opts \<and>
    (if Do_onlyCritical opts then \<not> has_critical s t else rule_findings s t = [])"
  shows "En_thresholds e' = t"
    "fails \<Longrightarrow> \<not> nominal \<Longrightarrow> err = Some RenderError \<and> out = None"
    "\<not> fails \<or> nominal \<Longrightarrow>
       err = (if Do_exitCode opts \<and> has_critical s t then Some (ExitCode 1) else None) \<and> out \<noteq> None"
    "out = Some (AllNominal d n) \<Longrightarrow> nominal \<and> n = events_collected s"
    "out = Some (Rendered full) \<Longrightarrow> \<not> nominal \<and> Rp_Findings (Fr_Report full) =
       (if Do_onlyCritical opts then FilterCriticalFindings (Evaluate s t) else Evaluate s t)"
proof -
  obtain r e1 where d: "Diagnose s e = (r, e1)" by (cases "Diagnose s e")
  note facts = Diagnose_facts [OF d]
  let ?fs = "if Do_onlyCritical opts then FilterCriticalFindings (Evaluate s t) else Evaluate s t"
  have crit: "list_ex (\<lambda>f. Fi_Severity f = SeverityCritical) ?fs \<longleftrightarrow> has_critical s t"
    by (auto simp: FilterCriticalFindings_def has_critical_def list_ex_iff)
  have "list_ex (\<lambda>f. SeverityWarning \<le> Fi_Severity f) (FilterCriticalFindings (Evaluate s t)) \<longleftrightarrow>
      has_critical s t"
    by (auto simp: FilterCriticalFindings_def has_critical_def list_ex_iff less_eq_Severity_def)
  then have nom: "(Do_quiet opts \<and> \<not> Do_json opts \<and> \<not> list_ex (\<lambda>f. SeverityWarning \<le> Fi_Severity f) ?fs) = nominal"
    using hasActionable_Evaluate [of s t] by (auto simp: nominal_def hasActionableFindings_def)
  define rep where "rep = (if Do_onlyCritical opts then r\<lparr>Rp_Findings := FilterCriticalFindings (Rp_Findings r)\<rparr> else r)"
  have rep: "Rp_Findings rep = ?fs" "Rp_EventsCollected rep = events_collected s"
    by (simp_all add: rep_def facts(1,4) t_def)
  have run: "(out, err, e') = (if \<not> nominal \<and> fails then (None, Some RenderError, e1)
      else (Some (if nominal then AllNominal (Do_duration opts) (Rp_EventsCollected rep)
            else Rendered \<lparr>Fr_Report = rep, Fr_Environment = env, Fr_LoadFailures = Bd_failures build,
                   Fr_ProgramsLoaded = Bd_loaded build\<rparr>),
            if Do_exitCode opts \<and> has_critical s t then Some (ExitCode 1) else None, e1))"
    using assms(1) unfolding runDiagnosticCycle_def d prod.case Let_def rep_def [symmetric] HasCritical_def
    by (simp only: rep(1) nom crit)
  show "En_thresholds e' = t" using run facts(2) by (auto simp: t_def split: if_splits)
  show "fails \<Longrightarrow> \<not> nominal \<Longrightarrow> err = Some RenderError \<and> out = None"
    "\<not> fails \<or> nominal \<Longrightarrow>
       err = (if Do_exitCode opts \<and> has_critical s t then Some (ExitCode 1) else None) \<and> out \<noteq> None"
    "out = Some (AllNominal d n) \<Longrightarrow> nominal \<and> n = events_collected s"
    using run rep by (auto split: if_splits)
  show "out = Some (Rendered full) \<Longrightarrow> \<not> nominal \<and> Rp_Findings (Fr_Report full) = ?fs"
    using run rep by (auto split: if_splits)
qed


lemma json_findings:
  "Jr_Findings (json_Render r) =
     (if Rp_Findings r = [] then None else Some (map json_finding (Rp_Findings r)))"
proof -
  have "foldl (\<lambda>fs f. append_slice fs (json_finding f)) None xs =
      (if xs = [] then None else Some (map json_finding xs))" for xs
    by (induction xs rule: rev_induct) (auto simp: append_slice_def)
  then show ?thesis by (simp add: json_Render_def split: prod.split)
qed

text \<open>What one cycle writes.\<close>

definition output_ok :: "doctorOpts \<Rightarrow> DoctorThresholds \<Rightarrow> 'r cycle_output \<Rightarrow> Signals \<Rightarrow> bool" where
  "output_ok opts t out s \<longleftrightarrow>
     (case out of
        AllNominal d n \<Rightarrow> n = events_collected s \<and> Do_quiet opts \<and> \<not> Do_json opts \<and>
          (if Do_onlyCritical opts then \<not> has_critical s t else rule_findings s t = [])
      | Rendered full \<Rightarrow>
          Rp_Findings (Fr_Report full) =
            (if Do_onlyCritical opts then FilterCriticalFindings (Evaluate s t) else Evaluate s t) \<and>
          (Do_quiet opts \<and> \<not> Do_json opts \<longrightarrow>
            (if Do_onlyCritical opts then has_critical s t else rule_findings s t \<noteq> [])) \<and>
          (Jr_Findings (json_Render (Fr_Report full)) = None \<longleftrightarrow>
            Do_onlyCritical opts \<and> \<not> has_critical s t))"

lemma Evaluate_ne: "Evaluate s t \<noteq> []"
  using set_RankFindings [of "if rule_findings s t = [] then [evalHealthySystem s] else rule_findings s t"]
  by (auto simp: Evaluate_eq simp flip: set_empty split: if_splits)

lemma filter_critical_empty: "FilterCriticalFindings (Evaluate s t) = [] \<longleftrightarrow> \<not> has_critical s t"
  by (auto simp: FilterCriticalFindings_def has_critical_def filter_empty_conv)

lemma cycle_output_ok:
  assumes "runDiagnosticCycle opts build env False s e = (out, err, e')"
  shows "\<exists>x. out = Some x \<and> output_ok opts (En_thresholds e) x s"
proof -
  note facts = cycle_facts [OF assms]
  have "out \<noteq> None" using facts(3) by simp
  then obtain x where x: "out = Some x" by blast
  show ?thesis
  proof (cases x)
    case (Rendered full)
    from facts(5) [OF x [unfolded Rendered]] show ?thesis
      by (auto simp: x Rendered output_ok_def json_findings filter_critical_empty Evaluate_ne split: if_splits)
  next
    case (AllNominal d n)
    from facts(4) [OF x [unfolded AllNominal]] show ?thesis
      by (simp add: x AllNominal output_ok_def)
  qed
qed

text \<open>The cycles that take place.\<close>

definition doctor_cycles :: "doctorOpts \<Rightarrow> DoctorThresholds \<Rightarrow> Signals list \<Rightarrow> Signals list" where
  "doctor_cycles opts t windows =
     (let cycles = (if Do_continuous opts then windows else take 1 windows)
      in if Do_exitCode opts
         then take (length (takeWhile (\<lambda>s. \<not> has_critical s t) cycles) + 1) cycles else cycles)"

lemma doctor_cycles_Cons:
  "doctor_cycles opts t (s # ss) =
     s # (if Do_exitCode opts \<and> has_critical s t \<or> \<not> Do_continuous opts then [] else doctor_cycles opts t ss)"
  by (auto simp: doctor_cycles_def Let_def)

lemma doctor_loop_ok:
  assumes "doctor_loop opts build env False e windows = (outs, err, e')" "En_thresholds e = t"
  shows "list_all2 (output_ok opts t) outs (doctor_cycles opts t windows) \<and>
    err = (if Do_exitCode opts \<and> list_ex (\<lambda>s. has_critical s t)
             (if Do_continuous opts then windows else take 1 windows) then Some (ExitCode 1) else None)"
  using assms
proof (induction windows arbitrary: e outs err e')
  case Nil
  then show ?case by (auto simp: doctor_cycles_def)
next
  case (Cons s ss)
  obtain out err1 e1 where c: "runDiagnosticCycle opts build env False s e = (out, err1, e1)"
    by (cases "runDiagnosticCycle opts build env False s e")
  obtain x where x: "out = Some x" "output_ok opts t x s"
    using cycle_output_ok [OF c] Cons.prems(2) by auto
  have err1: "err1 = (if Do_exitCode opts \<and> has_critical s t then Some (ExitCode 1) else None)"
    "En_thresholds e1 = t"
    using cycle_facts(1,3) [OF c] Cons.prems(2) by auto
  show ?case
  proof (cases "err1 \<noteq> None \<or> \<not> Do_continuous opts")
    case True
    then have "outs = [x]" "err = err1" using Cons.prems(1) c x by (auto simp: Let_def split: if_splits)
    then show ?thesis using True x err1 by (auto simp: doctor_cycles_Cons split: if_splits)
  next
    case False
    obtain outs' err' e2 where r: "doctor_loop opts build env False e1 ss = (outs', err', e2)"
      by (cases "doctor_loop opts build env False e1 ss")
    have "outs = x # outs'" "err = err'" using Cons.prems(1) c x r False by (auto simp: Let_def)
    then show ?thesis using Cons.IH [OF r err1(2)] False x err1
      by (auto simp: doctor_cycles_Cons split: if_splits)
  qed
qed

section \<open>Properties\<close>

text \<open>C29: loading degrades gracefully and accounts for every program. Whatever fails to load, the
  failures are exactly the enabled programs whose load fails, in order, each with its error and hint;
  everything else is registered and closed again at the end, no registration conflicts; the loaded
  ones and the failures add up to the total. But the doctor counts its two memory collectors as
  loaded programs: the number in the report is the number the daemon counts plus two, and never
  below two, while the daemon is ready exactly when a program has been loaded.\<close>

theorem build_accounts:
  "let b = buildCollectors load c; failed = filter (\<lambda>p. load p \<noteq> None) (buildLoaders c)
   in Bd_failures b = map (load_failure load) failed \<and>
      Bd_closers b = bridge_consumers load c @ [''memory'', ''cgroup_memory'', ''kubernetes''] \<and>
      length (Bd_registry b) = Bd_loaded b \<and> distinct (Bd_registry b) \<and>
      Bd_loaded b + length (Bd_failures b) = Bd_total b \<and>
      Bd_total b = length (buildLoaders c) + 2 \<and> Bd_loaded b = start_loaded load c + 2 \<and>
      (readyz_status (start_loaded load c) = 200 \<longleftrightarrow> bridge_consumers load c \<noteq> [])"
proof -
  let ?r = "registrations c"
  have b: "buildCollectors load c =
      \<lparr>Bd_registry = map Rg_collector (filter (\<lambda>r. Rg_enabled r \<and> reg_ok load r) ?r),
       Bd_closers = map Rg_name (filter (\<lambda>r. Rg_enabled r \<and> reg_ok load r) ?r) @ [''kubernetes''],
       Bd_loaded = length (filter (\<lambda>r. Rg_enabled r \<and> reg_ok load r) ?r),
       Bd_total = length (filter Rg_enabled ?r),
       Bd_failures = map (load_failure load \<circ> Rg_name) (filter (\<lambda>r. Rg_enabled r \<and> \<not> reg_ok load r) ?r)\<rparr>"
    by (simp add: buildCollectors_def build_fold registrations_distinct Let_def)
  have ok: "map Rg_name (filter (\<lambda>r. Rg_enabled r \<and> reg_ok load r) ?r) =
      bridge_consumers load c @ [''memory'', ''cgroup_memory'']"
    by (simp add: registrations_def reg_ok_def bridge_consumers_def buildLoaders_def)
  have "map Rg_name (filter (\<lambda>r. Rg_enabled r \<and> \<not> reg_ok load r) ?r) =
      filter (\<lambda>p. load p \<noteq> None) (buildLoaders c)"
    by (simp add: registrations_def reg_ok_def buildLoaders_def)
  then have fail: "map (load_failure load \<circ> Rg_name) (filter (\<lambda>r. Rg_enabled r \<and> \<not> reg_ok load r) ?r) =
      map (load_failure load) (filter (\<lambda>p. load p \<noteq> None) (buildLoaders c))"
    by (metis map_map)
  have "length (filter Rg_enabled ?r) = length (buildLoaders c) + 2"
    by (simp add: registrations_def buildLoaders_def)
  moreover have "length (filter (\<lambda>r. Rg_enabled r \<and> reg_ok load r) ?r) = start_loaded load c + 2"
    using arg_cong [OF ok, of length] by (simp add: start_loaded_def bridge_consumers_def)
  moreover have "length (filter (\<lambda>p. load p = None) xs) + length (filter (\<lambda>p. load p \<noteq> None) xs) = length xs" for xs
    by (rule sum_length_filter_compl)
  moreover have "distinct (map Rg_collector (filter (\<lambda>r. Rg_enabled r \<and> reg_ok load r) ?r))"
    using registrations_distinct distinct_map_filter by blast
  ultimately show ?thesis
    by (simp add: b ok fail Let_def start_loaded_def bridge_consumers_def readyz_status_def)
qed


lemma with_duration_flags [simp]:
  "Do_exitCode (with_duration cfg opts) = Do_exitCode opts"
  "Do_continuous (with_duration cfg opts) = Do_continuous opts"
  "Do_json (with_duration cfg opts) = Do_json opts"
  "Do_quiet (with_duration cfg opts) = Do_quiet opts"
  "Do_onlyCritical (with_duration cfg opts) = Do_onlyCritical opts"
  by (simp_all add: with_duration_def)

lemma with_duration_same [simp]:
  "output_ok (with_duration cfg opts) = output_ok opts"
  "doctor_cycles (with_duration cfg opts) = doctor_cycles opts"
  by (simp_all add: fun_eq_iff output_ok_def doctor_cycles_def cong: cycle_output.case_cong)

text \<open>C31: the exit code tells the diagnosis, whatever is shown. With \<open>--exit-code\<close> the command stops
  with code 1 in the first cycle whose rules report a critical finding and in no other case;
  \<open>--quiet\<close>, \<open>--only-critical\<close> and the output format have no influence. The line that all signals are
  nominal replaces a report only in quiet mode when no rule fired; but with \<open>--only-critical\<close> it also
  appears when rules fired below critical, and the JSON report then has \<open>null\<close> for its findings.\<close>

theorem doctor_exit_code:
  assumes "runDoctor opts cfg load env False analyzer windows = (outs, err, e)"
    and "t = Dc_Thresholds (Cf_Doctor cfg)"
  shows "err = (if Do_exitCode opts \<and> list_ex (\<lambda>s. has_critical s t)
             (if Do_continuous opts then windows else take 1 windows) then Some (ExitCode 1) else None) \<and>
    list_all2 (\<lambda>out s. case out of
        AllNominal d n \<Rightarrow> Do_quiet opts \<and> \<not> Do_json opts \<and>
          (if Do_onlyCritical opts then \<not> has_critical s t else rule_findings s t = [])
      | Rendered full \<Rightarrow>
          Rp_Findings (Fr_Report full) =
            (if Do_onlyCritical opts then FilterCriticalFindings (Evaluate s t) else Evaluate s t) \<and>
          (Do_quiet opts \<and> \<not> Do_json opts \<longrightarrow>
            (if Do_onlyCritical opts then has_critical s t else rule_findings s t \<noteq> [])) \<and>
          (Jr_Findings (json_Render (Fr_Report full)) = None \<longleftrightarrow>
            Do_onlyCritical opts \<and> \<not> has_critical s t))
      outs (doctor_cycles opts t windows)"
proof -
  let ?opts = "with_duration cfg opts"
  have "doctor_loop ?opts (buildCollectors load (Cf_Collectors cfg)) env False (NewEngine t analyzer) windows =
      (outs, err, e)"
    using assms by (simp add: runDoctor_def Let_def)
  from doctor_loop_ok [OF this, of t]
  have "list_all2 (output_ok opts t) outs (doctor_cycles opts t windows)"
    and err: "err = (if Do_exitCode opts \<and> list_ex (\<lambda>s. has_critical s t)
             (if Do_continuous opts then windows else take 1 windows) then Some (ExitCode 1) else None)"
    by (simp_all add: NewEngine_def)
  show ?thesis
    by (rule conjI [OF err list_all2_mono [OF \<open>list_all2 _ _ _\<close>]])
      (auto simp: output_ok_def split: cycle_output.splits)
qed

lemma critical_first:
  assumes "has_critical s t"
  shows "Fi_Severity (hd (Evaluate s t)) = SeverityCritical"
proof -
  obtain f where f: "f \<in> set (Evaluate s t)" "Fi_Severity f = SeverityCritical"
    using assms by (auto simp: has_critical_def)
  have "sorted_wrt (\<lambda>x y. Fi_Severity y \<le> Fi_Severity x) (Evaluate s t)"
    unfolding Evaluate_eq by (rule RankFindings_severity)
  then have "Fi_Severity f \<le> Fi_Severity (hd (Evaluate s t))"
    using f(1) Evaluate_ne [of s t] by (cases "Evaluate s t") auto
  then show ?thesis using f(2)
    by (cases "Fi_Severity (hd (Evaluate s t))") (simp_all add: less_eq_Severity_def)
qed

lemma kill_critical:
  assumes "Sg_OOM s = Some (oomc_Snapshot (oomc_collect es))" "es \<noteq> []"
  shows "has_critical s t"
proof -
  have ne: "om_events (oomc_collect es) \<noteq> []"
    using assms(2) by (cases es) (auto simp: oomc_collect_eq MaxOOMEvents_def)
  then obtain evt where "evt \<in> set (Om_Events (oomc_Snapshot (oomc_collect es)))"
    by (cases "om_events (oomc_collect es)") (auto simp: oomc_Snapshot_def)
  from oom_finding [OF this assms(1)] ne obtain f where "f \<in> set (evalOOMKillOccurred s)"
      "Fi_Severity f = SeverityCritical"
    by (auto simp: oomc_Snapshot_def)
  then show ?thesis using oom_findings_reported(1) [of f s t] by (auto simp: has_critical_def)
qed

lemma critical_filtered_first:
  assumes "has_critical s t"
  shows "Fi_Severity (hd (FilterCriticalFindings (Evaluate s t))) = SeverityCritical"
proof -
  have "FilterCriticalFindings (Evaluate s t) \<noteq> []" using assms filter_critical_empty by blast
  then have "hd (FilterCriticalFindings (Evaluate s t)) \<in> set (FilterCriticalFindings (Evaluate s t))" by simp
  then show ?thesis by (simp add: FilterCriticalFindings_def)
qed

section \<open>Without programs\<close>

text \<open>The registry the collectors are put in, the part of the combined snapshot a collector fills, and
  what a missing program leaves open.\<close>

definition build_registry :: "build_result \<Rightarrow> (string \<Rightarrow> snapshot) \<Rightarrow> registry" where
  "build_registry b snaps = (\<lambda>n. if n \<in> set (Bd_registry b) then Some (snaps n) else None)"

definition collector_slots :: "(string \<times> nat) list" where
  "collector_slots = [(''syscall'', 1), (''tcp'', 2), (''oom'', 3), (''diskio'', 4), (''sched'', 5),
     (''fd'', 6), (''memory'', 7), (''cgroup_memory'', 8)]"

definition own_snapshots :: "(string \<Rightarrow> snapshot) \<Rightarrow> bool" where
  "own_snapshots snaps \<longleftrightarrow> list_all (\<lambda>(n, k). snap_slot (snaps n) \<in> {0, k}) collector_slots"

definition silent_programs :: "Signals \<Rightarrow> string list" where
  "silent_programs s =
     (if Sg_Syscall s = None then [''syscall_latency''] else []) @
     (if Sg_TCP s = None then [''tcp_monitor''] else []) @
     (if Sg_OOM s = None then [''oom_track''] else []) @
     (if Sg_DiskIO s = None then [''disk_io''] else []) @
     (if Sg_Sched s = None then [''sched_delay''] else []) @
     (if Sg_FD s = None then [''fd_track''] else [])"

lemma in_optional: "x \<in> set (if b then [a] else []) \<longleftrightarrow> b \<and> x = a"
  by auto

lemma in_silent:
  "''syscall_latency'' \<in> set (silent_programs s) \<longleftrightarrow> Sg_Syscall s = None"
  "''tcp_monitor'' \<in> set (silent_programs s) \<longleftrightarrow> Sg_TCP s = None"
  "''oom_track'' \<in> set (silent_programs s) \<longleftrightarrow> Sg_OOM s = None"
  "''disk_io'' \<in> set (silent_programs s) \<longleftrightarrow> Sg_DiskIO s = None"
  "''sched_delay'' \<in> set (silent_programs s) \<longleftrightarrow> Sg_Sched s = None"
  "''fd_track'' \<in> set (silent_programs s) \<longleftrightarrow> Sg_FD s = None"
  unfolding silent_programs_def set_append Un_iff in_optional by simp_all

lemma add_snapshot_other:
  "snap_slot x \<noteq> 1 \<Longrightarrow> Sg_Syscall (add_snapshot s x) = Sg_Syscall s"
  "snap_slot x \<noteq> 2 \<Longrightarrow> Sg_TCP (add_snapshot s x) = Sg_TCP s"
  "snap_slot x \<noteq> 3 \<Longrightarrow> Sg_OOM (add_snapshot s x) = Sg_OOM s"
  "snap_slot x \<noteq> 4 \<Longrightarrow> Sg_DiskIO (add_snapshot s x) = Sg_DiskIO s"
  "snap_slot x \<noteq> 5 \<Longrightarrow> Sg_Sched (add_snapshot s x) = Sg_Sched s"
  "snap_slot x \<noteq> 6 \<Longrightarrow> Sg_FD (add_snapshot s x) = Sg_FD s"
  by (cases x; simp)+

lemma add_snapshots_other:
  assumes "\<And>s x. snap_slot x \<noteq> k \<Longrightarrow> f (add_snapshot s x) = f s" "k \<notin> snap_slot ` set xs"
  shows "f (foldl add_snapshot s xs) = f s"
  using assms(2) by (induction xs arbitrary: s) (simp_all add: assms(1))

lemma build_registry_names:
  "Bd_registry (buildCollectors load c) =
     map Rg_collector (filter (\<lambda>r. Rg_enabled r \<and> reg_ok load r) (registrations c))"
  by (simp add: buildCollectors_def build_fold registrations_distinct Let_def)

lemma in_registry:
  "n \<in> set (Bd_registry (buildCollectors load c)) \<longleftrightarrow>
     list_ex (\<lambda>r. Rg_collector r = n \<and> Rg_enabled r \<and> reg_ok load r) (registrations c)"
  unfolding build_registry_names by (auto simp: list_ex_iff)

lemma in_consumers:
  "p \<in> set (bridge_consumers load c) \<longleftrightarrow>
     list_ex (\<lambda>r. Rg_name r = p \<and> Rg_enabled r \<and> Rg_loads r \<and> reg_ok load r) (registrations c)"
  unfolding bridge_consumers_def buildLoaders_registrations [symmetric]
  by (auto simp: list_ex_iff reg_ok_def)

lemma registered_loads:
  "''syscall'' \<in> set (Bd_registry (buildCollectors load c)) \<longleftrightarrow> ''syscall_latency'' \<in> set (bridge_consumers load c)"
  "''tcp'' \<in> set (Bd_registry (buildCollectors load c)) \<longleftrightarrow> ''tcp_monitor'' \<in> set (bridge_consumers load c)"
  "''oom'' \<in> set (Bd_registry (buildCollectors load c)) \<longleftrightarrow> ''oom_track'' \<in> set (bridge_consumers load c)"
  "''diskio'' \<in> set (Bd_registry (buildCollectors load c)) \<longleftrightarrow> ''disk_io'' \<in> set (bridge_consumers load c)"
  "''sched'' \<in> set (Bd_registry (buildCollectors load c)) \<longleftrightarrow> ''sched_delay'' \<in> set (bridge_consumers load c)"
  "''fd'' \<in> set (Bd_registry (buildCollectors load c)) \<longleftrightarrow> ''fd_track'' \<in> set (bridge_consumers load c)"
  unfolding in_registry in_consumers by (simp_all add: registrations_def)

lemma registered_slot:
  assumes "own_snapshots snaps" "n \<in> set (Bd_registry (buildCollectors load c))"
  shows "snap_slot (snaps n) = 0 \<or> (n, snap_slot (snaps n)) \<in> set collector_slots"
proof -
  have "n \<in> set (map Rg_collector (registrations c))"
    using assms(2) unfolding build_registry_names by auto
  also have "map Rg_collector (registrations c) = map fst collector_slots"
    by (simp add: registrations_def collector_slots_def)
  finally have "n \<in> fst ` set collector_slots" by simp
  then show ?thesis using assms(1) by (auto simp: own_snapshots_def list_all_iff)
qed

lemma missing_programs_silent:
  assumes own: "own_snapshots snaps" and order: "set order = set (Bd_registry (buildCollectors load c))"
  shows "bpf_programs - set (bridge_consumers load c) \<subseteq> set (silent_programs
    (registry_Signals order now duration (build_registry (buildCollectors load c) snaps)))"
proof -
  let ?b = "buildCollectors load c"
  define xs where "xs = map (\<lambda>n. the (build_registry ?b snaps n)) order"
  have run: "registry_Signals order now duration (build_registry ?b snaps) =
      foldl add_snapshot (empty_signals now duration) xs"
    by (simp add: registry_Signals_def xs_def)
  have slot: "\<exists>n \<in> set (Bd_registry ?b). (n, k) \<in> set collector_slots"
    if k: "k \<in> snap_slot ` set xs" "k \<noteq> 0" for k
  proof -
    obtain n where n: "n \<in> set (Bd_registry ?b)" "k = snap_slot (snaps n)"
      using k(1) order by (auto simp: xs_def build_registry_def)
    from registered_slot [OF own n(1)] n k(2) show ?thesis by auto
  qed
  have no: "k \<notin> snap_slot ` set xs"
    if "n \<notin> set (Bd_registry ?b)" "list_all (\<lambda>(m, j). j = k \<longrightarrow> m = n) collector_slots" "k \<noteq> 0" for n k
    using slot [of k] that by (auto simp: list_all_iff)
  note none = add_snapshots_other [where s = "empty_signals now duration" and xs = xs, OF _ no]
  let ?s = "foldl add_snapshot (empty_signals now duration) xs"
  have "''syscall_latency'' \<notin> set (bridge_consumers load c) \<Longrightarrow> Sg_Syscall ?s = None"
    using none [of 1 Sg_Syscall "''syscall''", OF add_snapshot_other(1)]
    by (simp add: registered_loads collector_slots_def empty_signals_def)
  moreover have "''tcp_monitor'' \<notin> set (bridge_consumers load c) \<Longrightarrow> Sg_TCP ?s = None"
    using none [of 2 Sg_TCP "''tcp''", OF add_snapshot_other(2)]
    by (simp add: registered_loads collector_slots_def empty_signals_def)
  moreover have "''oom_track'' \<notin> set (bridge_consumers load c) \<Longrightarrow> Sg_OOM ?s = None"
    using none [of 3 Sg_OOM "''oom''", OF add_snapshot_other(3)]
    by (simp add: registered_loads collector_slots_def empty_signals_def)
  moreover have "''disk_io'' \<notin> set (bridge_consumers load c) \<Longrightarrow> Sg_DiskIO ?s = None"
    using none [of 4 Sg_DiskIO "''diskio''", OF add_snapshot_other(4)]
    by (simp add: registered_loads collector_slots_def empty_signals_def)
  moreover have "''sched_delay'' \<notin> set (bridge_consumers load c) \<Longrightarrow> Sg_Sched ?s = None"
    using none [of 5 Sg_Sched "''sched''", OF add_snapshot_other(5)]
    by (simp add: registered_loads collector_slots_def empty_signals_def)
  moreover have "''fd_track'' \<notin> set (bridge_consumers load c) \<Longrightarrow> Sg_FD ?s = None"
    using none [of 6 Sg_FD "''fd''", OF add_snapshot_other(6)]
    by (simp add: registered_loads collector_slots_def empty_signals_def)
  ultimately show ?thesis
    unfolding run bpf_programs_def insert_Diff_if by (simp add: in_silent)
qed

lemma RankFindings_one: "RankFindings [f] = [f]"
  using RankFindings_facts(1) [of "[f]"] by simp

lemma doctor_cycles_one: "doctor_cycles opts t [s] = [s]"
  "(if Do_continuous opts then [s] else take 1 [s]) = [s]"
  by (simp_all add: doctor_cycles_def Let_def)

lemma silent_rules:
  assumes "bpf_programs \<subseteq> set (silent_programs s)"
    and "evalOOMImminent s t = []" "evalMemoryLimitPressure s = []" "evalMemoryHighThrottling s = []"
  shows "rule_findings s t = []" "events_collected s = 0"
proof -
  have "Sg_Syscall s = None" "Sg_TCP s = None" "Sg_OOM s = None" "Sg_DiskIO s = None"
    "Sg_Sched s = None" "Sg_FD s = None"
    using assms(1) by (simp_all add: bpf_programs_def in_silent)
  then show "rule_findings s t = []" "events_collected s = 0"
    using assms(2-4)
    by (simp_all add: rule_findings_def evalDiskIOBottleneck_def evalOOMKillOccurred_def
        evalTCPRetransmitStorm_def evalTCPRTTDegradation_def evalSchedulerContention_def evalFDLeak_def
        evalSyscallLatencyHigh_def evalSyscallErrorRate_def events_collected_def)
qed

text \<open>C30: a doctor that sees nothing reports a healthy system. The part of the snapshot of every program
  that is disabled or failed to load is missing, and the rules on a missing part are silent. If no
  program loads, as without root, and memory is fine, the exit code is 0 even with \<open>--exit-code\<close>, the
  quiet mode prints that all kernel signals are nominal, and the only finding of any other report is
  that the system is healthy; the JSON report does not mention the failures.\<close>

theorem blind_doctor_healthy:
  assumes "own_snapshots snaps"
    and "build = buildCollectors load (Cf_Collectors cfg)" "set order = set (Bd_registry build)"
    and "s = registry_Signals order now duration (build_registry build snaps)"
    and "t = Dc_Thresholds (Cf_Doctor cfg)"
    and "runDoctor opts cfg load env False analyzer [s] = (outs, err, e)"
  shows "bpf_programs - set (bridge_consumers load (Cf_Collectors cfg)) \<subseteq> set (silent_programs s) \<and>
    (bridge_consumers load (Cf_Collectors cfg) = [] \<and> evalOOMImminent s t = [] \<and>
       evalMemoryLimitPressure s = [] \<and> evalMemoryHighThrottling s = [] \<longrightarrow>
     err = None \<and>
     (if Do_quiet opts \<and> \<not> Do_json opts then \<exists>d. outs = [AllNominal d 0]
      else \<exists>full. outs = [Rendered full] \<and> Rp_Findings (Fr_Report full) =
        (if Do_onlyCritical opts then [] else [evalHealthySystem s])))"
proof (intro conjI impI)
  show silent: "bpf_programs - set (bridge_consumers load (Cf_Collectors cfg)) \<subseteq> set (silent_programs s)"
    using missing_programs_silent [OF assms(1) assms(3) [unfolded assms(2)]] assms(2,4) by simp
  assume blind: "bridge_consumers load (Cf_Collectors cfg) = [] \<and> evalOOMImminent s t = [] \<and>
       evalMemoryLimitPressure s = [] \<and> evalMemoryHighThrottling s = []"
  then have sil: "bpf_programs \<subseteq> set (silent_programs s)" using silent by simp
  from blind have rules: "rule_findings s t = []" "events_collected s = 0"
    by (simp_all add: silent_rules [OF sil, of t])
  then have eval: "Evaluate s t = [evalHealthySystem s]"
    by (simp add: Evaluate_def RankFindings_one)
  have crit: "\<not> has_critical s t" by (simp add: has_critical_def eval evalHealthySystem_def)
  have "doctor_loop (with_duration cfg opts) build env False (NewEngine t analyzer) [s] = (outs, err, e)"
    using assms(2,5,6) by (simp add: runDoctor_def Let_def)
  from doctor_loop_ok [OF this, of t]
  have outs: "list_all2 (output_ok opts t) outs [s]" and err: "err = None"
    by (simp_all add: NewEngine_def doctor_cycles_one crit)
  then obtain out where out: "outs = [out]" "output_ok opts t out s" by (auto simp: list_all2_Cons2)
  show "err = None" by (rule err)
  show "if Do_quiet opts \<and> \<not> Do_json opts then \<exists>d. outs = [AllNominal d 0]
      else \<exists>full. outs = [Rendered full] \<and> Rp_Findings (Fr_Report full) =
        (if Do_onlyCritical opts then [] else [evalHealthySystem s])"
  proof (cases out)
    case (Rendered full)
    have "FilterCriticalFindings [evalHealthySystem s] = []"
      by (simp add: FilterCriticalFindings_def evalHealthySystem_def)
    with out show ?thesis by (simp add: Rendered output_ok_def crit eval rules(1) split: if_splits)
  next
    case (AllNominal d n)
    with out show ?thesis by (simp add: output_ok_def rules(2))
  qed
qed

text \<open>A window with a kill.\<close>

definition demo_opts :: doctorOpts where
  "demo_opts = \<lparr>Do_duration = 0, Do_exitCode = False, Do_continuous = True, Do_json = False,
     Do_quiet = True, Do_onlyCritical = False\<rparr>"

definition demo_kill :: OOMEvent where
  "demo_kill = \<lparr>OE_TimestampNs = 0, OE_CgroupID = 0, OE_TotalPages = 0, OE_RSSPages = 0, OE_PID = 7,
     OE_TriggeredPID = 7, OE_OOMScore = 0, OE_Pad0 = 0, OE_Comm = [97]\<rparr>"

definition demo_window :: "int \<Rightarrow> Signals" where
  "demo_window now = (empty_signals now 30)\<lparr>Sg_OOM := Some (oomc_Snapshot (oomc_collect [demo_kill]))\<rparr>"

abbreviation no_analyzer :: "(AnalysisRequest \<Rightarrow> string option \<times> bool) option" where
  "no_analyzer \<equiv> None"

theorem doctor_exit_code_witness:
  "fst (snd (runDoctor (demo_opts\<lparr>Do_exitCode := True, Do_onlyCritical := True\<rparr>) DefaultConfig
     (\<lambda>_. Some ''permission denied'') EnvBareMetal False no_analyzer [demo_window 30])) = Some (ExitCode 1)"
proof -
  have crit: "has_critical (demo_window 30) t" for t
    by (rule kill_critical [of _ "[demo_kill]"]) (simp_all add: demo_window_def)
  show ?thesis
    by (cases "runDoctor (demo_opts\<lparr>Do_exitCode := True, Do_onlyCritical := True\<rparr>) DefaultConfig
        (\<lambda>_. Some ''permission denied'') EnvBareMetal False no_analyzer [demo_window 30]")
      (use doctor_exit_code [OF _ refl] crit in \<open>force simp: demo_opts_def\<close>)
qed

definition blind_signals :: Signals where
  "blind_signals = registry_Signals [''memory'', ''cgroup_memory''] 30 30
     (build_registry (buildCollectors (\<lambda>_. Some ''operation not permitted'') (Cf_Collectors DefaultConfig))
       (\<lambda>_. NilSnapshot))"

theorem blind_doctor_healthy_witness:
  "fst (runDoctor demo_opts DefaultConfig (\<lambda>_. Some ''operation not permitted'') EnvKubernetes False
     no_analyzer [blind_signals]) \<in> range (\<lambda>d. [AllNominal d 0])"
proof -
  let ?load = "\<lambda>_. Some ''operation not permitted''"
  let ?c = "Cf_Collectors DefaultConfig"
  have none: "bridge_consumers ?load ?c = []" by (simp add: bridge_consumers_def)
  have names: "set [''memory'', ''cgroup_memory''] = set (Bd_registry (buildCollectors ?load ?c))"
    unfolding build_registry_names by (simp add: registrations_def reg_ok_def)
  have own: "own_snapshots (\<lambda>_. NilSnapshot)" by (simp add: own_snapshots_def collector_slots_def)
  have eq: "blind_signals = empty_signals 30 30"
    by (simp add: blind_signals_def registry_Signals_def build_registry_def in_registry
        registrations_def reg_ok_def)
  have quiet: "evalOOMImminent blind_signals t = []" "evalMemoryLimitPressure blind_signals = []"
    "evalMemoryHighThrottling blind_signals = []" for t
    unfolding eq by (simp_all add: empty_signals_def evalOOMImminent_def evalMemoryLimitPressure_def
        evalMemoryHighThrottling_def)
  show ?thesis
    by (cases "runDoctor demo_opts DefaultConfig ?load EnvKubernetes False no_analyzer [blind_signals]")
      (use blind_doctor_healthy [OF own refl names blind_signals_def refl] quiet none in
        \<open>force simp: demo_opts_def\<close>)
qed

end
