(* ===== verification/AuditFiles.thy ===== *)
theory AuditFiles
  imports Adapter
begin

text \<open>
  \<open>internal/cli/audit.go\<close>: the paths \<open>kerno audit files\<close> watches and the decoding of what inotify
  reports about them. The kernel side is a parameter: which paths exist, the watch descriptor
  \<open>inotify_add_watch\<close> returns, and the bytes of each \<open>read\<close>.
\<close>

unbundle bit_operations_syntax

section \<open>\<open>path/filepath\<close>\<close>

definition clean_step :: "bool \<Rightarrow> string list \<Rightarrow> string \<Rightarrow> string list" where
  "clean_step rooted stack p =
     (if p = [] \<or> p = ''.'' then stack
      else if p = ''..''
      then (if stack \<noteq> [] \<and> hd stack \<noteq> ''..'' then tl stack
            else if rooted then stack else p # stack)
      else p # stack)"

definition clean_stack :: "string \<Rightarrow> string list" where
  "clean_stack path =
     foldl (clean_step (prefix ''/'' path)) [] (split_at (\<lambda>c. c = CHR ''/'') path)"

definition filepath_Clean :: "string \<Rightarrow> string" where
  "filepath_Clean path =
     (if prefix ''/'' path then CHR ''/'' # join_slash (rev (clean_stack path))
      else if clean_stack path = [] then ''.'' else join_slash (rev (clean_stack path)))"

definition filepath_Join :: "string \<Rightarrow> string \<Rightarrow> string" where
  "filepath_Join a b =
     (if a \<noteq> [] then filepath_Clean (a @ ''/'' @ b) else if b \<noteq> [] then filepath_Clean b else [])"

section \<open>Paths to watch\<close>

definition sensitivePaths :: "string list" where
  "sensitivePaths =
     [''/etc/passwd'', ''/etc/shadow'', ''/etc/sudoers'', ''/etc/sudoers.d'', ''/etc/ssh/sshd_config'',
      ''/etc/ssl'', ''/etc/pki'', ''/root/.ssh'', ''/root/.bash_history'']"

definition unique_step ::
  "(string \<Rightarrow> bool) \<Rightarrow> string set \<times> string list \<Rightarrow> string \<Rightarrow> string set \<times> string list" where
  "unique_step exists_on_disk acc p =
     (case acc of (seen, out) \<Rightarrow>
        let p = TrimSpace p
        in if p = [] then (seen, out)
           else if p \<in> seen then (seen, out)
           else if \<not> exists_on_disk p then (seen, out)
           else (insert p seen, out @ [p]))"

definition uniqueExisting :: "(string \<Rightarrow> bool) \<Rightarrow> string list \<Rightarrow> string list" where
  "uniqueExisting exists_on_disk paths = snd (foldl (unique_step exists_on_disk) ({}, []) paths)"

text \<open>The map from watch descriptors to paths. Two paths to one file get the same descriptor.\<close>

definition watch_paths ::
  "(string \<Rightarrow> u32 option) \<Rightarrow> string list \<Rightarrow> (u32 \<rightharpoonup> string)" where
  "watch_paths add_watch paths =
     foldl (\<lambda>m p. case add_watch p of None \<Rightarrow> m | Some wd \<Rightarrow> m(wd \<mapsto> p)) Map.empty paths"

datatype audit_error = NoPaths | NoWatches

definition audit_watches ::
  "(string \<Rightarrow> bool) \<Rightarrow> (string \<Rightarrow> u32 option) \<Rightarrow> bool \<Rightarrow> string list \<Rightarrow>
   audit_error + (u32 \<rightharpoonup> string)" where
  "audit_watches exists_on_disk add_watch sensitive watchPaths =
     (let paths = (if sensitive then watchPaths @ sensitivePaths else watchPaths);
          paths = uniqueExisting exists_on_disk paths
      in if paths = [] then Inl NoPaths
         else let wdToPath = watch_paths add_watch paths
              in if list_all (\<lambda>p. add_watch p = None) paths then Inl NoWatches else Inr wdToPath)"

section \<open>Events\<close>

record auditEvent =
  Au_Path :: string
  Au_Op :: string
  Au_Mask :: u32
  Au_Cookie :: u32

fun hex_digits :: "nat \<Rightarrow> string" where
  "hex_digits n =
     (let d = n mod 16; c = char_of (if d < 10 then 48 + d else 87 + d)
      in if n < 16 then [c] else hex_digits (n div 16) @ [c])"

declare hex_digits.simps [simp del]

definition opName :: "u32 \<Rightarrow> string" where
  "opName msk =
     (if msk AND 0x200 \<noteq> 0 then ''DELETE''
      else if msk AND 0x40 \<noteq> 0 \<or> msk AND 0x80 \<noteq> 0 then ''MOVE''
      else if msk AND 0x2 \<noteq> 0 then ''MODIFY''
      else if msk AND 0x8 \<noteq> 0 then ''WRITE''
      else if msk AND 0x4 \<noteq> 0 then ''CHATTR''
      else if msk AND 0x20 \<noteq> 0 then ''OPEN''
      else if msk AND 0x1 \<noteq> 0 then ''ACCESS''
      else ''UNKNOWN(0x'' @ hex_digits (unat msk) @ '')'')"

fun indexOfZero :: "bytes \<Rightarrow> nat option" where
  "indexOfZero [] = None"
| "indexOfZero (c # b) = (if c = 0 then Some 0 else map_option Suc (indexOfZero b))"

definition SizeofInotifyEvent :: nat where "SizeofInotifyEvent = 16"

text \<open>The event at an offset: descriptor, mask, cookie, and the \<open>nameLen\<close> bytes after it.\<close>

definition inotify_event :: "(u32 \<rightharpoonup> string) \<Rightarrow> bytes \<Rightarrow> nat \<Rightarrow> nat \<Rightarrow> auditEvent" where
  "inotify_event wdToPath buf offset nameLen =
     (let path = (case wdToPath (le_word (bslice offset 4 buf)) of None \<Rightarrow> [] | Some p \<Rightarrow> p);
          path = (if 0 < nameLen
            then let nameBytes = bslice (offset + SizeofInotifyEvent) nameLen buf;
                     nameBytes = (case indexOfZero nameBytes of Some i \<Rightarrow> take i nameBytes | None \<Rightarrow> nameBytes)
                 in if nameBytes \<noteq> [] then filepath_Join path (bytes_str nameBytes) else path
            else path);
          msk = le_word (bslice (offset + 4) 4 buf)
      in \<lparr>Au_Path = path, Au_Op = opName msk, Au_Mask = msk,
          Au_Cookie = le_word (bslice (offset + 8) 4 buf)\<rparr>)"

function decode_inotify :: "(u32 \<rightharpoonup> string) \<Rightarrow> bytes \<Rightarrow> nat \<Rightarrow> auditEvent list" where
  "decode_inotify wdToPath buf offset =
     (if offset + SizeofInotifyEvent \<le> length buf
      then let nameLen = unat (le_word (bslice (offset + 12) 4 buf) :: u32)
           in if length buf < offset + SizeofInotifyEvent + nameLen then []
              else inotify_event wdToPath buf offset nameLen #
                   decode_inotify wdToPath buf (offset + SizeofInotifyEvent + nameLen)
      else [])"
  by pat_completeness auto

termination
  by (relation "measure (\<lambda>(wdToPath, buf, offset). length buf - offset)") (auto simp: SizeofInotifyEvent_def)

declare decode_inotify.simps [simp del]

definition decodeInotifyBatch :: "(u32 \<rightharpoonup> string) \<Rightarrow> bytes \<Rightarrow> auditEvent list" where
  "decodeInotifyBatch wdToPath buf = decode_inotify wdToPath buf 0"

text \<open>The reads until one fails or returns nothing.\<close>

fun readInotify :: "(u32 \<rightharpoonup> string) \<Rightarrow> bytes option list \<Rightarrow> auditEvent list" where
  "readInotify wdToPath (Some buf # reads) =
     (if buf = [] then [] else decodeInotifyBatch wdToPath buf @ readInotify wdToPath reads)"
| "readInotify wdToPath _ = []"

section \<open>What the kernel writes\<close>

record inotify_record =
  In_wd :: u32
  In_mask :: u32
  In_cookie :: u32
  In_name :: bytes
  In_pad :: nat

definition in_len :: "inotify_record \<Rightarrow> nat" where
  "in_len e = length (In_name e) + In_pad e"

definition in_bytes :: "inotify_record \<Rightarrow> bytes" where
  "in_bytes e = le_bytes 4 (In_wd e) @ le_bytes 4 (In_mask e) @ le_bytes 4 (In_cookie e) @
     le_bytes 4 (of_nat (in_len e) :: u32) @ In_name e @ replicate (In_pad e) 0"

definition in_ok :: "inotify_record \<Rightarrow> bool" where
  "in_ok e \<longleftrightarrow> 0 \<notin> set (In_name e) \<and> in_len e < 2 ^ 32"

text \<open>What should be reported: the watched path, and the name below it, when there is one.\<close>

definition in_report :: "(u32 \<rightharpoonup> string) \<Rightarrow> inotify_record \<Rightarrow> auditEvent" where
  "in_report wdToPath e =
     (let path = (case wdToPath (In_wd e) of None \<Rightarrow> [] | Some p \<Rightarrow> p)
      in \<lparr>Au_Path = (if In_name e = [] then path else filepath_Join path (bytes_str (In_name e))),
          Au_Op = opName (In_mask e), Au_Mask = In_mask e, Au_Cookie = In_cookie e\<rparr>)"

lemma length_in_bytes: "length (in_bytes e) = 16 + in_len e"
  by (simp add: in_bytes_def in_len_def)

lemma indexOfZero_app: "0 \<notin> set s \<Longrightarrow> indexOfZero (s @ replicate n 0) =
    (if n = 0 then None else Some (length s))"
  by (induction s) (cases n; simp)+

lemma bslice_shift: "bslice (length pre + off) n (pre @ s) = bslice off n s"
  by (simp add: bslice_def)

lemma in_fields:
  assumes "in_ok e"
  shows "(le_word (bslice 0 4 (in_bytes e @ s)) :: u32) = In_wd e"
    "(le_word (bslice 4 4 (in_bytes e @ s)) :: u32) = In_mask e"
    "(le_word (bslice 8 4 (in_bytes e @ s)) :: u32) = In_cookie e"
    "unat (le_word (bslice 12 4 (in_bytes e @ s)) :: u32) = in_len e"
    "bslice 16 (in_len e) (in_bytes e @ s) = In_name e @ replicate (In_pad e) 0"
proof -
  show "(le_word (bslice 0 4 (in_bytes e @ s)) :: u32) = In_wd e"
    "(le_word (bslice 4 4 (in_bytes e @ s)) :: u32) = In_mask e"
    "(le_word (bslice 8 4 (in_bytes e @ s)) :: u32) = In_cookie e"
    "bslice 16 (in_len e) (in_bytes e @ s) = In_name e @ replicate (In_pad e) 0"
    by (simp_all add: in_bytes_def bslice_def le_word_le_bytes in_len_def)
  have "(le_word (bslice 12 4 (in_bytes e @ s)) :: u32) = of_nat (in_len e)"
    by (simp add: in_bytes_def bslice_def le_word_le_bytes)
  then show "unat (le_word (bslice 12 4 (in_bytes e @ s)) :: u32) = in_len e"
    using assms by (simp add: in_ok_def unat_of_nat)
qed

lemma inotify_event_in_bytes:
  assumes "in_ok e"
  shows "inotify_event wdToPath (pre @ in_bytes e @ s) (length pre) (in_len e) = in_report wdToPath e"
proof -
  have at: "bslice (length pre + off) n (pre @ in_bytes e @ s) = bslice off n (in_bytes e @ s)"
    "bslice (length pre) n (pre @ in_bytes e @ s) = bslice 0 n (in_bytes e @ s)" for off n
    using bslice_shift [of pre off n] bslice_shift [of pre 0 n] by simp_all
  have zero: "0 \<notin> set (In_name e)" using assms by (simp add: in_ok_def)
  have name: "(case indexOfZero (In_name e @ replicate (In_pad e) 0) of
      Some i \<Rightarrow> take i (In_name e @ replicate (In_pad e) 0) | None \<Rightarrow> In_name e @ replicate (In_pad e) 0) = In_name e"
    by (simp add: indexOfZero_app [OF zero])
  have len: "0 < in_len e \<longleftrightarrow> In_name e \<noteq> [] \<or> 0 < In_pad e" by (auto simp: in_len_def)
  show ?thesis
    unfolding inotify_event_def SizeofInotifyEvent_def at in_fields [OF assms] Let_def name
    by (auto simp: in_report_def Let_def len)
qed

text \<open>An incomplete event at the end of a buffer.\<close>

definition in_tail :: "bytes \<Rightarrow> bool" where
  "in_tail s \<longleftrightarrow> s = [] \<or> (\<exists>e. in_ok e \<and> strict_prefix s (in_bytes e))"

lemma decode_inotify_tail:
  assumes "in_tail s"
  shows "decode_inotify wdToPath (pre @ s) (length pre) = []"
proof (cases "length s < 16")
  case True
  then show ?thesis by (subst decode_inotify.simps) (simp add: SizeofInotifyEvent_def)
next
  case False
  then obtain e where e: "in_ok e" "strict_prefix s (in_bytes e)" using assms by (auto simp: in_tail_def)
  then obtain r where r: "in_bytes e = s @ r" "r \<noteq> []" by (auto simp: strict_prefix_def prefix_def)
  have "bslice 12 4 s = bslice 12 4 (in_bytes e @ [])" using False by (simp add: r bslice_def)
  then have "unat (le_word (bslice 12 4 s) :: u32) = in_len e" using in_fields(4) [OF e(1)] by metis
  moreover have "length s < 16 + in_len e" using arg_cong [OF r(1), of length] r(2) by (simp add: length_in_bytes)
  ultimately show ?thesis
    by (subst decode_inotify.simps) (simp add: SizeofInotifyEvent_def bslice_shift)
qed

lemma decode_inotify_run:
  assumes "list_all in_ok es" "in_tail s"
  shows "decode_inotify wdToPath (pre @ concat (map in_bytes es) @ s) (length pre) =
    map (in_report wdToPath) es"
  using assms(1)
proof (induction es arbitrary: pre)
  case Nil
  then show ?case using decode_inotify_tail [OF assms(2)] by simp
next
  case (Cons e es)
  have ok: "in_ok e" using Cons.prems by simp
  let ?rest = "concat (map in_bytes es) @ s"
  have split: "pre @ concat (map in_bytes (e # es)) @ s = pre @ in_bytes e @ ?rest" by simp
  have "bslice (length pre + 12) 4 (pre @ in_bytes e @ ?rest) = bslice 12 4 (in_bytes e @ ?rest)"
    by (rule bslice_shift)
  then have len: "unat (le_word (bslice (length pre + 12) 4 (pre @ in_bytes e @ ?rest)) :: u32) = in_len e"
    using in_fields(4) [OF ok] by metis
  have IH: "decode_inotify wdToPath (pre @ in_bytes e @ ?rest) (length pre + 16 + in_len e) =
      map (in_report wdToPath) es"
    using Cons.IH [of "pre @ in_bytes e"] Cons.prems
    by (simp add: length_in_bytes add.assoc)
  show ?case unfolding split
    by (subst decode_inotify.simps)
      (simp only: SizeofInotifyEvent_def Let_def len IH inotify_event_in_bytes [OF ok] length_append
        length_in_bytes list.map, simp)
qed


section \<open>Names below a watched directory\<close>

lemma split_at_append: "p d \<Longrightarrow> split_at p (xs @ d # ys) = split_at p xs @ split_at p ys"
proof (induction xs)
  case (Cons x xs)
  then show ?case using split_at_ne [of p xs] by (cases "split_at p xs") auto
qed simp

lemma join_slash_snoc: "ps \<noteq> [] \<Longrightarrow> join_slash (ps @ [p]) = join_slash ps @ ''/'' @ p"
  by (induction ps rule: join_slash.induct) simp_all

definition plain_name :: "string \<Rightarrow> bool" where
  "plain_name n \<longleftrightarrow> CHR ''/'' \<notin> set n \<and> n \<notin> {[], ''.'', ''..''}"

definition clean_dir :: "string \<Rightarrow> bool" where
  "clean_dir p \<longleftrightarrow> prefix ''/'' p \<and> p \<noteq> ''/'' \<and> filepath_Clean p = p"

lemma filepath_Join_plain:
  assumes "clean_dir p" "plain_name n"
  shows "filepath_Join p n = p @ ''/'' @ n"
proof -
  have p: "prefix ''/'' p" "CHR ''/'' # join_slash (rev (clean_stack p)) = p" "p \<noteq> ''/''"
    using assms(1) by (auto simp: clean_dir_def filepath_Clean_def)
  then have ne: "clean_stack p \<noteq> []" by auto
  have "\<forall>c \<in> set n. c \<noteq> CHR ''/''" using assms(2) by (auto simp: plain_name_def)
  then have "split_at (\<lambda>c. c = CHR ''/'') (p @ CHR ''/'' # n) = split_at (\<lambda>c. c = CHR ''/'') p @ [n]"
    by (simp add: split_at_append split_at_none)
  moreover have rooted: "prefix ''/'' (p @ CHR ''/'' # n)" using p(1) by (cases p) auto
  ultimately have "clean_stack (p @ CHR ''/'' # n) = n # clean_stack p"
    using assms(2) p(1) by (simp add: clean_stack_def clean_step_def plain_name_def)
  then have "filepath_Clean (p @ CHR ''/'' # n) = CHR ''/'' # join_slash (rev (clean_stack p) @ [n])"
    using rooted by (simp add: filepath_Clean_def)
  then show ?thesis using ne p(2) join_slash_snoc [of "rev (clean_stack p)" n] p(1,3)
    by (cases p) (auto simp: filepath_Join_def)
qed

lemma watch_paths_last:
  "watch_paths add_watch ps wd = (case filter (\<lambda>p. add_watch p = Some wd) (rev ps) of [] \<Rightarrow> None | p # _ \<Rightarrow> Some p)"
proof (induction ps rule: rev_induct)
  case (snoc p ps)
  then show ?case by (cases "add_watch p") (auto simp: watch_paths_def)
qed (simp add: watch_paths_def)

lemma unique_fold:
  assumes "foldl (unique_step ex) (seen, out) ps = (seen', out')" "seen = set out" "distinct out"
    "\<forall>p \<in> set out. ex p"
  shows "seen' = set out' \<and> distinct out' \<and>
    set out' = set out \<union> {p. p \<in> TrimSpace ` set ps \<and> p \<noteq> [] \<and> ex p}"
  using assms
proof (induction ps arbitrary: seen out)
  case (Cons p ps)
  obtain s1 o1 where step: "unique_step ex (seen, out) p = (s1, o1)" by fastforce
  have "s1 = set o1" "distinct o1" "\<forall>q \<in> set o1. ex q" and
    o1: "set o1 = set out \<union> {q. q = TrimSpace p \<and> q \<noteq> [] \<and> ex q}"
    using step Cons.prems(2-4) by (auto simp: unique_step_def Let_def split: if_splits)
  moreover have "foldl (unique_step ex) (s1, o1) ps = (seen', out')" using Cons.prems(1) step by simp
  ultimately have "seen' = set out' \<and> distinct out' \<and>
      set out' = set o1 \<union> {p. p \<in> TrimSpace ` set ps \<and> p \<noteq> [] \<and> ex p}"
    by (intro Cons.IH)
  then show ?case unfolding o1 by (simp only: set_simps image_insert) blast
qed simp

lemma uniqueExisting_set:
  "distinct (uniqueExisting ex ps)" "set (uniqueExisting ex ps) = {p. p \<in> TrimSpace ` set ps \<and> p \<noteq> [] \<and> ex p}"
proof -
  obtain seen out where f: "foldl (unique_step ex) ({}, []) ps = (seen, out)" by fastforce
  from unique_fold [OF f] show "distinct (uniqueExisting ex ps)"
    "set (uniqueExisting ex ps) = {p. p \<in> TrimSpace ` set ps \<and> p \<noteq> [] \<and> ex p}"
    by (simp_all add: uniqueExisting_def f)
qed

lemma audit_watches_Inr:
  assumes "audit_watches ex add_watch sensitive ps = Inr w"
  shows "w = watch_paths add_watch (uniqueExisting ex (if sensitive then ps @ sensitivePaths else ps))"
proof -
  have "w = x" if "(if P then Inl a else if Q then Inl b else Inr x) = Inr w" for P Q a b x
    using that by (simp split: if_split_asm)
  from this [OF assms [unfolded audit_watches_def Let_def]] show ?thesis .
qed

section \<open>Properties\<close>

lemma readInotify_batches:
  assumes "list_all (\<lambda>(es, tail). es \<noteq> [] \<and> list_all in_ok es \<and> in_tail tail) batches"
  shows "readInotify w (map (\<lambda>(es, tail). Some (concat (map in_bytes es) @ tail)) batches) =
      map (in_report w) (concat (map fst batches))"
  using assms
proof (induction batches)
  case (Cons b bs)
  obtain es tail where b: "b = (es, tail)" by (cases b)
  then have es: "es \<noteq> []" "list_all in_ok es" "in_tail tail" using Cons.prems by auto
  have "in_bytes e \<noteq> []" for e using length_in_bytes [of e] by auto
  then have ne: "concat (map in_bytes es) @ tail \<noteq> []" using es(1) by (cases es) simp_all
  have dec: "decodeInotifyBatch w (concat (map in_bytes es) @ tail) = map (in_report w) es"
    using decode_inotify_run [OF es(2,3), of w "[]"] by (simp add: decodeInotifyBatch_def)
  have "readInotify w (map (\<lambda>(es, tail). Some (concat (map in_bytes es) @ tail)) bs) =
      map (in_report w) (concat (map fst bs))" using Cons by simp
  then show ?case
    by (simp only: b list.map prod.case readInotify.simps dec ne if_False concat.simps fst_conv map_append)
qed simp

lemma watched_descriptor:
  assumes "p \<in> set ps" "add_watch p = Some wd" "\<forall>q. add_watch q = Some wd \<longrightarrow> q = p"
  shows "watch_paths add_watch ps wd = Some p"
proof (cases "filter (\<lambda>q. add_watch q = Some wd) (rev ps)")
  case Nil
  have "p \<in> set (filter (\<lambda>q. add_watch q = Some wd) (rev ps))" using assms(1,2) by simp
  then show ?thesis using Nil by simp
next
  case (Cons q qs)
  then have "q \<in> set (filter (\<lambda>q. add_watch q = Some wd) (rev ps))" by simp
  then have "q = p" using assms(3) by simp
  then show ?thesis unfolding watch_paths_last using Cons by simp
qed

lemma in_report_path:
  fixes e :: inotify_record
  assumes "w (In_wd e) = Some p" "clean_dir p" "plain_name (bytes_str (In_name e))"
  shows "Au_Path (in_report w e) = p @ ''/'' @ bytes_str (In_name e)"
proof -
  have "In_name e \<noteq> []" using assms(3) by (auto simp: plain_name_def bytes_str_def)
  then have "Au_Path (in_report w e) = filepath_Join p (bytes_str (In_name e))"
    by (simp add: in_report_def assms(1) Let_def)
  then show ?thesis unfolding filepath_Join_plain [OF assms(2,3)] .
qed

text \<open>C36: the audit log is the log of the kernel. Whatever inotify writes, split into reads in any way
  that leaves at most an incomplete event at the end of each, comes out as one event per record, in
  order, with its mask, cookie and operation; and an event with a plain name in a watched clean
  directory whose descriptor no other watched path shares is attributed to that directory and name.\<close>

theorem audit_log_complete:
  assumes "audit_watches ex add_watch sensitive ps = Inr w"
    and "list_all (\<lambda>(es, tail). es \<noteq> [] \<and> list_all in_ok es \<and> in_tail tail) batches"
  shows "readInotify w (map (\<lambda>(es, tail). Some (concat (map in_bytes es) @ tail)) batches) =
      map (in_report w) (concat (map fst batches)) \<and>
    (\<forall>p e. p \<in> TrimSpace ` set (if sensitive then ps @ sensitivePaths else ps) \<longrightarrow> ex p \<longrightarrow> clean_dir p \<longrightarrow>
      add_watch p = Some (In_wd e) \<longrightarrow> (\<forall>q. add_watch q = Some (In_wd e) \<longrightarrow> q = p) \<longrightarrow>
      plain_name (bytes_str (In_name e)) \<longrightarrow> Au_Path (in_report w e) = p @ ''/'' @ bytes_str (In_name e))"
proof (intro conjI allI impI)
  show "readInotify w (map (\<lambda>(es, tail). Some (concat (map in_bytes es) @ tail)) batches) =
      map (in_report w) (concat (map fst batches))"
    by (rule readInotify_batches [OF assms(2)])
  fix p and e :: inotify_record
  assume p: "p \<in> TrimSpace ` set (if sensitive then ps @ sensitivePaths else ps)" "ex p" "clean_dir p"
    "add_watch p = Some (In_wd e)" "\<forall>q. add_watch q = Some (In_wd e) \<longrightarrow> q = p"
    "plain_name (bytes_str (In_name e))"
  have "p \<noteq> []" using p(3) by (auto simp: clean_dir_def)
  then have "p \<in> set (uniqueExisting ex (if sensitive then ps @ sensitivePaths else ps))"
    using p(1,2) unfolding uniqueExisting_set(2) by blast
  then have "w (In_wd e) = Some p"
    unfolding audit_watches_Inr [OF assms(1)] using p(4,5) by (rule watched_descriptor)
  then show "Au_Path (in_report w e) = p @ ''/'' @ bytes_str (In_name e)"
    using p(3,6) by (rule in_report_path)
qed

text \<open>A file is opened in \<open>/root/.ssh\<close>.\<close>

definition demo_dir :: string where "demo_dir = ''/root/.ssh''"

definition demo_add :: "string \<Rightarrow> u32 option" where
  "demo_add p = (if p = demo_dir then Some 1 else None)"

definition demo_open :: inotify_record where
  "demo_open = \<lparr>In_wd = 1, In_mask = 0x20, In_cookie = 0, In_name = [97, 98], In_pad = 14\<rparr>"

lemma demo_audit:
  "TrimSpace demo_dir = demo_dir" "clean_dir demo_dir" "bytes_str (In_name demo_open) = ''ab''"
  "plain_name ''ab''" "demo_dir \<noteq> []"
  by code_simp+

lemma demo_watch:
  "audit_watches (\<lambda>_. True) demo_add False [demo_dir] = Inr (watch_paths demo_add [demo_dir])"
  by (simp add: audit_watches_def uniqueExisting_def unique_step_def demo_audit demo_add_def)

lemma demo_batch:
  "list_all (\<lambda>(es, tail). es \<noteq> [] \<and> list_all in_ok es \<and> in_tail tail) [([demo_open], [])]"
  by (simp add: in_ok_def in_len_def in_tail_def demo_open_def)

lemma demo_wd:
  "demo_dir \<in> TrimSpace ` set (if False then [demo_dir] @ sensitivePaths else [demo_dir])"
  "demo_add demo_dir = Some (In_wd demo_open)" "\<forall>q. demo_add q = Some (In_wd demo_open) \<longrightarrow> q = demo_dir"
  "plain_name (bytes_str (In_name demo_open))"
  by (simp_all only: demo_audit, simp_all add: demo_audit demo_add_def demo_open_def)

theorem audit_log_complete_witness:
  "\<exists>w. audit_watches (\<lambda>_. True) demo_add False [demo_dir] = Inr w \<and>
     map Au_Path (readInotify w [Some (in_bytes demo_open)]) = [demo_dir @ ''/'' @ ''ab'']"
proof -
  let ?w = "watch_paths demo_add [demo_dir]"
  note log = audit_log_complete [OF demo_watch demo_batch]
  have "Au_Path (in_report ?w demo_open) = demo_dir @ ''/'' @ bytes_str (In_name demo_open)"
    using log [THEN conjunct2, THEN spec [of _ demo_dir], THEN spec [of _ demo_open]] demo_wd demo_audit(2)
    by blast
  moreover have "readInotify ?w [Some (in_bytes demo_open)] = [in_report ?w demo_open]"
    using log [THEN conjunct1] by simp
  ultimately show ?thesis using demo_watch demo_audit(3) by (metis list.map(1,2))
qed

end
