(* ===== verification/HashElems.thy ===== *)
theory HashElems
  imports BpfRuntime "HOL-Library.Multiset"
begin

text \<open>
  The elements of a \<open>BPF_MAP_TYPE_HASH\<close>. \<open>bpf_map_lookup_elem\<close> returns a pointer to the value inside
  the map, which the program reads later; meanwhile another CPU can delete the entry and store another
  one in the same element. \<open>bpf_hash_elems\<close> is what is documented of such pointers, and \<open>khash_elems\<close>
  a concrete map of preallocated elements that are reused last in, first out.
\<close>

section \<open>Pointers into a map\<close>

record ('k, 'v, 'm, 'p) elem_ops =
  elem_ptr :: "'m \<Rightarrow> 'k \<Rightarrow> 'p option"
  elem_read :: "'m \<Rightarrow> 'p \<Rightarrow> 'v"

text \<open>A pointer found reads as the value of the key. Operations on other keys leave a bound element where
  it is. The memory of an element stays readable after a delete; an update writes at most the value it
  stores, into an element of its choice.\<close>

locale bpf_hash_elems = bpf_hash ops max_entries inv
  for ops :: "('k, 'v, 'm) hash_ops" and max_entries :: nat and inv :: "'m \<Rightarrow> bool" +
  fixes el :: "('k, 'v, 'm, 'p) elem_ops"
  assumes read_ptr: "inv m \<Longrightarrow>
      map_lookup_elem ops m k = map_option (elem_read el m) (elem_ptr el m k)"
    and ptr_update_other: "inv m \<Longrightarrow> k' \<noteq> k \<Longrightarrow> elem_ptr el (map_update_elem ops m k v) k' = elem_ptr el m k'"
    and ptr_delete_other: "inv m \<Longrightarrow> k' \<noteq> k \<Longrightarrow> elem_ptr el (map_delete_elem ops m k) k' = elem_ptr el m k'"
    and read_update: "inv m \<Longrightarrow> elem_read el (map_update_elem ops m k v) p \<in> {elem_read el m p, v}"
    and read_delete: "inv m \<Longrightarrow> elem_read el (map_delete_elem ops m k) p = elem_read el m p"
begin

lemma ptr_lookup:
  "inv m \<Longrightarrow> elem_ptr el m k = Some p \<Longrightarrow> map_lookup_elem ops m k = Some (elem_read el m p)"
  by (simp add: read_ptr)

lemma ptr_None: "inv m \<Longrightarrow> elem_ptr el m k = None \<longleftrightarrow> map_lookup_elem ops m k = None"
  by (simp add: read_ptr)

end

section \<open>A concrete map\<close>

text \<open>The addresses from \<open>ke_next\<close> on have never been used.\<close>

record ('k, 'v) khash_elems =
  ke_index :: "('k \<times> nat) list"
  ke_vals :: "nat \<Rightarrow> 'v"
  ke_free :: "nat list"
  ke_next :: nat

definition ke_ptr :: "('k, 'v) khash_elems \<Rightarrow> 'k \<Rightarrow> nat option" where
  "ke_ptr m k = map_of (ke_index m) k"

definition ke_release :: "('k, 'v) khash_elems \<Rightarrow> 'k \<Rightarrow> ('k, 'v) khash_elems" where
  "ke_release m k =
     (case ke_ptr m k of
        None \<Rightarrow> m
      | Some a \<Rightarrow> m\<lparr>ke_index := filter (\<lambda>e. fst e \<noteq> k) (ke_index m), ke_free := a # ke_free m\<rparr>)"

text \<open>A stored value always gets a fresh element; the old one of the key is released afterwards.\<close>

definition ke_alloc :: "('k, 'v) khash_elems \<Rightarrow> nat \<times> ('k, 'v) khash_elems" where
  "ke_alloc m =
     (case ke_free m of
        [] \<Rightarrow> (ke_next m, m\<lparr>ke_next := ke_next m + 1\<rparr>)
      | a # as \<Rightarrow> (a, m\<lparr>ke_free := as\<rparr>))"

definition ke_update :: "nat \<Rightarrow> ('k, 'v) khash_elems \<Rightarrow> 'k \<Rightarrow> 'v \<Rightarrow> ('k, 'v) khash_elems" where
  "ke_update cap m k v =
     (if ke_ptr m k \<noteq> None \<or> length (ke_index m) < cap
      then let (a, m) = ke_alloc m; m = ke_release m k
        in m\<lparr>ke_index := (k, a) # ke_index m, ke_vals := (ke_vals m)(a := v)\<rparr>
      else m)"

definition khash_elems :: "nat \<Rightarrow> ('k, 'v, ('k, 'v) khash_elems) hash_ops" where
  "khash_elems cap =
     \<lparr>map_lookup_elem = (\<lambda>m k. map_option (ke_vals m) (ke_ptr m k)),
      map_update_elem = ke_update cap, map_delete_elem = ke_release\<rparr>"

definition ke_ops :: "('k, 'v, ('k, 'v) khash_elems, nat) elem_ops" where
  "ke_ops = \<lparr>elem_ptr = ke_ptr, elem_read = ke_vals\<rparr>"

definition ke_empty :: "(u64, u64) khash_elems" where
  "ke_empty = \<lparr>ke_index = [], ke_vals = (\<lambda>_. 0), ke_free = [], ke_next = 0\<rparr>"

definition ke_inv :: "nat \<Rightarrow> ('k, 'v) khash_elems \<Rightarrow> bool" where
  "ke_inv cap m \<longleftrightarrow> distinct (map fst (ke_index m)) \<and> distinct (map snd (ke_index m) @ ke_free m) \<and>
     length (ke_index m) \<le> cap \<and> (\<forall>a \<in> set (map snd (ke_index m) @ ke_free m). a < ke_next m)"

lemma ke_ptr_release: "ke_ptr (ke_release m k) = (ke_ptr m)(k := None)"
  by (auto simp: ke_release_def ke_ptr_def [abs_def] map_of_filter_key split: option.splits)

lemma ke_vals_release [simp]: "ke_vals (ke_release m k) = ke_vals m"
  by (simp add: ke_release_def split: option.splits)

lemma ke_alloc_facts:
  assumes "ke_inv cap m" "ke_alloc m = (a, m')"
  shows "ke_inv cap m'" "ke_index m' = ke_index m" "ke_vals m' = ke_vals m"
    "a \<notin> set (map snd (ke_index m) @ ke_free m')" "a < ke_next m'"
proof -
  show "ke_index m' = ke_index m" "ke_vals m' = ke_vals m"
    using assms(2) by (auto simp: ke_alloc_def split: list.splits)
  have "ke_inv cap m' \<and> a \<notin> set (map snd (ke_index m) @ ke_free m') \<and> a < ke_next m'"
  proof (cases "ke_free m")
    case Nil
    with assms(2) have "a = ke_next m" "m' = m\<lparr>ke_next := ke_next m + 1\<rparr>"
      by (auto simp: ke_alloc_def)
    with Nil assms(1) show ?thesis by (auto simp: ke_inv_def less_SucI)
  next
    case (Cons b bs)
    with assms(2) have "a = b" "m' = m\<lparr>ke_free := bs\<rparr>" by (auto simp: ke_alloc_def)
    with Cons assms(1) show ?thesis by (simp add: ke_inv_def)
  qed
  then show "ke_inv cap m'" "a \<notin> set (map snd (ke_index m) @ ke_free m')" "a < ke_next m'" by simp_all
qed

lemma ke_index_release: "ke_index (ke_release m k) = filter (\<lambda>e. fst e \<noteq> k) (ke_index m)"
proof (cases "ke_ptr m k")
  case None
  then have "\<forall>e \<in> set (ke_index m). fst e \<noteq> k" by (force simp: ke_ptr_def map_of_eq_None_iff)
  with None show ?thesis by (simp add: ke_release_def filter_id_conv)
qed (simp add: ke_release_def)

lemma ke_addrs_release:
  assumes "distinct (map fst (ke_index m))"
  shows "mset (map snd (ke_index (ke_release m k)) @ ke_free (ke_release m k)) =
    mset (map snd (ke_index m) @ ke_free m)"
proof (cases "ke_ptr m k")
  case None
  then show ?thesis by (simp add: ke_release_def)
next
  case (Some a)
  have "mset (map snd xs) = add_mset a (mset (map snd (filter (\<lambda>e. fst e \<noteq> k) xs)))"
    if "distinct (map fst xs)" "map_of xs k = Some a" for xs
    using that
  proof (induction xs)
    case (Cons e xs)
    show ?case
    proof (cases "fst e = k")
      case True
      with Cons.prems have "\<forall>x \<in> set xs. fst x \<noteq> k" by (auto simp: image_iff)
      then have "filter (\<lambda>e. fst e \<noteq> k) xs = xs" by (simp add: filter_id_conv)
      with True Cons.prems show ?thesis by (cases e) simp
    next
      case False
      with Cons show ?thesis by (cases e) simp
    qed
  qed simp
  from this [OF assms Some [unfolded ke_ptr_def]] Some show ?thesis
    by (simp add: ke_release_def)
qed

lemma ke_release_inv: "ke_inv cap m \<Longrightarrow> ke_inv cap (ke_release m k)"
proof -
  assume inv: "ke_inv cap m"
  then have m: "mset (map snd (ke_index (ke_release m k)) @ ke_free (ke_release m k)) =
      mset (map snd (ke_index m) @ ke_free m)"
    by (intro ke_addrs_release) (simp add: ke_inv_def)
  have "ke_next (ke_release m k) = ke_next m" by (simp add: ke_release_def split: option.splits)
  moreover have "length (filter (\<lambda>e. fst e \<noteq> k) (ke_index m)) \<le> cap"
    using inv by (meson ke_inv_def le_trans length_filter_le)
  ultimately show ?thesis
    using inv mset_eq_imp_distinct_iff [OF m] mset_eq_setD [OF m]
    unfolding ke_inv_def by (simp add: ke_index_release distinct_map_fst_filter)
qed

lemma ke_update_eq:
  assumes "ke_inv cap m" "ke_ptr m k \<noteq> None \<or> length (ke_index m) < cap"
  obtains a m' where "ke_inv cap m'" "ke_index m' = filter (\<lambda>e. fst e \<noteq> k) (ke_index m)"
    "ke_vals m' = ke_vals m" "a \<notin> set (map snd (ke_index m) @ ke_free m')" "a < ke_next m'"
    "ke_update cap m k v = m'\<lparr>ke_index := (k, a) # ke_index m', ke_vals := (ke_vals m)(a := v)\<rparr>"
proof -
  obtain a m1 where al: "ke_alloc m = (a, m1)" by (cases "ke_alloc m")
  note facts = ke_alloc_facts [OF assms(1) al]
  have "mset (map snd (ke_index (ke_release m1 k)) @ ke_free (ke_release m1 k)) =
      mset (map snd (ke_index m1) @ ke_free m1)"
    using facts(1) by (intro ke_addrs_release) (simp add: ke_inv_def)
  from mset_eq_setD [OF this] have "a \<notin> set (map snd (ke_index m) @ ke_free (ke_release m1 k))"
    using facts(2,4) by auto
  moreover have "a < ke_next (ke_release m1 k)"
    using facts(5) by (simp add: ke_release_def split: option.splits)
  ultimately show thesis
    using assms(2) ke_release_inv [OF facts(1), of k] al facts(2,3)
    by (intro that [of "ke_release m1 k" a]) (simp_all add: ke_update_def ke_index_release)
qed

lemma ke_update_inv:
  assumes "ke_inv cap m"
  shows "ke_inv cap (ke_update cap m k v)"
proof (cases "ke_ptr m k \<noteq> None \<or> length (ke_index m) < cap")
  case True
  then obtain a m' where m': "ke_inv cap m'" "ke_index m' = filter (\<lambda>e. fst e \<noteq> k) (ke_index m)"
    "ke_vals m' = ke_vals m" "a \<notin> set (map snd (ke_index m) @ ke_free m')" "a < ke_next m'"
    "ke_update cap m k v = m'\<lparr>ke_index := (k, a) # ke_index m', ke_vals := (ke_vals m)(a := v)\<rparr>"
    by (rule ke_update_eq [OF assms])
  have "length (ke_index m') < cap"
  proof (cases "ke_ptr m k")
    case None
    with True m'(2) show ?thesis by (simp add: le_less_trans [OF length_filter_le])
  next
    case (Some b)
    then have "k \<in> fst ` set (ke_index m)"
      by (metis ke_ptr_def map_of_eq_None_iff option.distinct(1))
    with length_filter_key [of "ke_index m" k] assms m'(2) show ?thesis by (simp add: ke_inv_def)
  qed
  with m' show ?thesis by (auto simp: ke_inv_def)
next
  case False
  with assms show ?thesis by (simp add: ke_update_def)
qed

lemma ke_dom: "dom (ke_ptr m) = fst ` set (ke_index m)"
  by (simp add: ke_ptr_def [abs_def] dom_map_of_conv_image_fst)

lemma ke_ptr_update:
  assumes "ke_inv cap m"
  shows "k' \<noteq> k \<Longrightarrow> ke_ptr (ke_update cap m k v) k' = ke_ptr m k'"
    "map_option (ke_vals (ke_update cap m k v)) (ke_ptr (ke_update cap m k v) k') =
      bounded_upd cap (\<lambda>j. map_option (ke_vals m) (ke_ptr m j)) k v k'"
    "ke_vals (ke_update cap m k v) p \<in> {ke_vals m p, v}"
proof -
  have card: "card (dom (ke_ptr m)) = length (ke_index m)"
    using assms distinct_card [of "map fst (ke_index m)"] by (simp add: ke_dom ke_inv_def)
  have doms: "dom (\<lambda>j. map_option (ke_vals m) (ke_ptr m j)) = dom (ke_ptr m)" by auto
  have "(k' \<noteq> k \<longrightarrow> ke_ptr (ke_update cap m k v) k' = ke_ptr m k') \<and>
    map_option (ke_vals (ke_update cap m k v)) (ke_ptr (ke_update cap m k v) k') =
      bounded_upd cap (\<lambda>j. map_option (ke_vals m) (ke_ptr m j)) k v k' \<and>
    ke_vals (ke_update cap m k v) p \<in> {ke_vals m p, v}"
  proof (cases "ke_ptr m k \<noteq> None \<or> length (ke_index m) < cap")
    case True
    then obtain a m' where m': "ke_index m' = filter (\<lambda>e. fst e \<noteq> k) (ke_index m)"
      "a \<notin> set (map snd (ke_index m) @ ke_free m')"
      "ke_update cap m k v = m'\<lparr>ke_index := (k, a) # ke_index m', ke_vals := (ke_vals m)(a := v)\<rparr>"
      by (rule ke_update_eq [OF assms])
    have ptr: "ke_ptr (ke_update cap m k v) j = (if j = k then Some a else ke_ptr m j)" for j
      by (simp add: m' ke_ptr_def map_of_filter_key)
    have vals: "ke_vals (ke_update cap m k v) = (ke_vals m)(a := v)" by (simp add: m'(3))
    have "b \<noteq> a" if "ke_ptr m j = Some b" for j b
      using map_of_SomeD [OF that [unfolded ke_ptr_def]] m'(2) by force
    then have "map_option (ke_vals (ke_update cap m k v)) (ke_ptr m k') = map_option (ke_vals m) (ke_ptr m k')"
      by (cases "ke_ptr m k'") (simp_all add: vals)
    with True show ?thesis
      by (auto simp: ptr vals bounded_upd_def doms card domIff)
  next
    case False
    then have "ke_update cap m k v = m" by (simp add: ke_update_def)
    with False show ?thesis by (auto simp: bounded_upd_def doms card domIff)
  qed
  then show "k' \<noteq> k \<Longrightarrow> ke_ptr (ke_update cap m k v) k' = ke_ptr m k'"
    "map_option (ke_vals (ke_update cap m k v)) (ke_ptr (ke_update cap m k v) k') =
      bounded_upd cap (\<lambda>j. map_option (ke_vals m) (ke_ptr m j)) k v k'"
    "ke_vals (ke_update cap m k v) p \<in> {ke_vals m p, v}" by simp_all
qed

lemma ke_lookup_dom: "dom (map_lookup_elem (khash_elems cap) m) = fst ` set (ke_index m)"
  using ke_dom [of m] by (auto simp: khash_elems_def dom_def)

interpretation kel: bpf_hash_elems "khash_elems cap" cap "ke_inv cap" ke_ops for cap
proof unfold_locales
  fix m :: "('k, 'v) khash_elems" and k k' :: 'k and v :: 'v and p :: nat
  assume inv: "ke_inv cap m"
  show "finite (dom (map_lookup_elem (khash_elems cap) m))" by (simp add: ke_lookup_dom)
  show "card (dom (map_lookup_elem (khash_elems cap) m)) \<le> cap"
    using card_image_le [of "set (ke_index m)" fst] card_length [of "ke_index m"] inv
    by (simp add: ke_lookup_dom ke_inv_def)
  show "ke_inv cap (map_update_elem (khash_elems cap) m k v)"
    "ke_inv cap (map_delete_elem (khash_elems cap) m k)"
    using inv by (simp_all add: khash_elems_def ke_update_inv ke_release_inv)
  show "map_lookup_elem (khash_elems cap) (map_update_elem (khash_elems cap) m k v) =
      bounded_upd cap (map_lookup_elem (khash_elems cap) m) k v"
    using ke_ptr_update(2) [OF inv] by (simp add: khash_elems_def fun_eq_iff)
  show "map_lookup_elem (khash_elems cap) (map_delete_elem (khash_elems cap) m k) =
      (map_lookup_elem (khash_elems cap) m)(k := None)"
    by (auto simp: khash_elems_def fun_eq_iff ke_ptr_release)
  show "map_lookup_elem (khash_elems cap) m k = map_option (elem_read ke_ops m) (elem_ptr ke_ops m k)"
    by (simp add: khash_elems_def ke_ops_def)
  show "elem_ptr ke_ops (map_update_elem (khash_elems cap) m k v) k' = elem_ptr ke_ops m k'" if "k' \<noteq> k"
    using ke_ptr_update(1) [OF inv that] by (simp add: khash_elems_def ke_ops_def)
  show "elem_ptr ke_ops (map_delete_elem (khash_elems cap) m k) k' = elem_ptr ke_ops m k'" if "k' \<noteq> k"
    using that by (simp add: khash_elems_def ke_ops_def ke_ptr_release)
  show "elem_read ke_ops (map_update_elem (khash_elems cap) m k v) p \<in> {elem_read ke_ops m p, v}"
    using ke_ptr_update(3) [OF inv] by (simp add: khash_elems_def ke_ops_def)
  show "elem_read ke_ops (map_delete_elem (khash_elems cap) m k) p = elem_read ke_ops m p"
    by (simp add: khash_elems_def ke_ops_def)
qed

lemma ke_empty: "ke_inv cap ke_empty" "map_lookup_elem (khash_elems cap) ke_empty = Map.empty"
  by (simp_all add: ke_inv_def ke_empty_def khash_elems_def ke_ptr_def fun_eq_iff)

lemmas ke_eval = khash_elems_def ke_ops_def ke_empty_def ke_ptr_def ke_update_def ke_release_def ke_alloc_def

end
