(* ===== verification/TracerSmp.thy ===== *)
theory TracerSmp
  imports Tracker HashElems
begin

text \<open>
  The latency tracers on several CPUs. A finishing handler is split at its accesses to the map and
  the ring buffer: the lookup, which yields a pointer into the map, the read through that pointer, the
  delete, and the submission; between them the handlers of other CPUs run. Nothing keeps two CPUs from
  handling the same key, so the element a handler points to can be deleted and reused before it is
  read. The theory says what every interleaving still guarantees, and that the records of a
  key are those of a run of atomic handlers as long as no two handlers work on that key at a time,
  whatever happens to other keys.
\<close>

section \<open>Interleaved runs\<close>

text \<open>What a CPU is doing: nothing, or between the lookup that found an element and the read, between the
  read and the delete, or between the delete and the submission.\<close>

datatype ('i, 'p) cpu_phase = CpuIdle | CpuFound 'i 'p | CpuRead 'i u64 | CpuDeleted 'i u64

record ('s, 'i, 'p) smp_state =
  sm_prog :: 's
  sm_cpu :: "('i, 'p) cpu_phase list"

text \<open>A program in parts. An invocation that is not a finish runs as a whole.\<close>

record ('s, 'i, 'k, 'p) smp_parts =
  pt_key :: "'i \<Rightarrow> 'k"
  pt_finish :: "'i \<Rightarrow> bool"
  pt_step :: "'s \<Rightarrow> 'i \<Rightarrow> 's"
  pt_lookup :: "'i \<Rightarrow> 's \<Rightarrow> 'p option"
  pt_read :: "'p \<Rightarrow> 's \<Rightarrow> u64"
  pt_delete :: "'i \<Rightarrow> 's \<Rightarrow> 's"
  pt_submit :: "'i \<Rightarrow> u64 \<Rightarrow> 's \<Rightarrow> 's"

datatype 'i cpu_action = CpuRun nat 'i | CpuResume nat

definition smp_start :: "nat \<Rightarrow> 's \<Rightarrow> ('s, 'i, 'p) smp_state" where
  "smp_start cpus s = \<lparr>sm_prog = s, sm_cpu = replicate cpus CpuIdle\<rparr>"

text \<open>No CPU is between lookup and delete of a key.\<close>

primrec cpu_busy :: "('i, 'p) cpu_phase \<Rightarrow> 'i option" where
  "cpu_busy CpuIdle = None"
| "cpu_busy (CpuFound i p) = Some i"
| "cpu_busy (CpuRead i t) = Some i"
| "cpu_busy (CpuDeleted i t) = None"

definition key_free :: "('s, 'i, 'k, 'p) smp_parts \<Rightarrow> ('s, 'i, 'p) smp_state \<Rightarrow> 'k \<Rightarrow> bool" where
  "key_free P \<sigma> k \<longleftrightarrow> list_all (\<lambda>p. map_option (pt_key P) (cpu_busy p) \<noteq> Some k) (sm_cpu \<sigma>)"

text \<open>One step of one CPU, with the invocation that takes effect in it: a start at its update, a
  finish that finds nothing at its lookup, any other finish at its delete. A handler of a key
  that is \<open>excl\<close> waits until the key is free.\<close>

fun cpu_act ::
  "('s, 'i, 'k, 'p) smp_parts \<Rightarrow> ('k \<Rightarrow> bool) \<Rightarrow> ('s, 'i, 'p) smp_state \<Rightarrow> 'i cpu_action \<Rightarrow>
   (('s, 'i, 'p) smp_state \<times> 'i list) option" where
  "cpu_act P excl \<sigma> (CpuRun c i) =
     (if c < length (sm_cpu \<sigma>) \<and> sm_cpu \<sigma> ! c = CpuIdle \<and> (excl (pt_key P i) \<longrightarrow> key_free P \<sigma> (pt_key P i))
      then if \<not> pt_finish P i then Some (\<sigma>\<lparr>sm_prog := pt_step P (sm_prog \<sigma>) i\<rparr>, [i])
           else case pt_lookup P i (sm_prog \<sigma>) of
                  None \<Rightarrow> Some (\<sigma>, [i])
                | Some p \<Rightarrow> Some (\<sigma>\<lparr>sm_cpu := (sm_cpu \<sigma>)[c := CpuFound i p]\<rparr>, [])
      else None)"
| "cpu_act P excl \<sigma> (CpuResume c) =
     (if c < length (sm_cpu \<sigma>)
      then case sm_cpu \<sigma> ! c of
             CpuIdle \<Rightarrow> None
           | CpuFound i p \<Rightarrow> Some (\<sigma>\<lparr>sm_cpu := (sm_cpu \<sigma>)[c := CpuRead i (pt_read P p (sm_prog \<sigma>))]\<rparr>, [])
           | CpuRead i t \<Rightarrow> Some (\<sigma>\<lparr>sm_prog := pt_delete P i (sm_prog \<sigma>),
               sm_cpu := (sm_cpu \<sigma>)[c := CpuDeleted i t]\<rparr>, [i])
           | CpuDeleted i t \<Rightarrow> Some (\<sigma>\<lparr>sm_prog := pt_submit P i t (sm_prog \<sigma>),
               sm_cpu := (sm_cpu \<sigma>)[c := CpuIdle]\<rparr>, [])
      else None)"

text \<open>A schedule; the run and the invocations in the order they took effect.\<close>

fun cpu_sched ::
  "('s, 'i, 'k, 'p) smp_parts \<Rightarrow> ('k \<Rightarrow> bool) \<Rightarrow> ('s, 'i, 'p) smp_state \<Rightarrow> 'i cpu_action list \<Rightarrow>
   (('s, 'i, 'p) smp_state \<times> 'i list) option" where
  "cpu_sched P excl \<sigma> [] = Some (\<sigma>, [])"
| "cpu_sched P excl \<sigma> (a # as) =
     (case cpu_act P excl \<sigma> a of
        None \<Rightarrow> None
      | Some (\<sigma>', js) \<Rightarrow> map_option (\<lambda>(\<sigma>'', ks). (\<sigma>'', js @ ks)) (cpu_sched P excl \<sigma>' as))"

lemma cpu_sched_snoc:
  "cpu_sched P excl \<sigma> (as @ [a]) =
     (case cpu_sched P excl \<sigma> as of
        None \<Rightarrow> None
      | Some (\<sigma>', js) \<Rightarrow> map_option (\<lambda>(\<sigma>'', ks). (\<sigma>'', js @ ks)) (cpu_act P excl \<sigma>' a))"
  by (induction "as" arbitrary: \<sigma>)
    (auto simp: option.map_comp o_def case_prod_unfold split: option.splits)

definition all_idle :: "('s, 'i, 'p) smp_state \<Rightarrow> bool" where
  "all_idle \<sigma> \<longleftrightarrow> list_all (\<lambda>p. p = CpuIdle) (sm_cpu \<sigma>)"

section \<open>What every interleaving guarantees\<close>

text \<open>A start with that time took effect, on whatever key; a finish took effect after such a start.\<close>

definition started :: "('i \<Rightarrow> 'k tev option) \<Rightarrow> 'i list \<Rightarrow> u64 \<Rightarrow> bool" where
  "started ev L t \<longleftrightarrow> (\<exists>a \<in> set L. \<exists>k. ev a = Some (TStart k t))"

definition measured_in :: "('i \<Rightarrow> 'k tev option) \<Rightarrow> 'i list \<Rightarrow> 'i \<Rightarrow> u64 \<Rightarrow> bool" where
  "measured_in ev L b t \<longleftrightarrow>
     (\<exists>xs ys k. L = xs @ b # ys \<and> ev b = Some (TFinish k) \<and> started ev xs t)"

lemma started_app: "started ev L t \<Longrightarrow> started ev (L @ M) t"
  by (auto simp: started_def)

lemma measured_in_app: "measured_in ev L b t \<Longrightarrow> measured_in ev (L @ M) b t"
  unfolding measured_in_def by (metis append_Cons append_assoc)

lemma measured_in_snoc: "started ev L t \<Longrightarrow> ev b = Some (TFinish k) \<Longrightarrow> measured_in ev (L @ [b]) b t"
  unfolding measured_in_def by blast

text \<open>The records the CPUs owe after their deletes.\<close>

primrec cpu_owes :: "('i \<Rightarrow> u64 \<Rightarrow> 'e list) \<Rightarrow> ('i, 'p) cpu_phase \<Rightarrow> 'e list" where
  "cpu_owes rep CpuIdle = []"
| "cpu_owes rep (CpuFound i p) = []"
| "cpu_owes rep (CpuRead i t) = []"
| "cpu_owes rep (CpuDeleted i t) = rep i t"

definition smp_owed :: "('i \<Rightarrow> u64 \<Rightarrow> 'e list) \<Rightarrow> ('i, 'p) cpu_phase list \<Rightarrow> 'e multiset" where
  "smp_owed rep ps = (\<Sum>p \<leftarrow> ps. mset (cpu_owes rep p))"

lemma smp_owed_upd:
  "c < length ps \<Longrightarrow>
   smp_owed rep (ps[c := p]) + mset (cpu_owes rep (ps ! c)) = smp_owed rep ps + mset (cpu_owes rep p)"
  by (induction ps arbitrary: c) (auto simp: smp_owed_def nth_Cons' list_update_code split: nat.splits)

lemma smp_owed_idle: "list_all (\<lambda>p. p = CpuIdle) ps \<Longrightarrow> smp_owed rep ps = {#}"
  by (induction ps) (simp_all add: smp_owed_def)

section \<open>The parts of a tracker\<close>

locale smp_tracker = tracker_out ops max_entries inv step tbl ev out report
  + bpf_hash_elems ops max_entries inv el
  for ops :: "('k, u64, 'm) hash_ops" and max_entries :: nat and inv :: "'m \<Rightarrow> bool"
    and step :: "'s \<Rightarrow> 'i \<Rightarrow> 's" and tbl :: "'s \<Rightarrow> 'm" and ev :: "'i \<Rightarrow> 'k tev option"
    and out :: "'s \<Rightarrow> 'e list" and report :: "'i \<Rightarrow> u64 \<Rightarrow> 'e list"
    and el :: "('k, u64, 'm, 'p) elem_ops" +
  fixes P :: "('s, 'i, 'k, 'p) smp_parts"
    and rec_key :: "'e \<Rightarrow> 'k"
  assumes part_step: "pt_step P = step"
    and part_finish: "pt_finish P i \<longleftrightarrow> ev i = Some (TFinish (pt_key P i))"
    and part_key: "ev i = Some e \<Longrightarrow> tev_key e = pt_key P i"
    and part_lookup: "pt_finish P i \<Longrightarrow> pt_lookup P i s = elem_ptr el (tbl s) (pt_key P i)"
    and part_read: "pt_read P p s = elem_read el (tbl s) p"
    and part_delete: "pt_finish P i \<Longrightarrow> tbl (pt_delete P i s) = map_delete_elem ops (tbl s) (pt_key P i)"
      "out (pt_delete P i s) = out s"
    and report_key: "pt_finish P i \<Longrightarrow> r \<in> set (report i t) \<Longrightarrow> rec_key r = pt_key P i"
    and part_submit: "tbl (pt_submit P i t s) = tbl s" "out (pt_submit P i t s) = out s @ report i t"
begin

lemma not_finish: "\<not> pt_finish P i \<Longrightarrow> ev i = None \<or> (\<exists>t. ev i = Some (TStart (pt_key P i) t))"
  using part_key [of i] part_finish [of i] by (cases "ev i"; cases "the (ev i)") auto

lemma not_finish_out: "\<not> pt_finish P i \<Longrightarrow> out (step s i) = out s"
  using not_finish [of i] by (auto simp: out_step measured_def)

lemma not_finish_read:
  assumes "inv (tbl s)" "\<not> pt_finish P i"
  shows "elem_read el (tbl (step s i)) p = elem_read el (tbl s) p \<or>
    started ev [i] (elem_read el (tbl (step s i)) p)"
  using not_finish [OF assms(2)] read_update [OF assms(1), of "pt_key P i"]
  by (fastforce simp: tbl_none tbl_start started_def)

text \<open>Every value a CPU holds or can still read was stored by a start that took effect.\<close>

definition phase_ok :: "'m \<Rightarrow> 'i list \<Rightarrow> ('i, 'p) cpu_phase \<Rightarrow> bool" where
  "phase_ok m L x = (case x of
     CpuIdle \<Rightarrow> True
   | CpuFound i p \<Rightarrow> pt_finish P i \<and> started ev L (elem_read el m p)
   | CpuRead i t \<Rightarrow> pt_finish P i \<and> started ev L t
   | CpuDeleted i t \<Rightarrow> measured_in ev L i t)"

definition smp_ok :: "'i list \<Rightarrow> ('s, 'i, 'p) smp_state \<Rightarrow> bool" where
  "smp_ok L \<sigma> \<longleftrightarrow>
     inv (tbl (sm_prog \<sigma>)) \<and>
     (\<forall>k t. map_lookup_elem ops (tbl (sm_prog \<sigma>)) k = Some t \<longrightarrow> started ev L t) \<and>
     (\<forall>x \<in> set (sm_cpu \<sigma>). phase_ok (tbl (sm_prog \<sigma>)) L x) \<and>
     (\<forall>e \<in> set (out (sm_prog \<sigma>)). \<exists>b t. measured_in ev L b t \<and> e \<in> set (report b t))"

lemma phase_ok_app: "phase_ok m L x \<Longrightarrow> phase_ok m (L @ M) x"
  by (cases x) (auto simp: phase_ok_def intro: started_app measured_in_app)

lemma smp_ok_app: "smp_ok L \<sigma> \<Longrightarrow> smp_ok (L @ M) \<sigma>"
  unfolding smp_ok_def by (blast intro: started_app measured_in_app phase_ok_app)

lemma smp_ok_cpu:
  assumes "smp_ok L \<sigma>" "phase_ok (tbl (sm_prog \<sigma>)) L x"
  shows "smp_ok L (\<sigma>\<lparr>sm_cpu := (sm_cpu \<sigma>)[c := x]\<rparr>)"
  using assms set_update_subset_insert [of "sm_cpu \<sigma>" c x] by (auto simp: smp_ok_def)

lemma smp_ok_step:
  assumes ok: "smp_ok L \<sigma>" and nf: "\<not> pt_finish P i"
  shows "smp_ok (L @ [i]) (\<sigma>\<lparr>sm_prog := step (sm_prog \<sigma>) i\<rparr>)"
proof -
  let ?m = "tbl (sm_prog \<sigma>)" and ?m' = "tbl (step (sm_prog \<sigma>) i)"
  have inv: "inv ?m" using ok by (simp add: smp_ok_def)
  have tab: "map_lookup_elem ops ?m' = pend_opt max_entries (map_lookup_elem ops ?m) (ev i)"
    and inv': "inv ?m'" using step_table [OF inv] by simp_all
  have "started ev (L @ [i]) t"
    if "pend_opt max_entries (map_lookup_elem ops ?m) (ev i) k = Some t" for k t
  proof (cases "map_lookup_elem ops ?m k = Some t")
    case True
    then show ?thesis using ok by (auto simp: smp_ok_def intro: started_app)
  next
    case False
    with that have "ev i = Some (TStart k t)"
      by (auto simp: pend_opt_def split: option.splits dest: pend_step_Some)
    then show ?thesis by (auto simp: started_def)
  qed
  moreover have "phase_ok ?m' (L @ [i]) x" if "x \<in> set (sm_cpu \<sigma>)" for x
  proof -
    have "phase_ok ?m L x" using ok that by (simp add: smp_ok_def)
    then show ?thesis
    proof (cases x)
      case (CpuFound j p)
      with \<open>phase_ok ?m L x\<close> have "pt_finish P j" "started ev L (elem_read el ?m p)"
        by (simp_all add: phase_ok_def)
      with not_finish_read [OF inv nf, of p] CpuFound show ?thesis
        by (auto simp: phase_ok_def started_def)
    qed (auto simp: phase_ok_def intro: started_app measured_in_app)
  qed
  moreover have "\<exists>b t. measured_in ev (L @ [i]) b t \<and> e \<in> set (report b t)" if "e \<in> set (out (sm_prog \<sigma>))" for e
    using ok that unfolding smp_ok_def by (blast intro: measured_in_app)
  ultimately show ?thesis using tab inv' not_finish_out [OF nf] by (simp add: smp_ok_def)
qed

lemma smp_ok_delete:
  assumes ok: "smp_ok L \<sigma>" and f: "pt_finish P i"
  shows "smp_ok L (\<sigma>\<lparr>sm_prog := pt_delete P i (sm_prog \<sigma>)\<rparr>)"
  using ok part_delete(1) [OF f]
  by (auto simp: smp_ok_def part_delete(2) inv_delete lookup_delete read_delete phase_ok_def
      split: if_splits cpu_phase.splits)

lemma smp_ok_submit:
  "smp_ok L \<sigma> \<Longrightarrow> measured_in ev L i t \<Longrightarrow> smp_ok L (\<sigma>\<lparr>sm_prog := pt_submit P i t (sm_prog \<sigma>)\<rparr>)"
  by (auto simp: smp_ok_def part_submit)

lemma smp_ok_act:
  assumes ok: "smp_ok L \<sigma>" and act: "cpu_act P excl \<sigma> a = Some (\<sigma>', js)"
  shows "smp_ok (L @ js) \<sigma>'"
proof (cases a)
  case (CpuRun c i)
  show ?thesis
  proof (cases "pt_finish P i")
    case False
    with act CpuRun smp_ok_step [OF ok False] show ?thesis by (auto simp: part_step split: if_splits)
  next
    case True
    have "phase_ok (tbl (sm_prog \<sigma>)) L (CpuFound i p)" if "pt_lookup P i (sm_prog \<sigma>) = Some p" for p
      using ok that True by (auto simp: phase_ok_def smp_ok_def part_lookup dest: ptr_lookup)
    with act CpuRun True smp_ok_cpu [OF ok] smp_ok_app [OF ok] show ?thesis
      by (auto split: if_splits option.splits)
  qed
next
  case (CpuResume c)
  with act have c: "c < length (sm_cpu \<sigma>)" by (simp split: if_splits)
  then have x: "phase_ok (tbl (sm_prog \<sigma>)) L (sm_cpu \<sigma> ! c)" using ok by (simp add: smp_ok_def)
  show ?thesis
  proof (cases "sm_cpu \<sigma> ! c")
    case CpuIdle
    with act CpuResume c show ?thesis by simp
  next
    case (CpuFound i p)
    with x have "phase_ok (tbl (sm_prog \<sigma>)) L (CpuRead i (pt_read P p (sm_prog \<sigma>)))"
      by (simp add: phase_ok_def part_read)
    from smp_ok_cpu [OF ok this, of c] show ?thesis using act CpuResume c CpuFound by auto
  next
    case (CpuRead i t)
    with x have f: "pt_finish P i" "started ev L t" by (simp_all add: phase_ok_def)
    then have "phase_ok m (L @ [i]) (CpuDeleted i t)" for m
      by (simp add: phase_ok_def part_finish measured_in_snoc)
    from smp_ok_cpu [OF smp_ok_app [OF smp_ok_delete [OF ok f(1)]] this, of c]
    show ?thesis using act CpuResume c CpuRead by auto
  next
    case (CpuDeleted i t)
    with x have "measured_in ev L i t" by (simp add: phase_ok_def)
    from smp_ok_cpu [OF smp_ok_submit [OF ok this], of CpuIdle c]
    show ?thesis using act CpuResume c CpuDeleted by (auto simp: phase_ok_def)
  qed
qed

lemma smp_ok_sched:
  assumes "inv (tbl s)" "map_lookup_elem ops (tbl s) = Map.empty" "out s = []"
  shows "cpu_sched P excl (smp_start n s) as = Some (\<sigma>, L) \<Longrightarrow> smp_ok L \<sigma>"
proof (induction "as" arbitrary: \<sigma> L rule: rev_induct)
  case Nil
  then show ?case using assms by (auto simp: smp_ok_def smp_start_def phase_ok_def)
next
  case (snoc a "as")
  then show ?case by (auto simp: cpu_sched_snoc split: option.splits intro: smp_ok_act)
qed

text \<open>Every record measures from a start to a later finish. In general the two need not be of one key.\<close>

lemma smp_origin:
  assumes "inv (tbl s)" "map_lookup_elem ops (tbl s) = Map.empty" "out s = []"
    and "cpu_sched P excl (smp_start n s) as = Some (\<sigma>, L)" "e \<in> set (out (sm_prog \<sigma>))"
  shows "\<exists>xs a ys b zs j k t. L = xs @ a # ys @ b # zs \<and> ev a = Some (TStart j t) \<and>
    ev b = Some (TFinish k) \<and> e \<in> set (report b t)"
proof -
  obtain b t where m: "measured_in ev L b t" and e: "e \<in> set (report b t)"
    using smp_ok_sched [OF assms(1-4)] assms(5) by (auto simp: smp_ok_def)
  then obtain us zs k where "L = us @ b # zs" "ev b = Some (TFinish k)" "started ev us t"
    by (auto simp: measured_in_def)
  moreover from this(3) obtain xs a ys j where "us = xs @ a # ys" "ev a = Some (TStart j t)"
    by (auto simp: started_def dest: split_list)
  ultimately show ?thesis using e by fastforce
qed

text \<open>The interleaved state follows the atomic run: the tables have the same contents. For a key that is
  \<open>excl\<close>, what a CPU has found or read is still bound to the key, and the CPU is one delete ahead of its
  submission.\<close>

definition phase_holds :: "('k \<Rightarrow> bool) \<Rightarrow> 'm \<Rightarrow> ('i, 'p) cpu_phase \<Rightarrow> bool" where
  "phase_holds excl m x = (case x of
     CpuFound i p \<Rightarrow> pt_finish P i \<and> (excl (pt_key P i) \<longrightarrow> elem_ptr el m (pt_key P i) = Some p)
   | CpuRead i t \<Rightarrow> pt_finish P i \<and> (excl (pt_key P i) \<longrightarrow> map_lookup_elem ops m (pt_key P i) = Some t)
   | CpuDeleted i t \<Rightarrow> pt_finish P i
   | CpuIdle \<Rightarrow> True)"

definition found_ok :: "('k \<Rightarrow> bool) \<Rightarrow> ('s, 'i, 'p) smp_state \<Rightarrow> bool" where
  "found_ok excl \<sigma> \<longleftrightarrow> (\<forall>c < length (sm_cpu \<sigma>). phase_holds excl (tbl (sm_prog \<sigma>)) (sm_cpu \<sigma> ! c) \<and>
     (\<forall>d < length (sm_cpu \<sigma>). \<forall>i j. d \<noteq> c \<longrightarrow> cpu_busy (sm_cpu \<sigma> ! c) = Some i \<longrightarrow>
       cpu_busy (sm_cpu \<sigma> ! d) = Some j \<longrightarrow> excl (pt_key P i) \<longrightarrow> pt_key P j \<noteq> pt_key P i))"

definition smp_sim :: "('k \<Rightarrow> bool) \<Rightarrow> ('s, 'i, 'p) smp_state \<Rightarrow> 's \<Rightarrow> bool" where
  "smp_sim excl \<sigma> s \<longleftrightarrow> inv (tbl s) \<and> inv (tbl (sm_prog \<sigma>)) \<and>
     map_lookup_elem ops (tbl (sm_prog \<sigma>)) = map_lookup_elem ops (tbl s) \<and> found_ok excl \<sigma> \<and>
     filter_mset (excl \<circ> rec_key) (mset (out s)) =
       filter_mset (excl \<circ> rec_key) (mset (out (sm_prog \<sigma>)) + smp_owed report (sm_cpu \<sigma>))"

lemma key_free_nth:
  "key_free P \<sigma> (pt_key P i) \<Longrightarrow> d < length (sm_cpu \<sigma>) \<Longrightarrow> cpu_busy (sm_cpu \<sigma> ! d) = Some j \<Longrightarrow>
   pt_key P j \<noteq> pt_key P i"
  by (auto simp: key_free_def list_all_length)

lemma phase_holds_other:
  assumes "inv m" "phase_holds excl m x"
    "\<And>j. cpu_busy x = Some j \<Longrightarrow> excl (pt_key P j) \<Longrightarrow> pt_key P j \<noteq> k"
  shows "phase_holds excl (map_update_elem ops m k v) x" "phase_holds excl (map_delete_elem ops m k) x"
  using assms by (cases x; auto simp: phase_holds_def ptr_update_other ptr_delete_other
      lookup_update_other lookup_delete)+

lemma found_ok_nth:
  assumes "found_ok excl \<sigma>" "d < length (sm_cpu \<sigma>)"
  shows "phase_holds excl (tbl (sm_prog \<sigma>)) (sm_cpu \<sigma> ! d)"
    "c < length (sm_cpu \<sigma>) \<Longrightarrow> c \<noteq> d \<Longrightarrow> cpu_busy (sm_cpu \<sigma> ! c) = Some i \<Longrightarrow>
     cpu_busy (sm_cpu \<sigma> ! d) = Some j \<Longrightarrow> excl (pt_key P i) \<Longrightarrow> pt_key P j \<noteq> pt_key P i"
  using assms by (auto simp: found_ok_def)

lemma found_ok_upd:
  assumes "found_ok excl \<sigma>" "c < length (sm_cpu \<sigma>)"
    and "\<And>d. d < length (sm_cpu \<sigma>) \<Longrightarrow> d \<noteq> c \<Longrightarrow> phase_holds excl (tbl s) (sm_cpu \<sigma> ! d)"
    and "phase_holds excl (tbl s) x"
    and "\<And>i. cpu_busy x = Some i \<Longrightarrow>
      cpu_busy (sm_cpu \<sigma> ! c) = Some i \<or> (excl (pt_key P i) \<longrightarrow> key_free P \<sigma> (pt_key P i))"
  shows "found_ok excl \<lparr>sm_prog = s, sm_cpu = (sm_cpu \<sigma>)[c := x]\<rparr>"
proof -
  let ?cpu = "(sm_cpu \<sigma>)[c := x]"
  have apart: "pt_key P j \<noteq> pt_key P i"
    if "d < length (sm_cpu \<sigma>)" "d \<noteq> c" "cpu_busy (sm_cpu \<sigma> ! d) = Some j" "cpu_busy x = Some i"
      "excl (pt_key P i)" for d i j
    using assms(5) [OF that(4)] found_ok_nth(2) [OF assms(1) that(1) assms(2)] key_free_nth that by metis
  have "pt_key P j \<noteq> pt_key P i"
    if "d < length ?cpu" "b < length ?cpu" "b \<noteq> d" "cpu_busy (?cpu ! d) = Some i" "cpu_busy (?cpu ! b) = Some j"
      "excl (pt_key P i)" for d b i j
  proof (cases "d = c")
    case True
    then show ?thesis using apart that assms(2) by auto
  next
    case False
    show ?thesis
    proof (cases "b = c")
      case True
      then show ?thesis using apart [of d i j] that False assms(2) by auto
    next
      case b: False
      then show ?thesis using found_ok_nth(2) [OF assms(1)] that False by auto
    qed
  qed
  moreover have "phase_holds excl (tbl s) (?cpu ! d)" if "d < length ?cpu" for d
    using assms(2-4) that by (cases "d = c") simp_all
  ultimately show ?thesis by (auto simp: found_ok_def)
qed

lemma smp_sim_start:
  assumes sim: "smp_sim excl \<sigma> s" and nf: "\<not> pt_finish P i"
    and free: "excl (pt_key P i) \<Longrightarrow> key_free P \<sigma> (pt_key P i)"
  shows "smp_sim excl (\<sigma>\<lparr>sm_prog := step (sm_prog \<sigma>) i\<rparr>) (step s i)"
proof -
  have inv: "inv (tbl s)" "inv (tbl (sm_prog \<sigma>))" and ok: "found_ok excl \<sigma>"
    using sim by (simp_all add: smp_sim_def)
  have "phase_holds excl (tbl (step (sm_prog \<sigma>) i)) (sm_cpu \<sigma> ! d)" if d: "d < length (sm_cpu \<sigma>)" for d
  proof -
    have "pt_key P j \<noteq> pt_key P i" if "cpu_busy (sm_cpu \<sigma> ! d) = Some j" "excl (pt_key P j)" for j
      using key_free_nth [OF free d that(1)] that(2) by metis
    then show ?thesis using not_finish [OF nf] found_ok_nth(1) [OF ok d] inv(2)
      by (auto simp: tbl_none tbl_start phase_holds_other(1))
  qed
  then have "found_ok excl (\<sigma>\<lparr>sm_prog := step (sm_prog \<sigma>) i\<rparr>)"
    using ok by (simp add: found_ok_def)
  then show ?thesis using sim step_table inv not_finish_out [OF nf] by (simp add: smp_sim_def)
qed

lemma smp_sim_finish:
  assumes "pt_finish P i" "inv (tbl s)"
  shows "inv (tbl (step s i))" "map_lookup_elem ops (tbl (step s i)) = (map_lookup_elem ops (tbl s))(pt_key P i := None)"
    "out (step s i) = out s @
      (case map_lookup_elem ops (tbl s) (pt_key P i) of None \<Rightarrow> [] | Some t \<Rightarrow> report i t)"
  using assms step_table [OF assms(2), of i]
  by (auto simp: part_finish out_step measured_def pend_opt_def)

lemma report_filter:
  "pt_finish P i \<Longrightarrow> filter_mset (excl \<circ> rec_key) (mset (report i t)) =
    (if excl (pt_key P i) then mset (report i t) else {#})"
  using report_key by (auto simp flip: mset_filter intro: filter_True filter_False)

lemma smp_run_sim:
  assumes sim: "smp_sim excl \<sigma> s" and act: "cpu_act P excl \<sigma> (CpuRun c i) = Some (\<sigma>', js)"
  shows "smp_sim excl \<sigma>' (foldl step s js)"
proof -
  from act have c: "c < length (sm_cpu \<sigma>)" "sm_cpu \<sigma> ! c = CpuIdle"
    "excl (pt_key P i) \<Longrightarrow> key_free P \<sigma> (pt_key P i)"
    by (auto split: if_splits)
  have inv: "inv (tbl s)" "inv (tbl (sm_prog \<sigma>))" and ok: "found_ok excl \<sigma>"
    and same: "map_lookup_elem ops (tbl (sm_prog \<sigma>)) = map_lookup_elem ops (tbl s)"
    using sim by (simp_all add: smp_sim_def)
  show ?thesis
  proof (cases "pt_finish P i")
    case False
    with act c smp_sim_start [OF sim False c(3)] show ?thesis by (auto simp: part_step)
  next
    case True
    show ?thesis
    proof (cases "elem_ptr el (tbl (sm_prog \<sigma>)) (pt_key P i)")
      case None
      with act c True have "\<sigma>' = \<sigma>" "js = [i]" by (auto simp: part_lookup split: if_splits)
      with sim smp_sim_finish [OF True inv(1)] None ptr_None [OF inv(2), of "pt_key P i"] same
      show ?thesis by (simp add: smp_sim_def fun_upd_idem)
    next
      case (Some p)
      with act c True
      have res: "\<sigma>' = \<lparr>sm_prog = sm_prog \<sigma>, sm_cpu = (sm_cpu \<sigma>)[c := CpuFound i p]\<rparr>" "js = []"
        by (auto simp: part_lookup split: if_splits)
      have "found_ok excl \<sigma>'" unfolding res
        by (rule found_ok_upd [OF ok c(1)])
          (use True Some c(3) found_ok_nth(1) [OF ok] in \<open>auto simp: phase_holds_def\<close>)
      moreover have "smp_owed report (sm_cpu \<sigma>') = smp_owed report (sm_cpu \<sigma>)"
        using smp_owed_upd [OF c(1), of report "CpuFound i p"] c(2) by (simp add: res)
      ultimately show ?thesis using sim by (simp add: smp_sim_def res)
    qed
  qed
qed

lemma smp_sim_resume:
  assumes sim: "smp_sim excl \<sigma> s" and act: "cpu_act P excl \<sigma> (CpuResume c) = Some (\<sigma>', js)"
  shows "smp_sim excl \<sigma>' (foldl step s js)"
proof -
  from act have c: "c < length (sm_cpu \<sigma>)" by (simp split: if_splits)
  have inv: "inv (tbl s)" "inv (tbl (sm_prog \<sigma>))" and ok: "found_ok excl \<sigma>"
    and same: "map_lookup_elem ops (tbl (sm_prog \<sigma>)) = map_lookup_elem ops (tbl s)"
    using sim by (simp_all add: smp_sim_def)
  note held = found_ok_nth(1) [OF ok]
  show ?thesis
  proof (cases "sm_cpu \<sigma> ! c")
    case CpuIdle
    with act c show ?thesis by simp
  next
    case (CpuFound i p)
    let ?t = "elem_read el (tbl (sm_prog \<sigma>)) p"
    have res: "\<sigma>' = \<lparr>sm_prog = sm_prog \<sigma>, sm_cpu = (sm_cpu \<sigma>)[c := CpuRead i ?t]\<rparr>"
      "js = []" using act c CpuFound by (auto simp: part_read)
    have "phase_holds excl (tbl (sm_prog \<sigma>)) (CpuRead i ?t)"
      using held [OF c] CpuFound ptr_lookup [OF inv(2)] by (auto simp: phase_holds_def)
    then have "found_ok excl \<sigma>'" unfolding res
      by (intro found_ok_upd [OF ok c held]) (use CpuFound in auto)
    moreover have "smp_owed report (sm_cpu \<sigma>') = smp_owed report (sm_cpu \<sigma>)"
      using smp_owed_upd [OF c, of report "CpuRead i ?t"] CpuFound by (simp add: res)
    ultimately show ?thesis using sim by (simp add: smp_sim_def res)
  next
    case (CpuRead i t)
    with held [OF c] same have f: "pt_finish P i"
      and found: "excl (pt_key P i) \<Longrightarrow> map_lookup_elem ops (tbl s) (pt_key P i) = Some t"
      by (simp_all add: phase_holds_def)
    have res: "\<sigma>' = \<lparr>sm_prog = pt_delete P i (sm_prog \<sigma>), sm_cpu = (sm_cpu \<sigma>)[c := CpuDeleted i t]\<rparr>"
      "js = [i]" using act c CpuRead by auto
    have "pt_key P j \<noteq> pt_key P i"
      if "d < length (sm_cpu \<sigma>)" "d \<noteq> c" "cpu_busy (sm_cpu \<sigma> ! d) = Some j" "excl (pt_key P j)" for d j
      using found_ok_nth(2) [OF ok c that(1,2,3), of i] CpuRead that(4) by (metis cpu_busy.simps(3))
    then have "phase_holds excl (tbl (pt_delete P i (sm_prog \<sigma>))) (sm_cpu \<sigma> ! d)"
      if "d < length (sm_cpu \<sigma>)" "d \<noteq> c" for d
      using that held [OF that(1)] inv(2) by (auto simp: part_delete(1) [OF f] intro!: phase_holds_other(2))
    then have "found_ok excl \<sigma>'" unfolding res
      by (intro found_ok_upd [OF ok c]) (use f in \<open>auto simp: phase_holds_def\<close>)
    moreover have "smp_owed report (sm_cpu \<sigma>') = smp_owed report (sm_cpu \<sigma>) + mset (report i t)"
      using smp_owed_upd [OF c, of report "CpuDeleted i t"] CpuRead by (simp add: res)
    moreover have "filter_mset (excl \<circ> rec_key) (mset (out (step s i))) =
        filter_mset (excl \<circ> rec_key) (mset (out s)) + filter_mset (excl \<circ> rec_key) (mset (report i t))"
      using found
      by (cases "map_lookup_elem ops (tbl s) (pt_key P i)")
        (auto simp: smp_sim_finish(3) [OF f inv(1)] report_filter [OF f])
    ultimately show ?thesis using sim smp_sim_finish(1,2) [OF f inv(1)] same
      by (simp add: smp_sim_def res part_delete(1) [OF f] part_delete(2) inv_delete lookup_delete)
  next
    case (CpuDeleted i t)
    have res: "\<sigma>' = \<lparr>sm_prog = pt_submit P i t (sm_prog \<sigma>), sm_cpu = (sm_cpu \<sigma>)[c := CpuIdle]\<rparr>"
      "js = []" using act c CpuDeleted by auto
    have "found_ok excl \<sigma>'" unfolding res
      by (rule found_ok_upd [OF ok c]) (use held in \<open>auto simp: phase_holds_def part_submit(1)\<close>)
    moreover have "smp_owed report (sm_cpu \<sigma>') + mset (report i t) = smp_owed report (sm_cpu \<sigma>)"
      using smp_owed_upd [OF c, of report CpuIdle] CpuDeleted by (simp add: res)
    ultimately show ?thesis using sim by (simp add: smp_sim_def res part_submit ac_simps flip: filter_union_mset)
  qed
qed

lemma smp_sim_sched:
  assumes "inv (tbl s)" "out s = []"
  shows "cpu_sched P excl (smp_start n s) as = Some (\<sigma>, L) \<Longrightarrow> smp_sim excl \<sigma> (foldl step s L)"
proof (induction "as" arbitrary: \<sigma> L rule: rev_induct)
  case Nil
  then have \<sigma>: "\<sigma> = \<lparr>sm_prog = s, sm_cpu = replicate n CpuIdle\<rparr>" "L = []" by (auto simp: smp_start_def)
  have "smp_owed report (sm_cpu \<sigma>) = {#}"
    by (rule smp_owed_idle) (simp add: \<sigma> list_all_length)
  then show ?case using assms by (simp add: \<sigma> smp_sim_def found_ok_def phase_holds_def)
next
  case (snoc a "as")
  from snoc.prems obtain \<sigma>1 js ks where "cpu_sched P excl (smp_start n s) as = Some (\<sigma>1, js)"
      "cpu_act P excl \<sigma>1 a = Some (\<sigma>, ks)" "L = js @ ks"
    by (auto simp: cpu_sched_snoc split: option.splits)
  with snoc.IH show ?case by (cases a) (auto dest: smp_run_sim smp_sim_resume)
qed

text \<open>In every interleaving the map ends as after the atomic run. The records of a key on which no two
  handlers work at a time are those of the atomic run.\<close>

lemma smp_table:
  assumes "inv (tbl s)" "out s = []" "cpu_sched P excl (smp_start n s) as = Some (\<sigma>, L)"
  shows "map_lookup_elem ops (tbl (sm_prog \<sigma>)) = map_lookup_elem ops (tbl (foldl step s L))"
  using smp_sim_sched [OF assms] by (simp add: smp_sim_def)

lemma smp_atomic:
  assumes "inv (tbl s)" "out s = []" "cpu_sched P excl (smp_start n s) as = Some (\<sigma>, L)" "all_idle \<sigma>"
  shows "filter_mset (excl \<circ> rec_key) (mset (out (sm_prog \<sigma>))) =
    filter_mset (excl \<circ> rec_key) (mset (out (foldl step s L)))"
  using smp_sim_sched [OF assms(1-3)] assms(4) by (simp add: smp_sim_def all_idle_def smp_owed_idle)

lemma smp_submitted:
  assumes "inv (tbl s)" "out s = []" "cpu_sched P excl (smp_start n s) as = Some (\<sigma>, L)"
    and "e \<in> set (out (sm_prog \<sigma>))" "excl (rec_key e)"
  shows "e \<in> set (out (foldl step s L))"
proof -
  have "filter_mset (excl \<circ> rec_key) (mset (out (foldl step s L))) =
      filter_mset (excl \<circ> rec_key) (mset (out (sm_prog \<sigma>)) + smp_owed report (sm_cpu \<sigma>))"
    using smp_sim_sched [OF assms(1-3)] by (simp add: smp_sim_def)
  from arg_cong [OF this, of set_mset] show ?thesis using assms(4,5) by auto
qed

end

end
