(* ===== verification/LatencySmp.thy ===== *)
theory LatencySmp
  imports TracerSmp DiskIo SchedDelay
begin

text \<open>
  \<open>internal/bpf/c/disk_io.c\<close> and \<open>sched_delay.c\<close> on several CPUs: the finishing handlers in the
  four parts of \<open>TracerSmp\<close>. \<open>start_ts\<close> points into the map until it is read. The map of the disk
  tracer is keyed by sector, and requests to one sector of two devices complete on two CPUs at a time,
  so there atomicity is not given. The readings of the clock are arguments: they may be taken before or
  after the read through the pointer.
\<close>

section \<open>The disk tracer\<close>

definition disk_complete_lookup ::
  "(u64, u64, 'm, 'p) elem_ops \<Rightarrow> bytes \<Rightarrow> 'm disk_prog \<Rightarrow> 'p option" where
  "disk_complete_lookup el ctx s =
     elem_ptr el (io_start s) (ctx_load st_trace_event_raw_block_rq_completion ''sector'' ctx)"

definition disk_complete_read :: "(u64, u64, 'm, 'p) elem_ops \<Rightarrow> 'p \<Rightarrow> 'm disk_prog \<Rightarrow> u64" where
  "disk_complete_read el start_ts s = elem_read el (io_start s) start_ts"

definition disk_complete_delete ::
  "(u64, u64, 'm) hash_ops \<Rightarrow> bytes \<Rightarrow> 'm disk_prog \<Rightarrow> 'm disk_prog" where
  "disk_complete_delete ops ctx s =
     s\<lparr>io_start := map_delete_elem ops (io_start s)
         (ctx_load st_trace_event_raw_block_rq_completion ''sector'' ctx)\<rparr>"

definition disk_complete_submit ::
  "bpf_env \<Rightarrow> disk_event option \<Rightarrow> bytes \<Rightarrow> u64 \<Rightarrow> 'm disk_prog \<Rightarrow> 'm disk_prog" where
  "disk_complete_submit env slot ctx start_ts s =
     (let latency = h_ktime env 0 - start_ts
      in case slot of
           None \<Rightarrow> s
         | Some e \<Rightarrow>
             (let e = e\<lparr>de_timestamp_ns := h_ktime env 1,
                        de_latency_ns := latency,
                        de_sector := ctx_load st_trace_event_raw_block_rq_completion ''sector'' ctx,
                        de_dev := ctx_load st_trace_event_raw_block_rq_completion ''dev'' ctx,
                        de_nr_bytes :=
                          ctx_load st_trace_event_raw_block_rq_completion ''nr_sector'' ctx * 512,
                        de_pid := hi32 (h_pid_tgid env)\<rparr>;
                  rwbs = h_probe env 0
                    (take 8 (cload st_trace_event_raw_block_rq_completion ''rwbs'' ctx));
                  e = e\<lparr>de_op := disk_op rwbs,
                        de_pad := replicate 3 0,
                        de_comm := h_comm env\<rparr>
              in s\<lparr>disk_events := disk_events s @ [e]\<rparr>))"

lemmas disk_complete_parts = disk_complete_lookup_def disk_complete_read_def disk_complete_delete_def
  disk_complete_submit_def

lemma disk_complete_composed:
  assumes "bpf_hash_elems ops cap ok el" "ok (io_start s)"
  shows "disk_step ops s (DiskComplete env slot ctx) =
     (case disk_complete_lookup el ctx s of
        None \<Rightarrow> s
      | Some p \<Rightarrow> disk_complete_submit env slot ctx (disk_complete_read el p s) (disk_complete_delete ops ctx s))"
  by (simp add: disk_handler_defs disk_complete_parts Let_def bpf_hash_elems.read_ptr [OF assms]
      split: option.splits)

fun disk_finish :: "disk_input \<Rightarrow> bool" where
  "disk_finish (DiskIssue env ctx) = False"
| "disk_finish (DiskComplete env slot ctx) = True"

definition disk_parts ::
  "(u64, u64, 'm) hash_ops \<Rightarrow> (u64, u64, 'm, 'p) elem_ops \<Rightarrow> ('m disk_prog, disk_input, u64, 'p) smp_parts" where
  "disk_parts ops el =
     \<lparr>pt_key = disk_sector, pt_finish = disk_finish, pt_step = disk_step ops,
      pt_lookup = (\<lambda>i s. case i of DiskIssue env ctx \<Rightarrow> None
        | DiskComplete env slot ctx \<Rightarrow> disk_complete_lookup el ctx s),
      pt_read = disk_complete_read el,
      pt_delete = (\<lambda>i s. case i of DiskIssue env ctx \<Rightarrow> s
        | DiskComplete env slot ctx \<Rightarrow> disk_complete_delete ops ctx s),
      pt_submit = (\<lambda>i t s. case i of DiskIssue env ctx \<Rightarrow> s
        | DiskComplete env slot ctx \<Rightarrow> disk_complete_submit env slot ctx t s)\<rparr>"

lemma disk_smp:
  assumes "bpf_hash_elems ops cap ok el"
  shows "smp_tracker ops cap ok (disk_step ops) io_start disk_ev disk_events disk_report el (disk_parts ops el) de_sector"
proof (intro smp_tracker.intro smp_tracker_axioms.intro assms
    disk_tracker [OF bpf_hash_elems.axioms(1) [OF assms]])
  fix i t s
  show "pt_finish (disk_parts ops el) i \<longleftrightarrow> disk_ev i = Some (TFinish (pt_key (disk_parts ops el) i))"
    by (cases i) (simp_all add: disk_parts_def)
  show "disk_ev i = Some e \<Longrightarrow> tev_key e = pt_key (disk_parts ops el) i" for e
    by (cases i) (auto simp: disk_parts_def split: if_splits)
  show "pt_finish (disk_parts ops el) i \<Longrightarrow> r \<in> set (disk_report i t) \<Longrightarrow>
      de_sector r = pt_key (disk_parts ops el) i" for r
    by (cases i) (auto simp: disk_parts_def disk_record_def split: option.splits)
qed (auto simp: disk_parts_def disk_complete_parts disk_record_def Let_def
    split: disk_input.splits option.splits)

interpretation disk_smp_kel: smp_tracker "khash_elems cap" cap "ke_inv cap" "disk_step (khash_elems cap)"
  io_start disk_ev disk_events disk_report ke_ops "disk_parts (khash_elems cap) ke_ops"
  de_sector for cap
  by (rule disk_smp) unfold_locales

section \<open>The scheduler tracer\<close>

definition sched_switch_lookup ::
  "(u32, u64, 'm, 'p) elem_ops \<Rightarrow> bpf_env \<Rightarrow> bytes \<Rightarrow> 'm sched_prog \<Rightarrow> 'p option" where
  "sched_switch_lookup el env ctx s = elem_ptr el (wakeup_ts s) (sched_next_pid env ctx)"

definition sched_switch_read :: "(u32, u64, 'm, 'p) elem_ops \<Rightarrow> 'p \<Rightarrow> 'm sched_prog \<Rightarrow> u64" where
  "sched_switch_read el ts s = elem_read el (wakeup_ts s) ts"

definition sched_switch_delete ::
  "(u32, u64, 'm) hash_ops \<Rightarrow> bpf_env \<Rightarrow> bytes \<Rightarrow> 'm sched_prog \<Rightarrow> 'm sched_prog" where
  "sched_switch_delete ops env ctx s =
     s\<lparr>wakeup_ts := map_delete_elem ops (wakeup_ts s) (sched_next_pid env ctx)\<rparr>"

definition sched_switch_submit ::
  "bpf_env \<Rightarrow> sched_event option \<Rightarrow> bytes \<Rightarrow> u64 \<Rightarrow> 'm sched_prog \<Rightarrow> 'm sched_prog" where
  "sched_switch_submit env slot ctx ts s =
     (let delay = h_ktime env 0 - ts
      in if delay < 1000 then s
         else case slot of
                None \<Rightarrow> s
              | Some e \<Rightarrow>
                  (let e = e\<lparr>sc_timestamp_ns := h_ktime env 1,
                             sc_runq_delay_ns := delay,
                             sc_cgroup_id := h_cgroup_id env,
                             sc_pid := sched_next_pid env ctx,
                             sc_cpu := h_smp_processor_id env,
                             sc_comm := h_probe env 1
                               (take TASK_COMM_LEN
                                 (cload st_trace_event_raw_sched_switch ''next_comm'' ctx))\<rparr>
                   in s\<lparr>sched_events := sched_events s @ [e]\<rparr>))"

lemmas sched_switch_parts = sched_switch_lookup_def sched_switch_read_def sched_switch_delete_def
  sched_switch_submit_def

lemma sched_switch_composed:
  assumes "bpf_hash_elems ops cap ok el" "ok (wakeup_ts s)"
  shows "sched_step ops s (SchedSwitch env slot ctx) =
     (case sched_switch_lookup el env ctx s of
        None \<Rightarrow> s
      | Some p \<Rightarrow> sched_switch_submit env slot ctx (sched_switch_read el p s) (sched_switch_delete ops env ctx s))"
  by (simp add: sched_handler_defs sched_switch_parts Let_def bpf_hash_elems.read_ptr [OF assms]
      split: option.splits)

fun sched_finish :: "sched_input \<Rightarrow> bool" where
  "sched_finish (SchedWakeup env ctx) = False"
| "sched_finish (SchedSwitch env slot ctx) = True"

definition sched_parts ::
  "(u32, u64, 'm) hash_ops \<Rightarrow> (u32, u64, 'm, 'p) elem_ops \<Rightarrow> ('m sched_prog, sched_input, u32, 'p) smp_parts" where
  "sched_parts ops el =
     \<lparr>pt_key = sched_pid, pt_finish = sched_finish, pt_step = sched_step ops,
      pt_lookup = (\<lambda>i s. case i of SchedWakeup env ctx \<Rightarrow> None
        | SchedSwitch env slot ctx \<Rightarrow> sched_switch_lookup el env ctx s),
      pt_read = sched_switch_read el,
      pt_delete = (\<lambda>i s. case i of SchedWakeup env ctx \<Rightarrow> s
        | SchedSwitch env slot ctx \<Rightarrow> sched_switch_delete ops env ctx s),
      pt_submit = (\<lambda>i t s. case i of SchedWakeup env ctx \<Rightarrow> s
        | SchedSwitch env slot ctx \<Rightarrow> sched_switch_submit env slot ctx t s)\<rparr>"

lemma sched_smp:
  assumes "bpf_hash_elems ops cap ok el"
  shows "smp_tracker ops cap ok (sched_step ops) wakeup_ts sched_ev sched_events sched_report el (sched_parts ops el) sc_pid"
proof (intro smp_tracker.intro smp_tracker_axioms.intro assms
    sched_tracker [OF bpf_hash_elems.axioms(1) [OF assms]])
  fix i t s
  show "pt_finish (sched_parts ops el) i \<longleftrightarrow> sched_ev i = Some (TFinish (pt_key (sched_parts ops el) i))"
    by (cases i) (simp_all add: sched_parts_def)
  show "sched_ev i = Some e \<Longrightarrow> tev_key e = pt_key (sched_parts ops el) i" for e
    by (cases i) (auto simp: sched_parts_def)
  show "pt_finish (sched_parts ops el) i \<Longrightarrow> r \<in> set (sched_report i t) \<Longrightarrow>
      sc_pid r = pt_key (sched_parts ops el) i" for r
    by (cases i) (auto simp: sched_parts_def split: option.splits if_splits)
qed (auto simp: sched_parts_def sched_switch_parts Let_def
    split: sched_input.splits option.splits)

interpretation sched_smp_kel: smp_tracker "khash_elems cap" cap "ke_inv cap" "sched_step (khash_elems cap)"
  wakeup_ts sched_ev sched_events sched_report ke_ops "sched_parts (khash_elems cap) ke_ops"
  sc_pid for cap
  by (rule sched_smp) unfold_locales

section \<open>Properties\<close>

text \<open>C4: what the disk tracer guarantees on any number of CPUs. Its handlers interleave at every access
  to the map, the read through the pointer of the lookup included, so the element read may have been
  reused. In every interleaving the map ends as if the invocations had run one after the other, each at
  its update or delete; every record measures from some issue to a later completion; and the records
  of the sectors on which no two handlers work at a time (those that are \<open>excl\<close>) are the records of
  the atomic run, each as often, whatever happens to the other sectors.\<close>

theorem disk_smp_runs:
  assumes "bpf_hash_elems ops MAX_ENTRIES ok el" "ok m" "map_lookup_elem ops m = Map.empty"
    and "cpu_sched (disk_parts ops el) excl (smp_start n (disk_init m)) as = Some (\<sigma>, is)"
  shows "map_lookup_elem ops (io_start (sm_prog \<sigma>)) =
      map_lookup_elem ops (io_start (disk_run ops (disk_init m) is)) \<and>
    (\<forall>e \<in> set (disk_events (sm_prog \<sigma>)). \<exists>xs env0 c0 ys env1 e0 c1 zs.
      is = xs @ DiskIssue env0 c0 # ys @ DiskComplete env1 (Some e0) c1 # zs \<and>
      e = disk_record env1 c1 (h_ktime env0 0)) \<and>
    (all_idle \<sigma> \<longrightarrow>
      filter_mset (excl \<circ> de_sector) (mset (disk_events (sm_prog \<sigma>))) =
      filter_mset (excl \<circ> de_sector) (mset (disk_events (disk_run ops (disk_init m) is))))"
proof (intro conjI ballI impI)
  note smp = disk_smp [OF assms(1)]
  have start: "ok (io_start (disk_init m))" "disk_events (disk_init m) = []"
    "map_lookup_elem ops (io_start (disk_init m)) = Map.empty"
    using assms(2,3) by (simp_all add: disk_init_def)
  show "map_lookup_elem ops (io_start (sm_prog \<sigma>)) =
      map_lookup_elem ops (io_start (disk_run ops (disk_init m) is))"
    using smp_tracker.smp_table [OF smp start(1,2) assms(4)] by (simp add: disk_run_def)
  show "filter_mset (excl \<circ> de_sector) (mset (disk_events (sm_prog \<sigma>))) =
      filter_mset (excl \<circ> de_sector) (mset (disk_events (disk_run ops (disk_init m) is)))" if "all_idle \<sigma>"
    using smp_tracker.smp_atomic [OF smp start(1,2) assms(4) that] by (simp add: disk_run_def)
  fix e assume "e \<in> set (disk_events (sm_prog \<sigma>))"
  from smp_tracker.smp_origin [OF smp start(1,3,2) assms(4) this] obtain xs a ys b zs j k t
    where run: "is = xs @ a # ys @ b # zs" and a: "disk_ev a = Some (TStart j t)"
      and b: "disk_ev b = Some (TFinish k)" and e: "e \<in> set (disk_report b t)" by blast
  from a obtain env0 c0 where a': "a = DiskIssue env0 c0" "t = h_ktime env0 0"
    by (cases a) (auto split: if_splits)
  from b e obtain env1 e0 c1 where b': "b = DiskComplete env1 (Some e0) c1" "e = disk_record env1 c1 t"
    by (cases b) (auto split: option.splits)
  show "\<exists>xs env0 c0 ys env1 e0 c1 zs.
      is = xs @ DiskIssue env0 c0 # ys @ DiskComplete env1 (Some e0) c1 # zs \<and>
      e = disk_record env1 c1 (h_ktime env0 0)"
    using run a' b' by blast
qed

text \<open>Two CPUs complete sectors 500 and 600, their handlers interleaved.\<close>

definition demo_complete :: "u64 \<Rightarrow> u64 \<Rightarrow> disk_input" where
  "demo_complete t sector = DiskComplete (demo_env 0 t) (Some demo_disk_slot) (demo_complete_ctx 9 sector)"

definition demo_two_sectors :: "disk_input cpu_action list" where
  "demo_two_sectors =
     [CpuRun 0 (DiskIssue (demo_env 42 1000) (demo_issue_ctx 9 500)),
      CpuRun 1 (DiskIssue (demo_env 42 2000) (demo_issue_ctx 9 600)),
      CpuRun 0 (demo_complete 5000 500), CpuRun 1 (demo_complete 9000 600), CpuResume 1,
      CpuResume 0, CpuResume 1, CpuResume 0, CpuResume 0, CpuResume 1]"

definition disk_demo :: "(u64 \<Rightarrow> bool) \<Rightarrow> disk_input cpu_action list \<Rightarrow>
    ((u64, u64) khash_elems disk_prog, disk_input, nat) smp_state \<times> disk_input list" where
  "disk_demo excl as = the (cpu_sched (disk_parts (khash_elems MAX_ENTRIES) ke_ops) excl
     (smp_start 2 (disk_init ke_empty)) as)"

lemma smp_start_2: "smp_start 2 s = \<lparr>sm_prog = s, sm_cpu = [CpuIdle, CpuIdle]\<rparr>"
  by (simp add: smp_start_def numeral_2_eq_2)

lemmas disk_smp_eval = smp_start_2 disk_parts_def key_free_def demo_complete_def disk_complete_parts
  disk_handler_defs ke_eval disk_init_def kerno_consts helper_simps abi_simps

lemma demo_two_runs:
  "cpu_sched (disk_parts (khash_elems MAX_ENTRIES) ke_ops) (\<lambda>_. True) (smp_start 2 (disk_init ke_empty))
     demo_two_sectors = Some (disk_demo (\<lambda>_. True) demo_two_sectors)"
  "all_idle (fst (disk_demo (\<lambda>_. True) demo_two_sectors))"
  "map de_latency_ns (disk_events (sm_prog (fst (disk_demo (\<lambda>_. True) demo_two_sectors)))) = [4000, 7000]"
  unfolding disk_demo_def
  by (simp_all add: demo_two_sectors_def disk_smp_eval all_idle_def)

theorem disk_smp_runs_witness:
  "mset (disk_events (sm_prog (fst (disk_demo (\<lambda>_. True) demo_two_sectors)))) =
   mset (disk_events (disk_run (khash_elems MAX_ENTRIES) (disk_init ke_empty)
     (snd (disk_demo (\<lambda>_. True) demo_two_sectors))))"
  using disk_smp_runs [OF kel.bpf_hash_elems_axioms ke_empty, of "\<lambda>_. True" 2 demo_two_sectors
      "fst (disk_demo (\<lambda>_. True) demo_two_sectors)" "snd (disk_demo (\<lambda>_. True) demo_two_sectors)"] demo_two_runs
  by (simp add: comp_def)

text \<open>C6: a block I/O record measures one request, on any number of CPUs, if its sector is one on which no
  two handlers work at a time; a sequential run is the special case of one CPU. Among the invocations
  in the order they took effect there are an issue and a later completion of the reported sector with no
  other issue or completion of that sector between them; the latency is the difference of the two
  timestamps, the sector is not zero, and size, operation, process and device are those of the
  completion; the byte count is exact for requests below 2^23 sectors.\<close>

theorem disk_smp_pairing:
  assumes "bpf_hash_elems ops MAX_ENTRIES ok el" "ok m" "map_lookup_elem ops m = Map.empty"
    and "cpu_sched (disk_parts ops el) excl (smp_start n (disk_init m)) as = Some (\<sigma>, is)"
    and "e \<in> set (disk_events (sm_prog \<sigma>))" "excl (de_sector e)"
  shows "\<exists>xs env0 c0 ys env1 e0 c1 zs.
    is = xs @ DiskIssue env0 c0 # ys @ DiskComplete env1 (Some e0) c1 # zs \<and>
    ctx_load st_trace_event_raw_block_rq ''sector'' c0 = de_sector e \<and>
    ctx_load st_trace_event_raw_block_rq_completion ''sector'' c1 = de_sector e \<and>
    de_sector e \<noteq> 0 \<and> (\<forall>j \<in> set ys. disk_sector j \<noteq> de_sector e) \<and>
    de_latency_ns e = h_ktime env1 0 - h_ktime env0 0 \<and>
    de_dev e = ctx_load st_trace_event_raw_block_rq_completion ''dev'' c1 \<and>
    (unat (ctx_load st_trace_event_raw_block_rq_completion ''nr_sector'' c1 :: u32) < 2 ^ 23 \<longrightarrow>
      unat (de_nr_bytes e) =
      512 * unat (ctx_load st_trace_event_raw_block_rq_completion ''nr_sector'' c1 :: u32)) \<and>
    de_op e = disk_op (h_probe env1 0
      (take 8 (cload st_trace_event_raw_block_rq_completion ''rwbs'' c1))) \<and>
    de_pid e = hi32 (h_pid_tgid env1)"
proof -
  have "ok (io_start (disk_init m))" "disk_events (disk_init m) = []"
    using assms(2) by (simp_all add: disk_init_def)
  from smp_tracker.smp_submitted [where excl = excl, OF disk_smp [OF assms(1)] this assms(4-6)]
  have "e \<in> set (disk_events (disk_run ops (disk_init m) is))" by (simp add: disk_run_def)
  from disk_event_pairing [OF bpf_hash_elems.axioms(1) [OF assms(1)] assms(2,3) this] show ?thesis .
qed

theorem disk_smp_pairing_witness:
  "let e = hd (disk_events (sm_prog (fst (disk_demo (\<lambda>_. True) demo_two_sectors))))
   in de_sector e \<noteq> 0 \<and> unat (de_nr_bytes e) = 4096"
proof -
  let ?e = "hd (disk_events (sm_prog (fst (disk_demo (\<lambda>_. True) demo_two_sectors))))"
  have ne: "disk_events (sm_prog (fst (disk_demo (\<lambda>_. True) demo_two_sectors))) \<noteq> []"
    using demo_two_runs(3) by auto
  have "de_nr_bytes ?e = 4096"
    unfolding disk_demo_def by (simp add: demo_two_sectors_def disk_smp_eval)
  then show ?thesis
    using disk_smp_pairing [OF kel.bpf_hash_elems_axioms ke_empty, of "\<lambda>_. True" 2 demo_two_sectors
        "fst (disk_demo (\<lambda>_. True) demo_two_sectors)" "snd (disk_demo (\<lambda>_. True) demo_two_sectors)" ?e]
      demo_two_runs(1) ne by (auto simp: Let_def)
qed

section \<open>Races on one sector\<close>

text \<open>One request reported twice. Sector 500 is issued once, and two completions of that sector run on two
  CPUs: both find the start time before either deletes it.\<close>

definition demo_race :: "disk_input cpu_action list" where
  "demo_race =
     [CpuRun 0 (DiskIssue (demo_env 42 1000) (demo_issue_ctx 9 500)),
      CpuRun 0 (demo_complete 251000 500), CpuRun 1 (demo_complete 252000 500),
      CpuResume 0, CpuResume 1, CpuResume 0, CpuResume 1, CpuResume 0, CpuResume 1]"

text \<open>A stale pointer. Between the lookup of the first CPU and its read, the second one completes the
  request and stores the issue of sector 600, which gets the element just freed.\<close>

definition demo_stale :: "disk_input cpu_action list" where
  "demo_stale =
     [CpuRun 0 (DiskIssue (demo_env 42 1000) (demo_issue_ctx 9 500)),
      CpuRun 0 (demo_complete 251000 500), CpuRun 1 (demo_complete 252000 500),
      CpuResume 1, CpuResume 1, CpuResume 1,
      CpuRun 1 (DiskIssue (demo_env 42 300000) (demo_issue_ctx 9 600)),
      CpuResume 0, CpuResume 0, CpuResume 0]"

lemma demo_stale_records:
  "map (\<lambda>e. (de_sector e, de_latency_ns e)) (disk_events (sm_prog (fst (disk_demo (\<lambda>_. False) demo_stale)))) =
     [(500, 251000), (500, 251000 - 300000)]"
  "all_idle (fst (disk_demo (\<lambda>_. False) demo_stale))"
  unfolding disk_demo_def by (simp_all add: demo_stale_def disk_smp_eval all_idle_def)

text \<open>C5: what goes wrong when two completions of one sector run on two CPUs, as when a mirror completes a
  request that was issued before the tracer was attached to one of its devices. One request can be
  reported twice: both look the start time up before either deletes it, and no order of the three
  invocations, run atomically, submits more than one record. And a completion can measure from the issue
  of another sector that reused the element it points to; if it has read the clock before that issue,
  the latency wraps around to almost 2^64 nanoseconds.\<close>

theorem disk_smp_double_report:
  "map de_latency_ns (disk_events (sm_prog (fst (disk_demo (\<lambda>_. False) demo_race)))) = [250000, 251000] \<and>
   all_idle (fst (disk_demo (\<lambda>_. False) demo_race)) \<and>
   length (filter (is_start \<circ> disk_ev) (snd (disk_demo (\<lambda>_. False) demo_race))) = 1 \<and>
   \<not> (\<exists>is. mset is = mset (snd (disk_demo (\<lambda>_. False) demo_race)) \<and>
     1 < length (disk_events (disk_run (khash_elems MAX_ENTRIES) (disk_init ke_empty) is))) \<and>
   map (\<lambda>e. (de_sector e, unat (de_latency_ns e)))
     (disk_events (sm_prog (fst (disk_demo (\<lambda>_. False) demo_stale)))) =
     [(500, 251000), (500, 2 ^ 64 - 49000)]"
proof -
  let ?L = "snd (disk_demo (\<lambda>_. False) demo_race)"
  have one: "length (filter (is_start \<circ> disk_ev) ?L) = 1"
    and two: "map de_latency_ns (disk_events (sm_prog (fst (disk_demo (\<lambda>_. False) demo_race)))) = [250000, 251000]"
    and idle: "all_idle (fst (disk_demo (\<lambda>_. False) demo_race))"
    unfolding disk_demo_def
    by (simp_all add: demo_race_def disk_smp_eval all_idle_def is_start_def)
  have tracker: "tracker_out (khash_elems MAX_ENTRIES) MAX_ENTRIES (ke_inv MAX_ENTRIES)
      (disk_step (khash_elems MAX_ENTRIES)) io_start disk_ev disk_events disk_report"
    by (rule disk_tracker) unfold_locales
  have "length (disk_events (disk_run (khash_elems MAX_ENTRIES) (disk_init ke_empty) is)) \<le> 1"
    if "mset is = mset ?L" for "is"
  proof -
    have "length (filter (is_start \<circ> disk_ev) is) = length (filter (is_start \<circ> disk_ev) ?L)"
      by (metis that mset_filter size_mset)
    moreover have "length (disk_events (disk_run (khash_elems MAX_ENTRIES) (disk_init ke_empty) is)) \<le>
        length (filter (is_start \<circ> disk_ev) is)"
      unfolding disk_run_def
      by (rule order_trans [OF le_add1 tracker_out.reports_bounded [OF tracker]])
        (simp_all add: disk_init_def ke_empty)
    ultimately show ?thesis using one by simp
  qed
  moreover have "map (\<lambda>e. (de_sector e, unat (de_latency_ns e)))
      (disk_events (sm_prog (fst (disk_demo (\<lambda>_. False) demo_stale)))) =
      map (\<lambda>(k :: u64, t :: u64). (k, unat t)) [(500, 251000), (500, 251000 - 300000)]"
    unfolding demo_stale_records(1) [symmetric] by (simp add: comp_def)
  ultimately show ?thesis using one two idle by (auto simp: not_less unat_word_ariths)
qed

text \<open>The scheduler tracer likewise: the records of the tasks on which no two handlers work at a time are
  those of atomic handlers.\<close>

theorem sched_smp_atomic:
  assumes "bpf_hash_elems ops MAX_ENTRIES ok el" "ok m"
    and "cpu_sched (sched_parts ops el) excl (smp_start n (sched_init m)) as = Some (\<sigma>, is)" "all_idle \<sigma>"
  shows "map_lookup_elem ops (wakeup_ts (sm_prog \<sigma>)) =
      map_lookup_elem ops (wakeup_ts (sched_run ops (sched_init m) is)) \<and>
    filter_mset (excl \<circ> sc_pid) (mset (sched_events (sm_prog \<sigma>))) =
      filter_mset (excl \<circ> sc_pid) (mset (sched_events (sched_run ops (sched_init m) is)))"
proof -
  have start: "ok (wakeup_ts (sched_init m))" "sched_events (sched_init m) = []"
    using assms(2) by (simp_all add: sched_init_def)
  note smp = sched_smp [OF assms(1)]
  show ?thesis
    using smp_tracker.smp_table [OF smp start assms(3)] smp_tracker.smp_atomic [OF smp start assms(3,4)]
    by (simp add: sched_run_def)
qed

end
