(* ===== verification/RingMemory.thy ===== *)
theory RingMemory
  imports GoEvents SyscallLatency DiskIo SchedDelay TcpMonitor FdTrack OomTrack
begin

text \<open>
  What a submitted record shows of the ring-buffer memory it was reserved in. \<open>bpf_ringbuf_reserve\<close>
  hands out memory with the bytes of older records; a handler stores the members of its record, and
  \<open>bpf_ringbuf_submit\<close> gives the whole area to user space. A byte no member covers, and a member the
  handler does not set, go out as they were.
\<close>

section \<open>Records are tiled by their members\<close>

text \<open>Stores that follow one another from the given offset on.\<close>

primrec tiles :: "nat \<Rightarrow> (nat \<times> bytes) list \<Rightarrow> bool" where
  "tiles off [] = True"
| "tiles off (s # ss) = (fst s = off \<and> tiles (off + length (snd s)) ss)"

lemma patches_tile:
  "tiles (length p) ss \<Longrightarrow> length (concat (map snd ss)) \<le> length rest \<Longrightarrow>
   fold (\<lambda>(off, v). patch off v) ss (p @ rest) =
     p @ concat (map snd ss) @ drop (length (concat (map snd ss))) rest"
proof (induction ss arbitrary: p rest)
  case Nil
  then show ?case by simp
next
  case (Cons s ss)
  obtain v where s: "s = (length p, v)" using Cons.prems(1) by (cases s) simp
  have "patch (length p) v (p @ rest) = (p @ v) @ drop (length v) rest"
    using Cons.prems(2) s by (simp add: patch_def)
  then show ?case
    using Cons.IH [of "p @ v" "drop (length v) rest"] Cons.prems s by (simp add: add.commute)
qed

lemma cstores_tiled:
  assumes "tiles 0 (map (\<lambda>(f, v). (coffset t f, v)) fvs)" "length mem = length (concat (map snd fvs))"
  shows "cstores t fvs mem = concat (map snd fvs)"
proof -
  have "cstores t fvs mem =
      fold (\<lambda>(off, v). patch off v) (map (\<lambda>(f, v). (coffset t f, v)) fvs) mem"
    by (simp add: cstores_def cstore_def [abs_def] fold_map comp_def case_prod_unfold)
  moreover have names: "map snd (map (\<lambda>(f, v). (coffset t f, v)) fvs) = map snd fvs" by auto
  ultimately show ?thesis
    using patches_tile [of "[]" "map (\<lambda>(f, v). (coffset t f, v)) fvs" mem, unfolded names] assms by simp
qed

text \<open>So an image is the members one after the other, and nothing of the memory under them is left.\<close>

lemmas image_eval = abi_simps event_size kerno_consts

lemma syscall_image_bytes:
  "length mem = csize struct_syscall_event \<Longrightarrow> length (se_comm e) = TASK_COMM_LEN \<Longrightarrow>
   syscall_event_image e mem = le_bytes 8 (se_timestamp_ns e) @ le_bytes 8 (se_latency_ns e) @
     le_bytes 8 (se_cgroup_id e) @ le_bytes 4 (se_pid e) @ le_bytes 4 (se_tid e) @
     le_bytes 4 (se_syscall_nr e) @ le_bytes 4 (se_ret e) @ se_comm e"
  unfolding syscall_event_image_def
  by (subst cstores_tiled) (simp_all add: image_eval)

lemma tcp_image_bytes:
  "length mem = csize struct_tcp_event \<Longrightarrow> length (te_comm e) = TASK_COMM_LEN \<Longrightarrow> length (te_pad e) = 4 \<Longrightarrow>
   tcp_event_image e mem = le_bytes 8 (te_timestamp_ns e) @ le_bytes 8 (te_cgroup_id e) @
     le_bytes 4 (te_pid e) @ le_bytes 4 (te_saddr e) @ le_bytes 4 (te_daddr e) @
     le_bytes 2 (te_sport e) @ le_bytes 2 (te_dport e) @ le_bytes 2 (te_family e) @
     le_bytes 1 (te_event_type e) @ le_bytes 1 (te_state e) @ le_bytes 4 (te_rtt_us e) @
     le_bytes 4 (te_retransmits e) @ te_comm e @ te_pad e"
  unfolding tcp_event_image_def
  by (subst cstores_tiled) (simp_all add: image_eval del: One_nat_def)

lemma oom_image_bytes:
  "length mem = csize struct_oom_event \<Longrightarrow> length (oe_comm e) = TASK_COMM_LEN \<Longrightarrow>
   oom_event_image e mem = le_bytes 8 (oe_timestamp_ns e) @ le_bytes 8 (oe_cgroup_id e) @
     le_bytes 8 (oe_total_pages e) @ le_bytes 8 (oe_rss_pages e) @ le_bytes 4 (oe_pid e) @
     le_bytes 4 (oe_triggered_pid e) @ le_bytes 4 (oe_oom_score e) @ le_bytes 4 (oe_pad e) @ oe_comm e"
  unfolding oom_event_image_def
  by (subst cstores_tiled) (simp_all add: image_eval)

lemma disk_image_bytes:
  "length mem = csize struct_disk_event \<Longrightarrow> length (de_comm e) = TASK_COMM_LEN \<Longrightarrow> length (de_pad e) = 3 \<Longrightarrow>
   disk_event_image e mem = le_bytes 8 (de_timestamp_ns e) @ le_bytes 8 (de_latency_ns e) @
     le_bytes 8 (de_sector e) @ le_bytes 4 (de_dev e) @ le_bytes 4 (de_nr_bytes e) @
     le_bytes 4 (de_pid e) @ le_bytes 1 (de_op e) @ de_pad e @ de_comm e"
  unfolding disk_event_image_def
  by (subst cstores_tiled) (simp_all add: image_eval del: One_nat_def)

lemma sched_image_bytes:
  "length mem = csize struct_sched_event \<Longrightarrow> length (sc_comm e) = TASK_COMM_LEN \<Longrightarrow>
   sched_event_image e mem = le_bytes 8 (sc_timestamp_ns e) @ le_bytes 8 (sc_runq_delay_ns e) @
     le_bytes 8 (sc_cgroup_id e) @ le_bytes 4 (sc_pid e) @ le_bytes 4 (sc_cpu e) @ sc_comm e"
  unfolding sched_event_image_def
  by (subst cstores_tiled) (simp_all add: image_eval)

lemma fd_image_bytes:
  "length mem = csize struct_fd_event \<Longrightarrow> length (fe_comm e) = TASK_COMM_LEN \<Longrightarrow> length (fe_pad e) = 7 \<Longrightarrow>
   fd_event_image e mem = le_bytes 8 (fe_timestamp_ns e) @ le_bytes 8 (fe_cgroup_id e) @
     le_bytes 4 (fe_pid e) @ le_bytes 4 (fe_fd e) @ le_bytes 1 (fe_op e) @ fe_pad e @ fe_comm e"
  unfolding fd_event_image_def
  by (subst cstores_tiled) (simp_all add: image_eval del: One_nat_def)

lemmas image_bytes = syscall_image_bytes tcp_image_bytes oom_image_bytes disk_image_bytes
  sched_image_bytes fd_image_bytes

section \<open>What one invocation discloses\<close>

text \<open>The first \<open>n\<close> bytes of what an invocation submits do not depend on the reserved memory: neither
  on the record \<open>e\<close> it held nor on the bytes \<open>m\<close> under it.\<close>

definition fixed_bytes ::
  "nat \<Rightarrow> ctype \<Rightarrow> ('e \<Rightarrow> bool) \<Rightarrow> ('e \<Rightarrow> bytes \<Rightarrow> bytes) \<Rightarrow> ('e \<Rightarrow> 'e list) \<Rightarrow> bool" where
  "fixed_bytes n t ok img submits \<longleftrightarrow>
     (\<forall>e0 e1 m0 m1. ok e0 \<and> ok e1 \<and> length m0 = csize t \<and> length m1 = csize t \<longrightarrow>
        map (\<lambda>e. take n (img e m0)) (submits e0) = map (\<lambda>e. take n (img e m1)) (submits e1))"

lemma fixed_bytesI:
  assumes "\<And>e0 e1 m0 m1. ok e0 \<Longrightarrow> ok e1 \<Longrightarrow> length m0 = csize t \<Longrightarrow> length m1 = csize t \<Longrightarrow>
    map (\<lambda>e. take n (img e m0)) (submits e0) = map (\<lambda>e. take n (img e m1)) (submits e1)"
  shows "fixed_bytes n t ok img submits"
  using assms unfolding fixed_bytes_def by blast

lemma sys_fixed:
  assumes "helpers_ok env"
  shows "fixed_bytes 56 struct_syscall_event (\<lambda>_. True) syscall_event_image
    (\<lambda>e. syscall_events (sys_step ops (s\<lparr>syscall_events := []\<rparr>) (SysExit env (Some e) ctx)))"
  using assms
  by (intro fixed_bytesI)
    (simp add: sys_handler_defs Let_def image_bytes helper_simps split: option.split)

lemma disk_fixed:
  assumes "helpers_ok env"
  shows "fixed_bytes 56 struct_disk_event (\<lambda>_. True) disk_event_image
    (\<lambda>e. disk_events (disk_step ops (s\<lparr>disk_events := []\<rparr>) (DiskComplete env (Some e) ctx)))"
  using assms
  by (intro fixed_bytesI)
    (simp add: disk_handler_defs Let_def image_bytes helper_simps split: option.split)

lemma sched_fixed:
  assumes "helpers_ok env" "length ctx = csize st_trace_event_raw_sched_switch"
  shows "fixed_bytes 48 struct_sched_event (\<lambda>_. True) sched_event_image
    (\<lambda>e. sched_events (sched_step ops (s\<lparr>sched_events := []\<rparr>) (SchedSwitch env (Some e) ctx)))"
proof -
  have "length (take TASK_COMM_LEN (cload st_trace_event_raw_sched_switch ''next_comm'' ctx)) = TASK_COMM_LEN"
    using assms(2) by (simp add: cload_def st_trace_event_raw_sched_switch_def field_eval kerno_consts)
  then have "length (h_probe env 1 (take TASK_COMM_LEN
      (cload st_trace_event_raw_sched_switch ''next_comm'' ctx))) = TASK_COMM_LEN"
    by (simp only: length_h_probe [OF assms(1)])
  then show ?thesis
    by (intro fixed_bytesI)
      (simp add: sched_handler_defs Let_def image_bytes split: option.split)
qed

lemma fd_fixed:
  assumes "helpers_ok env"
  shows "fixed_bytes 48 struct_fd_event (\<lambda>_. True) fd_event_image (\<lambda>e. fd_emits (FdOpenat env (Some e) ctx))"
    "fixed_bytes 48 struct_fd_event (\<lambda>_. True) fd_event_image (\<lambda>e. fd_emits (FdClose env (Some e) ctx))"
  using assms
  by (intro fixed_bytesI; simp add: fd_emits_def fd_init_def fd_handler_defs Let_def image_bytes helper_simps)+

lemma tcp_fixed:
  assumes "helpers_ok env"
  shows "fixed_bytes 60 struct_tcp_event (\<lambda>e. length (te_pad e) = 4) tcp_event_image
      (\<lambda>e. tcp_emits (TcpRetransmit env (Some e) ctx))"
    "fixed_bytes 60 struct_tcp_event (\<lambda>e. length (te_pad e) = 4) tcp_event_image
      (\<lambda>e. tcp_emits (TcpSetState env (Some e) ctx))"
  using assms
  by (intro fixed_bytesI; simp add: tcp_emit_defs image_bytes helper_simps kerno_consts split: option.split)+

lemma tcp_rest:
  assumes "helpers_ok env" "length (te_pad e0) = 4" "length m = csize struct_tcp_event"
    "e \<in> set (tcp_emits (TcpRetransmit env (Some e0) ctx)) \<union> set (tcp_emits (TcpSetState env (Some e0) ctx))"
  shows "drop 60 (tcp_event_image e m) = te_pad e0"
  using assms
  by (auto simp: tcp_emit_defs image_bytes helper_simps kerno_consts split: option.splits if_splits)

text \<open>The documented behaviour of \<open>bpf_probe_read_kernel_str\<close>: it copies the string and its terminator and
  does not pad the rest of the target. \<open>name a\<close> is the string at the address \<open>a\<close>.\<close>

definition str_copied :: "bpf_env \<Rightarrow> (u64 \<Rightarrow> bytes) \<Rightarrow> bool" where
  "str_copied env name \<longleftrightarrow>
     (\<forall>a bs. length bs = TASK_COMM_LEN \<longrightarrow> length (name a) < TASK_COMM_LEN \<and>
        h_core_read_str env a bs = name a @ 0 # drop (Suc (length (name a))) bs)"

text \<open>The address of the name of the process chosen to be killed.\<close>

definition victim_comm :: "bpf_env \<Rightarrow> bytes \<Rightarrow> u64" where
  "victim_comm env regs =
     core_addr st_task_struct
       (BPF_CORE_READ env st_oom_control (ctx_load st_pt_regs ''di'' regs) ''chosen'') ''comm''"

lemma str_copiedD:
  assumes "str_copied env name"
  shows "length (name a) < TASK_COMM_LEN"
    "length bs = TASK_COMM_LEN \<Longrightarrow>
      h_core_read_str env a bs = name a @ 0 # drop (Suc (length (name a))) bs"
    "Suc (length (name a) + (TASK_COMM_LEN - Suc (length (name a)))) = TASK_COMM_LEN"
proof -
  show bound: "length (name a) < TASK_COMM_LEN"
    using assms [unfolded str_copied_def, rule_format, of "replicate TASK_COMM_LEN 0" a] by simp
  show "length bs = TASK_COMM_LEN \<Longrightarrow>
      h_core_read_str env a bs = name a @ 0 # drop (Suc (length (name a))) bs"
    using assms unfolding str_copied_def by blast
  show "Suc (length (name a) + (TASK_COMM_LEN - Suc (length (name a)))) = TASK_COMM_LEN"
    using bound by simp
qed

lemma oom_fixed:
  assumes "str_copied env name"
  shows "fixed_bytes (49 + length (name (victim_comm env regs))) struct_oom_event
    (\<lambda>e. length (oe_comm e) = TASK_COMM_LEN) oom_event_image (\<lambda>e. oom_emits env (Some e) regs)"
  by (intro fixed_bytesI)
    (simp add: oom_emits_def kprobe_oom_kill_def Let_def image_bytes victim_comm_def [symmetric]
      str_copiedD [OF assms])

lemma oom_rest:
  assumes "str_copied env name" "length (oe_comm e0) = TASK_COMM_LEN" "length m = csize struct_oom_event"
    "e \<in> set (oom_emits env (Some e0) regs)"
  shows "drop (49 + length (name (victim_comm env regs))) (oom_event_image e m) =
    drop (Suc (length (name (victim_comm env regs)))) (oe_comm e0)"
  using assms(2-)
  by (auto simp: oom_emits_def kprobe_oom_kill_def Let_def image_bytes victim_comm_def [symmetric]
      str_copiedD [OF assms(1)] split: if_splits)

section \<open>The property\<close>

text \<open>C40: What user space sees of ring-buffer memory that is not its record. Whatever the reserved area held, the
  bytes a system call exit, a block completion, a context switch, a successful open and a close submit
  are the same to the last one: their six handlers set every member, explicit padding included, and the members of each
  structure lie without a gap. A TCP record is fixed up to its last four bytes, which no handler sets:
  there the old content goes out. An OOM record is fixed up to the terminator of the victim's name; the
  rest of the name field, which the string copy does not pad, goes out as it was.
\<close>

theorem ring_memory_disclosed:
  assumes "helpers_ok env" "str_copied env name" "length switch = csize st_trace_event_raw_sched_switch"
    and "len = length (name (victim_comm env regs))"
  shows "fixed_bytes (csize struct_syscall_event) struct_syscall_event (\<lambda>_. True) syscall_event_image
      (\<lambda>e. syscall_events (sys_step ops1 (s1\<lparr>syscall_events := []\<rparr>) (SysExit env (Some e) ctx))) \<and>
    fixed_bytes (csize struct_disk_event) struct_disk_event (\<lambda>_. True) disk_event_image
      (\<lambda>e. disk_events (disk_step ops2 (s2\<lparr>disk_events := []\<rparr>) (DiskComplete env (Some e) ctx))) \<and>
    fixed_bytes (csize struct_sched_event) struct_sched_event (\<lambda>_. True) sched_event_image
      (\<lambda>e. sched_events (sched_step ops3 (s3\<lparr>sched_events := []\<rparr>) (SchedSwitch env (Some e) switch))) \<and>
    fixed_bytes (csize struct_fd_event) struct_fd_event (\<lambda>_. True) fd_event_image
      (\<lambda>e. fd_emits (FdOpenat env (Some e) ctx)) \<and>
    fixed_bytes (csize struct_fd_event) struct_fd_event (\<lambda>_. True) fd_event_image
      (\<lambda>e. fd_emits (FdClose env (Some e) ctx)) \<and>
    fixed_bytes 60 struct_tcp_event (\<lambda>e. length (te_pad e) = 4) tcp_event_image
      (\<lambda>e. tcp_emits (TcpRetransmit env (Some e) ctx)) \<and>
    fixed_bytes 60 struct_tcp_event (\<lambda>e. length (te_pad e) = 4) tcp_event_image
      (\<lambda>e. tcp_emits (TcpSetState env (Some e) ctx)) \<and>
    (\<forall>e0 e m. length (te_pad e0) = 4 \<and> length m = csize struct_tcp_event \<and>
        e \<in> set (tcp_emits (TcpRetransmit env (Some e0) ctx)) \<union> set (tcp_emits (TcpSetState env (Some e0) ctx)) \<longrightarrow>
      drop 60 (tcp_event_image e m) = te_pad e0) \<and>
    fixed_bytes (49 + len) struct_oom_event (\<lambda>e. length (oe_comm e) = TASK_COMM_LEN) oom_event_image
      (\<lambda>e. oom_emits env (Some e) regs) \<and>
    (\<forall>e0 e m. length (oe_comm e0) = TASK_COMM_LEN \<and> length m = csize struct_oom_event \<and>
        e \<in> set (oom_emits env (Some e0) regs) \<longrightarrow>
      drop (49 + len) (oom_event_image e m) = drop (Suc len) (oe_comm e0))"
proof -
  have "\<forall>e0 e m. length (te_pad e0) = 4 \<and> length m = csize struct_tcp_event \<and>
      e \<in> set (tcp_emits (TcpRetransmit env (Some e0) ctx)) \<union> set (tcp_emits (TcpSetState env (Some e0) ctx)) \<longrightarrow>
      drop 60 (tcp_event_image e m) = te_pad e0"
    using tcp_rest [OF assms(1)] by blast
  moreover have "\<forall>e0 e m. length (oe_comm e0) = TASK_COMM_LEN \<and> length m = csize struct_oom_event \<and>
      e \<in> set (oom_emits env (Some e0) regs) \<longrightarrow> drop (49 + len) (oom_event_image e m) = drop (Suc len) (oe_comm e0)"
    unfolding assms(4) using oom_rest [OF assms(2)] by blast
  ultimately show ?thesis
    unfolding event_size(1,4,5,6) assms(4)
    by (intro conjI sys_fixed disk_fixed sched_fixed fd_fixed tcp_fixed oom_fixed assms)
qed

text \<open>A victim named \<open>db\<close>: thirteen bytes of an older record reach user space behind its name.\<close>

definition str_env :: bpf_env where
  "str_env = (demo_env 7 1000)\<lparr>h_core_read_str := \<lambda>_ bs. take (length bs) ([100, 98, 0] @ drop 3 bs)\<rparr>"

definition stale_oom :: oom_event where
  "stale_oom = \<lparr>oe_timestamp_ns = 0, oe_cgroup_id = 0, oe_total_pages = 0, oe_rss_pages = 0, oe_pid = 0,
     oe_triggered_pid = 0, oe_oom_score = 0, oe_pad = 0, oe_comm = replicate TASK_COMM_LEN 115\<rparr>"

theorem ring_memory_disclosed_witness:
  "map (\<lambda>e. drop 51 (oom_event_image e (replicate 64 0)))
     (oom_emits str_env (Some stale_oom) (replicate 168 1)) = [replicate 13 115]"
proof -
  have env: "helpers_ok str_env" by (simp add: str_env_def demo_env_def helpers_ok_def)
  have str: "str_copied str_env (\<lambda>_. [100, 98])"
    by (simp add: str_env_def str_copied_def kerno_consts take_Cons' numeral_3_eq_3)
  have "replicate 8 1 = [1, 1, 1, 1, 1, 1, 1, 1 :: u8]" by (simp add: numeral_eq_Suc)
  then have "BPF_CORE_READ str_env st_oom_control p ''chosen'' \<noteq> (0 :: u64)" for p
    by (simp add: oom_core_reads str_env_def helper_simps le_word_def)
  then obtain e where e: "oom_emits str_env (Some stale_oom) (replicate 168 1) = [e]"
    by (simp add: oom_emits_def kprobe_oom_kill_def Let_def)
  have "length (replicate 64 (0 :: u8)) = csize st_trace_event_raw_sched_switch" by (simp add: layout_simps)
  note all = ring_memory_disclosed [OF env str this refl, where regs = "replicate 168 1" and ctx = "[]"
      and ?ops1.0 = "khash 1" and ?s1.0 = "sys_init []" and ?ops2.0 = "khash 1" and ?s2.0 = "disk_init []"
      and ?ops3.0 = "khash 1" and ?s3.0 = "sched_init []"]
  have "\<forall>e0 e m. length (oe_comm e0) = TASK_COMM_LEN \<and> length m = csize struct_oom_event \<and>
      e \<in> set (oom_emits str_env (Some e0) (replicate 168 1)) \<longrightarrow>
      drop (49 + length [100, 98 :: u8]) (oom_event_image e m) = drop (Suc (length [100, 98 :: u8])) (oe_comm e0)"
    using all by (elim conjE)
  then have "drop (49 + length [100, 98 :: u8]) (oom_event_image e (replicate 64 0)) =
      drop (Suc (length [100, 98 :: u8])) (oe_comm stale_oom)"
    by (rule allE [of _ stale_oom], elim allE [of _ e] allE [of _ "replicate 64 0"] mp)
      (simp add: e event_size, simp add: stale_oom_def)
  then show ?thesis by (simp add: e) (simp add: stale_oom_def kerno_consts)
qed

end
