(* ===== verification/Live.thy ===== *)
theory Live
  imports AiAnalyzer Pipeline
begin

text \<open>
  The live commands \<open>kerno watch\<close> and \<open>kerno trace\<close> (\<open>internal/cli/watch_fd.go\<close>, \<open>watch_tcp.go\<close>,
  \<open>watch_oom.go\<close>, \<open>trace_syscall.go\<close>, \<open>trace_disk.go\<close>, \<open>trace_sched.go\<close>): the windows that are
  aggregated and replaced at every tick of the clock, the entries shown for a window, the percentiles,
  and the filters of the streams. How an entry is printed is not modelled.
\<close>

section \<open>Windows\<close>

text \<open>What happens to an aggregating command: a sample arrives, or the ticker fires and the aggregate
  is replaced by an empty one and shown. Go ranges over the map in any order, given with the tick.\<close>

datatype 'k live_input = Arrive bytes | Tick "'k list"

fun watch_run ::
  "('a \<Rightarrow> bytes \<Rightarrow> 'a) \<Rightarrow> 'a \<Rightarrow> ('k list \<Rightarrow> 'a \<Rightarrow> 'o) \<Rightarrow> 'a \<Rightarrow> 'k live_input list \<Rightarrow> 'o list" where
  "watch_run event agg0 show_entries agg [] = []"
| "watch_run event agg0 show_entries agg (Arrive raw # is) =
     watch_run event agg0 show_entries (event agg raw) is"
| "watch_run event agg0 show_entries agg (Tick order # is) =
     show_entries order agg # watch_run event agg0 show_entries agg0 is"

text \<open>The samples of each completed window, with the order of its tick.\<close>

fun live_windows :: "bytes list \<Rightarrow> 'k live_input list \<Rightarrow> ('k list \<times> bytes list) list" where
  "live_windows acc [] = []"
| "live_windows acc (Arrive raw # is) = live_windows (acc @ [raw]) is"
| "live_windows acc (Tick order # is) = (order, acc) # live_windows [] is"

primrec arrivals :: "'k live_input list \<Rightarrow> bytes list" where
  "arrivals [] = []"
| "arrivals (i # is) = (case i of Arrive raw \<Rightarrow> [raw] | Tick order \<Rightarrow> []) @ arrivals is"

lemma watch_run_windows:
  "watch_run event agg0 show_entries (foldl event agg0 acc) is =
     map (\<lambda>(order, raws). show_entries order (foldl event agg0 raws)) (live_windows acc is)"
proof (induction acc "is" rule: live_windows.induct)
  case (2 acc raw "is")
  then show ?case by simp
next
  case (3 acc order "is")
  then show ?case by simp
qed simp

text \<open>No sample is lost or counted twice between two windows.\<close>

lemma live_windows_partition:
  "\<exists>rest. acc @ arrivals is = concat (map snd (live_windows acc is)) @ rest"
  by (induction acc "is" rule: live_windows.induct) auto

section \<open>Percentiles\<close>

text \<open>\<open>percentile\<close> of \<open>trace_syscall.go\<close>; the list is not empty where it is indexed.\<close>

definition percentile ::
  "((int \<Rightarrow> int \<Rightarrow> bool) \<Rightarrow> int list \<Rightarrow> int list) \<Rightarrow> int list \<Rightarrow> nat \<Rightarrow> int" where
  "percentile sort_Slice data p =
     (if data = [] then 0
      else let sorted = sort_Slice (\<lambda>x y. x < y) data;
               idx = length sorted * p div 100;
               idx = (if length sorted \<le> idx then length sorted - 1 else idx)
           in sorted ! idx)"

lemma sort_slice_sort:
  assumes "sort_slice_ok sort_Slice"
  shows "sort_Slice (\<lambda>x y. x < y) xs = sort (xs :: int list)"
proof -
  have "strict_weak (\<lambda>x y :: int. x < y)" by (auto simp: strict_weak_def)
  then have "sorted_wrt (\<lambda>x y. \<not> y < x) (sort_Slice (\<lambda>x y. x < y) xs)"
    "mset (sort_Slice (\<lambda>x y. x < y) xs) = mset xs"
    using assms by (simp_all add: sort_slice_ok_def)
  moreover from this(1) have "sorted (sort_Slice (\<lambda>x y. x < y) xs)"
    by (rule sorted_wrt_mono_rel [rotated]) simp
  ultimately show ?thesis by (metis properties_for_sort)
qed

lemma percentile_sort:
  assumes "sort_slice_ok sort_Slice" "xs \<noteq> []"
  shows "percentile sort_Slice xs p = sort xs ! min (length xs * p div 100) (length xs - 1)"
  using assms by (auto simp: percentile_def sort_slice_sort Let_def min_def)

lemma sorted_ranks:
  assumes "sorted ys" "k < length ys"
  shows "length (filter (\<lambda>y. y < ys ! k) ys) \<le> k" "k < length (filter (\<lambda>y. y \<le> ys ! k) (ys :: int list))"
proof -
  have split: "ys = take k ys @ drop k ys" by simp
  have "filter (\<lambda>y. y < ys ! k) (drop k ys) = []"
    using assms by (auto simp: filter_empty_conv in_set_conv_nth not_less sorted_nth_mono)
  then have "length (filter (\<lambda>y. y < ys ! k) ys) = length (filter (\<lambda>y. y < ys ! k) (take k ys))"
    by (metis split append_Nil2 filter_append)
  also have "\<dots> \<le> k" by (metis length_filter_le length_take min.bounded_iff)
  finally show "length (filter (\<lambda>y. y < ys ! k) ys) \<le> k" .
  have "filter (\<lambda>y. y \<le> ys ! k) (take (Suc k) ys) = take (Suc k) ys"
    using assms by (auto simp: filter_id_conv in_set_conv_nth sorted_nth_mono)
  moreover have "filter (\<lambda>y. y \<le> ys ! k) ys =
      filter (\<lambda>y. y \<le> ys ! k) (take (Suc k) ys) @ filter (\<lambda>y. y \<le> ys ! k) (drop (Suc k) ys)"
    by (metis append_take_drop_id filter_append)
  ultimately show "k < length (filter (\<lambda>y. y \<le> ys ! k) ys)" using assms(2) by simp
qed

lemma filter_sort_length: "length (filter P (sort xs)) = length (filter P xs)"
  by (metis mset_filter mset_sort size_mset)

section \<open>\<open>kerno watch fd\<close>\<close>

record fdProcStats =
  Fs_Opens :: u64
  Fs_Closes :: u64

type_synonym fd_agg = "(u32 \<times> bytes) \<rightharpoonup> fdProcStats"

definition fd_watch_event :: "fd_agg \<Rightarrow> bytes \<Rightarrow> fd_agg" where
  "fd_watch_event agg raw =
     (case DecodeFDEvent raw of
        Inl err \<Rightarrow> agg
      | Inr event \<Rightarrow>
          (let key = (FE_PID event, nullTermString (FE_Comm event));
               stats = (case agg key of None \<Rightarrow> \<lparr>Fs_Opens = 0, Fs_Closes = 0\<rparr> | Some stats \<Rightarrow> stats);
               stats = (if FE_Op event = 1 then stats\<lparr>Fs_Opens := Fs_Opens stats + 1\<rparr>
                        else if FE_Op event = 2 then stats\<lparr>Fs_Closes := Fs_Closes stats + 1\<rparr>
                        else stats)
           in agg(key \<mapsto> stats)))"

record fdSummaryEntry =
  Fx_Key :: "u32 \<times> bytes"
  Fx_Opens :: u64
  Fx_Closes :: u64
  Fx_NetDelta :: int
  Fx_GrowthRate :: rat

definition fd_summary_entry :: "int \<Rightarrow> u32 \<times> bytes \<Rightarrow> fdProcStats \<Rightarrow> fdSummaryEntry" where
  "fd_summary_entry interval key stats =
     (let netDelta = sint (Fs_Opens stats - Fs_Closes stats)
      in \<lparr>Fx_Key = key, Fx_Opens = Fs_Opens stats, Fx_Closes = Fs_Closes stats, Fx_NetDelta = netDelta,
          Fx_GrowthRate = f64 (f64 (of_int netDelta) / go_Seconds interval)\<rparr>)"

definition fdx_less :: "fdSummaryEntry \<Rightarrow> fdSummaryEntry \<Rightarrow> bool" where
  "fdx_less a b \<longleftrightarrow> Fx_GrowthRate b < Fx_GrowthRate a"

definition computeFDEntries ::
  "((fdSummaryEntry \<Rightarrow> fdSummaryEntry \<Rightarrow> bool) \<Rightarrow> fdSummaryEntry list \<Rightarrow> fdSummaryEntry list) \<Rightarrow>
   int \<Rightarrow> rat \<Rightarrow> (u32 \<times> bytes) list \<Rightarrow> fd_agg \<Rightarrow> fdSummaryEntry list" where
  "computeFDEntries sort_Slice interval threshold order agg =
     sort_Slice fdx_less
       (filter (\<lambda>e. \<not> Fx_GrowthRate e < threshold)
          (map (\<lambda>key. fd_summary_entry interval key (the (agg key))) order))"

definition runWatchFD ::
  "((fdSummaryEntry \<Rightarrow> fdSummaryEntry \<Rightarrow> bool) \<Rightarrow> fdSummaryEntry list \<Rightarrow> fdSummaryEntry list) \<Rightarrow>
   int \<Rightarrow> rat \<Rightarrow> (u32 \<times> bytes) live_input list \<Rightarrow> fdSummaryEntry list list" where
  "runWatchFD sort_Slice interval threshold is =
     watch_run fd_watch_event Map.empty (computeFDEntries sort_Slice interval threshold) Map.empty is"

text \<open>The events of a process in a window, and what the command should count for it.\<close>

definition fdx_events :: "bytes list \<Rightarrow> u32 \<times> bytes \<Rightarrow> FDEvent list" where
  "fdx_events raws key =
     filter (\<lambda>e. (FE_PID e, nullTermString (FE_Comm e)) = key) (consumed DecodeFDEvent raws)"

definition fdx_count :: "u8 \<Rightarrow> FDEvent list \<Rightarrow> nat" where
  "fdx_count op es = length (filter (\<lambda>e. FE_Op e = op) es)"

definition fdx_stats :: "FDEvent list \<Rightarrow> fdProcStats" where
  "fdx_stats es = \<lparr>Fs_Opens = of_nat (fdx_count 1 es), Fs_Closes = of_nat (fdx_count 2 es)\<rparr>"

lemma consumed_Nil: "consumed decode [] = []"
  by (simp add: consumed_def)

lemma consumed_snoc:
  "consumed decode (raws @ [raw]) =
     consumed decode raws @ (case decode raw of Inl err \<Rightarrow> [] | Inr event \<Rightarrow> [event])"
  by (simp add: consumed_def)

lemma fd_watch_fold:
  "foldl fd_watch_event Map.empty raws key =
     (if fdx_events raws key = [] then None else Some (fdx_stats (fdx_events raws key)))"
proof (induction raws rule: rev_induct)
  case Nil
  then show ?case by (simp add: fdx_events_def consumed_def)
next
  case (snoc raw raws)
  show ?case
  proof (cases "DecodeFDEvent raw")
    case (Inl err)
    then have "fdx_events (raws @ [raw]) key = fdx_events raws key"
      by (simp add: fdx_events_def consumed_snoc)
    with Inl snoc show ?thesis by (simp add: fd_watch_event_def)
  next
    case (Inr e)
    then have ev: "fdx_events (raws @ [raw]) key = fdx_events raws key @
        (if (FE_PID e, nullTermString (FE_Comm e)) = key then [e] else [])"
      by (simp add: fdx_events_def consumed_snoc)
    show ?thesis
    proof (cases "(FE_PID e, nullTermString (FE_Comm e)) = key")
      case True
      with Inr ev snoc show ?thesis
        by (simp add: fd_watch_event_def fdx_stats_def fdx_count_def Let_def)
    next
      case False
      with Inr ev snoc show ?thesis by (simp add: fd_watch_event_def Let_def)
    qed
  qed
qed

lemma strict_weak_fdx: "strict_weak fdx_less"
  by (auto simp: strict_weak_def fdx_less_def)

text \<open>What a window should show: every process whose descriptors grow at the threshold or faster, once,
  with the counts of the window, fastest first.\<close>

definition fd_window_ok :: "int \<Rightarrow> rat \<Rightarrow> fdSummaryEntry list \<Rightarrow> bytes list \<Rightarrow> bool" where
  "fd_window_ok interval threshold shown raws \<longleftrightarrow>
     sorted_wrt (\<lambda>a b. Fx_GrowthRate b \<le> Fx_GrowthRate a) shown \<and> distinct (map Fx_Key shown) \<and>
     (\<forall>e. e \<in> set shown \<longleftrightarrow> threshold \<le> Fx_GrowthRate e \<and> fdx_events raws (Fx_Key e) \<noteq> [] \<and>
        e = fd_summary_entry interval (Fx_Key e) (fdx_stats (fdx_events raws (Fx_Key e))))"

definition fdx_processes :: "bytes list \<Rightarrow> (u32 \<times> bytes) set" where
  "fdx_processes raws = (\<lambda>e. (FE_PID e, nullTermString (FE_Comm e))) ` set (consumed DecodeFDEvent raws)"

lemma computeFDEntries_ok:
  assumes "sort_slice_ok sort_Slice" "distinct order" "set order = fdx_processes raws"
  shows "fd_window_ok interval threshold
    (computeFDEntries sort_Slice interval threshold order (foldl fd_watch_event Map.empty raws)) raws"
proof -
  let ?entry = "\<lambda>key. fd_summary_entry interval key (fdx_stats (fdx_events raws key))"
  let ?agg = "foldl fd_watch_event Map.empty raws"
  define es where "es = filter (\<lambda>e. \<not> Fx_GrowthRate e < threshold)
    (map (\<lambda>key. fd_summary_entry interval key (the (?agg key))) order)"
  have mem: "key \<in> set order \<longleftrightarrow> fdx_events raws key \<noteq> []" for key
    unfolding assms(3) by (auto simp: fdx_processes_def fdx_events_def filter_empty_conv)
  then have m: "map (\<lambda>key. fd_summary_entry interval key (the (?agg key))) order = map ?entry order"
    by (intro map_cong refl) (simp add: fd_watch_fold)
  have es: "es = filter (\<lambda>e. \<not> Fx_GrowthRate e < threshold) (map ?entry order)"
    by (simp only: es_def m)
  have key: "Fx_Key (fd_summary_entry interval k st) = k" for k st
    by (simp add: fd_summary_entry_def Let_def)
  have set: "e \<in> set es \<longleftrightarrow> threshold \<le> Fx_GrowthRate e \<and> fdx_events raws (Fx_Key e) \<noteq> [] \<and>
      e = ?entry (Fx_Key e)" for e
  proof
    assume "e \<in> set es"
    then obtain k where "k \<in> set order" "e = ?entry k" "threshold \<le> Fx_GrowthRate e"
      unfolding es by auto
    then show "threshold \<le> Fx_GrowthRate e \<and> fdx_events raws (Fx_Key e) \<noteq> [] \<and> e = ?entry (Fx_Key e)"
      by (simp add: key mem)
  next
    assume e: "threshold \<le> Fx_GrowthRate e \<and> fdx_events raws (Fx_Key e) \<noteq> [] \<and> e = ?entry (Fx_Key e)"
    then have "Fx_Key e \<in> set order" and eq: "e = ?entry (Fx_Key e)" by (simp_all only: mem simp_thms)
    then have "?entry (Fx_Key e) \<in> ?entry ` set order" by (rule_tac imageI)
    then have "e \<in> ?entry ` set order" unfolding eq [symmetric] .
    with e show "e \<in> set es" unfolding es by simp
  qed
  have "distinct (map Fx_Key (map ?entry order))" using assms(2) by (simp add: o_def key)
  then have dist: "distinct (map Fx_Key es)" unfolding es by (rule distinct_map_filter)
  have sl: "mset (sort_Slice fdx_less es) = mset es"
    "sorted_wrt (\<lambda>x y. \<not> fdx_less y x) (sort_Slice fdx_less es)"
    using assms(1) strict_weak_fdx by (simp_all add: sort_slice_ok_def)
  have "distinct (map Fx_Key (sort_Slice fdx_less es))"
    using dist mset_eq_imp_distinct_iff [OF arg_cong [OF sl(1), of "image_mset Fx_Key", folded mset_map]]
    by simp
  moreover have "set (sort_Slice fdx_less es) = set es" using sl(1) by (metis set_mset_mset)
  moreover have "sorted_wrt (\<lambda>a b. Fx_GrowthRate b \<le> Fx_GrowthRate a) (sort_Slice fdx_less es)"
    using sl(2) by (rule sorted_wrt_mono_rel [rotated]) (simp add: fdx_less_def not_less)
  ultimately show ?thesis
    unfolding fd_window_ok_def computeFDEntries_def es_def [symmetric] by (simp only: set simp_thms)
qed

section \<open>\<open>kerno watch tcp\<close>\<close>

record tcpConnStats =
  Ts_RTTs :: "int list"
  Ts_Retransmits :: u32
  Ts_EventCount :: u64

type_synonym live_conn = "string \<times> string \<times> u16 \<times> u16 \<times> bytes"
type_synonym tcp_agg = "live_conn \<rightharpoonup> tcpConnStats"

definition maxRTTSamples :: nat where "maxRTTSamples = 10000"

definition event_RTT :: "TCPEvent \<Rightarrow> int" where
  "event_RTT event = int (unat (TE_RTTUs event)) * 1000"

definition tcp_watch_event :: "tcp_agg \<Rightarrow> bytes \<Rightarrow> tcp_agg" where
  "tcp_watch_event agg raw =
     (case DecodeTCPEvent raw of
        Inl err \<Rightarrow> agg
      | Inr event \<Rightarrow>
          (let key = (ip_string (SrcAddr event), ip_string (DstAddr event), TE_SPort event,
                 TE_DPort event, nullTermString (TE_Comm event));
               stats = (case agg key of
                   None \<Rightarrow> \<lparr>Ts_RTTs = [], Ts_Retransmits = 0, Ts_EventCount = 0\<rparr>
                 | Some stats \<Rightarrow> stats);
               stats = stats\<lparr>Ts_EventCount := Ts_EventCount stats + 1\<rparr>;
               stats = (if TE_EventType event = 3
                 then stats\<lparr>Ts_Retransmits := Ts_Retransmits stats + TE_Retransmits event\<rparr> else stats);
               stats = (if 0 < TE_RTTUs event \<and> length (Ts_RTTs stats) < maxRTTSamples
                 then stats\<lparr>Ts_RTTs := Ts_RTTs stats @ [event_RTT event]\<rparr> else stats)
           in agg(key \<mapsto> stats)))"

record tcpSummaryEntry =
  Tx_Key :: live_conn
  Tx_Stats :: tcpConnStats
  Tx_RTTP50 :: int
  Tx_RTTP99 :: int

record watchTCPOpts =
  Wt_retransmits :: bool
  Wt_thresholdRTT :: int

definition tx_less :: "tcpSummaryEntry \<Rightarrow> tcpSummaryEntry \<Rightarrow> bool" where
  "tx_less a b =
     (if Ts_Retransmits (Tx_Stats a) \<noteq> Ts_Retransmits (Tx_Stats b)
      then Ts_Retransmits (Tx_Stats b) < Ts_Retransmits (Tx_Stats a)
      else Tx_RTTP99 b < Tx_RTTP99 a)"

definition tcp_summary_entry ::
  "((int \<Rightarrow> int \<Rightarrow> bool) \<Rightarrow> int list \<Rightarrow> int list) \<Rightarrow> watchTCPOpts \<Rightarrow> live_conn \<Rightarrow> tcpConnStats \<Rightarrow>
   tcpSummaryEntry list" where
  "tcp_summary_entry sort_Ints opts key stats =
     (let p50 = percentile sort_Ints (Ts_RTTs stats) 50; p99 = percentile sort_Ints (Ts_RTTs stats) 99
      in if Wt_retransmits opts \<and> Ts_Retransmits stats = 0 then []
         else if 0 < Wt_thresholdRTT opts \<and> p99 < Wt_thresholdRTT opts then []
         else [\<lparr>Tx_Key = key, Tx_Stats = stats, Tx_RTTP50 = p50, Tx_RTTP99 = p99\<rparr>])"

definition filterTCPEntries ::
  "((int \<Rightarrow> int \<Rightarrow> bool) \<Rightarrow> int list \<Rightarrow> int list) \<Rightarrow>
   ((tcpSummaryEntry \<Rightarrow> tcpSummaryEntry \<Rightarrow> bool) \<Rightarrow> tcpSummaryEntry list \<Rightarrow> tcpSummaryEntry list) \<Rightarrow>
   watchTCPOpts \<Rightarrow> live_conn list \<Rightarrow> tcp_agg \<Rightarrow> tcpSummaryEntry list" where
  "filterTCPEntries sort_Ints sort_Slice opts order agg =
     sort_Slice tx_less
       (concat (map (\<lambda>key. case agg key of None \<Rightarrow> [] | Some stats \<Rightarrow> tcp_summary_entry sort_Ints opts key stats)
          order))"

definition runWatchTCP ::
  "((int \<Rightarrow> int \<Rightarrow> bool) \<Rightarrow> int list \<Rightarrow> int list) \<Rightarrow>
   ((tcpSummaryEntry \<Rightarrow> tcpSummaryEntry \<Rightarrow> bool) \<Rightarrow> tcpSummaryEntry list \<Rightarrow> tcpSummaryEntry list) \<Rightarrow>
   watchTCPOpts \<Rightarrow> live_conn live_input list \<Rightarrow> tcpSummaryEntry list list" where
  "runWatchTCP sort_Ints sort_Slice opts is =
     watch_run tcp_watch_event Map.empty (filterTCPEntries sort_Ints sort_Slice opts) Map.empty is"

lemma tcp_watch_skip: "DecodeTCPEvent raw = Inl err \<Longrightarrow> tcp_watch_event agg raw = agg"
  by (simp add: tcp_watch_event_def)

lemma tcp_watch_step_no_rtt:
  assumes "DecodeTCPEvent raw = Inr e" "TE_RTTUs e = 0"
    and "\<And>k st. agg k = Some st \<Longrightarrow> Ts_RTTs st = []" "tcp_watch_event agg raw key = Some stats"
  shows "Ts_RTTs stats = []"
  using assms by (auto simp: tcp_watch_event_def Let_def split: if_splits option.splits)

lemma tcp_watch_no_rtt:
  assumes "\<forall>e \<in> set (consumed DecodeTCPEvent raws). TE_RTTUs e = 0"
    and "foldl tcp_watch_event Map.empty raws key = Some stats"
  shows "Ts_RTTs stats = []"
  using assms
proof (induction raws arbitrary: key stats rule: rev_induct)
  case Nil
  then show ?case by simp
next
  case (snoc raw raws)
  have old: "Ts_RTTs st = []" if "foldl tcp_watch_event Map.empty raws k = Some st" for k st
    using snoc.IH that snoc.prems(1) by (simp add: consumed_snoc)
  show ?case
  proof (cases "DecodeTCPEvent raw")
    case (Inl err)
    with snoc.prems(2) old show ?thesis by (simp add: tcp_watch_skip)
  next
    case (Inr e)
    with snoc.prems(1) have "TE_RTTUs e = 0" by (simp add: consumed_snoc)
    from tcp_watch_step_no_rtt [OF Inr this old] snoc.prems(2) show ?thesis by simp
  qed
qed

lemma filterTCP_no_rtt:
  assumes "sort_slice_ok sort_Slice" "0 < Wt_thresholdRTT opts"
    and "\<And>key stats. agg key = Some stats \<Longrightarrow> Ts_RTTs stats = []"
  shows "filterTCPEntries sort_Ints sort_Slice opts order agg = []"
proof -
  have "tcp_summary_entry sort_Ints opts key stats = []" if "agg key = Some stats" for key stats
    using assms(2) assms(3) [OF that] by (simp add: tcp_summary_entry_def percentile_def)
  then have none: "concat (map (\<lambda>key. case agg key of None \<Rightarrow> []
      | Some stats \<Rightarrow> tcp_summary_entry sort_Ints opts key stats) order) = []"
    by (auto split: option.splits)
  have "mset (sort_Slice tx_less []) = mset []" using assms(1) by (simp only: sort_slice_ok_def)
  then show ?thesis unfolding filterTCPEntries_def none by simp
qed

text \<open>With a threshold on the round-trip time \<open>watch tcp\<close> shows nothing, whatever the kernel program
  submits: no record carries one.\<close>

theorem watch_tcp_threshold_silent:
  assumes "list_all tcp_input_ok hooks" "es = tcp_events (tcp_run tcp_init hooks)"
    and "length mems = length es" "list_all (\<lambda>m. length m = csize struct_tcp_event) mems"
    and "arrivals is = map2 tcp_event_image es mems"
    and "sort_slice_ok sort_Slice" "0 < Wt_thresholdRTT opts"
  shows "set (runWatchTCP sort_Ints sort_Slice opts is) \<subseteq> {[]}"
proof
  have obs: "consumed DecodeTCPEvent (arrivals is) = map tcp_go_event es"
    using tcp_observed_run [OF assms(1-4)] assms(5) by (simp add: tcp_observed_def)
  have "te_rtt_us e = 0" if "e \<in> set es" for e
    using that assms(2) tcp_emits_fields by (auto simp: tcp_run_events tcp_init_def)
  then have rtt: "TE_RTTUs e = 0" if "e \<in> set (consumed DecodeTCPEvent (arrivals is))" for e
    using that unfolding obs by (auto simp: tcp_go_event_def)
  obtain rest where part: "arrivals is = concat (map snd (live_windows [] is)) @ rest"
    using live_windows_partition [of "[]" "is"] by auto
  fix shown assume "shown \<in> set (runWatchTCP sort_Ints sort_Slice opts is)"
  then obtain order raws where w: "(order, raws) \<in> set (live_windows [] is)"
    and shown: "shown = filterTCPEntries sort_Ints sort_Slice opts order (foldl tcp_watch_event Map.empty raws)"
    unfolding runWatchTCP_def watch_run_windows [of tcp_watch_event Map.empty _ "[]", unfolded foldl.simps]
    by auto
  have "set (consumed DecodeTCPEvent raws) \<subseteq> set (consumed DecodeTCPEvent (arrivals is))"
    unfolding part using w by (force simp: consumed_def)
  with rtt have "\<forall>e \<in> set (consumed DecodeTCPEvent raws). TE_RTTUs e = 0" by blast
  then have "shown = []"
    unfolding shown by (intro filterTCP_no_rtt [OF assms(6,7)] tcp_watch_no_rtt)
  then show "shown \<in> {[]}" by simp
qed

section \<open>\<open>kerno trace\<close> and \<open>kerno watch oom\<close>\<close>

text \<open>\<open>strconv.Atoi\<close>, and \<open>strings.EqualFold\<close> on ASCII.\<close>

definition Atoi :: "string \<Rightarrow> int option" where
  "Atoi s =
     (let neg = (take 1 s = ''-''); ds = (if take 1 s = ''-'' \<or> take 1 s = ''+'' then drop 1 s else s);
          n = (if neg then - int (digits_value ds) else int (digits_value ds))
      in if ds \<noteq> [] \<and> list_all is_digit ds \<and> - (2 ^ 63) \<le> n \<and> n < 2 ^ 63 then Some n else None)"

definition EqualFold :: "string \<Rightarrow> string \<Rightarrow> bool" where
  "EqualFold s t \<longleftrightarrow> map ascii_lower s = map ascii_lower t"

record traceSyscallOpts =
  Ty_filter :: string
  Ty_pid :: int
  Ty_top :: nat

definition matchSyscallFilter :: "SyscallEvent \<Rightarrow> string \<Rightarrow> bool" where
  "matchSyscallFilter event flt =
     (if flt = [] then True
      else case Atoi flt of
             Some nr \<Rightarrow> int (unat (SE_SyscallNr event)) = nr
           | None \<Rightarrow> EqualFold (SyscallName (SE_SyscallNr event)) flt)"

definition trace_shows :: "traceSyscallOpts \<Rightarrow> SyscallEvent \<Rightarrow> bool" where
  "trace_shows opts event \<longleftrightarrow>
     \<not> (Ty_pid opts \<noteq> 0 \<and> int (unat (SE_PID event)) \<noteq> Ty_pid opts) \<and>
     matchSyscallFilter event (Ty_filter opts)"

definition traceSyscallStream :: "traceSyscallOpts \<Rightarrow> bytes list \<Rightarrow> SyscallEvent list" where
  "traceSyscallStream opts raws = filter (trace_shows opts) (consumed DecodeSyscallEvent raws)"

definition matchDiskOp :: "DiskEvent \<Rightarrow> string \<Rightarrow> bool" where
  "matchDiskOp event flt =
     (if flt = [] then True
      else let f = map ascii_lower flt
           in if f = ''read'' \<or> f = ''r'' then DE_Op event = 82
              else if f = ''write'' \<or> f = ''w'' then DE_Op event = 87
              else if f = ''sync'' \<or> f = ''s'' then DE_Op event = 83
              else True)"

definition matchDiskProcess :: "DiskEvent \<Rightarrow> string \<Rightarrow> bool" where
  "matchDiskProcess event flt =
     (if flt = [] then True else EqualFold (bytes_str (nullTermString (DE_Comm event))) flt)"

definition runTraceDisk :: "string \<Rightarrow> int \<Rightarrow> string \<Rightarrow> bytes list \<Rightarrow> DiskEvent list" where
  "runTraceDisk op threshold process raws =
     filter (\<lambda>event. matchDiskOp event op \<and>
         \<not> (0 < threshold \<and> sint (DE_LatencyNs event) < threshold) \<and> matchDiskProcess event process)
       (consumed DecodeDiskEvent raws)"

definition runTraceSched :: "int \<Rightarrow> bytes list \<Rightarrow> SchedEvent list" where
  "runTraceSched threshold raws =
     filter (\<lambda>event. \<not> (0 < threshold \<and> sint (SC_RunqDelayNs event) < threshold))
       (consumed DecodeSchedEvent raws)"

definition matchOOMThreshold :: "OOMEvent \<Rightarrow> int \<Rightarrow> bool" where
  "matchOOMThreshold event threshold =
     (if threshold = 0 then True else threshold \<le> sint (OE_OOMScore event))"

definition runWatchOOM :: "int \<Rightarrow> bytes list \<Rightarrow> OOMEvent list" where
  "runWatchOOM threshold raws =
     filter (\<lambda>event. matchOOMThreshold event threshold) (consumed DecodeOOMEvent raws)"

section \<open>\<open>kerno trace syscall --top\<close>\<close>

record syscallTopEntry =
  Te_Count :: u64
  Te_Latencies :: "int list"

type_synonym topKey = "u32 \<times> bytes"

definition maxSamples :: nat where "maxSamples = 10000"

definition top_event :: "traceSyscallOpts \<Rightarrow> (topKey \<rightharpoonup> syscallTopEntry) \<Rightarrow> bytes \<Rightarrow> (topKey \<rightharpoonup> syscallTopEntry)" where
  "top_event opts agg raw =
     (case DecodeSyscallEvent raw of
        Inl err \<Rightarrow> agg
      | Inr event \<Rightarrow>
          if \<not> trace_shows opts event then agg
          else (let key = (SE_SyscallNr event, nullTermString (SE_Comm event));
                    e = (case agg key of None \<Rightarrow> \<lparr>Te_Count = 0, Te_Latencies = []\<rparr> | Some e \<Rightarrow> e);
                    e = e\<lparr>Te_Count := Te_Count e + 1\<rparr>;
                    e = (if length (Te_Latencies e) < maxSamples
                         then e\<lparr>Te_Latencies := Te_Latencies e @ [sint (SE_LatencyNs event)]\<rparr> else e)
                in agg(key \<mapsto> e)))"

text \<open>A row: key, count, and the percentiles 50, 95 and 99.\<close>

type_synonym topRow = "topKey \<times> u64 \<times> int \<times> int \<times> int"

definition top_row :: "((int \<Rightarrow> int \<Rightarrow> bool) \<Rightarrow> int list \<Rightarrow> int list) \<Rightarrow> topKey \<times> syscallTopEntry \<Rightarrow> topRow" where
  "top_row sort_Ints e =
     (case e of (key, entry) \<Rightarrow>
        (key, Te_Count entry, percentile sort_Ints (Te_Latencies entry) 50,
         percentile sort_Ints (Te_Latencies entry) 95, percentile sort_Ints (Te_Latencies entry) 99))"

definition top_less ::
  "((int \<Rightarrow> int \<Rightarrow> bool) \<Rightarrow> int list \<Rightarrow> int list) \<Rightarrow>
   topKey \<times> syscallTopEntry \<Rightarrow> topKey \<times> syscallTopEntry \<Rightarrow> bool" where
  "top_less sort_Ints a b \<longleftrightarrow>
     percentile sort_Ints (Te_Latencies (snd b)) 99 < percentile sort_Ints (Te_Latencies (snd a)) 99"

definition renderSyscallTop ::
  "((int \<Rightarrow> int \<Rightarrow> bool) \<Rightarrow> int list \<Rightarrow> int list) \<Rightarrow>
   ((topKey \<times> syscallTopEntry \<Rightarrow> topKey \<times> syscallTopEntry \<Rightarrow> bool) \<Rightarrow>
      (topKey \<times> syscallTopEntry) list \<Rightarrow> (topKey \<times> syscallTopEntry) list) \<Rightarrow>
   nat \<Rightarrow> topKey list \<Rightarrow> (topKey \<rightharpoonup> syscallTopEntry) \<Rightarrow> topRow list" where
  "renderSyscallTop sort_Ints sort_Slice n order agg =
     (let entries = sort_Slice (top_less sort_Ints) (map (\<lambda>key. (key, the (agg key))) order);
          entries = (if 0 < n \<and> n < length entries then take n entries else entries)
      in map (top_row sort_Ints) entries)"

definition traceSyscallTop ::
  "((int \<Rightarrow> int \<Rightarrow> bool) \<Rightarrow> int list \<Rightarrow> int list) \<Rightarrow>
   ((topKey \<times> syscallTopEntry \<Rightarrow> topKey \<times> syscallTopEntry \<Rightarrow> bool) \<Rightarrow>
      (topKey \<times> syscallTopEntry) list \<Rightarrow> (topKey \<times> syscallTopEntry) list) \<Rightarrow>
   traceSyscallOpts \<Rightarrow> topKey live_input list \<Rightarrow> topRow list list" where
  "traceSyscallTop sort_Ints sort_Slice opts is =
     watch_run (top_event opts) Map.empty (renderSyscallTop sort_Ints sort_Slice (Ty_top opts)) Map.empty is"

text \<open>The latencies of a key in a window.\<close>

definition top_latencies :: "traceSyscallOpts \<Rightarrow> bytes list \<Rightarrow> topKey \<Rightarrow> int list" where
  "top_latencies opts raws key =
     map (\<lambda>e. sint (SE_LatencyNs e))
       (filter (\<lambda>e. (SE_SyscallNr e, nullTermString (SE_Comm e)) = key) (traceSyscallStream opts raws))"

lemma top_latencies_snoc:
  "top_latencies opts (raws @ [raw]) key = top_latencies opts raws key @
     (case DecodeSyscallEvent raw of
        Inl err \<Rightarrow> []
      | Inr e \<Rightarrow> if trace_shows opts e \<and> (SE_SyscallNr e, nullTermString (SE_Comm e)) = key
                 then [sint (SE_LatencyNs e)] else [])"
  by (simp add: top_latencies_def traceSyscallStream_def consumed_snoc split: sum.split)

lemma top_skip: "DecodeSyscallEvent raw = Inl err \<Longrightarrow> top_event opts agg raw = agg"
  by (simp add: top_event_def)

lemma top_step:
  "DecodeSyscallEvent raw = Inr e \<Longrightarrow> trace_shows opts e \<Longrightarrow>
   top_event opts agg raw (SE_SyscallNr e, nullTermString (SE_Comm e)) = Some
     (case agg (SE_SyscallNr e, nullTermString (SE_Comm e)) of
        None \<Rightarrow> \<lparr>Te_Count = 1, Te_Latencies = [sint (SE_LatencyNs e)]\<rparr>
      | Some t \<Rightarrow> \<lparr>Te_Count = Te_Count t + 1, Te_Latencies = Te_Latencies t @
          (if length (Te_Latencies t) < maxSamples then [sint (SE_LatencyNs e)] else [])\<rparr>)"
  by (simp add: top_event_def Let_def maxSamples_def split: option.split)

lemma top_other:
  "DecodeSyscallEvent raw = Inr e \<Longrightarrow>
   \<not> (trace_shows opts e \<and> (SE_SyscallNr e, nullTermString (SE_Comm e)) = key) \<Longrightarrow>
   top_event opts agg raw key = agg key"
  by (auto simp: top_event_def Let_def)

lemma top_fold:
  "foldl (top_event opts) Map.empty raws key =
     (let ls = top_latencies opts raws key
      in if ls = [] then None
         else Some \<lparr>Te_Count = of_nat (length ls), Te_Latencies = take maxSamples ls\<rparr>)"
proof (induction raws rule: rev_induct)
  case Nil
  then show ?case by (simp add: top_latencies_def traceSyscallStream_def consumed_def)
next
  case (snoc raw raws)
  show ?case
  proof (cases "DecodeSyscallEvent raw")
    case (Inl err)
    with snoc show ?thesis by (simp add: top_skip top_latencies_snoc)
  next
    case (Inr e)
    show ?thesis
    proof (cases "trace_shows opts e \<and> (SE_SyscallNr e, nullTermString (SE_Comm e)) = key")
      case True
      with snoc top_step [OF Inr] Inr show ?thesis
        by (auto simp: top_latencies_snoc Let_def maxSamples_def)
    next
      case False
      with snoc top_other [OF Inr False] Inr show ?thesis by (auto simp: top_latencies_snoc)
    qed
  qed
qed

text \<open>\<open>v\<close> is a percentile of the samples: at most the fraction \<open>p\<close> percent lies below it, more than that
  at or below it.\<close>

definition percentile_of :: "nat \<Rightarrow> int list \<Rightarrow> int \<Rightarrow> bool" where
  "percentile_of p xs v \<longleftrightarrow> v \<in> set xs \<and>
     length (filter (\<lambda>x. x < v) xs) \<le> length xs * p div 100 \<and>
     length xs * p div 100 < length (filter (\<lambda>x. x \<le> v) xs)"

lemma percentile_rank:
  assumes "sort_slice_ok sort_Slice" "xs \<noteq> []" "p < 100"
  shows "percentile_of p xs (percentile sort_Slice xs p)"
proof -
  define k where "k = length xs * p div 100"
  have "length xs * p < length xs * 100" using assms(2,3) by simp
  then have k: "k < length (sort xs)" by (simp add: k_def div_less_iff_less_mult)
  then have v: "percentile sort_Slice xs p = sort xs ! k"
    using percentile_sort [OF assms(1,2), of p] by (simp add: k_def min_def)
  have "sort xs ! k \<in> set xs" using nth_mem [OF k] by simp
  then show ?thesis
    using sorted_ranks [OF sorted_sort k] unfolding percentile_of_def v filter_sort_length
    by (simp add: k_def)
qed

definition top_row_ok :: "traceSyscallOpts \<Rightarrow> bytes list \<Rightarrow> topRow \<Rightarrow> bool" where
  "top_row_ok opts raws row \<longleftrightarrow>
     (case row of (key, cnt, p50, p95, p99) \<Rightarrow>
        let ls = top_latencies opts raws key
        in cnt = of_nat (length ls) \<and> percentile_of 50 (take maxSamples ls) p50 \<and>
           percentile_of 95 (take maxSamples ls) p95 \<and> percentile_of 99 (take maxSamples ls) p99)"

definition top_row_p99 :: "topRow \<Rightarrow> int" where
  "top_row_p99 row = snd (snd (snd (snd row)))"

text \<open>A window: the rows of all keys, each right, of which those with the largest p99 are shown.\<close>

definition top_window_ok ::
  "traceSyscallOpts \<Rightarrow> topRow list \<Rightarrow> topKey list \<Rightarrow> bytes list \<Rightarrow> bool" where
  "top_window_ok opts rows order raws \<longleftrightarrow>
     (\<exists>others. mset (map fst rows) + mset (map fst others) = mset order \<and>
        length rows = min (Ty_top opts) (length order) \<and>
        (\<forall>row \<in> set (rows @ others). top_row_ok opts raws row) \<and>
        sorted_wrt (\<lambda>a b. top_row_p99 b \<le> top_row_p99 a) (rows @ others))"

lemma renderSyscallTop_ok:
  assumes "sort_slice_ok sort_Ints" "sort_slice_ok sort_Slice" "0 < Ty_top opts"
    and "set order = {key. top_latencies opts raws key \<noteq> []}"
  shows "top_window_ok opts
    (renderSyscallTop sort_Ints sort_Slice (Ty_top opts) order (foldl (top_event opts) Map.empty raws)) order raws"
proof -
  let ?agg = "foldl (top_event opts) Map.empty raws"
  define es where "es = sort_Slice (top_less sort_Ints) (map (\<lambda>key. (key, the (?agg key))) order)"
  have "strict_weak (top_less sort_Ints)" by (auto simp: strict_weak_def top_less_def)
  then have sl: "mset es = mset (map (\<lambda>key. (key, the (?agg key))) order)"
    "sorted_wrt (\<lambda>x y. \<not> top_less sort_Ints y x) es"
    using assms(2) by (simp_all add: es_def sort_slice_ok_def)
  have ok: "top_row_ok opts raws (top_row sort_Ints e)" if "e \<in> set es" for e
  proof -
    have "set es = (\<lambda>key. (key, the (?agg key))) ` set order"
      using arg_cong [OF sl(1), of set_mset] by simp
    with that obtain key where key: "key \<in> set order" "e = (key, the (?agg key))" by blast
    then have ls: "top_latencies opts raws key \<noteq> []" using assms(4) by simp
    then have ne: "take maxSamples (top_latencies opts raws key) \<noteq> []" by (simp add: maxSamples_def)
    show ?thesis
      using ls percentile_rank [OF assms(1) ne, of 50] percentile_rank [OF assms(1) ne, of 95]
        percentile_rank [OF assms(1) ne, of 99]
      by (simp add: key(2) top_row_def top_row_ok_def top_fold Let_def)
  qed
  define k where "k = min (Ty_top opts) (length es)"
  have len: "length es = length order" using arg_cong [OF sl(1), of size] by simp
  have rows: "renderSyscallTop sort_Ints sort_Slice (Ty_top opts) order ?agg = map (top_row sort_Ints) (take k es)"
    using assms(3) by (simp add: renderSyscallTop_def es_def [symmetric] k_def Let_def)
  have fst: "fst (top_row sort_Ints e) = fst e" for e by (simp add: top_row_def split: prod.split)
  have "mset (map fst es) = mset order"
    using arg_cong [OF sl(1), of "image_mset fst"] by (simp add: multiset.map_comp o_def)
  moreover have "mset (map fst (take k es)) + mset (map fst (drop k es)) = mset (map fst es)"
    by (metis append_take_drop_id map_append mset_append)
  moreover have "sorted_wrt (\<lambda>a b. top_row_p99 b \<le> top_row_p99 a) (map (top_row sort_Ints) es)"
    unfolding sorted_wrt_map using sl(2)
    by (rule sorted_wrt_mono_rel [rotated])
      (auto simp: top_less_def top_row_def top_row_p99_def split: prod.split)
  ultimately show ?thesis
    unfolding top_window_ok_def rows
    by (intro exI [of _ "map (top_row sort_Ints) (drop k es)"])
      (auto simp: o_def fst ok k_def len simp flip: map_append dest: in_set_takeD in_set_dropD)
qed

section \<open>Properties\<close>

text \<open>C37: \<open>watch fd\<close> shows the leaks of every window. Whatever arrives between the ticks, in whatever
  order the processes are visited, each tick shows exactly the processes whose descriptors grew at the
  threshold or faster in its window, once each, with the opens and closes of the window, fastest
  first; and the windows partition the samples, none is lost or counted twice.\<close>

theorem fd_watch_windows:
  assumes "sort_slice_ok sort_Slice"
    and "\<forall>(order, raws) \<in> set (live_windows [] is). distinct order \<and> set order = fdx_processes raws"
  shows "list_all2 (fd_window_ok interval threshold)
      (runWatchFD sort_Slice interval threshold is) (map snd (live_windows [] is)) \<and>
    (\<exists>rest. arrivals is = concat (map snd (live_windows [] is)) @ rest)"
proof
  show "\<exists>rest. arrivals is = concat (map snd (live_windows [] is)) @ rest"
    using live_windows_partition [of "[]" "is"] by simp
  show "list_all2 (fd_window_ok interval threshold)
      (runWatchFD sort_Slice interval threshold is) (map snd (live_windows [] is))"
    unfolding runWatchFD_def watch_run_windows [of fd_watch_event Map.empty _ "[]", unfolded foldl.simps]
    using assms computeFDEntries_ok [OF assms(1)]
    by (auto simp: list_all2_map1 list_all2_map2 list.rel_refl_strong intro!: list.rel_refl_strong)
qed

text \<open>C38: \<open>trace syscall --top\<close> ranks the calls of every window. Each refresh shows, of the pairs of system
  call and command seen in the window and matching the filters, those with the largest p99, at most
  as many as asked for; the counts are those of the window, and the percentiles are those of its
  first 10000 latencies.\<close>

theorem trace_top_windows:
  assumes "sort_slice_ok sort_Ints" "sort_slice_ok sort_Slice" "0 < Ty_top opts"
    and "\<forall>(order, raws) \<in> set (live_windows [] is).
      distinct order \<and> set order = {key. top_latencies opts raws key \<noteq> []}"
  shows "list_all2 (\<lambda>rows (order, raws). top_window_ok opts rows order raws)
    (traceSyscallTop sort_Ints sort_Slice opts is) (live_windows [] is)"
  unfolding traceSyscallTop_def watch_run_windows [of "top_event opts" Map.empty _ "[]", unfolded foldl.simps]
  using assms(4) renderSyscallTop_ok [OF assms(1-3)]
  by (auto simp: list_all2_map1 intro!: list.rel_refl_strong)

text \<open>A mistyped operation turns the filter of \<open>trace disk\<close> off.\<close>

theorem trace_disk_unknown_op:
  assumes "map ascii_lower op \<notin> {''read'', ''r'', ''write'', ''w'', ''sync'', ''s''}"
  shows "runTraceDisk op threshold process raws = runTraceDisk [] threshold process raws"
  using assms by (simp add: runTraceDisk_def matchDiskOp_def Let_def)

text \<open>One descriptor opened by process 7 and one slow call of it, in the first of two windows.\<close>

definition demo_fd_sample :: bytes where
  "demo_fd_sample = fd_event_image
     \<lparr>fe_timestamp_ns = 0, fe_cgroup_id = 0, fe_pid = 7, fe_fd = 3, fe_op = 1, fe_pad = replicate 7 0,
      fe_comm = [97] @ replicate 15 0\<rparr> (replicate (csize struct_fd_event) 0)"

definition demo_sys_sample :: bytes where
  "demo_sys_sample = syscall_event_image
     \<lparr>se_timestamp_ns = 0, se_latency_ns = 5000, se_cgroup_id = 0, se_pid = 7, se_tid = 7,
      se_syscall_nr = 0, se_ret = 1, se_comm = [97] @ replicate 15 0\<rparr>
     (replicate (csize struct_syscall_event) 0)"

lemma demo_name: "nullTermString ([97] @ replicate 15 0) = [97]"
  using nullTermString_app [of "[97]" "replicate 14 0"] by (simp flip: replicate_Suc)

lemma demo_fd_consumed:
  "consumed DecodeFDEvent [demo_fd_sample] =
     [\<lparr>FE_TimestampNs = 0, FE_CgroupID = 0, FE_PID = 7, FE_FD = 3, FE_Op = 1, FE_Pad0 = replicate 7 0,
       FE_Comm = [97] @ replicate 15 0\<rparr>]"
  by (simp add: consumed_def demo_fd_sample_def decode_fd_image kerno_consts)

lemma demo_top_latencies:
  "top_latencies \<lparr>Ty_filter = [], Ty_pid = 0, Ty_top = 3\<rparr> [demo_sys_sample] key =
     (if key = (0, [97]) then [5000] else [])"
  using demo_name
  by (auto simp: top_latencies_def traceSyscallStream_def trace_shows_def matchSyscallFilter_def
      consumed_def demo_sys_sample_def decode_syscall_image kerno_consts)

theorem fd_watch_windows_witness:
  "fd_window_ok 1000000000 10 (hd (runWatchFD isort_by 1000000000 10
     [Arrive demo_fd_sample, Tick [(7, [97])], Tick []])) [demo_fd_sample] \<and>
   fdx_events [demo_fd_sample] (7, [97]) \<noteq> []"
proof -
  have "fdx_processes [demo_fd_sample] = {(7, [97])}" "fdx_processes [] = {}"
    "fdx_events [demo_fd_sample] (7, [97]) \<noteq> []"
    using demo_name by (simp_all add: fdx_processes_def fdx_events_def demo_fd_consumed consumed_Nil)
  then show ?thesis
    using fd_watch_windows [OF sort_slice_isort, of "[Arrive demo_fd_sample, Tick [(7, [97])], Tick []]"
        1000000000 10]
    by (auto simp: list_all2_Cons2)
qed

theorem trace_top_windows_witness:
  "length (hd (traceSyscallTop isort_by isort_by \<lparr>Ty_filter = [], Ty_pid = 0, Ty_top = 3\<rparr>
     [Arrive demo_sys_sample, Tick [(0, [97])], Tick []])) = 1"
proof -
  let ?o = "\<lparr>Ty_filter = [], Ty_pid = 0, Ty_top = 3\<rparr>"
  have "{key. top_latencies ?o [demo_sys_sample] key \<noteq> []} = {(0, [97])}"
    "{key. top_latencies ?o [] key \<noteq> []} = {}"
    by (auto simp: demo_top_latencies) (simp add: top_latencies_def traceSyscallStream_def consumed_def)
  then show ?thesis
    using trace_top_windows [OF sort_slice_isort sort_slice_isort, of ?o
        "[Arrive demo_sys_sample, Tick [(0, [97])], Tick []]"]
    by (auto simp: list_all2_Cons2 top_window_ok_def)
qed

end
