(* ===== verification/Prompt.thy ===== *)
theory Prompt
  imports Commands "HOL-Library.Sublist"
begin

text \<open>
  \<open>internal/ai/prompt.go\<close>: the prompt sent to the language model. A finding is printed with its title and
  its evidence, so the titles and the evidence of all rules of \<open>internal/doctor/rules.go\<close> are here, with
  the formatting they use; only the RFC 3339 form of an instant is a parameter. Strings are byte strings.
\<close>

section \<open>Formatting\<close>

text \<open>\<open>%.1f\<close> and \<open>%.0f\<close>: rounded to one digit or none, ties to even; \<open>String\<close> of a duration; \<open>%-8s\<close>.\<close>

definition round_half_even :: "rat \<Rightarrow> nat" where
  "round_half_even y =
     (let k = nat \<lfloor>y\<rfloor>; r = y - of_nat k
      in if r < 1 / 2 \<or> r = 1 / 2 \<and> even k then k else k + 1)"

definition fmt_f1 :: "rat \<Rightarrow> string" where
  "fmt_f1 x =
     (let n = round_half_even (\<bar>x\<bar> * 10)
      in (if x < 0 then ''-'' else []) @ decimal (n div 10) @ ''.'' @ decimal (n mod 10))"

definition fmt_f0 :: "rat \<Rightarrow> string" where
  "fmt_f0 x = (if x < 0 then ''-'' else []) @ decimal (round_half_even \<bar>x\<bar>)"

definition fmt_frac :: "nat \<Rightarrow> nat \<Rightarrow> string" where
  "fmt_frac v prec =
     (let ds = decimal (v mod 10 ^ prec);
          ds = replicate (prec - length ds) (CHR ''0'') @ ds;
          ds = rev (dropWhile (\<lambda>c. c = CHR ''0'') (rev ds))
      in if ds = [] then [] else ''.'' @ ds)"

definition Duration_String :: "int \<Rightarrow> string" where
  "Duration_String d =
     (let u = nat \<bar>d\<bar>
      in if u = 0 then ''0s''
         else (if d < 0 then ''-'' else []) @
           (if u < 1000 then decimal u @ ''ns''
            else if u < 1000000 then decimal (u div 1000) @ fmt_frac u 3 @ [CHR 0xC2, CHR 0xB5] @ ''s''
            else if u < 1000000000 then decimal (u div 1000000) @ fmt_frac u 6 @ ''ms''
            else let s = u div 1000000000
                 in (if 3600 \<le> s then decimal (s div 3600) @ ''h'' else []) @
                    (if 60 \<le> s then decimal (s div 60 mod 60) @ ''m'' else []) @
                    decimal (s mod 60) @ fmt_frac u 9 @ ''s''))"

definition pad_right :: "nat \<Rightarrow> string \<Rightarrow> string" where
  "pad_right n s = s @ replicate (n - length s) (CHR '' '')"

abbreviation nl :: string where "nl \<equiv> [CHR 0x0A]"
abbreviation arrow :: string where "arrow \<equiv> [CHR 0xE2, CHR 0x86, CHR 0x92]"
abbreviation at_least :: string where "at_least \<equiv> [CHR 0xE2, CHR 0x89, CHR 0xA5]"
abbreviation em_dash :: string where "em_dash \<equiv> [CHR 0xE2, CHR 0x80, CHR 0x94]"

definition fmt_ns :: "u64 \<Rightarrow> string" where
  "fmt_ns w = Duration_String (sint w)"

definition fmt_u :: "'a::len word \<Rightarrow> string" where
  "fmt_u w = decimal (unat w)"

definition formatBytes :: "u64 \<Rightarrow> string" where
  "formatBytes b =
     (let kB = 1024; mB = kB * 1024; gB = mB * 1024; tB = gB * 1024; pB = tB * 1024; n = unat b;
          scaled = (\<lambda>unit. fmt_f1 (f64 (f64 (of_nat n) / of_nat unit)))
      in if pB \<le> n then scaled pB @ ''PB''
         else if tB \<le> n then scaled tB @ ''TB''
         else if gB \<le> n then scaled gB @ ''GB''
         else if mB \<le> n then scaled mB @ ''MB''
         else if kB \<le> n then scaled kB @ ''KB''
         else decimal n @ ''B'')"

section \<open>Titles and evidence\<close>

text \<open>A finding with its title and evidence. The rules of a finding and of its texts fire together: the
  texts are put on the findings of \<open>Doctor\<close>.\<close>

type_synonym told_finding = "Finding \<times> string \<times> string"

definition tell_each :: "(Finding \<Rightarrow> string \<times> string) \<Rightarrow> Finding list \<Rightarrow> told_finding list" where
  "tell_each words fs = map (\<lambda>f. (f, words f)) fs"

definition disk_words :: "DiskIOSnapshot \<Rightarrow> DoctorThresholds \<Rightarrow> Finding \<Rightarrow> string \<times> string" where
  "disk_words disk t f =
     (if Fi_Rule f = ''disk_io_write_high'' then
        (''Critical Disk Write Latency'',
         ''write P99='' @ fmt_ns (P99 (Dk_WriteLatency disk)) @ '' (threshold: '' @
         Duration_String (Th_DiskP99CriticalNs t) @ ''), '' @ fmt_u (Dk_TotalWrites disk) @ '' writes'')
      else if Fi_Severity f = SeverityCritical then
        (''Disk I/O Bottleneck Detected'',
         ''sync P99='' @ fmt_ns (P99 (Dk_SyncLatency disk)) @ '' (threshold: '' @
         Duration_String (Th_DiskP99CriticalNs t) @ ''), '' @ fmt_u (Dk_TotalSyncs disk) @ '' sync ops in window'')
      else
        (''Elevated Disk Sync Latency'',
         ''sync P99='' @ fmt_ns (P99 (Dk_SyncLatency disk)) @ '' (threshold: '' @
         Duration_String (Th_DiskP99WarningNs t) @ ''), '' @ fmt_u (Dk_TotalSyncs disk) @ '' sync ops''))"

definition oom_words :: "OOMEventEntry \<Rightarrow> string \<times> string" where
  "oom_words evt =
     (''OOM Kill Detected'',
      ''OOM score: '' @ fmt_int (sint (Om_OOMScore evt)) @ '', RSS pages: '' @ fmt_u (Om_RSSPages evt) @
      '', total pages: '' @ fmt_u (Om_TotalPages evt))"

definition top_retransmitter :: "TCPConnectionEntry list \<Rightarrow> string" where
  "top_retransmitter tops =
     (case tops of [] \<Rightarrow> []
      | conn # _ \<Rightarrow> '', top: '' @ Tc_SrcAddr conn @ '':'' @ fmt_u (Tc_SrcPort conn) @ '' '' @ arrow @ '' '' @
          Tc_DstAddr conn @ '':'' @ fmt_u (Tc_DstPort conn) @ '' ('' @ fmt_u (Tc_Retransmits conn) @
          '' retransmits)'')"

definition tcp_evidence :: "TCPSnapshot \<Rightarrow> DoctorThresholds \<Rightarrow> string" where
  "tcp_evidence tcp t =
     ''retransmit rate='' @ fmt_f1 (Tc_RetransmitRate tcp) @ ''% (threshold: '' @
     fmt_f1 (Th_TCPRetransmitPct t) @ ''%), '' @ fmt_u (Tc_TotalRetransmits tcp) @
     '' total retransmits, '' @ fmt_int (Tc_ActiveConnections tcp) @ '' active connections'' @
     top_retransmitter (Tc_TopRetransmitters tcp)"

definition rtt_evidence :: "TCPSnapshot \<Rightarrow> string" where
  "rtt_evidence tcp =
     ''RTT P99='' @ fmt_ns (P99 (Tc_RTTs tcp)) @ '', P50='' @ fmt_ns (P50 (Tc_RTTs tcp)) @
     '' (threshold: '' @ Duration_String 10000000 @ '')''"

definition most_delayed :: "SchedEntry list \<Rightarrow> string" where
  "most_delayed tops =
     (case tops of [] \<Rightarrow> []
      | e # _ \<Rightarrow> '', most delayed: '' @ bytes_str (Sd_Comm e) @ '' (pid '' @ fmt_u (Sd_PID e) @
          '', P99='' @ fmt_ns (P99 (Sd_RunqDelay e)) @ '')'')"

definition sched_evidence :: "SchedSnapshot \<Rightarrow> DoctorThresholds \<Rightarrow> string" where
  "sched_evidence sched t =
     ''runqueue P99='' @ fmt_ns (P99 (Sd_Global sched)) @ '', P50='' @ fmt_ns (P50 (Sd_Global sched)) @
     '' (warning: '' @ Duration_String (Th_SchedDelayWarningNs t) @ '', critical: '' @
     Duration_String (Th_SchedDelayCriticalNs t) @ '')'' @ most_delayed (Sd_TopDelayed sched)"

definition top_leaker :: "FDEntry list \<Rightarrow> string" where
  "top_leaker tops =
     (case tops of [] \<Rightarrow> []
      | e # _ \<Rightarrow> '', top leaker: '' @ bytes_str (Fd_Comm e) @ '' (pid '' @ fmt_u (Fd_PID e) @
          '', +'' @ fmt_int (sint (Fd_NetDelta e)) @ '' net)'')"

definition fd_evidence :: "FDSnapshot \<Rightarrow> DoctorThresholds \<Rightarrow> string" where
  "fd_evidence fd t =
     ''growth rate='' @ fmt_f1 (Fd_TotalRate fd) @ '' FDs/sec (threshold: '' @ fmt_f1 (Th_FDGrowthPerSec t) @
     ''), opens='' @ fmt_u (Fd_TotalOpens fd) @ '', closes='' @ fmt_u (Fd_TotalCloses fd) @
     '', net delta='' @ fmt_int (sint (Fd_TotalDelta fd)) @ top_leaker (Fd_Entries fd)"

definition syscall_label :: "SyscallEntry \<Rightarrow> string" where
  "syscall_label e = (if Sy_Name e = [] then ''syscall_'' @ fmt_u (Sy_SyscallNr e) else Sy_Name e)"

text \<open>The hot entries with the threshold of the severity; the six worst are named.\<close>

definition hot_entry :: "SyscallEntry \<Rightarrow> string" where
  "hot_entry e = '' '' @ syscall_label e @ ''('' @ bytes_str (Sy_Comm e) @ '')@'' @ fmt_ns (P99 (Sy_Latency e))"

definition latency_words :: "SyscallEntry list \<Rightarrow> DoctorThresholds \<Rightarrow> Finding \<Rightarrow> string \<times> string" where
  "latency_words hot t f =
     (let n = decimal (length hot);
          thresh = (if Fi_Severity f = SeverityCritical then Th_SyscallP99CriticalNs t
                    else Th_SyscallP99WarningNs t)
      in (if length hot = 1 then ''High '' @ syscall_label (hd hot) @ ''() Syscall Latency''
          else ''High Syscall Latency ('' @ n @ '' affected)'',
          n @ '' (syscall, comm) pairs exceed P99='' @ Duration_String thresh @ ''. Top:'' @
          concat (map hot_entry (take 6 hot))))"

definition memory_words :: "MemorySnapshot \<Rightarrow> Finding \<Rightarrow> string \<times> string" where
  "memory_words mem f =
     (if Fi_Severity f = SeverityCritical then ''OOM Imminent '' @ em_dash @ '' Memory Nearly Exhausted''
      else ''Memory Pressure '' @ em_dash @ '' OOM Risk'',
      ''memory used='' @ fmt_f1 (Mm_UsedPct mem) @ ''% ('' @ formatBytes (Mm_UsedBytes mem) @ '' / '' @
      formatBytes (Mm_TotalBytes mem) @ ''), growth='' @ fmt_f0 (Mm_GrowthRate mem) @ '' bytes/sec'')"

definition error_words :: "(SyscallEntry \<times> rat) list \<Rightarrow> string \<times> string" where
  "error_words entries =
     (let n = decimal (length entries); top = worst_rate entries; name = syscall_label (fst top)
      in (if length entries = 1 then ''High '' @ name @ ''() Error Rate''
          else ''High Syscall Error Rate ('' @ n @ '' affected)'',
          n @ '' syscalls have error rate '' @ at_least @ '' 1%. Worst: '' @ name @ ''('' @
          bytes_str (Sy_Comm (fst top)) @ '')='' @ fmt_f1 (snd top) @ ''% ('' @
          fmt_u (Sy_ErrorCount (fst top)) @ ''/'' @ fmt_u (Sy_Count (fst top)) @ '').''))"

definition pod_label :: "CgroupMemoryEntry \<Rightarrow> string" where
  "pod_label c = (if Cg_Namespace c = [] then Cg_Pod c else Cg_Namespace c @ ''/'' @ Cg_Pod c)"

definition limit_words :: "CgroupMemoryEntry \<Rightarrow> string \<times> string" where
  "limit_words c =
     (pod_label c @ '' is '' @ fmt_f0 (Cg_UsedPct c) @ ''% of its memory limit ('' @
      formatBytes (Cg_CurrentBytes c) @ '' / '' @ formatBytes (Cg_LimitBytes c) @ '')'',
      ''current='' @ formatBytes (Cg_CurrentBytes c) @ '' limit='' @ formatBytes (Cg_LimitBytes c) @
      '' used='' @ fmt_f1 (Cg_UsedPct c) @ ''% growth='' @ fmt_f1 (f64 (Cg_GrowthRate c / 2 ^ 20)) @
      '' MB/s events(high='' @ fmt_u (Cg_EventsHigh c) @ '' oom='' @ fmt_u (Cg_EventsOOM c) @
      '' oom_kill='' @ fmt_u (Cg_EventsOOMKill c) @ '')'')"

definition throttling_words :: "CgroupMemoryEntry \<Rightarrow> string \<times> string" where
  "throttling_words c =
     (''Memory High Throttling: '' @ pod_label c,
      ''high_event_rate='' @ fmt_f1 (Cg_HighEventRate c) @ ''/sec high_limit='' @ formatBytes (Cg_HighBytes c) @
      '' current='' @ formatBytes (Cg_CurrentBytes c) @ '' max='' @ formatBytes (Cg_LimitBytes c))"

definition healthy_words :: "Signals \<Rightarrow> string \<times> string" where
  "healthy_words s =
     (''System Healthy'',
      ''All kernel signals within normal thresholds'' @
      (case Sg_Syscall s of None \<Rightarrow> []
       | Some sys \<Rightarrow> nl @ ''  Syscall events: '' @ fmt_u (Sy_TotalCount sys)) @
      (case Sg_Sched s of None \<Rightarrow> []
       | Some sched \<Rightarrow> nl @ ''  Scheduling events: '' @ fmt_u (Sd_TotalCount sched)))"

text \<open>The rules of \<open>Evaluate\<close> in its order, each finding with its texts.\<close>

definition told_of_disk :: "Signals \<Rightarrow> DoctorThresholds \<Rightarrow> told_finding list" where
  "told_of_disk s t =
     (case Sg_DiskIO s of None \<Rightarrow> []
      | Some disk \<Rightarrow> tell_each (disk_words disk t) (evalDiskIOBottleneck s t))"

definition told_of_oom :: "Signals \<Rightarrow> told_finding list" where
  "told_of_oom s =
     (case Sg_OOM s of None \<Rightarrow> []
      | Some oom \<Rightarrow> zip (evalOOMKillOccurred s) (map oom_words (Om_Events oom)))"

definition told_of_tcp :: "Signals \<Rightarrow> DoctorThresholds \<Rightarrow> told_finding list" where
  "told_of_tcp s t =
     (case Sg_TCP s of None \<Rightarrow> []
      | Some tcp \<Rightarrow>
          tell_each (\<lambda>_. (''TCP Retransmit Storm'', tcp_evidence tcp t)) (evalTCPRetransmitStorm s t) @
          tell_each (\<lambda>_. (''Elevated TCP Round-Trip Time'', rtt_evidence tcp)) (evalTCPRTTDegradation s))"

definition told_of_sched :: "Signals \<Rightarrow> DoctorThresholds \<Rightarrow> told_finding list" where
  "told_of_sched s t =
     (case Sg_Sched s of None \<Rightarrow> []
      | Some sched \<Rightarrow>
          tell_each (\<lambda>_. (''CPU Scheduler Contention'', sched_evidence sched t)) (evalSchedulerContention s t))"

definition told_of_fd :: "Signals \<Rightarrow> DoctorThresholds \<Rightarrow> told_finding list" where
  "told_of_fd s t =
     (case Sg_FD s of None \<Rightarrow> []
      | Some fd \<Rightarrow>
          tell_each (\<lambda>_. (''File Descriptor Leak Suspected'', fd_evidence fd t)) (evalFDLeak s t))"

definition told_of_latency :: "Signals \<Rightarrow> DoctorThresholds \<Rightarrow> told_finding list" where
  "told_of_latency s t =
     (case Sg_Syscall s of None \<Rightarrow> []
      | Some sys \<Rightarrow> tell_each (latency_words (syscall_hot t (Sy_Entries sys)) t) (evalSyscallLatencyHigh s t))"

definition told_of_memory :: "Signals \<Rightarrow> DoctorThresholds \<Rightarrow> told_finding list" where
  "told_of_memory s t =
     (case Sg_Memory s of None \<Rightarrow> []
      | Some mem \<Rightarrow> tell_each (memory_words mem) (evalOOMImminent s t))"

definition told_of_errors :: "Signals \<Rightarrow> told_finding list" where
  "told_of_errors s =
     (case Sg_Syscall s of None \<Rightarrow> []
      | Some sys \<Rightarrow> tell_each (\<lambda>_. error_words (syscall_failing (Sy_Entries sys))) (evalSyscallErrorRate s))"

definition told_of_cgroups :: "Signals \<Rightarrow> told_finding list" where
  "told_of_cgroups s =
     (case Sg_CgroupMemory s of None \<Rightarrow> []
      | Some containers \<Rightarrow>
          zip (evalMemoryLimitPressure s)
            (map limit_words (filter (\<lambda>c. \<not> (Cg_LimitBytes c = 0 \<or> Cg_UsedPct c < 85)) containers)) @
          zip (evalMemoryHighThrottling s)
            (map throttling_words (filter (\<lambda>c. \<not> Cg_HighEventRate c < 1) containers)))"

definition told_rules :: "Signals \<Rightarrow> DoctorThresholds \<Rightarrow> told_finding list" where
  "told_rules s t =
     told_of_disk s t @ told_of_oom s @ told_of_tcp s t @ told_of_sched s t @ told_of_fd s t @
     told_of_latency s t @ told_of_memory s t @ told_of_errors s @ told_of_cgroups s"

definition told_Evaluate :: "Signals \<Rightarrow> DoctorThresholds \<Rightarrow> told_finding list" where
  "told_Evaluate s t =
     (let told = told_rules s t;
          told = (if told = [] then told @ [(evalHealthySystem s, healthy_words s)] else told)
      in isort_by (\<lambda>x y. finding_less (fst x) (fst y)) told)"

text \<open>The findings told are those of \<open>Evaluate\<close>, in its ranking.\<close>

lemma fst_tell_each [simp]: "map fst (tell_each words fs) = fs"
  by (simp add: tell_each_def comp_def)

lemma tell_each_Nil [simp]: "tell_each words [] = []"
  by (simp add: tell_each_def)

lemma map_fst_zip_same [simp]: "length xs = length ys \<Longrightarrow> map fst (zip xs ys) = xs"
  by (rule map_fst_zip)

lemmas told_defs = told_of_disk_def told_of_oom_def told_of_tcp_def told_of_sched_def told_of_fd_def
  told_of_latency_def told_of_memory_def told_of_errors_def told_of_cgroups_def

lemma fst_told:
  "map fst (told_of_disk s t) = evalDiskIOBottleneck s t"
  "map fst (told_of_oom s) = evalOOMKillOccurred s"
  "map fst (told_of_tcp s t) = evalTCPRetransmitStorm s t @ evalTCPRTTDegradation s"
  "map fst (told_of_sched s t) = evalSchedulerContention s t"
  "map fst (told_of_fd s t) = evalFDLeak s t"
  "map fst (told_of_latency s t) = evalSyscallLatencyHigh s t"
  "map fst (told_of_memory s t) = evalOOMImminent s t"
  "map fst (told_of_errors s) = evalSyscallErrorRate s"
  "map fst (told_of_cgroups s) = evalMemoryLimitPressure s @ evalMemoryHighThrottling s"
  by (auto simp: told_defs evalOOMKillOccurred_def evalDiskIOBottleneck_def evalTCPRetransmitStorm_def
      evalTCPRTTDegradation_def evalSchedulerContention_def evalFDLeak_def evalSyscallLatencyHigh_def
      evalOOMImminent_def evalSyscallErrorRate_def evalMemoryLimitPressure_def
      evalMemoryHighThrottling_def split: option.splits)

section \<open>The prompt\<close>

record HostInfo =
  Hi_Hostname :: string
  Hi_KernelVer :: string
  Hi_OS :: string
  Hi_Arch :: string

definition PrivacyFull :: string where "PrivacyFull = ''full''"
definition PrivacyRedacted :: string where "PrivacyRedacted = ''redacted''"
definition PrivacySummary :: string where "PrivacySummary = ''summary''"

definition host_line :: "string \<Rightarrow> HostInfo \<Rightarrow> string" where
  "host_line privacy h =
     (if privacy = PrivacyFull
      then (if Hi_Hostname h \<noteq> [] then ''HOST: '' @ Hi_Hostname h else []) @
           (if Hi_KernelVer h \<noteq> [] then '', kernel '' @ Hi_KernelVer h else []) @
           (if Hi_Arch h \<noteq> [] then '', '' @ Hi_Arch h else []) @ nl
      else if privacy = PrivacyRedacted
      then (if Hi_KernelVer h \<noteq> [] then ''HOST: [redacted], kernel '' @ Hi_KernelVer h else []) @ nl
      else [])"

definition finding_lines :: "string \<Rightarrow> told_finding \<Rightarrow> string" where
  "finding_lines privacy told =
     (case told of (f, title, evidence) \<Rightarrow>
        let process = (if Fi_Process f \<noteq> [] \<and> privacy = PrivacyFull
              then '' '' @ em_dash @ '' process: '' @ bytes_str (Fi_Process f) else [])
        in ''['' @ pad_right 8 (severity_String (Fi_Severity f)) @ ''] '' @ Fi_Signal f @ '': '' @ title @
           process @ nl @
           (if evidence \<noteq> [] then ''           evidence: '' @ evidence @ nl else []))"

fun join_comma_sp :: "string list \<Rightarrow> string" where
  "join_comma_sp [] = []"
| "join_comma_sp [p] = p"
| "join_comma_sp (p # q # ps) = p @ '', '' @ join_comma_sp (q # ps)"

definition writeSignalMetrics :: "string \<Rightarrow> Signals \<Rightarrow> string" where
  "writeSignalMetrics privacy s =
     (case Sg_Syscall s of None \<Rightarrow> []
      | Some sys \<Rightarrow> ''syscall: total='' @ fmt_u (Sy_TotalCount sys) @
          (if Sy_Entries sys \<noteq> []
           then '', top_slow=['' @
             join_comma_sp (map (\<lambda>e. Sy_Name e @ '':'' @ fmt_ns (P99 (Sy_Latency e))) (take 5 (Sy_Entries sys))) @
             '']''
           else []) @ nl) @
     (case Sg_TCP s of None \<Rightarrow> []
      | Some tcp \<Rightarrow> ''tcp: active='' @ fmt_int (Tc_ActiveConnections tcp) @ '', retransmits='' @
          fmt_u (Tc_TotalRetransmits tcp) @ '', retransmit_rate='' @ fmt_f1 (Tc_RetransmitRate tcp) @
          ''%, rtt_p99='' @ fmt_ns (P99 (Tc_RTTs tcp)) @ nl) @
     (case Sg_DiskIO s of None \<Rightarrow> []
      | Some disk \<Rightarrow> ''diskio: reads='' @ fmt_u (Dk_TotalReads disk) @ '', writes='' @
          fmt_u (Dk_TotalWrites disk) @ '', syncs='' @ fmt_u (Dk_TotalSyncs disk) @ '', sync_p99='' @
          fmt_ns (P99 (Dk_SyncLatency disk)) @ '', write_p99='' @ fmt_ns (P99 (Dk_WriteLatency disk)) @ nl) @
     (case Sg_Sched s of None \<Rightarrow> []
      | Some sched \<Rightarrow> ''sched: total='' @ fmt_u (Sd_TotalCount sched) @ '', runq_p99='' @
          fmt_ns (P99 (Sd_Global sched)) @ '', runq_p50='' @ fmt_ns (P50 (Sd_Global sched)) @ nl) @
     (case Sg_FD s of None \<Rightarrow> []
      | Some fd \<Rightarrow> ''fd: opens='' @ fmt_u (Fd_TotalOpens fd) @ '', closes='' @ fmt_u (Fd_TotalCloses fd) @
          '', growth='' @ fmt_f1 (Fd_TotalRate fd) @ ''/s, net_delta='' @
          fmt_int (sint (Fd_TotalDelta fd)) @ nl) @
     (case Sg_OOM s of None \<Rightarrow> []
      | Some oom \<Rightarrow> ''oom: events='' @ fmt_int (Om_Count oom) @ nl @
          (if privacy = PrivacyFull
           then concat (map (\<lambda>e. ''  victim: '' @ bytes_str (Om_Comm e) @ '' (pid '' @ fmt_u (Om_PID e) @
             '', rss='' @ fmt_u (Om_RSSPages e) @ '' pages, oom_score='' @ fmt_int (sint (Om_OOMScore e)) @
             '')'' @ nl) (Om_Events oom))
           else []))"

definition writeSignalMetricsSummary :: "Signals \<Rightarrow> string" where
  "writeSignalMetricsSummary s =
     (case Sg_Syscall s of None \<Rightarrow> []
      | Some sys \<Rightarrow> ''    syscall: total='' @ fmt_u (Sy_TotalCount sys) @
          (case Sy_Entries sys of [] \<Rightarrow> [] | e # _ \<Rightarrow> '', top_p99='' @ fmt_ns (P99 (Sy_Latency e))) @ nl) @
     (case Sg_TCP s of None \<Rightarrow> []
      | Some tcp \<Rightarrow> ''    tcp: retransmit_rate='' @ fmt_f1 (Tc_RetransmitRate tcp) @ ''%, rtt_p99='' @
          fmt_ns (P99 (Tc_RTTs tcp)) @ nl) @
     (case Sg_DiskIO s of None \<Rightarrow> []
      | Some disk \<Rightarrow> ''    diskio: sync_p99='' @ fmt_ns (P99 (Dk_SyncLatency disk)) @ nl) @
     (case Sg_Sched s of None \<Rightarrow> []
      | Some sched \<Rightarrow> ''    sched: runq_p99='' @ fmt_ns (P99 (Sd_Global sched)) @ nl)"

definition history_lines :: "int \<Rightarrow> Signals list \<Rightarrow> string" where
  "history_lines now history =
     concat (map (\<lambda>(i, h).
        let since = now - Sg_Timestamp h
        in ''  snapshot '' @ decimal (i + 1) @ '' ('' @
           Duration_String (sgn since * (\<bar>since\<bar> div 1000000000) * 1000000000) @ '' ago):'' @ nl @
           writeSignalMetricsSummary h) (List.enumerate 0 history))"

definition BuildUserPrompt ::
  "(int \<Rightarrow> string) \<Rightarrow> int \<Rightarrow> HostInfo \<Rightarrow> Signals \<Rightarrow> told_finding list \<Rightarrow> Signals list \<Rightarrow> string \<Rightarrow> string" where
  "BuildUserPrompt stamp now host s findings history privacy =
     host_line privacy host @
     ''WINDOW: '' @ Duration_String (Sg_Duration s) @ '' ending '' @ stamp (Sg_Timestamp s) @ nl @ nl @
     (if findings \<noteq> [] then ''FINDINGS (ranked):'' @ nl @ concat (map (finding_lines privacy) findings) @ nl
      else []) @
     ''RAW METRICS:'' @ nl @ writeSignalMetrics privacy s @
     (if history \<noteq> []
      then nl @ ''HISTORY (previous snapshots, oldest first):'' @ nl @ history_lines now history
      else [])"

lemma isort_by_map:
  assumes "\<And>x y. lt' (g x) (g y) = lt x y"
  shows "map g (isort_by lt xs) = isort_by lt' (map g xs)"
proof -
  have "map g (insert_by lt x ys) = insert_by lt' (g x) (map g ys)" for x ys
    by (induction ys) (simp_all add: assms)
  then show ?thesis by (induction xs) (simp_all add: isort_by_def)
qed

lemma told_rules_fst: "map fst (told_rules s t) = rule_findings s t"
  by (simp add: told_rules_def fst_told rule_findings_def)

lemma told_Evaluate_fst: "map fst (told_Evaluate s t) = Evaluate s t"
proof -
  have "told_rules s t = [] \<longleftrightarrow> rule_findings s t = []"
    using told_rules_fst [of s t] by (metis map_is_Nil_conv)
  then show ?thesis
    by (simp add: told_Evaluate_def Evaluate_def Let_def RankFindings_def told_rules_fst
        isort_by_map [where g = fst and lt' = finding_less])
qed

lemma set_isort_by [simp]: "set (isort_by lt xs) = set xs"
  using sort_slice_isort unfolding sort_slice_ok_def by (metis set_mset_mset)

lemma rule_told: "told \<in> set (told_rules s t) \<Longrightarrow> told \<in> set (told_Evaluate s t)"
  by (auto simp: told_Evaluate_def Let_def)

section \<open>What the modes hide\<close>

text \<open>The host name, the architecture and the identity of the killed processes, taken out.\<close>

definition scrub_host :: "HostInfo \<Rightarrow> HostInfo" where
  "scrub_host h = h\<lparr>Hi_Hostname := [], Hi_Arch := []\<rparr>"

definition scrub_victim :: "OOMEventEntry \<Rightarrow> OOMEventEntry" where
  "scrub_victim e = e\<lparr>Om_Timestamp := 0, Om_PID := 0, Om_Comm := [], Om_TriggeredPID := 0, Om_CgroupID := 0\<rparr>"

definition scrub_signals :: "Signals \<Rightarrow> Signals" where
  "scrub_signals s =
     s\<lparr>Sg_OOM := map_option (\<lambda>oom. oom\<lparr>Om_Events := map scrub_victim (Om_Events oom)\<rparr>) (Sg_OOM s)\<rparr>"

text \<open>Outside the mode "full" the lines do not show them; the process of a finding is not shown either.\<close>

definition unnamed :: "told_finding \<Rightarrow> told_finding" where
  "unnamed told = (case told of (f, words) \<Rightarrow> (f\<lparr>Fi_Process := []\<rparr>, words))"

lemma scrub_lines:
  assumes "privacy \<noteq> PrivacyFull"
  shows "host_line privacy (scrub_host h) = host_line privacy h"
    "finding_lines privacy (unnamed told) = finding_lines privacy told"
    "writeSignalMetrics privacy (scrub_signals s) = writeSignalMetrics privacy s"
  using assms
  by (simp_all add: host_line_def scrub_host_def finding_lines_def unnamed_def
      writeSignalMetrics_def scrub_signals_def split: prod.split option.split)

lemma scrub_signals_simps [simp]:
  "Sg_DiskIO (scrub_signals s) = Sg_DiskIO s" "Sg_TCP (scrub_signals s) = Sg_TCP s"
  "Sg_Sched (scrub_signals s) = Sg_Sched s" "Sg_FD (scrub_signals s) = Sg_FD s"
  "Sg_Syscall (scrub_signals s) = Sg_Syscall s" "Sg_Memory (scrub_signals s) = Sg_Memory s"
  "Sg_CgroupMemory (scrub_signals s) = Sg_CgroupMemory s"
  "Sg_Timestamp (scrub_signals s) = Sg_Timestamp s" "Sg_Duration (scrub_signals s) = Sg_Duration s"
  by (simp_all add: scrub_signals_def)

lemma scrub_history: "history_lines now (map scrub_signals history) = history_lines now history"
proof -
  have summary: "writeSignalMetricsSummary (scrub_signals h) = writeSignalMetricsSummary h" for h
    by (simp add: writeSignalMetricsSummary_def)
  have "List.enumerate n (map scrub_signals history) =
      map (\<lambda>(i, h). (i, scrub_signals h)) (List.enumerate n history)" for n
    by (induction history arbitrary: n) simp_all
  then show ?thesis by (simp add: history_lines_def summary comp_def case_prod_unfold)
qed

lemma scrub_rules:
  "evalDiskIOBottleneck (scrub_signals s) t = evalDiskIOBottleneck s t"
  "evalTCPRetransmitStorm (scrub_signals s) t = evalTCPRetransmitStorm s t"
  "evalTCPRTTDegradation (scrub_signals s) = evalTCPRTTDegradation s"
  "evalSchedulerContention (scrub_signals s) t = evalSchedulerContention s t"
  "evalFDLeak (scrub_signals s) t = evalFDLeak s t"
  "evalSyscallLatencyHigh (scrub_signals s) t = evalSyscallLatencyHigh s t"
  "evalOOMImminent (scrub_signals s) t = evalOOMImminent s t"
  "evalSyscallErrorRate (scrub_signals s) = evalSyscallErrorRate s"
  "evalMemoryLimitPressure (scrub_signals s) = evalMemoryLimitPressure s"
  "evalMemoryHighThrottling (scrub_signals s) = evalMemoryHighThrottling s"
  by (simp_all only: evalDiskIOBottleneck_def evalTCPRetransmitStorm_def evalTCPRTTDegradation_def
      evalSchedulerContention_def evalFDLeak_def evalSyscallLatencyHigh_def evalOOMImminent_def
      evalSyscallErrorRate_def evalMemoryLimitPressure_def evalMemoryHighThrottling_def scrub_signals_simps)

lemma unnamed_told_oom: "map unnamed (told_of_oom (scrub_signals s)) = map unnamed (told_of_oom s)"
  by (simp add: told_of_oom_def evalOOMKillOccurred_def scrub_signals_def zip_map_map zip_same_conv_map
      unnamed_def oom_words_def scrub_victim_def split: option.split)

lemma unnamed_told_rules: "map unnamed (told_rules (scrub_signals s) t) = map unnamed (told_rules s t)"
proof -
  have "told_of_disk (scrub_signals s) t = told_of_disk s t"
    "told_of_tcp (scrub_signals s) t = told_of_tcp s t"
    "told_of_sched (scrub_signals s) t = told_of_sched s t"
    "told_of_fd (scrub_signals s) t = told_of_fd s t"
    "told_of_latency (scrub_signals s) t = told_of_latency s t"
    "told_of_memory (scrub_signals s) t = told_of_memory s t"
    "told_of_errors (scrub_signals s) = told_of_errors s"
    "told_of_cgroups (scrub_signals s) = told_of_cgroups s"
    by (simp_all only: told_defs scrub_rules scrub_signals_simps)
  then show ?thesis by (simp add: told_rules_def unnamed_told_oom)
qed

lemma unnamed_told_Evaluate:
  "map unnamed (told_Evaluate (scrub_signals s) t) = map unnamed (told_Evaluate s t)"
proof -
  have less: "finding_less (fst (unnamed x)) (fst (unnamed y)) = finding_less (fst x) (fst y)" for x y
    by (cases x; cases y) (simp add: unnamed_def finding_less_def thresholdRatio_def split: option.split)
  have "told_rules (scrub_signals s) t = [] \<longleftrightarrow> told_rules s t = []"
    using unnamed_told_rules [of s t] by (metis map_is_Nil_conv)
  moreover have "(evalHealthySystem (scrub_signals s), healthy_words (scrub_signals s)) =
      (evalHealthySystem s, healthy_words s)"
    by (simp add: evalHealthySystem_def healthy_words_def)
  ultimately show ?thesis
    by (simp add: told_Evaluate_def Let_def unnamed_told_rules
        isort_by_map [where g = unnamed and lt = "\<lambda>x y. finding_less (fst x) (fst y)"
          and lt' = "\<lambda>x y. finding_less (fst x) (fst y)", OF less])
qed

lemma sublist_pre: "sublist x y \<Longrightarrow> sublist x (a @ y)"
  unfolding sublist_def by (metis append.assoc)

lemma sublist_post: "sublist x y \<Longrightarrow> sublist x (y @ b)"
  unfolding sublist_def by (metis append.assoc)

lemma sublist_concat: "y \<in> set ys \<Longrightarrow> sublist x y \<Longrightarrow> sublist x (concat ys)"
  by (induction ys) (auto intro: sublist_pre sublist_post)

lemma words_line:
  assumes "sublist x title \<or> sublist x evidence"
  shows "sublist x (finding_lines privacy (f, title, evidence))"
proof (cases "x = []")
  case False
  show ?thesis
  proof (cases "sublist x title")
    case True
    then show ?thesis
      unfolding finding_lines_def prod.case Let_def by (intro sublist_pre sublist_post)
  next
    case no: False
    then have "sublist x evidence" "evidence \<noteq> []" using assms False by auto
    then show ?thesis
      unfolding finding_lines_def prod.case Let_def
      by (simp only: if_True simp_thms) (intro sublist_pre sublist_post)
  qed
qed simp

lemma words_sent:
  assumes "(f, title, evidence) \<in> set findings" "sublist x title \<or> sublist x evidence"
  shows "sublist x (BuildUserPrompt stamp now host s findings history privacy)"
proof -
  have "sublist x (concat (map (finding_lines privacy) findings))"
    using words_line [OF assms(2)] assms(1) by (intro sublist_concat) auto
  moreover have "findings \<noteq> []" using assms(1) by auto
  ultimately have "sublist x (if findings \<noteq> [] then ''FINDINGS (ranked):'' @ nl @
      concat (map (finding_lines privacy) findings) @ nl else [])"
    by (simp only: if_True simp_thms) (intro sublist_pre sublist_post)
  note here = sublist_pre [OF sublist_post [OF this],
      of "host_line privacy host @ ''WINDOW: '' @ Duration_String (Sg_Duration s) @ '' ending '' @
        stamp (Sg_Timestamp s) @ nl @ nl"]
  show ?thesis unfolding BuildUserPrompt_def by (rule here [unfolded append_assoc])
qed

text \<open>What the rules put into their texts.\<close>

definition told_text :: "Signals \<Rightarrow> DoctorThresholds \<Rightarrow> string \<Rightarrow> bool" where
  "told_text s t x \<longleftrightarrow> (\<exists>(f, title, evidence) \<in> set (told_rules s t). sublist x title \<or> sublist x evidence)"

lemma told_text_sent:
  "told_text s t x \<Longrightarrow> sublist x (BuildUserPrompt stamp now host s (told_Evaluate s t) history privacy)"
  by (auto simp: told_text_def intro: words_sent [OF rule_told])

lemma told_title: "(f, words) \<in> set (told_rules s t) \<Longrightarrow> sublist x (fst words) \<Longrightarrow> told_text s t x"
  unfolding told_text_def by (cases words) fastforce

lemma told_evidence: "(f, words) \<in> set (told_rules s t) \<Longrightarrow> sublist x (snd words) \<Longrightarrow> told_text s t x"
  unfolding told_text_def by (cases words) fastforce

lemma tell_each_hd: "fs \<noteq> [] \<Longrightarrow> (hd fs, words (hd fs)) \<in> set (tell_each words fs)"
  by (simp add: tell_each_def)

lemma zip_right: "length xs = length ys \<Longrightarrow> y \<in> set ys \<Longrightarrow> \<exists>x. (x, y) \<in> set (zip xs ys)"
  by (metis in_set_zip in_set_conv_nth fst_conv snd_conv)

lemma storm_told:
  assumes "Sg_TCP s = Some tcp" "Tc_TopRetransmitters tcp = conn # rest" "evalTCPRetransmitStorm s t \<noteq> []"
  shows "told_text s t (Tc_SrcAddr conn @ '':'' @ fmt_u (Tc_SrcPort conn))"
proof -
  have "(hd (evalTCPRetransmitStorm s t), ''TCP Retransmit Storm'', tcp_evidence tcp t) \<in> set (told_rules s t)"
    using tell_each_hd [OF assms(3), of "\<lambda>_. (''TCP Retransmit Storm'', tcp_evidence tcp t)"] assms(1)
    by (simp add: told_rules_def told_of_tcp_def)
  moreover have "sublist (Tc_SrcAddr conn @ '':'' @ fmt_u (Tc_SrcPort conn)) (tcp_evidence tcp t)"
    unfolding tcp_evidence_def top_retransmitter_def assms(2) list.case
    by (simp only: sublist_def) (metis append.assoc)
  ultimately show ?thesis by (rule told_evidence [where words = "(_, _)", unfolded snd_conv])
qed

lemma delay_told:
  assumes "Sg_Sched s = Some sched" "Sd_TopDelayed sched = e # rest" "evalSchedulerContention s t \<noteq> []"
  shows "told_text s t (bytes_str (Sd_Comm e) @ '' (pid '' @ fmt_u (Sd_PID e))"
proof -
  have "(hd (evalSchedulerContention s t), ''CPU Scheduler Contention'', sched_evidence sched t) \<in> set (told_rules s t)"
    using tell_each_hd [OF assms(3), of "\<lambda>_. (''CPU Scheduler Contention'', sched_evidence sched t)"] assms(1)
    by (simp add: told_rules_def told_of_sched_def)
  moreover have "sublist (bytes_str (Sd_Comm e) @ '' (pid '' @ fmt_u (Sd_PID e)) (sched_evidence sched t)"
    unfolding sched_evidence_def most_delayed_def assms(2) list.case
    by (simp only: sublist_def) (metis append.assoc)
  ultimately show ?thesis by (rule told_evidence [where words = "(_, _)", unfolded snd_conv])
qed

lemma leak_told:
  assumes "Sg_FD s = Some fd" "Fd_Entries fd = e # rest" "evalFDLeak s t \<noteq> []"
  shows "told_text s t (bytes_str (Fd_Comm e) @ '' (pid '' @ fmt_u (Fd_PID e))"
proof -
  have "(hd (evalFDLeak s t), ''File Descriptor Leak Suspected'', fd_evidence fd t) \<in> set (told_rules s t)"
    using tell_each_hd [OF assms(3), of "\<lambda>_. (''File Descriptor Leak Suspected'', fd_evidence fd t)"] assms(1)
    by (simp add: told_rules_def told_of_fd_def)
  moreover have "sublist (bytes_str (Fd_Comm e) @ '' (pid '' @ fmt_u (Fd_PID e)) (fd_evidence fd t)"
    unfolding fd_evidence_def top_leaker_def assms(2) list.case
    by (simp only: sublist_def) (metis append.assoc)
  ultimately show ?thesis by (rule told_evidence [where words = "(_, _)", unfolded snd_conv])
qed

lemma latency_told:
  assumes "Sg_Syscall s = Some sys" "e \<in> set (take 6 (syscall_hot t (Sy_Entries sys)))"
  shows "told_text s t (syscall_label e @ ''('' @ bytes_str (Sy_Comm e) @ '')'')"
proof -
  let ?words = "latency_words (syscall_hot t (Sy_Entries sys)) t"
  let ?fs = "evalSyscallLatencyHigh s t"
  have "?fs \<noteq> []"
    using assms by (auto simp: evalSyscallLatencyHigh_def Let_def split: list.split)
  then have "(hd ?fs, ?words (hd ?fs)) \<in> set (told_rules s t)"
    using tell_each_hd [of ?fs ?words] assms(1) by (simp add: told_rules_def told_of_latency_def)
  moreover have "sublist (syscall_label e @ ''('' @ bytes_str (Sy_Comm e) @ '')'') (hot_entry e)"
    unfolding hot_entry_def by (simp only: sublist_def) (metis append.assoc append_Cons append_Nil)
  then have "sublist (syscall_label e @ ''('' @ bytes_str (Sy_Comm e) @ '')'')
      (concat (map hot_entry (take 6 (syscall_hot t (Sy_Entries sys)))))"
    using assms(2) by (intro sublist_concat) auto
  then have "sublist (syscall_label e @ ''('' @ bytes_str (Sy_Comm e) @ '')'') (snd (?words (hd ?fs)))"
    unfolding latency_words_def Let_def snd_conv by (intro sublist_pre)
  ultimately show ?thesis by (rule told_evidence)
qed

lemma errors_told:
  assumes "Sg_Syscall s = Some sys" "syscall_failing (Sy_Entries sys) \<noteq> []"
    "e = fst (worst_rate (syscall_failing (Sy_Entries sys)))"
  shows "told_text s t (syscall_label e @ ''('' @ bytes_str (Sy_Comm e) @ '')='')"
proof -
  let ?words = "error_words (syscall_failing (Sy_Entries sys))"
  let ?fs = "evalSyscallErrorRate s"
  have "?fs \<noteq> []" using assms(1,2) by (simp add: evalSyscallErrorRate_def Let_def)
  then have "(hd ?fs, ?words) \<in> set (told_rules s t)"
    using tell_each_hd [of ?fs "\<lambda>_. ?words"] assms(1) by (simp add: told_rules_def told_of_errors_def)
  moreover have "sublist (syscall_label e @ ''('' @ bytes_str (Sy_Comm e) @ '')='') (snd ?words)"
    unfolding error_words_def Let_def snd_conv assms(3) [symmetric]
    by (simp only: sublist_def) (metis append.assoc)
  ultimately show ?thesis by (rule told_evidence)
qed

lemma victim_told:
  assumes "Sg_OOM s = Some oom" "Om_Count oom \<noteq> 0" "evt \<in> set (Om_Events oom)"
  shows "told_text s t (''OOM score: '' @ fmt_int (sint (Om_OOMScore evt)) @ '', RSS pages: '' @
    fmt_u (Om_RSSPages evt))"
proof -
  have "\<exists>f. (f, oom_words evt) \<in> set (told_of_oom s)"
    using assms zip_right [of "evalOOMKillOccurred s" "map oom_words (Om_Events oom)" "oom_words evt"]
    by (simp add: told_of_oom_def evalOOMKillOccurred_def)
  then obtain f where "(f, oom_words evt) \<in> set (told_rules s t)" by (auto simp: told_rules_def)
  moreover have "sublist (''OOM score: '' @ fmt_int (sint (Om_OOMScore evt)) @ '', RSS pages: '' @
      fmt_u (Om_RSSPages evt)) (snd (oom_words evt))"
    unfolding oom_words_def snd_conv by (simp only: sublist_def) (metis append.assoc append_Nil)
  ultimately show ?thesis by (rule told_evidence)
qed

lemma pod_told:
  assumes "Sg_CgroupMemory s = Some containers" "c \<in> set containers"
    "Cg_LimitBytes c \<noteq> 0 \<and> 85 \<le> Cg_UsedPct c \<or> 1 \<le> Cg_HighEventRate c"
  shows "told_text s t (pod_label c)"
proof -
  have "\<exists>f words. (f, words) \<in> set (told_of_cgroups s) \<and> sublist (pod_label c) (fst words)"
  proof (cases "1 \<le> Cg_HighEventRate c")
    case True
    have "\<exists>f. (f, throttling_words c) \<in> set (told_of_cgroups s)"
      using assms(1,2) True zip_right [of "evalMemoryHighThrottling s"
          "map throttling_words (filter (\<lambda>c. \<not> Cg_HighEventRate c < 1) containers)" "throttling_words c"]
      by (auto simp: told_of_cgroups_def evalMemoryHighThrottling_def)
    moreover have "sublist (pod_label c) (fst (throttling_words c))"
      unfolding throttling_words_def fst_conv by (intro sublist_pre) simp
    ultimately show ?thesis by blast
  next
    case False
    then have "\<exists>f. (f, limit_words c) \<in> set (told_of_cgroups s)"
      using assms zip_right [of "evalMemoryLimitPressure s"
          "map limit_words (filter (\<lambda>c. \<not> (Cg_LimitBytes c = 0 \<or> Cg_UsedPct c < 85)) containers)" "limit_words c"]
      by (auto simp: told_of_cgroups_def evalMemoryLimitPressure_def)
    moreover have "sublist (pod_label c) (fst (limit_words c))"
      unfolding limit_words_def fst_conv by (intro sublist_post) simp
    ultimately show ?thesis by blast
  qed
  moreover have "set (told_of_cgroups s) \<subseteq> set (told_rules s t)" unfolding told_rules_def by auto
  ultimately obtain f words where "(f, words) \<in> set (told_rules s t)" "sublist (pod_label c) (fst words)"
    by blast
  then show ?thesis by (rule told_title)
qed

text \<open>C26: What the privacy modes of the prompt do and do not keep from the language model. With any mode but
  "full" the prompt does not depend on the host name, the architecture or the identity of the processes
  the kernel killed (their names, process ids and cgroups): erased in the host data and in the signals,
  before the rules run and in the history, they leave the prompt unchanged, because those titles and evidence lines name
  no victim. But the title and the evidence of every finding go out in every mode, "summary" included. So
  the model is told, whenever the rule fires: the address and port of the worst retransmitting connection; the
  command name and process id of the most delayed process and of the worst descriptor leaker; the
  command name of each of the six slowest system calls and of the one that fails most; the badness score and resident
  set of each killed process; and the namespace and pod of each container near its memory limit or throttled.
\<close>

theorem prompt_privacy:
  assumes "prompt = BuildUserPrompt stamp now host s (told_Evaluate s t) history privacy"
  shows "(privacy \<noteq> PrivacyFull \<longrightarrow>
      prompt = BuildUserPrompt stamp now (scrub_host host) (scrub_signals s)
        (told_Evaluate (scrub_signals s) t) (map scrub_signals history) privacy) \<and>
    (\<forall>(f, title, evidence) \<in> set (told_Evaluate s t). sublist title prompt \<and> sublist evidence prompt) \<and>
    (\<forall>tcp conn rest. Sg_TCP s = Some tcp \<and> Tc_TopRetransmitters tcp = conn # rest \<and>
        evalTCPRetransmitStorm s t \<noteq> [] \<longrightarrow>
      sublist (Tc_SrcAddr conn @ '':'' @ fmt_u (Tc_SrcPort conn)) prompt) \<and>
    (\<forall>sched e rest. Sg_Sched s = Some sched \<and> Sd_TopDelayed sched = e # rest \<and>
        evalSchedulerContention s t \<noteq> [] \<longrightarrow>
      sublist (bytes_str (Sd_Comm e) @ '' (pid '' @ fmt_u (Sd_PID e)) prompt) \<and>
    (\<forall>fd e rest. Sg_FD s = Some fd \<and> Fd_Entries fd = e # rest \<and> evalFDLeak s t \<noteq> [] \<longrightarrow>
      sublist (bytes_str (Fd_Comm e) @ '' (pid '' @ fmt_u (Fd_PID e)) prompt) \<and>
    (\<forall>sys e. Sg_Syscall s = Some sys \<and> e \<in> set (take 6 (syscall_hot t (Sy_Entries sys))) \<longrightarrow>
      sublist (syscall_label e @ ''('' @ bytes_str (Sy_Comm e) @ '')'') prompt) \<and>
    (\<forall>sys e. Sg_Syscall s = Some sys \<and> syscall_failing (Sy_Entries sys) \<noteq> [] \<and>
        e = fst (worst_rate (syscall_failing (Sy_Entries sys))) \<longrightarrow>
      sublist (syscall_label e @ ''('' @ bytes_str (Sy_Comm e) @ '')='') prompt) \<and>
    (\<forall>oom evt. Sg_OOM s = Some oom \<and> Om_Count oom \<noteq> 0 \<and> evt \<in> set (Om_Events oom) \<longrightarrow>
      sublist (''OOM score: '' @ fmt_int (sint (Om_OOMScore evt)) @ '', RSS pages: '' @
        fmt_u (Om_RSSPages evt)) prompt) \<and>
    (\<forall>containers c. Sg_CgroupMemory s = Some containers \<and> c \<in> set containers \<and>
        (Cg_LimitBytes c \<noteq> 0 \<and> 85 \<le> Cg_UsedPct c \<or> 1 \<le> Cg_HighEventRate c) \<longrightarrow>
      sublist (pod_label c) prompt)"
    (is "_ \<and> _ \<and> ?tcp \<and> ?sched \<and> ?fd \<and> ?latency \<and> ?errors \<and> ?victims \<and> ?pods")
proof -
  note sent = told_text_sent [of s t _ stamp now host history privacy, folded assms]
  have "prompt = BuildUserPrompt stamp now (scrub_host host) (scrub_signals s)
      (told_Evaluate (scrub_signals s) t) (map scrub_signals history) privacy" if "privacy \<noteq> PrivacyFull"
  proof -
    have "map (finding_lines privacy) (map unnamed (told_Evaluate (scrub_signals s) t)) =
        map (finding_lines privacy) (map unnamed (told_Evaluate s t))"
      by (simp only: unnamed_told_Evaluate)
    then have lines: "map (finding_lines privacy) (told_Evaluate (scrub_signals s) t) =
        map (finding_lines privacy) (told_Evaluate s t)"
      by (simp add: comp_def scrub_lines [OF that])
    then have "told_Evaluate (scrub_signals s) t = [] \<longleftrightarrow> told_Evaluate s t = []"
      by (metis map_is_Nil_conv)
    then show ?thesis
      unfolding assms BuildUserPrompt_def scrub_lines [OF that] scrub_history lines scrub_signals_simps
        map_is_Nil_conv by simp
  qed
  moreover have "\<forall>(f, title, evidence) \<in> set (told_Evaluate s t). sublist title prompt \<and> sublist evidence prompt"
    unfolding assms by (auto intro: words_sent)
  moreover have ?tcp using sent [OF storm_told] by simp
  moreover have ?sched using sent [OF delay_told] by simp
  moreover have ?fd using sent [OF leak_told] by simp
  moreover have ?latency using sent [OF latency_told] by simp
  moreover have ?errors using sent [OF errors_told [OF _ _ refl]] by simp
  moreover have ?victims using sent [OF victim_told] by simp
  moreover have ?pods using sent [OF pod_told] by simp
  ultimately show ?thesis by (intro conjI impI)
qed

text \<open>A scheduler finding and a kill: the mode "summary" sends the delayed process but not the victim.\<close>

abbreviation demo_delayed :: SchedSnapshot where
  "demo_delayed \<equiv>
     \<lparr>Sd_Global = \<lparr>P50 = 0, P95 = 0, P99 = 90000000, PMax = 0\<rparr>,
      Sd_TopDelayed = [\<lparr>Sd_PID = 712, Sd_Comm = [112, 97, 121], Sd_Count = 1,
        Sd_RunqDelay = \<lparr>P50 = 0, P95 = 0, P99 = 90000000, PMax = 0\<rparr>\<rparr>],
      Sd_TotalCount = 1\<rparr>"

abbreviation demo_kills :: OOMSnapshot where
  "demo_kills \<equiv>
     \<lparr>Om_Events = [\<lparr>Om_Timestamp = 5, Om_PID = 77, Om_Comm = [100, 98], Om_TriggeredPID = 3,
        Om_TotalPages = 900, Om_RSSPages = 400, Om_OOMScore = 12, Om_CgroupID = 6\<rparr>],
      Om_Count = 1\<rparr>"

definition delayed_signals :: Signals where
  "delayed_signals = (empty_signals 0 30)\<lparr>Sg_Sched := Some demo_delayed, Sg_OOM := Some demo_kills\<rparr>"

abbreviation demo_host :: HostInfo where
  "demo_host \<equiv> \<lparr>Hi_Hostname = ''db1'', Hi_KernelVer = ''6.8'', Hi_OS = [], Hi_Arch = ''x86_64''\<rparr>"

abbreviation demo_prompt :: "HostInfo \<Rightarrow> Signals \<Rightarrow> string" where
  "demo_prompt host s \<equiv> BuildUserPrompt (\<lambda>_. []) 0 host s
     (told_Evaluate s (Dc_Thresholds (Cf_Doctor DefaultConfig))) [] PrivacySummary"

theorem prompt_privacy_witness:
  "sublist ''pay (pid 712'' (demo_prompt demo_host delayed_signals) \<and>
   sublist ''OOM score: 12, RSS pages: 400'' (demo_prompt demo_host delayed_signals) \<and>
   demo_prompt demo_host delayed_signals = demo_prompt (scrub_host demo_host) (scrub_signals delayed_signals) \<and>
   scrub_signals delayed_signals \<noteq> delayed_signals"
proof -
  let ?t = "Dc_Thresholds (Cf_Doctor DefaultConfig)"
  have s: "Sg_Sched delayed_signals = Some demo_delayed" "Sg_OOM delayed_signals = Some demo_kills"
    by (simp_all add: delayed_signals_def)
  have fires: "evalSchedulerContention delayed_signals ?t \<noteq> []"
    by (simp add: s evalSchedulerContention_def DefaultConfig_def DefaultThresholds_def Let_def)
  have texts: "fmt_u (712 :: u32) = ''712''" "fmt_u (400 :: u64) = ''400''"
    "fmt_int (sint (12 :: u32)) = ''12''" "bytes_str [112, 97, 121] = ''pay''"
    by (simp_all add: fmt_u_def fmt_int_def decimal.simps bytes_str_def char_of_def bit_iff_odd)
  have "Sg_OOM (scrub_signals delayed_signals) \<noteq> Sg_OOM delayed_signals"
    by (simp add: scrub_signals_def s scrub_victim_def)
  then have scrubbed: "scrub_signals delayed_signals \<noteq> delayed_signals" by auto
  note all = prompt_privacy [OF refl, where stamp = "\<lambda>_. []" and now = 0 and host = demo_host
      and s = delayed_signals and t = ?t and history = "[]" and privacy = PrivacySummary]
  have "PrivacySummary \<noteq> PrivacyFull" by (simp add: PrivacySummary_def PrivacyFull_def)
  then have "demo_prompt demo_host delayed_signals = demo_prompt (scrub_host demo_host) (scrub_signals delayed_signals)"
    using all by simp
  moreover have "sublist ''pay (pid 712'' (demo_prompt demo_host delayed_signals)"
    using all s fires texts by simp
  moreover have "sublist ''OOM score: 12, RSS pages: 400'' (demo_prompt demo_host delayed_signals)"
    using all s texts by simp
  ultimately show ?thesis using scrubbed by blast
qed

end
