(* ===== verification/DoctorSession.thy ===== *)
theory DoctorSession
  imports Commands
begin

text \<open>
  A run of \<open>kerno doctor\<close> from the samples to the reports: \<open>runDoctor\<close> of \<open>internal/cli/doctor.go\<close> builds
  and starts the collectors once, before its loop; they consume what the programs submit until the
  command ends, and each cycle takes a snapshot of all of them. The state carried from cycle to cycle is
  that of the collectors.
\<close>

section \<open>The collectors of a run\<close>

record collectors =
  co_syscall :: SyscallCollector
  co_tcp :: TCPCollector
  co_oom :: OOMCollector
  co_disk :: DiskIOCollector
  co_sched :: SchedCollector
  co_fd :: FDCollector
  co_memory :: MemoryCollector
  co_cgroup :: CgroupMemoryCollector

definition start_collectors :: "int \<Rightarrow> collectors" where
  "start_collectors now =
     \<lparr>co_syscall = NewSyscallCollectorWithCap DefaultSyscallKeyCap,
      co_tcp = NewTCPCollectorWithCap DefaultTCPConnCap,
      co_oom = \<lparr>om_events = []\<rparr>, co_disk = NewDiskIOCollector,
      co_sched = NewSchedCollectorWithCap DefaultSchedKeyCap,
      co_fd = NewFDCollectorWithCap now DefaultFDKeyCap,
      co_memory = NewMemoryCollector, co_cgroup = NewCgroupMemoryCollector\<rparr>"

text \<open>What reaches the collectors: a sample of a program with the time it is recorded, or a poll of the
  memory files. A sample that cannot be decoded is skipped. A collector that could not be started
  (\<open>StartAll\<close> returns at the first error) is one that nothing reaches.\<close>

datatype arrival =
    ProgramSample string int bytes
  | MeminfoPoll int "mem_error + string list"
  | CgroupPoll pod_lookup "string list" int cgdir

definition record_sample :: "string \<Rightarrow> int \<Rightarrow> bytes \<Rightarrow> collectors \<Rightarrow> collectors" where
  "record_sample collector now raw c =
     (if collector = ''syscall''
      then c\<lparr>co_syscall := foldl syscall_record (co_syscall c) (consumed DecodeSyscallEvent [raw])\<rparr>
      else if collector = ''tcp''
      then c\<lparr>co_tcp := foldl tcp_record (co_tcp c) (consumed DecodeTCPEvent [raw])\<rparr>
      else if collector = ''oom''
      then c\<lparr>co_oom := foldl oomc_record (co_oom c) (consumed DecodeOOMEvent [raw])\<rparr>
      else if collector = ''diskio''
      then c\<lparr>co_disk := foldl diskio_record (co_disk c) (consumed DecodeDiskEvent [raw])\<rparr>
      else if collector = ''sched''
      then c\<lparr>co_sched := foldl sched_record (co_sched c) (consumed DecodeSchedEvent [raw])\<rparr>
      else if collector = ''fd''
      then c\<lparr>co_fd := foldl fd_record (co_fd c) (map (Pair now) (consumed DecodeFDEvent [raw]))\<rparr>
      else c)"

text \<open>Only registered collectors consume anything; the first argument names the collector of a sample.\<close>

fun collector_arrival :: "build_result \<Rightarrow> collectors \<Rightarrow> arrival \<Rightarrow> collectors" where
  "collector_arrival build c (ProgramSample collector now raw) =
     (if collector \<in> set (Bd_registry build) then record_sample collector now raw c else c)"
| "collector_arrival build c (MeminfoPoll now file) = c\<lparr>co_memory := snd (memory_poll now file (co_memory c))\<rparr>"
| "collector_arrival build c (CgroupPoll enricher base now tree) =
     c\<lparr>co_cgroup := snd (cgroup_poll enricher base now tree (co_cgroup c))\<rparr>"

text \<open>The snapshots; \<open>sort.Slice\<close> at the four types it is used with.\<close>

record slice_sorts =
  sl_syscall :: "(SyscallEntry \<Rightarrow> SyscallEntry \<Rightarrow> bool) \<Rightarrow> SyscallEntry list \<Rightarrow> SyscallEntry list"
  sl_tcp :: "(tcpConnKey \<times> tcpConnAgg \<Rightarrow> tcpConnKey \<times> tcpConnAgg \<Rightarrow> bool) \<Rightarrow>
    (tcpConnKey \<times> tcpConnAgg) list \<Rightarrow> (tcpConnKey \<times> tcpConnAgg) list"
  sl_sched :: "(schedKey \<times> schedEntry \<Rightarrow> schedKey \<times> schedEntry \<Rightarrow> bool) \<Rightarrow>
    (schedKey \<times> schedEntry) list \<Rightarrow> (schedKey \<times> schedEntry) list"
  sl_fd :: "(FDEntry \<Rightarrow> FDEntry \<Rightarrow> bool) \<Rightarrow> FDEntry list \<Rightarrow> FDEntry list"

definition collector_snapshot :: "slice_sorts \<Rightarrow> int \<Rightarrow> collectors \<Rightarrow> string \<Rightarrow> snapshot" where
  "collector_snapshot sorts now c name =
     (if name = ''syscall'' then SyscallSnap (syscall_Snapshot (sl_syscall sorts) (co_syscall c))
      else if name = ''tcp'' then TCPSnap (tcp_Snapshot (sl_tcp sorts) (co_tcp c))
      else if name = ''oom'' then OOMSnap (oomc_Snapshot (co_oom c))
      else if name = ''diskio'' then DiskIOSnap (diskio_Snapshot (co_disk c))
      else if name = ''sched'' then SchedSnap (sched_Snapshot (sl_sched sorts) (co_sched c))
      else if name = ''fd'' then FDSnap (fd_Snapshot (sl_fd sorts) now (co_fd c))
      else if name = ''memory''
      then (case memory_Snapshot (co_memory c) of None \<Rightarrow> NilSnapshot | Some s \<Rightarrow> MemorySnap s)
      else if name = ''cgroup_memory''
      then (case cg_snap (co_cgroup c) of None \<Rightarrow> NilSnapshot | Some s \<Rightarrow> CgroupMemorySnap s)
      else NilSnapshot)"

section \<open>The loop\<close>

text \<open>A cycle: what arrives until its snapshot is taken, and the time of the snapshot. The snapshots of a
  run, the collectors handed on from cycle to cycle.\<close>

type_synonym doctor_cycle = "arrival list \<times> int"

fun session_windows ::
  "build_result \<Rightarrow> slice_sorts \<Rightarrow> string list \<Rightarrow> int \<Rightarrow> collectors \<Rightarrow> doctor_cycle list \<Rightarrow> Signals list" where
  "session_windows build sorts order duration c [] = []"
| "session_windows build sorts order duration c ((arrivals, now) # cycles) =
     (let c = foldl (collector_arrival build) c arrivals
      in registry_Signals order now duration (build_registry build (collector_snapshot sorts now c)) #
         session_windows build sorts order duration c cycles)"

definition doctor_session ::
  "doctorOpts \<Rightarrow> Config \<Rightarrow> (string \<Rightarrow> string option) \<Rightarrow> Environment \<Rightarrow> bool \<Rightarrow>
   (AnalysisRequest \<Rightarrow> 'r option \<times> bool) option \<Rightarrow> slice_sorts \<Rightarrow> string list \<Rightarrow> int \<Rightarrow> doctor_cycle list \<Rightarrow>
   'r cycle_output list \<times> doctor_error option \<times> 'r Engine" where
  "doctor_session opts cfg load env write_fails analyzer sorts order now cycles =
     (let build = buildCollectors load (Cf_Collectors cfg);
          windows = session_windows build sorts order (Do_duration (with_duration cfg opts))
            (start_collectors now) cycles
      in runDoctor opts cfg load env write_fails analyzer windows)"

section \<open>What the collectors keep\<close>

text \<open>The collectors as of a cycle.\<close>

definition session_collectors :: "build_result \<Rightarrow> int \<Rightarrow> doctor_cycle list \<Rightarrow> collectors" where
  "session_collectors build now cycles =
     foldl (collector_arrival build) (start_collectors now) (concat (map fst cycles))"

lemma session_windows_nth:
  "length (session_windows build sorts order d c cycles) = length cycles"
  "i < length cycles \<Longrightarrow> session_windows build sorts order d c cycles ! i =
     registry_Signals order (snd (cycles ! i)) d (build_registry build
       (collector_snapshot sorts (snd (cycles ! i))
         (foldl (collector_arrival build) c (concat (map fst (take (Suc i) cycles))))))"
proof (induction build sorts order d c cycles arbitrary: i rule: session_windows.induct)
  case (2 build sorts order d c arrivals now cycles)
  { case 1 show ?case using 2 by (simp add: Let_def)
  next
    case 2 then show ?case using "2.IH" by (cases i) (simp_all add: Let_def) }
qed simp_all

text \<open>The kills in a list of arrivals.\<close>

fun arrival_kills :: "arrival \<Rightarrow> OOMEvent list" where
  "arrival_kills (ProgramSample collector now raw) =
     (if collector = ''oom'' then consumed DecodeOOMEvent [raw] else [])"
| "arrival_kills (MeminfoPoll now file) = []"
| "arrival_kills (CgroupPoll enricher base now tree) = []"

lemma collectors_oom:
  assumes "''oom'' \<in> set (Bd_registry build)"
  shows "co_oom (foldl (collector_arrival build) c as) =
    foldl oomc_record (co_oom c) (concat (map arrival_kills as))"
proof (induction "as" arbitrary: c)
  case (Cons a "as")
  have "co_oom (collector_arrival build c a) = foldl oomc_record (co_oom c) (arrival_kills a)"
    using assms by (cases a) (auto simp: record_sample_def)
  with Cons show ?case by (simp add: foldl_append)
qed simp

lemma own_collector_snapshot: "own_snapshots (collector_snapshot sorts now c)"
  by (simp add: own_snapshots_def collector_slots_def collector_snapshot_def split: option.split)

text \<open>The part of the snapshot an own collector fills does not depend on the others.\<close>

lemma signals_oom:
  assumes "''oom'' \<in> set order" "set order \<subseteq> set (Bd_registry build)"
  shows "Sg_OOM (registry_Signals order now d (build_registry build (collector_snapshot sorts now c))) =
    Some (oomc_Snapshot (co_oom c))"
proof -
  let ?snap = "\<lambda>n. the (build_registry build (collector_snapshot sorts now c) n)"
  have snap: "?snap n = collector_snapshot sorts now c n" if "n \<in> set order" for n
    using that assms(2) by (auto simp: build_registry_def)
  have oom: "collector_snapshot sorts now c ''oom'' = OOMSnap (oomc_Snapshot (co_oom c))"
    by (simp add: collector_snapshot_def)
  have slot: "snap_slot (collector_snapshot sorts now c n) \<noteq> 3" if "n \<noteq> ''oom''" for n
    using that by (simp add: collector_snapshot_def split: option.split)
  have "Sg_OOM (foldl add_snapshot s (map ?snap ns)) =
      (if ''oom'' \<in> set ns then Some (oomc_Snapshot (co_oom c)) else Sg_OOM s)"
    if "set ns \<subseteq> set order" for s ns
    using that
  proof (induction ns arbitrary: s)
    case (Cons n ns)
    show ?case
    proof (cases "n = ''oom''")
      case True
      with Cons snap [of n] oom show ?thesis by simp
    next
      case False
      with Cons snap [of n] add_snapshot_other(3) [OF slot [OF False]] show ?thesis by auto
    qed
  qed simp
  from this [of order] assms(1) show ?thesis by (simp add: registry_Signals_def)
qed

text \<open>A kill consumed in some cycle is in the snapshot of every later one, unless 256 others followed.\<close>

lemma session_kill:
  assumes "build = buildCollectors load (Cf_Collectors cfg)" "set order = set (Bd_registry build)"
    and "Cl_OOMTrack (Cf_Collectors cfg)" "load ''oom_track'' = None"
    and "i < length cycles" "kills = concat (map arrival_kills (concat (map fst (take (Suc i) cycles))))"
  shows "Sg_OOM (session_windows build sorts order d (start_collectors start) cycles ! i) =
    Some (oomc_Snapshot (oomc_collect kills))"
proof -
  have reg: "''oom'' \<in> set (Bd_registry build)"
    using assms(1,3,4) by (simp add: in_registry registrations_def reg_ok_def)
  have "co_oom (start_collectors start) = \<lparr>om_events = []\<rparr>" by (simp add: start_collectors_def)
  then show ?thesis
    using assms(2) reg
    by (simp add: session_windows_nth(2) [OF assms(5)] signals_oom collectors_oom assms(6) oomc_collect_def)
qed

lemma oom_record_kept:
  assumes "kill \<in> set kills" "length kills \<le> MaxOOMEvents"
  shows "oom_entry kill \<in> set (Om_Events (oomc_Snapshot (oomc_collect kills)))"
  using assms by (simp add: oomc_Snapshot_def oomc_collect_eq)

lemma kill_named:
  assumes "Sg_OOM w = Some (oomc_Snapshot (oomc_collect kills))" "kill \<in> set kills" "length kills \<le> 256"
  shows "\<exists>f \<in> set (Evaluate w t). Fi_Rule f = ''oom_kill_occurred'' \<and>
    Fi_Process f = nullTermString (OE_Comm kill) \<and> Fi_Severity f = SeverityCritical"
proof -
  have "oom_entry kill \<in> set (Om_Events (oomc_Snapshot (oomc_collect kills)))"
    using oom_record_kept [OF assms(2)] assms(3) by (simp add: MaxOOMEvents_def)
  moreover from this have "Om_Count (oomc_Snapshot (oomc_collect kills)) \<noteq> 0"
    by (auto simp: oomc_Snapshot_def)
  ultimately obtain f where f: "f \<in> set (evalOOMKillOccurred w)" "Fi_Rule f = ''oom_kill_occurred''"
      "Fi_Process f = nullTermString (OE_Comm kill)" "Fi_Severity f = SeverityCritical"
    using oom_finding [OF _ assms(1), of "oom_entry kill"] by (auto simp: oom_entry_def)
  then show ?thesis using oom_findings_reported(1) [OF f(1), of t] by blast
qed

text \<open>C32: a kill is reported for ever. The collectors live as long as the command and keep what they
  have recorded, so in continuous mode every report from the cycle of the first decodable sample of the
  OOM probe on begins with a critical finding, however long ago the kill was and whatever window the
  report names; and as long as no more than 256 kills were seen, each of them is among the findings of
  each of these reports, with its command name.\<close>

theorem kill_never_clears:
  assumes "doctor_session opts cfg load env False analyzer sorts order start cycles = (outs, err, e)"
    and "Do_continuous opts" "\<not> Do_exitCode opts"
    and "set order = set (Bd_registry (buildCollectors load (Cf_Collectors cfg)))"
    and "Cl_OOMTrack (Cf_Collectors cfg)" "load ''oom_track'' = None"
    and "j \<le> i" "i < length cycles" "ProgramSample ''oom'' received raw \<in> set (fst (cycles ! j))"
    and "DecodeOOMEvent raw = Inr kill"
  shows "i < length outs \<and> (\<exists>full. outs ! i = Rendered full \<and>
    Fi_Severity (hd (Rp_Findings (Fr_Report full))) = SeverityCritical \<and>
    (length (concat (map arrival_kills (concat (map fst (take (Suc i) cycles))))) \<le> 256 \<longrightarrow>
      (\<exists>f \<in> set (Rp_Findings (Fr_Report full)). Fi_Rule f = ''oom_kill_occurred'' \<and>
        Fi_Process f = nullTermString (OE_Comm kill))))"
proof -
  define t where "t = Dc_Thresholds (Cf_Doctor cfg)"
  let ?build = "buildCollectors load (Cf_Collectors cfg)" and ?opts = "with_duration cfg opts"
  define windows where "windows = session_windows ?build sorts order (Do_duration ?opts) (start_collectors start) cycles"
  let ?kills = "concat (map arrival_kills (concat (map fst (take (Suc i) cycles))))"
  let ?w = "windows ! i"
  have "doctor_loop ?opts ?build env False (NewEngine t analyzer) windows = (outs, err, e)"
    using assms(1) by (simp add: doctor_session_def runDoctor_def t_def windows_def Let_def)
  from doctor_loop_ok [OF this, of t] have outs: "list_all2 (output_ok opts t) outs windows"
    using assms(2,3) by (simp add: NewEngine_def doctor_cycles_def)
  have len: "length windows = length cycles" by (simp add: windows_def session_windows_nth(1))
  with outs assms(8) have i: "i < length outs" and ok: "output_ok opts t (outs ! i) ?w"
    by (auto dest: list_all2_lengthD list_all2_nthD2)
  have sg: "Sg_OOM ?w = Some (oomc_Snapshot (oomc_collect ?kills))"
    unfolding windows_def by (rule session_kill [OF refl assms(4-6,8) refl])
  have "cycles ! j \<in> set (take (Suc i) cycles)"
    using assms(7,8) by (auto simp: in_set_conv_nth intro!: exI [of _ j])
  then have "ProgramSample ''oom'' received raw \<in> set (concat (map fst (take (Suc i) cycles)))"
    using assms(9) by auto
  then have kill: "kill \<in> set ?kills" using assms(10) by (force simp: consumed_def)
  have crit: "has_critical ?w t" using kill_critical [OF sg] kill by (metis empty_iff list.set(1))
  have some: "rule_findings ?w t \<noteq> []"
    using crit by (auto simp: Evaluate_eq has_critical_def set_RankFindings evalHealthySystem_def)
  with ok crit obtain full where full: "outs ! i = Rendered full"
    and fs: "Rp_Findings (Fr_Report full) =
      (if Do_onlyCritical opts then FilterCriticalFindings (Evaluate ?w t) else Evaluate ?w t)"
    by (auto simp: output_ok_def split: cycle_output.splits if_splits)
  have head: "Fi_Severity (hd (Rp_Findings (Fr_Report full))) = SeverityCritical"
    using fs critical_first [OF crit] critical_filtered_first [OF crit] by simp
  have "\<exists>f \<in> set (Rp_Findings (Fr_Report full)). Fi_Rule f = ''oom_kill_occurred'' \<and>
        Fi_Process f = nullTermString (OE_Comm kill)" if "length ?kills \<le> 256"
    using kill_named [OF sg kill that, of t] fs by (auto simp: FilterCriticalFindings_def)
  with i full head show ?thesis by blast
qed

text \<open>A kill in the first cycle, and nothing afterwards.\<close>

definition demo_sorts :: slice_sorts where
  "demo_sorts = \<lparr>sl_syscall = (\<lambda>less xs. xs), sl_tcp = (\<lambda>less xs. xs), sl_sched = (\<lambda>less xs. xs),
     sl_fd = (\<lambda>less xs. xs)\<rparr>"

definition demo_cycles :: "doctor_cycle list" where
  "demo_cycles = [([ProgramSample ''oom'' 5 (replicate 64 0)], 30), ([], 90)]"

theorem kill_never_clears_witness:
  "\<exists>full. fst (doctor_session demo_opts DefaultConfig (\<lambda>_. None) EnvBareMetal False no_analyzer demo_sorts
     (map fst collector_slots) 0 demo_cycles) ! 1 = Rendered full \<and>
     Fi_Severity (hd (Rp_Findings (Fr_Report full))) = SeverityCritical"
proof -
  obtain kill where kill: "DecodeOOMEvent (replicate 64 0) = Inr kill"
    by (simp add: DecodeOOMEvent_def binary_Read_def OOMEvent_fields_def TaskCommLen_def)
  have order: "set (map fst collector_slots) =
      set (Bd_registry (buildCollectors (\<lambda>_. None) (Cf_Collectors DefaultConfig)))"
    unfolding build_registry_names
    by (simp add: collector_slots_def registrations_def reg_ok_def DefaultConfig_def)
  show ?thesis
    using kill_never_clears [OF prod.collapse [symmetric, THEN trans] _ _ order _ _ _ _ _ kill,
        where i = 1 and j = 0 and opts = demo_opts and env = EnvBareMetal and analyzer = no_analyzer
          and sorts = demo_sorts and start = 0 and cycles = demo_cycles and received = 5]
    by (cases "doctor_session demo_opts DefaultConfig (\<lambda>_. None) EnvBareMetal False no_analyzer demo_sorts
          (map fst collector_slots) 0 demo_cycles")
      (auto simp: demo_opts_def demo_cycles_def DefaultConfig_def)
qed

end
