(* ===== verification/Spec2Isabelle.thy ===== *)
theory Spec2Isabelle
  imports SyscallSmp SchedDelay Pipeline KernelTyping Predict Metrics Commands
    AuditFiles LatencySmp RingMemory Live Prompt DoctorSession
begin

text \<open>
  Verification library of kerno, an incident diagnosis engine: six eBPF programs in C trace the
  kernel and submit fixed-layout records to ring buffers; a Go process decodes them, aggregates
  them into signals and evaluates diagnosis rules.

  Program and theories.
  \<^item> \<open>Prelude\<close>: machine integers, little-endian bytes, slices.
  \<^item> \<open>CLayout\<close>: C types of the target, with computed size, alignment and member offsets; members
    are disjoint and inside their object. \<open>CAlign\<close>, \<open>KernelTyping\<close>: well-formed types, the
    alignment of members, and the accesses of the programs to contexts and kernel objects, which are
    typed and in bounds.
  \<^item> \<open>VmHooks\<close>, \<open>VmTask\<close>, \<open>VmMem\<close>, \<open>VmNet\<close>, \<open>VmBlock\<close>, \<open>VmSched\<close>, \<open>VmFile\<close>, \<open>VmBpf\<close>: the
    declarations of \<open>internal/bpf/c/headers/vmlinux.h\<close> the programs reach (the tracepoint
    contexts, the register file, \<open>task_struct\<close>, \<open>oom_control\<close> and what they embed, and the kernel
    structures next to them), each with its computed layout.
  \<^item> \<open>KernoH\<close>: \<open>headers/kerno.h\<close>: constants, event structures (as records, and as C types with the
    byte image of a record), map declarations, loads and stores through a layout.
  \<^item> \<open>BpfRuntime\<close>: the kernel side of a program run as parameters. \<open>bpf_env\<close> holds what the helpers
    return in one invocation, \<open>helpers_ok\<close> their documented contract, the locale \<open>bpf_hash\<close> the
    contract of a hash map of bounded size, interpreted on the concrete \<open>khash\<close>. \<open>HashElems\<close>: the map
    with its elements: a lookup gives a pointer, which stays readable after the element was deleted and may
    then read what the element was reused for; the locale \<open>bpf_hash_elems\<close>, interpreted on \<open>khash_elems\<close>.
  \<^item> \<open>Tracker\<close>: the abstract specification the three latency tracers share, a table of pending start
    times driven by start and finish events, with the locales \<open>tracker_prog\<close> (a program whose map
    follows the table) and \<open>tracker_out\<close> (one that submits a record per measurement): where a
    record comes from, which measurements are reported, how many there can be.
  \<^item> \<open>SyscallLatency\<close>, \<open>DiskIo\<close>, \<open>SchedDelay\<close>: \<open>syscall_latency.c\<close>, \<open>disk_io.c\<close>, \<open>sched_delay.c\<close>;
    their handlers are a \<open>tracker_out\<close> over any map that satisfies \<open>bpf_hash\<close>.
  \<^item> \<open>TcpMonitor\<close>, \<open>FdTrack\<close>, \<open>OomTrack\<close>: \<open>tcp_monitor.c\<close>, \<open>fd_track.c\<close>, \<open>oom_track.c\<close>, which keep no map.
  \<^item> \<open>SyscallSmp\<close>: the system call handlers on several CPUs, an exit split at its calls into the
    kernel, as an inductive step relation with an executable schedule interpreter. Every
    interleaving is simulated by atomic handlers.
  \<^item> \<open>TracerSmp\<close>, \<open>LatencySmp\<close>: the disk and the scheduler tracer on a fixed number of CPUs, whose finishing handler
    is split into the lookup of the pointer, the read through it, the delete and the submission, with a
    schedule interpreter. Other CPUs run between any two of them. The locale
    \<open>smp_tracker\<close> says what every interleaving guarantees and for which keys the handlers are as if atomic,
    interpreted on both tracers. Disk handlers of one sector are not atomic: a double report and a read through
    a stale pointer are shown.
  \<^item> \<open>RingMemory\<close>: which bytes of a submitted record are old ring-buffer memory.
  \<^item> \<open>GoEvents\<close>, \<open>GoSyscalls\<close>: \<open>internal/bpf/events.go\<close>, \<open>syscalls.go\<close> and the decoders of the loaders.
  \<^item> \<open>Float64\<close>, \<open>GoTime\<close>: correctly rounded double arithmetic on rationals, percentages, durations,
    and \<open>internal/doctor/eta.go\<close>.
  \<^item> \<open>Histogram\<close>, \<open>Lru\<close>: \<open>internal/collector/aggregator\<close>. The cache is the linked list and the map of
    the code; the locale \<open>keyed_cache\<close> is its contract, interpreted on it.
  \<^item> \<open>CollectorCore\<close>: what the collectors share: the consumer loop, percentiles, the contract of
    \<open>sort.Slice\<close>, and what a cache of aggregates holds after a run. \<open>SyscallCollector\<close>,
    \<open>SchedCollector\<close>, \<open>DiskCollector\<close>, \<open>OomCollector\<close>, \<open>FdCollector\<close>, \<open>TcpCollector\<close>: the collectors of
    \<open>internal/collector\<close>, recording and snapshot.
  \<^item> \<open>MemoryCollector\<close>, \<open>CgroupMemory\<close>: parsing of \<open>/proc/meminfo\<close> and of the cgroup files, the walk of
    the hierarchy, and the polls.
  \<^item> \<open>Signals\<close>, \<open>Doctor\<close>, \<open>Engine\<close>: the combined snapshot with its registry, and of
    \<open>internal/doctor\<close> the rules, the ranking, and the engine with its history.
  \<^item> \<open>Predict\<close>: \<open>predict.go\<close> of \<open>internal/doctor\<close> and of \<open>internal/cli\<close>: regression on several
    snapshots, the predictions, their in-place sort, and the command.
  \<^item> \<open>AiLimit\<close>, \<open>AiAnalyzer\<close>: of \<open>internal/ai\<close> the token bucket, the response cache, and the analyzer
    with the cache key, the decoding of answers and sessions of analyses. \<open>Config\<close>:
    \<open>internal/config/config.go\<close>, its validation, and how the doctor command builds the analyzer.
  \<^item> \<open>Prompt\<close>: \<open>internal/ai/prompt.go\<close>: the prompt in its privacy modes, with the titles and the evidence of
    all rules of \<open>internal/doctor/rules.go\<close>, and what it discloses.
  \<^item> \<open>Adapter\<close>: \<open>internal/adapter\<close>: the environment, the cgroup path of a process, the metadata of an
    event, and the pod indexes with the lookup the cgroup collector uses.
  \<^item> \<open>Metrics\<close>: \<open>internal/metrics/bridge.go\<close>, which turns the events of the daemon into calls on the
    Prometheus client; a call with a label that is not UTF-8 panics.
  \<^item> \<open>Commands\<close>: \<open>kerno doctor\<close> and \<open>kerno start\<close> (\<open>internal/cli/doctor.go\<close>, \<open>start.go\<close>): loading the
    programs and registering the collectors, the diagnostic cycles with what they write and the exit
    code, and the JSON report of \<open>internal/doctor/render.go\<close>. \<open>DoctorSession\<close>: the whole of \<open>runDoctor\<close>: the
    collectors started once, the events that reach them between the cycles, and what the cycles report.
  \<^item> \<open>Live\<close>: \<open>kerno trace\<close> and \<open>kerno watch\<close>: windows, percentiles, filters, rankings.
  \<^item> \<open>AuditFiles\<close>: \<open>kerno audit files\<close> (\<open>internal/cli/audit.go\<close>): the paths to watch, and the records of
    inotify with the log made of them.
  \<^item> \<open>Pipeline\<close> and this theory: the properties that span kernel and user space, from the hook to
    the finding.

  State and steps. The state of a program is its map and the list of the records it has submitted;
  a handler is a function from what the helpers return, the reserved ring buffer slot (\<open>None\<close> when
  \<open>bpf_ringbuf_reserve\<close> fails) and the context bytes to the next state. A run is a sequence of
  handler invocations in the order the kernel runs them; each is atomic, except in \<open>SyscallSmp\<close>,
  which justifies it for the system call tracer, and in \<open>LatencySmp\<close>, which interleaves handlers at
  every access to a map or to an element of it, and says for the disk tracer which sectors
  atomic runs describe. In user space each operation runs under a mutex
  and is a function on the state; the instant an operation reads from the clock is an argument.
  Recursion is over lists, but for the walk of the cgroup tree, which stops at depth 8, the index
  loops of \<open>parseCgroupPath\<close>, which end at the length of the text, and the loops of \<open>sortPredictions\<close>, which are partial functions proved total; there is no fuel.

  Not under the source tree, hence parameters: the BPF helpers and \<open>bpf_ntohs\<close>, the maps, the
  ring buffer, CO-RE relocation (the reads use the offsets of \<open>vmlinux.h\<close>), the events of the
  Kubernetes informer, what a language model answers, the grammar of JSON, whether a program loads,
  the label check of the Prometheus client, and what inotify delivers. Of the Go library, \<open>sort.Slice\<close> is any function with its contract (the order of equal
  elements is open), \<open>sort.SliceStable\<close> the stable insertion sort. White space is that of ASCII.

  Numbers. Signed members of an event (\<open>oom_score\<close>, \<open>fd\<close>) and durations taken from a \<open>uint64\<close> are kept
  as words and read with \<open>sint\<close>. A float64 is the rational it denotes; the values that occur stay
  within the normal range, and divisors are not zero where the code divides. The bound
  \<open>2 ^ 53\<close> on the number of events is that below which counts convert exactly.

  Not modelled: attaching programs, the reader goroutines and channels, and the goroutine control of
  starting and stopping collectors (\<open>DoctorSession\<close> has the order in which events reach them); a data race: \<open>Snapshot\<close> of
  the scheduler, descriptor and TCP collectors releases its mutex before it sorts and reads the
  aggregates, while here a snapshot is taken at one instant; the causes, impacts and fixes of findings and
  the sentences of predictions, the terminal layout of reports and live views,
  and the system prompt (strings without a contract); YAML and flag parsing, the HTTP clients of the
  language models, the Kubernetes API client
  and the Prometheus server (code outside the source tree behind thin wrappers); the fallback analyzer, which nothing
  constructs; the chaos scenarios, which are load generators.
\<close>

section \<open>From the hook to the Go event\<close>

text \<open>C8: what user space sees of a system call. Every record a run of the syscall tracer submits,
  put into any reserved slot of the ring buffer and decoded by \<open>DecodeSyscallEvent\<close>, gives a Go
  event whose latency is the time between an entry and the next exit of one thread, with the
  thread ids, syscall number, return value and command name of that exit.\<close>

theorem syscall_pipeline:
  assumes "bpf_hash ops MAX_ENTRIES ok" "ok m" "map_lookup_elem ops m = Map.empty"
    and "list_all (\<lambda>i. helpers_ok (sys_env i)) is"
    and "e \<in> set (syscall_events (sys_run ops (sys_init m) is))"
    and "length mem = csize struct_syscall_event"
  shows "\<exists>g xs env0 c0 ys env1 e0 c1 zs.
    DecodeSyscallEvent (syscall_event_image e mem) = Inr g \<and>
    is = xs @ SysEnter env0 c0 # ys @ SysExit env1 (Some e0) c1 # zs \<and>
    (\<forall>j \<in> set ys. h_pid_tgid (sys_env j) \<noteq> h_pid_tgid env1) \<and>
    h_pid_tgid env0 = h_pid_tgid env1 \<and>
    SE_LatencyNs g = h_ktime env1 0 - h_ktime env0 0 \<and>
    SE_PID g = hi32 (h_pid_tgid env1) \<and> SE_TID g = lo32 (h_pid_tgid env1) \<and>
    SE_SyscallNr g = ctx_load st_trace_event_raw_sys_exit ''id'' c1 \<and>
    SE_Ret g = ctx_load st_trace_event_raw_sys_exit ''ret'' c1 \<and> SE_Comm g = h_comm env1"
proof -
  obtain xs env0 c0 ys env1 e0 c1 zs
    where run: "is = xs @ SysEnter env0 c0 # ys @ SysExit env1 (Some e0) c1 # zs"
      and thread: "h_pid_tgid env0 = h_pid_tgid env1"
        "\<forall>j \<in> set ys. h_pid_tgid (sys_env j) \<noteq> h_pid_tgid env1"
      and e: "e = sys_record env1 c1 (h_ktime env0 0)"
    using sys_event_origin [OF assms(1,2,3,5)] by blast
  have "length (se_comm e) = TASK_COMM_LEN"
    using assms(4) run e by (simp add: sys_record_def helper_simps)
  from decode_syscall_image [OF assms(6) this] run thread e show ?thesis
    by (intro exI [of _ "\<lparr>SE_TimestampNs = se_timestamp_ns e, SE_LatencyNs = se_latency_ns e,
          SE_CgroupID = se_cgroup_id e, SE_PID = se_pid e, SE_TID = se_tid e,
          SE_SyscallNr = se_syscall_nr e, SE_Ret = se_ret e, SE_Comm = se_comm e\<rparr>"]
        exI [of _ xs] exI [of _ env0] exI [of _ c0] exI [of _ ys] exI [of _ env1]
        exI [of _ e0] exI [of _ c1] exI [of _ zs]) (simp add: sys_record_def)
qed

theorem syscall_pipeline_witness:
  "\<exists>g. DecodeSyscallEvent (syscall_event_image (hd (syscall_events
     (sys_run (khash MAX_ENTRIES) (sys_init []) demo_sys_run))) (replicate 56 170)) = Inr g"
  using syscall_pipeline [OF kh.bpf_hash_axioms khash_empty, of demo_sys_run
      "hd (syscall_events (sys_run (khash MAX_ENTRIES) (sys_init []) demo_sys_run))"
      "replicate 56 170"] demo_sys_run_events
  by (auto simp: demo_sys_run_def helper_simps event_size)

text \<open>C12: the addresses of a TCP event come out reversed. The kernel keeps an IPv4 address in
  network order; the handler copies those four bytes into the record, Go decodes them as a
  little-endian integer and \<open>SrcAddr\<close> and \<open>DstAddr\<close> write it back big-endian: for every IPv4
  retransmission whose addresses could be read, the octets of the two addresses appear in
  reverse order, while the ports are those of the hook, the destination port byte-swapped.\<close>

theorem tcp_addresses_reversed:
  assumes "helpers_ok env" "length ctx = csize st_trace_event_raw_tcp_retransmit_skb"
    and "length mem = csize struct_tcp_event" "length (te_pad e0) = 4"
    and "h_probe env 0 = (\<lambda>bs. bs)" "h_probe env 1 = (\<lambda>bs. bs)"
    and "ctx_load st_trace_event_raw_tcp_retransmit_skb ''family'' ctx = AF_INET"
    and "e = hd (tcp_emits (TcpRetransmit env (Some e0) ctx))"
  shows "\<exists>g. DecodeTCPEvent (tcp_event_image e mem) = Inr g \<and>
    SrcAddr g = rev (cload st_trace_event_raw_tcp_retransmit_skb ''saddr'' ctx) \<and>
    DstAddr g = rev (cload st_trace_event_raw_tcp_retransmit_skb ''daddr'' ctx) \<and>
    TE_SPort g = ctx_load st_trace_event_raw_tcp_retransmit_skb ''sport'' ctx \<and>
    TE_DPort g = swap16 (ctx_load st_trace_event_raw_tcp_retransmit_skb ''dport'' ctx)"
proof -
  have addr: "length (cload st_trace_event_raw_tcp_retransmit_skb f ctx) = 4"
    if "f = ''saddr'' \<or> f = ''daddr''" for f
    using that assms(2)
    by (auto simp: cload_def field_eval st_trace_event_raw_tcp_retransmit_skb_def)
  have e: "te_saddr e = le_word (cload st_trace_event_raw_tcp_retransmit_skb ''saddr'' ctx)"
    "te_daddr e = le_word (cload st_trace_event_raw_tcp_retransmit_skb ''daddr'' ctx)"
    "te_sport e = ctx_load st_trace_event_raw_tcp_retransmit_skb ''sport'' ctx"
    "te_dport e = swap16 (ctx_load st_trace_event_raw_tcp_retransmit_skb ''dport'' ctx)"
    "te_comm e = h_comm env" "te_pad e = te_pad e0"
    using assms(1,5-8) by (simp_all add: tcp_emit_defs helper_simps)
  have "DecodeTCPEvent (tcp_event_image e mem) = Inr \<lparr>TE_TimestampNs = te_timestamp_ns e,
      TE_CgroupID = te_cgroup_id e, TE_PID = te_pid e, TE_SAddr = te_saddr e,
      TE_DAddr = te_daddr e, TE_SPort = te_sport e, TE_DPort = te_dport e,
      TE_Family = te_family e, TE_EventType = te_event_type e, TE_State = te_state e,
      TE_RTTUs = te_rtt_us e, TE_Retransmits = te_retransmits e, TE_Comm = te_comm e,
      TE_Pad = te_pad e\<rparr>"
    using assms(1,3,4) by (intro decode_tcp_image) (simp_all add: e helper_simps)
  then show ?thesis using addr
    by (simp add: SrcAddr_def DstAddr_def BigEndian_PutUint32_def e le_bytes_le_word)
qed

theorem tcp_addresses_reversed_witness:
  "\<exists>g. DecodeTCPEvent (tcp_event_image (hd (tcp_emits (TcpRetransmit (demo_env 42 1000)
     (Some demo_tcp_slot) demo_retransmit_ctx))) (replicate 64 0)) = Inr g \<and>
   SrcAddr g = [1, 0, 0, 10]"
  using tcp_addresses_reversed [OF helpers_ok_demo_env [of 42 1000] demo_retransmit_loads(3) _ _ _ _
      demo_retransmit_loads(1) refl, of "replicate 64 0" demo_tcp_slot] demo_retransmit_loads(2)
  by (auto simp: event_size demo_tcp_slot_def demo_env_def)

text \<open>The victim's name does not depend on the ring buffer. The string read behind
  \<open>BPF_CORE_READ_STR_INTO\<close> stores a terminated string and leaves the rest of its destination
  alone, so the name field of an OOM record ends in old ring buffer content; \<open>CommString\<close> stops at
  the terminator, and the name Go reports is the string the kernel read.\<close>

theorem oom_name_from_kernel:
  assumes "oc = ctx_load st_pt_regs ''di'' regs"
    and "victim = (le_word (h_core_read env (oc + 40) 8) :: u64)" "victim \<noteq> 0"
    and "\<forall>dst. length dst = TASK_COMM_LEN \<longrightarrow>
      h_core_read_str env (victim + 3248) dst = name @ 0 # drop (length name + 1) dst"
    and "length name < TASK_COMM_LEN" "0 \<notin> set name" "length (oe_comm e0) = TASK_COMM_LEN"
    and "length mem = csize struct_oom_event"
  shows "\<exists>e g. oom_emits env (Some e0) regs = [e] \<and>
    DecodeOOMEvent (oom_event_image e mem) = Inr g \<and> nullTermString (OE_Comm g) = name"
  by (rule oom_decoded_name [OF assms])

theorem oom_name_from_kernel_witness:
  "\<exists>e g. oom_emits demo_oom_env (Some demo_oom_slot) (replicate 168 0) = [e] \<and>
     DecodeOOMEvent (oom_event_image e (replicate 64 255)) = Inr g \<and>
     nullTermString (OE_Comm g) = [110, 103, 105, 110, 120]"
  by (rule oom_name_from_kernel [OF refl refl demo_oom_victim], simp_all add: demo_oom_env_def
      demo_oom_slot_def event_size kerno_consts, simp add: eval_nat_numeral)

end
